(* ===== verification/JsString.thy ===== *)
theory JsString
  imports Main "HOL-Library.Word"
begin

unbundle bit_operations_syntax

text \<open>
  JavaScript strings and the string operations the extension uses.

  A JavaScript string is a sequence of UTF-16 code units; \<open>length\<close>, \<open>slice\<close>,
  \<open>charCodeAt\<close> and every bound of the program count code units, while the byte
  bounds (\<open>Buffer.byteLength\<close>) count the UTF-8 encoding.  So a string is a list
  of 16-bit words here, and not a list of Isabelle's 8-bit characters.  The
  literal of an ASCII text is \<open>js ''text''\<close>.

  The theory also declares the collections that the component theories extend:
  \<open>cap_simps\<close> (the numeric bounds of the sources), \<open>bound_intros\<close> (facts of the
  form "the result is within its bound") and \<open>frame_simps\<close> (what a step leaves
  alone).
\<close>

named_theorems cap_simps "unfold the named bounds of the sources"
named_theorems bound_intros "the result of an operation is within its bound"
named_theorems frame_simps "what a step leaves unchanged"

section \<open>Code units and literals\<close>

type_synonym cunit = "16 word"
type_synonym jsstr = "cunit list"

definition js :: "string \<Rightarrow> jsstr" where
  "js s = map of_char s"

lemma of_char_cunit_eq_iff [simp]: "(of_char c :: cunit) = of_char d \<longleftrightarrow> c = d"
proof
  assume eq: "(of_char c :: cunit) = of_char d"
  have "(of_char e :: nat) < 65536" for e :: char
    by (rule less_trans [OF nat_of_char_less_256]) simp
  then have "unat (of_nat (of_char e) :: cunit) = of_char e" for e :: char
    by (simp add: unat_of_nat take_bit_eq_mod)
  moreover have "(of_nat (of_char c) :: cunit) = of_nat (of_char d)"
    using eq by (simp only: of_nat_of_char)
  ultimately have "(of_char c :: nat) = of_char d" by metis
  then show "c = d" by simp
qed simp

lemma js_eq_iff [simp]: "js s = js t \<longleftrightarrow> s = t"
  by (auto simp: js_def list_eq_iff_nth_eq)

lemma length_js [simp]: "length (js s) = length s"
  by (simp add: js_def)

lemma js_Nil [simp]: "js [] = []"
  by (simp add: js_def)

lemma js_eq_Nil_iff [simp]: "js s = [] \<longleftrightarrow> s = []" "[] = js s \<longleftrightarrow> s = []"
  by (auto simp: js_def)

lemma js_append: "js (s @ t) = js s @ js t"
  by (simp add: js_def)

text \<open>The horizontal ellipsis U+2026 that marks every clipped text, and friends.\<close>

definition ellipsis :: jsstr where
  "ellipsis = [0x2026]"

lemma length_ellipsis [simp]: "length ellipsis = 1"
  by (simp add: ellipsis_def)

section \<open>String operations\<close>

text \<open>White space and line terminators, as \<open>String.prototype.trim\<close> removes them.\<close>

definition js_ws :: "cunit list" where
  "js_ws = [9, 10, 11, 12, 13, 32, 160, 0x1680, 0x2000, 0x2001, 0x2002, 0x2003, 0x2004,
     0x2005, 0x2006, 0x2007, 0x2008, 0x2009, 0x200A, 0x2028, 0x2029, 0x202F, 0x205F,
     0x3000, 0xFEFF]"

definition is_ws :: "cunit \<Rightarrow> bool" where
  "is_ws c = List.member js_ws c"

definition trim :: "jsstr \<Rightarrow> jsstr" where
  "trim s = rev (dropWhile is_ws (rev (dropWhile is_ws s)))"

text \<open>
  \<open>toLowerCase\<close>.  The program compares every lowered text with ASCII literals
  only.  The two non-ASCII letters whose lower case contains ASCII (the Kelvin
  sign and the dotted capital I) are mapped as Unicode maps them; the other
  non-ASCII letters keep a non-ASCII image, so they are left as they are.
\<close>

definition lower_unit :: "cunit \<Rightarrow> jsstr" where
  "lower_unit c =
     (if 65 \<le> c \<and> c \<le> 90 then [c + 32]
      else if c = 0x212A then [107]
      else if c = 0x130 then [105, 0x307]
      else [c])"

definition to_lower :: "jsstr \<Rightarrow> jsstr" where
  "to_lower s = concat (map lower_unit s)"

definition starts_with :: "jsstr \<Rightarrow> jsstr \<Rightarrow> bool" where
  "starts_with p s = (take (length p) s = p)"

definition ends_with :: "jsstr \<Rightarrow> jsstr \<Rightarrow> bool" where
  "ends_with p s = (length p \<le> length s \<and> drop (length s - length p) s = p)"

text \<open>\<open>s.split(sep)\<close> for a separator class of single code units; never empty.\<close>

fun split_by :: "(cunit \<Rightarrow> bool) \<Rightarrow> jsstr \<Rightarrow> jsstr list" where
  "split_by p [] = [[]]"
| "split_by p (c # cs) =
     (if p c then [] # split_by p cs
      else (case split_by p cs of [] \<Rightarrow> [[c]] | w # ws \<Rightarrow> (c # w) # ws))"

fun join :: "jsstr \<Rightarrow> jsstr list \<Rightarrow> jsstr" where
  "join sep [] = []"
| "join sep [s] = s"
| "join sep (s # t # ss) = s @ sep @ join sep (t # ss)"

text \<open>
  Text clipped at \<open>n\<close> code units and marked: the idiom
  \<open>value.length > n ? value.slice(0, n) + '\<dots>' : value\<close>.
\<close>

definition clip :: "nat \<Rightarrow> jsstr \<Rightarrow> jsstr" where
  "clip n s = (if length s > n then take n s @ ellipsis else s)"

lemma clip_id: "length s \<le> n \<Longrightarrow> clip n s = s"
  by (simp add: clip_def)

lemma length_clip [bound_intros]: "length (clip n s) \<le> Suc n"
  by (simp add: clip_def)

lemma take_clip: "take n (clip n s) = take n s"
  by (simp add: clip_def)

text \<open>The number of bytes of the UTF-8 encoding (\<open>Buffer.byteLength\<close>): a surrogate
  pair is four bytes, a lone surrogate is replaced by U+FFFD, three bytes.\<close>

definition is_high :: "cunit \<Rightarrow> bool" where
  "is_high c = (0xD800 \<le> c \<and> c \<le> 0xDBFF)"

definition is_low :: "cunit \<Rightarrow> bool" where
  "is_low c = (0xDC00 \<le> c \<and> c \<le> 0xDFFF)"

definition unit_bytes :: "cunit \<Rightarrow> nat" where
  "unit_bytes c = (if c < 0x80 then 1 else if c < 0x800 then 2 else 3)"

fun utf8_length :: "jsstr \<Rightarrow> nat" where
  "utf8_length [] = 0"
| "utf8_length [c] = unit_bytes c"
| "utf8_length (c # d # cs) =
     (if is_high c \<and> is_low d then 4 + utf8_length cs
      else unit_bytes c + utf8_length (d # cs))"

lemma unit_bytes_bounds: "1 \<le> unit_bytes c" "unit_bytes c \<le> 3"
  by (simp_all add: unit_bytes_def)

lemma length_le_utf8_length: "length s \<le> utf8_length s"
proof (induction s rule: utf8_length.induct)
  case (3 c d cs)
  then show ?case
    using unit_bytes_bounds(1) [of c] by (cases "is_high c \<and> is_low d") auto
qed (use unit_bytes_bounds in auto)

lemma utf8_length_le: "utf8_length s \<le> 3 * length s"
proof (induction s rule: utf8_length.induct)
  case (3 c d cs)
  then show ?case
    using unit_bytes_bounds(2) [of c] by (cases "is_high c \<and> is_low d") auto
qed (use unit_bytes_bounds in auto)

text \<open>Decimal numerals of the non-negative integers, and the integers.\<close>

definition digit_unit :: "int \<Rightarrow> cunit" where
  "digit_unit d = of_int (48 + d)"

function decimal :: "int \<Rightarrow> jsstr" where
  "decimal n = (if n < 10 then [digit_unit n] else decimal (n div 10) @ [digit_unit (n mod 10)])"
  by pat_completeness auto
termination
  by (relation "measure nat") auto

declare decimal.simps [simp del]

definition decimal_int :: "int \<Rightarrow> jsstr" where
  "decimal_int i = (if i < 0 then 45 # decimal (- i) else decimal i)"

definition decimal_nat :: "nat \<Rightarrow> jsstr" where
  "decimal_nat n = decimal (int n)"

definition is_digit :: "cunit \<Rightarrow> bool" where
  "is_digit c = (48 \<le> c \<and> c \<le> 57)"

fun digits_value :: "int \<Rightarrow> jsstr \<Rightarrow> int" where
  "digits_value acc [] = acc"
| "digits_value acc (c # cs) = digits_value (10 * acc + (uint c - 48)) cs"

lemma digits_value_append:
  "digits_value acc (s @ t) = digits_value (digits_value acc s) t"
  by (induction s arbitrary: acc) auto

lemma uint_digit_unit: "0 \<le> d \<Longrightarrow> d < 10 \<Longrightarrow> uint (digit_unit d) = 48 + d"
  unfolding digit_unit_def uint_word_of_int_eq take_bit_eq_mod by simp

lemma is_digit_digit_unit: "0 \<le> d \<Longrightarrow> d < 10 \<Longrightarrow> is_digit (digit_unit d)"
  using uint_digit_unit [of d] by (simp add: is_digit_def word_le_def)

lemma decimal_digits: "0 \<le> n \<Longrightarrow> \<forall>c \<in> set (decimal n). is_digit c"
proof (induction n rule: decimal.induct)
  case (1 n)
  then show ?case
    by (cases "n < 10") (auto simp: decimal.simps [of n] is_digit_digit_unit)
qed

lemma decimal_not_Nil [simp]: "decimal n \<noteq> []"
  by (subst decimal.simps) simp

lemma digits_value_decimal: "0 \<le> n \<Longrightarrow> digits_value 0 (decimal n) = n"
proof (induction n rule: decimal.induct)
  case (1 n)
  show ?case
  proof (cases "n < 10")
    case True
    with 1 show ?thesis by (simp add: decimal.simps [of n] uint_digit_unit)
  next
    case False
    with 1 have "digits_value 0 (decimal (n div 10)) = n div 10" by simp
    with False 1 show ?thesis
      by (simp add: decimal.simps [of n] digits_value_append uint_digit_unit)
  qed
qed

lemma decimal_inject: "0 \<le> m \<Longrightarrow> 0 \<le> n \<Longrightarrow> decimal m = decimal n \<longleftrightarrow> m = n"
  by (metis digits_value_decimal)

lemma decimal_nat_inject [simp]: "decimal_nat m = decimal_nat n \<longleftrightarrow> m = n"
  by (simp add: decimal_nat_def decimal_inject)

lemma decimal_nat_not_Nil [simp]: "decimal_nat n \<noteq> []"
  by (simp add: decimal_nat_def)

section \<open>Facts about trimming, splitting and joining\<close>

lemma dropWhile_idem: "dropWhile p (dropWhile p s) = dropWhile p s"
  by (induction s) auto

lemma length_dropWhile_le': "length (dropWhile p s) \<le> length s"
  by (induction s) auto

lemma length_trim [bound_intros]: "length (trim s) \<le> length s"
  unfolding trim_def length_rev
  by (metis length_dropWhile_le' length_rev order_trans)

lemma hd_dropWhile_not: "dropWhile p s \<noteq> [] \<Longrightarrow> \<not> p (hd (dropWhile p s))"
  by (induction s) auto

lemma dropWhile_fixed: "s = [] \<or> \<not> p (hd s) \<Longrightarrow> dropWhile p s = s"
  by (cases s) auto

lemma hd_rev_dropWhile_rev:
  assumes "rev (dropWhile p (rev s)) \<noteq> []"
  shows "hd (rev (dropWhile p (rev s))) = hd s"
proof -
  let ?d = "dropWhile p (rev s)"
  have "rev s = takeWhile p (rev s) @ ?d" by simp
  then have "s = rev ?d @ rev (takeWhile p (rev s))"
    by (metis rev_append rev_rev_ident)
  with assms show ?thesis by (metis hd_append2)
qed

lemma trim_idem [simp]: "trim (trim s) = trim s"
proof -
  let ?a = "dropWhile is_ws s"
  let ?b = "rev (dropWhile is_ws (rev ?a))"
  have "?b = [] \<or> \<not> is_ws (hd ?b)"
  proof (cases "?b = []")
    case False
    then have "hd ?b = hd ?a" by (rule hd_rev_dropWhile_rev)
    moreover have "?a \<noteq> []" using False by fastforce
    ultimately show ?thesis using hd_dropWhile_not by metis
  qed simp
  then have "dropWhile is_ws ?b = ?b" by (rule dropWhile_fixed)
  then show ?thesis by (simp add: trim_def dropWhile_idem)
qed

lemma trim_empty [simp]: "trim [] = []"
  by (simp add: trim_def)

lemma split_by_not_Nil [simp]: "split_by p s \<noteq> []"
  by (cases s) (auto split: list.split)

lemma split_by_no_sep: "w \<in> set (split_by p s) \<Longrightarrow> c \<in> set w \<Longrightarrow> \<not> p c"
proof (induction s arbitrary: w)
  case (Cons a s)
  then show ?case by (cases "split_by p s") (fastforce split: if_splits)+
qed simp

lemma starts_with_append [simp]: "starts_with p (p @ s)"
  by (simp add: starts_with_def)

lemma starts_withD: "starts_with p s \<Longrightarrow> s = p @ drop (length p) s"
  unfolding starts_with_def by (metis append_take_drop_id)

text \<open>A part of a text never has more bytes than the whole.\<close>

lemma low_not_high: "is_low d \<Longrightarrow> \<not> is_high d"
proof
  assume "is_low d" and "is_high d"
  then have "(0xDC00 :: cunit) \<le> 0xDBFF"
    unfolding is_low_def is_high_def by (meson order_trans)
  then show False by simp
qed

lemma utf8_length_low: "is_low d \<Longrightarrow> utf8_length (d # cs) = unit_bytes d + utf8_length cs"
  by (cases cs) (auto dest: low_not_high)

lemma utf8_length_Cons_le: "utf8_length cs \<le> utf8_length (c # cs)"
proof (cases cs)
  case (Cons d ds)
  show ?thesis
    using unit_bytes_bounds(2) [of d] by (auto simp: Cons utf8_length_low)
qed simp

lemma utf8_length_drop: "utf8_length (drop n s) \<le> utf8_length s"
proof (induction n arbitrary: s)
  case (Suc n)
  then show ?case using utf8_length_Cons_le by (cases s) (auto intro: order_trans)
qed simp

lemma utf8_length_prefix: "utf8_length s \<le> utf8_length (s @ t)"
proof (induction s rule: utf8_length.induct)
  case (2 c)
  show ?case using unit_bytes_bounds(2) [of c] by (cases t) auto
qed auto

lemma utf8_length_trim: "utf8_length (trim s) \<le> utf8_length s"
proof -
  let ?u = "dropWhile is_ws s"
  have "\<exists>v. ?u = trim s @ v"
    by (rule exI [of _ "rev (takeWhile is_ws (rev ?u))"])
      (simp add: trim_def flip: rev_append)
  then have "utf8_length (trim s) \<le> utf8_length ?u" using utf8_length_prefix by metis
  also have "\<dots> \<le> utf8_length s" by (simp add: dropWhile_eq_drop utf8_length_drop)
  finally show ?thesis .
qed

end
