(* ===== verification/JsNumber.thy ===== *)
theory JsNumber
  imports JsString Complex_Main "HOL-Library.Log_Nat"
begin

text \<open>
  JavaScript numbers.

  A number is an IEEE double: a finite value, kept here as the rational it
  denotes, an infinity or NaN.  (The sign of zero is not kept: no operation of
  the program can tell the two zeros apart.)  \<open>round_double\<close> is the
  round-to-nearest-even of ECMAScript, \<open>number_of_string\<close> is the \<open>Number(text)\<close>
  conversion the event stream applies to frame ids, and \<open>number_string\<close> is
  \<open>String(number)\<close>, the shortest decimal text that reads back as the number.
\<close>

section \<open>Values\<close>

datatype jsnum = Fin rat | PosInf | NegInf | NaN

definition is_integer :: "jsnum \<Rightarrow> bool" where
  "is_integer x = (case x of Fin q \<Rightarrow> of_int \<lfloor>q\<rfloor> = q | _ \<Rightarrow> False)"

definition int_of_num :: "jsnum \<Rightarrow> int" where
  "int_of_num x = (case x of Fin q \<Rightarrow> \<lfloor>q\<rfloor> | _ \<Rightarrow> 0)"

definition num_of_int :: "int \<Rightarrow> jsnum" where
  "num_of_int i = Fin (of_int i)"

definition max_safe_integer :: int where
  "max_safe_integer = 9007199254740991"

definition is_safe_integer :: "jsnum \<Rightarrow> bool" where
  "is_safe_integer x = (is_integer x \<and> \<bar>int_of_num x\<bar> \<le> max_safe_integer)"

text \<open>The integer a number denotes, if it is one: \<open>Number.isInteger(x)\<close> and \<open>x\<close>.\<close>

definition integer_value :: "jsnum \<Rightarrow> int option" where
  "integer_value x = (if is_integer x then Some (int_of_num x) else None)"

lemma is_integer_num_of_int [simp]: "is_integer (num_of_int i)"
  by (simp add: is_integer_def num_of_int_def)

lemma int_of_num_of_int [simp]: "int_of_num (num_of_int i) = i"
  by (simp add: int_of_num_def num_of_int_def)

lemma integer_value_num_of_int [simp]: "integer_value (num_of_int i) = Some i"
  by (simp add: integer_value_def)

lemma integer_value_eq_Some_iff: "integer_value x = Some i \<longleftrightarrow> x = num_of_int i"
  by (cases x) (auto simp: integer_value_def is_integer_def int_of_num_def num_of_int_def)

lemma num_of_int_inject [simp]: "num_of_int i = num_of_int j \<longleftrightarrow> i = j"
  by (simp add: num_of_int_def)

section \<open>Rounding to a double\<close>

definition pow2 :: "int \<Rightarrow> rat" where
  "pow2 e = (if e \<ge> 0 then 2 ^ nat e else 1 / 2 ^ nat (- e))"

text \<open>\<open>ilog2 q\<close> is the integer part of the binary logarithm of a positive \<open>q\<close>.\<close>

definition ilog2 :: "rat \<Rightarrow> int" where
  "ilog2 q =
     (let (a, b) = quotient_of q; d = bitlen a - bitlen b
      in if pow2 d \<le> q then d else d - 1)"

definition round_half_even :: "rat \<Rightarrow> int" where
  "round_half_even q =
     (let f = \<lfloor>q\<rfloor>; r = q - of_int f
      in if r < 1 / 2 then f
         else if r > 1 / 2 then f + 1
         else if even f then f else f + 1)"

text \<open>The exponent of the unit in the last place of a positive value.\<close>

definition ulp_exp :: "rat \<Rightarrow> int" where
  "ulp_exp q = max (- 1074) (ilog2 q - 52)"

text \<open>The integers up to \<open>2 ^ 53\<close> are doubles and round to themselves.\<close>

definition round_double :: "rat \<Rightarrow> jsnum" where
  "round_double q =
     (if of_int \<lfloor>q\<rfloor> = q \<and> \<bar>q\<bar> \<le> 9007199254740992 then Fin q
      else let a = \<bar>q\<bar>; e = ulp_exp a; r = of_int (round_half_even (a / pow2 e)) * pow2 e
        in if r \<ge> pow2 1024 then (if q > 0 then PosInf else NegInf)
           else if q > 0 then Fin r else Fin (- r))"

section \<open>Text to number\<close>

definition exp10 :: "int \<Rightarrow> rat" where
  "exp10 e = (if e \<ge> 0 then 10 ^ nat e else 1 / 10 ^ nat (- e))"

definition digits_prefix :: "jsstr \<Rightarrow> jsstr \<times> jsstr" where
  "digits_prefix s = (takeWhile is_digit s, dropWhile is_digit s)"

text \<open>An exponent part \<open>e[+-]digits\<close>; no exponent part is the exponent 0.\<close>

definition exponent_part :: "jsstr \<Rightarrow> (int \<times> jsstr) option" where
  "exponent_part s =
     (case s of
        c # r \<Rightarrow>
          if c = 101 \<or> c = 69 then
            (let (sg, ds) = (case r of d # r' \<Rightarrow> if d = 43 then (1, r') else if d = 45 then (- 1, r') else (1, r)
                             | [] \<Rightarrow> (1, []));
                 (e, rest) = digits_prefix ds
             in if e = [] then None else Some (sg * digits_value 0 e, rest))
          else Some (0, s)
      | [] \<Rightarrow> Some (0, []))"

text \<open>An unsigned decimal literal (\<open>StrUnsignedDecimalLiteral\<close>), all of the text.\<close>

definition decimal_literal :: "jsstr \<Rightarrow> rat option" where
  "decimal_literal s =
     (let (ip, r) = digits_prefix s;
          (fp, r') = (case r of c # r2 \<Rightarrow> if c = 46 then digits_prefix r2 else ([], r) | [] \<Rightarrow> ([], []))
      in if ip = [] \<and> fp = [] then None
         else (case exponent_part r' of
             Some (e, []) \<Rightarrow>
               Some (of_int (digits_value 0 (ip @ fp)) * exp10 (e - int (length fp)))
           | _ \<Rightarrow> None))"

definition radix_digit :: "cunit \<Rightarrow> int option" where
  "radix_digit c =
     (if 48 \<le> c \<and> c \<le> 57 then Some (uint c - 48)
      else if 97 \<le> c \<and> c \<le> 102 then Some (uint c - 87)
      else if 65 \<le> c \<and> c \<le> 70 then Some (uint c - 55)
      else None)"

fun radix_literal :: "int \<Rightarrow> int \<Rightarrow> jsstr \<Rightarrow> int option" where
  "radix_literal b acc [] = Some acc"
| "radix_literal b acc (c # cs) =
     (case radix_digit c of
        Some d \<Rightarrow> if d < b then radix_literal b (b * acc + d) cs else None
      | None \<Rightarrow> None)"

definition radix_of_prefix :: "jsstr \<Rightarrow> int option" where
  "radix_of_prefix s =
     (case s of
        z # x # d # r \<Rightarrow>
          if z \<noteq> 48 then None
          else if x = 120 \<or> x = 88 then Some 16
          else if x = 111 \<or> x = 79 then Some 8
          else if x = 98 \<or> x = 66 then Some 2
          else None
      | _ \<Rightarrow> None)"

definition signed_literal :: "jsstr \<Rightarrow> jsnum" where
  "signed_literal s =
     (let (neg, u) = (case s of c # r \<Rightarrow> if c = 45 then (True, r) else if c = 43 then (False, r) else (False, s)
                      | [] \<Rightarrow> (False, []))
      in if u = js ''Infinity'' then (if neg then NegInf else PosInf)
         else (case decimal_literal u of
             Some q \<Rightarrow> round_double (if neg then - q else q)
           | None \<Rightarrow> NaN))"

definition number_of_string :: "jsstr \<Rightarrow> jsnum" where
  "number_of_string text =
     (let s = trim text
      in if s = [] then Fin 0
         else (case radix_of_prefix s of
             Some b \<Rightarrow> (case radix_literal b 0 (drop 2 s) of
                 Some n \<Rightarrow> round_double (of_int n) | None \<Rightarrow> NaN)
           | None \<Rightarrow> signed_literal s))"

section \<open>Number to text\<close>

text \<open>
  The shortest digits: the least number \<open>k\<close> of digits for which some
  \<open>s * 10 ^ (n - k)\<close> rounds to the value, and the closest such \<open>s\<close>.  The values
  that round to \<open>v\<close> are the interval between the midpoints to its neighbours.
\<close>

definition rounds_to :: "rat \<Rightarrow> rat \<Rightarrow> bool" where
  "rounds_to v w =
     (let e = ulp_exp v; m = \<lfloor>v / pow2 e\<rfloor>; hi = pow2 e / 2;
          lo = (if m = 2 ^ 52 \<and> e > - 1074 then pow2 e / 4 else pow2 e / 2)
      in if even m then v - lo \<le> w \<and> w \<le> v + hi else v - lo < w \<and> w < v + hi)"

fun leading_scale :: "nat \<Rightarrow> rat \<Rightarrow> int" where
  "leading_scale 0 v = 0"
| "leading_scale (Suc fuel) v = (if v * 10 \<ge> 1 then 0 else leading_scale fuel (v * 10) - 1)"

text \<open>\<open>point_pos v\<close> is the \<open>n\<close> with \<open>10 ^ (n - 1) \<le> v < 10 ^ n\<close>; the smallest double
  has 323 zeros after the point, so 400 steps are enough.\<close>

definition point_pos :: "rat \<Rightarrow> int" where
  "point_pos v =
     (if v \<ge> 1 then int (length (decimal \<lfloor>v\<rfloor>)) else leading_scale 400 v)"

fun shortest_from :: "nat list \<Rightarrow> rat \<Rightarrow> int \<Rightarrow> int \<times> int" where
  "shortest_from [] v n = (\<lfloor>v\<rfloor>, n)"
| "shortest_from (k # ks) v n =
     (let u = exp10 (n - int k); s = \<lfloor>v / u\<rfloor>;
          dn = rounds_to v (of_int s * u); up = rounds_to v (of_int (s + 1) * u);
          dd = v - of_int s * u; du = of_int (s + 1) * u - v
      in if dn \<and> (\<not> up \<or> dd < du \<or> (dd = du \<and> even s)) then (s, n)
         else if up then (s + 1, if s + 1 = 10 ^ k then n + 1 else n)
         else shortest_from ks v n)"

definition strip_zeros :: "jsstr \<Rightarrow> jsstr" where
  "strip_zeros ds = rev (dropWhile (\<lambda>c. c = 48) (rev ds))"

definition positive_string :: "rat \<Rightarrow> jsstr" where
  "positive_string v =
     (let (s, n) = shortest_from [1..<18] v (point_pos v);
          ds = strip_zeros (decimal s); k = int (length ds)
      in if k \<le> n \<and> n \<le> 21 then ds @ replicate (nat (n - k)) 48
         else if 0 < n \<and> n \<le> 21 then take (nat n) ds @ [46] @ drop (nat n) ds
         else if - 6 < n \<and> n \<le> 0 then [48, 46] @ replicate (nat (- n)) 48 @ ds
         else (case ds of [] \<Rightarrow> []
             | d # r \<Rightarrow> d # (if r = [] then [] else 46 # r) @ [101]
                 @ (if n - 1 < 0 then [45] else [43]) @ decimal \<bar>n - 1\<bar>))"

definition number_string :: "jsnum \<Rightarrow> jsstr" where
  "number_string x =
     (case x of
        NaN \<Rightarrow> js ''NaN'' | PosInf \<Rightarrow> js ''Infinity'' | NegInf \<Rightarrow> js ''-Infinity''
      | Fin q \<Rightarrow>
          if is_safe_integer x then decimal_int \<lfloor>q\<rfloor>
          else if q < 0 then 45 # positive_string (- q)
          else positive_string q)"

definition int_string :: "int \<Rightarrow> jsstr" where
  "int_string i = number_string (num_of_int i)"

lemma int_string_safe: "\<bar>i\<bar> \<le> max_safe_integer \<Longrightarrow> int_string i = decimal_int i"
  by (simp add: int_string_def number_string_def num_of_int_def is_safe_integer_def
      is_integer_def int_of_num_def)

end
