(* ===== verification/JsValue.thy ===== *)
theory JsValue
  imports JsNumber
begin

text \<open>
  JavaScript values as the program sees them at its boundaries: what
  \<open>JSON.parse\<close> returns and what a webview message carries (both \<open>Json\<close> and
  \<open>unknown\<close> of the sources), with \<open>undefined\<close> as a value of its own.

  An object is the list of its own enumerable properties in the order
  \<open>Object.keys\<close> gives them: array-index keys in ascending order, then the
  others in the order of insertion.  \<open>jdefine\<close> is the definition of an own
  property (object literals, spread, \<open>JSON.parse\<close>); \<open>jassign\<close> is \<open>o[k] = v\<close>,
  which for the key \<open>__proto__\<close> sets the prototype and creates no property.
  Functions, symbols and cyclic objects never reach the modelled code.
\<close>

section \<open>Values and properties\<close>

datatype jsval =
    JUndef
  | JNull
  | JBool bool
  | JNum jsnum
  | JStr jsstr
  | JArr "jsval list"
  | JObj "(jsstr \<times> jsval) list"

type_synonym 'v props = "(jsstr \<times> 'v) list"

definition jget :: "jsval props \<Rightarrow> jsstr \<Rightarrow> jsval" where
  "jget ps k = (case map_of ps k of None \<Rightarrow> JUndef | Some v \<Rightarrow> v)"

text \<open>An array index is a canonical decimal numeral below \<open>2 ^ 32 - 1\<close>.\<close>

definition array_index :: "jsstr \<Rightarrow> int option" where
  "array_index k =
     (if k \<noteq> [] \<and> length k \<le> 10 \<and> list_all is_digit k
         \<and> (k = [48] \<or> hd k \<noteq> 48) \<and> digits_value 0 k < 4294967295
      then Some (digits_value 0 k) else None)"

text \<open>\<open>key_before k k'\<close>: a new key \<open>k\<close> is placed before the existing key \<open>k'\<close>.\<close>

definition key_before :: "jsstr \<Rightarrow> jsstr \<Rightarrow> bool" where
  "key_before k k' =
     (case array_index k of None \<Rightarrow> False
      | Some i \<Rightarrow> (case array_index k' of None \<Rightarrow> True | Some j \<Rightarrow> i < j))"

fun jinsert :: "'v props \<Rightarrow> jsstr \<Rightarrow> 'v \<Rightarrow> 'v props" where
  "jinsert [] k v = [(k, v)]"
| "jinsert ((k', v') # ps) k v =
     (if key_before k k' then (k, v) # (k', v') # ps else (k', v') # jinsert ps k v)"

fun jreplace :: "'v props \<Rightarrow> jsstr \<Rightarrow> 'v \<Rightarrow> 'v props" where
  "jreplace [] k v = []"
| "jreplace ((k', v') # ps) k v =
     (if k' = k then (k, v) # ps else (k', v') # jreplace ps k v)"

definition jdefine :: "'v props \<Rightarrow> jsstr \<Rightarrow> 'v \<Rightarrow> 'v props" where
  "jdefine ps k v = (if k \<in> set (map fst ps) then jreplace ps k v else jinsert ps k v)"

definition jassign :: "'v props \<Rightarrow> jsstr \<Rightarrow> 'v \<Rightarrow> 'v props" where
  "jassign ps k v = (if k = js ''__proto__'' then ps else jdefine ps k v)"

definition jdelete :: "'v props \<Rightarrow> jsstr \<Rightarrow> 'v props" where
  "jdelete ps k = filter (\<lambda>(k', v). k' \<noteq> k) ps"

definition jkeys :: "'v props \<Rightarrow> jsstr list" where
  "jkeys ps = map fst ps"

lemma jkeys_jreplace [simp]: "map fst (jreplace ps k v) = map fst ps"
  by (induction ps k v rule: jreplace.induct) auto

lemma length_jreplace [simp]: "length (jreplace ps k v) = length ps"
  by (induction ps k v rule: jreplace.induct) auto

lemma set_jinsert: "set (jinsert ps k v) = insert (k, v) (set ps)"
  by (induction ps k v rule: jinsert.induct) auto

lemma length_jinsert [simp]: "length (jinsert ps k v) = Suc (length ps)"
  by (induction ps k v rule: jinsert.induct) auto

lemma distinct_jinsert:
  "distinct (map fst ps) \<Longrightarrow> k \<notin> fst ` set ps \<Longrightarrow> distinct (map fst (jinsert ps k v))"
  by (induction ps k v rule: jinsert.induct) (auto simp: set_jinsert)

lemma distinct_jdefine: "distinct (map fst ps) \<Longrightarrow> distinct (map fst (jdefine ps k v))"
  by (simp add: jdefine_def distinct_jinsert)

lemma map_of_jinsert:
  "k \<notin> fst ` set ps \<Longrightarrow> map_of (jinsert ps k v) = (map_of ps)(k \<mapsto> v)"
  by (induction ps k v rule: jinsert.induct) (auto simp: fun_eq_iff)

lemma map_of_jreplace:
  "k \<in> fst ` set ps \<Longrightarrow> map_of (jreplace ps k v) = (map_of ps)(k \<mapsto> v)"
  by (induction ps k v rule: jreplace.induct) fastforce+

lemma map_of_jdefine [simp]: "map_of (jdefine ps k v) = (map_of ps)(k \<mapsto> v)"
  by (auto simp: jdefine_def map_of_jinsert map_of_jreplace)

lemma set_jkeys_jdefine: "set (jkeys (jdefine ps k v)) = insert k (set (jkeys ps))"
proof (cases "k \<in> set (map fst ps)")
  case True
  then show ?thesis by (simp only: jdefine_def jkeys_def if_True jkeys_jreplace) auto
next
  case False
  then show ?thesis by (simp add: jdefine_def jkeys_def set_jinsert)
qed

lemma length_jdefine:
  "length (jdefine ps k v) = (if k \<in> set (jkeys ps) then length ps else Suc (length ps))"
  by (simp add: jdefine_def jkeys_def)

lemma map_of_jdelete: "map_of (jdelete ps k) = (map_of ps)(k := None)"
  by (induction ps) (auto simp: jdelete_def fun_eq_iff)

section \<open>Type tests\<close>

definition is_record :: "jsval \<Rightarrow> bool" where
  "is_record v = (case v of JObj _ \<Rightarrow> True | _ \<Rightarrow> False)"

definition nullish :: "jsval \<Rightarrow> bool" where
  "nullish v = (v = JUndef \<or> v = JNull)"

text \<open>\<open>v ?? w\<close>\<close>

definition coalesce :: "jsval \<Rightarrow> jsval \<Rightarrow> jsval" where
  "coalesce v w = (if nullish v then w else v)"

section \<open>Serialisation: JSON.stringify\<close>

definition hex_unit :: "int \<Rightarrow> cunit" where
  "hex_unit d = (if d < 10 then of_int (48 + d) else of_int (87 + d))"

definition hex4 :: "cunit \<Rightarrow> jsstr" where
  "hex4 c = (let n = uint c in
     [hex_unit (n div 4096), hex_unit (n div 256 mod 16), hex_unit (n div 16 mod 16), hex_unit (n mod 16)])"

definition escape_unit :: "cunit \<Rightarrow> jsstr" where
  "escape_unit c =
     (if c = 34 then [92, 34] else if c = 92 then [92, 92]
      else if c = 8 then [92, 98] else if c = 12 then [92, 102]
      else if c = 10 then [92, 110] else if c = 13 then [92, 114]
      else if c = 9 then [92, 116]
      else if c < 32 then [92, 117] @ hex4 c
      else [c])"

fun escape_units :: "jsstr \<Rightarrow> jsstr" where
  "escape_units [] = []"
| "escape_units [c] = (if is_high c \<or> is_low c then [92, 117] @ hex4 c else escape_unit c)"
| "escape_units (c # d # cs) =
     (if is_high c \<and> is_low d then c # d # escape_units cs
      else if is_high c \<or> is_low c then [92, 117] @ hex4 c @ escape_units (d # cs)
      else escape_unit c @ escape_units (d # cs))"

definition quote :: "jsstr \<Rightarrow> jsstr" where
  "quote s = [34] @ escape_units s @ [34]"

lemma size_jobj_member [termination_simp]:
  "(k, v) \<in> set ps \<Longrightarrow> size v < Suc (size_list (size_prod (\<lambda>_. 0) size) ps)"
  by (induction ps) auto

fun stringify :: "jsval \<Rightarrow> jsstr option" where
  "stringify JUndef = None"
| "stringify JNull = Some (js ''null'')"
| "stringify (JBool b) = Some (if b then js ''true'' else js ''false'')"
| "stringify (JNum x) = Some (case x of Fin q \<Rightarrow> number_string x | _ \<Rightarrow> js ''null'')"
| "stringify (JStr s) = Some (quote s)"
| "stringify (JArr vs) =
     Some ([91] @ join [44]
       (map (\<lambda>v. case stringify v of None \<Rightarrow> js ''null'' | Some t \<Rightarrow> t) vs) @ [93])"
| "stringify (JObj ps) =
     Some ([123] @ join [44]
       (concat (map (\<lambda>(k, v). case stringify v of None \<Rightarrow> [] | Some t \<Rightarrow> [quote k @ [58] @ t]) ps))
       @ [125])"

text \<open>The serialised size of a value: \<open>undefined\<close> has no text and counts 0.\<close>

definition serialized_bytes :: "jsval \<Rightarrow> nat" where
  "serialized_bytes v = (case stringify v of None \<Rightarrow> 0 | Some t \<Rightarrow> utf8_length t)"

section \<open>Parsing: JSON.parse\<close>

definition is_json_ws :: "cunit \<Rightarrow> bool" where
  "is_json_ws c = (c = 32 \<or> c = 9 \<or> c = 10 \<or> c = 13)"

definition skip_ws :: "jsstr \<Rightarrow> jsstr" where
  "skip_ws s = dropWhile is_json_ws s"

definition hex4_value :: "jsstr \<Rightarrow> cunit option" where
  "hex4_value s = map_option of_int (if length s = 4 then radix_literal 16 0 s else None)"

definition simple_escape :: "cunit \<Rightarrow> cunit option" where
  "simple_escape c =
     map_of [(34, 34), (92, 92), (47, 47), (98, 8), (102, 12), (110, 10), (114, 13), (116, 9)] c"

text \<open>The rest of a string literal after its opening quote.\<close>

function parse_chars :: "jsstr \<Rightarrow> jsstr \<Rightarrow> (jsstr \<times> jsstr) option" where
  "parse_chars acc [] = None"
| "parse_chars acc (c # cs) =
     (if c = 34 then Some (rev acc, cs)
      else if c < 32 then None
      else if c = 92 then
        (case cs of
           [] \<Rightarrow> None
         | e # r \<Rightarrow>
             if e = 117 then
               (case hex4_value (take 4 r) of
                  None \<Rightarrow> None
                | Some u \<Rightarrow> parse_chars (u # acc) (drop 4 r))
             else (case simple_escape e of
                  None \<Rightarrow> None
                | Some u \<Rightarrow> parse_chars (u # acc) r))
      else parse_chars (c # acc) cs)"
  by pat_completeness auto
termination
  by (relation "measure (\<lambda>(acc, s). length s)") auto

text \<open>A number literal: \<open>-? (0 | [1-9] digits) (. digits)? (e[+-]? digits)?\<close>.\<close>

definition parse_number :: "jsstr \<Rightarrow> (jsnum \<times> jsstr) option" where
  "parse_number s =
     (let (neg, u) = (case s of c # r \<Rightarrow> if c = 45 then (True, r) else (False, s) | [] \<Rightarrow> (False, []));
          (ip, r) = (case u of c # u' \<Rightarrow> if c = 48 then ([c], u') else digits_prefix u | [] \<Rightarrow> ([], []))
      in if ip = [] then None
         else (let (fp, r') = (case r of c # r2 \<Rightarrow> if c = 46 then (Some (takeWhile is_digit r2), dropWhile is_digit r2)
                                 else (None, r) | [] \<Rightarrow> (None, []))
           in if fp = Some [] then None
              else (case exponent_part r' of
                  None \<Rightarrow> None
                | Some (e, rest) \<Rightarrow>
                    (let f = (case fp of None \<Rightarrow> [] | Some f \<Rightarrow> f);
                         q = of_int (digits_value 0 (ip @ f)) * exp10 (e - int (length f))
                     in Some (round_double (if neg then - q else q), rest)))))"

text \<open>
  The recursive descent, with fuel for the nesting: every two nested calls read at
  least one code unit, so a fuel of one more than twice the length of the text is
  enough: more fuel never changes the result (\<open>parse_value_fuel\<close> below).
\<close>

fun parse_value :: "nat \<Rightarrow> jsstr \<Rightarrow> (jsval \<times> jsstr) option"
  and parse_items :: "nat \<Rightarrow> jsval list \<Rightarrow> jsstr \<Rightarrow> (jsval \<times> jsstr) option"
  and parse_members :: "nat \<Rightarrow> jsval props \<Rightarrow> jsstr \<Rightarrow> (jsval \<times> jsstr) option" where
  "parse_value 0 s = None"
| "parse_value (Suc n) s =
     (case skip_ws s of
        [] \<Rightarrow> None
      | c # r \<Rightarrow>
          if c = 34 then map_option (\<lambda>(t, r'). (JStr t, r')) (parse_chars [] r)
          else if c = 91 then
            (case skip_ws r of
               [] \<Rightarrow> None
             | d # r' \<Rightarrow> if d = 93 then Some (JArr [], r') else parse_items n [] r)
          else if c = 123 then
            (case skip_ws r of
               [] \<Rightarrow> None
             | d # r' \<Rightarrow> if d = 125 then Some (JObj [], r') else parse_members n [] r)
          else if starts_with (js ''true'') (c # r) then Some (JBool True, drop 4 (c # r))
          else if starts_with (js ''false'') (c # r) then Some (JBool False, drop 5 (c # r))
          else if starts_with (js ''null'') (c # r) then Some (JNull, drop 4 (c # r))
          else map_option (\<lambda>(x, r'). (JNum x, r')) (parse_number (c # r)))"
| "parse_items 0 acc s = None"
| "parse_items (Suc n) acc s =
     (case parse_value n s of
        None \<Rightarrow> None
      | Some (v, r) \<Rightarrow>
          (case skip_ws r of
             [] \<Rightarrow> None
           | d # r' \<Rightarrow>
               if d = 44 then parse_items n (v # acc) r'
               else if d = 93 then Some (JArr (rev (v # acc)), r')
               else None))"
| "parse_members 0 acc s = None"
| "parse_members (Suc n) acc s =
     (case skip_ws s of
        [] \<Rightarrow> None
      | q # r \<Rightarrow>
          if q \<noteq> 34 then None
          else (case parse_chars [] r of
              None \<Rightarrow> None
            | Some (k, r1) \<Rightarrow>
                (case skip_ws r1 of
                   [] \<Rightarrow> None
                 | e # r2 \<Rightarrow>
                     if e \<noteq> 58 then None
                     else (case parse_value n r2 of
                         None \<Rightarrow> None
                       | Some (v, r3) \<Rightarrow>
                           (case skip_ws r3 of
                              [] \<Rightarrow> None
                            | d # r4 \<Rightarrow>
                                if d = 44 then parse_members n (jdefine acc k v) r4
                                else if d = 125 then Some (JObj (jdefine acc k v), r4)
                                else None)))))"

definition json_parse :: "jsstr \<Rightarrow> jsval option" where
  "json_parse s =
     (case parse_value (Suc (2 * length s)) s of
        None \<Rightarrow> None
      | Some (v, r) \<Rightarrow> if skip_ws r = [] then Some v else None)"

section \<open>Parsing reads forward, and the fuel is enough\<close>

lemma length_skip_ws: "length (skip_ws s) \<le> length s"
  by (simp add: skip_ws_def length_dropWhile_le)

lemma skip_ws_Cons: "skip_ws s = c # r \<Longrightarrow> length r < length s"
  using length_skip_ws [of s] by simp

lemma parse_chars_shorter: "parse_chars acc s = Some (t, r) \<Longrightarrow> length r < length s"
proof (induction acc s arbitrary: t r rule: parse_chars.induct)
  case (2 acc c cs)
  consider "c = 34" | "c < 32" "c \<noteq> 34" | "c = 92" | "c \<noteq> 34" "\<not> c < 32" "c \<noteq> 92" by blast
  then show ?case
  proof cases
    case 3
    then obtain e q where cs: "cs = e # q" using "2.prems" by (cases cs) auto
    have d: "length (drop 4 q) \<le> length q" by simp
    show ?thesis
    proof (cases "e = 117")
      case True
      then obtain u where u: "hex4_value (take 4 q) = Some u" and p: "parse_chars (u # acc) (drop 4 q) = Some (t, r)"
        using "2.prems" 3 cs by (auto split: option.splits)
      have "length r < length (drop 4 q)"
        using "2.IH"(1) [OF _ _ _ cs True u p] 3 by simp
      then show ?thesis using cs d by simp
    next
      case False
      then obtain u where u: "simple_escape e = Some u" and p: "parse_chars (u # acc) q = Some (t, r)"
        using "2.prems" 3 cs by (auto split: option.splits)
      have "length r < length q"
        using "2.IH"(2) [OF _ _ _ cs False u p] 3 by simp
      then show ?thesis using cs by simp
    qed
  next
    case 4
    then have "parse_chars (c # acc) cs = Some (t, r)" using "2.prems" by simp
    then show ?thesis using "2.IH"(3) [OF _ _ _ \<open>parse_chars (c # acc) cs = Some (t, r)\<close>] 4 by simp
  qed (use "2.prems" in simp_all)
qed simp

lemma length_dropWhile_less: "takeWhile P s \<noteq> [] \<Longrightarrow> length (dropWhile P s) < length s"
  by (cases s) (auto simp: less_Suc_eq_le length_dropWhile_le split: if_splits)

lemma exponent_part_shorter: "exponent_part s = Some (e, r) \<Longrightarrow> length r \<le> length s"
proof -
  assume e: "exponent_part s = Some (e, r)"
  have d: "length (dropWhile is_digit x) \<le> length x" for x by (rule length_dropWhile_le)
  show ?thesis
    using e d
    by (auto simp: exponent_part_def digits_prefix_def Let_def le_SucI
        split: list.splits if_splits prod.splits)
qed

lemma parse_number_shorter: "parse_number s = Some (x, r) \<Longrightarrow> length r < length s"
proof -
  assume p: "parse_number s = Some (x, r)"
  obtain neg u where nu: "(case s of c # r \<Rightarrow> if c = 45 then (True, r) else (False, s) | [] \<Rightarrow> (False, [])) = (neg, u)"
    by (cases "(case s of c # r \<Rightarrow> if c = 45 then (True, r) else (False, s) | [] \<Rightarrow> (False, []))")
  have u: "length u \<le> length s" using nu by (auto split: list.splits if_splits)
  obtain ip q where iq: "(case u of c # u' \<Rightarrow> if c = 48 then ([c], u') else digits_prefix u | [] \<Rightarrow> ([], [])) = (ip, q)"
    by (cases "(case u of c # u' \<Rightarrow> if c = 48 then ([c], u') else digits_prefix u | [] \<Rightarrow> ([], []))")
  have q: "length q < length u" if "ip \<noteq> []"
    using iq that length_dropWhile_less [of is_digit u]
    by (auto simp: digits_prefix_def split: list.splits if_splits)
  obtain fp q' where fq: "(case q of c # r2 \<Rightarrow> if c = 46 then (Some (takeWhile is_digit r2), dropWhile is_digit r2)
      else (None, q) | [] \<Rightarrow> (None, [])) = (fp, q')"
    by (cases "(case q of c # r2 \<Rightarrow> if c = 46 then (Some (takeWhile is_digit r2), dropWhile is_digit r2)
      else (None, q) | [] \<Rightarrow> (None, []))")
  have q': "length q' \<le> length q"
    using fq length_dropWhile_le [of is_digit "tl q"] by (auto split: list.splits if_splits)
  from p [unfolded parse_number_def nu Let_def prod.case iq fq] q q' u
  show ?thesis
    by (auto split: if_splits option.splits dest!: exponent_part_shorter)
qed

lemma parse_shorter:
  "parse_value n s = Some (v, r) \<Longrightarrow> length r < length s"
  "parse_items n vs s = Some (v, r) \<Longrightarrow> length r < length s"
  "parse_members n ps s = Some (v, r) \<Longrightarrow> length r < length s"
proof (induction n s and n vs s and n ps s arbitrary: v r and v r and v r
    rule: parse_value_parse_items_parse_members.induct)
  case (2 n s)
  obtain c t where ct: "skip_ws s = c # t"
    using 2(3) by (cases "skip_ws s") auto
  have *: "length t < length s" using skip_ws_Cons [OF ct] .
  have **: "length (c # t) \<le> length s" using * by simp
  have pn: "parse_number (c # t) = Some (x, r') \<Longrightarrow> length r' < length s" for x r'
    using parse_number_shorter ** by (meson less_le_trans)
  have pc: "parse_chars [] t = Some (x, r') \<Longrightarrow> length r' < length s" for x r'
    using parse_chars_shorter * by (meson less_trans)
  show ?case
    using 2(3) 2(1) [OF ct] 2(2) [OF ct] * **
    by (auto simp: ct split: if_splits list.splits dest!: pn pc skip_ws_Cons dest: less_trans)
next
  case (4 n acc s)
  obtain v1 r1 where 1: "parse_value n s = Some (v1, r1)" using 4(3) by (auto split: option.splits)
  obtain d r2 where 2: "skip_ws r1 = d # r2" using 4(3) 1 by (auto split: list.splits)
  have l: "length r2 < length s" using 4(1) [OF 1] skip_ws_Cons [OF 2] by simp
  show ?case
    using 4(3) l 4(2) [OF 1 refl 2] by (auto simp: 1 2 split: if_splits)
next
  case (6 n acc s)
  obtain r0 where 0: "skip_ws s = 34 # r0" using 6(3) by (auto split: list.splits if_splits)
  obtain k r1 where 1: "parse_chars [] r0 = Some (k, r1)" using 6(3) 0 by (auto split: option.splits)
  obtain r2 where 2: "skip_ws r1 = 58 # r2" using 6(3) 0 1 by (auto split: list.splits if_splits)
  obtain v1 r3 where 3: "parse_value n r2 = Some (v1, r3)" using 6(3) 0 1 2 by (auto split: option.splits)
  obtain d r4 where 4: "skip_ws r3 = d # r4" using 6(3) 0 1 2 3 by (auto split: list.splits)
  have "length r3 < length r2" using 6(1) [OF 0 _ 1 refl 2 _ 3] by simp
  then have l: "length r4 < length s"
    using skip_ws_Cons [OF 0] parse_chars_shorter [OF 1] skip_ws_Cons [OF 2] skip_ws_Cons [OF 4] by simp
  show ?case
    using 6(3) l 6(2) [OF 0 _ 1 refl 2 _ 3 refl 4] by (auto simp: 0 1 2 3 4 split: if_splits)
qed simp_all

lemma parse_fuel:
  "2 * length s + 1 \<le> n \<Longrightarrow> parse_value (Suc n) s = parse_value n s"
  "2 * length s + 2 \<le> n \<Longrightarrow> parse_items (Suc n) vs s = parse_items n vs s"
  "2 * length s + 2 \<le> n \<Longrightarrow> parse_members (Suc n) ps s = parse_members n ps s"
proof (induction n arbitrary: s vs ps)
  case (Suc n)
  {
    case 1
    show ?case
    proof (cases "skip_ws s")
      case (Cons c r)
      have "2 * length r + 2 \<le> n" using skip_ws_Cons [OF Cons] 1 by simp
      note IH = Suc(2,3) [OF this]
      show ?thesis
        by (simp only: parse_value.simps Cons list.case IH)
    qed (simp only: parse_value.simps list.case)
  next
    case 2
    then have v: "parse_value (Suc n) s = parse_value n s" by (intro Suc(1)) simp
    have i: "parse_items (Suc n) (w # vs) r' = parse_items n (w # vs) r'"
      if "parse_value n s = Some (w, r)" and "skip_ws r = d # r'" for w r d r'
      using parse_shorter(1) [OF that(1)] skip_ws_Cons [OF that(2)] 2 by (intro Suc(2)) simp
    show ?case
      unfolding parse_items.simps(2) [of "Suc n" vs s] parse_items.simps(2) [of n vs s] v
      using i by (auto split: option.splits list.splits simp del: parse_items.simps)
  next
    case 3
    show ?case
    proof (cases "skip_ws s")
      case (Cons q r)
      note s = Cons
      show ?thesis
      proof (cases "parse_chars [] r")
        case (Some kr)
        obtain k r1 where kr: "parse_chars [] r = Some (k, r1)" using Some by (cases kr) auto
        show ?thesis
        proof (cases "skip_ws r1")
          case (Cons e r2)
          have l: "length r2 + 2 < length s + 1"
            using skip_ws_Cons [OF s] parse_chars_shorter [OF kr] skip_ws_Cons [OF Cons] by simp
          have v: "parse_value (Suc n) r2 = parse_value n r2" using l 3 by (intro Suc(1)) simp
          have i: "parse_members (Suc n) ps' r' = parse_members n ps' r'"
            if "parse_value n r2 = Some (w, r3)" and "skip_ws r3 = d # r'" for w r3 d r' ps'
            using parse_shorter(1) [OF that(1)] skip_ws_Cons [OF that(2)] l 3 by (intro Suc(3)) simp
          show ?thesis
            unfolding parse_members.simps(2) [of "Suc n" ps s] parse_members.simps(2) [of n ps s]
            by (simp only: s kr Cons list.case option.case prod.case v)
              (auto simp: i split: option.splits list.splits simp del: parse_members.simps)
        qed (simp only: parse_members.simps s kr list.case option.case prod.case)
      qed (simp only: parse_members.simps s list.case option.case)
    qed (simp only: parse_members.simps list.case)
  }
qed simp_all

lemma parse_value_fuel:
  "parse_value (Suc (2 * length s) + k) s = parse_value (Suc (2 * length s)) s"
  by (induction k) (simp_all only: add_Suc_right add_0_right parse_fuel)

end
