(* ===== verification/Interfaces.thy ===== *)
theory Interfaces
  imports JsValue
begin

text \<open>
  The interfaces the components share, as locales.

  \<^item> \<open>keyed_store\<close>: an insertion-ordered store with text keys.  A JavaScript
    \<open>Map\<close> and a JavaScript object both promise it; the presence map of the pixel
    agents and the workspace bindings are clients.
  \<^item> \<open>preserving\<close>: a step function with an invariant.  What holds after one
    step holds after a run of steps; the transcript reducer, the stderr tail, the
    bindings and the event stream are such machines.
  \<^item> \<open>journal_cursor\<close>: a step that moves a resume cursor and delivers numbered
    items; whatever delivers only items beyond the cursor, and never moves it
    back, delivers each item at most once and in order.
\<close>

section \<open>JavaScript maps\<close>

text \<open>\<open>Map.prototype.set\<close>: an existing key keeps its place, a new one goes last.\<close>

type_synonym 'v jsmap = "(jsstr \<times> 'v) list"

definition map_set :: "'v jsmap \<Rightarrow> jsstr \<Rightarrow> 'v \<Rightarrow> 'v jsmap" where
  "map_set m k v = (if k \<in> set (map fst m) then jreplace m k v else m @ [(k, v)])"

definition map_get :: "'v jsmap \<Rightarrow> jsstr \<Rightarrow> 'v option" where
  "map_get m k = map_of m k"

lemma map_of_map_set [simp]: "map_of (map_set m k v) = (map_of m)(k \<mapsto> v)"
proof (cases "k \<in> fst ` set m")
  case True
  then show ?thesis by (simp add: map_set_def map_of_jreplace)
next
  case False
  then have "map_of m k = None" by (simp add: map_of_eq_None_iff)
  with False show ?thesis by (auto simp: map_set_def map_add_def fun_eq_iff split: option.split)
qed

lemma map_fst_map_set:
  "map fst (map_set m k v) = (if k \<in> set (map fst m) then map fst m else map fst m @ [k])"
  by (simp add: map_set_def)

lemma map_of_rev_distinct:
  assumes "distinct (map fst m)"
  shows "map_of (rev m) = map_of m"
proof
  fix k
  have "distinct (map fst (rev m))" using assms by (simp add: rev_map [symmetric])
  then show "map_of (rev m) k = map_of m k"
    using assms by (intro option.expand)
      (auto simp: map_of_eq_None_iff dest!: map_of_SomeD intro!: map_of_is_SomeI)
qed

lemma map_of_filter_distinct:
  "distinct (map fst m) \<Longrightarrow>
     map_of (filter (\<lambda>(k, v). Q k v) m) k =
       (case map_of m k of Some v \<Rightarrow> if Q k v then Some v else None | None \<Rightarrow> None)"
  by (induction m) (auto simp: map_of_eq_None_iff split: option.split)

section \<open>Keyed stores\<close>

locale keyed_store =
  fixes put :: "'m \<Rightarrow> jsstr \<Rightarrow> 'v \<Rightarrow> 'm"
    and entries :: "'m \<Rightarrow> (jsstr \<times> 'v) list"
  assumes lookup_put: "map_of (entries (put m k v)) = (map_of (entries m))(k \<mapsto> v)"
    and distinct_put:
      "distinct (map fst (entries m)) \<Longrightarrow> distinct (map fst (entries (put m k v)))"
begin

definition put_all :: "'m \<Rightarrow> (jsstr \<times> 'v) list \<Rightarrow> 'm" where
  "put_all m kvs = foldl (\<lambda>m (k, v). put m k v) m kvs"

lemma put_all_simps [simp]:
  "put_all m [] = m"
  "put_all m ((k, v) # kvs) = put_all (put m k v) kvs"
  by (simp_all add: put_all_def)

lemma lookup_put_all: "map_of (entries (put_all m kvs)) = map_of (entries m) ++ map_of (rev kvs)"
  by (induction kvs arbitrary: m) (auto simp: lookup_put map_add_def fun_eq_iff split: option.split)

lemma distinct_put_all:
  "distinct (map fst (entries m)) \<Longrightarrow> distinct (map fst (entries (put_all m kvs)))"
  by (induction kvs arbitrary: m) (auto simp: distinct_put)

lemma dom_put_all: "dom (map_of (entries (put_all m kvs))) = dom (map_of (entries m)) \<union> fst ` set kvs"
  by (auto simp: lookup_put_all dom_map_of_conv_image_fst)

lemma entries_put_all_pred:
  assumes "distinct (map fst (entries m))"
    and "\<And>k v. (k, v) \<in> set (entries m) \<Longrightarrow> P k v"
    and "\<And>k v. (k, v) \<in> set kvs \<Longrightarrow> P k v"
    and "(k, v) \<in> set (entries (put_all m kvs))"
  shows "P k v"
proof -
  from assms(1) have "distinct (map fst (entries (put_all m kvs)))" by (rule distinct_put_all)
  with assms(4) have "(map_of (entries m) ++ map_of (rev kvs)) k = Some v"
    by (simp add: lookup_put_all [symmetric])
  then consider "map_of (rev kvs) k = Some v" | "map_of (entries m) k = Some v"
    by (auto simp: map_add_Some_iff)
  then show ?thesis
    by cases (use assms(2,3) in \<open>auto dest!: map_of_SomeD\<close>)
qed

end

interpretation js_map: keyed_store map_set "\<lambda>m. m"
  by unfold_locales (simp_all add: map_fst_map_set)

interpretation js_object: keyed_store jdefine "\<lambda>ps. ps"
  by unfold_locales (simp_all add: distinct_jdefine)

text \<open>New keys of a map are appended in the order of their first occurrence.\<close>

lemma map_fst_put_all:
  "map fst (js_map.put_all m kvs) =
     map fst m @ rev (remdups (rev (filter (\<lambda>k. k \<notin> fst ` set m) (map fst kvs))))"
proof (induction kvs rule: rev_induct)
  case Nil
  show ?case by simp
next
  case (snoc kv kvs)
  obtain k v where kv: "kv = (k, v)" by fastforce
  have step: "js_map.put_all m (kvs @ [kv]) = map_set (js_map.put_all m kvs) k v"
    by (simp add: js_map.put_all_def kv)
  show ?case
    unfolding step map_fst_map_set snoc.IH by (auto simp: kv)
qed

section \<open>Steps that keep an invariant\<close>

locale preserving =
  fixes step :: "'s \<Rightarrow> 'e \<Rightarrow> 's"
    and inv :: "'s \<Rightarrow> bool"
  assumes step_inv: "inv s \<Longrightarrow> inv (step s e)"
begin

lemma run_inv: "inv s \<Longrightarrow> inv (foldl step s es)"
  by (induction es arbitrary: s) (auto intro: step_inv)

lemma run_prefix_inv: "inv s \<Longrightarrow> inv (foldl step s (take n es))"
  by (rule run_inv)

end

section \<open>Cursors over a numbered journal\<close>

text \<open>
  \<open>emitted s s'\<close> is what a step from \<open>s\<close> to \<open>s'\<close> delivers, as the numbers of the
  delivered items, read off the growth of the state's own log.
\<close>

locale journal_cursor =
  fixes step :: "'s \<Rightarrow> 'e \<Rightarrow> 's"
    and cursor :: "'s \<Rightarrow> int"
    and log :: "'s \<Rightarrow> int list"
  assumes cursor_mono: "cursor s \<le> cursor (step s e)"
    and log_step: "\<exists>new. log (step s e) = log s @ new \<and> sorted_wrt (<) new
        \<and> (\<forall>i \<in> set new. cursor s < i \<and> i \<le> cursor (step s e))"
begin

lemma run_cursor_mono: "cursor s \<le> cursor (foldl step s es)"
  by (induction es arbitrary: s) (auto intro: order_trans [OF cursor_mono])

lemma run_log:
  "\<exists>new. log (foldl step s es) = log s @ new \<and> sorted_wrt (<) new
     \<and> (\<forall>i \<in> set new. cursor s < i \<and> i \<le> cursor (foldl step s es))"
proof (induction es arbitrary: s)
  case Nil
  show ?case by simp
next
  case (Cons e es)
  let ?t = "step s e"
  obtain new1 where new1: "log ?t = log s @ new1" "sorted_wrt (<) new1"
      "\<forall>i \<in> set new1. cursor s < i \<and> i \<le> cursor ?t"
    using log_step by metis
  obtain new2 where new2: "log (foldl step ?t es) = log ?t @ new2" "sorted_wrt (<) new2"
      "\<forall>i \<in> set new2. cursor ?t < i \<and> i \<le> cursor (foldl step ?t es)"
    using Cons.IH by metis
  have "sorted_wrt (<) (new1 @ new2)"
    using new1 new2 by (fastforce simp: sorted_wrt_append)
  moreover have "\<forall>i \<in> set (new1 @ new2). cursor s < i \<and> i \<le> cursor (foldl step ?t es)"
    using new1(3) new2(3) cursor_mono [of s e] run_cursor_mono [of ?t es] by fastforce
  ultimately show ?case
    using new1(1) new2(1) by (intro exI [of _ "new1 @ new2"]) simp
qed

lemma run_log_sorted: "log s = [] \<Longrightarrow> sorted_wrt (<) (log (foldl step s es))"
  using run_log [of s es] by auto

lemma run_log_distinct: "log s = [] \<Longrightarrow> distinct (log (foldl step s es))"
  by (metis run_log_sorted strict_sorted_iff)

lemma run_log_beyond: "log s = [] \<Longrightarrow> i \<in> set (log (foldl step s es)) \<Longrightarrow> cursor s < i"
  using run_log [of s es] by auto

end

end
