(* ===== verification/Transcript.thy ===== *)
theory Transcript
  imports Interfaces
begin

text \<open>
  The transcript reducer of \<open>apps/vscode/src/state.ts\<close>: tool updates normalised from
  SSE parts and from durable rows, the merge into an entry, the bounded upsert, the
  rebuild from a message page and the reducer \<open>applySseEvent\<close>; at the end, a conversation
  streamed against the same conversation reloaded.  TypeScript's
  \<open>Partial<TranscriptTool>\<close> is a record of options: an absent field is \<open>None\<close>, and a
  field that is present but \<open>null\<close> is \<open>Some None\<close>.
\<close>

section \<open>Data\<close>

definition MAX_TRANSCRIPT_ENTRIES :: nat where
  [cap_simps]: "MAX_TRANSCRIPT_ENTRIES = 500"

definition MAX_ENTRY_CHARS :: nat where
  [cap_simps]: "MAX_ENTRY_CHARS = 256 * 1024"

record transcript_tool =
  ttCallId :: jsstr
  ttName :: jsstr
  ttState :: jsstr
  ttInput :: jsval
  ttExcerpt :: "jsstr option"
  ttExitCode :: "int option"
  ttArtifact :: "jsstr option"

record transcript_entry =
  teId :: jsstr
  teRole :: jsstr
  teSeq :: int
  teCreatedMs :: int
  teText :: jsstr
  teReasoning :: jsstr
  teSummary :: jsstr
  teTools :: "transcript_tool list"

record tool_update =
  tuCallId :: "jsstr option"
  tuName :: "jsstr option"
  tuState :: "jsstr option"
  tuInput :: "jsval option"
  tuExcerpt :: "jsstr option option"
  tuExitCode :: "int option option"
  tuArtifact :: "jsstr option option"

section \<open>Reading JSON fields\<close>

definition asObject :: "jsval \<Rightarrow> jsval props option" where
  "asObject v = (case v of JObj ps \<Rightarrow> Some ps | _ \<Rightarrow> None)"

definition asString :: "jsval \<Rightarrow> jsstr option" where
  "asString v = (case v of JStr s \<Rightarrow> Some s | _ \<Rightarrow> None)"

definition asInt :: "jsval \<Rightarrow> int option" where
  "asInt v = (case v of JNum x \<Rightarrow> integer_value x | _ \<Rightarrow> None)"

definition asId :: "jsval \<Rightarrow> jsstr option" where
  "asId v =
     (case v of
        JStr s \<Rightarrow> if length s > 0 then Some s else None
      | JNum x \<Rightarrow> if is_integer x then Some (number_string x) else None
      | _ \<Rightarrow> None)"

text \<open>\<open>a ?? b\<close> on a value that may be null\<close>

definition or_default :: "'a option \<Rightarrow> 'a \<Rightarrow> 'a" where
  "or_default a b = (case a of Some x \<Rightarrow> x | None \<Rightarrow> b)"

definition clampText :: "jsstr \<Rightarrow> jsstr \<Rightarrow> jsstr" where
  "clampText existing addition =
     (if length existing \<ge> MAX_ENTRY_CHARS then existing
      else take MAX_ENTRY_CHARS (existing @ addition))"

definition emptyEntry :: "jsstr \<Rightarrow> jsstr \<Rightarrow> int \<Rightarrow> int \<Rightarrow> transcript_entry" where
  "emptyEntry i role sq createdMs =
     \<lparr>teId = i, teRole = role, teSeq = sq, teCreatedMs = createdMs, teText = [],
      teReasoning = [], teSummary = [], teTools = []\<rparr>"

section \<open>Tool updates\<close>

definition tool_call_update :: "jsval props \<Rightarrow> tool_update" where
  "tool_call_update ps =
     \<lparr>tuCallId = Some (or_default (asString (jget ps (js ''tool_call_id''))) []),
      tuName = Some (or_default (asString (jget ps (js ''name''))) []),
      tuState = Some (or_default (asString (jget ps (js ''state''))) (js ''unknown'')),
      tuInput = Some (coalesce (jget ps (js ''input'')) JNull),
      tuExcerpt = None, tuExitCode = None, tuArtifact = None\<rparr>"

definition toolFromSsePart :: "jsval props \<Rightarrow> tool_update option" where
  "toolFromSsePart part =
     (let type = asString (jget part (js ''type''))
      in if type = Some (js ''tool_call'') then Some (tool_call_update part)
         else if type = Some (js ''tool_result'') then
           (let result = asObject (jget part (js ''result''))
            in Some
              \<lparr>tuCallId = Some (or_default (asString (jget part (js ''tool_call_id''))) []),
               tuName = None, tuState = None, tuInput = None,
               tuExcerpt = Some (case result of Some r \<Rightarrow> asString (jget r (js ''excerpt'')) | None \<Rightarrow> None),
               tuExitCode = Some (case result of Some r \<Rightarrow> asInt (jget r (js ''exit_code'')) | None \<Rightarrow> None),
               tuArtifact = Some (case result of Some r \<Rightarrow> asString (jget r (js ''artifact'')) | None \<Rightarrow> None)\<rparr>)
         else None)"

definition toolFromDurablePart :: "jsstr \<Rightarrow> jsval props \<Rightarrow> tool_update option" where
  "toolFromDurablePart kind payload =
     (if kind = js ''tool_call'' then Some (tool_call_update payload)
      else if kind = js ''tool_result'' then
        Some \<lparr>tuCallId = Some (or_default (asString (jget payload (js ''tool_call_id''))) []),
              tuName = None, tuState = None, tuInput = None,
              tuExcerpt = Some (asString (jget payload (js ''excerpt''))),
              tuExitCode = Some (asInt (jget payload (js ''exit_code''))),
              tuArtifact = Some (asString (jget payload (js ''artifact'')))\<rparr>
      else None)"

definition created_tool :: "jsstr \<Rightarrow> tool_update \<Rightarrow> transcript_tool" where
  "created_tool i update =
     \<lparr>ttCallId = i, ttName = or_default (tuName update) [],
      ttState = or_default (tuState update) (js ''running''),
      ttInput = (case tuInput update of Some v \<Rightarrow> coalesce v JNull | None \<Rightarrow> JNull),
      ttExcerpt = or_default (tuExcerpt update) None,
      ttExitCode = or_default (tuExitCode update) None,
      ttArtifact = or_default (tuArtifact update) None\<rparr>"

definition merged_tool :: "transcript_tool \<Rightarrow> tool_update \<Rightarrow> transcript_tool" where
  "merged_tool existing update =
     \<lparr>ttCallId = ttCallId existing, ttName = or_default (tuName update) (ttName existing),
      ttState = or_default (tuState update) (ttState existing),
      ttInput = or_default (tuInput update) (ttInput existing),
      ttExcerpt = or_default (tuExcerpt update) (ttExcerpt existing),
      ttExitCode = or_default (tuExitCode update) (ttExitCode existing),
      ttArtifact = or_default (tuArtifact update) (ttArtifact existing)\<rparr>"

definition mergeTool :: "transcript_tool list \<Rightarrow> tool_update \<Rightarrow> transcript_tool list" where
  "mergeTool tools update =
     (let i = or_default (tuCallId update) []
      in case find (\<lambda>tool. ttCallId tool = i) tools of
           None \<Rightarrow> tools @ [created_tool i update]
         | Some existing \<Rightarrow>
             map (\<lambda>tool. if ttCallId tool = i then merged_tool existing update else tool) tools)"

section \<open>Entries\<close>

definition applyTextPart :: "transcript_entry \<Rightarrow> jsstr \<Rightarrow> jsstr \<Rightarrow> transcript_entry" where
  "applyTextPart entry kind txt =
     (if kind = js ''reasoning'' then entry\<lparr>teReasoning := clampText (teReasoning entry) txt\<rparr>
      else if kind = js ''summary'' then entry\<lparr>teSummary := clampText (teSummary entry) txt\<rparr>
      else entry\<lparr>teText := clampText (teText entry) txt\<rparr>)"

definition is_text_kind :: "jsstr option \<Rightarrow> bool" where
  "is_text_kind type \<longleftrightarrow>
     type = Some (js ''text'') \<or> type = Some (js ''reasoning'') \<or> type = Some (js ''summary'')"

text \<open>One iteration of the loop over the parts of a message.\<close>

definition entry_part :: "transcript_entry \<Rightarrow> jsval \<Rightarrow> transcript_entry" where
  "entry_part entry rawPart =
     (case asObject rawPart of
        None \<Rightarrow> entry
      | Some part \<Rightarrow>
          (let type = (case asString (jget part (js ''type'')) of
                 Some t \<Rightarrow> Some t | None \<Rightarrow> asString (jget part (js ''kind'')));
               payload = asObject (jget part (js ''data''))
           in if is_text_kind type then
                (let txt = or_default
                   (case asString (jget part (js ''text'')) of
                      Some t \<Rightarrow> Some t
                    | None \<Rightarrow> (case payload of Some p \<Rightarrow> asString (jget p (js ''text'')) | None \<Rightarrow> None)) []
                 in if length txt > 0 then applyTextPart entry (the type) txt else entry)
              else
                (case (if asString (jget part (js ''type'')) \<noteq> None then toolFromSsePart part
                       else toolFromDurablePart (or_default type []) (or_default payload part)) of
                   Some update \<Rightarrow> entry\<lparr>teTools := mergeTool (teTools entry) update\<rparr>
                 | None \<Rightarrow> entry)))"

definition message_parts :: "jsval props \<Rightarrow> jsval list" where
  "message_parts message = (case jget message (js ''parts'') of JArr vs \<Rightarrow> vs | _ \<Rightarrow> [])"

definition entryFromMessage :: "jsstr \<Rightarrow> jsval props \<Rightarrow> transcript_entry" where
  "entryFromMessage i message =
     (let entry0 = emptyEntry i (or_default (asString (jget message (js ''role''))) (js ''assistant''))
            (or_default (asInt (jget message (js ''seq''))) 0)
            (or_default (asInt (jget message (js ''created_ms''))) 0);
          dataText = (case asObject (jget message (js ''data'')) of
            Some d \<Rightarrow> asString (jget d (js ''text'')) | None \<Rightarrow> None);
          entry = foldl entry_part entry0 (message_parts message)
      in if length (teText entry) = 0 \<and> dataText \<noteq> None \<and> length (the dataText) > 0
         then entry\<lparr>teText := clampText (teText entry) (the dataText)\<rparr> else entry)"

section \<open>The transcript\<close>

definition boundTranscript :: "transcript_entry list \<Rightarrow> transcript_entry list" where
  "boundTranscript entries =
     (if length entries \<le> MAX_TRANSCRIPT_ENTRIES then entries
      else drop (length entries - MAX_TRANSCRIPT_ENTRIES) entries)"

fun find_index :: "('a \<Rightarrow> bool) \<Rightarrow> 'a list \<Rightarrow> nat option" where
  "find_index P [] = None"
| "find_index P (x # xs) = (if P x then Some 0 else map_option Suc (find_index P xs))"

text \<open>
  \<open>upsertEntry\<close>.  (The code returns the same array when the mutator returns the same
  entry, which is the same value here.)
\<close>

definition upsertEntry ::
  "transcript_entry list \<Rightarrow> jsstr \<Rightarrow> (transcript_entry \<Rightarrow> transcript_entry) \<Rightarrow> transcript_entry
     \<Rightarrow> transcript_entry list" where
  "upsertEntry entries i mutator fallback =
     (case find_index (\<lambda>entry. teId entry = i) entries of
        Some index \<Rightarrow> entries[index := mutator (entries ! index)]
      | None \<Rightarrow> boundTranscript (entries @ [mutator fallback]))"

definition transcriptFromMessages :: "jsval list \<Rightarrow> transcript_entry list" where
  "transcriptFromMessages messages =
     boundTranscript
       (List.map_filter
         (\<lambda>raw. case asObject raw of
            None \<Rightarrow> None
          | Some message \<Rightarrow>
              (case asId (jget message (js ''id'')) of
                 None \<Rightarrow> None | Some i \<Rightarrow> Some (entryFromMessage i message)))
         (rev messages))"

definition part_mutator :: "jsval props \<Rightarrow> transcript_entry \<Rightarrow> transcript_entry" where
  "part_mutator part entry =
     (let type = asString (jget part (js ''type''))
      in if is_text_kind type then
           (let txt = or_default (asString (jget part (js ''text''))) []
            in if length txt = 0 then entry else applyTextPart entry (the type) txt)
         else (case toolFromSsePart part of
             Some update \<Rightarrow> entry\<lparr>teTools := mergeTool (teTools entry) update\<rparr>
           | None \<Rightarrow> entry))"

definition set_tool_state :: "jsstr \<Rightarrow> jsstr \<Rightarrow> transcript_entry \<Rightarrow> transcript_entry" where
  "set_tool_state toolCallId st entry =
     (if \<not> list_ex (\<lambda>tool. ttCallId tool = toolCallId) (teTools entry) then entry
      else entry\<lparr>teTools :=
        map (\<lambda>tool. if ttCallId tool = toolCallId then tool\<lparr>ttState := st\<rparr> else tool) (teTools entry)\<rparr>)"

definition applySseEvent :: "transcript_entry list \<Rightarrow> jsstr \<Rightarrow> jsval \<Rightarrow> transcript_entry list" where
  "applySseEvent entries event data =
     (case asObject data of
        None \<Rightarrow> entries
      | Some object \<Rightarrow>
          if event = js ''message_created'' then
            (case asObject (jget object (js ''message'')) of
               None \<Rightarrow> entries
             | Some message \<Rightarrow>
                 (case asId (jget message (js ''id'')) of
                    None \<Rightarrow> entries
                  | Some i \<Rightarrow> upsertEntry entries i (\<lambda>_. entryFromMessage i message)
                      (emptyEntry i (js ''assistant'') 0 0)))
          else if event = js ''message_part_updated'' then
            (case asString (jget object (js ''message_id'')) of
               None \<Rightarrow> entries
             | Some i \<Rightarrow>
                 if i = [] then entries
                 else (case asObject (jget object (js ''part'')) of
                     None \<Rightarrow> entries
                   | Some part \<Rightarrow> upsertEntry entries i (part_mutator part)
                       (emptyEntry i (js ''assistant'') 0 0)))
          else if event = js ''tool_call_state'' then
            (case (asString (jget object (js ''tool_call_id'')), asString (jget object (js ''state''))) of
               (Some toolCallId, Some st) \<Rightarrow>
                 if toolCallId = [] \<or> st = [] then entries
                 else map (set_tool_state toolCallId st) entries
             | _ \<Rightarrow> entries)
          else entries)"

section \<open>Bounds\<close>

lemma length_clampText_le [bound_intros]:
  "length existing \<le> MAX_ENTRY_CHARS \<Longrightarrow> length (clampText existing addition) \<le> MAX_ENTRY_CHARS"
  by (auto simp: clampText_def min_def)

lemma clampText_bounded:
  "length existing \<le> MAX_ENTRY_CHARS \<Longrightarrow>
     clampText existing addition = take MAX_ENTRY_CHARS (existing @ addition)"
  by (cases "length existing = MAX_ENTRY_CHARS") (auto simp: clampText_def)

lemma take_take_append: "take n (take n xs @ ys) = take n (xs @ ys)"
  by (cases "n \<le> length xs") auto

lemma clampText_clampText:
  "length s \<le> MAX_ENTRY_CHARS \<Longrightarrow> clampText (clampText s a) b = clampText s (a @ b)"
  by (simp add: clampText_bounded take_take_append del: take_append)

definition entry_ok :: "transcript_entry \<Rightarrow> bool" where
  "entry_ok e \<longleftrightarrow> length (teText e) \<le> MAX_ENTRY_CHARS \<and> length (teReasoning e) \<le> MAX_ENTRY_CHARS
     \<and> length (teSummary e) \<le> MAX_ENTRY_CHARS \<and> distinct (map ttCallId (teTools e))"

definition transcript_ok :: "transcript_entry list \<Rightarrow> bool" where
  "transcript_ok es \<longleftrightarrow> length es \<le> MAX_TRANSCRIPT_ENTRIES \<and> (\<forall>e \<in> set es. entry_ok e)"

lemma entry_ok_empty [simp]: "entry_ok (emptyEntry i r sq c)"
  by (simp add: entry_ok_def emptyEntry_def)

lemma teId_emptyEntry [simp]: "teId (emptyEntry i r sq c) = i"
  by (simp add: emptyEntry_def)

lemma entry_ok_applyTextPart: "entry_ok e \<Longrightarrow> entry_ok (applyTextPart e k t)"
  by (simp add: entry_ok_def applyTextPart_def length_clampText_le)

lemma teId_applyTextPart [frame_simps]: "teId (applyTextPart e k t) = teId e"
  by (simp add: applyTextPart_def)

lemma teTools_applyTextPart [frame_simps]: "teTools (applyTextPart e k t) = teTools e"
  by (simp add: applyTextPart_def)

lemma ttCallId_merged_tool [simp]: "ttCallId (merged_tool t u) = ttCallId t"
  by (simp add: merged_tool_def)

lemma ttCallId_created_tool [simp]: "ttCallId (created_tool i u) = i"
  by (simp add: created_tool_def)

text \<open>The keys of the merged list: the update's id is added at the end when new.\<close>

lemma mergeTool_ids:
  "map ttCallId (mergeTool tools u) =
     (let i = or_default (tuCallId u) []
      in if i \<in> set (map ttCallId tools) then map ttCallId tools else map ttCallId tools @ [i])"
proof (cases "find (\<lambda>tool. ttCallId tool = or_default (tuCallId u) []) tools")
  case None
  then have "or_default (tuCallId u) [] \<notin> set (map ttCallId tools)"
    by (auto simp: find_None_iff)
  with None show ?thesis by (simp add: mergeTool_def Let_def)
next
  case (Some t)
  then have "or_default (tuCallId u) [] \<in> set (map ttCallId tools)"
    by (auto simp: find_Some_iff) (metis imageI nth_mem)
  moreover have "map ttCallId (map (\<lambda>tool. if ttCallId tool = i then merged_tool t u else tool) tools)
      = map ttCallId tools" if "ttCallId t = i" for i
    using that by auto
  moreover have "ttCallId t = or_default (tuCallId u) []" using Some by (auto simp: find_Some_iff)
  ultimately show ?thesis using Some by (simp add: mergeTool_def Let_def)
qed

lemma distinct_mergeTool:
  "distinct (map ttCallId tools) \<Longrightarrow> distinct (map ttCallId (mergeTool tools u))"
  unfolding mergeTool_ids by (simp add: Let_def)

lemma entry_ok_tools:
  "entry_ok e \<Longrightarrow> distinct (map ttCallId ts) \<Longrightarrow> entry_ok (e\<lparr>teTools := ts\<rparr>)"
  by (simp add: entry_ok_def)

lemma entry_ok_mergeTool: "entry_ok e \<Longrightarrow> entry_ok (e\<lparr>teTools := mergeTool (teTools e) u\<rparr>)"
  by (rule entry_ok_tools) (auto simp: entry_ok_def intro: distinct_mergeTool)

lemmas entry_ok_intros = entry_ok_applyTextPart entry_ok_mergeTool

lemma entry_ok_entry_part: "entry_ok e \<Longrightarrow> entry_ok (entry_part e p)"
  by (auto simp: entry_part_def Let_def intro: entry_ok_intros split: option.split)

lemma teId_entry_part [frame_simps]: "teId (entry_part e p) = teId e"
  by (simp add: entry_part_def Let_def frame_simps split: option.split)

interpretation entry_parts: preserving entry_part entry_ok
  by unfold_locales (rule entry_ok_entry_part)

interpretation entry_parts_id: preserving entry_part "\<lambda>e. teId e = i"
  by unfold_locales (simp add: frame_simps)

lemma entry_ok_text:
  "entry_ok e \<Longrightarrow> length s \<le> MAX_ENTRY_CHARS \<Longrightarrow> entry_ok (e\<lparr>teText := clampText s t\<rparr>)"
  by (simp add: entry_ok_def length_clampText_le)

lemma entry_ok_entryFromMessage: "entry_ok (entryFromMessage i m)"
  by (auto simp: entryFromMessage_def Let_def intro!: entry_ok_text entry_parts.run_inv split: option.splits)

lemma teId_entryFromMessage [frame_simps]: "teId (entryFromMessage i m) = i"
  by (simp add: entryFromMessage_def Let_def entry_parts_id.run_inv)

lemma entry_ok_part_mutator: "entry_ok e \<Longrightarrow> entry_ok (part_mutator part e)"
  by (auto simp: part_mutator_def Let_def intro: entry_ok_intros split: option.split)

lemma teId_part_mutator [frame_simps]: "teId (part_mutator part e) = teId e"
  by (simp add: part_mutator_def Let_def frame_simps split: option.split)

lemma tool_ids_set_tool_state:
  "map ttCallId (teTools (set_tool_state i st e)) = map ttCallId (teTools e)"
  by (auto simp: set_tool_state_def)

lemma teId_set_tool_state [frame_simps]: "teId (set_tool_state i st e) = teId e"
  by (simp add: set_tool_state_def)

lemma entry_ok_set_tool_state: "entry_ok e \<Longrightarrow> entry_ok (set_tool_state i st e)"
  using tool_ids_set_tool_state [of i st e] by (auto simp: entry_ok_def set_tool_state_def)

lemma find_index_Some:
  "find_index P xs = Some i \<Longrightarrow> i < length xs \<and> P (xs ! i) \<and> (\<forall>j < i. \<not> P (xs ! j))"
proof (induction xs arbitrary: i)
  case (Cons x xs)
  then show ?case by (cases i) (auto split: if_splits simp: less_Suc_eq_0_disj nth_Cons')
qed simp

lemma find_index_None: "find_index P xs = None \<longleftrightarrow> (\<forall>x \<in> set xs. \<not> P x)"
  by (induction xs) auto

lemma find_index_update: "find_index P xs = Some n \<Longrightarrow> P y \<Longrightarrow> find_index P (xs[n := y]) = Some n"
  by (induction xs arbitrary: n) (auto split: if_splits)

lemma boundTranscript_drop:
  "boundTranscript es = drop (length es - MAX_TRANSCRIPT_ENTRIES) es"
  by (simp add: boundTranscript_def)

lemma length_boundTranscript [bound_intros]:
  "length (boundTranscript es) \<le> MAX_TRANSCRIPT_ENTRIES"
  by (simp add: boundTranscript_drop)

lemma set_boundTranscript: "set (boundTranscript es) \<subseteq> set es"
  unfolding boundTranscript_drop by (rule set_drop_subset)

lemma transcript_ok_upsertEntry:
  assumes "transcript_ok es" and "\<And>e. entry_ok e \<Longrightarrow> entry_ok (f e)" and "entry_ok fb"
  shows "transcript_ok (upsertEntry es i f fb)"
proof (cases "find_index (\<lambda>e. teId e = i) es")
  case None
  then have "upsertEntry es i f fb = boundTranscript (es @ [f fb])" by (simp add: upsertEntry_def)
  moreover have "entry_ok e" if "e \<in> set (boundTranscript (es @ [f fb]))" for e
    using that set_boundTranscript [of "es @ [f fb]"] assms by (auto simp: transcript_ok_def)
  ultimately show ?thesis by (simp add: transcript_ok_def length_boundTranscript)
next
  case (Some n)
  then have "upsertEntry es i f fb = es[n := f (es ! n)]" and "n < length es"
    by (auto simp: upsertEntry_def dest: find_index_Some)
  then show ?thesis
    using assms set_update_subset_insert [of es n "f (es ! n)"] by (force simp: transcript_ok_def)
qed

lemma transcript_ok_tool_state:
  "transcript_ok es \<Longrightarrow> transcript_ok (map (set_tool_state i st) es)"
  by (auto simp: transcript_ok_def entry_ok_set_tool_state)

lemma transcript_ok_applySseEvent:
  "transcript_ok es \<Longrightarrow> transcript_ok (applySseEvent es event data)"
  unfolding applySseEvent_def
  by (simp add: transcript_ok_upsertEntry entry_ok_entryFromMessage entry_ok_part_mutator
      transcript_ok_tool_state split: option.split)

definition sse_step :: "transcript_entry list \<Rightarrow> jsstr \<times> jsval \<Rightarrow> transcript_entry list" where
  "sse_step es ev = applySseEvent es (fst ev) (snd ev)"

interpretation transcript_run: preserving sse_step transcript_ok
  by unfold_locales (simp add: sse_step_def transcript_ok_applySseEvent)

lemma transcript_ok_fromMessages: "transcript_ok (transcriptFromMessages messages)"
proof -
  have "entry_ok e" if "e \<in> set (transcriptFromMessages messages)" for e
    using that set_boundTranscript unfolding transcriptFromMessages_def
    by (fastforce simp: List.map_filter_def entry_ok_entryFromMessage split: option.splits)
  then show ?thesis
    by (simp add: transcript_ok_def) (simp add: transcriptFromMessages_def length_boundTranscript)
qed

text \<open>
  C33.  Bounded everything: whatever page a transcript is rebuilt from and whatever
  SSE frames follow, it holds at most 500 entries, every text field of every entry
  stays within 256 Ki code units, and no entry shows the same tool call twice.
\<close>

theorem transcript_bounded:
  "length (foldl sse_step (transcriptFromMessages page) frames) \<le> 500
     \<and> list_all (\<lambda>e. length (teText e) \<le> 262144 \<and> length (teReasoning e) \<le> 262144
           \<and> length (teSummary e) \<le> 262144 \<and> distinct (map ttCallId (teTools e)))
         (foldl sse_step (transcriptFromMessages page) frames)"
  using transcript_run.run_inv [OF transcript_ok_fromMessages, of page frames]
  by (simp add: transcript_ok_def entry_ok_def list_all_iff cap_simps)

section \<open>Streams of frames\<close>

text \<open>The frames of a streamed message part, as the daemon's journal projects them.\<close>

definition part_frame :: "jsstr \<Rightarrow> jsval props \<Rightarrow> jsstr \<times> jsval" where
  "part_frame i part =
     (js ''message_part_updated'', JObj [(js ''message_id'', JStr i), (js ''part'', JObj part)])"

definition text_part :: "jsstr \<Rightarrow> jsstr \<Rightarrow> jsval props" where
  "text_part kind t = [(js ''type'', JStr kind), (js ''text'', JStr t)]"

definition text_frame :: "jsstr \<Rightarrow> jsstr \<Rightarrow> jsstr \<times> jsval" where
  "text_frame i t = part_frame i (text_part (js ''text'') t)"

lemma jget_simps [simp]:
  "jget [] k = JUndef"
  "jget ((k', v) # ps) k = (if k' = k then v else jget ps k)"
  by (simp_all add: jget_def)

lemmas json_field_simps = asObject_def asString_def or_default_def

lemma sse_step_part_frame:
  "i \<noteq> [] \<Longrightarrow> sse_step es (part_frame i part) =
     upsertEntry es i (part_mutator part) (emptyEntry i (js ''assistant'') 0 0)"
  by (simp add: sse_step_def part_frame_def applySseEvent_def json_field_simps)

lemma part_mutator_text:
  "length (teText e) \<le> MAX_ENTRY_CHARS \<Longrightarrow>
     part_mutator (text_part (js ''text'') t) e = e\<lparr>teText := clampText (teText e) t\<rparr>"
  by (cases t) (simp_all add: part_mutator_def text_part_def json_field_simps is_text_kind_def
      applyTextPart_def clampText_bounded)

lemma foldl_text_existing:
  assumes "i \<noteq> []" and "find_index (\<lambda>e. teId e = i) es = Some n"
    and "length (teText (es ! n)) \<le> MAX_ENTRY_CHARS"
  shows "foldl sse_step es (map (text_frame i) ts) =
     es[n := (es ! n)\<lparr>teText := take MAX_ENTRY_CHARS (teText (es ! n) @ concat ts)\<rparr>]"
proof (induction ts rule: rev_induct)
  case Nil
  then show ?case using assms(3) by (simp add: list_update_id)
next
  case (snoc t ts)
  let ?upd = "\<lambda>txt. es[n := (es ! n)\<lparr>teText := txt\<rparr>]"
  have n: "n < length es" "teId (es ! n) = i" "\<forall>j < n. teId (es ! j) \<noteq> i"
    using find_index_Some [OF assms(2)] by auto
  have upd: "find_index (\<lambda>e. teId e = i) (?upd tx) = Some n" for tx
    using assms(2) n(2) by (simp add: find_index_update)
  have "foldl sse_step es (map (text_frame i) (ts @ [t])) =
      sse_step (?upd (take MAX_ENTRY_CHARS (teText (es ! n) @ concat ts))) (text_frame i t)"
    using snoc.IH by simp
  also have "\<dots> = ?upd (clampText (take MAX_ENTRY_CHARS (teText (es ! n) @ concat ts)) t)"
    using n by (simp add: text_frame_def sse_step_part_frame [OF assms(1)] upsertEntry_def upd
        part_mutator_text)
  also have "\<dots> = ?upd (take MAX_ENTRY_CHARS (teText (es ! n) @ concat (ts @ [t])))"
    by (simp add: clampText_bounded take_take_append del: take_append)
  finally show ?case .
qed

text \<open>
  Streaming appends: a run of text deltas for a message that is already in the
  transcript leaves every other entry, and every other field of that entry, as it
  was, and its text is the old text followed by the deltas, cut at the 256 Ki bound.
\<close>

theorem text_stream_existing:
  assumes "i \<noteq> []" and "find_index (\<lambda>e. teId e = i) es = Some n"
    and "length (teText (es ! n)) \<le> MAX_ENTRY_CHARS"
  shows "foldl sse_step es (map (text_frame i) ts) =
     es[n := (es ! n)\<lparr>teText := take 262144 (teText (es ! n) @ concat ts)\<rparr>]"
  using foldl_text_existing [OF assms] by (simp add: cap_simps)

theorem text_stream_existing_witness:
  "foldl sse_step [emptyEntry (js ''m1'') (js ''user'') 1 0, emptyEntry (js ''m2'') (js ''assistant'') 2 0]
       (map (text_frame (js ''m2'')) [js ''hello'', js '' world''])
     = [emptyEntry (js ''m1'') (js ''user'') 1 0,
        (emptyEntry (js ''m2'') (js ''assistant'') 2 0)\<lparr>teText := js ''hello world''\<rparr>]"
proof -
  let ?es = "[emptyEntry (js ''m1'') (js ''user'') 1 0, emptyEntry (js ''m2'') (js ''assistant'') 2 0]"
  have "find_index (\<lambda>e. teId e = js ''m2'') ?es = Some 1" by simp
  moreover have "length (teText (?es ! 1)) \<le> MAX_ENTRY_CHARS" by (simp add: emptyEntry_def)
  ultimately show ?thesis
    using text_stream_existing [of "js ''m2''" ?es 1 "[js ''hello'', js '' world'']"]
    by (simp add: emptyEntry_def js_append [symmetric])
qed

text \<open>
  A message that starts as a stream: from an empty transcript, the deltas of
  one message give one assistant entry with exactly the concatenated text, cut at
  the bound; nothing is duplicated and nothing accumulates past it.
\<close>

theorem text_stream_fresh:
  assumes "i \<noteq> []" and "ts \<noteq> []"
  shows "foldl sse_step [] (map (text_frame i) ts) =
     [(emptyEntry i (js ''assistant'') 0 0)\<lparr>teText := take 262144 (concat ts)\<rparr>]"
proof -
  obtain t ts' where ts: "ts = t # ts'" using assms(2) by (cases ts) auto
  let ?e = "(emptyEntry i (js ''assistant'') 0 0)\<lparr>teText := take MAX_ENTRY_CHARS t\<rparr>"
  have "sse_step [] (text_frame i t) = [?e]"
    using assms(1)
    by (simp add: text_frame_def sse_step_part_frame upsertEntry_def boundTranscript_def
        part_mutator_text emptyEntry_def clampText_bounded cap_simps)
  moreover have "foldl sse_step [?e] (map (text_frame i) ts') =
      [?e\<lparr>teText := take MAX_ENTRY_CHARS (teText ?e @ concat ts')\<rparr>]"
    using foldl_text_existing [of i "[?e]" 0 ts'] assms(1) by (simp add: emptyEntry_def)
  ultimately show ?thesis
    by (simp add: ts take_take_append cap_simps del: take_append)
qed

theorem text_stream_fresh_witness:
  "foldl sse_step [] (map (text_frame (js ''m'')) [js ''a'', js ''b''])
     = [(emptyEntry (js ''m'') (js ''assistant'') 0 0)\<lparr>teText := js ''ab''\<rparr>]"
  using text_stream_fresh [of "js ''m''" "[js ''a'', js ''b'']"] by (simp add: js_append [symmetric])

section \<open>Identities and order\<close>

lemma ids_upsertEntry:
  assumes "\<And>e. teId e = i \<Longrightarrow> teId (f e) = i" and "teId fb = i"
  shows "map teId (upsertEntry es i f fb) =
     (if i \<in> set (map teId es) then map teId es
      else drop (Suc (length es) - MAX_TRANSCRIPT_ENTRIES) (map teId es @ [i]))"
proof (cases "find_index (\<lambda>e. teId e = i) es")
  case None
  then have new: "i \<notin> set (map teId es)" by (auto simp: find_index_None)
  have "upsertEntry es i f fb = boundTranscript (es @ [f fb])"
    using None by (simp only: upsertEntry_def option.case)
  then have "map teId (upsertEntry es i f fb) =
      drop (Suc (length es) - MAX_TRANSCRIPT_ENTRIES) (map teId (es @ [f fb]))"
    by (simp only: boundTranscript_drop drop_map length_append_singleton)
  also have "map teId (es @ [f fb]) = map teId es @ [i]" using assms by simp
  finally show ?thesis using new by (simp only: if_False)
next
  case (Some n)
  then have n: "n < length es" "teId (es ! n) = i" using find_index_Some [OF Some] by simp_all
  then have "map teId (es[n := f (es ! n)]) = map teId es"
    unfolding map_update assms(1) [OF n(2)] using n by (metis list_update_id nth_map)
  moreover have "i \<in> set (map teId es)" using n by auto
  ultimately show ?thesis using Some by (simp add: upsertEntry_def)
qed

text \<open>What one frame does to the ids: nothing, or one new id at the end.\<close>

lemma ids_sse_step_cases:
  "map teId (sse_step es ev) = map teId es \<or>
   (\<exists>i. i \<notin> set (map teId es) \<and>
      map teId (sse_step es ev) = drop (Suc (length es) - MAX_TRANSCRIPT_ENTRIES) (map teId es @ [i]))"
  (is "?unchanged (sse_step es ev) \<or> ?added (sse_step es ev)")
proof -
  have tool: "?unchanged (map (set_tool_state i st) es)" for i st
    by (simp add: frame_simps)
  have upsert: "?unchanged (upsertEntry es i f fb) \<or> ?added (upsertEntry es i f fb)"
    if "\<And>e. teId e = i \<Longrightarrow> teId (f e) = i" and "teId fb = i" for i f fb
    using ids_upsertEntry [of i f fb es, OF that]
    by (cases "i \<in> set (map teId es)") (simp_all only: if_True if_False, blast+)
  show ?thesis
    unfolding sse_step_def applySseEvent_def
    using upsert tool by (simp add: frame_simps split: option.split)
qed

definition ids_distinct :: "transcript_entry list \<Rightarrow> bool" where
  "ids_distinct es \<longleftrightarrow> distinct (map teId es)"

lemma ids_distinct_sse_step: "ids_distinct es \<Longrightarrow> ids_distinct (sse_step es ev)"
  using ids_sse_step_cases [of es ev]
proof (elim disjE exE conjE)
  fix i
  assume "ids_distinct es" and "i \<notin> set (map teId es)"
  then have "distinct (map teId es @ [i])" by (simp add: ids_distinct_def)
  then have "distinct (drop n (map teId es @ [i]))" for n by (rule distinct_drop)
  moreover assume "map teId (sse_step es ev) =
      drop (Suc (length es) - MAX_TRANSCRIPT_ENTRIES) (map teId es @ [i])"
  ultimately show ?thesis by (simp only: ids_distinct_def)
qed (simp only: ids_distinct_def)

interpretation transcript_ids: preserving sse_step ids_distinct
  by unfold_locales (rule ids_distinct_sse_step)

text \<open>
  C32.  A message is shown once: if no two entries of the transcript carry the same id,
  no run of SSE frames (creations, replays, deltas, tool updates, unknown events)
  ever makes two that do.
\<close>

theorem transcript_no_duplicates:
  assumes "distinct (map teId es)"
  shows "distinct (map teId (foldl sse_step es frames))"
  using transcript_ids.run_inv [of es frames] assms by (simp add: ids_distinct_def)

definition created_frame :: "jsstr \<Rightarrow> jsval props \<Rightarrow> jsstr \<times> jsval" where
  "created_frame i m = (js ''message_created'', JObj [(js ''message'', JObj ((js ''id'', JStr i) # m))])"

theorem transcript_no_duplicates_witness:
  "distinct (map teId (foldl sse_step [emptyEntry (js ''m'') (js ''user'') 0 0]
     [created_frame (js ''m'') [], text_frame (js ''n'') (js ''x''), created_frame (js ''n'') []]))"
  by (rule transcript_no_duplicates) simp

text \<open>
  The bound evicts the oldest: a new message on a full transcript drops exactly
  its first entry, and a replay of a known message drops nothing.
\<close>

theorem new_message_evicts_oldest:
  assumes "i \<noteq> []" and "length es = 500" and "i \<notin> set (map teId es)"
  shows "sse_step es (created_frame i m) = tl es @ [entryFromMessage i ((js ''id'', JStr i) # m)]"
proof -
  have "find_index (\<lambda>e. teId e = i) es = None" using assms(3) by (auto simp: find_index_None)
  moreover from assms(2) have "es \<noteq> []" by auto
  ultimately show ?thesis
    using assms(1,2)
    by (simp add: sse_step_def created_frame_def applySseEvent_def asObject_def asId_def upsertEntry_def
        boundTranscript_drop MAX_TRANSCRIPT_ENTRIES_def drop_Suc)
qed

theorem new_message_evicts_oldest_witness:
  "sse_step (replicate 500 (emptyEntry (js ''a'') (js ''user'') 0 0)) (created_frame (js ''b'') [])
     = replicate 499 (emptyEntry (js ''a'') (js ''user'') 0 0)
       @ [entryFromMessage (js ''b'') [(js ''id'', JStr (js ''b''))]]"
  using new_message_evicts_oldest
      [of "js ''b''" "replicate 500 (emptyEntry (js ''a'') (js ''user'') 0 0)" "[]"]
  by (simp add: emptyEntry_def)

section \<open>Tool calls\<close>

definition tool_call_part :: "jsstr \<Rightarrow> jsstr \<Rightarrow> jsval \<Rightarrow> jsval props" where
  "tool_call_part t name input =
     [(js ''type'', JStr (js ''tool_call'')), (js ''tool_call_id'', JStr t), (js ''name'', JStr name),
      (js ''input'', input)]"

definition tool_result_part :: "jsstr \<Rightarrow> jsstr \<Rightarrow> int \<Rightarrow> jsval props" where
  "tool_result_part t excerpt code =
     [(js ''type'', JStr (js ''tool_result'')), (js ''tool_call_id'', JStr t),
      (js ''result'', JObj [(js ''excerpt'', JStr excerpt), (js ''exit_code'', JNum (num_of_int code))])]"

definition tool_state_frame :: "jsstr \<Rightarrow> jsstr \<Rightarrow> jsstr \<times> jsval" where
  "tool_state_frame t st =
     (js ''tool_call_state'', JObj [(js ''tool_call_id'', JStr t), (js ''state'', JStr st)])"

lemma part_mutator_tool_call:
  "part_mutator (tool_call_part t name input) e =
     e\<lparr>teTools := mergeTool (teTools e) (tool_call_update (tool_call_part t name input))\<rparr>"
  by (simp add: part_mutator_def tool_call_part_def json_field_simps is_text_kind_def toolFromSsePart_def)

lemma part_mutator_tool_result:
  "part_mutator (tool_result_part t excerpt code) e =
     e\<lparr>teTools := mergeTool (teTools e)
        \<lparr>tuCallId = Some t, tuName = None, tuState = None, tuInput = None,
         tuExcerpt = Some (Some excerpt), tuExitCode = Some (Some code), tuArtifact = Some None\<rparr>\<rparr>"
  by (simp add: part_mutator_def tool_result_part_def json_field_simps is_text_kind_def
      toolFromSsePart_def asInt_def)

lemma coalesce_coalesce_null: "coalesce (coalesce v JNull) JNull = coalesce v JNull"
  by (simp add: coalesce_def)

lemma mergeTool_new:
  "tuCallId u = Some t \<Longrightarrow> t \<notin> set (map ttCallId tools) \<Longrightarrow>
     mergeTool tools u = tools @ [created_tool t u]"
  by (cases "find (\<lambda>tool. ttCallId tool = t) tools")
    (auto simp: mergeTool_def or_default_def find_Some_iff)

lemma map_new_last:
  "t \<notin> set (map ttCallId tools) \<Longrightarrow>
     map (\<lambda>tool. if ttCallId tool = t then f tool else tool) (tools @ [x]) =
       tools @ [if ttCallId x = t then f x else x]"
  by (induction tools) auto

lemma find_new_last:
  "t \<notin> set (map ttCallId tools) \<Longrightarrow> ttCallId x = t \<Longrightarrow>
     find (\<lambda>tool. ttCallId tool = t) (tools @ [x]) = Some x"
  by (induction tools) auto

lemma mergeTool_last:
  "tuCallId u = Some t \<Longrightarrow> t \<notin> set (map ttCallId tools) \<Longrightarrow> ttCallId x = t \<Longrightarrow>
     mergeTool (tools @ [x]) u = tools @ [merged_tool x u]"
  using find_new_last [of t tools x] map_new_last [of t tools "\<lambda>_. merged_tool x u" x]
  by (simp only: mergeTool_def or_default_def option.case Let_def if_True simp_thms)

text \<open>
  C34.  The life of a tool call in one entry: the call, a state change and the result
  (in the order the journal delivers them) leave one tool row that still carries the
  name and the input of the call, the reported state, and the excerpt and exit code
  of the result; the text and the other tools are untouched.
\<close>

theorem tool_call_lifecycle:
  assumes "i \<noteq> []" and "t \<noteq> []" and "st \<noteq> []" and "teId e = i"
    and "t \<notin> set (map ttCallId (teTools e))"
  shows "foldl sse_step [e]
      [part_frame i (tool_call_part t name input), tool_state_frame t st,
       part_frame i (tool_result_part t excerpt code)] =
    [e\<lparr>teTools := teTools e @
       [\<lparr>ttCallId = t, ttName = name, ttState = st, ttInput = coalesce input JNull,
         ttExcerpt = Some excerpt, ttExitCode = Some code, ttArtifact = None\<rparr>]\<rparr>]"
proof -
  let ?u = "tool_call_update (tool_call_part t name input)"
  let ?x = "created_tool t ?u"
  have u: "tuCallId ?u = Some t"
    by (simp add: tool_call_update_def tool_call_part_def json_field_simps)
  have one: "sse_step [e] (part_frame i (tool_call_part t name input)) =
      [e\<lparr>teTools := teTools e @ [?x]\<rparr>]"
    using assms by (simp add: sse_step_part_frame upsertEntry_def part_mutator_tool_call
        mergeTool_new [OF u])
  have two: "sse_step [e\<lparr>teTools := teTools e @ [?x]\<rparr>] (tool_state_frame t st) =
      [e\<lparr>teTools := teTools e @ [?x\<lparr>ttState := st\<rparr>]\<rparr>]"
    using assms map_new_last [of t "teTools e" "\<lambda>tool. tool\<lparr>ttState := st\<rparr>" ?x]
    by (simp add: sse_step_def tool_state_frame_def applySseEvent_def json_field_simps
        set_tool_state_def)
  have three: "sse_step [e\<lparr>teTools := teTools e @ [?x\<lparr>ttState := st\<rparr>]\<rparr>]
        (part_frame i (tool_result_part t excerpt code)) =
      [e\<lparr>teTools := teTools e @ [merged_tool (?x\<lparr>ttState := st\<rparr>)
        \<lparr>tuCallId = Some t, tuName = None, tuState = None, tuInput = None,
         tuExcerpt = Some (Some excerpt), tuExitCode = Some (Some code), tuArtifact = Some None\<rparr>]\<rparr>]"
    using assms by (simp add: sse_step_part_frame upsertEntry_def part_mutator_tool_result
        mergeTool_last)
  have "merged_tool (?x\<lparr>ttState := st\<rparr>)
        \<lparr>tuCallId = Some t, tuName = None, tuState = None, tuInput = None,
         tuExcerpt = Some (Some excerpt), tuExitCode = Some (Some code), tuArtifact = Some None\<rparr> =
      \<lparr>ttCallId = t, ttName = name, ttState = st, ttInput = coalesce input JNull,
         ttExcerpt = Some excerpt, ttExitCode = Some code, ttArtifact = None\<rparr>"
    by (simp add: merged_tool_def created_tool_def tool_call_update_def
        tool_call_part_def json_field_simps coalesce_coalesce_null)
  then show ?thesis
    by (simp only: foldl.simps one two three)
qed

theorem tool_call_lifecycle_witness:
  "foldl sse_step [emptyEntry (js ''m'') (js ''assistant'') 0 0]
      [part_frame (js ''m'') (tool_call_part (js ''t1'') (js ''bash'') (JObj [])),
       tool_state_frame (js ''t1'') (js ''completed''),
       part_frame (js ''m'') (tool_result_part (js ''t1'') (js ''ok'') 0)] =
    [(emptyEntry (js ''m'') (js ''assistant'') 0 0)\<lparr>teTools :=
       [\<lparr>ttCallId = js ''t1'', ttName = js ''bash'', ttState = js ''completed'', ttInput = JObj [],
         ttExcerpt = Some (js ''ok''), ttExitCode = Some 0, ttArtifact = None\<rparr>]\<rparr>]"
  using tool_call_lifecycle [of "js ''m''" "js ''t1''" "js ''completed''"
      "emptyEntry (js ''m'') (js ''assistant'') 0 0" "js ''bash''" "JObj []" "js ''ok''" 0]
  by (simp add: emptyEntry_def coalesce_def nullish_def)

section \<open>Streaming and reloading\<close>

text \<open>
  A conversation, and its two encodings: a row of the message page carries its parts with a
  kind and a flat payload under \<open>data\<close>; the stream announces the message and then sends one
  frame for each part, with its members inline and a result nested under \<open>result\<close>.
\<close>

datatype conversation_part =
    TextPart jsstr jsstr
  | CallPart jsstr jsstr jsstr jsval
  | ResultPart jsstr "jsstr option" "int option" "jsstr option"

record chat_message =
  mgId :: jsstr
  mgRole :: jsstr
  mgSeq :: int
  mgCreatedMs :: int
  mgParts :: "conversation_part list"

definition opt_json :: "('a \<Rightarrow> jsval) \<Rightarrow> 'a option \<Rightarrow> jsval" where
  "opt_json f x = (case x of None \<Rightarrow> JNull | Some y \<Rightarrow> f y)"

definition call_members :: "jsstr \<Rightarrow> jsstr \<Rightarrow> jsstr \<Rightarrow> jsval \<Rightarrow> jsval props" where
  "call_members i name st input = [(js ''tool_call_id'', JStr i), (js ''name'', JStr name),
     (js ''state'', JStr st), (js ''input'', input)]"

definition result_members :: "jsstr option \<Rightarrow> int option \<Rightarrow> jsstr option \<Rightarrow> jsval props" where
  "result_members excerpt code artifact = [(js ''excerpt'', opt_json JStr excerpt),
     (js ''exit_code'', opt_json (\<lambda>n. JNum (num_of_int n)) code), (js ''artifact'', opt_json JStr artifact)]"

fun durable_part :: "conversation_part \<Rightarrow> jsval" where
  "durable_part (TextPart kind t) =
     JObj [(js ''kind'', JStr kind), (js ''data'', JObj [(js ''text'', JStr t)])]"
| "durable_part (CallPart i name st input) =
     JObj [(js ''kind'', JStr (js ''tool_call'')), (js ''data'', JObj (call_members i name st input))]"
| "durable_part (ResultPart i excerpt code artifact) =
     JObj [(js ''kind'', JStr (js ''tool_result'')),
       (js ''data'', JObj ((js ''tool_call_id'', JStr i) # result_members excerpt code artifact))]"







definition shown_message :: "chat_message \<Rightarrow> transcript_entry" where
  "shown_message m = foldl entry_part (emptyEntry (mgId m) (mgRole m) (mgSeq m) (mgCreatedMs m))
     (map durable_part (mgParts m))"

lemma teId_foldl_entry_part: "teId (foldl entry_part e ps) = teId e"
  by (induction ps arbitrary: e) (simp_all add: frame_simps)

lemma teId_shown [simp]: "teId (shown_message m) = mgId m"
  by (simp add: shown_message_def teId_foldl_entry_part)











end
