(* ===== verification/WorkspaceBinding.thy ===== *)
theory WorkspaceBinding
  imports Interfaces
begin

text \<open>
  The workspace-to-session bindings of \<open>apps/vscode/src/workspaceBinding.ts\<close>.  The
  binding map is a JavaScript object (own properties in property order); a stored
  value may be anything the extension's persisted state held, so it is a \<open>jsval\<close>
  and the code's own \<open>typeof\<close> test stays a branch of the model.
\<close>

definition MAX_SESSION_BINDINGS :: nat where
  [cap_simps]: "MAX_SESSION_BINDINGS = 64"

type_synonym bindings = "jsval props"

section \<open>Canonical keys\<close>

text \<open>\<open>while (key.length > 1 && key.endsWith('/')) key = key.slice(0, -1)\<close>\<close>

function strip_slashes :: "jsstr \<Rightarrow> jsstr" where
  "strip_slashes key =
     (if length key > 1 \<and> ends_with [47] key then strip_slashes (take (length key - 1) key) else key)"
  by pat_completeness auto
termination
  by (relation "measure length") auto

declare strip_slashes.simps [simp del]

definition canonicalWorkspaceKey :: "jsval \<Rightarrow> jsstr option" where
  "canonicalWorkspaceKey uri =
     (case uri of
        JStr s \<Rightarrow> (let key = trim s in if key = [] then None else Some (strip_slashes key))
      | _ \<Rightarrow> None)"

definition windowWorkspaceKey :: "jsstr list \<Rightarrow> jsstr option" where
  "windowWorkspaceKey folderUris =
     (case folderUris of [] \<Rightarrow> None | u # us \<Rightarrow> canonicalWorkspaceKey (JStr u))"

section \<open>Bindings\<close>

definition boundSessionFor :: "jsstr option \<Rightarrow> jsstr list \<Rightarrow> bindings \<Rightarrow> jsstr option" where
  "boundSessionFor key sessions bnds =
     (case key of
        None \<Rightarrow> None
      | Some k \<Rightarrow>
          (case jget bnds k of
             JStr bound \<Rightarrow>
               if bound = [] then None
               else if List.member sessions bound then Some bound else None
           | _ \<Rightarrow> None))"

definition withBinding :: "bindings \<Rightarrow> jsstr option \<Rightarrow> jsstr \<Rightarrow> bindings" where
  "withBinding bnds key sessionId =
     (case key of
        None \<Rightarrow> bnds
      | Some k \<Rightarrow>
          if sessionId = [] then bnds
          else
            (let next = jdefine bnds k (JStr sessionId); keys = jkeys next
             in if length keys > MAX_SESSION_BINDINGS
                then foldl jdelete next (take (length keys - MAX_SESSION_BINDINGS) keys)
                else next))"

definition prune_step :: "jsstr list \<Rightarrow> bindings \<Rightarrow> jsstr \<times> jsval \<Rightarrow> bindings" where
  "prune_step alive next p =
     (case p of (key, v) \<Rightarrow>
        (case v of JStr sid \<Rightarrow> if List.member alive sid then jassign next key v else next
         | _ \<Rightarrow> next))"

definition pruneBindings :: "bindings \<Rightarrow> jsstr list \<Rightarrow> bindings" where
  "pruneBindings bnds sessions = foldl (prune_step sessions) [] bnds"

section \<open>Canonical keys: facts\<close>

lemma strip_slashes_step:
  "strip_slashes (s @ [47]) = (if s = [] then [47] else strip_slashes s)"
  by (subst strip_slashes.simps) (simp add: ends_with_def)

lemma strip_slashes_stop: "\<not> ends_with [47] s \<Longrightarrow> strip_slashes s = s"
  by (subst strip_slashes.simps) simp

lemma ends_with_unit: "ends_with [c] s \<longleftrightarrow> s \<noteq> [] \<and> last s = c"
  by (cases s rule: rev_cases) (auto simp: ends_with_def)

lemma strip_slashes_shape:
  "s \<noteq> [] \<Longrightarrow> strip_slashes s \<noteq> [] \<and> (strip_slashes s = [47] \<or> \<not> ends_with [47] (strip_slashes s))
     \<and> (\<exists>n. s = strip_slashes s @ replicate n 47)"
proof (induction s rule: rev_induct)
  case (snoc c s)
  show ?case
  proof (cases "c = 47 \<and> s \<noteq> []")
    case True
    with snoc.IH obtain n where n: "s = strip_slashes s @ replicate n 47" by blast
    then have ex: "s @ [c] = strip_slashes s @ replicate (Suc n) 47"
      using True by (metis append_assoc replicate_append_same replicate_Suc)
    have "strip_slashes (s @ [c]) = strip_slashes s"
      using True by (simp add: strip_slashes_step)
    with ex True snoc.IH show ?thesis by metis
  next
    case False
    then have "strip_slashes (s @ [c]) = s @ [c]"
      using strip_slashes_step [of "[]"]
      by (cases "c = 47") (auto simp: strip_slashes_stop ends_with_unit)
    with False show ?thesis by (auto simp: ends_with_unit intro: exI [of _ 0])
  qed
qed simp

text \<open>
  A canonical workspace key is the trimmed URI without its trailing slashes: it
  is never empty, it ends in a slash only when it is the lone root, and nothing else
  of the URI is touched (no case folding, no basename); only a blank or missing URI
  has no key.
\<close>

theorem canonicalWorkspaceKey_spec:
  "case canonicalWorkspaceKey (JStr uri) of
     None \<Rightarrow> trim uri = []
   | Some k \<Rightarrow> k \<noteq> [] \<and> (ends_with [47] k \<longleftrightarrow> k = [47]) \<and> (\<exists>n. trim uri = k @ replicate n 47)"
  using strip_slashes_shape [of "trim uri"]
  by (auto simp: canonicalWorkspaceKey_def Let_def ends_with_unit)


section \<open>Bindings: facts\<close>

lemma foldl_jdelete: "foldl jdelete ps ks = filter (\<lambda>(k, v). k \<notin> set ks) ps"
  by (induction ks arbitrary: ps) (auto simp: jdelete_def intro!: filter_cong)

lemma filter_take_keys:
  assumes "distinct (map fst ps)"
  shows "filter (\<lambda>(k, v). k \<notin> set (take n (map fst ps))) ps = drop n ps"
proof -
  have "fst x \<notin> set (take n (map fst ps))" if "x \<in> set (drop n ps)" for x
  proof -
    have "fst x \<in> set (drop n (map fst ps))" using that by (auto simp: drop_map)
    then show ?thesis using set_take_disj_set_drop_if_distinct [OF assms, of n n] by auto
  qed
  then have "filter (\<lambda>(k, v). k \<notin> set (take n (map fst ps))) (drop n ps) = drop n ps"
    by (auto simp: filter_id_conv)
  moreover have "filter (\<lambda>(k, v). k \<notin> set (take n (map fst ps))) (take n ps) = []"
    by (auto simp: filter_empty_conv take_map image_iff)
  ultimately show ?thesis
    by (metis append_take_drop_id filter_append self_append_conv2)
qed

lemma withBinding_drop:
  assumes "distinct (map fst bnds)" and "sessionId \<noteq> []"
  shows "withBinding bnds (Some k) sessionId =
     drop (length (jdefine bnds k (JStr sessionId)) - MAX_SESSION_BINDINGS)
       (jdefine bnds k (JStr sessionId))"
  using assms(2) filter_take_keys [OF distinct_jdefine [OF assms(1), of k "JStr sessionId"]]
  by (simp add: withBinding_def Let_def jkeys_def foldl_jdelete)

lemma distinct_withBinding:
  "distinct (map fst bnds) \<Longrightarrow> distinct (map fst (withBinding bnds key sid))"
proof (cases key)
  case (Some k)
  assume d: "distinct (map fst bnds)"
  then have "distinct (map fst (jdefine bnds k (JStr sid)))" by (rule distinct_jdefine)
  then have "distinct (drop n (map fst (jdefine bnds k (JStr sid))))" for n
    by (rule distinct_drop)
  then show ?thesis
    using d Some by (cases "sid = []") (simp add: withBinding_def, simp add: withBinding_drop drop_map)
qed (simp add: withBinding_def)

definition bindings_ok :: "bindings \<Rightarrow> bool" where
  "bindings_ok bnds \<longleftrightarrow> distinct (map fst bnds) \<and> length bnds \<le> MAX_SESSION_BINDINGS"

definition bind_step :: "bindings \<Rightarrow> jsstr option \<times> jsstr \<Rightarrow> bindings" where
  "bind_step bnds e = withBinding bnds (fst e) (snd e)"

lemma bindings_ok_withBinding: "bindings_ok bnds \<Longrightarrow> bindings_ok (withBinding bnds key sid)"
proof -
  assume ok: "bindings_ok bnds"
  then have d: "distinct (map fst bnds)" and l: "length bnds \<le> MAX_SESSION_BINDINGS"
    by (simp_all add: bindings_ok_def)
  have "length (withBinding bnds key sid) \<le> MAX_SESSION_BINDINGS"
  proof (cases key)
    case (Some k)
    then show ?thesis
      using l d by (cases "sid = []") (simp_all add: withBinding_drop, simp add: withBinding_def)
  qed (simp add: withBinding_def l)
  with distinct_withBinding [OF d] show ?thesis by (simp add: bindings_ok_def)
qed

interpretation binding_run: preserving bind_step bindings_ok
  by unfold_locales (simp add: bind_step_def bindings_ok_withBinding)

text \<open>
  The binding map stays bounded: from an empty map no sequence of recorded
  bindings ever holds more than 64 keys, or the same key twice.
\<close>

theorem bindings_bounded:
  "distinct (jkeys (foldl bind_step [] es)) \<and> length (jkeys (foldl bind_step [] es)) \<le> 64"
  using binding_run.run_inv [of "[]" es] by (simp add: bindings_ok_def jkeys_def MAX_SESSION_BINDINGS_def)

lemma jinsert_no_index: "array_index k = None \<Longrightarrow> jinsert ps k v = ps @ [(k, v)]"
  by (induction ps k v rule: jinsert.induct) (auto simp: key_before_def)

lemma map_of_withBinding:
  assumes "bindings_ok bnds" and "sid \<noteq> []" and "array_index k = None \<or> length bnds < 64"
  shows "map_of (withBinding bnds (Some k) sid) k = Some (JStr sid)"
proof -
  let ?new = "jdefine bnds k (JStr sid)"
  have d: "distinct (map fst bnds)" and l: "length bnds \<le> 64"
    using assms(1) by (simp_all add: bindings_ok_def MAX_SESSION_BINDINGS_def)
  show ?thesis
  proof (cases "k \<in> set (jkeys bnds) \<or> length bnds < 64")
    case True
    then have "length ?new \<le> 64" using l by (auto simp: length_jdefine)
    with d assms(2) show ?thesis by (simp add: withBinding_drop MAX_SESSION_BINDINGS_def)
  next
    case False
    then have "?new = bnds @ [(k, JStr sid)]"
      using assms(3) by (auto simp: jdefine_def jkeys_def jinsert_no_index)
    moreover have "k \<notin> fst ` set bnds" using False by (simp add: jkeys_def)
    moreover have "length bnds = 64" using False l by auto
    moreover from \<open>k \<notin> fst ` set bnds\<close> have "map_of (drop 1 bnds) k = None"
      unfolding map_of_eq_None_iff using set_drop_subset [of 1 bnds] by blast
    ultimately show ?thesis
      using d assms(2) by (simp add: withBinding_drop MAX_SESSION_BINDINGS_def map_add_def)
  qed
qed

text \<open>
  Round trip: a session bound to a workspace is the one found for it again, as
  long as that session is still listed (and the key is not the decimal numeral of an
  array index, which JavaScript would order before every other key).
\<close>

theorem bound_after_withBinding:
  assumes "bindings_ok bnds" and "sid \<noteq> []" and "sid \<in> set sessions"
    and "array_index k = None \<or> length bnds < 64"
  shows "boundSessionFor (Some k) sessions (withBinding bnds (Some k) sid) = Some sid"
  using assms map_of_withBinding [OF assms(1,2,4)]
  by (simp add: boundSessionFor_def jget_def)

theorem bound_after_withBinding_witness:
  "boundSessionFor (Some (js ''file:///w'')) [js ''7'', js ''s1'']
     (withBinding [(js ''file:///v'', JStr (js ''7''))] (Some (js ''file:///w'')) (js ''s1''))
   = Some (js ''s1'')"
proof (rule bound_after_withBinding)
  show "bindings_ok [(js ''file:///v'', JStr (js ''7''))]"
    by (simp add: bindings_ok_def MAX_SESSION_BINDINGS_def)
qed simp_all

text \<open>
  Never a guessed session: whatever the bindings hold, the session found for a
  workspace is the id stored for that exact key, is not empty and is in the current
  session list.
\<close>

theorem boundSessionFor_sound:
  "boundSessionFor key sessions bnds = Some sid \<longleftrightarrow>
     (\<exists>k. key = Some k \<and> jget bnds k = JStr sid) \<and> sid \<noteq> [] \<and> sid \<in> set sessions"
  by (auto simp: boundSessionFor_def split: option.splits jsval.splits if_splits)

lemma prune_step_eq:
  "prune_step alive next (k, v) =
     (if (\<exists>sid. v = JStr sid \<and> sid \<in> set alive) \<and> k \<noteq> js ''__proto__'' then jdefine next k v else next)"
  by (auto simp: prune_step_def jassign_def split: jsval.split)

lemma foldl_prune_step:
  "foldl (prune_step alive) next bnds =
     js_object.put_all next
       (filter (\<lambda>(k, v). (\<exists>sid. v = JStr sid \<and> sid \<in> set alive) \<and> k \<noteq> js ''__proto__'') bnds)"
proof (induction bnds arbitrary: "next")
  case (Cons kv bnds)
  then show ?case by (cases kv) (auto simp: prune_step_eq)
qed simp

text \<open>
  Pruning forgets exactly the bindings of sessions that are gone: a workspace
  resolves after it as it did before.
\<close>

theorem pruneBindings_transparent:
  assumes "distinct (jkeys bnds)" and "k \<noteq> js ''__proto__''"
  shows "boundSessionFor (Some k) sessions (pruneBindings bnds sessions)
       = boundSessionFor (Some k) sessions bnds"
proof -
  let ?Q = "\<lambda>k v. (\<exists>sid. v = JStr sid \<and> sid \<in> set sessions) \<and> k \<noteq> js ''__proto__''"
  have d: "distinct (map fst bnds)" using assms(1) by (simp add: jkeys_def)
  then have "distinct (map fst (filter (\<lambda>(k, v). ?Q k v) bnds))"
    by (rule distinct_map_filter)
  then have "map_of (pruneBindings bnds sessions) k = map_of (filter (\<lambda>(k, v). ?Q k v) bnds) k"
    unfolding pruneBindings_def foldl_prune_step js_object.lookup_put_all
    by (simp add: map_of_rev_distinct)
  also have "\<dots> = (case map_of bnds k of Some v \<Rightarrow> if ?Q k v then Some v else None | None \<Rightarrow> None)"
    by (rule map_of_filter_distinct [OF d])
  finally have "map_of (pruneBindings bnds sessions) k =
      (case map_of bnds k of Some v \<Rightarrow> if ?Q k v then Some v else None | None \<Rightarrow> None)" .
  then show ?thesis
    using assms(2) by (auto simp: boundSessionFor_def jget_def split: option.split jsval.split)
qed

theorem pruneBindings_transparent_witness:
  "let bnds = [(js ''v'', JStr (js ''7'')), (js ''w'', JStr (js ''8''))]
   in boundSessionFor (Some (js ''v'')) [js ''7''] (pruneBindings bnds [js ''7'']) = Some (js ''7'')
     \<and> boundSessionFor (Some (js ''w'')) [js ''7''] (pruneBindings bnds [js ''7'']) = None"
  using pruneBindings_transparent
      [of "[(js ''v'', JStr (js ''7'')), (js ''w'', JStr (js ''8''))]" "js ''v''" "[js ''7'']"]
    pruneBindings_transparent
      [of "[(js ''v'', JStr (js ''7'')), (js ''w'', JStr (js ''8''))]" "js ''w''" "[js ''7'']"]
  by (simp add: Let_def jkeys_def boundSessionFor_def jget_def)

end
