(* ===== verification/PixelAgents.thy ===== *)
theory PixelAgents
  imports Interfaces
begin

unbundle bit_operations_syntax

text \<open>
  The deterministic pixel avatars of \<open>apps/vscode/src/pixelAgents.ts\<close>: the FNV-1a
  hash on 32-bit words, the 5x5 sprite drawn from it, the mapping of native
  state tags to presence states, and the fold of one agent frame into the
  presence map (a JavaScript \<open>Map\<close>, so an association list in insertion order).
\<close>

section \<open>Data\<close>

datatype pixel_state =
  PxRunning | PxPaused | PxWaiting | PxBlocked | PxDone | PxFailed | PxCancelled

record pixel_avatar =
  avChildId :: jsstr
  avHash :: "32 word"
  avColor :: jsstr
  avAccent :: jsstr
  avPixels :: "int list"
  avVersion :: int

record pixel_presence =
  ppChildId :: jsstr
  ppState :: pixel_state
  ppAvatar :: pixel_avatar
  ppAnimation :: jsstr

text \<open>One agent of a frame; the id is carried as \<open>agentId\<close> or as \<open>agent_id\<close>.\<close>

record frame_agent =
  faAgentId :: "jsstr option"
  faAgent_id :: "jsstr option"
  faState :: jsstr

definition PIXEL_AVATAR_VERSION :: int where
  "PIXEL_AVATAR_VERSION = 1"

section \<open>Operations\<close>

fun pixel_hash_loop :: "32 word \<Rightarrow> jsstr \<Rightarrow> 32 word" where
  "pixel_hash_loop hash [] = hash"
| "pixel_hash_loop hash (c # cs) = pixel_hash_loop ((hash XOR ucast c) * 0x01000193) cs"

definition pixelHash :: "jsstr \<Rightarrow> 32 word" where
  "pixelHash childId = pixel_hash_loop 0x811c9dc5 childId"

definition sprite_bit :: "32 word \<Rightarrow> nat \<Rightarrow> nat \<Rightarrow> int" where
  "sprite_bit hash y x = uint (drop_bit ((y * 3 + x) mod 15) hash AND 1)"

definition draw_cell :: "32 word \<Rightarrow> int list \<Rightarrow> nat \<times> nat \<Rightarrow> int list" where
  "draw_cell hash pixels p =
     (case p of (y, x) \<Rightarrow>
        pixels[y * 5 + x := sprite_bit hash y x, y * 5 + (4 - x) := sprite_bit hash y x])"

definition sprite_cells :: "(nat \<times> nat) list" where
  "sprite_cells = List.product [0..<5] [0..<3]"

definition sprite_pixels :: "32 word \<Rightarrow> int list" where
  "sprite_pixels hash = foldl (draw_cell hash) (replicate 25 0) sprite_cells"

definition pixelAvatar :: "jsstr \<Rightarrow> pixel_avatar" where
  "pixelAvatar childId =
     (let hash = pixelHash childId; hue = uint hash mod 360
      in \<lparr>avChildId = childId, avHash = hash,
          avColor = js ''hsl('' @ decimal hue @ js '' 72% 55%)'',
          avAccent = js ''hsl('' @ decimal ((hue + 42) mod 360) @ js '' 85% 72%)'',
          avPixels = sprite_pixels hash, avVersion = PIXEL_AVATAR_VERSION\<rparr>)"

definition pixelStateOf :: "jsstr \<Rightarrow> pixel_state" where
  "pixelStateOf state =
     (let tag = to_lower (trim state)
      in if tag \<in> set (map js [''done'', ''completed'', ''verifiedcomplete'']) then PxDone
         else if tag \<in> set (map js [''failed'', ''failedrecoverable'', ''failedpermanent'']) then PxFailed
         else if tag \<in> set (map js [''cancelled'', ''canceled'']) then PxCancelled
         else if tag \<in> set (map js [''blocked'', ''needsuserinput'']) then PxBlocked
         else if tag \<in> set (map js [''paused'', ''suspended'']) then PxPaused
         else if tag \<in> set (map js [''running'', ''preparing'', ''buildingcontext'',
             ''waitingformodel'', ''streaming'', ''toolrequested'', ''executingtool'', ''validating''])
           then PxRunning
         else PxWaiting)"

fun pixel_state_tag :: "pixel_state \<Rightarrow> jsstr" where
  "pixel_state_tag PxRunning = js ''running''"
| "pixel_state_tag PxPaused = js ''paused''"
| "pixel_state_tag PxWaiting = js ''waiting''"
| "pixel_state_tag PxBlocked = js ''blocked''"
| "pixel_state_tag PxDone = js ''done''"
| "pixel_state_tag PxFailed = js ''failed''"
| "pixel_state_tag PxCancelled = js ''cancelled''"

definition pixelAnimation :: "pixel_state \<Rightarrow> jsstr" where
  "pixelAnimation st = js ''pixel-'' @ pixel_state_tag st"

definition pixelPresence :: "jsstr \<Rightarrow> jsstr \<Rightarrow> pixel_presence" where
  "pixelPresence childId state =
     (let st = pixelStateOf state
      in \<lparr>ppChildId = childId, ppState = st, ppAvatar = pixelAvatar childId,
          ppAnimation = pixelAnimation st\<rparr>)"

definition frame_id :: "frame_agent \<Rightarrow> jsstr option" where
  "frame_id agent =
     (case faAgentId agent of
        Some s \<Rightarrow> if s \<noteq> [] then Some s
          else (case faAgent_id agent of Some t \<Rightarrow> if t \<noteq> [] then Some t else None | None \<Rightarrow> None)
      | None \<Rightarrow> (case faAgent_id agent of Some t \<Rightarrow> if t \<noteq> [] then Some t else None | None \<Rightarrow> None))"

text \<open>The first loop keeps what the frame omits, the second sets what it carries.\<close>

definition fold_keep ::
  "frame_agent list \<Rightarrow> pixel_presence jsmap \<Rightarrow> jsstr \<times> pixel_presence \<Rightarrow> pixel_presence jsmap" where
  "fold_keep frame next p =
     (case p of (childId, presence) \<Rightarrow>
        (case find (\<lambda>agent. frame_id agent = Some childId) frame of
           None \<Rightarrow> map_set next childId presence
         | Some _ \<Rightarrow> next))"

definition fold_set :: "pixel_presence jsmap \<Rightarrow> frame_agent \<Rightarrow> pixel_presence jsmap" where
  "fold_set next agent =
     (case frame_id agent of
        None \<Rightarrow> next
      | Some childId \<Rightarrow> map_set next childId (pixelPresence childId (faState agent)))"

definition foldPixelPresence ::
  "pixel_presence jsmap \<Rightarrow> frame_agent list \<Rightarrow> pixel_presence jsmap" where
  "foldPixelPresence previous frame =
     foldl fold_set (foldl (fold_keep frame) [] previous) frame"

section \<open>The sprite\<close>

lemma sprite_bit_01: "sprite_bit hash y x \<in> {0, 1}"
proof -
  have "(w AND 1 :: 32 word) = 0 \<or> (w AND 1 :: 32 word) = 1" for w
    by (simp add: and_one_eq) (metis bit_eq_rec not_mod_2_eq_0_eq_1)
  then show ?thesis unfolding sprite_bit_def by (metis insert_iff uint_0_eq uint_1_eq)
qed

lemma sprite_cells_eq:
  "sprite_cells = [(0, 0), (0, 1), (0, 2), (1, 0), (1, 1), (1, 2), (2, 0), (2, 1), (2, 2),
     (3, 0), (3, 1), (3, 2), (4, 0), (4, 1), (4, 2)]"
  by (simp add: sprite_cells_def upt_rec)

lemma sprite_pixels_eq:
  "sprite_pixels hash =
     concat (map (\<lambda>y. map (sprite_bit hash y) [0, 1, 2, 1, 0]) [0, 1, 2, 3, 4])"
  by (simp add: sprite_pixels_def sprite_cells_eq draw_cell_def numeral_eq_Suc)

lemma sprite_rows:
  "take 5 (drop (5 * y) (sprite_pixels hash)) =
     (if y < 5 then map (sprite_bit hash y) [0, 1, 2, 1, 0] else [])"
proof (cases "y < 5")
  case True
  then consider "y = 0" | "y = 1" | "y = 2" | "y = 3" | "y = 4" by linarith
  then show ?thesis by cases (simp_all add: sprite_pixels_eq)
qed (simp add: sprite_pixels_eq)

text \<open>
  The sprite of every child is a 5x5 picture of zeros and ones whose rows are
  palindromes, so it is symmetric by construction, as the avatar comment promises.
\<close>

theorem pixelAvatar_symmetric:
  "length (avPixels (pixelAvatar c)) = 25
     \<and> set (avPixels (pixelAvatar c)) \<subseteq> {0, 1}
     \<and> rev (take 5 (drop (5 * y) (avPixels (pixelAvatar c)))) =
         take 5 (drop (5 * y) (avPixels (pixelAvatar c)))"
proof -
  have px: "avPixels (pixelAvatar c) = sprite_pixels (pixelHash c)"
    by (simp add: pixelAvatar_def Let_def)
  have "length (sprite_pixels (pixelHash c)) = 25"
    by (simp add: sprite_pixels_eq)
  moreover have "set (sprite_pixels (pixelHash c)) \<subseteq> {0, 1}"
    using sprite_bit_01 by (fastforce simp: sprite_pixels_eq)
  ultimately show ?thesis
    unfolding px sprite_rows by simp
qed

section \<open>The presence fold\<close>

text \<open>The pairs the two loops put into the new map.\<close>

definition frame_pairs :: "frame_agent list \<Rightarrow> (jsstr \<times> pixel_presence) list" where
  "frame_pairs frame =
     List.map_filter
       (\<lambda>agent. map_option (\<lambda>k. (k, pixelPresence k (faState agent))) (frame_id agent)) frame"

definition frame_ids :: "frame_agent list \<Rightarrow> jsstr list" where
  "frame_ids frame = List.map_filter frame_id frame"

lemma map_fst_frame_pairs: "map fst (frame_pairs frame) = frame_ids frame"
  by (induction frame) (auto simp: frame_pairs_def frame_ids_def List.map_filter_simps split: option.split)

lemma frame_ids_find_None:
  "find (\<lambda>a. frame_id a = Some k) frame = None \<longleftrightarrow> k \<notin> set (frame_ids frame)"
  by (induction frame) (auto simp: frame_ids_def List.map_filter_simps split: option.split)

lemma fold_set_put_all: "foldl fold_set m frame = js_map.put_all m (frame_pairs frame)"
  by (induction frame arbitrary: m)
    (auto simp: frame_pairs_def fold_set_def List.map_filter_simps split: option.split)

lemma fold_keep_if:
  "fold_keep frame next (k, p) = (if k \<in> set (frame_ids frame) then next else map_set next k p)"
  using frame_ids_find_None [of k frame] by (auto simp: fold_keep_def split: option.split)

lemma fold_keep_put_all:
  "foldl (fold_keep frame) m previous =
     js_map.put_all m (filter (\<lambda>(k, p). k \<notin> set (frame_ids frame)) previous)"
proof (induction previous arbitrary: m)
  case (Cons kp previous)
  then show ?case by (cases kp) (simp add: fold_keep_if)
qed simp

lemma foldPixelPresence_put_all:
  "foldPixelPresence previous frame =
     js_map.put_all
       (js_map.put_all [] (filter (\<lambda>(k, p). k \<notin> set (frame_ids frame)) previous))
       (frame_pairs frame)"
  by (simp add: foldPixelPresence_def fold_set_put_all fold_keep_put_all)

text \<open>A presence map is sound when every entry is the deterministic one of its key.\<close>

definition presence_entry_ok :: "jsstr \<Rightarrow> pixel_presence \<Rightarrow> bool" where
  "presence_entry_ok k p \<longleftrightarrow>
     ppChildId p = k \<and> ppAvatar p = pixelAvatar k \<and> ppAnimation p = pixelAnimation (ppState p)"

definition presence_ok :: "pixel_presence jsmap \<Rightarrow> bool" where
  "presence_ok m \<longleftrightarrow> distinct (map fst m) \<and> (\<forall>(k, p) \<in> set m. presence_entry_ok k p)"

lemma presence_entry_ok_pixelPresence: "presence_entry_ok k (pixelPresence k st)"
  by (simp add: presence_entry_ok_def pixelPresence_def Let_def)

lemma frame_pairs_ok: "(k, p) \<in> set (frame_pairs frame) \<Longrightarrow> presence_entry_ok k p"
  by (induction frame)
    (auto simp: frame_pairs_def List.map_filter_simps presence_entry_ok_pixelPresence
      split: option.splits)

lemma fold_presence_ok: "presence_ok m \<Longrightarrow> presence_ok (foldPixelPresence m frame)"
proof -
  assume ok: "presence_ok m"
  let ?kept = "js_map.put_all [] (filter (\<lambda>(k, p). k \<notin> set (frame_ids frame)) m)"
  have d: "distinct (map fst ?kept)" by (rule js_map.distinct_put_all) simp
  have kept: "presence_entry_ok k p" if "(k, p) \<in> set ?kept" for k p
    by (rule js_map.entries_put_all_pred [where P = presence_entry_ok, OF _ _ _ that])
      (use ok in \<open>auto simp: presence_ok_def\<close>)
  have "presence_entry_ok k p" if "(k, p) \<in> set (foldPixelPresence m frame)" for k p
    by (rule js_map.entries_put_all_pred [where P = presence_entry_ok, OF d kept frame_pairs_ok])
      (use that in \<open>auto simp: foldPixelPresence_put_all\<close>)
  moreover have "distinct (map fst (foldPixelPresence m frame))"
    unfolding foldPixelPresence_put_all by (rule js_map.distinct_put_all) (rule d)
  ultimately show ?thesis by (auto simp: presence_ok_def)
qed

interpretation presence_fold: preserving foldPixelPresence presence_ok
  by unfold_locales (rule fold_presence_ok)

text \<open>
  Over any run of agent frames from the empty map the avatars stay the
  deterministic ones: every entry is keyed by its own child id, carries the avatar
  computed from that id alone and the animation class of its state, and no child
  has two entries.
\<close>

theorem presence_run_deterministic:
  "presence_ok (foldl foldPixelPresence [] frames)"
  by (rule presence_fold.run_inv) (simp add: presence_ok_def)

lemma map_of_filter_key:
  "map_of (filter (\<lambda>(k, p). Q k) m) k = (if Q k then map_of m k else None)"
  by (induction m) auto

lemma map_of_rev_frame_pairs:
  "map_of (rev (frame_pairs frame)) k =
     map_option (\<lambda>a. pixelPresence k (faState a)) (find (\<lambda>a. frame_id a = Some k) (rev frame))"
  by (induction frame rule: rev_induct)
    (auto simp: frame_pairs_def List.map_filter_def split: option.split)

text \<open>
  The presence of a child after one frame: the last agent of the frame with its
  id decides the state; a child the frame omits keeps its previous presence (a
  transient page gap loses nobody).
\<close>

theorem foldPixelPresence_lookup:
  assumes "distinct (map fst previous)"
  shows "map_get (foldPixelPresence previous frame) k =
    (case find (\<lambda>a. frame_id a = Some k) (rev frame) of
       Some a \<Rightarrow> Some (pixelPresence k (faState a))
     | None \<Rightarrow> map_get previous k)"
proof -
  let ?kept = "filter (\<lambda>(k, p). k \<notin> set (frame_ids frame)) previous"
  have "distinct (map fst ?kept)"
    using assms by (simp add: distinct_map_filter)
  moreover have "find (\<lambda>a. frame_id a = Some k) (rev frame) = None \<longleftrightarrow> k \<notin> set (frame_ids frame)"
    using frame_ids_find_None [of k "rev frame"]
    by (simp add: frame_ids_def List.map_filter_def rev_map rev_filter [symmetric])
  ultimately show ?thesis
    by (cases "find (\<lambda>a. frame_id a = Some k) (rev frame)")
      (auto simp: map_get_def foldPixelPresence_put_all js_map.lookup_put_all map_of_rev_frame_pairs
        map_of_rev_distinct map_of_filter_key map_add_def)
qed

definition demo_frame :: "frame_agent list" where
  "demo_frame =
     [\<lparr>faAgentId = Some (js ''a''), faAgent_id = None, faState = js ''running''\<rparr>]"

theorem foldPixelPresence_lookup_witness:
  "let previous = [(js ''a'', pixelPresence (js ''a'') (js ''paused'')),
       (js ''b'', pixelPresence (js ''b'') (js ''Blocked ''))]
   in distinct (map fst previous)
     \<and> map_get (foldPixelPresence previous demo_frame) (js ''a'')
         = Some (pixelPresence (js ''a'') (js ''running''))
     \<and> map_get (foldPixelPresence previous demo_frame) (js ''b'')
         = Some (pixelPresence (js ''b'') (js ''Blocked ''))"
proof -
  let ?p = "[(js ''a'', pixelPresence (js ''a'') (js ''paused'')),
       (js ''b'', pixelPresence (js ''b'') (js ''Blocked ''))]"
  have d: "distinct (map fst ?p)" by simp
  show ?thesis
    using d foldPixelPresence_lookup [OF d, of demo_frame "js ''a''"]
      foldPixelPresence_lookup [OF d, of demo_frame "js ''b''"]
    by (simp add: Let_def demo_frame_def frame_id_def map_get_def)
qed

text \<open>
  The order of the presence map after one frame: first the children the frame
  omits, in their old order, then the children of the frame in the order they
  appear in it.  (A child the frame updates does not keep its place.)
\<close>

theorem foldPixelPresence_order:
  assumes "distinct (map fst previous)"
  shows "map fst (foldPixelPresence previous frame) =
     filter (\<lambda>k. k \<notin> set (frame_ids frame)) (map fst previous)
       @ rev (remdups (rev (frame_ids frame)))"
proof -
  let ?kept = "filter (\<lambda>(k, p). k \<notin> set (frame_ids frame)) previous"
  have keys: "map fst ?kept = filter (\<lambda>k. k \<notin> set (frame_ids frame)) (map fst previous)"
    by (induction previous) auto
  have "distinct (map fst ?kept)" using assms by (simp add: keys)
  then have kept: "map fst (js_map.put_all [] ?kept) = map fst ?kept"
    by (simp add: map_fst_put_all distinct_remdups_id del: distinct_map)
  have "filter (\<lambda>k. k \<notin> fst ` set (js_map.put_all [] ?kept)) (frame_ids frame) = frame_ids frame"
    using arg_cong [OF kept, of set] by (auto simp: filter_id_conv keys)
  then show ?thesis
    unfolding foldPixelPresence_put_all map_fst_put_all [of _ "frame_pairs frame"] kept
      map_fst_frame_pairs by (simp add: keys)
qed

theorem foldPixelPresence_order_witness:
  "let previous = [(js ''a'', pixelPresence (js ''a'') (js ''paused'')),
       (js ''b'', pixelPresence (js ''b'') (js ''paused''))]
   in distinct (map fst previous)
     \<and> map fst (foldPixelPresence previous demo_frame) = [js ''b'', js ''a'']"
proof -
  let ?p = "[(js ''a'', pixelPresence (js ''a'') (js ''paused'')),
       (js ''b'', pixelPresence (js ''b'') (js ''paused''))]"
  have d: "distinct (map fst ?p)" by simp
  show ?thesis
    using d foldPixelPresence_order [OF d, of demo_frame]
    by (simp add: Let_def demo_frame_def frame_ids_def frame_id_def List.map_filter_simps)
qed

end
