(* ===== verification/Store.thy ===== *)
theory Store
  imports Interfaces
begin

text \<open>
  The snapshot store and the run tracking of \<open>apps/vscode/src/state.ts\<close>
  (\<open>FaktorStore\<close>, \<open>emptySnapshot\<close>, \<open>isTerminalRunState\<close>, \<open>activeRunIdAfter\<close>,
  \<open>cancelRunTarget\<close>).

  \<open>FaktorStore.patch\<close> compares fields with \<open>!==\<close>: primitives by value, objects by
  identity.  A snapshot field is therefore a primitive or an object with an address,
  and two objects are the same when their addresses are.  The listeners are a
  JavaScript \<open>Set\<close>: a list without repetitions in insertion order; \<open>emit\<close> calls
  each with the new state, which the model records as the calls it makes.
\<close>

section \<open>Runs\<close>

record run_summary =
  rsTaskId :: jsstr
  rsRunId :: jsstr
  rsMode :: jsstr
  rsState :: jsstr
  rsGoal :: "jsstr option"
  rsModel :: "jsstr option"

definition TERMINAL_RUN_STATES :: "jsstr list" where
  "TERMINAL_RUN_STATES = [js ''done'', js ''failed'', js ''cancelled'']"

definition isTerminalRunState :: "jsstr \<Rightarrow> bool" where
  "isTerminalRunState state = List.member TERMINAL_RUN_STATES (to_lower (trim state))"

definition activeRunIdAfter :: "jsstr option \<Rightarrow> run_summary list \<Rightarrow> jsstr option" where
  "activeRunIdAfter activeRunId runs =
     (case activeRunId of
        None \<Rightarrow> None
      | Some active \<Rightarrow>
          (case find (\<lambda>run. rsRunId run = active) runs of
             None \<Rightarrow> None
           | Some tracked \<Rightarrow> if isTerminalRunState (rsState tracked) then None else Some active))"

text \<open>The search after the tracked run has not decided.\<close>

definition first_live_run :: "run_summary list \<Rightarrow> jsstr option" where
  "first_live_run runs =
     map_option rsRunId (find (\<lambda>run. \<not> isTerminalRunState (rsState run)) runs)"

definition cancelRunTarget :: "jsstr option \<Rightarrow> run_summary list \<Rightarrow> jsstr option" where
  "cancelRunTarget activeRunId runs =
     (case activeRunId of
        None \<Rightarrow> first_live_run runs
      | Some active \<Rightarrow>
          (case find (\<lambda>run. rsRunId run = active) runs of
             Some tracked \<Rightarrow>
               if isTerminalRunState (rsState tracked) then None else Some (rsRunId tracked)
           | None \<Rightarrow> first_live_run runs))"

section \<open>The snapshot store\<close>

datatype fieldval = FPrim jsval | FObj nat jsval

text \<open>\<open>a === b\<close>; \<open>NaN\<close> is not equal to itself.\<close>

definition prim_eq :: "jsval \<Rightarrow> jsval \<Rightarrow> bool" where
  "prim_eq a b \<longleftrightarrow> a = b \<and> a \<noteq> JNum NaN"

fun strict_eq :: "fieldval \<Rightarrow> fieldval \<Rightarrow> bool" where
  "strict_eq (FPrim a) (FPrim b) = prim_eq a b"
| "strict_eq (FObj m _) (FObj n _) = (m = n)"
| "strict_eq _ _ = False"

type_synonym snapshot = "fieldval props"

definition fget :: "snapshot \<Rightarrow> jsstr \<Rightarrow> fieldval" where
  "fget st k = (case map_of st k of Some v \<Rightarrow> v | None \<Rightarrow> FPrim JUndef)"

text \<open>The empty arrays of the fresh snapshot are objects; their addresses are a parameter.\<close>

definition emptySnapshot :: "(nat \<Rightarrow> nat) \<Rightarrow> snapshot" where
  "emptySnapshot fresh =
     [(js ''daemon'', FPrim (JStr (js ''stopped''))), (js ''daemonDetail'', FPrim (JStr [])),
      (js ''baseUrl'', FPrim JNull), (js ''session'', FPrim JNull),
      (js ''machineState'', FPrim (JStr (js ''unknown''))),
      (js ''machineLabel'', FPrim (JStr (js ''Daemon stopped''))),
      (js ''sessions'', FObj (fresh 0) (JArr [])), (js ''runs'', FObj (fresh 1) (JArr [])),
      (js ''activeRunId'', FPrim JNull), (js ''agents'', FObj (fresh 2) (JArr [])),
      (js ''task'', FPrim JNull), (js ''verification'', FPrim JNull), (js ''usage'', FPrim JNull),
      (js ''cockpit'', FPrim JNull), (js ''cockpitSections'', FObj (fresh 3) (JArr [])),
      (js ''tournament'', FPrim JNull), (js ''board'', FPrim JNull),
      (js ''transcript'', FObj (fresh 4) (JArr [])), (js ''streamStatus'', FPrim (JStr (js ''stopped''))),
      (js ''lastError'', FPrim JNull), (js ''busy'', FPrim (JBool False))]"

record store =
  stState :: snapshot
  stListeners :: "nat list"
  stCalls :: "(nat \<times> snapshot) list"

definition new_store :: "(nat \<Rightarrow> nat) \<Rightarrow> store" where
  "new_store fresh = \<lparr>stState = emptySnapshot fresh, stListeners = [], stCalls = []\<rparr>"

definition subscribe :: "store \<Rightarrow> nat \<Rightarrow> store" where
  "subscribe st l =
     (if List.member (stListeners st) l then st else st\<lparr>stListeners := stListeners st @ [l]\<rparr>)"

definition unsubscribe :: "store \<Rightarrow> nat \<Rightarrow> store" where
  "unsubscribe st l = st\<lparr>stListeners := filter (\<lambda>m. m \<noteq> l) (stListeners st)\<rparr>"

definition emit :: "store \<Rightarrow> store" where
  "emit st = st\<lparr>stCalls := stCalls st @ map (\<lambda>l. (l, stState st)) (stListeners st)\<rparr>"

text \<open>\<open>state.session?.id ?? null\<close>\<close>

definition session_id :: "snapshot \<Rightarrow> jsval" where
  "session_id st =
     (case fget st (js ''session'') of
        FObj _ (JObj ps) \<Rightarrow> coalesce (jget ps (js ''id'')) JNull
      | _ \<Rightarrow> JNull)"

definition is_stopped :: "snapshot \<Rightarrow> bool" where
  "is_stopped st = strict_eq (fget st (js ''daemon'')) (FPrim (JStr (js ''stopped'')))"

text \<open>One entry of the loop over the patch.\<close>

definition patch_entry :: "snapshot \<times> bool \<Rightarrow> jsstr \<times> fieldval \<Rightarrow> snapshot \<times> bool" where
  "patch_entry acc kv =
     (case (acc, kv) of ((next, changed), (key, v)) \<Rightarrow>
        if v \<noteq> FPrim JUndef \<and> \<not> strict_eq (fget next key) v
        then (jassign next key v, True) else (next, changed))"

definition patch :: "store \<Rightarrow> snapshot \<Rightarrow> store" where
  "patch st p =
     (case foldl patch_entry (stState st, False) p of
        (next, changed) \<Rightarrow>
          if \<not> changed then st
          else
            (let previous = stState st;
                 sessionChanged = (\<not> prim_eq (session_id next) (session_id previous));
                 stopped = (is_stopped next \<and> \<not> is_stopped previous);
                 nextState =
                   (if sessionChanged \<or> stopped
                    then jassign (jassign next (js ''tournament'') (FPrim JNull)) (js ''board'') (FPrim JNull)
                    else next)
             in emit (st\<lparr>stState := nextState\<rparr>)))"

section \<open>Runs: facts\<close>

lemma find_Some_pred: "find P xs = Some x \<Longrightarrow> P x \<and> x \<in> set xs"
  by (auto simp: find_Some_iff)

lemma first_live_run_Some:
  "first_live_run runs = Some target \<Longrightarrow>
     list_ex (\<lambda>run. rsRunId run = target \<and> \<not> isTerminalRunState (rsState run)) runs"
  by (auto simp: first_live_run_def list_ex_iff dest!: find_Some_pred)

lemma first_live_run_None:
  "first_live_run runs = None \<longleftrightarrow> list_all (\<lambda>run. isTerminalRunState (rsState run)) runs"
  by (auto simp: first_live_run_def find_None_iff list_all_iff)

text \<open>
  A cancel never targets a finished run: the target is always the id of a listed
  run that is not terminal.  There is no target exactly when the tracked run is listed
  and has finished, even while another run is live, or when no tracked run is listed
  and every listed run has finished.
\<close>

theorem cancelRunTarget_live:
  "(case cancelRunTarget tracked runs of
      Some target \<Rightarrow> list_ex (\<lambda>run. rsRunId run = target \<and> \<not> isTerminalRunState (rsState run)) runs
    | None \<Rightarrow>
        (case Option.bind tracked (\<lambda>active. find (\<lambda>run. rsRunId run = active) runs) of
           Some run \<Rightarrow> isTerminalRunState (rsState run)
         | None \<Rightarrow> list_all (\<lambda>run. isTerminalRunState (rsState run)) runs))"
proof (cases "Option.bind tracked (\<lambda>active. find (\<lambda>run. rsRunId run = active) runs)")
  case None
  then have "cancelRunTarget tracked runs = first_live_run runs"
    by (auto simp: cancelRunTarget_def split: option.split)
  then show ?thesis
    using None first_live_run_Some first_live_run_None by (auto split: option.split)
next
  case (Some run)
  then obtain active where active: "tracked = Some active" "find (\<lambda>run. rsRunId run = active) runs = Some run"
    by (auto simp: bind_eq_Some_conv)
  then show ?thesis
    using find_Some_pred [OF active(2)] by (auto simp: cancelRunTarget_def list_ex_iff)
qed

text \<open>
  A tracked run stays tracked exactly while it is listed and not terminal, and
  then it is also the run a cancel targets, so the busy state and the cancel button
  agree.
\<close>

theorem activeRunIdAfter_cancellable:
  assumes "activeRunIdAfter tracked runs = Some active"
  shows "tracked = Some active \<and> cancelRunTarget tracked runs = Some active
     \<and> activeRunIdAfter (Some active) runs = Some active"
  using assms
  by (auto simp: activeRunIdAfter_def cancelRunTarget_def dest: find_Some_pred split: option.splits if_splits)

definition demo_run :: "string \<Rightarrow> string \<Rightarrow> run_summary" where
  "demo_run i st =
     \<lparr>rsTaskId = js ''t'', rsRunId = js i, rsMode = js ''task'', rsState = js st, rsGoal = None,
      rsModel = None\<rparr>"

theorem activeRunIdAfter_cancellable_witness:
  "cancelRunTarget (Some (js ''r2'')) [demo_run ''r1'' '' Done '', demo_run ''r2'' ''running'']
     = Some (js ''r2'')"
proof -
  have "activeRunIdAfter (Some (js ''r2'')) [demo_run ''r1'' '' Done '', demo_run ''r2'' ''running'']
      = Some (js ''r2'')"
    by code_simp
  from activeRunIdAfter_cancellable [OF this] show ?thesis by simp
qed

section \<open>The store: facts\<close>

definition differs :: "snapshot \<Rightarrow> jsstr \<times> fieldval \<Rightarrow> bool" where
  "differs st kv = (case kv of (key, v) \<Rightarrow> v \<noteq> FPrim JUndef \<and> \<not> strict_eq (fget st key) v)"

lemma patch_entry_simp:
  "patch_entry (next, changed) (key, v) =
     (if differs next (key, v) then (jassign next key v, True) else (next, changed))"
  by (simp add: patch_entry_def differs_def)

lemma fget_jassign [simp]:
  "fget (jassign st k v) k' = (if k' = k \<and> k \<noteq> js ''__proto__'' then v else fget st k')"
  by (simp add: fget_def jassign_def)

lemma foldl_patch_entry_flag: "snd (foldl patch_entry (next, True) p)"
  by (induction p arbitrary: "next") (auto simp: patch_entry_simp)

lemma foldl_patch_entry_changed:
  "snd (foldl patch_entry (st, False) p) \<longleftrightarrow> list_ex (differs st) p"
  by (induction p) (auto simp: patch_entry_simp foldl_patch_entry_flag split: if_splits)

lemma foldl_patch_entry_same:
  "\<not> list_ex (differs st) p \<Longrightarrow> foldl patch_entry (st, False) p = (st, False)"
  by (induction p) (auto simp: patch_entry_simp)

lemma foldl_patch_entry_fget:
  "fget (fst (foldl patch_entry (st, b) p)) k = fget st k \<or>
     (k, fget (fst (foldl patch_entry (st, b) p)) k) \<in> set p"
proof (induction p arbitrary: st b)
  case (Cons kv p)
  obtain key v where kv: "kv = (key, v)" by fastforce
  show ?case
  proof (cases "differs st (key, v)")
    case True
    have step: "foldl patch_entry (st, b) (kv # p) = foldl patch_entry (jassign st key v, True) p"
      using True by (simp add: kv patch_entry_simp)
    show ?thesis
      using Cons.IH [of "jassign st key v" True] unfolding step
      by (auto simp: kv split: if_splits)
  next
    case False
    have step: "foldl patch_entry (st, b) (kv # p) = foldl patch_entry (st, b) p"
      using False by (simp add: kv patch_entry_simp)
    show ?thesis
      using Cons.IH [of st b] unfolding step by auto
  qed
qed simp

text \<open>What \<open>patch\<close> leaves in the state.\<close>

definition switches :: "snapshot \<Rightarrow> snapshot \<Rightarrow> bool" where
  "switches previous next \<longleftrightarrow>
     \<not> prim_eq (session_id next) (session_id previous) \<or> (is_stopped next \<and> \<not> is_stopped previous)"

definition merged_state :: "snapshot \<Rightarrow> snapshot \<Rightarrow> snapshot" where
  "merged_state st p = fst (foldl patch_entry (st, False) p)"

lemma patch_unchanged: "\<not> list_ex (differs (stState st)) p \<Longrightarrow> patch st p = st"
  by (simp add: patch_def foldl_patch_entry_same)

lemma patch_changed:
  assumes "list_ex (differs (stState st)) p"
  defines "next \<equiv> merged_state (stState st) p"
  shows "patch st p = emit (st\<lparr>stState :=
     (if switches (stState st) next
      then jassign (jassign next (js ''tournament'') (FPrim JNull)) (js ''board'') (FPrim JNull)
      else next)\<rparr>)"
proof -
  obtain n c where f: "foldl patch_entry (stState st, False) p = (n, c)" by fastforce
  with assms(1) foldl_patch_entry_changed [of "stState st" p] have "c" by simp
  moreover have "next = n" by (simp add: next_def merged_state_def f)
  ultimately show ?thesis
    by (simp add: patch_def f switches_def Let_def)
qed

lemma emit_simps [simp]: "stState (emit st) = stState st" "stListeners (emit st) = stListeners st"
  by (simp_all add: emit_def)

text \<open>
  Every change is announced once and nothing else is: a patch whose fields are all
  undefined or identical to the current ones leaves the store alone and calls nobody;
  any other patch calls every subscribed listener exactly once, in subscription order,
  with the new state, and keeps the subscriptions.
\<close>

theorem patch_notifies:
  "if list_ex (\<lambda>(key, v). v \<noteq> FPrim JUndef \<and> \<not> strict_eq (fget (stState st) key) v) p
   then stCalls (patch st p) = stCalls st @ map (\<lambda>l. (l, stState (patch st p))) (stListeners st)
     \<and> stListeners (patch st p) = stListeners st
   else patch st p = st"
proof -
  have d: "(\<lambda>(key, v). v \<noteq> FPrim JUndef \<and> \<not> strict_eq (fget (stState st) key) v) = differs (stState st)"
    by (simp add: fun_eq_iff differs_def)
  show ?thesis
    unfolding d using patch_unchanged patch_changed by (simp add: emit_def)
qed

text \<open>One patch: a panel that is on display after it was patched in now, or was there
  before and the session did not change.\<close>

lemma panel_step:
  assumes "k = js ''board'' \<or> k = js ''tournament''"
    and shown: "fget (stState (patch st p)) k \<noteq> FPrim JNull"
  defines "st' \<equiv> patch st p"
  shows "((k, fget (stState st') k) \<in> set p \<or>
       fget (stState st') k = fget (stState st) k \<and> session_id (stState st') = session_id (stState st)
       \<and> (is_stopped (stState st') \<longrightarrow> is_stopped (stState st)))"
proof (cases "list_ex (differs (stState st)) p")
  case False
  then show ?thesis by (simp add: st'_def patch_unchanged)
next
  case True
  have k: "k \<noteq> js ''__proto__''" using assms(1) by auto
  let ?next = "merged_state (stState st) p"
  have "\<not> switches (stState st) ?next"
  proof
    assume "switches (stState st) ?next"
    then have "fget (stState (patch st p)) k = FPrim JNull"
      using assms(1) by (auto simp: patch_changed [OF True])
    with shown show False by contradiction
  qed
  then have "stState st' = ?next" and "session_id ?next = session_id (stState st)"
    and "is_stopped ?next \<longrightarrow> is_stopped (stState st)"
    using patch_changed [OF True] by (auto simp: st'_def switches_def prim_eq_def)
  then show ?thesis
    using foldl_patch_entry_fget [of "stState st" False p k] by (auto simp: merged_state_def)
qed

text \<open>
  \<open>shown_since fresh ps k n v\<close>: the \<open>n\<close>-th patch carries \<open>v\<close> for the field \<open>k\<close>, and after
  it neither the session has changed nor the daemon has stopped.
\<close>

definition after :: "(nat \<Rightarrow> nat) \<Rightarrow> snapshot list \<Rightarrow> nat \<Rightarrow> snapshot" where
  "after fresh ps m = stState (foldl patch (new_store fresh) (take m ps))"

definition shown_since :: "(nat \<Rightarrow> nat) \<Rightarrow> snapshot list \<Rightarrow> jsstr \<Rightarrow> nat \<Rightarrow> fieldval \<Rightarrow> bool" where
  "shown_since fresh ps k n v \<longleftrightarrow> n < length ps \<and> (k, v) \<in> set (ps ! n)
     \<and> (\<forall>m. n < m \<and> m \<le> length ps \<longrightarrow>
          session_id (after fresh ps m) = session_id (after fresh ps (length ps))
          \<and> (n < m - 1 \<and> is_stopped (after fresh ps m) \<longrightarrow> is_stopped (after fresh ps (m - 1))))"

lemma after_snoc: "m \<le> length ps \<Longrightarrow> after fresh (ps @ [p]) m = after fresh ps m"
  by (simp add: after_def)

lemma shown_since_now:
  "(k, v) \<in> set p \<Longrightarrow> shown_since fresh (ps @ [p]) k (length ps) v"
  by (auto simp: shown_since_def le_Suc_eq)

lemma shown_since_later:
  assumes since: "shown_since fresh ps k n v"
    and same: "session_id (after fresh (ps @ [p]) (Suc (length ps))) = session_id (after fresh ps (length ps))"
    and running: "is_stopped (after fresh (ps @ [p]) (Suc (length ps))) \<longrightarrow> is_stopped (after fresh ps (length ps))"
  shows "shown_since fresh (ps @ [p]) k n v"
  unfolding shown_since_def
proof (intro conjI allI impI)
  show "n < length (ps @ [p])" and "(k, v) \<in> set ((ps @ [p]) ! n)"
    using since unfolding shown_since_def by (auto simp: nth_append)
next
  fix m assume m: "n < m \<and> m \<le> length (ps @ [p])"
  show "session_id (after fresh (ps @ [p]) m) = session_id (after fresh (ps @ [p]) (length (ps @ [p])))"
  proof (cases "m = Suc (length ps)")
    case False
    with m have le: "m \<le> length ps" by simp
    with since m have "session_id (after fresh ps m) = session_id (after fresh ps (length ps))"
      unfolding shown_since_def by blast
    with same show ?thesis by (simp add: after_snoc [OF le])
  qed simp
next
  fix m assume m: "n < m \<and> m \<le> length (ps @ [p])"
    and st: "n < m - 1 \<and> is_stopped (after fresh (ps @ [p]) m)"
  show "is_stopped (after fresh (ps @ [p]) (m - 1))"
  proof (cases "m = Suc (length ps)")
    case True
    with st running show ?thesis by (simp add: after_snoc)
  next
    case False
    with m have "m \<le> length ps" by simp
    with since m have "n < m - 1 \<and> is_stopped (after fresh ps m) \<longrightarrow> is_stopped (after fresh ps (m - 1))"
      unfolding shown_since_def by blast
    with st \<open>m \<le> length ps\<close> show ?thesis by (simp add: after_snoc)
  qed
qed

text \<open>
  C36.  The panels never bleed across sessions: whatever sequence of patches the store
  has seen since the start, a board (or a tournament) on display was put there by one
  of them, and from that patch on the session has been the one on display now and the
  daemon has not been stopped.
\<close>

theorem panels_of_current_session:
  assumes "k \<in> {js ''board'', js ''tournament''}"
    and "fget (stState (foldl patch (new_store fresh) ps)) k \<noteq> FPrim JNull"
  shows "\<exists>n. shown_since fresh ps k n (fget (stState (foldl patch (new_store fresh) ps)) k)"
  using assms(2)
proof (induction ps rule: rev_induct)
  case Nil
  then show ?case using assms(1) by (auto simp: new_store_def emptySnapshot_def fget_def)
next
  case (snoc p ps)
  let ?s = "foldl patch (new_store fresh) ps"
  have k: "k = js ''board'' \<or> k = js ''tournament''" using assms(1) by auto
  have f: "foldl patch (new_store fresh) (ps @ [p]) = patch ?s p"
    "after fresh (ps @ [p]) (Suc (length ps)) = stState (patch ?s p)" "after fresh ps (length ps) = stState ?s"
    by (simp_all add: after_def)
  consider "(k, fget (stState (patch ?s p)) k) \<in> set p"
    | "fget (stState (patch ?s p)) k = fget (stState ?s) k"
      "session_id (stState (patch ?s p)) = session_id (stState ?s)"
      "is_stopped (stState (patch ?s p)) \<longrightarrow> is_stopped (stState ?s)"
    using panel_step [OF k, of ?s p] snoc.prems unfolding f by blast
  then show ?case
  proof cases
    case 1
    then show ?thesis unfolding f using shown_since_now by blast
  next
    case 2
    with snoc.prems f have "fget (stState ?s) k \<noteq> FPrim JNull" by simp
    from snoc.IH [OF this] obtain n where n: "shown_since fresh ps k n (fget (stState ?s) k)" ..
    have "shown_since fresh (ps @ [p]) k n (fget (stState ?s) k)"
      by (rule shown_since_later [OF n]) (simp_all only: f(2,3) 2(2), rule 2(3))
    then show ?thesis unfolding f 2(1) ..
  qed
qed

definition session_patch :: "nat \<Rightarrow> string \<Rightarrow> snapshot" where
  "session_patch addr i = [(js ''session'', FObj addr (JObj [(js ''id'', JStr (js i))]))]"

definition board_patch :: "nat \<Rightarrow> snapshot" where
  "board_patch addr = [(js ''board'', FObj addr (JObj []))]"

theorem panels_of_current_session_witness:
  "fget (stState (foldl patch (new_store id) [session_patch 7 ''s1'', board_patch 8, session_patch 9 ''s2'']))
      (js ''board'') = FPrim JNull
   \<and> (\<exists>n. shown_since id [session_patch 7 ''s1'', board_patch 8] (js ''board'') n (FObj 8 (JObj [])))"
proof
  show "fget (stState (foldl patch (new_store id) [session_patch 7 ''s1'', board_patch 8, session_patch 9 ''s2'']))
      (js ''board'') = FPrim JNull"
    by code_simp
  have b: "fget (stState (foldl patch (new_store id) [session_patch 7 ''s1'', board_patch 8])) (js ''board'')
      = FObj 8 (JObj [])"
    by code_simp
  show "\<exists>n. shown_since id [session_patch 7 ''s1'', board_patch 8] (js ''board'') n (FObj 8 (JObj []))"
    using panels_of_current_session [of "js ''board''" id "[session_patch 7 ''s1'', board_patch 8]"]
    unfolding b by auto
qed

end
