(* ===== verification/Board.thy ===== *)
theory Board
  imports Interfaces
begin

text \<open>
  The coordination board of \<open>apps/vscode/src/state.ts\<close>: the host-side validation of
  \<open>boardRead\<close> and \<open>boardPost\<close> requests, and the projection of one native board page
  (\<open>NativeBoardPost\<close>, \<open>NativeBoardPage\<close> of \<open>nativeClient.ts\<close>) onto the snapshot.
  A refused request is \<open>Inl\<close> of the reason text.
\<close>

section \<open>Bounds and data\<close>

definition MAX_BOARD_SUBJECT_BYTES :: nat where [cap_simps]: "MAX_BOARD_SUBJECT_BYTES = 512"
definition MAX_BOARD_BODY_BYTES :: nat where [cap_simps]: "MAX_BOARD_BODY_BYTES = 16 * 1024"
definition MAX_BOARD_REFS :: nat where [cap_simps]: "MAX_BOARD_REFS = 32"
definition MAX_BOARD_REF_BYTES :: nat where [cap_simps]: "MAX_BOARD_REF_BYTES = 1024"
definition MAX_BOARD_PAGE :: nat where [cap_simps]: "MAX_BOARD_PAGE = 100"

record native_board_post =
  nbId :: int
  nbBoardId :: int
  nbAuthorChild :: "int option"
  nbAuthorSession :: int
  nbSubject :: jsstr
  nbBody :: jsstr
  nbRefs :: "jsstr list"
  nbRevision :: int
  nbCreatedMs :: int

record native_board_page =
  npBoardId :: int
  npRevision :: int
  npPosts :: "native_board_post list"
  npNextBefore :: "int option"
  npHasMore :: bool

record board_post_summary =
  bpId :: jsstr
  bpAuthor :: jsstr
  bpSubject :: jsstr
  bpBody :: jsstr
  bpRefs :: "jsstr list"
  bpRevision :: "int option"
  bpCreatedMs :: "int option"

record board_state_summary =
  bsAvailable :: bool
  bsSource :: jsstr
  bsRevision :: "int option"
  bsUnread :: "int option"
  bsPosts :: "board_post_summary list"
  bsReason :: "jsstr option"

section \<open>The board on display\<close>

definition unavailableBoardState :: "jsstr \<Rightarrow> jsstr \<Rightarrow> board_state_summary" where
  "unavailableBoardState reason source =
     \<lparr>bsAvailable = False, bsSource = source, bsRevision = None, bsUnread = None, bsPosts = [],
      bsReason = Some (clip 240 reason)\<rparr>"

definition boundText :: "jsstr \<Rightarrow> nat \<Rightarrow> jsstr" where
  "boundText v maxBytes =
     (if utf8_length v \<le> maxBytes then v else take maxBytes v @ ellipsis)"

definition board_post :: "native_board_post \<Rightarrow> board_post_summary" where
  "board_post post =
     \<lparr>bpId = number_string (num_of_int (nbId post)),
      bpAuthor = (case nbAuthorChild post of
          None \<Rightarrow> js ''root'' | Some c \<Rightarrow> js ''child:'' @ number_string (num_of_int c)),
      bpSubject = boundText (nbSubject post) MAX_BOARD_SUBJECT_BYTES,
      bpBody = boundText (nbBody post) MAX_BOARD_BODY_BYTES,
      bpRefs = map (\<lambda>ref. boundText ref MAX_BOARD_REF_BYTES) (take MAX_BOARD_REFS (nbRefs post)),
      bpRevision = Some (nbRevision post), bpCreatedMs = Some (nbCreatedMs post)\<rparr>"

definition count_unread :: "int \<Rightarrow> native_board_post list \<Rightarrow> int" where
  "count_unread seen posts =
     foldl (\<lambda>unread post. if nbRevision post > seen then unread + 1 else unread) 0 posts"

definition boardStateFromPage ::
  "native_board_page \<Rightarrow> int option \<Rightarrow> board_state_summary \<times> int" where
  "boardStateFromPage page seenRevision =
     (let seen = (case seenRevision of Some r \<Rightarrow> r | None \<Rightarrow> 0)
      in (\<lparr>bsAvailable = True, bsSource = js ''native'', bsRevision = Some (npRevision page),
           bsUnread = Some (count_unread seen (npPosts page)),
           bsPosts = map board_post (take MAX_BOARD_PAGE (npPosts page)), bsReason = None\<rparr>,
          npRevision page))"

section \<open>Requests\<close>

definition refuse :: "string \<Rightarrow> jsstr + 'a" where
  "refuse reason = Inl (js reason)"

definition parse_since :: "jsval \<Rightarrow> jsstr + int option" where
  "parse_since rawSince =
     (if nullish rawSince then Inr None
      else (case rawSince of
          JNum x \<Rightarrow>
            if is_integer x \<and> int_of_num x > 0 \<and> is_safe_integer x
            then Inr (Some (int_of_num x))
            else refuse ''boardRead.since must be a positive integer cursor''
        | _ \<Rightarrow> refuse ''boardRead.since must be a positive integer cursor''))"

definition parse_limit :: "jsval \<Rightarrow> jsstr + int option" where
  "parse_limit rawLimit =
     (if nullish rawLimit then Inr None
      else (case rawLimit of
          JNum x \<Rightarrow>
            if is_integer x \<and> int_of_num x > 0 \<and> int_of_num x \<le> int MAX_BOARD_PAGE
            then Inr (Some (int_of_num x))
            else refuse ''boardRead.limit must be an integer in 1..100''
        | _ \<Rightarrow> refuse ''boardRead.limit must be an integer in 1..100''))"

definition parseBoardReadRequest :: "jsval \<Rightarrow> jsval \<Rightarrow> jsstr + int option \<times> int option" where
  "parseBoardReadRequest rawSince rawLimit =
     (case parse_since rawSince of
        Inl reason \<Rightarrow> Inl reason
      | Inr since \<Rightarrow>
          (case parse_limit rawLimit of
             Inl reason \<Rightarrow> Inl reason
           | Inr limit \<Rightarrow> Inr (since, limit)))"

record board_post_request =
  brSubject :: jsstr
  brBody :: jsstr
  brRefs :: "jsstr list"

definition ref_reason :: "nat \<Rightarrow> string \<Rightarrow> jsstr" where
  "ref_reason i what = js ''boardPost.refs['' @ decimal_nat i @ js what"

text \<open>The loop over the references from index \<open>i\<close> on, with the ones read so far.\<close>

fun parse_refs :: "nat \<Rightarrow> jsstr list \<Rightarrow> jsval list \<Rightarrow> jsstr + jsstr list" where
  "parse_refs i refs [] = Inr refs"
| "parse_refs i refs (v # vs) =
     (case v of
        JStr ref \<Rightarrow>
          if trim ref = [] then Inl (ref_reason i ''] must be a non-empty string'')
          else if utf8_length ref > MAX_BOARD_REF_BYTES
            then Inl (ref_reason i ''] exceeds 1024 bytes'')
          else parse_refs (Suc i) (refs @ [trim ref]) vs
      | _ \<Rightarrow> Inl (ref_reason i ''] must be a non-empty string''))"

definition parse_ref_list :: "jsval \<Rightarrow> jsstr + jsstr list" where
  "parse_ref_list rawRefs =
     (if nullish rawRefs then Inr []
      else (case rawRefs of
          JArr vs \<Rightarrow>
            if length vs > MAX_BOARD_REFS then refuse ''boardPost.refs exceeds 32 entries''
            else parse_refs 0 [] vs
        | _ \<Rightarrow> refuse ''boardPost.refs must be an array of strings''))"

definition parseBoardPostRequest :: "jsval props \<Rightarrow> jsstr + board_post_request" where
  "parseBoardPostRequest raw =
     (let subject = (case jget raw (js ''subject'') of JStr s \<Rightarrow> trim s | _ \<Rightarrow> [])
      in if length subject = 0 then refuse ''boardPost.subject must be a non-empty string''
         else if utf8_length subject > MAX_BOARD_SUBJECT_BYTES
           then refuse ''boardPost.subject exceeds 512 bytes''
         else (case jget raw (js ''body'') of
             JStr body \<Rightarrow>
               if length (trim body) = 0 then refuse ''boardPost.body must be non-empty''
               else if utf8_length body > MAX_BOARD_BODY_BYTES
                 then refuse ''boardPost.body exceeds 16384 bytes''
               else (case parse_ref_list (jget raw (js ''refs'')) of
                   Inl reason \<Rightarrow> Inl reason
                 | Inr refs \<Rightarrow> Inr \<lparr>brSubject = subject, brBody = body, brRefs = refs\<rparr>)
           | _ \<Rightarrow> refuse ''boardPost.body must be a string''))"

section \<open>Requests: facts\<close>

definition ref_ok :: "jsstr \<Rightarrow> bool" where
  "ref_ok ref \<longleftrightarrow> ref \<noteq> [] \<and> trim ref = ref \<and> utf8_length ref \<le> 1024"

definition post_ok :: "board_post_request \<Rightarrow> bool" where
  "post_ok r \<longleftrightarrow> brSubject r \<noteq> [] \<and> trim (brSubject r) = brSubject r \<and> utf8_length (brSubject r) \<le> 512
     \<and> trim (brBody r) \<noteq> [] \<and> utf8_length (brBody r) \<le> 16384
     \<and> length (brRefs r) \<le> 32 \<and> list_all ref_ok (brRefs r)"

definition post_raw :: "board_post_request \<Rightarrow> jsval props" where
  "post_raw r = [(js ''subject'', JStr (brSubject r)), (js ''body'', JStr (brBody r)),
     (js ''refs'', JArr (map JStr (brRefs r)))]"

lemma parse_refs_ok:
  "parse_refs i acc vs = Inr refs \<Longrightarrow>
     \<exists>new. refs = acc @ new \<and> length new = length vs \<and> list_all ref_ok new"
proof (induction i acc vs arbitrary: refs rule: parse_refs.induct)
  case (2 i acc v vs)
  then obtain ref where ref: "v = JStr ref" "trim ref \<noteq> []" "utf8_length ref \<le> 1024"
      "parse_refs (Suc i) (acc @ [trim ref]) vs = Inr refs"
    by (auto split: jsval.splits if_splits simp: cap_simps)
  then obtain new where "refs = (acc @ [trim ref]) @ new" "length new = length vs" "list_all ref_ok new"
    using "2.IH" [OF ref(1) ref(2)] by (auto simp: cap_simps)
  moreover have "ref_ok (trim ref)"
    using ref(2,3) utf8_length_trim [of ref] by (simp add: ref_ok_def)
  ultimately show ?case by (intro exI [of _ "trim ref # new"]) simp
qed simp

lemma parse_refs_accepts:
  "list_all ref_ok refs \<Longrightarrow> parse_refs i acc (map JStr refs) = Inr (acc @ refs)"
  by (induction refs arbitrary: i acc) (auto simp: ref_ok_def cap_simps)

lemma parse_ref_list_ok:
  "parse_ref_list raw = Inr refs \<Longrightarrow> length refs \<le> 32 \<and> list_all ref_ok refs"
  by (auto simp: parse_ref_list_def refuse_def cap_simps dest!: parse_refs_ok
      split: if_splits jsval.splits)

lemma parse_ref_list_accepts:
  "length refs \<le> 32 \<Longrightarrow> list_all ref_ok refs \<Longrightarrow> parse_ref_list (JArr (map JStr refs)) = Inr refs"
  by (simp add: parse_ref_list_def parse_refs_accepts nullish_def cap_simps)

lemma parse_post_ok: "parseBoardPostRequest raw = Inr r \<Longrightarrow> post_ok r"
proof -
  assume p: "parseBoardPostRequest raw = Inr r"
  obtain body refs where b: "jget raw (js ''body'') = JStr body"
    and refs: "parse_ref_list (jget raw (js ''refs'')) = Inr refs"
    and r: "brBody r = body" "brRefs r = refs" "trim body \<noteq> []" "utf8_length body \<le> 16384"
    using p by (auto simp: parseBoardPostRequest_def refuse_def Let_def cap_simps
        split: if_splits jsval.splits sum.splits)
  have "brSubject r \<noteq> [] \<and> trim (brSubject r) = brSubject r \<and> utf8_length (brSubject r) \<le> 512"
    using p b refs by (auto simp: parseBoardPostRequest_def refuse_def Let_def cap_simps
        split: if_splits jsval.splits)
  with r parse_ref_list_ok [OF refs] show ?thesis by (simp add: post_ok_def)
qed

text \<open>
  What the host sends as a board post is within the bounds of the durable authority
  and in normal form: a non-empty trimmed subject of at most 512 bytes, a non-blank body
  of at most 16384 bytes and at most 32 trimmed non-empty references of at most 1024
  bytes; validating an accepted request again accepts it unchanged.
\<close>

theorem parseBoardPostRequest_normal:
  assumes "parseBoardPostRequest raw = Inr r"
  shows "post_ok r \<and> parseBoardPostRequest (post_raw r) = Inr r"
proof -
  from assms have ok: "post_ok r" by (rule parse_post_ok)
  then have "parse_ref_list (JArr (map JStr (brRefs r))) = Inr (brRefs r)"
    by (simp add: post_ok_def parse_ref_list_accepts)
  with ok have "parseBoardPostRequest (post_raw r) = Inr r"
    by (simp add: parseBoardPostRequest_def post_raw_def post_ok_def jget_def cap_simps)
  with ok show ?thesis ..
qed

theorem parseBoardPostRequest_normal_witness:
  "post_ok \<lparr>brSubject = js ''plan'', brBody = js '' done '', brRefs = [js ''a'']\<rparr>"
proof -
  have "parseBoardPostRequest [(js ''subject'', JStr (js '' plan'')), (js ''body'', JStr (js '' done '')),
      (js ''refs'', JArr [JStr (js ''a '')])] =
    Inr \<lparr>brSubject = js ''plan'', brBody = js '' done '', brRefs = [js ''a'']\<rparr>"
    by code_simp
  from parseBoardPostRequest_normal [OF this] show ?thesis ..
qed

text \<open>
  A read request carries only cursors the daemon accepts: an accepted \<open>since\<close> is a
  positive safe integer and an accepted \<open>limit\<close> is in 1..100; an absent argument stays
  absent, and a refusal always names the argument.
\<close>

theorem parseBoardReadRequest_bounds:
  "case parseBoardReadRequest rawSince rawLimit of
     Inr (since, limit) \<Rightarrow>
       (case since of None \<Rightarrow> nullish rawSince | Some n \<Rightarrow> 0 < n \<and> n \<le> 2 ^ 53 - 1 \<and> rawSince = JNum (num_of_int n))
       \<and> (case limit of None \<Rightarrow> nullish rawLimit | Some n \<Rightarrow> 0 < n \<and> n \<le> 100 \<and> rawLimit = JNum (num_of_int n))
   | Inl reason \<Rightarrow>
       starts_with (js ''boardRead.since'') reason \<and> \<not> nullish rawSince
       \<or> starts_with (js ''boardRead.limit'') reason \<and> \<not> nullish rawLimit"
proof -
  have since: "case parse_since rawSince of
      Inr None \<Rightarrow> nullish rawSince
    | Inr (Some n) \<Rightarrow> 0 < n \<and> n \<le> 2 ^ 53 - 1 \<and> rawSince = JNum (num_of_int n)
    | Inl reason \<Rightarrow> starts_with (js ''boardRead.since'') reason \<and> \<not> nullish rawSince"
    by (auto simp: parse_since_def refuse_def is_safe_integer_def max_safe_integer_def is_integer_def int_of_num_def
        num_of_int_def starts_with_def js_def split: jsval.split jsnum.split)
  have limit: "case parse_limit rawLimit of
      Inr None \<Rightarrow> nullish rawLimit
    | Inr (Some n) \<Rightarrow> 0 < n \<and> n \<le> 100 \<and> rawLimit = JNum (num_of_int n)
    | Inl reason \<Rightarrow> starts_with (js ''boardRead.limit'') reason \<and> \<not> nullish rawLimit"
    by (auto simp: parse_limit_def refuse_def is_integer_def int_of_num_def cap_simps
        num_of_int_def starts_with_def js_def split: jsval.split jsnum.split)
  show ?thesis
    using since limit
    by (auto simp: parseBoardReadRequest_def split: sum.splits option.splits)
qed

section \<open>The board on display: facts\<close>

lemma length_boundText [bound_intros]: "length (boundText v n) \<le> Suc n"
  using length_le_utf8_length [of v] by (auto simp: boundText_def)

lemma count_unread_filter:
  "count_unread seen posts = int (length (filter (\<lambda>post. nbRevision post > seen) posts))"
proof -
  have "foldl (\<lambda>unread post. if nbRevision post > seen then unread + 1 else unread) n posts =
      n + int (length (filter (\<lambda>post. nbRevision post > seen) posts))" for n
    by (induction posts arbitrary: n) auto
  then show ?thesis by (simp add: count_unread_def)
qed

text \<open>
  A board page never floods the panel: whatever page the daemon serves, at most 100
  posts are shown, each with at most 513 characters of subject, 16385 of body and 32
  references of at most 1025 characters.
\<close>

theorem boardStateFromPage_bounded:
  "length (bsPosts (fst (boardStateFromPage page seen))) \<le> 100
   \<and> list_all (\<lambda>p. length (bpSubject p) \<le> 513 \<and> length (bpBody p) \<le> 16385 \<and> length (bpRefs p) \<le> 32
        \<and> list_all (\<lambda>ref. length ref \<le> 1025) (bpRefs p)) (bsPosts (fst (boardStateFromPage page seen)))"
  using length_boundText [of _ 512] length_boundText [of _ 16384] length_boundText [of _ 1024]
  by (auto simp: boardStateFromPage_def board_post_def list_all_iff cap_simps)

text \<open>
  The read watermark does what its comment says: reading a page with the watermark
  it returned leaves nothing unread (the daemon numbers posts up to the revision of the
  board), and an older watermark never shows fewer unread posts than a newer one.
\<close>

theorem board_watermark_reads_all:
  assumes "\<forall>post \<in> set (npPosts page). nbRevision post \<le> npRevision page"
    and "older \<le> newer"
  shows "bsUnread (fst (boardStateFromPage page (Some (snd (boardStateFromPage page seen))))) = Some 0
     \<and> the (bsUnread (fst (boardStateFromPage page (Some newer)))) \<le>
         the (bsUnread (fst (boardStateFromPage page (Some older))))"
proof -
  have none: "filter (\<lambda>post. nbRevision post > npRevision page) (npPosts page) = []"
    using assms(1) by (auto simp: filter_empty_conv not_less)
  have "length (filter (\<lambda>post. nbRevision post > newer) ps) \<le> length (filter (\<lambda>post. nbRevision post > older) ps)"
    for ps using assms(2) by (induction ps) auto
  then show ?thesis
    using none by (simp add: boardStateFromPage_def count_unread_filter)
qed

definition demo_page :: native_board_page where
  "demo_page = \<lparr>npBoardId = 1, npRevision = 2,
     npPosts = [\<lparr>nbId = 2, nbBoardId = 1, nbAuthorChild = None, nbAuthorSession = 4, nbSubject = js ''s'',
        nbBody = js ''b'', nbRefs = [], nbRevision = 2, nbCreatedMs = 0\<rparr>],
     npNextBefore = None, npHasMore = False\<rparr>"

theorem board_watermark_reads_all_witness:
  "bsUnread (fst (boardStateFromPage demo_page (Some (snd (boardStateFromPage demo_page None))))) = Some 0"
  using board_watermark_reads_all [of demo_page 0 1 None] by (simp add: demo_page_def)

end
