(* ===== verification/AgentSummary.thy ===== *)
theory AgentSummary
  imports Transcript PixelAgents
begin

text \<open>
  The child-inspection summaries of \<open>apps/vscode/src/state.ts\<close>: the bounding of free-form
  JSON (\<open>boundJson\<close>, \<open>capabilityOf\<close>), the blockers of an agent entry, and
  \<open>summarizeAgents\<close> with the catalog join and the persistent pixel presence.
\<close>

section \<open>Bounding JSON\<close>

definition MAX_SUMMARY_JSON_CHARS :: nat where [cap_simps]: "MAX_SUMMARY_JSON_CHARS = 8 * 1024"
definition MAX_SUMMARY_ARRAY :: nat where [cap_simps]: "MAX_SUMMARY_ARRAY = 64"
definition MAX_SUMMARY_KEYS :: nat where [cap_simps]: "MAX_SUMMARY_KEYS = 64"
definition MAX_SUMMARY_STRING :: nat where [cap_simps]: "MAX_SUMMARY_STRING = 512"

text \<open>
  \<open>boundJson\<close>.  The loop over the entries of an object carries the number of keys read
  and the total number of keys; \<open>Object.keys(value).length\<close> is that total.
  (\<open>undefined\<close> is no JSON value and never reaches the function.)
\<close>

fun boundJson :: "nat \<Rightarrow> jsval \<Rightarrow> jsval"
  and bound_items :: "nat \<Rightarrow> nat \<Rightarrow> jsval list \<Rightarrow> jsval list"
  and bound_entries :: "nat \<Rightarrow> nat \<Rightarrow> nat \<Rightarrow> jsval props \<Rightarrow> (jsstr \<times> jsval) list \<Rightarrow> jsval props" where
  "boundJson depth (JStr s) = JStr (clip MAX_SUMMARY_STRING s)"
| "boundJson depth (JArr vs) =
     (if depth \<ge> 6 then JStr ([91] @ ellipsis @ [93])
      else JArr (bound_items (Suc depth) MAX_SUMMARY_ARRAY vs))"
| "boundJson depth (JObj ps) =
     (if depth \<ge> 6 then JStr ([91] @ ellipsis @ [93])
      else JObj (bound_entries (Suc depth) 0 (length ps) [] ps))"
| "boundJson depth v = v"
| "bound_items depth n [] = []"
| "bound_items depth n (v # vs) =
     (if n = 0 then [] else boundJson depth v # bound_items depth (n - 1) vs)"
| "bound_entries depth keys count out [] = out"
| "bound_entries depth keys count out ((k, v) # ps) =
     (if keys \<ge> MAX_SUMMARY_KEYS
      then jassign out ellipsis (JStr (decimal_nat (count - keys) @ js '' more''))
      else bound_entries depth (Suc keys) count (jassign out k (boundJson depth v)) ps)"

definition boundedJsonText :: "jsval \<Rightarrow> jsstr" where
  "boundedJsonText v =
     (case stringify (boundJson 0 v) of
        None \<Rightarrow> js ''null''
      | Some encoded \<Rightarrow> clip MAX_SUMMARY_JSON_CHARS encoded)"

definition capabilityOf :: "jsval \<Rightarrow> jsstr" where
  "capabilityOf v = (case v of JStr s \<Rightarrow> clip MAX_SUMMARY_STRING s | _ \<Rightarrow> boundedJsonText v)"

section \<open>Blockers\<close>

definition push_blocker :: "jsstr list \<Rightarrow> jsval \<Rightarrow> jsstr list" where
  "push_blocker out v =
     (case v of
        JStr s \<Rightarrow> if length (trim s) > 0 then out @ [take MAX_SUMMARY_STRING (trim s)] else out
      | _ \<Rightarrow> out)"

definition pushObject :: "jsstr list \<Rightarrow> jsval \<Rightarrow> jsstr list" where
  "pushObject out v =
     (case v of
        JObj ps \<Rightarrow>
          (let out1 = foldl push_blocker out
                 [jget ps (js ''reason''), jget ps (js ''detail''), jget ps (js ''message''),
                  jget ps (js ''summary'')]
           in (case (asString (jget ps (js ''kind'')), asString (jget ps (js ''resolution''))) of
                 (Some kind, Some resolution) \<Rightarrow>
                   if length out1 > 0
                   then butlast out1 @ [kind @ js '': '' @ last out1 @ js '' ('' @ resolution @ js '')'']
                   else out1
               | _ \<Rightarrow> out1))
      | _ \<Rightarrow> out)"

definition push_entry :: "jsstr list \<Rightarrow> jsval \<Rightarrow> jsstr list" where
  "push_entry out entry =
     (case entry of JStr _ \<Rightarrow> push_blocker out entry | _ \<Rightarrow> pushObject out entry)"

definition agentBlockers :: "jsval props \<Rightarrow> jsstr list" where
  "agentBlockers agent =
     (let out1 = push_blocker (pushObject [] (jget agent (js ''blocker''))) (jget agent (js ''blocker''));
          out2 = (case jget agent (js ''blockers'') of
             JArr vs \<Rightarrow> foldl push_entry out1 (take 16 vs)
           | b \<Rightarrow> pushObject out1 b);
          out3 = (case jget agent (js ''progress'') of
             JObj ps \<Rightarrow>
               (let pb = coalesce (coalesce (jget ps (js ''blockers'')) (jget ps (js ''blocked_on'')))
                           (jget ps (js ''blocker''))
                in (case pb of
                      JArr vs \<Rightarrow> foldl push_entry out2 (take 16 vs)
                    | _ \<Rightarrow> push_blocker (pushObject out2 pb) pb))
           | _ \<Rightarrow> out2)
      in take 16 out3)"

section \<open>Summaries\<close>

record agent_model_info =
  amProvider :: jsstr
  amModel :: jsstr
  amReasoning :: bool
  amThinking :: bool
  amTools :: bool

datatype presentation = Foreground | Background

record agent_summary =
  asAgentId :: jsstr
  asKind :: jsstr
  asRunId :: jsstr
  asState :: jsstr
  asGoal :: jsstr
  asModel :: "jsstr option"
  asProvider :: "jsstr option"
  asReasoning :: "bool option"
  asThinking :: "bool option"
  asItemId :: "jsstr option"
  asItemKind :: "jsstr option"
  asItemIds :: "jsstr list"
  asSessionId :: "int option"
  asWorktreeId :: "int option"
  asOwnership :: jsstr
  asCapabilities :: "jsstr list"
  asProgress :: jsval
  asResult :: jsval
  asBudget :: "int option"
  asBlockers :: "jsstr list"
  asPresentation :: presentation
  asPixel :: pixel_presence

text \<open>The id of an entry that is listed: entries without one are skipped.\<close>

definition listed_agent :: "jsval \<Rightarrow> (jsstr \<times> jsval props) option" where
  "listed_agent raw =
     (case asObject raw of
        None \<Rightarrow> None
      | Some agent \<Rightarrow>
          (case asString (jget agent (js ''agent_id'')) of
             None \<Rightarrow> None
           | Some i \<Rightarrow> if i = [] then None else Some (i, agent)))"

definition frame_entry :: "jsstr \<times> jsval props \<Rightarrow> frame_agent" where
  "frame_entry a =
     (case a of (i, agent) \<Rightarrow>
        \<lparr>faAgentId = Some i, faAgent_id = None,
         faState = or_default (asString (jget agent (js ''state''))) (js ''unknown'')\<rparr>)"

definition nextPixelPresence :: "pixel_presence jsmap \<Rightarrow> jsval list \<Rightarrow> pixel_presence jsmap" where
  "nextPixelPresence previous agents =
     foldPixelPresence previous
       (List.map_filter (\<lambda>raw. map_option frame_entry (listed_agent raw)) agents)"

definition string_items :: "jsval \<Rightarrow> jsstr list" where
  "string_items v = (case v of JArr vs \<Rightarrow> List.map_filter asString vs | _ \<Rightarrow> [])"

definition catalog_info ::
  "agent_model_info list \<Rightarrow> jsstr option \<Rightarrow> jsstr option \<Rightarrow> agent_model_info option" where
  "catalog_info catalog provider model =
     (case (provider, model) of
        (Some p, Some m) \<Rightarrow> find (\<lambda>entry. amProvider entry = p \<and> amModel entry = m) catalog
      | _ \<Rightarrow> None)"

definition summarizeAgent ::
  "agent_model_info list \<Rightarrow> pixel_presence jsmap option \<Rightarrow> jsstr \<times> jsval props \<Rightarrow> agent_summary" where
  "summarizeAgent catalog folded a =
     (case a of (agentId, agent) \<Rightarrow>
       (let state = or_default (asString (jget agent (js ''state''))) (js ''unknown'');
            model = asString (jget agent (js ''model''));
            provider = asString (jget agent (js ''provider''));
            info = catalog_info catalog provider model
        in \<lparr>asAgentId = agentId,
            asKind = or_default (asString (jget agent (js ''kind''))) (js ''child''),
            asRunId = or_default (asString (jget agent (js ''run_id''))) [],
            asState = state,
            asGoal = take MAX_ENTRY_CHARS (or_default (asString (jget agent (js ''goal''))) []),
            asModel = model, asProvider = provider,
            asReasoning = map_option amReasoning info, asThinking = map_option amThinking info,
            asItemId = asString (jget agent (js ''item_id'')),
            asItemKind = asString (jget agent (js ''item_kind'')),
            asItemIds = take MAX_SUMMARY_ARRAY (string_items (jget agent (js ''item_ids''))),
            asSessionId = asInt (jget agent (js ''session_id'')),
            asWorktreeId = asInt (jget agent (js ''worktree_id'')),
            asOwnership = or_default (asString (jget agent (js ''ownership''))) (js ''unknown''),
            asCapabilities = (case jget agent (js ''capabilities'') of
                JArr vs \<Rightarrow> map capabilityOf (take MAX_SUMMARY_ARRAY vs) | _ \<Rightarrow> []),
            asProgress = boundJson 0 (coalesce (jget agent (js ''progress'')) JNull),
            asResult = boundJson 0 (coalesce (jget agent (js ''result'')) JNull),
            asBudget = asInt (jget agent (js ''budget'')),
            asBlockers = agentBlockers agent,
            asPresentation = (if jget agent (js ''presentation'') = JStr (js ''background'')
                then Background else Foreground),
            asPixel = (case Option.bind folded (\<lambda>m. map_get m agentId) of
                Some presence \<Rightarrow> presence | None \<Rightarrow> pixelPresence agentId state)\<rparr>))"

definition summarizeAgents ::
  "jsval list \<Rightarrow> agent_model_info list \<Rightarrow> pixel_presence jsmap option \<Rightarrow> agent_summary list" where
  "summarizeAgents agents catalog presence =
     (let folded = map_option (\<lambda>p. nextPixelPresence p agents) presence
      in List.map_filter (\<lambda>raw. map_option (summarizeAgent catalog folded) (listed_agent raw)) agents)"

section \<open>Bounding JSON: facts\<close>

text \<open>\<open>json_within d v\<close>: nesting at most \<open>d\<close>, and every string, array and object bounded.\<close>

fun json_within :: "nat \<Rightarrow> jsval \<Rightarrow> bool" where
  "json_within d (JStr s) \<longleftrightarrow> length s \<le> 513"
| "json_within d (JArr vs) \<longleftrightarrow> 0 < d \<and> length vs \<le> 64 \<and> (\<forall>v \<in> set vs. json_within (d - 1) v)"
| "json_within d (JObj ps) \<longleftrightarrow>
     0 < d \<and> length ps \<le> 65 \<and> (\<forall>kv \<in> set ps. json_within (d - 1) (snd kv))"
| "json_within d v \<longleftrightarrow> True"

lemma length_jassign_le: "length (jassign ps k v) \<le> Suc (length ps)"
  by (simp add: jassign_def length_jdefine)

lemma set_jreplace: "kv \<in> set (jreplace ps k v) \<Longrightarrow> kv = (k, v) \<or> kv \<in> set ps"
  by (induction ps k v rule: jreplace.induct) (auto split: if_splits)

lemma set_jassign: "kv \<in> set (jassign ps k v) \<Longrightarrow> kv = (k, v) \<or> kv \<in> set ps"
  by (auto simp: jassign_def jdefine_def set_jinsert dest: set_jreplace split: if_splits)

lemma length_decimal: "n < 10 ^ k \<Longrightarrow> 0 < k \<Longrightarrow> length (decimal n) \<le> k"
proof (induction n arbitrary: k rule: decimal.induct)
  case (1 n)
  show ?case
  proof (cases "n < 10")
    case True
    with 1 show ?thesis by (subst decimal.simps) simp
  next
    case False
    obtain k' where k: "k = Suc k'" using 1(3) by (cases k) auto
    with 1(2) False have "n div 10 < 10 ^ k'" and "0 < k'" by (auto intro: gr0I)
    with 1(1) [OF False, of k'] have "length (decimal (n div 10)) \<le> k'" by blast
    with False k show ?thesis by (subst decimal.simps) simp
  qed
qed

lemma length_more_note: "n < 2 ^ 53 \<Longrightarrow> length (decimal_nat n @ js '' more'') \<le> 513"
  using length_decimal [of "int n" 16] by (simp add: decimal_nat_def)

lemma size_member: "kv \<in> set ps \<Longrightarrow> size (snd kv) < size (JObj ps)"
  by (induction ps) (auto simp: size_prod_def)

lemma length_le_size: "length ps < size (JObj ps)"
  by (induction ps) auto

lemma boundJson_within_step:
  "size v < 2 ^ 53 \<Longrightarrow> depth \<le> 6 \<Longrightarrow> json_within (6 - depth) (boundJson depth v)"
  "size (JArr vs) < 2 ^ 53 \<Longrightarrow> 0 < depth \<Longrightarrow> depth \<le> 6 \<Longrightarrow>
     length (bound_items depth n vs) \<le> n \<and> (\<forall>v \<in> set (bound_items depth n vs). json_within (6 - depth) v)"
  "size (JObj ps) < 2 ^ 53 \<Longrightarrow> count < 2 ^ 53 \<Longrightarrow> 0 < depth \<Longrightarrow> depth \<le> 6 \<Longrightarrow> length out \<le> keys \<Longrightarrow>
     keys \<le> 64 \<Longrightarrow> (\<forall>kv \<in> set out. json_within (6 - depth) (snd kv)) \<Longrightarrow>
     length (bound_entries depth keys count out ps) \<le> 65
     \<and> (\<forall>kv \<in> set (bound_entries depth keys count out ps). json_within (6 - depth) (snd kv))"
proof (induction depth v and depth n vs and depth keys count out ps
    rule: boundJson_bound_items_bound_entries.induct)
  case (1 depth s)
  show ?case using length_clip [of 512 s] by (simp add: cap_simps)
next
  case (2 depth vs)
  then show ?case by (auto simp: cap_simps)
next
  case (3 depth ps)
  have "length ps < 2 ^ 53" using length_le_size [of ps] 3 by simp
  with 3 show ?case by (cases "6 \<le> depth") auto
next
  case (8 depth keys count out k v ps)
  show ?case
  proof (cases "MAX_SUMMARY_KEYS \<le> keys")
    case True
    have "length (decimal_nat (count - keys) @ js '' more'') \<le> 513"
      using 8(4) by (intro length_more_note) simp
    then show ?thesis
      using True 8 order_trans [OF length_jassign_le [of out ellipsis _], of 65]
      by (auto simp: cap_simps dest!: set_jassign)
  next
    case False
    have v: "json_within (6 - depth) (boundJson depth v)"
      using 8(1) [OF False] 8(3,6) by simp
    then have out: "\<forall>kv \<in> set (jassign out k (boundJson depth v)). json_within (6 - depth) (snd kv)"
      using 8(9) by (auto dest!: set_jassign)
    have "length (jassign out k (boundJson depth v)) \<le> Suc keys"
      using length_jassign_le [of out k] 8(7) le_trans by blast
    then show ?thesis
      using 8(2) [OF False _ 8(4,5,6) _ _ out] 8(3) False by (simp add: cap_simps)
  qed
qed auto

text \<open>
  The free-form blobs of a summary are bounded: whatever JSON value the daemon sends
  (of fewer than \<open>2 ^ 53\<close> nodes), its bounded form has containers nested at most six deep,
  arrays of at most 64 items, objects of at most 65 keys and strings of at most 513 units.
\<close>

theorem boundJson_within:
  assumes "size v < 2 ^ 53"
  shows "json_within 6 (boundJson 0 v)"
  using boundJson_within_step(1) [of v 0] assms by simp

theorem boundJson_within_witness:
  "json_within 6 (boundJson 0 (JArr (replicate 100 (JStr (replicate 600 65)))))"
proof -
  have "size (JArr (replicate n (JStr s))) \<le> 2 * n + 1" for n s by (induction n) auto
  from this [of 100 "replicate 600 65"]
  have "size (JArr (replicate 100 (JStr (replicate 600 65)))) \<le> 201" by simp
  also have "(201 :: nat) < 2 ^ 53" by simp
  finally show ?thesis by (rule boundJson_within)
qed

text \<open>Objects in the order \<open>Object.keys\<close> gives them, without the \<open>__proto__\<close> key.\<close>

definition canonical_props :: "'v props \<Rightarrow> bool" where
  "canonical_props ps \<longleftrightarrow> distinct (map fst ps) \<and> js ''__proto__'' \<notin> set (map fst ps)
     \<and> sorted_wrt (\<lambda>p q. \<not> key_before (fst q) (fst p)) ps"

lemma jinsert_last:
  "\<forall>p \<in> set ps. \<not> key_before k (fst p) \<Longrightarrow> jinsert ps k v = ps @ [(k, v)]"
  by (induction ps k v rule: jinsert.induct) auto

lemma jassign_last:
  "canonical_props (ps @ (k, v) # qs) \<Longrightarrow> jassign ps k w = ps @ [(k, w)]"
  unfolding canonical_props_def jassign_def jdefine_def
  by (subst jinsert_last) (auto simp: sorted_wrt_append)

text \<open>\<open>json_small d v\<close>: a value the bounds do not touch.\<close>

fun json_small :: "nat \<Rightarrow> jsval \<Rightarrow> bool" where
  "json_small d (JStr s) \<longleftrightarrow> length s \<le> 512"
| "json_small d (JArr vs) \<longleftrightarrow> 0 < d \<and> length vs \<le> 64 \<and> (\<forall>v \<in> set vs. json_small (d - 1) v)"
| "json_small d (JObj ps) \<longleftrightarrow> 0 < d \<and> length ps \<le> 64 \<and> canonical_props ps
     \<and> (\<forall>kv \<in> set ps. json_small (d - 1) (snd kv))"
| "json_small d v \<longleftrightarrow> True"

lemma boundJson_small_step:
  "json_small (6 - depth) v \<Longrightarrow> boundJson depth v = v"
  "\<forall>v \<in> set vs. json_small (6 - depth) v \<Longrightarrow> length vs \<le> n \<Longrightarrow> bound_items depth n vs = vs"
  "\<forall>kv \<in> set ps. json_small (6 - depth) (snd kv) \<Longrightarrow> keys + length ps \<le> 64 \<Longrightarrow>
     canonical_props (out @ ps) \<Longrightarrow> bound_entries depth keys count out ps = out @ ps"
proof (induction depth v and depth n vs and depth keys count out ps
    rule: boundJson_bound_items_bound_entries.induct)
  case (8 depth keys count out k v ps)
  have v: "boundJson depth v = v" using 8(1,3,4) by (simp add: cap_simps)
  have a: "jassign out k v = out @ [(k, v)]" using 8(5) by (rule jassign_last)
  have keys: "\<not> MAX_SUMMARY_KEYS \<le> keys" using 8(4) by (simp add: cap_simps)
  from 8(2) [OF keys] 8(3,4,5) show ?case using keys by (simp add: v a)
qed (auto simp: clip_id cap_simps)

text \<open>
  Bounding is transparent for small values: a JSON value within the bounds comes out
  unchanged, so nothing native is collapsed away that fits.
\<close>

theorem boundJson_transparent:
  assumes "json_small 6 v"
  shows "boundJson 0 v = v"
  using boundJson_small_step(1) [of 0 v] assms by simp

theorem boundJson_transparent_witness:
  "boundJson 0 (JObj [(js ''7'', JArr [JNull]), (js ''done'', JStr (js ''yes''))])
     = JObj [(js ''7'', JArr [JNull]), (js ''done'', JStr (js ''yes''))]"
proof (rule boundJson_transparent)
  show "json_small 6 (JObj [(js ''7'', JArr [JNull]), (js ''done'', JStr (js ''yes''))])"
    by code_simp
qed

section \<open>Blockers: facts\<close>

text \<open>
  An agent never lists more than sixteen blockers, but a blocker is not bounded in
  length: a blocker object with both a kind and a resolution is shown with both at
  full length, whatever their size.
\<close>

theorem agentBlockers_bounds:
  "length (agentBlockers agent) \<le> 16
   \<and> agentBlockers [(js ''blocker'', JObj [(js ''reason'', JStr (js ''r'')), (js ''kind'', JStr kind),
        (js ''resolution'', JStr resolution)])]
     = [kind @ js '': r ('' @ resolution @ js '')'']"
proof
  show "length (agentBlockers agent) \<le> 16" by (simp add: agentBlockers_def Let_def)
  have r: "trim (js ''r'') = js ''r''" by code_simp
  show "agentBlockers [(js ''blocker'', JObj [(js ''reason'', JStr (js ''r'')), (js ''kind'', JStr kind),
        (js ''resolution'', JStr resolution)])] = [kind @ js '': r ('' @ resolution @ js '')'']"
    by (simp add: agentBlockers_def pushObject_def push_blocker_def jget_def asString_def r
        MAX_SUMMARY_STRING_def coalesce_def nullish_def flip: js_append)
qed

text \<open>
  A blocker object without any text of its own decorates the blocker before it: the
  kind and the resolution are attached to a text that is not theirs.
\<close>

theorem agentBlockers_misattributed:
  "agentBlockers [(js ''blockers'', JArr [JStr (js ''disk full''),
      JObj [(js ''kind'', JStr (js ''approval'')), (js ''resolution'', JStr (js ''ask''))]])]
     = [js ''approval: disk full (ask)'']"
  by code_simp

section \<open>Summaries: facts\<close>

lemma find_catalog:
  "catalog_info catalog provider model = Some info \<Longrightarrow>
     info \<in> set catalog \<and> provider = Some (amProvider info) \<and> model = Some (amModel info)"
  by (auto simp: catalog_info_def find_Some_iff split: option.splits)

lemma set_map_filter: "y \<in> set (List.map_filter f xs) \<longleftrightarrow> (\<exists>x \<in> set xs. f x = Some y)"
  by (induction xs) (auto simp: List.map_filter_simps split: option.splits)

lemma map_map_filter: "map g (List.map_filter f xs) = List.map_filter (\<lambda>x. map_option g (f x)) xs"
  by (induction xs) (auto simp: List.map_filter_simps split: option.splits)

text \<open>
  Every listed child is summarised once and in order, and model metadata is never
  guessed: the summaries carry the agent ids of the entries that have one, in the order
  of the listing; a reasoning flag comes from a catalog entry with exactly the provider
  and the model of the child.
\<close>

theorem summarizeAgents_faithful:
  "map asAgentId (summarizeAgents agents catalog presence) =
     List.map_filter (\<lambda>raw. map_option fst (listed_agent raw)) agents
   \<and> list_all (\<lambda>s. case asReasoning s of None \<Rightarrow> True
        | Some b \<Rightarrow> list_ex (\<lambda>e. Some (amProvider e) = asProvider s \<and> Some (amModel e) = asModel s
             \<and> amReasoning e = b) catalog) (summarizeAgents agents catalog presence)
   \<and> list_all (\<lambda>s. length (asCapabilities s) \<le> 64 \<and> length (asItemIds s) \<le> 64
        \<and> length (asBlockers s) \<le> 16 \<and> length (asGoal s) \<le> 262144
        \<and> list_all (\<lambda>c. length c \<le> 8193) (asCapabilities s)) (summarizeAgents agents catalog presence)"
proof -
  have ids: "asAgentId (summarizeAgent catalog f a) = fst a" for f a
    by (cases a) (simp add: summarizeAgent_def Let_def)
  have reas: "case asReasoning (summarizeAgent catalog f a) of None \<Rightarrow> True
      | Some b \<Rightarrow> list_ex (\<lambda>e. Some (amProvider e) = asProvider (summarizeAgent catalog f a)
          \<and> Some (amModel e) = asModel (summarizeAgent catalog f a) \<and> amReasoning e = b) catalog" for f a
    by (cases a) (auto simp: summarizeAgent_def Let_def list_ex_iff dest!: find_catalog split: option.split)
  have cap: "length (capabilityOf v) \<le> 8193" for v
    using length_clip [of 8192] le_trans [OF length_clip [of 512], of 8193]
    by (auto simp: capabilityOf_def boundedJsonText_def cap_simps intro: order_trans
        split: jsval.split option.split)
  have bounds: "length (asCapabilities (summarizeAgent catalog f a)) \<le> 64
      \<and> length (asItemIds (summarizeAgent catalog f a)) \<le> 64
      \<and> length (asBlockers (summarizeAgent catalog f a)) \<le> 16
      \<and> length (asGoal (summarizeAgent catalog f a)) \<le> 262144
      \<and> list_all (\<lambda>c. length c \<le> 8193) (asCapabilities (summarizeAgent catalog f a))" for f a
  proof -
    obtain i agent where a: "a = (i, agent)" by fastforce
    have caps: "length (case v of JArr vs \<Rightarrow> map capabilityOf (take 64 vs) | _ \<Rightarrow> []) \<le> 64
        \<and> list_all (\<lambda>c. length c \<le> 8193) (case v of JArr vs \<Rightarrow> map capabilityOf (take 64 vs) | _ \<Rightarrow> [])" for v
      using cap by (cases v) (auto simp: list_all_iff)
    have bl: "length (agentBlockers agent) \<le> 16" by (simp add: agentBlockers_def Let_def)
    show ?thesis
      unfolding a summarizeAgent_def Let_def prod.case cap_simps agent_summary.simps
      using caps bl by simp
  qed
  have eq: "summarizeAgents agents catalog presence =
      map (summarizeAgent catalog (map_option (\<lambda>p. nextPixelPresence p agents) presence))
        (List.map_filter listed_agent agents)"
    by (simp add: summarizeAgents_def map_map_filter)
  show ?thesis
  proof (intro conjI)
    show "map asAgentId (summarizeAgents agents catalog presence) =
        List.map_filter (\<lambda>raw. map_option fst (listed_agent raw)) agents"
      unfolding eq map_map by (simp add: ids comp_def map_map_filter)
  qed (unfold eq list_all_iff set_map, use reas bounds in \<open>auto simp: list_all_iff\<close>)
qed

end
