(* ===== verification/EventStream.thy ===== *)
theory EventStream
  imports Interfaces
begin

text \<open>
  The resumable event stream of \<open>apps/vscode/src/eventStream.ts\<close> as a state machine.

  \<open>loop\<close> and \<open>connectOnce\<close> are asynchronous: between two \<open>await\<close>s they run without
  interruption, so a run loop is a record with the \<open>await\<close> it is suspended at
  (\<open>es_phase\<close>), and an input is a call from outside (\<open>start\<close>, \<open>stop\<close>, \<open>setCursor\<close>) or the
  settling of the promise a loop waits for.  A stopped stream can be started again while
  its old loop is still suspended, so the state has a list of loops, each with the abort
  signal it was given.  What the stream does to the outside (status, error and event
  callbacks, fetches, sleeps, cancelled readers) is a log.

  The network is the inputs: a fetch settles with any status, a reader yields any chunks
  (already decoded by the streaming \<open>TextDecoder\<close>, whose output is a text per chunk) or
  fails at any point.  The callbacks do not throw and do not call back into the stream.
\<close>

section \<open>Texts of the URL\<close>

definition unreserved :: "cunit \<Rightarrow> bool" where
  "unreserved c \<longleftrightarrow> 65 \<le> c \<and> c \<le> 90 \<or> 97 \<le> c \<and> c \<le> 122 \<or> is_digit c
     \<or> List.member (js ''-_.!~*'' @ [39, 40, 41]) c"

definition percent :: "int \<Rightarrow> jsstr" where
  "percent b =
     (let hex = (\<lambda>d. if d < 10 then of_int (48 + d) else of_int (55 + d))
      in [37, hex (b div 16), hex (b mod 16)])"

definition percent_point :: "int \<Rightarrow> jsstr" where
  "percent_point p =
     concat (map percent
       (if p < 128 then [p]
        else if p < 2048 then [192 + p div 64, 128 + p mod 64]
        else if p < 65536 then [224 + p div 4096, 128 + p div 64 mod 64, 128 + p mod 64]
        else [240 + p div 262144, 128 + p div 4096 mod 64, 128 + p div 64 mod 64, 128 + p mod 64]))"

text \<open>\<open>encodeURIComponent\<close>; a lone surrogate throws a \<open>URIError\<close>.\<close>

fun encodeURIComponent :: "jsstr \<Rightarrow> jsstr option" where
  "encodeURIComponent [] = Some []"
| "encodeURIComponent [c] =
     (if is_high c \<or> is_low c then None
      else Some (if unreserved c then [c] else percent_point (uint c)))"
| "encodeURIComponent (c # d # cs) =
     (if is_low c then None
      else if is_high c then
        (if is_low d
         then map_option (\<lambda>t. percent_point (65536 + (uint c - 0xD800) * 1024 + (uint d - 0xDC00)) @ t)
                (encodeURIComponent cs)
         else None)
      else map_option (\<lambda>t. (if unreserved c then [c] else percent_point (uint c)) @ t)
             (encodeURIComponent (d # cs)))"

definition strip_trailing_slashes :: "jsstr \<Rightarrow> jsstr" where
  "strip_trailing_slashes s = rev (dropWhile (\<lambda>c. c = 47) (rev s))"

section \<open>Data\<close>

record sse_frame =
  sfId :: int
  sfEvent :: jsstr
  sfData :: jsval

datatype es_status = Connecting | Open | Retrying | Stopped

datatype es_error = ProtocolError jsstr | OtherError jsstr

record es_options =
  eoBaseUrl :: jsstr
  eoBearerToken :: jsstr
  eoSessionId :: jsstr
  eoMinBackoffMs :: int
  eoMaxBackoffMs :: int
  eoMaxFrameBytes :: nat

datatype es_output =
    OStatus es_status "jsstr option"
  | OError es_error
  | OEvent sse_frame
  | OFetch jsstr "(jsstr \<times> jsstr) list"
  | OSleep int
  | OCancel

text \<open>The line reader of one connection.\<close>

record sse_conn =
  scBuffer :: jsstr
  scEvent :: "jsstr option"
  scFrameId :: "int option"
  scData :: "jsstr list"

datatype es_phase =
    PSleeping
  | PFetching
  | PErrorBody int
  | PReading sse_conn
  | PCancelling "es_error option"
  | PDone

record es_loop =
  loSignal :: nat
  loAttempt :: nat
  loPhase :: es_phase

record event_stream =
  esCursor :: int
  esStopped :: bool
  esController :: "nat option"
  esAborted :: "nat list"
  esNextSignal :: nat
  esStatus :: es_status
  esLoops :: "es_loop list"
  esOut :: "es_output list"

definition DEFAULT_MIN_BACKOFF_MS :: int where "DEFAULT_MIN_BACKOFF_MS = 250"
definition DEFAULT_MAX_BACKOFF_MS :: int where "DEFAULT_MAX_BACKOFF_MS = 15000"
definition DEFAULT_MAX_FRAME_BYTES :: nat where [cap_simps]: "DEFAULT_MAX_FRAME_BYTES = 1024 * 1024"
definition ERROR_BODY_BYTES :: nat where [cap_simps]: "ERROR_BODY_BYTES = 64 * 1024"

definition es_new :: "int option \<Rightarrow> event_stream" where
  "es_new cursor =
     \<lparr>esCursor = (case cursor of Some c \<Rightarrow> c | None \<Rightarrow> 0), esStopped = True, esController = None,
      esAborted = [], esNextSignal = 0, esStatus = Stopped, esLoops = [], esOut = []\<rparr>"

definition es_defaults ::
  "jsstr \<Rightarrow> jsstr \<Rightarrow> jsstr \<Rightarrow> int option \<Rightarrow> int option \<Rightarrow> nat option \<Rightarrow> es_options" where
  "es_defaults baseUrl bearerToken sessionId minB maxB maxF =
     \<lparr>eoBaseUrl = baseUrl, eoBearerToken = bearerToken, eoSessionId = sessionId,
      eoMinBackoffMs = (case minB of Some b \<Rightarrow> b | None \<Rightarrow> DEFAULT_MIN_BACKOFF_MS),
      eoMaxBackoffMs = (case maxB of Some b \<Rightarrow> b | None \<Rightarrow> DEFAULT_MAX_BACKOFF_MS),
      eoMaxFrameBytes = (case maxF of Some b \<Rightarrow> b | None \<Rightarrow> DEFAULT_MAX_FRAME_BYTES)\<rparr>"

section \<open>Frames\<close>

definition log_out :: "es_output \<Rightarrow> event_stream \<Rightarrow> event_stream" where
  "log_out x s = s\<lparr>esOut := esOut s @ [x]\<rparr>"

definition setStatus :: "es_status \<Rightarrow> jsstr option \<Rightarrow> event_stream \<Rightarrow> event_stream" where
  "setStatus st detail s = log_out (OStatus st detail) (s\<lparr>esStatus := st\<rparr>)"

definition reportError :: "es_error \<Rightarrow> event_stream \<Rightarrow> event_stream" where
  "reportError e s = log_out (OError e) s"

text \<open>\<open>frameId ?? '?'\<close>\<close>

definition frame_label :: "int option \<Rightarrow> jsstr" where
  "frame_label frameId = (case frameId of Some n \<Rightarrow> int_string n | None \<Rightarrow> js ''?'')"

definition protocol_error :: "jsstr \<Rightarrow> es_error" where
  "protocol_error detail = ProtocolError (js ''event stream protocol violation: '' @ detail)"

definition dispatch ::
  "jsstr option \<Rightarrow> int option \<Rightarrow> jsstr list \<Rightarrow> event_stream \<Rightarrow> event_stream" where
  "dispatch eventName frameId dataLines s =
     (if length dataLines = 0 then s
      else
        (case json_parse (join [10] dataLines) of
           None \<Rightarrow> reportError (protocol_error (js ''frame '' @ frame_label frameId @ js '' data is not JSON'')) s
         | Some data \<Rightarrow>
             (case data of
                JObj ps \<Rightarrow>
                  (let declared = (case jget ps (js ''event'') of JStr d \<Rightarrow> Some d | _ \<Rightarrow> None);
                       tagged = (case declared of Some d \<Rightarrow> Some d | None \<Rightarrow> eventName)
                   in case tagged of
                        None \<Rightarrow>
                          reportError (protocol_error
                            (js ''frame '' @ frame_label frameId @ js '' carries no event discriminator'')) s
                      | Some tag \<Rightarrow>
                          if declared \<noteq> None \<and> eventName \<noteq> None \<and> eventName \<noteq> declared then
                            reportError (protocol_error
                              (js ''frame '' @ frame_label frameId @ js '' event field '' @ the eventName
                                @ js '' disagrees with data discriminator '' @ the declared)) s
                          else if tag = js ''heartbeat'' then
                            (case frameId of
                               Some n \<Rightarrow> s\<lparr>esCursor := max (esCursor s) n\<rparr>
                             | None \<Rightarrow> s)
                          else
                            (case frameId of
                               None \<Rightarrow>
                                 reportError (protocol_error
                                   (js ''frame ('' @ tag @ js '') carries no id cursor; skipping'')) s
                             | Some n \<Rightarrow>
                                 if n \<le> esCursor s then s
                                 else log_out (OEvent \<lparr>sfId = n, sfEvent = tag, sfData = data\<rparr>)
                                        (s\<lparr>esCursor := n\<rparr>)))
              | _ \<Rightarrow>
                  reportError (protocol_error
                    (js ''frame '' @ frame_label frameId @ js '' data is not an object'')) s)))"

text \<open>One line without its terminator.\<close>

definition process_line :: "jsstr \<Rightarrow> event_stream \<times> sse_conn \<Rightarrow> event_stream \<times> sse_conn" where
  "process_line rawLine sc =
     (case sc of (s, conn) \<Rightarrow>
       (let line = (if ends_with [13] rawLine then butlast rawLine else rawLine)
        in if line = [] then
             (dispatch (scEvent conn) (scFrameId conn) (scData conn) s,
              conn\<lparr>scEvent := None, scFrameId := None, scData := []\<rparr>)
           else if starts_with (js '':'') line then (s, conn)
           else if starts_with (js ''event:'') line then
             (s, conn\<lparr>scEvent := Some (trim (drop 6 line))\<rparr>)
           else if starts_with (js ''id:'') line then
             (case integer_value (number_of_string (trim (drop 3 line))) of
                Some n \<Rightarrow> if n \<ge> 0 then (s, conn\<lparr>scFrameId := Some n\<rparr>) else (s, conn)
              | None \<Rightarrow> (s, conn))
           else if starts_with (js ''data:'') line then
             (s, conn\<lparr>scData := scData conn @
               [if starts_with [32] (drop 5 line) then drop 6 line else drop 5 line]\<rparr>)
           else (s, conn)))"

lemma process_line_buffer: "scBuffer (snd (process_line l (s, conn))) = scBuffer conn"
  by (simp add: process_line_def Let_def split: option.split)

text \<open>The lines of the buffer, one after the other, up to the last line feed.\<close>

function pump :: "event_stream \<times> sse_conn \<Rightarrow> event_stream \<times> sse_conn" where
  "pump (s, conn) =
     (if List.member (scBuffer conn) 10
      then pump (process_line (takeWhile (\<lambda>c. c \<noteq> 10) (scBuffer conn))
             (s, conn\<lparr>scBuffer := tl (dropWhile (\<lambda>c. c \<noteq> 10) (scBuffer conn))\<rparr>))
      else (s, conn))"
  by pat_completeness auto

termination
proof (relation "measure (\<lambda>(s, conn). length (scBuffer conn))")
  fix s :: event_stream and conn :: sse_conn
  assume m: "List.member (scBuffer conn) 10"
  let ?r = "tl (dropWhile (\<lambda>c. c \<noteq> 10) (scBuffer conn))"
  have "dropWhile (\<lambda>c. c \<noteq> 10) (scBuffer conn) \<noteq> []"
    using m by (auto simp: List.member_iff)
  then have "length ?r < length (scBuffer conn)"
    using length_dropWhile_le [of "\<lambda>c. c \<noteq> 10" "scBuffer conn"]
    by (cases "dropWhile (\<lambda>c. c \<noteq> 10) (scBuffer conn)") auto
  then show "(process_line (takeWhile (\<lambda>c. c \<noteq> 10) (scBuffer conn)) (s, conn\<lparr>scBuffer := ?r\<rparr>), (s, conn))
      \<in> measure (\<lambda>(s, conn). length (scBuffer conn))"
    using process_line_buffer [of "takeWhile (\<lambda>c. c \<noteq> 10) (scBuffer conn)" s "conn\<lparr>scBuffer := ?r\<rparr>"]
    by (simp add: case_prod_beta)
qed simp

declare pump.simps [simp del]

section \<open>The run loop\<close>

definition is_aborted :: "event_stream \<Rightarrow> es_loop \<Rightarrow> bool" where
  "is_aborted s lp \<longleftrightarrow> esStopped s \<or> List.member (esAborted s) (loSignal lp)"

definition finish :: "event_stream \<times> es_loop \<Rightarrow> event_stream \<times> es_loop" where
  "finish sl = (case sl of (s, lp) \<Rightarrow> (setStatus Stopped None s, lp\<lparr>loPhase := PDone\<rparr>))"

definition backoff_ms :: "es_options \<Rightarrow> nat \<Rightarrow> int" where
  "backoff_ms opts attempt =
     min (eoMaxBackoffMs opts) (eoMinBackoffMs opts * 2 ^ min (attempt - 1) 16)"

text \<open>The head of the loop after a first attempt: wait, with the jitter drawn now.\<close>

definition back_off :: "es_options \<Rightarrow> int \<Rightarrow> event_stream \<times> es_loop \<Rightarrow> event_stream \<times> es_loop" where
  "back_off opts jitter sl =
     (case sl of (s, lp) \<Rightarrow>
       (let wait = backoff_ms opts (loAttempt lp) + jitter
        in (log_out (OSleep wait)
              (setStatus Retrying (Some (js ''reconnect in '' @ int_string wait @ js ''ms'')) s),
            lp\<lparr>loPhase := PSleeping\<rparr>)))"

text \<open>The \<open>catch\<close> of the loop, and the head of the next iteration.\<close>

definition connect_failed ::
  "es_options \<Rightarrow> int \<Rightarrow> es_error \<Rightarrow> event_stream \<times> es_loop \<Rightarrow> event_stream \<times> es_loop" where
  "connect_failed opts jitter e sl =
     (case sl of (s, lp) \<Rightarrow>
        if is_aborted s lp then finish (s, lp)
        else back_off opts jitter (reportError e s, lp\<lparr>loAttempt := min (loAttempt lp + 1) 20\<rparr>))"

definition request_headers :: "es_options \<Rightarrow> int \<Rightarrow> (jsstr \<times> jsstr) list" where
  "request_headers opts cursor =
     [(js ''Authorization'', js ''Bearer '' @ eoBearerToken opts),
      (js ''Accept'', js ''text/event-stream''), (js ''Last-Event-ID'', int_string cursor),
      (js ''Cache-Control'', js ''no-cache'')]"

definition request_url :: "es_options \<Rightarrow> int \<Rightarrow> jsstr option" where
  "request_url opts cursor =
     map_option (\<lambda>sid. strip_trailing_slashes (eoBaseUrl opts) @ js ''/api/session/'' @ sid
         @ js ''/events?events_after='' @ int_string cursor)
       (encodeURIComponent (eoSessionId opts))"

definition connect :: "es_options \<Rightarrow> int \<Rightarrow> event_stream \<times> es_loop \<Rightarrow> event_stream \<times> es_loop" where
  "connect opts jitter sl =
     (case sl of (s, lp) \<Rightarrow>
       (let s1 = setStatus (if loAttempt lp = 0 then Connecting else Retrying)
                   (Some (js ''from cursor '' @ int_string (esCursor s))) s
        in case request_url opts (esCursor s) of
             None \<Rightarrow> connect_failed opts jitter (OtherError (js ''URI malformed'')) (s1, lp)
           | Some url \<Rightarrow>
               (log_out (OFetch url (request_headers opts (esCursor s))) s1, lp\<lparr>loPhase := PFetching\<rparr>)))"

text \<open>The head of the \<open>while\<close>.\<close>

definition loop_head :: "es_options \<Rightarrow> int \<Rightarrow> event_stream \<times> es_loop \<Rightarrow> event_stream \<times> es_loop" where
  "loop_head opts jitter sl =
     (case sl of (s, lp) \<Rightarrow>
        if is_aborted s lp then finish (s, lp)
        else if loAttempt lp > 0 then back_off opts jitter (s, lp)
        else connect opts jitter (s, lp))"

text \<open>The head of the read loop of one connection.\<close>

definition read_head :: "sse_conn \<Rightarrow> event_stream \<times> es_loop \<Rightarrow> event_stream \<times> es_loop" where
  "read_head conn sl =
     (case sl of (s, lp) \<Rightarrow>
        if is_aborted s lp then (log_out OCancel s, lp\<lparr>loPhase := PCancelling None\<rparr>)
        else (s, lp\<lparr>loPhase := PReading conn\<rparr>))"

section \<open>The body of a refused response\<close>

text \<open>
  \<open>readErrorBody\<close>: the reads of the reader (\<open>None\<close> for done or no value), collected up to
  the bound; \<open>decode\<close> is the non-fatal \<open>TextDecoder\<close>.
\<close>

fun collect_body :: "nat \<Rightarrow> 8 word list list \<Rightarrow> 8 word list option list \<Rightarrow> 8 word list list" where
  "collect_body count chunks [] = chunks"
| "collect_body count chunks (None # reads) = chunks"
| "collect_body count chunks (Some bytes # reads) =
     (if ERROR_BODY_BYTES - count = 0 then chunks
      else
        (let chunk = take (ERROR_BODY_BYTES - count) bytes; count' = count + length chunk
         in if count' \<ge> ERROR_BODY_BYTES then chunks @ [chunk]
            else collect_body count' (chunks @ [chunk]) reads))"

definition snippetOf :: "jsstr \<Rightarrow> jsstr" where
  "snippetOf s =
     (let snippet = trim (take 200 s) in if length snippet > 0 then js '': '' @ snippet else [])"

datatype error_body = BodyReads "8 word list option list" | BodyText jsstr | BodyFailed

definition readErrorBody :: "(8 word list \<Rightarrow> jsstr) \<Rightarrow> error_body \<Rightarrow> jsstr" where
  "readErrorBody decode b =
     (case b of
        BodyReads reads \<Rightarrow> snippetOf (decode (concat (collect_body 0 [] reads)))
      | BodyText s \<Rightarrow> snippetOf s
      | BodyFailed \<Rightarrow> [])"

section \<open>Inputs\<close>

datatype loop_input =
    Wake
  | Response int bool bool
  | FetchFailed es_error
  | ErrorBody error_body
  | Chunk jsstr
  | EmptyRead
  | EndOfStream
  | ReadFailed es_error
  | Cancelled

text \<open>An input carries the jitter that is drawn if the loop goes to sleep.\<close>

datatype es_input =
  IStart int | IStop | is_ISetCursor: ISetCursor jsnum | ILoop nat loop_input int

definition fresh_conn :: sse_conn where
  "fresh_conn = \<lparr>scBuffer = [], scEvent = None, scFrameId = None, scData = []\<rparr>"

definition feed :: "jsstr \<Rightarrow> event_stream \<times> sse_conn \<Rightarrow> event_stream \<times> sse_conn" where
  "feed chunk sc = (case sc of (s, conn) \<Rightarrow> pump (s, conn\<lparr>scBuffer := scBuffer conn @ chunk\<rparr>))"

definition frame_overflow :: "es_options \<Rightarrow> es_error" where
  "frame_overflow opts =
     protocol_error (js ''unterminated frame exceeded '' @ decimal_nat (eoMaxFrameBytes opts) @ js '' bytes'')"

definition stream_ended :: "event_stream \<Rightarrow> event_stream" where
  "stream_ended s =
     setStatus Retrying (Some (js ''stream ended at cursor '' @ int_string (esCursor s))) s"

definition loop_step ::
  "(8 word list \<Rightarrow> jsstr) \<Rightarrow> es_options \<Rightarrow> loop_input \<Rightarrow> int \<Rightarrow> event_stream \<times> es_loop
     \<Rightarrow> event_stream \<times> es_loop" where
  "loop_step decode opts i jitter sl =
     (case sl of (s, lp) \<Rightarrow>
        case (loPhase lp, i) of
          (PSleeping, Wake) \<Rightarrow>
            if is_aborted s lp then finish (s, lp) else connect opts jitter (s, lp)
        | (PFetching, Response status ok hasBody) \<Rightarrow>
            if \<not> ok then (s, lp\<lparr>loPhase := PErrorBody status\<rparr>)
            else if \<not> hasBody then
              connect_failed opts jitter (protocol_error (js ''stream response carried no body'')) (s, lp)
            else read_head fresh_conn
              (setStatus Open (Some (js ''cursor '' @ int_string (esCursor s))) s, lp)
        | (PFetching, FetchFailed e) \<Rightarrow> connect_failed opts jitter e (s, lp)
        | (PErrorBody status, ErrorBody b) \<Rightarrow>
            connect_failed opts jitter
              (protocol_error (js ''stream rejected with HTTP '' @ int_string status @ readErrorBody decode b))
              (s, lp)
        | (PReading conn, Chunk chunk) \<Rightarrow>
            (case feed chunk (s, conn) of
               (s', conn') \<Rightarrow>
                 if length (scBuffer conn') > eoMaxFrameBytes opts
                 then (log_out OCancel s', lp\<lparr>loPhase := PCancelling (Some (frame_overflow opts))\<rparr>)
                 else read_head conn' (s', lp))
        | (PReading conn, EmptyRead) \<Rightarrow> read_head conn (s, lp)
        | (PReading conn, EndOfStream) \<Rightarrow> (log_out OCancel s, lp\<lparr>loPhase := PCancelling None\<rparr>)
        | (PReading conn, ReadFailed e) \<Rightarrow> (log_out OCancel s, lp\<lparr>loPhase := PCancelling (Some e)\<rparr>)
        | (PCancelling None, Cancelled) \<Rightarrow> loop_head opts jitter (stream_ended s, lp\<lparr>loAttempt := 1\<rparr>)
        | (PCancelling (Some e), Cancelled) \<Rightarrow> connect_failed opts jitter e (s, lp)
        | _ \<Rightarrow> (s, lp))"

section \<open>The stream\<close>

definition setCursor :: "jsnum \<Rightarrow> event_stream \<Rightarrow> event_stream" where
  "setCursor cursor s =
     (case integer_value cursor of
        Some c \<Rightarrow> if c \<ge> 0 then s\<lparr>esCursor := c\<rparr> else s
      | None \<Rightarrow> s)"

definition start :: "es_options \<Rightarrow> int \<Rightarrow> event_stream \<Rightarrow> event_stream" where
  "start opts jitter s =
     (if \<not> esStopped s then s
      else
        (let signal = esNextSignal s;
             s1 = s\<lparr>esStopped := False, esController := Some signal, esNextSignal := Suc signal\<rparr>
         in case loop_head opts jitter (s1, \<lparr>loSignal = signal, loAttempt = 0, loPhase = PSleeping\<rparr>) of
              (s2, lp) \<Rightarrow> s2\<lparr>esLoops := esLoops s2 @ [lp]\<rparr>))"

definition stop :: "event_stream \<Rightarrow> event_stream" where
  "stop s =
     (if esStopped s then s
      else setStatus Stopped None
        (s\<lparr>esStopped := True,
           esAborted := esAborted s @ (case esController s of Some c \<Rightarrow> [c] | None \<Rightarrow> []),
           esController := None\<rparr>))"

definition resume ::
  "(8 word list \<Rightarrow> jsstr) \<Rightarrow> es_options \<Rightarrow> nat \<Rightarrow> loop_input \<Rightarrow> int \<Rightarrow> event_stream \<Rightarrow> event_stream" where
  "resume decode opts n i jitter s =
     (if n < length (esLoops s)
      then (case loop_step decode opts i jitter (s, esLoops s ! n) of
              (s', lp) \<Rightarrow> s'\<lparr>esLoops := (esLoops s')[n := lp]\<rparr>)
      else s)"

definition es_step ::
  "(8 word list \<Rightarrow> jsstr) \<Rightarrow> es_options \<Rightarrow> event_stream \<Rightarrow> es_input \<Rightarrow> event_stream" where
  "es_step decode opts s i =
     (case i of
        IStart jitter \<Rightarrow> start opts jitter s
      | IStop \<Rightarrow> stop s
      | ISetCursor c \<Rightarrow> setCursor c s
      | ILoop n li jitter \<Rightarrow> resume decode opts n li jitter s)"

section \<open>Delivered frames\<close>

definition delivered_frames :: "es_output list \<Rightarrow> sse_frame list" where
  "delivered_frames outs = List.map_filter (\<lambda>x. case x of OEvent f \<Rightarrow> Some f | _ \<Rightarrow> None) outs"

definition delivered :: "es_output list \<Rightarrow> int list" where
  "delivered outs = map sfId (delivered_frames outs)"

lemma delivered_frames_append [simp]:
  "delivered_frames (xs @ ys) = delivered_frames xs @ delivered_frames ys"
  by (induction xs) (auto simp: delivered_frames_def List.map_filter_simps split: option.split)

lemma delivered_frames_simps [simp]:
  "delivered_frames [] = []"
  "delivered_frames (OStatus st d # xs) = delivered_frames xs"
  "delivered_frames (OError e # xs) = delivered_frames xs"
  "delivered_frames (OFetch u h # xs) = delivered_frames xs"
  "delivered_frames (OSleep n # xs) = delivered_frames xs"
  "delivered_frames (OCancel # xs) = delivered_frames xs"
  "delivered_frames (OEvent f # xs) = f # delivered_frames xs"
  by (simp_all add: delivered_frames_def List.map_filter_simps)

text \<open>What a step leaves alone, and what it adds.\<close>

definition quiet :: "event_stream \<Rightarrow> event_stream \<Rightarrow> bool" where
  "quiet s s' \<longleftrightarrow> esCursor s' = esCursor s \<and> delivered_frames (esOut s') = delivered_frames (esOut s)"

definition advances :: "event_stream \<Rightarrow> event_stream \<Rightarrow> bool" where
  "advances s s' \<longleftrightarrow> esCursor s \<le> esCursor s' \<and>
     (\<exists>new. delivered (esOut s') = delivered (esOut s) @ new \<and> sorted_wrt (<) new
        \<and> (\<forall>i \<in> set new. esCursor s < i \<and> i \<le> esCursor s'))"

lemma quiet_refl [simp]: "quiet s s"
  by (simp add: quiet_def)

lemma quiet_trans: "quiet s t \<Longrightarrow> quiet t u \<Longrightarrow> quiet s u"
  by (simp add: quiet_def)

lemma quiet_advances: "quiet s s' \<Longrightarrow> advances s s'"
  by (auto simp: quiet_def advances_def delivered_def)

lemma advances_refl [simp]: "advances s s"
  by (simp add: quiet_advances)

lemma advances_trans: "advances s t \<Longrightarrow> advances t u \<Longrightarrow> advances s u"
  unfolding advances_def
  by (elim conjE exE, intro conjI, simp, rule_tac x = "new @ newa" in exI)
    (fastforce simp: sorted_wrt_append)

lemma advances_quiet: "advances s t \<Longrightarrow> quiet t u \<Longrightarrow> advances s u"
  using advances_trans quiet_advances by blast

lemma quiet_setStatus [simp]: "quiet s (setStatus st d s)"
  by (simp add: quiet_def setStatus_def log_out_def)

lemma quiet_reportError [simp]: "quiet s (reportError e s)"
  by (simp add: quiet_def reportError_def log_out_def)

lemma quiet_back_off [simp]: "quiet s (fst (back_off opts j (s, lp)))"
  by (simp add: quiet_def back_off_def setStatus_def log_out_def Let_def)

lemma quiet_finish [simp]: "quiet s (fst (finish (s, lp)))"
  by (simp add: finish_def)

lemma quiet_connect_failed [simp]: "quiet s (fst (connect_failed opts j e (s, lp)))"
  using quiet_trans [OF quiet_reportError quiet_back_off] by (simp add: connect_failed_def)

lemma quiet_connect [simp]: "quiet s (fst (connect opts j (s, lp)))"
proof -
  have "quiet s (log_out (OFetch u h) (setStatus st d s))" for u h st d
    by (simp add: quiet_def setStatus_def log_out_def)
  then show ?thesis
    using quiet_trans [OF quiet_setStatus quiet_connect_failed]
    by (simp add: connect_def Let_def split: option.split)
qed

lemma quiet_loop_head [simp]: "quiet s (fst (loop_head opts j (s, lp)))"
  by (simp add: loop_head_def)

lemma quiet_read_head [simp]: "quiet s (fst (read_head conn (s, lp)))"
  by (simp add: read_head_def quiet_def log_out_def)

text \<open>A dispatched frame is delivered only beyond the cursor, which it moves to its id.\<close>

lemma advances_dispatch: "advances s (dispatch e n ds s)"
proof -
  have "advances s (log_out (OEvent \<lparr>sfId = i, sfEvent = t, sfData = d\<rparr>) (s\<lparr>esCursor := i\<rparr>))"
    if "\<not> i \<le> esCursor s" for i t d
    using that by (auto simp: advances_def log_out_def delivered_def)
  moreover have "advances s (s\<lparr>esCursor := max (esCursor s) i\<rparr>)" for i
    by (auto simp: advances_def)
  ultimately show ?thesis
    by (simp add: dispatch_def quiet_advances Let_def split: option.split jsval.split)
qed

lemma advances_process_line: "advances s (fst (process_line l (s, conn)))"
  by (simp add: process_line_def Let_def advances_dispatch split: option.split)

lemma advances_pump: "advances (fst sc) (fst (pump sc))"
proof (induction sc rule: pump.induct)
  case (1 s conn)
  let ?l = "takeWhile (\<lambda>c. c \<noteq> 10) (scBuffer conn)"
  let ?c = "conn\<lparr>scBuffer := tl (dropWhile (\<lambda>c. c \<noteq> 10) (scBuffer conn))\<rparr>"
  obtain t d where td: "process_line ?l (s, ?c) = (t, d)" by fastforce
  have "advances s t" using advances_process_line [of s ?l ?c] by (simp add: td)
  with 1 show ?case
    by (subst pump.simps) (auto simp: td intro: advances_trans)
qed

lemma advances_loop_step: "advances s (fst (loop_step decode opts i j (s, lp)))"
proof -
  have read: "advances s (fst (case feed chunk (s, conn) of
      (s', conn') \<Rightarrow> if length (scBuffer conn') > eoMaxFrameBytes opts
        then (log_out OCancel s', lp\<lparr>loPhase := PCancelling (Some (frame_overflow opts))\<rparr>)
        else read_head conn' (s', lp)))" for chunk conn
  proof -
    obtain s' conn' where f: "feed chunk (s, conn) = (s', conn')" by fastforce
    then have "advances s s'"
      using advances_pump [of "(s, conn\<lparr>scBuffer := scBuffer conn @ chunk\<rparr>)"] by (simp add: feed_def)
    moreover have "quiet s' (log_out OCancel s')" by (simp add: quiet_def log_out_def)
    ultimately show ?thesis by (auto simp: f intro: advances_quiet)
  qed
  have cancel: "quiet s (log_out OCancel s)" by (simp add: quiet_def log_out_def)
  have q: "quiet s (fst (read_head conn (setStatus st d s, l)))"
    "quiet s (fst (loop_head opts j (stream_ended s, l)))" for conn st d l
    using quiet_trans [OF quiet_setStatus quiet_read_head] quiet_trans [OF quiet_setStatus quiet_loop_head]
    by (simp_all add: stream_ended_def)
  show ?thesis
    unfolding loop_step_def
    using read quiet_advances [OF cancel] quiet_advances [OF q(1)] quiet_advances [OF q(2)]
      quiet_advances [OF quiet_connect_failed] quiet_advances [OF quiet_connect]
      quiet_advances [OF quiet_finish] quiet_advances [OF quiet_read_head]
    by (auto split: es_phase.split loop_input.split option.split)
qed

text \<open>One input that is not a seeding of the cursor from outside.\<close>

definition own_step ::
  "(8 word list \<Rightarrow> jsstr) \<Rightarrow> es_options \<Rightarrow> event_stream \<Rightarrow> es_input \<Rightarrow> event_stream" where
  "own_step decode opts s i =
     (case i of ISetCursor _ \<Rightarrow> s | _ \<Rightarrow> es_step decode opts s i)"

lemma advances_update [simp]:
  "advances s (s'\<lparr>esLoops := ls\<rparr>) = advances s s'"
  "advances (s\<lparr>esStopped := b, esController := c, esNextSignal := n\<rparr>) s' = advances s s'"
  by (simp_all add: advances_def)

lemma advances_own_step: "advances s (own_step decode opts s i)"
proof -
  have "advances s (start opts j s)" for j
  proof -
    let ?s1 = "s\<lparr>esStopped := False, esController := Some (esNextSignal s), esNextSignal := Suc (esNextSignal s)\<rparr>"
    let ?lp = "\<lparr>loSignal = esNextSignal s, loAttempt = 0, loPhase = PSleeping\<rparr>"
    obtain t lp where t: "loop_head opts j (?s1, ?lp) = (t, lp)" by fastforce
    have "advances ?s1 t" using quiet_advances [OF quiet_loop_head [of ?s1 opts j ?lp]] by (simp add: t)
    then show ?thesis by (simp add: start_def Let_def t)
  qed
  moreover have "advances s (stop s)"
    by (auto simp: stop_def setStatus_def log_out_def advances_def delivered_def)
  moreover have "advances s (resume decode opts n li j s)" for n li j
    using advances_loop_step [of s decode opts li j "esLoops s ! n"]
    by (simp add: resume_def case_prod_beta)
  ultimately show ?thesis
    by (simp add: own_step_def es_step_def split: es_input.split)
qed

interpretation journal: journal_cursor "own_step decode opts" esCursor "\<lambda>s. delivered (esOut s)"
  by unfold_locales (use advances_own_step in \<open>auto simp: advances_def\<close>)

lemma foldl_own_step:
  "list_all (\<lambda>i. \<not> is_ISetCursor i) is \<Longrightarrow> foldl (own_step decode opts) s is = foldl (es_step decode opts) s is"
  by (induction "is" arbitrary: s) (auto simp: own_step_def split: es_input.split)

text \<open>
  A reconnect can neither duplicate nor reorder events: over any run of starts,
  stops, disconnects, refused responses and arbitrary chunks, the ids of the delivered
  frames are strictly increasing and all beyond the cursor the stream was created with
  (as long as nobody seeds the cursor from outside), and the cursor never moves back.
\<close>

theorem events_delivered_once:
  assumes "list_all (\<lambda>i. \<not> is_ISetCursor i) inputs"
    and "s = foldl (es_step decode opts) (es_new cursor) inputs"
  shows "sorted_wrt (<) (delivered (esOut s)) \<and> distinct (delivered (esOut s))
     \<and> list_all (\<lambda>i. esCursor (es_new cursor) < i \<and> i \<le> esCursor s) (delivered (esOut s))"
proof -
  have e: "delivered (esOut (es_new cursor)) = []" by (simp add: es_new_def delivered_def)
  have s: "s = foldl (own_step decode opts) (es_new cursor) inputs"
    using foldl_own_step [OF assms(1)] assms(2) by simp
  obtain new where "delivered (esOut s) = new" "sorted_wrt (<) new"
      "\<forall>i \<in> set new. esCursor (es_new cursor) < i \<and> i \<le> esCursor s"
    using journal.run_log [of decode opts "es_new cursor" inputs] unfolding s e by auto
  then show ?thesis by (simp add: list_all_iff strict_sorted_iff)
qed

section \<open>Chunks and lines\<close>

lemma process_line_set_buffer:
  "process_line l (s, conn\<lparr>scBuffer := b\<rparr>) =
     (case process_line l (s, conn) of (s', conn') \<Rightarrow> (s', conn'\<lparr>scBuffer := b\<rparr>))"
  by (simp add: process_line_def Let_def split: option.split)

lemma pump_no_line: "10 \<notin> set (scBuffer conn) \<Longrightarrow> pump (s, conn) = (s, conn)"
  by (subst pump.simps) simp

lemma pump_line:
  "10 \<notin> set l \<Longrightarrow> pump (s, conn\<lparr>scBuffer := l @ 10 # rest\<rparr>) =
     pump (process_line l (s, conn\<lparr>scBuffer := rest\<rparr>))"
  by (subst pump.simps) (simp add: takeWhile_append dropWhile_append)

lemma pump_append:
  "pump (s, conn\<lparr>scBuffer := x @ y\<rparr>) =
     (case pump (s, conn\<lparr>scBuffer := x\<rparr>) of (s', conn') \<Rightarrow> pump (s', conn'\<lparr>scBuffer := scBuffer conn' @ y\<rparr>))"
proof (induction "length x" arbitrary: s conn x rule: less_induct)
  case less
  show ?case
  proof (cases "10 \<in> set x")
    case False
    then show ?thesis by (simp add: pump_no_line)
  next
    case True
    then obtain l r where x: "x = l @ 10 # r" and l: "10 \<notin> set l" by (metis split_list_first)
    obtain t d where td: "process_line l (s, conn) = (t, d)" by fastforce
    have "pump (t, d\<lparr>scBuffer := r @ y\<rparr>) =
        (case pump (t, d\<lparr>scBuffer := r\<rparr>) of (s', conn') \<Rightarrow> pump (s', conn'\<lparr>scBuffer := scBuffer conn' @ y\<rparr>))"
      by (rule less) (simp add: x)
    then show ?thesis
      by (simp add: x pump_line [OF l] process_line_set_buffer [of l s _ conn] td)
  qed
qed

lemma pump_no_newline: "10 \<notin> set (scBuffer (snd (pump sc)))"
proof (induction sc rule: pump.induct)
  case (1 s conn)
  then show ?case by (subst pump.simps) auto
qed

text \<open>
  The text after the last line feed: \<open>tail_length n text\<close> counts it on top of \<open>n\<close> units that
  wait already, and \<open>lines_fit m n text\<close> says that no line ever grows beyond \<open>m\<close>.
\<close>

fun tail_length :: "nat \<Rightarrow> jsstr \<Rightarrow> nat" where
  "tail_length n [] = n"
| "tail_length n (c # cs) = tail_length (if c = 10 then 0 else Suc n) cs"

fun lines_fit :: "nat \<Rightarrow> nat \<Rightarrow> jsstr \<Rightarrow> bool" where
  "lines_fit m n [] \<longleftrightarrow> n \<le> m"
| "lines_fit m n (c # cs) \<longleftrightarrow> n \<le> m \<and> lines_fit m (if c = 10 then 0 else Suc n) cs"

lemma tail_length_append: "tail_length n (a @ b) = tail_length (tail_length n a) b"
  by (induction a arbitrary: n) auto

lemma tail_length_no_line: "10 \<notin> set a \<Longrightarrow> tail_length n a = n + length a"
  by (induction a arbitrary: n) auto

lemma lines_fit_append: "lines_fit m n (a @ b) \<longleftrightarrow> lines_fit m n a \<and> lines_fit m (tail_length n a) b"
  by (induction a arbitrary: n) (auto elim: lines_fit.elims)

lemma lines_fit_tail: "lines_fit m n a \<Longrightarrow> tail_length n a \<le> m"
  by (induction a arbitrary: n) auto

lemma lines_fit_no_line: "10 \<notin> set a \<Longrightarrow> lines_fit m n a \<longleftrightarrow> n + length a \<le> m"
  by (induction a arbitrary: n) auto

lemma lines_fit_line:
  assumes "10 \<notin> set l"
  shows "lines_fit m 0 (l @ 10 # t) \<longleftrightarrow> length l \<le> m \<and> lines_fit m 0 t"
  using assms by (simp add: lines_fit_append lines_fit_no_line tail_length_no_line)

lemma pump_buffer: "length (scBuffer (snd (pump sc))) = tail_length 0 (scBuffer (snd sc))"
proof (induction sc rule: pump.induct)
  case (1 s conn)
  show ?case
  proof (cases "10 \<in> set (scBuffer conn)")
    case True
    then obtain l r where x: "scBuffer conn = l @ 10 # r" and l: "10 \<notin> set l" by (metis split_list_first)
    then have "tl (dropWhile (\<lambda>c. c \<noteq> 10) (scBuffer conn)) = r"
      by (simp add: dropWhile_append)
    then have "length (scBuffer (snd (pump (s, conn)))) = tail_length 0 r"
      using 1 True by (subst pump.simps) (simp add: process_line_buffer)
    then show ?thesis by (simp add: x tail_length_append)
  qed (simp add: pump_no_line tail_length_no_line)
qed

lemma feed_feed:
  "feed b (feed a (s, conn)) = feed (a @ b) (s, conn)"
proof -
  obtain s' c' where p: "pump (s, conn\<lparr>scBuffer := scBuffer conn @ a\<rparr>) = (s', c')" by fastforce
  have "pump (s, conn\<lparr>scBuffer := (scBuffer conn @ a) @ b\<rparr>) = pump (s', c'\<lparr>scBuffer := scBuffer c' @ b\<rparr>)"
    using pump_append [of s "scBuffer conn @ a" b conn] by (simp only: p prod.case)
  then show ?thesis by (simp add: feed_def p)
qed

text \<open>Reading lines touches only the cursor and the log.\<close>

definition same_control :: "event_stream \<Rightarrow> event_stream \<Rightarrow> bool" where
  "same_control s s' \<longleftrightarrow> esStopped s' = esStopped s \<and> esAborted s' = esAborted s
     \<and> esLoops s' = esLoops s \<and> esController s' = esController s \<and> esNextSignal s' = esNextSignal s
     \<and> esStatus s' = esStatus s"

lemma same_control_dispatch: "same_control s (dispatch e n ds s)"
  by (simp add: dispatch_def same_control_def reportError_def log_out_def Let_def
      split: option.split jsval.split)

lemma same_control_process_line: "same_control s (fst (process_line l (s, conn)))"
  using same_control_dispatch
  by (simp add: process_line_def Let_def split: option.split) (simp add: same_control_def)

lemma same_control_pump: "same_control (fst sc) (fst (pump sc))"
proof (induction sc rule: pump.induct)
  case (1 s conn)
  let ?l = "takeWhile (\<lambda>c. c \<noteq> 10) (scBuffer conn)"
  let ?c = "conn\<lparr>scBuffer := tl (dropWhile (\<lambda>c. c \<noteq> 10) (scBuffer conn))\<rparr>"
  obtain t d where td: "process_line ?l (s, ?c) = (t, d)" by fastforce
  have "same_control s t" using same_control_process_line [of s ?l ?c] by (simp add: td)
  with 1 show ?case
    by (subst pump.simps) (auto simp: td same_control_def)
qed

text \<open>A run of chunks that stays within the bound is one long chunk.\<close>

definition with_conn :: "nat \<Rightarrow> event_stream \<times> sse_conn \<Rightarrow> event_stream" where
  "with_conn n sc = (case sc of (s, conn) \<Rightarrow>
     s\<lparr>esLoops := (esLoops s)[n := (esLoops s ! n)\<lparr>loPhase := PReading conn\<rparr>]\<rparr>)"

lemma same_control_feed: "same_control s (fst (feed chunk (s, conn)))"
  using same_control_pump [of "(s, conn\<lparr>scBuffer := scBuffer conn @ chunk\<rparr>)"] by (simp add: feed_def)

text \<open>Reading lines does not depend on the loops.\<close>

lemma reportError_loops: "reportError e (s\<lparr>esLoops := ls\<rparr>) = (reportError e s)\<lparr>esLoops := ls\<rparr>"
  by (simp add: reportError_def log_out_def)

lemma dispatch_loops: "dispatch e n ds (s\<lparr>esLoops := ls\<rparr>) = (dispatch e n ds s)\<lparr>esLoops := ls\<rparr>"
proof (cases "json_parse (join [10] ds)")
  case (Some v)
  show ?thesis
    by (cases v) (simp_all add: dispatch_def Some reportError_loops log_out_def Let_def split: option.split)
qed (simp add: dispatch_def reportError_loops)

lemma process_line_loops:
  "process_line l (s\<lparr>esLoops := ls\<rparr>, conn) = apfst (\<lambda>s. s\<lparr>esLoops := ls\<rparr>) (process_line l (s, conn))"
  by (simp add: process_line_def Let_def dispatch_loops split: option.split)

lemma pump_loops: "pump (apfst (\<lambda>s. s\<lparr>esLoops := ls\<rparr>) sc) = apfst (\<lambda>s. s\<lparr>esLoops := ls\<rparr>) (pump sc)"
proof (induction sc rule: pump.induct)
  case (1 s conn)
  show ?case
  proof (cases "List.member (scBuffer conn) 10")
    case True
    have "pump (s\<lparr>esLoops := ls\<rparr>, conn) = apfst (\<lambda>s. s\<lparr>esLoops := ls\<rparr>) (pump (s, conn))"
      unfolding pump.simps [of "s\<lparr>esLoops := ls\<rparr>"] pump.simps [of s conn] process_line_loops
      using 1 [OF True] True by simp
    then show ?thesis by simp
  qed (simp add: pump_no_line)
qed

lemma feed_loops:
  "feed chunk (s\<lparr>esLoops := ls\<rparr>, conn) = apfst (\<lambda>s. s\<lparr>esLoops := ls\<rparr>) (feed chunk (s, conn))"
  using pump_loops [of ls "(s, conn\<lparr>scBuffer := scBuffer conn @ chunk\<rparr>)"] by (simp add: feed_def)

lemma feed_buffer:
  assumes "feed chunk (s, conn) = (s', conn')" and "10 \<notin> set (scBuffer conn)"
  shows "length (scBuffer conn') = tail_length (length (scBuffer conn)) chunk"
  using pump_buffer [of "(s, conn\<lparr>scBuffer := scBuffer conn @ chunk\<rparr>)"] assms
  by (simp add: feed_def tail_length_append tail_length_no_line)

lemma chunk_step:
  assumes n: "n < length (esLoops s)" and live: "\<not> is_aborted s (esLoops s ! n)"
    and nl: "10 \<notin> set (scBuffer conn)"
    and fit: "lines_fit (eoMaxFrameBytes opts) (length (scBuffer conn)) chunk"
  shows "es_step decode opts (with_conn n (s, conn)) (ILoop n (Chunk chunk) j) =
     with_conn n (feed chunk (s, conn))"
proof -
  let ?ls = "(esLoops s)[n := (esLoops s ! n)\<lparr>loPhase := PReading conn\<rparr>]"
  obtain s' c' where f: "feed chunk (s, conn) = (s', c')" by fastforce
  have fl: "feed chunk (s\<lparr>esLoops := ?ls\<rparr>, conn) = (s'\<lparr>esLoops := ?ls\<rparr>, c')"
    by (simp add: feed_loops f)
  have sc: "esStopped s' = esStopped s" "esAborted s' = esAborted s" "esLoops s' = esLoops s"
    using same_control_feed [of s chunk conn] by (simp_all add: f same_control_def)
  have "length (scBuffer c') \<le> eoMaxFrameBytes opts"
    using feed_buffer [OF f nl] lines_fit_tail [OF fit] by simp
  then show ?thesis
    using n live
    by (simp add: with_conn_def es_step_def resume_def loop_step_def f fl read_head_def is_aborted_def sc)
qed

lemma chunks_run:
  assumes "n < length (esLoops s)" and "\<not> is_aborted s (esLoops s ! n)"
    and "10 \<notin> set (scBuffer conn)"
    and "lines_fit (eoMaxFrameBytes opts) (length (scBuffer conn)) (concat chunks)"
  shows "foldl (es_step decode opts) (with_conn n (s, conn)) (map (\<lambda>c. ILoop n (Chunk c) j) chunks) =
     with_conn n (feed (concat chunks) (s, conn))"
  using assms
proof (induction chunks arbitrary: s conn)
  case Nil
  then show ?case by (simp add: feed_def pump_no_line)
next
  case (Cons c cs)
  obtain s' c' where f: "feed c (s, conn) = (s', c')" by fastforce
  have sc: "esStopped s' = esStopped s" "esAborted s' = esAborted s" "esLoops s' = esLoops s"
    using same_control_feed [of s c conn] by (simp_all add: f same_control_def)
  have nl: "10 \<notin> set (scBuffer c')"
    using pump_no_newline [of "(s, conn\<lparr>scBuffer := scBuffer conn @ c\<rparr>)"] f by (simp add: feed_def)
  have "es_step decode opts (with_conn n (s, conn)) (ILoop n (Chunk c) j) = with_conn n (s', c')"
    using chunk_step [of n s conn opts c decode j] Cons.prems by (simp add: f lines_fit_append)
  moreover have "foldl (es_step decode opts) (with_conn n (s', c')) (map (\<lambda>c. ILoop n (Chunk c) j) cs) =
      with_conn n (feed (concat cs) (s', c'))"
    using Cons.prems feed_buffer [OF f] nl sc
    by (intro Cons.IH) (simp_all add: is_aborted_def lines_fit_append)
  ultimately show ?case using feed_feed [of "concat cs" c s conn] by (simp add: f)
qed

section \<open>The wire\<close>

text \<open>A journal frame as the daemon writes it.\<close>

record wire_frame =
  wfName :: jsstr
  wfId :: jsstr
  wfData :: jsstr

definition wire_text :: "wire_frame \<Rightarrow> jsstr" where
  "wire_text w = js ''event: '' @ wfName w @ [10] @ js ''id: '' @ wfId w @ [10]
     @ js ''data: '' @ wfData w @ [10, 10]"

text \<open>Each of its lines is within the frame bound of the stream.\<close>

definition wire_fits :: "nat \<Rightarrow> wire_frame \<Rightarrow> bool" where
  "wire_fits m w \<longleftrightarrow> length (js ''event: '' @ wfName w) \<le> m \<and> length (js ''id: '' @ wfId w) \<le> m
     \<and> length (js ''data: '' @ wfData w) \<le> m"

definition one_line :: "jsstr \<Rightarrow> bool" where
  "one_line s \<longleftrightarrow> 10 \<notin> set s \<and> 13 \<notin> set s"

text \<open>The wire form of a frame: one JSON object per frame, with its id and its name.\<close>

definition wire_of :: "wire_frame \<Rightarrow> sse_frame \<Rightarrow> bool" where
  "wire_of w f \<longleftrightarrow>
     one_line (wfName w) \<and> one_line (wfId w) \<and> one_line (wfData w)
     \<and> trim (wfName w) = sfEvent f \<and> sfEvent f \<noteq> js ''heartbeat''
     \<and> integer_value (number_of_string (trim (wfId w))) = Some (sfId f) \<and> 0 \<le> sfId f
     \<and> json_parse (wfData w) = Some (sfData f)
     \<and> (case sfData f of
          JObj ps \<Rightarrow> (case jget ps (js ''event'') of JStr d \<Rightarrow> d = sfEvent f | _ \<Rightarrow> True)
        | _ \<Rightarrow> False)"

lemma not_ends_with_cr: "13 \<notin> set t \<Longrightarrow> \<not> ends_with [13] (p @ 32 # t)"
  by (cases t rule: rev_cases) (auto simp: ends_with_def)

lemma trim_Cons_space: "trim (32 # t) = trim t"
  by (simp add: trim_def is_ws_def js_ws_def)

lemma line_kinds:
  "one_line t \<Longrightarrow> process_line (js ''event: '' @ t) (s, conn) = (s, conn\<lparr>scEvent := Some (trim t)\<rparr>)"
  "one_line t \<Longrightarrow> integer_value (number_of_string (trim t)) = Some i \<Longrightarrow> 0 \<le> i \<Longrightarrow>
     process_line (js ''id: '' @ t) (s, conn) = (s, conn\<lparr>scFrameId := Some i\<rparr>)"
  "one_line t \<Longrightarrow> process_line (js ''data: '' @ t) (s, conn) = (s, conn\<lparr>scData := scData conn @ [t]\<rparr>)"
  "process_line [] (s, conn) =
     (dispatch (scEvent conn) (scFrameId conn) (scData conn) s,
      conn\<lparr>scEvent := None, scFrameId := None, scData := []\<rparr>)"
  using not_ends_with_cr [of t "js ''event:''"] not_ends_with_cr [of t "js ''id:''"]
    not_ends_with_cr [of t "js ''data:''"]
  by (auto simp: process_line_def one_line_def starts_with_def js_def trim_Cons_space ends_with_def)

lemma pump_wire:
  assumes "one_line (wfName w)" "one_line (wfId w)" "one_line (wfData w)"
    and "integer_value (number_of_string (trim (wfId w))) = Some i" "0 \<le> i"
  shows "pump (s, fresh_conn\<lparr>scBuffer := wire_text w @ rest\<rparr>) =
     pump (dispatch (Some (trim (wfName w))) (Some i) [wfData w] s, fresh_conn\<lparr>scBuffer := rest\<rparr>)"
proof -
  have nl: "10 \<notin> set (js ''event: '' @ wfName w)" "10 \<notin> set (js ''id: '' @ wfId w)"
    "10 \<notin> set (js ''data: '' @ wfData w)" "10 \<notin> set ([] :: jsstr)"
    using assms(1,2,3) by (simp_all add: one_line_def js_def)
  have w: "wire_text w @ rest = (js ''event: '' @ wfName w) @ 10 # (js ''id: '' @ wfId w) @ 10 #
      (js ''data: '' @ wfData w) @ 10 # [] @ 10 # rest"
    by (simp add: wire_text_def)
  have step: "pump (s, \<lparr>scBuffer = l @ 10 # r, scEvent = e, scFrameId = m, scData = d\<rparr>) =
      pump (process_line l (s, \<lparr>scBuffer = r, scEvent = e, scFrameId = m, scData = d\<rparr>))"
    if "10 \<notin> set l" for l r e m d
    using pump_line [OF that, of s r "\<lparr>scBuffer = r, scEvent = e, scFrameId = m, scData = d\<rparr>"] by simp
  show ?thesis
    unfolding w fresh_conn_def sse_conn.update_convs step [OF nl(1)] line_kinds(1) [OF assms(1)]
      step [OF nl(2)] line_kinds(2) [OF assms(2,4,5)] step [OF nl(3)] line_kinds(3) [OF assms(3)]
      step [OF nl(4)] line_kinds(4)
    by simp
qed

text \<open>What a well-formed frame does when it is dispatched.\<close>

lemma dispatch_wire:
  assumes "wire_of w f"
  shows "dispatch (Some (trim (wfName w))) (Some (sfId f)) [wfData w] s =
     (if sfId f \<le> esCursor s then s else log_out (OEvent f) (s\<lparr>esCursor := sfId f\<rparr>))"
proof -
  obtain ps where ps: "sfData f = JObj ps" using assms by (auto simp: wire_of_def split: jsval.splits)
  have p: "json_parse (join [10] [wfData w]) = Some (JObj ps)" and n: "trim (wfName w) = sfEvent f"
    using assms ps by (simp_all add: wire_of_def)
  have f: "\<lparr>sfId = sfId f, sfEvent = sfEvent f, sfData = JObj ps\<rparr> = f" using ps by simp
  show ?thesis
    using assms ps
    by (auto simp: dispatch_def p n f wire_of_def simp del: join.simps split: jsval.splits)
qed

text \<open>The state after the frames of a connection: exactly the ones beyond the cursor.\<close>

definition receive :: "event_stream \<Rightarrow> sse_frame \<Rightarrow> event_stream" where
  "receive s f = (if sfId f \<le> esCursor s then s else log_out (OEvent f) (s\<lparr>esCursor := sfId f\<rparr>))"

lemma pump_wires:
  "list_all2 wire_of ws fs \<Longrightarrow>
     pump (s, fresh_conn\<lparr>scBuffer := concat (map wire_text ws)\<rparr>) = (foldl receive s fs, fresh_conn)"
proof (induction ws fs arbitrary: s rule: list_all2_induct)
  case Nil
  then show ?case by (simp add: pump_no_line fresh_conn_def)
next
  case (Cons w ws f fs)
  then show ?case
    using pump_wire [of w "sfId f" s "concat (map wire_text ws)"] dispatch_wire [of w f s]
    by (simp add: wire_of_def receive_def)
qed

lemma wires_fit:
  "list_all2 wire_of ws fs \<Longrightarrow> list_all (wire_fits m) ws \<Longrightarrow> lines_fit m 0 (concat (map wire_text ws))"
proof (induction ws fs rule: list_all2_induct)
  case (Cons w ws f fs)
  have nl: "10 \<notin> set (js ''event: '' @ wfName w)" "10 \<notin> set (js ''id: '' @ wfId w)"
    "10 \<notin> set (js ''data: '' @ wfData w)" "10 \<notin> set ([] :: jsstr)"
    using Cons.hyps(1) by (simp_all add: wire_of_def one_line_def js_def)
  have w: "wire_text w @ rest = (js ''event: '' @ wfName w) @ 10 # (js ''id: '' @ wfId w) @ 10 #
      (js ''data: '' @ wfData w) @ 10 # [] @ 10 # rest" for rest
    by (simp add: wire_text_def)
  have "lines_fit m 0 (concat (map wire_text ws))" using Cons by simp
  then have "lines_fit m 0 ((js ''event: '' @ wfName w) @ 10 # (js ''id: '' @ wfId w) @ 10 #
      (js ''data: '' @ wfData w) @ 10 # [] @ 10 # concat (map wire_text ws))"
    using Cons.prems
    unfolding lines_fit_line [OF nl(1)] lines_fit_line [OF nl(2)] lines_fit_line [OF nl(3)]
      lines_fit_line [OF nl(4)]
    by (simp add: wire_fits_def)
  then show ?case by (simp only: w list.map concat.simps)
qed simp

lemma foldl_receive:
  "sorted_wrt (<) (map sfId fs) \<Longrightarrow>
     delivered_frames (esOut (foldl receive s fs)) =
       delivered_frames (esOut s) @ filter (\<lambda>f. esCursor s < sfId f) fs
     \<and> esCursor (foldl receive s fs) = foldl max (esCursor s) (map sfId fs)"
proof (induction fs arbitrary: s)
  case (Cons f fs)
  show ?case
  proof (cases "sfId f \<le> esCursor s")
    case True
    with Cons show ?thesis by (simp add: receive_def max_absorb1)
  next
    case False
    let ?s = "log_out (OEvent f) (s\<lparr>esCursor := sfId f\<rparr>)"
    have "filter (\<lambda>g. sfId f < sfId g) fs = fs" "filter (\<lambda>g. esCursor s < sfId g) fs = fs"
      using Cons.prems False by (auto simp: filter_id_conv)
    with False Cons show ?thesis by (simp add: receive_def log_out_def max_absorb2)
  qed
qed simp

text \<open>
  C14.  Nothing is lost and nothing is shown twice, however the network cuts the stream and
  however long the connection lasts: when the daemon writes well-formed frames with
  increasing ids, starting anywhere in the journal, and no single line it writes is longer
  than the frame bound of the stream, a running connection that reads them in any chunks
  delivers exactly the frames beyond the cursor, each once and in order, and leaves the
  cursor at the last id.
\<close>

theorem stream_delivers_exactly:
  assumes "n < length (esLoops s)" and "esLoops s ! n = \<lparr>loSignal = g, loAttempt = a, loPhase = PReading fresh_conn\<rparr>"
    and "\<not> esStopped s" and "g \<notin> set (esAborted s)"
    and "list_all2 wire_of ws fs" and "sorted_wrt (<) (map sfId fs)"
    and "concat chunks = concat (map wire_text ws)"
    and "list_all (wire_fits (eoMaxFrameBytes opts)) ws"
  shows "let s' = foldl (es_step decode opts) s (map (\<lambda>c. ILoop n (Chunk c) j) chunks)
     in delivered_frames (esOut s') = delivered_frames (esOut s) @ filter (\<lambda>f. esCursor s < sfId f) fs
        \<and> esCursor s' = foldl max (esCursor s) (map sfId fs)"
proof -
  have live: "\<not> is_aborted s (esLoops s ! n)"
    using assms(2,3,4) by (simp add: is_aborted_def List.member_iff)
  have "(esLoops s ! n)\<lparr>loPhase := PReading fresh_conn\<rparr> = esLoops s ! n"
    using assms(2) by simp
  then have w: "with_conn n (s, fresh_conn) = s"
    by (simp add: with_conn_def)
  have "foldl (es_step decode opts) (with_conn n (s, fresh_conn)) (map (\<lambda>c. ILoop n (Chunk c) j) chunks) =
      with_conn n (feed (concat chunks) (s, fresh_conn))"
    by (rule chunks_run [OF assms(1) live]) (simp_all add: fresh_conn_def assms(7) wires_fit [OF assms(5,8)])
  also have "feed (concat chunks) (s, fresh_conn) = (foldl receive s fs, fresh_conn)"
    using pump_wires [OF assms(5), of s] by (simp add: feed_def assms(7) fresh_conn_def)
  finally have r: "foldl (es_step decode opts) s (map (\<lambda>c. ILoop n (Chunk c) j) chunks) =
      with_conn n (foldl receive s fs, fresh_conn)"
    unfolding w .
  show ?thesis
    unfolding r using foldl_receive [OF assms(6), of s] by (simp add: with_conn_def)
qed

definition demo_options :: es_options where
  "demo_options = es_defaults (js ''http://127.0.0.1:4711/'') (js ''tok'') (js ''7'') None None None"

definition demo_stream :: event_stream where
  "demo_stream = (es_new (Some 4))\<lparr>esStopped := False, esController := Some 0, esNextSignal := 1,
     esLoops := [\<lparr>loSignal = 0, loAttempt = 1, loPhase = PReading fresh_conn\<rparr>]\<rparr>"

definition demo_wire :: "string \<Rightarrow> wire_frame" where
  "demo_wire i = \<lparr>wfName = js ''a'', wfId = js i, wfData = [123, 125]\<rparr>"

definition demo_frame :: "int \<Rightarrow> sse_frame" where
  "demo_frame i = \<lparr>sfId = i, sfEvent = js ''a'', sfData = JObj []\<rparr>"

lemma demo_wires: "list_all2 wire_of [demo_wire ''4'', demo_wire ''5''] [demo_frame 4, demo_frame 5]"
  by code_simp

theorem stream_delivers_exactly_witness:
  "delivered_frames (esOut (foldl (es_step (\<lambda>_. []) demo_options) demo_stream
      (map (\<lambda>c. ILoop 0 (Chunk c) 0)
        [wire_text (demo_wire ''4'') @ take 9 (wire_text (demo_wire ''5'')),
         drop 9 (wire_text (demo_wire ''5''))]))) = [demo_frame 5]"
proof -
  have c: "concat [wire_text (demo_wire ''4'') @ take 9 (wire_text (demo_wire ''5'')),
        drop 9 (wire_text (demo_wire ''5''))]
      = concat (map wire_text [demo_wire ''4'', demo_wire ''5''])"
    by simp
  have l: "list_all (wire_fits (eoMaxFrameBytes demo_options)) [demo_wire ''4'', demo_wire ''5'']"
    by (simp add: wire_fits_def demo_wire_def demo_options_def es_defaults_def cap_simps)
  have "let s' = foldl (es_step (\<lambda>_. []) demo_options) demo_stream
      (map (\<lambda>c. ILoop 0 (Chunk c) 0)
        [wire_text (demo_wire ''4'') @ take 9 (wire_text (demo_wire ''5'')),
         drop 9 (wire_text (demo_wire ''5''))])
    in delivered_frames (esOut s') =
        delivered_frames (esOut demo_stream) @
          filter (\<lambda>f. esCursor demo_stream < sfId f) [demo_frame 4, demo_frame 5]
      \<and> esCursor s' = foldl max (esCursor demo_stream) (map sfId [demo_frame 4, demo_frame 5])"
    by (rule stream_delivers_exactly [OF _ _ _ _ demo_wires _ c l])
      (simp_all add: demo_stream_def demo_frame_def es_new_def)
  then show ?thesis by (simp add: demo_stream_def demo_frame_def es_new_def Let_def)
qed

theorem events_delivered_once_witness:
  "sorted_wrt (<) (delivered (esOut (foldl (es_step (\<lambda>_. []) demo_options) (es_new (Some 4))
     [IStart 0, ILoop 0 (Response 200 True True) 0, ILoop 0 (Chunk (wire_text (demo_wire ''5''))) 0,
      ILoop 0 EndOfStream 0, ILoop 0 Cancelled 7, IStop])))"
proof -
  have "list_all (\<lambda>i. \<not> is_ISetCursor i)
     [IStart 0, ILoop 0 (Response 200 True True) 0, ILoop 0 (Chunk (wire_text (demo_wire ''5''))) 0,
      ILoop 0 EndOfStream 0, ILoop 0 Cancelled 7, IStop]"
    by simp
  from events_delivered_once [OF this refl] show ?thesis by blast
qed

section \<open>The log of one step\<close>

text \<open>What a step adds to the log.\<close>

definition added :: "event_stream \<Rightarrow> event_stream \<Rightarrow> es_output list" where
  "added s s' = drop (length (esOut s)) (esOut s')"

text \<open>A property of the entries a step adds: \<open>P\<close> sees the state after the step.\<close>

definition fetch_ok :: "es_options \<Rightarrow> int \<Rightarrow> es_output \<Rightarrow> bool" where
  "fetch_ok opts cursor x =
     (case x of OFetch url headers \<Rightarrow>
        Some url = request_url opts cursor \<and> headers = request_headers opts cursor
      | _ \<Rightarrow> True)"

definition sleep_ok :: "es_options \<Rightarrow> int \<Rightarrow> es_output \<Rightarrow> bool" where
  "sleep_ok opts jitter x =
     (case x of OSleep ms \<Rightarrow> list_ex (\<lambda>a. ms = backoff_ms opts a + jitter) [1..<21] | _ \<Rightarrow> True)"

definition no_fetch :: "es_output \<Rightarrow> bool" where
  "no_fetch x = (case x of OFetch _ _ \<Rightarrow> False | _ \<Rightarrow> True)"

text \<open>\<open>grows P s s'\<close>: the log grows by entries that satisfy \<open>P\<close>.\<close>

definition grows :: "(es_output \<Rightarrow> bool) \<Rightarrow> event_stream \<Rightarrow> event_stream \<Rightarrow> bool" where
  "grows P s s' \<longleftrightarrow> (\<exists>new. esOut s' = esOut s @ new \<and> list_all P new)"

lemma grows_refl [simp]: "grows P s s"
  by (simp add: grows_def)

lemma grows_trans: "grows P s t \<Longrightarrow> grows P t u \<Longrightarrow> grows P s u"
  by (auto simp: grows_def)

lemma grows_update [simp]:
  "grows P s (s'\<lparr>esLoops := ls\<rparr>) = grows P s s'"
  "grows P s (s'\<lparr>esCursor := c\<rparr>) = grows P s s'"
  "grows P (s\<lparr>esStopped := b, esController := co, esNextSignal := n\<rparr>) s' = grows P s s'"
  by (simp_all add: grows_def)

lemma grows_setStatus [simp]: "(\<And>st d. P (OStatus st d)) \<Longrightarrow> grows P s (setStatus st d s)"
  by (auto simp: grows_def setStatus_def log_out_def)

lemma grows_log_out: "P x \<Longrightarrow> grows P s (log_out x s)"
  by (auto simp: grows_def log_out_def)

lemma grows_added: "grows P s s' \<Longrightarrow> list_all P (added s s')"
  by (auto simp: grows_def added_def)

text \<open>Entries that carry neither a fetch nor a sleep are harmless.\<close>

definition plain :: "(es_output \<Rightarrow> bool) \<Rightarrow> bool" where
  "plain P \<longleftrightarrow> (\<forall>x. (case x of OFetch _ _ \<Rightarrow> False | OSleep _ \<Rightarrow> False | _ \<Rightarrow> True) \<longrightarrow> P x)"

lemma plainD: "plain P \<Longrightarrow> P (OStatus st d) \<and> P (OError e) \<and> P (OEvent f) \<and> P OCancel"
  by (simp add: plain_def)

lemma plain_ok [simp]: "plain (fetch_ok opts c)" "plain (sleep_ok opts j)" "plain no_fetch"
  by (auto simp: plain_def fetch_ok_def sleep_ok_def no_fetch_def split: es_output.splits)

lemma grows_plain:
  assumes "plain P"
  shows "grows P s (reportError e s)" "grows P s (setStatus st d s)" "grows P s (log_out OCancel s)"
    "grows P s (log_out (OEvent f) (s\<lparr>esCursor := c\<rparr>))" "grows P s (fst (finish (s, lp)))"
    "grows P s (fst (read_head conn (s, lp)))" "grows P s (stream_ended s)"
  using plainD [OF assms]
  by (auto simp: grows_def reportError_def setStatus_def log_out_def finish_def read_head_def stream_ended_def)

lemma grows_dispatch:
  assumes "plain P"
  shows "grows P s (dispatch e n ds s)"
  using grows_plain(1,4) [OF assms]
  by (simp add: dispatch_def Let_def split: option.split jsval.split)

lemma grows_process_line: "plain P \<Longrightarrow> grows P s (fst (process_line l (s, conn)))"
  by (simp add: process_line_def Let_def grows_dispatch split: option.split)

lemma grows_pump: "plain P \<Longrightarrow> grows P (fst sc) (fst (pump sc))"
proof (induction sc rule: pump.induct)
  case (1 s conn)
  let ?l = "takeWhile (\<lambda>c. c \<noteq> 10) (scBuffer conn)"
  let ?c = "conn\<lparr>scBuffer := tl (dropWhile (\<lambda>c. c \<noteq> 10) (scBuffer conn))\<rparr>"
  obtain t d where td: "process_line ?l (s, ?c) = (t, d)" by fastforce
  have "grows P s t" using grows_process_line [OF 1(2), of s ?l ?c] by (simp add: td)
  with 1 show ?case
    by (subst pump.simps) (auto simp: td intro: grows_trans)
qed

lemma grows_feed: "plain P \<Longrightarrow> grows P s (fst (feed chunk (s, conn)))"
  using grows_pump [of P "(s, conn\<lparr>scBuffer := scBuffer conn @ chunk\<rparr>)"] by (simp add: feed_def)

text \<open>The attempts of a loop stay between 0 and 20.\<close>

definition attempts_ok :: "event_stream \<Rightarrow> bool" where
  "attempts_ok s \<longleftrightarrow> list_all (\<lambda>lp. loAttempt lp \<le> 20) (esLoops s)"

lemma grows_back_off:
  assumes "plain P" and "\<And>ms. sleep_ok opts j (OSleep ms) \<Longrightarrow> P (OSleep ms)"
    and "0 < loAttempt lp" and "loAttempt lp \<le> 20"
  shows "grows P s (fst (back_off opts j (s, lp)))"
proof -
  have "sleep_ok opts j (OSleep (backoff_ms opts (loAttempt lp) + j))"
    using assms(3,4) by (auto simp: sleep_ok_def list_ex_iff)
  then show ?thesis
    using plainD [OF assms(1)] assms(2)
    by (simp add: back_off_def Let_def grows_def setStatus_def log_out_def)
qed

lemma grows_connect_failed:
  assumes "plain P" and "\<And>ms. sleep_ok opts j (OSleep ms) \<Longrightarrow> P (OSleep ms)"
  shows "grows P s (fst (connect_failed opts j e (s, lp)))"
  using grows_plain(5) [OF assms(1)]
    grows_trans [OF grows_plain(1) [OF assms(1)] grows_back_off [OF assms]]
  by (simp add: connect_failed_def)

lemma grows_connect:
  assumes "plain P" and "\<And>ms. sleep_ok opts j (OSleep ms) \<Longrightarrow> P (OSleep ms)"
    and "\<And>url. request_url opts (esCursor s) = Some url \<Longrightarrow>
      P (OFetch url (request_headers opts (esCursor s)))"
  shows "grows P s (fst (connect opts j (s, lp)))"
proof -
  have "grows P s (log_out (OFetch url (request_headers opts (esCursor s))) (setStatus st d s))"
    if "request_url opts (esCursor s) = Some url" for url st d
    using assms(3) [OF that] plainD [OF assms(1)] by (simp add: grows_def setStatus_def log_out_def)
  then show ?thesis
    using grows_trans [OF grows_plain(2) [OF assms(1)] grows_connect_failed [OF assms(1,2)]]
    by (simp add: connect_def Let_def split: option.split)
qed

text \<open>Only a fresh start and a loop that has slept connect.\<close>

lemma grows_loop_step:
  assumes "plain P" and "\<And>ms. sleep_ok opts j (OSleep ms) \<Longrightarrow> P (OSleep ms)"
    and "\<And>url. i = Wake \<Longrightarrow> request_url opts (esCursor s) = Some url \<Longrightarrow>
      P (OFetch url (request_headers opts (esCursor s)))"
  shows "grows P s (fst (loop_step decode opts i j (s, lp)))"
proof -
  have read: "grows P s (fst (case feed chunk (s, conn) of
      (s', conn') \<Rightarrow> if length (scBuffer conn') > eoMaxFrameBytes opts
        then (log_out OCancel s', lp\<lparr>loPhase := PCancelling (Some (frame_overflow opts))\<rparr>)
        else read_head conn' (s', lp)))" for chunk conn
  proof -
    obtain s' conn' where f: "feed chunk (s, conn) = (s', conn')" by fastforce
    have "grows P s s'" using grows_feed [OF assms(1), of s chunk conn] by (simp add: f)
    then show ?thesis
      using grows_plain(3,6) [OF assms(1)] by (auto simp: f intro: grows_trans)
  qed
  have head: "grows P s (fst (loop_head opts j (stream_ended s, lp\<lparr>loAttempt := 1\<rparr>)))"
    using grows_trans [OF grows_plain(7) [OF assms(1)] grows_plain(5) [OF assms(1)]]
      grows_trans [OF grows_plain(7) [OF assms(1)] grows_back_off [OF assms(1,2)]]
    by (simp add: loop_head_def)
  have opn: "grows P s (fst (read_head conn (setStatus st d s, lp)))" for conn st d
    using grows_trans [OF grows_plain(2) [OF assms(1)] grows_plain(6) [OF assms(1)]] .
  show ?thesis
    unfolding loop_step_def
    using read head opn grows_plain [OF assms(1)] grows_connect_failed [OF assms(1,2)]
      grows_connect [OF assms(1,2)] assms(3)
    by (auto split: es_phase.split loop_input.split option.split)
qed

definition jitter_of :: "es_input \<Rightarrow> int" where
  "jitter_of i = (case i of IStart j \<Rightarrow> j | ILoop _ _ j \<Rightarrow> j | _ \<Rightarrow> 0)"

definition may_connect :: "es_input \<Rightarrow> bool" where
  "may_connect i = (case i of IStart _ \<Rightarrow> True | ILoop _ Wake _ \<Rightarrow> True | _ \<Rightarrow> False)"

lemma grows_es_step:
  assumes "plain P" and "\<And>ms. sleep_ok opts (jitter_of i) (OSleep ms) \<Longrightarrow> P (OSleep ms)"
    and "\<And>url. may_connect i \<Longrightarrow> request_url opts (esCursor s) = Some url \<Longrightarrow>
      P (OFetch url (request_headers opts (esCursor s)))"
  shows "grows P s (es_step decode opts s i)"
proof (cases i)
  case (IStart j)
  let ?s1 = "s\<lparr>esStopped := False, esController := Some (esNextSignal s), esNextSignal := Suc (esNextSignal s)\<rparr>"
  let ?lp = "\<lparr>loSignal = esNextSignal s, loAttempt = 0, loPhase = PSleeping\<rparr>"
  obtain t lp where t: "loop_head opts j (?s1, ?lp) = (t, lp)" by fastforce
  have "grows P ?s1 (fst (loop_head opts j (?s1, ?lp)))"
    using grows_plain(5) [OF assms(1), of ?s1 ?lp] grows_connect [OF assms(1), of opts j ?s1 ?lp]
      assms(2,3) IStart by (auto simp: loop_head_def jitter_of_def may_connect_def)
  then show ?thesis by (simp add: IStart es_step_def start_def Let_def t)
next
  case IStop
  then show ?thesis
    using plainD [OF assms(1)] by (simp add: es_step_def stop_def grows_def setStatus_def log_out_def)
next
  case (ISetCursor c)
  then show ?thesis by (simp add: es_step_def setCursor_def split: option.split)
next
  case (ILoop n li j)
  have "grows P s (fst (loop_step decode opts li j (s, esLoops s ! n)))"
    using assms(2,3) ILoop
    by (intro grows_loop_step [OF assms(1)]) (auto simp: jitter_of_def may_connect_def)
  then show ?thesis by (simp add: ILoop es_step_def resume_def case_prod_beta)
qed

text \<open>
  A reconnect resumes from the cursor: every request the stream ever makes asks for
  the events after the cursor of that moment, in the query and in the \<open>Last-Event-ID\<close>
  header, so what was delivered is never asked for again.
\<close>

theorem resume_from_cursor:
  "list_all (\<lambda>x. case x of
       OFetch url headers \<Rightarrow>
         Some url = request_url opts (esCursor s)
         \<and> map_of headers (js ''Last-Event-ID'') = Some (int_string (esCursor s))
         \<and> esCursor (es_step decode opts s i) = esCursor s
     | _ \<Rightarrow> True) (added s (es_step decode opts s i))"
proof -
  have "list_all (fetch_ok opts (esCursor s)) (added s (es_step decode opts s i))"
    by (rule grows_added, rule grows_es_step) (auto simp: fetch_ok_def)
  moreover have "list_all no_fetch (added s (es_step decode opts s i))" if "\<not> may_connect i"
    using that by (intro grows_added grows_es_step) (auto simp: no_fetch_def)
  moreover have "esCursor (es_step decode opts s i) = esCursor s" if "may_connect i"
  proof -
    have q: "esCursor (fst (loop_head opts j (t, lp))) = esCursor t"
      "esCursor (fst (connect opts j (t, lp))) = esCursor t"
      "esCursor (fst (finish (t, lp))) = esCursor t" for j t lp
      using quiet_loop_head [of t opts j lp] quiet_connect [of t opts j lp] quiet_finish [of t lp]
      by (simp_all add: quiet_def)
    show ?thesis
      using that q
      by (auto simp: may_connect_def es_step_def start_def resume_def loop_step_def Let_def case_prod_beta
          split: es_input.splits loop_input.splits es_phase.split option.split)
  qed
  ultimately show ?thesis
    by (cases "may_connect i")
      (auto simp: list_all_iff fetch_ok_def no_fetch_def request_headers_def split: es_output.split
        dest: bspec)
qed

lemma backoff_bounds:
  assumes "0 \<le> eoMinBackoffMs opts"
  shows "min (eoMinBackoffMs opts) (eoMaxBackoffMs opts) \<le> backoff_ms opts a"
    and "backoff_ms opts a \<le> eoMaxBackoffMs opts"
proof -
  have "eoMinBackoffMs opts * 1 \<le> eoMinBackoffMs opts * 2 ^ min (a - 1) 16"
    using assms by (intro mult_left_mono) auto
  then show "min (eoMinBackoffMs opts) (eoMaxBackoffMs opts) \<le> backoff_ms opts a"
    by (simp add: backoff_ms_def)
  show "backoff_ms opts a \<le> eoMaxBackoffMs opts" by (simp add: backoff_ms_def)
qed

text \<open>
  A flapping stream cannot busy-loop: only \<open>start\<close> and a loop that has slept connect,
  and every sleep lasts at least the base back-off and at most the maximal one, plus
  the jitter.
\<close>

theorem reconnect_backs_off:
  assumes "0 \<le> eoMinBackoffMs opts"
  shows "list_all (\<lambda>x. case x of
       OSleep ms \<Rightarrow>
         min (eoMinBackoffMs opts) (eoMaxBackoffMs opts) + jitter_of i \<le> ms
         \<and> ms \<le> eoMaxBackoffMs opts + jitter_of i
     | OFetch _ _ \<Rightarrow> may_connect i
     | _ \<Rightarrow> True) (added s (es_step decode opts s i))"
proof (rule grows_added, rule grows_es_step)
  fix ms assume "sleep_ok opts (jitter_of i) (OSleep ms)"
  then obtain a where "ms = backoff_ms opts a + jitter_of i" by (auto simp: sleep_ok_def list_ex_iff)
  then show "case OSleep ms of
       OSleep ms \<Rightarrow>
         min (eoMinBackoffMs opts) (eoMaxBackoffMs opts) + jitter_of i \<le> ms
         \<and> ms \<le> eoMaxBackoffMs opts + jitter_of i
     | OFetch _ _ \<Rightarrow> may_connect i
     | _ \<Rightarrow> True"
    using backoff_bounds [OF assms, of a] by simp
qed (auto simp: plain_def split: es_output.splits)

theorem reconnect_backs_off_witness:
  "list_all (\<lambda>x. case x of OSleep ms \<Rightarrow> 257 \<le> ms \<and> ms \<le> 15007 | OFetch _ _ \<Rightarrow> False | _ \<Rightarrow> True)
     (added demo_stream (es_step (\<lambda>_. []) demo_options demo_stream
       (ILoop 0 (ReadFailed (OtherError (js ''reset''))) 7)))"
  using reconnect_backs_off [of demo_options "ILoop 0 (ReadFailed (OtherError (js ''reset''))) 7"
      demo_stream "\<lambda>_. []"]
  by (simp add: demo_options_def es_defaults_def DEFAULT_MIN_BACKOFF_MS_def DEFAULT_MAX_BACKOFF_MS_def
      jitter_of_def may_connect_def)

section \<open>Stopping\<close>

text \<open>
  Every loop but the one of the current controller has been aborted, and a stopped
  stream has no controller.
\<close>

definition control_ok :: "event_stream \<Rightarrow> bool" where
  "control_ok s \<longleftrightarrow>
     (esController s = None \<longleftrightarrow> esStopped s)
     \<and> list_all (\<lambda>lp. esController s = Some (loSignal lp) \<or> loSignal lp \<in> set (esAborted s)) (esLoops s)
     \<and> list_all (\<lambda>lp. loSignal lp < esNextSignal s) (esLoops s)
     \<and> list_all (\<lambda>a. a < esNextSignal s) (esAborted s)
     \<and> (case esController s of None \<Rightarrow> True | Some c \<Rightarrow> c < esNextSignal s \<and> c \<notin> set (esAborted s))
     \<and> distinct (map loSignal (esLoops s))"

definition control :: "event_stream \<Rightarrow> bool \<times> nat list \<times> nat option \<times> nat \<times> es_loop list" where
  "control s = (esStopped s, esAborted s, esController s, esNextSignal s, esLoops s)"

lemma control_basic [simp]:
  "control (setStatus st d s) = control s" "control (reportError e s) = control s"
  "control (log_out x s) = control s" "control (stream_ended s) = control s"
  "control (s\<lparr>esCursor := c\<rparr>) = control s"
  by (simp_all add: control_def setStatus_def reportError_def log_out_def stream_ended_def)

lemma control_feed [simp]: "control (fst (feed chunk (s, conn))) = control s"
  using same_control_feed [of s chunk conn] by (simp add: same_control_def control_def)

lemma control_parts:
  "control (fst (finish (s, lp))) = control s" "loSignal (snd (finish (s, lp))) = loSignal lp"
  "control (fst (back_off opts j (s, lp))) = control s" "loSignal (snd (back_off opts j (s, lp))) = loSignal lp"
  "control (fst (read_head conn (s, lp))) = control s" "loSignal (snd (read_head conn (s, lp))) = loSignal lp"
  by (simp_all add: finish_def back_off_def read_head_def Let_def)

lemma control_failed:
  "control (fst (connect_failed opts j e (s, lp))) = control s"
  "loSignal (snd (connect_failed opts j e (s, lp))) = loSignal lp"
  by (simp_all add: connect_failed_def control_parts)

lemma control_connect:
  "control (fst (connect opts j (s, lp))) = control s" "loSignal (snd (connect opts j (s, lp))) = loSignal lp"
  by (simp_all add: connect_def control_failed Let_def split: option.split)

lemma control_head:
  "control (fst (loop_head opts j (s, lp))) = control s" "loSignal (snd (loop_head opts j (s, lp))) = loSignal lp"
  by (simp_all add: loop_head_def control_parts control_connect)

lemmas control_simps = control_parts control_failed control_connect control_head

lemma control_loop_step:
  "control (fst (loop_step decode opts i j (s, lp))) = control s"
  "loSignal (snd (loop_step decode opts i j (s, lp))) = loSignal lp"
proof -
  have "control (fst (case feed chunk (s, conn) of
      (s', conn') \<Rightarrow> if length (scBuffer conn') > eoMaxFrameBytes opts
        then (log_out OCancel s', lp\<lparr>loPhase := PCancelling (Some (frame_overflow opts))\<rparr>)
        else read_head conn' (s', lp))) = control s" for chunk conn
    using control_feed [of chunk s conn] by (simp add: case_prod_beta control_simps)
  moreover have "loSignal (snd (case feed chunk (s, conn) of
      (s', conn') \<Rightarrow> if length (scBuffer conn') > eoMaxFrameBytes opts
        then (log_out OCancel s', lp\<lparr>loPhase := PCancelling (Some (frame_overflow opts))\<rparr>)
        else read_head conn' (s', lp))) = loSignal lp" for chunk conn
    by (simp add: case_prod_beta control_simps)
  ultimately show "control (fst (loop_step decode opts i j (s, lp))) = control s"
    "loSignal (snd (loop_step decode opts i j (s, lp))) = loSignal lp"
    unfolding loop_step_def
    by (auto simp: control_simps split: es_phase.split loop_input.split option.split)
qed

lemma control_ok_es_step: "control_ok s \<Longrightarrow> control_ok (es_step decode opts s i)"
proof (cases i)
  case (IStart j)
  assume ok: "control_ok s"
  show ?thesis
  proof (cases "esStopped s")
    case True
    let ?s1 = "s\<lparr>esStopped := False, esController := Some (esNextSignal s), esNextSignal := Suc (esNextSignal s)\<rparr>"
    let ?lp = "\<lparr>loSignal = esNextSignal s, loAttempt = 0, loPhase = PSleeping\<rparr>"
    obtain t lp where t: "loop_head opts j (?s1, ?lp) = (t, lp)" by fastforce
    have c: "control t = control ?s1" "loSignal lp = esNextSignal s"
      using control_head [of opts j ?s1 ?lp] by (simp_all add: t)
    from ok True have "list_all (\<lambda>lp. loSignal lp \<in> set (esAborted s)) (esLoops s)"
      by (auto simp: control_ok_def)
    with ok True c show ?thesis
      by (auto simp: IStart es_step_def start_def Let_def t control_ok_def control_def list_all_iff
          less_Suc_eq)
  qed (use ok in \<open>simp add: IStart es_step_def start_def\<close>)
next
  case IStop
  assume "control_ok s"
  then show ?thesis
    by (auto simp: IStop es_step_def stop_def control_ok_def setStatus_def log_out_def list_all_iff
        split: option.splits)
next
  case (ISetCursor c)
  assume "control_ok s"
  then show ?thesis
    by (cases "integer_value c"; cases "esController s") (simp_all add: ISetCursor es_step_def setCursor_def control_ok_def)
next
  case (ILoop n li j)
  assume ok: "control_ok s"
  obtain t lp where t: "loop_step decode opts li j (s, esLoops s ! n) = (t, lp)" by fastforce
  have c: "control t = control s" "loSignal lp = loSignal (esLoops s ! n)"
    using control_loop_step [of decode opts li j s "esLoops s ! n"] by (simp_all add: t)
  have sig: "map loSignal ((esLoops s)[n := lp]) = map loSignal (esLoops s)" if "n < length (esLoops s)"
    using that c(2) by (simp add: map_update) (metis list_update_id nth_map)
  have all: "list_all (\<lambda>lp. Q (loSignal lp)) ls \<longleftrightarrow> list_all Q (map loSignal ls)" for Q ls
    by (simp add: list_all_iff)
  show ?thesis
    using ok sig c(1)
    unfolding ILoop es_step_def resume_def t control_ok_def control_def all
      all [of "\<lambda>g. esController s = Some g \<or> g \<in> set (esAborted s)" for s]
      all [of "\<lambda>g. g < esNextSignal s" for s]
    by (auto simp: t)
qed

interpretation stream_control: preserving "es_step decode opts" control_ok
  by unfold_locales (rule control_ok_es_step)

lemma distinct_filter_const:
  assumes "distinct (map f xs)" and "\<And>x. x \<in> set xs \<Longrightarrow> P x \<Longrightarrow> f x = c"
  shows "length (filter P xs) \<le> 1"
proof -
  have d: "distinct (map f (filter P xs))" using assms(1) by (rule distinct_map_filter)
  have "set (map f (filter P xs)) \<subseteq> {c}" using assms(2) by auto
  then have "card (set (map f (filter P xs))) \<le> card {c}" by (intro card_mono) auto
  then show ?thesis using distinct_card [OF d] by simp
qed

text \<open>
  What an aborted loop still does: it never connects nor sleeps again; every input that
  matches its phase moves it strictly towards the end, which is at most two inputs away; and
  it delivers only from the one chunk that was in flight when it was aborted.
\<close>

fun phase_left :: "es_phase \<Rightarrow> nat" where
  "phase_left PDone = 0"
| "phase_left (PFetching) = 2"
| "phase_left (PReading conn) = 2"
| "phase_left _ = 1"

definition idle :: "es_output \<Rightarrow> bool" where
  "idle x = (case x of OFetch _ _ \<Rightarrow> False | OSleep _ \<Rightarrow> False | _ \<Rightarrow> True)"

fun reads_chunk :: "es_phase \<Rightarrow> loop_input \<Rightarrow> bool" where
  "reads_chunk (PReading conn) (Chunk chunk) = True"
| "reads_chunk _ _ = False"

definition winds_down :: "event_stream \<Rightarrow> event_stream \<Rightarrow> nat \<Rightarrow> loop_input \<Rightarrow> bool" where
  "winds_down s s' n li \<longleftrightarrow>
     (let before = loPhase (esLoops s ! n)
      in list_all idle (added s s')
         \<and> (s' = s \<or> phase_left (loPhase (esLoops s' ! n)) < phase_left before)
         \<and> (delivered_frames (added s s') = [] \<or> reads_chunk before li))"

lemma plain_idle [simp]: "plain idle"
  by (simp add: plain_def idle_def)

lemma aborted_control: "control s' = control s \<Longrightarrow> is_aborted s' lp = is_aborted s lp"
  by (simp add: control_def is_aborted_def)

lemma aborted_failed: "is_aborted s lp \<Longrightarrow> connect_failed opts j e (s, lp) = finish (s, lp)"
  by (simp add: connect_failed_def)

lemma aborted_basic [simp]:
  "is_aborted (setStatus st d s) lp = is_aborted s lp" "is_aborted (stream_ended s) lp = is_aborted s lp"
  "is_aborted s (lp\<lparr>loPhase := p\<rparr>) = is_aborted s lp" "is_aborted s (lp\<lparr>loAttempt := a\<rparr>) = is_aborted s lp"
  by (simp_all add: is_aborted_def setStatus_def log_out_def stream_ended_def)

lemma aborted_loop_step:
  assumes "is_aborted s lp" and "loop_step decode opts li j (s, lp) = (s', lp')"
  shows "grows idle s s'
    \<and> ((s', lp') = (s, lp) \<or> phase_left (loPhase lp') < phase_left (loPhase lp))
    \<and> (delivered_frames (esOut s') = delivered_frames (esOut s) \<or> reads_chunk (loPhase lp) li)"
proof (cases "reads_chunk (loPhase lp) li")
  case True
  then obtain conn chunk where r: "loPhase lp = PReading conn" "li = Chunk chunk"
    by (auto elim: reads_chunk.elims)
  obtain t conn' where f: "feed chunk (s, conn) = (t, conn')" by fastforce
  have t: "grows idle s t" "is_aborted t lp"
    using grows_feed [of idle s chunk conn] aborted_control [OF control_feed [of chunk s conn]] assms(1)
    by (simp_all add: f)
  show ?thesis
    using assms(2) r t grows_trans [OF t(1)] grows_plain(3) [of idle t]
    by (auto simp: loop_step_def f read_head_def split: if_split_asm)
next
  case False
  have fin: "finish (u, lp) = (s', lp') \<Longrightarrow> grows idle s u \<Longrightarrow> delivered_frames (esOut u) = delivered_frames (esOut s) \<Longrightarrow>
      grows idle s s' \<and> phase_left (loPhase lp') = 0 \<and> delivered_frames (esOut s') = delivered_frames (esOut s)" for u lp
    using grows_plain(2) [of idle u] grows_trans [of idle s u] by (auto simp: finish_def setStatus_def log_out_def)
  have silent: "grows idle s (log_out OCancel s)" "grows idle s (setStatus st d s)" "grows idle s (stream_ended s)"
    "grows idle s (log_out OCancel (setStatus st d s))" for st d
    using grows_plain [of idle] grows_trans by (simp_all add: grows_def idle_def log_out_def setStatus_def)
  have outs: "delivered_frames (esOut (log_out OCancel s)) = delivered_frames (esOut s)"
    "delivered_frames (esOut (setStatus st d s)) = delivered_frames (esOut s)"
    "delivered_frames (esOut (stream_ended s)) = delivered_frames (esOut s)"
    "delivered_frames (esOut (log_out OCancel (setStatus st d s))) = delivered_frames (esOut s)" for st d
    by (simp_all add: log_out_def setStatus_def stream_ended_def)
  show ?thesis
    using assms False silent outs fin
    by (auto simp: loop_step_def aborted_failed read_head_def loop_head_def
        split: es_phase.splits loop_input.splits option.splits if_splits)
qed

lemma aborted_winds_down:
  assumes "n < length (esLoops s)" and "is_aborted s (esLoops s ! n)"
  shows "winds_down s (es_step decode opts s (ILoop n li j)) n li"
proof -
  obtain t lp where t: "loop_step decode opts li j (s, esLoops s ! n) = (t, lp)" by fastforce
  have ls: "esLoops t = esLoops s"
    using control_loop_step(1) [of decode opts li j s "esLoops s ! n"] by (simp add: t control_def)
  have e: "es_step decode opts s (ILoop n li j) = t\<lparr>esLoops := (esLoops s)[n := lp]\<rparr>"
    using assms(1) by (simp add: es_step_def resume_def t ls)
  have same: "t\<lparr>esLoops := (esLoops s)[n := lp]\<rparr> = s" if "(t, lp) = (s, esLoops s ! n)"
    using that by simp
  from aborted_loop_step [OF assms(2) t] same assms(1) show ?thesis
    unfolding e winds_down_def Let_def
    by (auto simp: grows_def added_def)
qed

text \<open>An abort is final.\<close>

lemma aborted_signal:
  "control_ok s \<Longrightarrow> n < length (esLoops s) \<Longrightarrow>
     is_aborted s (esLoops s ! n) \<longleftrightarrow> loSignal (esLoops s ! n) \<in> set (esAborted s)"
  by (auto simp: control_ok_def is_aborted_def list_all_length split: option.splits)

lemma control_grows:
  "n < length (esLoops s) \<Longrightarrow>
     set (esAborted s) \<subseteq> set (esAborted (es_step decode opts s i))
     \<and> n < length (esLoops (es_step decode opts s i))
     \<and> loSignal (esLoops (es_step decode opts s i) ! n) = loSignal (esLoops s ! n)"
proof (cases i)
  case (IStart j)
  assume n: "n < length (esLoops s)"
  let ?s1 = "s\<lparr>esStopped := False, esController := Some (esNextSignal s), esNextSignal := Suc (esNextSignal s)\<rparr>"
  let ?lp = "\<lparr>loSignal = esNextSignal s, loAttempt = 0, loPhase = PSleeping\<rparr>"
  obtain t lp where t: "loop_head opts j (?s1, ?lp) = (t, lp)" by fastforce
  have "control t = control ?s1" using control_head(1) [of opts j ?s1 ?lp] by (simp add: t)
  with n show ?thesis
    by (auto simp: IStart es_step_def start_def Let_def t control_def nth_append)
next
  case (ILoop m li j)
  assume n: "n < length (esLoops s)"
  obtain t lp where t: "loop_step decode opts li j (s, esLoops s ! m) = (t, lp)" by fastforce
  have "control t = control s" "loSignal lp = loSignal (esLoops s ! m)"
    using control_loop_step [of decode opts li j s "esLoops s ! m"] by (simp_all add: t)
  with n show ?thesis
    by (auto simp: ILoop es_step_def resume_def t control_def nth_list_update)
qed (auto simp: es_step_def stop_def setCursor_def setStatus_def log_out_def split: option.split)

lemma abort_is_final:
  assumes "control_ok s" and "n < length (esLoops s)" and "is_aborted s (esLoops s ! n)"
  shows "is_aborted (es_step decode opts s i) (esLoops (es_step decode opts s i) ! n)"
  using control_grows [OF assms(2), of decode opts i] aborted_signal [OF assms(1,2)] assms(3)
    aborted_signal [OF control_ok_es_step [OF assms(1), of decode opts i], of n]
  by auto

lemma live_loops:
  assumes "control_ok s"
  shows "length (filter (\<lambda>lp. \<not> is_aborted s lp) (esLoops s)) \<le> (if esStopped s then 0 else 1)"
proof (cases "esStopped s")
  case True
  then show ?thesis by (simp add: is_aborted_def)
next
  case False
  then obtain c where c: "esController s = Some c" using assms by (auto simp: control_ok_def)
  have "length (filter (\<lambda>lp. \<not> is_aborted s lp) (esLoops s)) \<le> 1"
    using assms c by (intro distinct_filter_const [of loSignal _ _ c])
      (auto simp: control_ok_def is_aborted_def list_all_iff)
  with False show ?thesis by simp
qed

text \<open>
  C31.  However often the stream is stopped and started again, and whatever arrives in
  between, at most one of all the loops ever started is not aborted, and none after
  \<open>stop\<close>.  An aborted loop stays aborted for good, and it winds down: whatever input
  resumes it, it sends no request and schedules no reconnect; every input that it takes
  at all brings it strictly closer to its end, at most two inputs away; and it delivers
  events only from a chunk that was in flight when it was aborted, after which it no
  longer reads.
\<close>

theorem one_live_loop:
  "let s = foldl (es_step decode opts) (es_new cursor) inputs;
       s' = es_step decode opts s i
   in length (filter (\<lambda>lp. \<not> is_aborted s lp) (esLoops s)) \<le> (if esStopped s then 0 else 1)
      \<and> (\<forall>n < length (esLoops s). is_aborted s (esLoops s ! n) \<longrightarrow>
           is_aborted s' (esLoops s' ! n)
           \<and> (\<forall>li j. i = ILoop n li j \<longrightarrow> winds_down s s' n li))"
proof -
  let ?s = "foldl (es_step decode opts) (es_new cursor) inputs"
  have "control_ok (es_new cursor)" by (simp add: control_ok_def es_new_def)
  then have ok: "control_ok ?s" by (rule stream_control.run_inv)
  show ?thesis
    using live_loops [OF ok] abort_is_final [OF ok] aborted_winds_down
    unfolding Let_def by blast
qed

text \<open>A stopped stream whose first loop was reading: the chunk in flight is its last.\<close>

definition stopped_inputs :: "es_input list" where
  "stopped_inputs = [IStart 0, ILoop 0 (Response 200 True True) 0, IStop]"

lemma demo_session: "encodeURIComponent (eoSessionId demo_options) \<noteq> None"
proof -
  have "encodeURIComponent (js ''7'') \<noteq> None" by code_simp
  then show ?thesis by (simp add: demo_options_def es_defaults_def)
qed

lemma demo_stopped:
  "let s = foldl (es_step (\<lambda>_. []) demo_options) (es_new (Some 4)) stopped_inputs
   in 0 < length (esLoops s) \<and> is_aborted s (esLoops s ! 0) \<and> reads_chunk (loPhase (esLoops s ! 0)) (Chunk [])"
proof -
  obtain t where t: "encodeURIComponent (eoSessionId demo_options) = Some t"
    using demo_session by blast
  show ?thesis
    by (simp add: stopped_inputs_def t es_step_def start_def stop_def resume_def loop_step_def loop_head_def connect_def read_head_def
        connect_failed_def finish_def request_url_def is_aborted_def es_new_def setStatus_def log_out_def Let_def)
qed

theorem one_live_loop_witness:
  "let s = foldl (es_step (\<lambda>_. []) demo_options) (es_new (Some 4)) stopped_inputs;
       s' = es_step (\<lambda>_. []) demo_options s (ILoop 0 (Chunk (wire_text (demo_wire ''5''))) 0)
   in reads_chunk (loPhase (esLoops s ! 0)) (Chunk []) \<and> winds_down s s' 0 (Chunk (wire_text (demo_wire ''5'')))"
proof -
  let ?s = "foldl (es_step (\<lambda>_. []) demo_options) (es_new (Some 4)) stopped_inputs"
  show ?thesis
    using one_live_loop [of "\<lambda>_. []" demo_options "Some 4" stopped_inputs
        "ILoop 0 (Chunk (wire_text (demo_wire ''5''))) 0"] demo_stopped
    unfolding Let_def by blast
qed

text \<open>
  What \<open>stop\<close> does not stop: the status callback of an old loop comes after the new loop
  has started, so a running stream can show the status \<open>stopped\<close>, and a chunk that was
  read before the abort is still delivered.
\<close>

theorem restart_shows_stopped:
  assumes "encodeURIComponent (eoSessionId opts) \<noteq> None"
  shows "let s = foldl (es_step decode opts) (es_new cursor) [IStart j, IStop, IStart j, ILoop 0 (FetchFailed e) j]
   in \<not> esStopped s \<and> esStatus s = Stopped \<and> \<not> is_aborted s (esLoops s ! 1)
      \<and> loPhase (esLoops s ! 1) = PFetching"
proof -
  obtain t where t: "encodeURIComponent (eoSessionId opts) = Some t" using assms by blast
  show ?thesis
    by (simp add: t es_step_def start_def stop_def resume_def loop_step_def loop_head_def connect_def
        connect_failed_def finish_def request_url_def is_aborted_def es_new_def setStatus_def log_out_def Let_def)
qed

theorem late_chunk_delivered:
  assumes "n < length (esLoops s)" and "loPhase (esLoops s ! n) = PReading fresh_conn" and "esStopped s"
    and "wire_of w f" and "esCursor s < sfId f"
  shows "delivered_frames (esOut (es_step decode opts s (ILoop n (Chunk (wire_text w)) j))) =
     delivered_frames (esOut s) @ [f]"
proof -
  have "feed (wire_text w) (s, fresh_conn) = (receive s f, fresh_conn)"
    using pump_wires [of "[w]" "[f]" s] assms(4) by (simp add: feed_def fresh_conn_def)
  then show ?thesis
    using assms by (simp add: es_step_def resume_def loop_step_def read_head_def case_prod_beta
        receive_def log_out_def fresh_conn_def)
qed

section \<open>The frame bound\<close>

lemma frame_size_unbounded_step:
  assumes "n < length (esLoops s)" and "\<not> is_aborted s (esLoops s ! n)" and "7 \<le> eoMaxFrameBytes opts"
  shows "es_step decode opts (with_conn n (s, fresh_conn\<lparr>scData := ds\<rparr>))
       (ILoop n (Chunk (js ''data:x'' @ [10])) j) =
     with_conn n (s, fresh_conn\<lparr>scData := ds @ [js ''x'']\<rparr>)"
proof -
  have "feed (js ''data:x'' @ [10]) (s, fresh_conn\<lparr>scData := ds\<rparr>) = (s, fresh_conn\<lparr>scData := ds @ [js ''x'']\<rparr>)"
  proof -
    have nl: "10 \<notin> set (js ''data:x'')" by (simp add: js_def)
    have "process_line (js ''data:x'') (s, fresh_conn\<lparr>scData := ds\<rparr>) = (s, fresh_conn\<lparr>scData := ds @ [js ''x'']\<rparr>)"
      by (simp add: process_line_def ends_with_def starts_with_def js_def)
    then show ?thesis
      using pump_line [OF nl, of s "[]" "fresh_conn\<lparr>scData := ds\<rparr>"]
      by (simp add: feed_def fresh_conn_def pump_no_line)
  qed
  then show ?thesis
    using chunk_step [OF assms(1,2), of "fresh_conn\<lparr>scData := ds\<rparr>" opts "js ''data:x'' @ [10]" decode j] assms(3)
    by (simp add: fresh_conn_def js_def)
qed

text \<open>
  The frame bound only sees the text after the last line feed: a frame of any number of
  complete data lines is accumulated without an error, however small the bound is.
\<close>

theorem frame_size_unbounded:
  assumes "n < length (esLoops s)" and "\<not> is_aborted s (esLoops s ! n)" and "7 \<le> eoMaxFrameBytes opts"
  shows "foldl (es_step decode opts) (with_conn n (s, fresh_conn))
       (replicate k (ILoop n (Chunk (js ''data:x'' @ [10])) j)) =
     with_conn n (s, fresh_conn\<lparr>scData := replicate k (js ''x'')\<rparr>)"
proof -
  have "foldl (es_step decode opts) (with_conn n (s, fresh_conn\<lparr>scData := ds\<rparr>))
       (replicate k (ILoop n (Chunk (js ''data:x'' @ [10])) j)) =
     with_conn n (s, fresh_conn\<lparr>scData := ds @ replicate k (js ''x'')\<rparr>)" for ds
    by (induction k arbitrary: ds)
      (simp_all add: frame_size_unbounded_step [OF assms])
  from this [of "[]"] show ?thesis by (simp add: fresh_conn_def)
qed

end
