(* ===== verification/TaskStart.thy ===== *)
theory TaskStart
  imports Interfaces
begin

text \<open>
  The task-start policy of \<open>apps/vscode/src/taskStart.ts\<close>: the validation of a pending
  submission and of its attachment paths, the completion contract, the request body, the
  classification of failures, and the admission of one submission (uploads first, then
  one start).

  The native client is a parameter: a function from the calls made so far and the
  arguments to what the promise settles with, so it can refuse or fail at any call,
  depending on the whole history.  The callbacks are entries of the same log of calls;
  \<open>onStarted\<close> may throw, the other callbacks do not.
\<close>

section \<open>Data\<close>

record pending_attachment =
  paMime :: jsstr
  paFilename :: "jsstr option"
  paBytes :: int
  paDataBase64 :: jsstr
  paIsImage :: bool

record pending_submission =
  psText :: jsstr
  psSessionId :: "jsstr option"
  psDraftId :: "jsstr option"
  psMessageId :: "jsstr option"
  psFiles :: "jsval list"
  psAttachments :: "pending_attachment list"

record completion_contract =
  ccCommit :: bool
  ccPush :: bool
  ccPr :: bool

record native_attachment_id =
  naDigest :: jsstr
  naMime :: jsstr
  naFilename :: "jsstr option"
  naSize :: int

record task_run_started =
  trTaskId :: int
  trRunId :: jsstr
  trState :: jsstr

record work_item =
  wiId :: jsstr
  wiKind :: jsstr
  wiSummary :: jsstr
  wiOwnership :: jsstr

record start_task_request =
  rqGoal :: jsstr
  rqMaxTokens :: "jsnum option"
  rqMaxCostMicro :: "jsnum option"
  rqFiles :: "jsstr list option"
  rqAttachments :: "native_attachment_id list option"
  rqWorkItems :: "work_item list option"
  rqCompletion :: "completion_contract option"
  rqMutationMode :: "jsstr option"

record start_task_settings =
  stMutationMode :: jsstr
  stMaxTokens :: jsnum
  stMaxCostMicro :: jsnum
  stFiles :: "jsstr list option"
  stAttachments :: "native_attachment_id list option"
  stCompletion :: "completion_contract option"

definition MAX_PENDING_ATTACHMENT_BYTES :: nat where
  [cap_simps]: "MAX_PENDING_ATTACHMENT_BYTES = 7 * 1024 * 1024"
definition MAX_PENDING_FILES :: nat where [cap_simps]: "MAX_PENDING_FILES = 64"
definition MAX_PENDING_ID_CHARS :: nat where [cap_simps]: "MAX_PENDING_ID_CHARS = 4096"
definition MAX_PENDING_BASE64_CHARS :: nat where
  [cap_simps]: "MAX_PENDING_BASE64_CHARS = (MAX_PENDING_ATTACHMENT_BYTES + 2) div 3 * 4 + 8"
definition MAX_WEBVIEW_FILES :: nat where [cap_simps]: "MAX_WEBVIEW_FILES = 64"
definition MAX_WEBVIEW_FILE_CHARS :: nat where [cap_simps]: "MAX_WEBVIEW_FILE_CHARS = 4096"

section \<open>Pending submissions\<close>

definition pendingString :: "jsval \<Rightarrow> nat \<Rightarrow> jsstr option" where
  "pendingString v bound =
     (case v of
        JStr s \<Rightarrow>
          (let trimmed = trim s
           in if length trimmed = 0 \<or> length trimmed > bound then None else Some trimmed)
      | _ \<Rightarrow> None)"

text \<open>\<open>optionalId\<close>: absent (\<open>Some None\<close>), present (\<open>Some (Some i)\<close>) or malformed (\<open>None\<close>).\<close>

definition optionalId :: "jsval \<Rightarrow> jsstr option option" where
  "optionalId v =
     (if nullish v then Some None
      else (case pendingString v MAX_PENDING_ID_CHARS of Some s \<Rightarrow> Some (Some s) | None \<Rightarrow> None))"

definition parse_attachment :: "jsval \<Rightarrow> pending_attachment option" where
  "parse_attachment entry =
     (case entry of
        JObj item \<Rightarrow>
          (let mime = pendingString (jget item (js ''mime'')) 128;
               rawName = jget item (js ''filename'');
               filename = (if nullish rawName then None else pendingString rawName 255);
               dataBase64 = (case jget item (js ''dataBase64'') of JStr s \<Rightarrow> Some s | _ \<Rightarrow> None);
               bytes = (case jget item (js ''bytes'') of
                   JNum x \<Rightarrow> (case integer_value x of
                       Some n \<Rightarrow> if n \<ge> 0 then Some n else None | None \<Rightarrow> None)
                 | _ \<Rightarrow> None)
           in case (mime, dataBase64, bytes) of
                (Some m, Some d, Some n) \<Rightarrow>
                  if (filename = None \<and> \<not> nullish rawName) \<or> length d > MAX_PENDING_BASE64_CHARS
                     \<or> n > int MAX_PENDING_ATTACHMENT_BYTES
                  then None
                  else Some \<lparr>paMime = m, paFilename = filename, paBytes = n, paDataBase64 = d,
                    paIsImage = (case jget item (js ''isImage'') of
                        JBool b \<Rightarrow> b | _ \<Rightarrow> starts_with (js ''image/'') m)\<rparr>
              | _ \<Rightarrow> None)
      | _ \<Rightarrow> None)"

fun parse_attachments :: "jsval list \<Rightarrow> pending_attachment list option" where
  "parse_attachments [] = Some []"
| "parse_attachments (v # vs) =
     (case parse_attachment v of
        None \<Rightarrow> None
      | Some a \<Rightarrow> map_option (\<lambda>as. a # as) (parse_attachments vs))"

definition parse_attachment_list :: "jsval \<Rightarrow> pending_attachment list option" where
  "parse_attachment_list raw =
     (if nullish raw then Some []
      else (case raw of
          JArr vs \<Rightarrow> if length vs > MAX_PENDING_FILES then None else parse_attachments vs
        | _ \<Rightarrow> None))"

definition parse_pending_files :: "jsval \<Rightarrow> jsval list option" where
  "parse_pending_files raw =
     (if nullish raw then Some []
      else (case raw of
          JArr vs \<Rightarrow> if length vs > MAX_PENDING_FILES then None else Some vs
        | _ \<Rightarrow> None))"

definition parsePendingSubmission :: "jsval \<Rightarrow> pending_submission option" where
  "parsePendingSubmission raw =
     (case raw of
        JObj record \<Rightarrow>
          (case jget record (js ''text'') of
             JStr txt \<Rightarrow>
               if length (trim txt) = 0 \<or> length txt > 64 * 1024 then None
               else
                 (case (optionalId (jget record (js ''sessionId'')),
                        optionalId (jget record (js ''draftId'')),
                        optionalId (jget record (js ''messageId''))) of
                    (Some sessionId, Some draftId, Some messageId) \<Rightarrow>
                      (case (parse_pending_files (jget record (js ''files'')),
                             parse_attachment_list (jget record (js ''attachments''))) of
                         (Some files, Some attachments) \<Rightarrow>
                           Some \<lparr>psText = txt, psSessionId = sessionId, psDraftId = draftId,
                             psMessageId = messageId, psFiles = files, psAttachments = attachments\<rparr>
                       | _ \<Rightarrow> None)
                  | _ \<Rightarrow> None)
           | _ \<Rightarrow> None)
      | _ \<Rightarrow> None)"

section \<open>Attachment paths\<close>

definition is_alpha :: "cunit \<Rightarrow> bool" where
  "is_alpha c \<longleftrightarrow> 65 \<le> c \<and> c \<le> 90 \<or> 97 \<le> c \<and> c \<le> 122"

definition scheme_unit :: "cunit \<Rightarrow> bool" where
  "scheme_unit c \<longleftrightarrow> is_alpha c \<or> is_digit c \<or> c = 43 \<or> c = 46 \<or> c = 45"

text \<open>\<open>/^[a-zA-Z][a-zA-Z0-9+.-]*:/\<close>\<close>

definition has_scheme :: "jsstr \<Rightarrow> bool" where
  "has_scheme s =
     (case s of
        c # cs \<Rightarrow> is_alpha c \<and> starts_with [58] (dropWhile scheme_unit cs)
      | [] \<Rightarrow> False)"

text \<open>\<open>/^[a-zA-Z]:[\\/]/\<close>\<close>

definition drive_path :: "jsstr \<Rightarrow> bool" where
  "drive_path s =
     (case s of c # d # e # _ \<Rightarrow> is_alpha c \<and> d = 58 \<and> (e = 92 \<or> e = 47) | _ \<Rightarrow> False)"

definition is_control :: "cunit \<Rightarrow> bool" where
  "is_control c \<longleftrightarrow> c < 0x20 \<or> c = 0x7F"

definition is_slash :: "cunit \<Rightarrow> bool" where
  "is_slash c \<longleftrightarrow> c = 92 \<or> c = 47"

text \<open>The reason one entry is refused, or the trimmed path.\<close>

definition check_path :: "jsval \<Rightarrow> string + jsstr" where
  "check_path entry =
     (case entry of
        JStr s \<Rightarrow>
          (let trimmed = trim s
           in if length trimmed = 0 then Inl ''attachment path is empty''
              else if length trimmed > MAX_WEBVIEW_FILE_CHARS
                then Inl ''attachment path exceeds 4096 characters''
              else if list_ex is_control trimmed
                then Inl ''attachment path carries control characters''
              else if has_scheme trimmed
                then Inl ''attachment url schemes do not reach the native run (workspace-relative paths only)''
              else if starts_with [47] trimmed \<or> drive_path trimmed \<or> starts_with [92, 92] trimmed
                then Inl ''attachment path must be workspace-relative''
              else if List.member (split_by is_slash trimmed) (js ''..'')
                then Inl ''attachment path traverses outside the workspace''
              else Inr trimmed)
      | _ \<Rightarrow> Inl ''attachment path must be a string'')"

definition refuse_file :: "(nat \<times> jsstr) list \<Rightarrow> nat \<Rightarrow> string \<Rightarrow> (nat \<times> jsstr) list" where
  "refuse_file refused index reason =
     (if length refused < MAX_WEBVIEW_FILES then refused @ [(index, js reason)] else refused)"

fun bound_files ::
  "nat \<Rightarrow> jsstr list \<Rightarrow> (nat \<times> jsstr) list \<Rightarrow> jsval list \<Rightarrow> jsstr list \<times> (nat \<times> jsstr) list" where
  "bound_files index files refused [] = (files, refused)"
| "bound_files index files refused (entry # raw) =
     (case check_path entry of
        Inl reason \<Rightarrow> bound_files (Suc index) files (refuse_file refused index reason) raw
      | Inr path \<Rightarrow>
          if length files \<ge> MAX_WEBVIEW_FILES
          then bound_files (Suc index) files (refuse_file refused index ''more than 64 file attachments'') raw
          else bound_files (Suc index) (files @ [path]) refused raw)"

definition boundedWebviewFiles :: "jsval \<Rightarrow> jsstr list \<times> (nat \<times> jsstr) list" where
  "boundedWebviewFiles raw =
     (if nullish raw then ([], [])
      else (case raw of
          JArr entries \<Rightarrow> bound_files 0 [] [] entries
        | _ \<Rightarrow> ([], [(0, js ''files must be an array of attachment paths'')])))"

section \<open>The completion contract\<close>

definition contract_keys :: "jsstr list" where
  "contract_keys = [js ''include_commit'', js ''include_push'', js ''include_pr'']"

definition hasCompletionSteps :: "completion_contract option \<Rightarrow> bool" where
  "hasCompletionSteps contract =
     (case contract of None \<Rightarrow> False | Some c \<Rightarrow> ccCommit c \<or> ccPush c \<or> ccPr c)"

definition bool_member :: "jsval props \<Rightarrow> jsstr \<Rightarrow> bool option" where
  "bool_member ps k = (case map_of ps k of Some (JBool b) \<Rightarrow> Some b | _ \<Rightarrow> None)"

definition parseCompletionContract :: "jsval \<Rightarrow> jsstr + completion_contract option" where
  "parseCompletionContract raw =
     (if nullish raw then Inr None
      else (case raw of
          JObj record \<Rightarrow>
            (case find (\<lambda>k. \<not> List.member contract_keys k) (jkeys record) of
               Some key \<Rightarrow> Inl (js ''completionContract.'' @ key @ js '' is not a known member'')
             | None \<Rightarrow>
                 (case find (\<lambda>k. bool_member record k = None) contract_keys of
                    Some key \<Rightarrow> Inl (js ''completionContract.'' @ key @ js '' must be a boolean'')
                  | None \<Rightarrow>
                      (let contract = \<lparr>ccCommit = the (bool_member record (js ''include_commit'')),
                             ccPush = the (bool_member record (js ''include_push'')),
                             ccPr = the (bool_member record (js ''include_pr''))\<rparr>
                       in Inr (if hasCompletionSteps (Some contract) then Some contract else None))))
        | _ \<Rightarrow> Inl (js ''completionContract must be an object'')))"

definition completionContractSetting :: "jsval \<Rightarrow> completion_contract option" where
  "completionContractSetting raw =
     (case parseCompletionContract raw of Inl _ \<Rightarrow> None | Inr contract \<Rightarrow> contract)"

section \<open>The request\<close>

definition num_positive :: "jsnum \<Rightarrow> bool" where
  "num_positive x = (case x of Fin q \<Rightarrow> q > 0 | PosInf \<Rightarrow> True | _ \<Rightarrow> False)"

text \<open>A list member of the request is sent only when there is something in it.\<close>

definition non_empty :: "'a list option \<Rightarrow> 'a list option" where
  "non_empty xs = (case xs of Some (y # ys) \<Rightarrow> Some (y # ys) | _ \<Rightarrow> None)"

definition startTaskRequest :: "jsstr \<Rightarrow> start_task_settings \<Rightarrow> start_task_request" where
  "startTaskRequest goal settings =
     (let contract = (if hasCompletionSteps (stCompletion settings) then stCompletion settings else None)
      in \<lparr>rqGoal = goal,
          rqMaxTokens = (if num_positive (stMaxTokens settings) then Some (stMaxTokens settings) else None),
          rqMaxCostMicro =
            (if num_positive (stMaxCostMicro settings) then Some (stMaxCostMicro settings) else None),
          rqFiles = non_empty (stFiles settings), rqAttachments = non_empty (stAttachments settings),
          rqWorkItems = map_option (\<lambda>_. [\<lparr>wiId = js ''main'', wiKind = js ''Implementation'',
              wiSummary = goal, wiOwnership = js ''isolated_worktree''\<rparr>]) contract,
          rqCompletion = contract,
          rqMutationMode =
            (if stMutationMode settings = js ''shadow'' \<or> stMutationMode settings = js ''direct_compat''
             then Some (stMutationMode settings) else None)\<rparr>)"

section \<open>Failures\<close>

text \<open>What a promise rejects with: a typed API error (its \<open>message\<close> is the full text of the
  \<open>Error\<close>), another \<open>Error\<close>, or a value that is not an \<open>Error\<close> (\<open>String(value)\<close>).\<close>

datatype thrown = ThrownApi int jsstr jsstr | ThrownError jsstr | ThrownValue jsstr

definition thrown_message :: "thrown \<Rightarrow> jsstr" where
  "thrown_message e = (case e of ThrownApi _ _ m \<Rightarrow> m | ThrownError m \<Rightarrow> m | ThrownValue m \<Rightarrow> m)"

definition api_error :: "int \<Rightarrow> jsstr \<Rightarrow> jsstr \<Rightarrow> thrown" where
  "api_error status code message =
     ThrownApi status code (js ''native API error '' @ int_string status @ js '' '' @ code @ js '': '' @ message)"

datatype failure_kind =
    FShadowUnregistered | FValidation | FConflict | FAuth | FServer | FTransport
  | FUpload | FImageUnsupported

datatype failure_stage = StageUpload | StageStart

record start_failure =
  sfKind :: failure_kind
  sfStage :: failure_stage
  sfStatus :: "int option"
  sfCode :: "jsstr option"
  sfMessage :: jsstr

definition start_failed ::
  "failure_kind \<Rightarrow> int option \<Rightarrow> jsstr option \<Rightarrow> jsstr \<Rightarrow> start_failure" where
  "start_failed kind status code message =
     \<lparr>sfKind = kind, sfStage = StageStart, sfStatus = status, sfCode = code, sfMessage = message\<rparr>"

definition failureOf :: "thrown \<Rightarrow> start_task_settings \<Rightarrow> start_failure" where
  "failureOf e settings =
     (case e of
        ThrownApi status code message \<Rightarrow>
          if status = 409 then
            (if stMutationMode settings \<noteq> js ''direct_compat'' then
               start_failed FShadowUnregistered (Some status) (Some code)
                 (js ''cannot start task: the daemon refused the shadowed run because the session is ''
                  @ js ''not registered in the daemon worktree registry (shadow mutation needs a ''
                  @ js ''registered workspace/worktree). Server said: '' @ message @ js ''. Restart the ''
                  @ js ''daemon so a registered session is created, or opt in explicitly with ''
                  @ js ''\"faktor.mutationMode\": \"direct_compat\".'')
             else
               start_failed FConflict (Some status) (Some code)
                 (js ''cannot start task: the daemon refused the run even though direct_compat was ''
                  @ js ''configured. Server said: '' @ message @ js ''.''))
          else
            start_failed
              (if status = 400 then FValidation
               else if status = 401 \<or> status = 403 then FAuth else FServer)
              (Some status) (Some code) (js ''cannot start task: '' @ message)
      | _ \<Rightarrow> start_failed FTransport None None (js ''cannot start task: '' @ thrown_message e))"

definition uploadFailureOf :: "thrown \<Rightarrow> jsstr \<Rightarrow> start_failure" where
  "uploadFailureOf e sessionId =
     \<lparr>sfKind = FUpload, sfStage = StageUpload,
      sfStatus = (case e of ThrownApi status _ _ \<Rightarrow> Some status | _ \<Rightarrow> None),
      sfCode = (case e of ThrownApi _ code _ \<Rightarrow> Some code | _ \<Rightarrow> None),
      sfMessage = js ''cannot upload attachment to session '' @ sessionId @ js '': '' @ thrown_message e\<rparr>"

definition image_failure :: start_failure where
  "image_failure =
     \<lparr>sfKind = FImageUnsupported, sfStage = StageUpload, sfStatus = Some 400, sfCode = Some (js ''unsupported''),
      sfMessage = js ''image attachments cannot be submitted: provider media/content parts are not wired, so the bytes can never reach a model; the draft and images were kept '' @ [0x2014] @ js '' retry without the image''\<rparr>"

section \<open>The client and its calls\<close>

record upload_request =
  urMime :: jsstr
  urFilename :: "jsstr option"
  urData :: jsstr

datatype call =
    is_CUpload: CUpload jsstr upload_request
  | is_CStart: CStart jsstr start_task_request
  | is_COnStarted: COnStarted task_run_started
  | is_COnFailure: COnFailure start_failure
  | is_CRestore: CRestore start_failure

record client =
  clUpload :: "call list \<Rightarrow> jsstr \<Rightarrow> upload_request \<Rightarrow> thrown + native_attachment_id"
  clStart :: "call list \<Rightarrow> jsstr \<Rightarrow> start_task_request \<Rightarrow> thrown + task_run_started"
  clOnStarted :: "task_run_started \<Rightarrow> thrown option"

text \<open>\<open>startTaskRun\<close>: the outcome is the started run or the failure.\<close>

definition startTaskRun ::
  "client \<Rightarrow> jsstr \<Rightarrow> jsstr \<Rightarrow> start_task_settings \<Rightarrow> call list
     \<Rightarrow> (start_failure + task_run_started) \<times> call list" where
  "startTaskRun client sessionId goal settings calls =
     (let request = startTaskRequest goal settings;
          calls1 = calls @ [CStart sessionId request];
          failed = (\<lambda>e calls. let failure = failureOf e settings
                      in (Inl failure, calls @ [COnFailure failure]))
      in case clStart client calls sessionId request of
           Inl e \<Rightarrow> failed e calls1
         | Inr started \<Rightarrow>
             (case clOnStarted client started of
                Some e \<Rightarrow> failed e (calls1 @ [COnStarted started])
              | None \<Rightarrow> (Inr started, calls1 @ [COnStarted started])))"

definition attachment_request :: "pending_attachment \<Rightarrow> upload_request" where
  "attachment_request a = \<lparr>urMime = paMime a, urFilename = paFilename a, urData = paDataBase64 a\<rparr>"

text \<open>The upload loop: the ids so far, and the error that stopped it, if any.\<close>

fun upload_all ::
  "client \<Rightarrow> jsstr \<Rightarrow> native_attachment_id list \<Rightarrow> call list \<Rightarrow> pending_attachment list
     \<Rightarrow> native_attachment_id list \<times> thrown option \<times> call list" where
  "upload_all client sessionId uploaded calls [] = (uploaded, None, calls)"
| "upload_all client sessionId uploaded calls (a # as) =
     (let calls1 = calls @ [CUpload sessionId (attachment_request a)]
      in case clUpload client calls sessionId (attachment_request a) of
           Inl e \<Rightarrow> (uploaded, Some e, calls1)
         | Inr i \<Rightarrow> upload_all client sessionId (uploaded @ [i]) calls1 as)"

record admit_outcome =
  aoRunId :: "jsstr option"
  aoAttachmentIds :: "jsstr list"
  aoFailure :: "start_failure option"

definition aoOk :: "admit_outcome \<Rightarrow> bool" where
  "aoOk r \<longleftrightarrow> aoFailure r = None"

definition is_image :: "pending_attachment \<Rightarrow> bool" where
  "is_image a \<longleftrightarrow> paIsImage a \<or> starts_with (js ''image/'') (paMime a)"

definition admitPendingSubmission ::
  "client \<Rightarrow> jsstr \<Rightarrow> pending_submission \<Rightarrow> start_task_settings \<Rightarrow> call list
     \<Rightarrow> admit_outcome \<times> call list" where
  "admitPendingSubmission client sessionId pending settings calls =
     (case find is_image (psAttachments pending) of
        Some _ \<Rightarrow>
          (\<lparr>aoRunId = None, aoAttachmentIds = [], aoFailure = Some image_failure\<rparr>,
           calls @ [COnFailure image_failure, CRestore image_failure])
      | None \<Rightarrow>
          (case upload_all client sessionId [] calls (psAttachments pending) of
             (uploaded, Some e, calls1) \<Rightarrow>
               (let failure = uploadFailureOf e sessionId
                in (\<lparr>aoRunId = None, aoAttachmentIds = map naDigest uploaded, aoFailure = Some failure\<rparr>,
                    calls1 @ [COnFailure failure, CRestore failure]))
           | (uploaded, None, calls1) \<Rightarrow>
               (case startTaskRun client sessionId (psText pending)
                   (settings\<lparr>stAttachments := Some uploaded\<rparr>) calls1 of
                  (Inr started, calls2) \<Rightarrow>
                    (\<lparr>aoRunId = Some (trRunId started), aoAttachmentIds = map naDigest uploaded,
                      aoFailure = None\<rparr>, calls2)
                | (Inl failure, calls2) \<Rightarrow>
                    (\<lparr>aoRunId = None, aoAttachmentIds = map naDigest uploaded, aoFailure = Some failure\<rparr>,
                     calls2 @ [CRestore failure]))))"

section \<open>Admission: facts\<close>

text \<open>
  The first \<open>k\<close> uploads succeeded: \<open>ids\<close> are, in order, the ids the daemon answered them
  with, each upload made after the ones before it.
\<close>

definition upload_calls :: "jsstr \<Rightarrow> pending_attachment list \<Rightarrow> call list" where
  "upload_calls sid as = map (\<lambda>a. CUpload sid (attachment_request a)) as"

definition uploaded_ids ::
  "client \<Rightarrow> jsstr \<Rightarrow> call list \<Rightarrow> pending_attachment list \<Rightarrow> nat \<Rightarrow> native_attachment_id list \<Rightarrow> bool" where
  "uploaded_ids client sid calls as k ids \<longleftrightarrow>
     k \<le> length as \<and> length ids = k
     \<and> (\<forall>j < k. clUpload client (calls @ upload_calls sid (take j as)) sid (attachment_request (as ! j)) = Inr (ids ! j))"

lemma uploaded_ids_Cons:
  assumes "clUpload client calls sid (attachment_request a) = Inr i"
    and "uploaded_ids client sid (calls @ [CUpload sid (attachment_request a)]) as k ids"
  shows "uploaded_ids client sid calls (a # as) (Suc k) (i # ids)"
proof -
  have "clUpload client (calls @ upload_calls sid (take j (a # as))) sid (attachment_request ((a # as) ! j))
      = Inr ((i # ids) ! j)" if "j < Suc k" for j
    using that assms by (cases j) (auto simp: upload_calls_def uploaded_ids_def)
  then show ?thesis using assms(2) by (simp add: uploaded_ids_def)
qed

lemma upload_all_exact:
  "upload_all client sid uploaded calls as = (ids, err, calls') \<Longrightarrow>
     \<exists>k new. uploaded_ids client sid calls as k new \<and> ids = uploaded @ new
       \<and> (case err of
            None \<Rightarrow> k = length as \<and> calls' = calls @ upload_calls sid as
          | Some e \<Rightarrow> k < length as
              \<and> clUpload client (calls @ upload_calls sid (take k as)) sid (attachment_request (as ! k)) = Inl e
              \<and> calls' = calls @ upload_calls sid (take (Suc k) as))"
proof (induction as arbitrary: uploaded calls)
  case Nil
  then show ?case by (auto simp: uploaded_ids_def upload_calls_def)
next
  case (Cons a as)
  let ?calls1 = "calls @ [CUpload sid (attachment_request a)]"
  show ?case
  proof (cases "clUpload client calls sid (attachment_request a)")
    case (Inl e)
    with Cons.prems show ?thesis
      by (intro exI [of _ 0] exI [of _ "[]"]) (auto simp: uploaded_ids_def upload_calls_def)
  next
    case (Inr i)
    with Cons.prems have "upload_all client sid (uploaded @ [i]) ?calls1 as = (ids, err, calls')" by simp
    from Cons.IH [OF this] obtain k new where k: "uploaded_ids client sid ?calls1 as k new"
        "ids = (uploaded @ [i]) @ new"
        "case err of
            None \<Rightarrow> k = length as \<and> calls' = ?calls1 @ upload_calls sid as
          | Some e \<Rightarrow> k < length as
              \<and> clUpload client (?calls1 @ upload_calls sid (take k as)) sid (attachment_request (as ! k)) = Inl e
              \<and> calls' = ?calls1 @ upload_calls sid (take (Suc k) as)"
      by blast
    show ?thesis
      using uploaded_ids_Cons [OF Inr k(1)] k(2,3)
      by (intro exI [of _ "Suc k"] exI [of _ "i # new"]) (auto simp: upload_calls_def split: option.splits)
  qed
qed

lemma upload_all_log:
  assumes "upload_all client sid uploaded calls as = (ids, err, calls')"
  shows "\<exists>k \<le> length as. calls' = calls @ map (\<lambda>a. CUpload sid (attachment_request a)) (take k as)"
proof -
  from upload_all_exact [OF assms] obtain k new where "uploaded_ids client sid calls as k new"
      "case err of
            None \<Rightarrow> k = length as \<and> calls' = calls @ upload_calls sid as
          | Some e \<Rightarrow> k < length as
              \<and> clUpload client (calls @ upload_calls sid (take k as)) sid (attachment_request (as ! k)) = Inl e
              \<and> calls' = calls @ upload_calls sid (take (Suc k) as)" by blast
  then show ?thesis
    by (cases err) (auto simp: upload_calls_def intro: exI [of _ "length as"] exI [of _ "Suc k"])
qed

lemma startTaskRun_calls:
  "startTaskRun client sid goal settings calls = (res, calls') \<Longrightarrow>
     (case res of
        Inr started \<Rightarrow> calls' = calls @ [CStart sid (startTaskRequest goal settings), COnStarted started]
      | Inl f \<Rightarrow> calls' = calls @ [CStart sid (startTaskRequest goal settings), COnFailure f]
          \<or> (\<exists>started. calls' = calls @ [CStart sid (startTaskRequest goal settings), COnStarted started,
               COnFailure f]))"
  by (auto simp: startTaskRun_def Let_def split: sum.splits option.splits)

text \<open>
  What one admission does, by the daemon's answers: an image refuses it without a call;
  otherwise the uploads go up to the first that fails, and only when none does the one
  start follows, naming exactly the ids the uploads were answered with, in their order.
\<close>

definition start_request ::
  "pending_submission \<Rightarrow> start_task_settings \<Rightarrow> native_attachment_id list \<Rightarrow> start_task_request" where
  "start_request pending settings ids = startTaskRequest (psText pending) (settings\<lparr>stAttachments := Some ids\<rparr>)"

definition admission_refused ::
  "native_attachment_id list \<Rightarrow> start_failure \<Rightarrow> call list \<Rightarrow> admit_outcome \<Rightarrow> call list \<Rightarrow> bool" where
  "admission_refused ids f before r calls \<longleftrightarrow>
     r = \<lparr>aoRunId = None, aoAttachmentIds = map naDigest ids, aoFailure = Some f\<rparr>
     \<and> calls = before @ [COnFailure f, CRestore f]"

definition start_answered ::
  "client \<Rightarrow> jsstr \<Rightarrow> pending_submission \<Rightarrow> start_task_settings \<Rightarrow> native_attachment_id list
     \<Rightarrow> admit_outcome \<Rightarrow> call list \<Rightarrow> bool" where
  "start_answered client sid pending settings ids r calls \<longleftrightarrow>
     (let before = upload_calls sid (psAttachments pending);
          rq = start_request pending settings ids
      in rqGoal rq = psText pending
         \<and> rqAttachments rq = (if ids = [] then None else Some ids)
         \<and> (case clStart client before sid rq of
              Inl e \<Rightarrow> admission_refused ids (failureOf e settings) (before @ [CStart sid rq]) r calls
            | Inr started \<Rightarrow>
                (case clOnStarted client started of
                   Some e \<Rightarrow> admission_refused ids (failureOf e settings)
                     (before @ [CStart sid rq, COnStarted started]) r calls
                 | None \<Rightarrow>
                     r = \<lparr>aoRunId = Some (trRunId started), aoAttachmentIds = map naDigest ids, aoFailure = None\<rparr>
                     \<and> calls = before @ [CStart sid rq, COnStarted started])))"

definition admission_shape ::
  "client \<Rightarrow> jsstr \<Rightarrow> pending_submission \<Rightarrow> start_task_settings \<Rightarrow> admit_outcome \<Rightarrow> call list \<Rightarrow> bool" where
  "admission_shape client sid pending settings r calls \<longleftrightarrow>
     (let as = psAttachments pending
      in if list_ex is_image as then admission_refused [] image_failure [] r calls
         else (\<exists>k ids. uploaded_ids client sid [] as k ids
           \<and> (if k < length as
              then (\<exists>e. clUpload client (upload_calls sid (take k as)) sid (attachment_request (as ! k)) = Inl e
                \<and> admission_refused ids (uploadFailureOf e sid) (upload_calls sid (take (Suc k) as)) r calls)
              else start_answered client sid pending settings ids r calls)))"

lemma find_None_list_ex: "find P xs = None \<longleftrightarrow> \<not> list_ex P xs"
  by (induction xs) auto

text \<open>The shape holds: an image stops it, then an upload may fail, then the start.\<close>

lemma failureOf_attachments [simp]: "failureOf e (settings\<lparr>stAttachments := x\<rparr>) = failureOf e settings"
  by (cases e) (simp_all add: failureOf_def)

lemma start_request_carries:
  "rqGoal (start_request pending settings ids) = psText pending"
  "rqAttachments (start_request pending settings ids) = (if ids = [] then None else Some ids)"
  by (cases ids; simp add: start_request_def startTaskRequest_def Let_def non_empty_def)+

lemma start_answered_holds:
  assumes "upload_all client sid [] [] (psAttachments pending)
      = (ids, None, upload_calls sid (psAttachments pending))"
    and "find is_image (psAttachments pending) = None"
  shows "case admitPendingSubmission client sid pending settings [] of
     (r, calls) \<Rightarrow> start_answered client sid pending settings ids r calls"
  using assms start_request_carries [of pending settings ids]
  by (auto simp: admitPendingSubmission_def start_answered_def admission_refused_def startTaskRun_def
      start_request_def Let_def split: sum.splits option.splits)

lemma admission_shape_holds:
  "case admitPendingSubmission client sid pending settings [] of
     (r, calls) \<Rightarrow> admission_shape client sid pending settings r calls"
proof (cases "find is_image (psAttachments pending)")
  case (Some a)
  then have "list_ex is_image (psAttachments pending)" by (metis find_None_list_ex option.distinct(1))
  with Some show ?thesis by (simp add: admitPendingSubmission_def admission_shape_def admission_refused_def)
next
  case None
  then have no: "\<not> list_ex is_image (psAttachments pending)" by (simp add: find_None_list_ex)
  obtain ids err calls1 where u: "upload_all client sid [] [] (psAttachments pending) = (ids, err, calls1)"
    by (metis prod_cases3)
  from upload_all_exact [OF this, unfolded append_Nil] obtain k where
    k: "uploaded_ids client sid [] (psAttachments pending) k ids"
       "case err of
            None \<Rightarrow> k = length (psAttachments pending) \<and> calls1 = upload_calls sid (psAttachments pending)
          | Some e \<Rightarrow> k < length (psAttachments pending)
              \<and> clUpload client (upload_calls sid (take k (psAttachments pending))) sid
                  (attachment_request (psAttachments pending ! k)) = Inl e
              \<and> calls1 = upload_calls sid (take (Suc k) (psAttachments pending))"
    by blast
  show ?thesis
  proof (cases err)
    case (Some e)
    with k u None no show ?thesis
      by (auto simp: admitPendingSubmission_def admission_shape_def admission_refused_def Let_def)
  next
    case none: None
    with k u have "upload_all client sid [] [] (psAttachments pending)
        = (ids, None, upload_calls sid (psAttachments pending))" and last: "\<not> k < length (psAttachments pending)"
      by simp_all
    from start_answered_holds [OF this(1) None, of settings] last no k(1)
    show ?thesis by (auto simp: admission_shape_def Let_def intro!: exI [of _ k] exI [of _ ids])
  qed
qed

text \<open>
  C6.  The admission protocol, whatever the daemon answers at each call.  A submission
  with an image is refused without a call to the daemon.  Otherwise the attachments are
  uploaded one by one in their order until one fails: then the failure of exactly that
  upload is reported and restored and no start is made.  When every upload was answered,
  exactly one start follows, with the submitted text and with exactly the ids the daemon
  answered the uploads with, in their order; the admission succeeds, with the run and the
  digests it names, precisely when the start is accepted and the \<open>onStarted\<close> callback does
  not throw, and otherwise reports and restores the classified failure as its last calls.
\<close>

theorem admission_protocol:
  "case admitPendingSubmission client sid pending settings [] of
     (r, calls) \<Rightarrow> admission_shape client sid pending settings r calls"
  by (rule admission_shape_holds)

lemma upload_calls_kinds:
  "filter is_CRestore (upload_calls sid as) = []" "filter is_COnFailure (upload_calls sid as) = []"
  "filter is_CStart (upload_calls sid as) = []"
  by (induction as) (auto simp: upload_calls_def)

lemma admission_counts:
  assumes "admitPendingSubmission client sid pending settings [] = (r, calls)"
  shows "length (filter is_CRestore calls) = (if aoOk r then 0 else 1)"
    and "length (filter is_COnFailure calls) = (if aoOk r then 0 else 1)"
    and "length (filter is_CStart calls) \<le> 1"
    and "case aoFailure r of None \<Rightarrow> aoRunId r \<noteq> None | Some f \<Rightarrow> last calls = CRestore f"
proof -
  have shape: "admission_shape client sid pending settings r calls"
    using admission_shape_holds [of client sid pending settings] unfolding assms by simp
  have "length (filter is_CRestore calls) = (if aoOk r then 0 else 1)
      \<and> length (filter is_COnFailure calls) = (if aoOk r then 0 else 1)
      \<and> length (filter is_CStart calls) \<le> 1
      \<and> (case aoFailure r of None \<Rightarrow> aoRunId r \<noteq> None | Some f \<Rightarrow> last calls = CRestore f)"
    using shape
    by (auto simp: admission_shape_def admission_refused_def start_answered_def aoOk_def upload_calls_kinds
        Let_def split: if_splits sum.splits option.splits)
  then show "length (filter is_CRestore calls) = (if aoOk r then 0 else 1)"
    "length (filter is_COnFailure calls) = (if aoOk r then 0 else 1)"
    "length (filter is_CStart calls) \<le> 1"
    "case aoFailure r of None \<Rightarrow> aoRunId r \<noteq> None | Some f \<Rightarrow> last calls = CRestore f"
    by simp_all
qed

text \<open>
  The draft is never lost: the host restores it exactly once on any failure, as the
  very last call and with the failure it reports, and never on success; at most one
  start request is made for one submission, so a refusal is never retried.
\<close>

theorem restore_exactly_once:
  "case admitPendingSubmission client sid pending settings [] of
     (r, calls) \<Rightarrow>
       length (filter is_CRestore calls) = (if aoOk r then 0 else 1)
       \<and> length (filter is_COnFailure calls) = (if aoOk r then 0 else 1)
       \<and> length (filter is_CStart calls) \<le> 1
       \<and> (case aoFailure r of None \<Rightarrow> aoRunId r \<noteq> None | Some f \<Rightarrow> last calls = CRestore f)"
proof -
  obtain r calls where rc: "admitPendingSubmission client sid pending settings [] = (r, calls)" by fastforce
  show ?thesis using admission_counts [OF rc] by (simp add: rc)
qed

lemma startTaskRequest_mode:
  "rqMutationMode (startTaskRequest goal settings) =
     (if stMutationMode settings \<in> {js ''shadow'', js ''direct_compat''} then Some (stMutationMode settings) else None)"
  by (simp add: startTaskRequest_def Let_def)

text \<open>
  No silent downgrade: whatever the daemon answers (a 409 included), every start
  request of the admission carries \<open>mutation_mode\<close> only when the user configured exactly
  that explicit value, carries the submitted text as its goal, and pairs a completion
  contract, which always has at least one step, with exactly one explicit work item.
\<close>

theorem no_mode_downgrade:
  "list_all (\<lambda>c. case c of
       CStart _ rq \<Rightarrow>
         rqMutationMode rq = (if stMutationMode settings \<in> {js ''shadow'', js ''direct_compat''}
           then Some (stMutationMode settings) else None)
         \<and> rqGoal rq = psText pending
         \<and> (case rqCompletion rq of
              None \<Rightarrow> rqWorkItems rq = None
            | Some contract \<Rightarrow> hasCompletionSteps (Some contract)
                \<and> map_option length (rqWorkItems rq) = Some 1)
     | _ \<Rightarrow> True) (snd (admitPendingSubmission client sid pending settings []))"
proof -
  obtain r calls where rc: "admitPendingSubmission client sid pending settings [] = (r, calls)" by fastforce
  have shape: "admission_shape client sid pending settings r calls"
    using admission_shape_holds [of client sid pending settings] unfolding rc by simp
  define P where "P c = (case c of
       CStart _ rq \<Rightarrow>
         rqMutationMode rq = (if stMutationMode settings \<in> {js ''shadow'', js ''direct_compat''}
           then Some (stMutationMode settings) else None)
         \<and> rqGoal rq = psText pending
         \<and> (case rqCompletion rq of
              None \<Rightarrow> rqWorkItems rq = None
            | Some contract \<Rightarrow> hasCompletionSteps (Some contract)
                \<and> map_option length (rqWorkItems rq) = Some 1)
     | _ \<Rightarrow> True)" for c
  have start: "P (CStart sid (start_request pending settings ids))" for ids
    by (auto simp: P_def start_request_def startTaskRequest_def Let_def split: option.splits)
  have up: "list_all P (upload_calls sid as)" for as
    by (simp add: upload_calls_def list_all_iff P_def)
  have rest: "P (COnStarted x)" "P (COnFailure f)" "P (CRestore f)" for x f by (simp_all add: P_def)
  have "list_all P calls"
    using shape start up rest
    by (auto simp: admission_shape_def admission_refused_def start_answered_def Let_def
        split: if_splits sum.splits option.splits)
  then show ?thesis unfolding rc P_def by simp
qed

section \<open>Submissions: facts\<close>

definition id_ok :: "nat \<Rightarrow> jsstr \<Rightarrow> bool" where
  "id_ok n s \<longleftrightarrow> s \<noteq> [] \<and> trim s = s \<and> length s \<le> n"

definition attachment_ok :: "pending_attachment \<Rightarrow> bool" where
  "attachment_ok a \<longleftrightarrow> id_ok 128 (paMime a) \<and> (case paFilename a of None \<Rightarrow> True | Some f \<Rightarrow> id_ok 255 f)
     \<and> 0 \<le> paBytes a \<and> paBytes a \<le> 7340032 \<and> length (paDataBase64 a) \<le> 9786720"

definition pending_ok :: "pending_submission \<Rightarrow> bool" where
  "pending_ok p \<longleftrightarrow> trim (psText p) \<noteq> [] \<and> length (psText p) \<le> 65536
     \<and> list_all (\<lambda>i. case i of None \<Rightarrow> True | Some s \<Rightarrow> id_ok 4096 s) [psSessionId p, psDraftId p, psMessageId p]
     \<and> length (psFiles p) \<le> 64 \<and> length (psAttachments p) \<le> 64 \<and> list_all attachment_ok (psAttachments p)"

definition opt_string :: "jsstr option \<Rightarrow> jsval" where
  "opt_string s = (case s of None \<Rightarrow> JNull | Some t \<Rightarrow> JStr t)"

definition attachment_raw :: "pending_attachment \<Rightarrow> jsval" where
  "attachment_raw a =
     JObj [(js ''mime'', JStr (paMime a)), (js ''filename'', opt_string (paFilename a)),
       (js ''bytes'', JNum (num_of_int (paBytes a))), (js ''dataBase64'', JStr (paDataBase64 a)),
       (js ''isImage'', JBool (paIsImage a))]"

definition pending_raw :: "pending_submission \<Rightarrow> jsval" where
  "pending_raw p =
     JObj [(js ''text'', JStr (psText p)), (js ''sessionId'', opt_string (psSessionId p)),
       (js ''draftId'', opt_string (psDraftId p)), (js ''messageId'', opt_string (psMessageId p)),
       (js ''files'', JArr (psFiles p)), (js ''attachments'', JArr (map attachment_raw (psAttachments p)))]"

lemma pendingString_ok: "pendingString v n = Some s \<Longrightarrow> id_ok n s"
  by (auto simp: pendingString_def id_ok_def Let_def split: jsval.splits if_splits)

lemma pendingString_accepts: "id_ok n s \<Longrightarrow> pendingString (JStr s) n = Some s"
  by (simp add: pendingString_def id_ok_def Let_def)

lemma optionalId_ok: "optionalId v = Some (Some s) \<Longrightarrow> id_ok 4096 s"
  by (auto simp: optionalId_def cap_simps split: if_splits option.splits dest: pendingString_ok)

lemma optionalId_accepts:
  "(case i of None \<Rightarrow> True | Some s \<Rightarrow> id_ok 4096 s) \<Longrightarrow> optionalId (opt_string i) = Some i"
  by (cases i) (auto simp: optionalId_def opt_string_def nullish_def pendingString_accepts cap_simps)

lemma parse_attachment_ok: "parse_attachment v = Some a \<Longrightarrow> attachment_ok a"
proof -
  assume p: "parse_attachment v = Some a"
  obtain item where v: "v = JObj item" using p by (cases v) (simp_all add: parse_attachment_def)
  define bytes where "bytes = (case jget item (js ''bytes'') of
      JNum x \<Rightarrow> (case integer_value x of Some n \<Rightarrow> if n \<ge> 0 then Some n else None | None \<Rightarrow> None) | _ \<Rightarrow> None)"
  have b: "0 \<le> n" if "bytes = Some n" for n
    using that unfolding bytes_def by (auto split: jsval.splits option.splits if_splits)
  from p show ?thesis
    unfolding v parse_attachment_def jsval.case Let_def bytes_def [symmetric]
    by (auto simp: attachment_ok_def cap_simps b split: option.splits if_split_asm dest: pendingString_ok)
qed

lemma parse_attachment_accepts: "attachment_ok a \<Longrightarrow> parse_attachment (attachment_raw a) = Some a"
  by (cases "paFilename a")
    (auto simp: parse_attachment_def attachment_raw_def attachment_ok_def jget_def opt_string_def
      nullish_def pendingString_accepts cap_simps Let_def)

lemma parse_attachments_ok:
  "parse_attachments vs = Some as \<Longrightarrow> length as = length vs \<and> list_all attachment_ok as"
  by (induction vs arbitrary: as) (auto split: option.splits dest: parse_attachment_ok)

lemma parse_attachments_accepts:
  "list_all attachment_ok as \<Longrightarrow> parse_attachments (map attachment_raw as) = Some as"
  by (induction as) (auto simp: parse_attachment_accepts)

text \<open>
  C29.  A pending envelope is in normal form once accepted: its text is not blank and at
  most 65536 units, its identities are trimmed and bounded, it has at most 64 files and
  64 attachments with bounded names and bytes, and parsing the accepted envelope again
  returns it unchanged.
\<close>

theorem parsePendingSubmission_normal:
  assumes "parsePendingSubmission raw = Some p"
  shows "pending_ok p \<and> parsePendingSubmission (pending_raw p) = Some p"
proof -
  obtain r tx si di mi files as where raw: "raw = JObj r" "jget r (js ''text'') = JStr tx"
      "trim tx \<noteq> []" "length tx \<le> 65536"
    and ids: "optionalId (jget r (js ''sessionId'')) = Some si" "optionalId (jget r (js ''draftId'')) = Some di"
      "optionalId (jget r (js ''messageId'')) = Some mi"
    and lists: "parse_pending_files (jget r (js ''files'')) = Some files"
      "parse_attachment_list (jget r (js ''attachments'')) = Some as"
    and p: "p = \<lparr>psText = tx, psSessionId = si, psDraftId = di, psMessageId = mi, psFiles = files,
      psAttachments = as\<rparr>"
    using assms by (auto simp: parsePendingSubmission_def split: jsval.splits if_splits option.splits)
  have f: "length files \<le> 64"
    using lists(1) by (auto simp: parse_pending_files_def cap_simps split: if_splits jsval.splits)
  have a: "length as \<le> 64 \<and> list_all attachment_ok as"
    using lists(2) by (auto simp: parse_attachment_list_def cap_simps split: if_splits jsval.splits
        dest: parse_attachments_ok)
  have i: "case j of None \<Rightarrow> True | Some s \<Rightarrow> id_ok 4096 s" if "optionalId v = Some j" for v j
    using that by (cases j) (auto dest: optionalId_ok)
  have ok: "pending_ok p" using raw(3,4) f a i [OF ids(1)] i [OF ids(2)] i [OF ids(3)]
    by (simp add: pending_ok_def p)
  have "parse_attachment_list (JArr (map attachment_raw as)) = Some as"
    using a by (simp add: parse_attachment_list_def nullish_def cap_simps parse_attachments_accepts)
  moreover have "parse_pending_files (JArr files) = Some files"
    using f by (simp add: parse_pending_files_def nullish_def cap_simps)
  ultimately have "parsePendingSubmission (pending_raw p) = Some p"
    using raw(3,4) i [OF ids(1)] i [OF ids(2)] i [OF ids(3)]
    by (simp add: parsePendingSubmission_def pending_raw_def jget_def p optionalId_accepts)
  with ok show ?thesis ..
qed

definition demo_pending :: pending_submission where
  "demo_pending = \<lparr>psText = js ''fix it'', psSessionId = Some (js ''7''), psDraftId = None, psMessageId = None,
     psFiles = [], psAttachments = [\<lparr>paMime = js ''text/plain'', paFilename = Some (js ''a.txt''), paBytes = 3,
       paDataBase64 = js ''QUJD'', paIsImage = False\<rparr>]\<rparr>"

theorem parsePendingSubmission_normal_witness: "pending_ok demo_pending"
proof -
  have "parsePendingSubmission (JObj [(js ''text'', JStr (js ''fix it'')), (js ''sessionId'', JStr (js '' 7'')),
      (js ''attachments'', JArr [JObj [(js ''mime'', JStr (js ''text/plain'')),
        (js ''filename'', JStr (js ''a.txt '')), (js ''bytes'', JNum (Fin 3)),
        (js ''dataBase64'', JStr (js ''QUJD''))]])]) = Some demo_pending"
  proof -
    have t: "trim (js ''fix it'') = js ''fix it''" "trim (js '' 7'') = js ''7''"
      "trim (js ''text/plain'') = js ''text/plain''" "trim (js ''a.txt '') = js ''a.txt''"
      "starts_with (js ''image/'') (js ''text/plain'') = False"
      by code_simp+
    have n: "integer_value (Fin 3) = Some 3" by code_simp
    show ?thesis
      by (simp add: parsePendingSubmission_def demo_pending_def jget_def optionalId_def nullish_def
          pendingString_def parse_pending_files_def parse_attachment_list_def parse_attachment_def
          cap_simps t n)
  qed
  from parsePendingSubmission_normal [OF this] show ?thesis ..
qed

section \<open>Attachment paths: facts\<close>

text \<open>A path the native run may carry: relative to the workspace and inside it.\<close>

definition path_ok :: "jsstr \<Rightarrow> bool" where
  "path_ok s \<longleftrightarrow> s \<noteq> [] \<and> trim s = s \<and> length s \<le> 4096 \<and> \<not> list_ex is_control s \<and> \<not> has_scheme s
     \<and> \<not> starts_with [47] s \<and> \<not> drive_path s \<and> \<not> starts_with [92, 92] s
     \<and> js ''..'' \<notin> set (split_by is_slash s)"

lemma check_path_ok: "check_path v = Inr s \<Longrightarrow> path_ok s"
  by (auto simp: check_path_def path_ok_def Let_def cap_simps List.member_iff split: jsval.splits if_splits)

lemma check_path_accepts: "path_ok s \<Longrightarrow> check_path (JStr s) = Inr s"
  by (simp add: check_path_def path_ok_def Let_def cap_simps List.member_iff)

lemma length_refuse_file:
  "length refused \<le> 64 \<Longrightarrow> length (refuse_file refused i r) \<le> 64"
  "length refused < 64 \<Longrightarrow> length (refuse_file refused i r) = Suc (length refused)"
  by (simp_all add: refuse_file_def cap_simps)

lemma bound_files_ok:
  "bound_files i files refused raw = (fs, rs) \<Longrightarrow> list_all path_ok files \<Longrightarrow> length files \<le> 64 \<Longrightarrow>
     length refused \<le> 64 \<Longrightarrow>
     list_all path_ok fs \<and> length fs \<le> 64 \<and> length rs \<le> 64
     \<and> (length files + length refused + length raw \<le> 64 \<longrightarrow>
          length fs + length rs = length files + length refused + length raw)"
proof (induction i files refused raw arbitrary: fs rs rule: bound_files.induct)
  case (2 index files refused entry raw)
  show ?case
  proof (cases "check_path entry")
    case (Inl reason)
    then show ?thesis
      using 2(1) [OF Inl] 2(4-7) length_refuse_file(1) [of refused index reason]
        length_refuse_file(2) [of refused index reason] by simp
  next
    case (Inr path)
    note ok = check_path_ok [OF Inr]
    show ?thesis
    proof (cases "MAX_WEBVIEW_FILES \<le> length files")
      case True
      then show ?thesis
        using 2(2) [OF Inr True] 2(4-7) Inr length_refuse_file(1) [of refused index "''more than 64 file attachments''"]
        by (simp add: cap_simps)
    next
      case False
      then show ?thesis
        using 2(3) [OF Inr False] 2(4-7) Inr ok by (simp add: cap_simps)
    qed
  qed
qed simp

lemma bound_files_accepts:
  "list_all path_ok (files @ fs) \<Longrightarrow> length files + length fs \<le> 64 \<Longrightarrow>
     bound_files i files refused (map JStr fs) = (files @ fs, refused)"
  by (induction fs arbitrary: i files) (auto simp: check_path_accepts cap_simps)

text \<open>
  C30.  Only workspace-relative paths reach the native run, and nothing vanishes silently:
  every accepted path is trimmed, bounded, free of control characters, URL schemes,
  absolute prefixes and \<open>..\<close> segments; at most 64 are accepted and at most 64 refusals
  are reported; of up to 64 entries each one is either accepted or reported; and the
  accepted list is accepted again unchanged.
\<close>

theorem boundedWebviewFiles_safe:
  "case boundedWebviewFiles (JArr entries) of
     (files, refused) \<Rightarrow>
       list_all path_ok files \<and> length files \<le> 64 \<and> length refused \<le> 64
       \<and> (if length entries \<le> 64 then length files + length refused = length entries else True)
       \<and> boundedWebviewFiles (JArr (map JStr files)) = (files, [])"
proof -
  obtain files refused where b: "bound_files 0 [] [] entries = (files, refused)" by fastforce
  from bound_files_ok [OF this] have ok: "list_all path_ok files" "length files \<le> 64" "length refused \<le> 64"
      "length entries \<le> 64 \<longrightarrow> length files + length refused = length entries"
    by simp_all
  have "bound_files 0 [] [] (map JStr files) = (files, [])"
    using bound_files_accepts [of "[]" files 0 "[]"] ok by simp
  with ok b show ?thesis by (simp add: boundedWebviewFiles_def nullish_def)
qed

section \<open>The completion contract: facts\<close>

lemma bool_member_Some: "bool_member ps k = Some b \<longleftrightarrow> map_of ps k = Some (JBool b)"
  by (auto simp: bool_member_def split: option.splits jsval.splits)

text \<open>
  A completion contract is accepted exactly when it is an object whose members are the
  three documented booleans, no more and no fewer, with at least one of them true;
  nothing is coerced and nothing is applied partially.
\<close>

theorem parseCompletionContract_strict:
  "parseCompletionContract raw = Inr (Some c) \<longleftrightarrow>
     (\<exists>ps. raw = JObj ps \<and> set (map fst ps) = set contract_keys
        \<and> map (map_of ps) contract_keys = map (\<lambda>b. Some (JBool b)) [ccCommit c, ccPush c, ccPr c]
        \<and> (ccCommit c \<or> ccPush c \<or> ccPr c))"
proof
  assume p: "parseCompletionContract raw = Inr (Some c)"
  then obtain ps where raw: "raw = JObj ps"
    and keys: "find (\<lambda>k. \<not> List.member contract_keys k) (jkeys ps) = None"
    and bools: "find (\<lambda>k. bool_member ps k = None) contract_keys = None"
    by (auto simp: parseCompletionContract_def split: if_splits jsval.splits option.splits)
  have "set (map fst ps) \<subseteq> set contract_keys"
    using keys by (auto simp: find_None_iff jkeys_def List.member_iff)
  moreover have b: "\<exists>b. map_of ps k = Some (JBool b)" if "k \<in> set contract_keys" for k
    using bools that bool_member_Some [of ps k] by (auto simp: find_None_iff)
  then have "set contract_keys \<subseteq> set (map fst ps)"
    by (auto dest: map_of_SomeD) (metis fst_conv image_eqI map_of_SomeD)
  ultimately have "set (map fst ps) = set contract_keys" by blast
  moreover obtain x y z where xyz: "map_of ps (js ''include_commit'') = Some (JBool x)"
      "map_of ps (js ''include_push'') = Some (JBool y)" "map_of ps (js ''include_pr'') = Some (JBool z)"
    using b [of "js ''include_commit''"] b [of "js ''include_push''"] b [of "js ''include_pr''"]
    by (auto simp: contract_keys_def)
  moreover have "c = \<lparr>ccCommit = x, ccPush = y, ccPr = z\<rparr> \<and> (x \<or> y \<or> z)"
    using p raw keys bools xyz
    by (auto simp: parseCompletionContract_def nullish_def bool_member_def hasCompletionSteps_def Let_def
        split: if_splits)
  ultimately show "\<exists>ps. raw = JObj ps \<and> set (map fst ps) = set contract_keys
        \<and> map (map_of ps) contract_keys = map (\<lambda>b. Some (JBool b)) [ccCommit c, ccPush c, ccPr c]
        \<and> (ccCommit c \<or> ccPush c \<or> ccPr c)"
    using raw by (auto simp: contract_keys_def)
next
  assume "\<exists>ps. raw = JObj ps \<and> set (map fst ps) = set contract_keys
        \<and> map (map_of ps) contract_keys = map (\<lambda>b. Some (JBool b)) [ccCommit c, ccPush c, ccPr c]
        \<and> (ccCommit c \<or> ccPush c \<or> ccPr c)"
  then obtain ps where raw: "raw = JObj ps" and keys: "set (map fst ps) = set contract_keys"
    and m: "map (map_of ps) contract_keys = map (\<lambda>b. Some (JBool b)) [ccCommit c, ccPush c, ccPr c]"
    and some: "ccCommit c \<or> ccPush c \<or> ccPr c"
    by blast
  have k: "find (\<lambda>k. \<not> List.member contract_keys k) (jkeys ps) = None"
    using keys by (auto simp: find_None_iff jkeys_def List.member_iff)
  have b: "find (\<lambda>k. bool_member ps k = None) contract_keys = None"
    using m by (auto simp: contract_keys_def bool_member_def)
  show "parseCompletionContract raw = Inr (Some c)"
    using raw m some k b
    by (auto simp: parseCompletionContract_def nullish_def hasCompletionSteps_def bool_member_def Let_def
        contract_keys_def)
qed

end
