(* ===== verification/Composer.thy ===== *)
theory Composer
  imports TaskStart
begin

text \<open>
  The composer draft policy of \<open>apps/vscode/media/composer-state.js\<close>: what the text area
  holds after a start result.  A draft is a JavaScript value; \<open>String(value)\<close> of the values
  a text area and a message carry (strings, and \<open>null\<close> or \<open>undefined\<close> for none) is written
  out, other primitives are converted as \<open>String\<close> does.
\<close>

fun draft_text :: "jsval \<Rightarrow> jsstr" where
  "draft_text JUndef = []"
| "draft_text JNull = []"
| "draft_text (JBool b) = (if b then js ''true'' else js ''false'')"
| "draft_text (JNum x) = number_string x"
| "draft_text (JStr s) = s"
| "draft_text (JArr vs) = join [44] (map draft_text vs)"
| "draft_text (JObj ps) = js ''[object Object]''"

definition normalize_draft :: "jsval \<Rightarrow> jsstr" where
  "normalize_draft v = trim (draft_text v)"

definition afterStart :: "jsval \<Rightarrow> jsval \<Rightarrow> bool \<Rightarrow> jsstr" where
  "afterStart currentDraft submittedGoal succeeded =
     (if \<not> succeeded then draft_text currentDraft
      else if normalize_draft currentDraft = normalize_draft submittedGoal then []
      else draft_text currentDraft)"

definition keepDraft :: "jsval \<Rightarrow> jsval \<Rightarrow> bool \<Rightarrow> bool" where
  "keepDraft currentDraft submittedGoal succeeded \<longleftrightarrow>
     length (afterStart currentDraft submittedGoal succeeded) > 0"

text \<open>
  The user's text is never lost: after a refused start the text area holds exactly the
  draft; after a successful one it is cleared only when it still holds the submitted goal
  up to surrounding white space, and any newer draft is kept as it is; resubmitting the
  result never changes it again.
\<close>

theorem afterStart_keeps_draft:
  "afterStart (JStr draft) (JStr goal) False = draft
   \<and> afterStart (JStr draft) (JStr goal) True = (if trim draft = trim goal then [] else draft)
   \<and> (\<forall>ok. afterStart (JStr (afterStart (JStr draft) (JStr goal) ok)) (JStr goal) ok =
        afterStart (JStr draft) (JStr goal) ok)"
  by (auto simp: afterStart_def normalize_draft_def)

end
