(* ===== verification/Encoding.thy ===== *)
theory Encoding
  imports JsValue
begin

text \<open>
  The conversions of the JavaScript standard library the bridge uses: \<open>String(value)\<close>,
  base64 (\<open>Buffer.from(text, 'base64')\<close> and \<open>toString('base64')\<close>), UTF-8, and
  \<open>decodeURIComponent\<close>.
\<close>

section \<open>String(value)\<close>

fun to_string :: "jsval \<Rightarrow> jsstr" where
  "to_string JUndef = js ''undefined''"
| "to_string JNull = js ''null''"
| "to_string (JBool b) = (if b then js ''true'' else js ''false'')"
| "to_string (JNum x) = number_string x"
| "to_string (JStr s) = s"
| "to_string (JArr vs) = join [44] (map (\<lambda>v. if nullish v then [] else to_string v) vs)"
| "to_string (JObj ps) = js ''[object Object]''"

section \<open>Base64\<close>

definition b64_unit :: "int \<Rightarrow> cunit" where
  "b64_unit n =
     (if n < 26 then of_int (65 + n) else if n < 52 then of_int (71 + n)
      else if n < 62 then of_int (n - 4) else if n = 62 then 43 else 47)"

definition b64_value :: "cunit \<Rightarrow> int option" where
  "b64_value c =
     (if 65 \<le> c \<and> c \<le> 90 then Some (uint c - 65)
      else if 97 \<le> c \<and> c \<le> 122 then Some (uint c - 71)
      else if 48 \<le> c \<and> c \<le> 57 then Some (uint c + 4)
      else if c = 43 then Some 62 else if c = 47 then Some 63 else None)"

text \<open>Six-bit values to bytes and back; left-over bits that fill no byte are dropped.\<close>

fun join6 :: "int list \<Rightarrow> 8 word list" where
  "join6 (a # b # c # d # r) =
     of_int (a * 4 + b div 16) # of_int (b mod 16 * 16 + c div 4) # of_int (c mod 4 * 64 + d) # join6 r"
| "join6 [a, b, c] = [of_int (a * 4 + b div 16), of_int (b mod 16 * 16 + c div 4)]"
| "join6 [a, b] = [of_int (a * 4 + b div 16)]"
| "join6 _ = []"

definition base64_decode :: "jsstr \<Rightarrow> 8 word list" where
  "base64_decode s = join6 (List.map_filter b64_value s)"

fun base64_encode :: "8 word list \<Rightarrow> jsstr" where
  "base64_encode [] = []"
| "base64_encode [x] =
     [b64_unit (uint x div 4), b64_unit (uint x mod 4 * 16), 61, 61]"
| "base64_encode [x, y] =
     [b64_unit (uint x div 4), b64_unit (uint x mod 4 * 16 + uint y div 16),
      b64_unit (uint y mod 16 * 4), 61]"
| "base64_encode (x # y # z # r) =
     [b64_unit (uint x div 4), b64_unit (uint x mod 4 * 16 + uint y div 16),
      b64_unit (uint y mod 16 * 4 + uint z div 64), b64_unit (uint z mod 64)] @ base64_encode r"

lemma length_base64_encode: "length (base64_encode bs) = 4 * ((length bs + 2) div 3)"
proof (induction bs rule: base64_encode.induct)
  case (4 x y z r)
  have "(length (x # y # z # r) + 2) div 3 = Suc ((length r + 2) div 3)" by simp
  then show ?case using 4 by simp
qed simp_all

lemma b64_value_unit: "0 \<le> n \<Longrightarrow> n < 64 \<Longrightarrow> b64_value (b64_unit n) = Some n"
proof -
  have all: "\<forall>k < 64. b64_value (b64_unit (int k)) = Some (int k)" by code_simp
  assume "0 \<le> n" and "n < 64"
  then have "b64_value (b64_unit (int (nat n))) = Some (int (nat n))"
    by (intro all [rule_format]) simp
  with \<open>0 \<le> n\<close> show ?thesis by simp
qed

lemma b64_value_pad: "b64_value 61 = None"
  by (simp add: b64_value_def)

lemma byte_bounds: "0 \<le> uint (x :: 8 word)" "uint (x :: 8 word) < 256"
  using uint_lt2p [of x] by simp_all

lemma six_bits:
  fixes m n :: int
  assumes "0 \<le> m" "m < 256" "0 \<le> n" "n < 256"
  shows "0 \<le> m div 4 \<and> m div 4 < 64" "0 \<le> m mod 4 * 16 \<and> m mod 4 * 16 < 64"
    "0 \<le> m mod 4 * 16 + n div 16 \<and> m mod 4 * 16 + n div 16 < 64"
    "0 \<le> m mod 16 * 4 \<and> m mod 16 * 4 < 64"
    "0 \<le> m mod 16 * 4 + n div 64 \<and> m mod 16 * 4 + n div 64 < 64"
    "0 \<le> m mod 64 \<and> m mod 64 < 64"
proof -
  have m: "0 \<le> m mod 4" "m mod 4 < 4" "0 \<le> m mod 16" "m mod 16 < 16" by simp_all
  have n: "0 \<le> n div 16" "n div 16 < 16" "0 \<le> n div 64" "n div 64 < 4" using assms(3,4) by simp_all
  show "0 \<le> m div 4 \<and> m div 4 < 64" using assms(1,2) by presburger
  show "0 \<le> m mod 64 \<and> m mod 64 < 64" by simp
  show "0 \<le> m mod 4 * 16 \<and> m mod 4 * 16 < 64" using m by linarith
  show "0 \<le> m mod 4 * 16 + n div 16 \<and> m mod 4 * 16 + n div 16 < 64" using m n by linarith
  show "0 \<le> m mod 16 * 4 \<and> m mod 16 * 4 < 64" using m by linarith
  show "0 \<le> m mod 16 * 4 + n div 64 \<and> m mod 16 * 4 + n div 64 < 64" using m n by linarith
qed

lemma joined_bits:
  fixes m n k :: int
  assumes "0 \<le> m" "m < 256" "0 \<le> n" "n < 256" "0 \<le> k" "k < 256"
  shows "m div 4 * 4 + m mod 4 * 16 div 16 = m"
    "m div 4 * 4 + (m mod 4 * 16 + n div 16) div 16 = m"
    "(m mod 4 * 16 + n div 16) mod 16 * 16 + n mod 16 * 4 div 4 = n"
    "(m mod 4 * 16 + n div 16) mod 16 * 16 + (n mod 16 * 4 + k div 64) div 4 = n"
    "(n mod 16 * 4 + k div 64) mod 4 * 64 + k mod 64 = k"
proof -
  have "0 \<le> n div 16" "n div 16 < 16" "0 \<le> k div 64" "k div 64 < 4" using assms(3-6) by simp_all
  then have n: "n div 16 div 16 = 0" "n div 16 mod 16 = n div 16"
    and k: "k div 64 div 4 = 0" "k div 64 mod 4 = k div 64"
    by (simp_all only: div_pos_pos_trivial mod_pos_pos_trivial)
  have q: "(q * 16 + n div 16) div 16 = q" "(q * 16 + n div 16) mod 16 = n div 16" for q
    using n by (simp_all add: mod_mult_self3)
  have r: "(q * 4 + k div 64) div 4 = q" "(q * 4 + k div 64) mod 4 = k div 64" for q
    using k by (simp_all add: mod_mult_self3)
  show "m div 4 * 4 + m mod 4 * 16 div 16 = m" by simp
  show "m div 4 * 4 + (m mod 4 * 16 + n div 16) div 16 = m" unfolding q by simp
  show "(m mod 4 * 16 + n div 16) mod 16 * 16 + n mod 16 * 4 div 4 = n" unfolding q by simp
  show "(m mod 4 * 16 + n div 16) mod 16 * 16 + (n mod 16 * 4 + k div 64) div 4 = n" unfolding q r by simp
  show "(n mod 16 * 4 + k div 64) mod 4 * 64 + k mod 64 = k" unfolding r by simp
qed

text \<open>Decoding a run of encoded six-bit values, with its padding.\<close>

definition six :: "int \<Rightarrow> bool" where
  "six n \<longleftrightarrow> 0 \<le> n \<and> n < 64"

lemma map_filter_b64:
  "six n \<Longrightarrow> List.map_filter b64_value (b64_unit n # s) = n # List.map_filter b64_value s"
  "List.map_filter b64_value (61 # s) = List.map_filter b64_value s"
  "List.map_filter b64_value [] = []"
  by (simp_all add: List.map_filter_simps b64_value_unit b64_value_pad six_def)

lemma decode_groups:
  "six a \<Longrightarrow> six b \<Longrightarrow> base64_decode [b64_unit a, b64_unit b, 61, 61] = [of_int (a * 4 + b div 16)]"
  "six a \<Longrightarrow> six b \<Longrightarrow> six c \<Longrightarrow> base64_decode [b64_unit a, b64_unit b, b64_unit c, 61] =
     [of_int (a * 4 + b div 16), of_int (b mod 16 * 16 + c div 4)]"
  "six a \<Longrightarrow> six b \<Longrightarrow> six c \<Longrightarrow> six d \<Longrightarrow>
     base64_decode ([b64_unit a, b64_unit b, b64_unit c, b64_unit d] @ s) =
     of_int (a * 4 + b div 16) # of_int (b mod 16 * 16 + c div 4) # of_int (c mod 4 * 64 + d) # base64_decode s"
  unfolding base64_decode_def append.simps by (simp_all only: map_filter_b64 join6.simps)

lemma base64_round_trip: "base64_decode (base64_encode bs) = bs"
proof (induction bs rule: base64_encode.induct)
  case 1
  show ?case by (simp add: base64_decode_def map_filter_b64)
next
  case (2 x)
  note x = byte_bounds [of x]
  have "six (uint x div 4)" "six (uint x mod 4 * 16)" using six_bits [OF x x] by (simp_all only: six_def)
  then show ?case
    unfolding base64_encode.simps by (simp only: decode_groups joined_bits(1) [OF x x x] word_of_int_uint)
next
  case (3 x y)
  note x = byte_bounds [of x] and y = byte_bounds [of y]
  have "six (uint x div 4)" "six (uint x mod 4 * 16 + uint y div 16)" "six (uint y mod 16 * 4)"
    using six_bits [OF x y] six_bits [OF y x] by (simp_all only: six_def)
  then show ?case
    unfolding base64_encode.simps
    by (simp only: decode_groups joined_bits(2) [OF x y y] joined_bits(3) [OF x y y] word_of_int_uint)
next
  case (4 x y z r)
  note x = byte_bounds [of x] and y = byte_bounds [of y] and z = byte_bounds [of z]
  have "six (uint x div 4)" "six (uint x mod 4 * 16 + uint y div 16)"
      "six (uint y mod 16 * 4 + uint z div 64)" "six (uint z mod 64)"
    using six_bits [OF x y] six_bits [OF y z] six_bits [OF z x] by (simp_all only: six_def)
  then show ?case
    unfolding base64_encode.simps
    by (simp only: decode_groups joined_bits(2) [OF x y y] joined_bits(4) [OF x y z]
        joined_bits(5) [OF y y z] word_of_int_uint 4)
qed

section \<open>UTF-8\<close>

definition utf8_point :: "int \<Rightarrow> 8 word list" where
  "utf8_point p =
     map of_int
       (if p < 128 then [p]
        else if p < 2048 then [192 + p div 64, 128 + p mod 64]
        else if p < 65536 then [224 + p div 4096, 128 + p div 64 mod 64, 128 + p mod 64]
        else [240 + p div 262144, 128 + p div 4096 mod 64, 128 + p div 64 mod 64, 128 + p mod 64])"

definition pair_point :: "cunit \<Rightarrow> cunit \<Rightarrow> int" where
  "pair_point hi lo = 65536 + (uint hi - 0xD800) * 1024 + (uint lo - 0xDC00)"

text \<open>\<open>Buffer.from(text, 'utf8')\<close>: a lone surrogate is replaced by U+FFFD.\<close>

fun utf8_encode :: "jsstr \<Rightarrow> 8 word list" where
  "utf8_encode [] = []"
| "utf8_encode [c] = utf8_point (if is_high c \<or> is_low c then 0xFFFD else uint c)"
| "utf8_encode (c # d # cs) =
     (if is_high c \<and> is_low d then utf8_point (pair_point c d) @ utf8_encode cs
      else utf8_point (if is_high c \<or> is_low c then 0xFFFD else uint c) @ utf8_encode (d # cs))"

section \<open>decodeURIComponent\<close>

definition hex_digit :: "cunit \<Rightarrow> int option" where
  "hex_digit c =
     (if 48 \<le> c \<and> c \<le> 57 then Some (uint c - 48)
      else if 65 \<le> c \<and> c \<le> 70 then Some (uint c - 55)
      else if 97 \<le> c \<and> c \<le> 102 then Some (uint c - 87)
      else None)"

text \<open>One escape \<open>%XX\<close> and the rest.\<close>

definition percent_byte :: "jsstr \<Rightarrow> (int \<times> jsstr) option" where
  "percent_byte s =
     (case s of
        p # a # b # r \<Rightarrow>
          if p \<noteq> 37 then None
          else (case (hex_digit a, hex_digit b) of
              (Some x, Some y) \<Rightarrow> Some (16 * x + y, r) | _ \<Rightarrow> None)
      | _ \<Rightarrow> None)"

text \<open>The continuation bytes of a sequence, \<open>n\<close> of them.\<close>

fun continuation :: "nat \<Rightarrow> int \<Rightarrow> jsstr \<Rightarrow> (int \<times> jsstr) option" where
  "continuation 0 acc s = Some (acc, s)"
| "continuation (Suc n) acc s =
     (case percent_byte s of
        None \<Rightarrow> None
      | Some (b, r) \<Rightarrow> if b div 64 = 2 then continuation n (acc * 64 + b mod 64) r else None)"

definition point_units :: "int \<Rightarrow> jsstr" where
  "point_units p =
     (if p < 65536 then [of_int p]
      else [of_int (0xD800 + (p - 65536) div 1024), of_int (0xDC00 + (p - 65536) mod 1024)])"

text \<open>A decoded sequence must be the shortest form of a scalar value.\<close>

definition decode_escape :: "jsstr \<Rightarrow> (jsstr \<times> jsstr) option" where
  "decode_escape s =
     (case percent_byte s of
        None \<Rightarrow> None
      | Some (b, r) \<Rightarrow>
          if b < 128 then Some ([of_int b], r)
          else
            (let (n, lead, low) =
                   (if b div 32 = 6 then (1, b mod 32, 128) else if b div 16 = 14 then (2, b mod 16, 2048)
                    else if b div 8 = 30 then (3, b mod 8, 65536) else (0, 0, 0))
             in if n = 0 then None
                else (case continuation n lead r of
                    None \<Rightarrow> None
                  | Some (p, r') \<Rightarrow>
                      if p < low \<or> p > 0x10FFFF \<or> (0xD800 \<le> p \<and> p \<le> 0xDFFF) then None
                      else Some (point_units p, r'))))"

fun decode_uri :: "nat \<Rightarrow> jsstr \<Rightarrow> jsstr option" where
  "decode_uri n [] = Some []"
| "decode_uri 0 (c # cs) = None"
| "decode_uri (Suc n) (c # cs) =
     (if c = 37 then
        (case decode_escape (c # cs) of
           None \<Rightarrow> None
         | Some (t, r) \<Rightarrow> map_option (\<lambda>u. t @ u) (decode_uri n r))
      else map_option (\<lambda>u. c # u) (decode_uri n cs))"

text \<open>Every step reads at least one unit, so the length of the text is enough fuel.\<close>

definition decodeURIComponent :: "jsstr \<Rightarrow> jsstr option" where
  "decodeURIComponent s = decode_uri (length s) s"

lemma percent_byte_shorter: "percent_byte s = Some (b, r) \<Longrightarrow> length r < length s"
  by (auto simp: percent_byte_def split: list.splits option.splits if_splits)

lemma continuation_shorter: "continuation n acc s = Some (p, r) \<Longrightarrow> length r \<le> length s"
  by (induction n acc s arbitrary: p r rule: continuation.induct)
    (fastforce split: option.splits if_splits dest!: percent_byte_shorter)+

lemma decode_escape_rest:
  assumes "percent_byte s = Some (b, u)" "decode_escape s = Some (t, r)"
  shows "r = u \<or> (\<exists>n acc p. continuation n acc u = Some (p, r))"
proof (cases "b < 128")
  case True
  then show ?thesis using assms by (simp add: decode_escape_def)
next
  case False
  obtain n :: nat and lead low :: int where m: "(if b div 32 = 6 then (1, b mod 32, 128) else if b div 16 = 14 then (2, b mod 16, 2048)
                    else if b div 8 = 30 then (3, b mod 8, 65536) else (0, 0, 0)) = (n, lead, low)"
    by (rule prod_cases3)
  have "n \<noteq> 0" "\<exists>p. continuation n lead u = Some (p, r)"
    using assms(2) unfolding decode_escape_def assms(1) option.case prod.case if_not_P [OF False] m Let_def
    by (auto split: option.splits if_split_asm)
  then show ?thesis by blast
qed

lemma decode_escape_shorter: "decode_escape s = Some (t, r) \<Longrightarrow> length r < length s"
proof -
  assume d: "decode_escape s = Some (t, r)"
  then obtain b u where s: "percent_byte s = Some (b, u)" by (cases "percent_byte s") (auto simp: decode_escape_def)
  from decode_escape_rest [OF s d] percent_byte_shorter [OF s] show ?thesis by (auto dest: continuation_shorter)
qed

lemma decode_uri_fuel: "length s \<le> n \<Longrightarrow> decode_uri (Suc n) s = decode_uri n s"
proof (induction n arbitrary: s)
  case (Suc n)
  show ?case
  proof (cases s)
    case (Cons c cs)
    show ?thesis
    proof (cases "c = 37")
      case True
      have "decode_uri (Suc n) r = decode_uri n r" if "decode_escape (c # cs) = Some (t, r)" for t r
        using decode_escape_shorter [OF that] Suc.prems Cons by (intro Suc.IH) simp
      then show ?thesis
        unfolding Cons decode_uri.simps(3) [of "Suc n"] decode_uri.simps(3) [of n] using True
        by (auto split: option.split simp del: decode_uri.simps)
    next
      case False
      then show ?thesis
        using Suc.IH [of cs] Suc.prems Cons by simp
    qed
  qed simp
qed simp

section \<open>A bound on serialised sizes\<close>

text \<open>
  \<open>json_size\<close> bounds the length of the JSON text of a value from the lengths of its
  strings: at most six units for each unit of a string.
\<close>

fun json_size :: "jsval \<Rightarrow> nat" where
  "json_size JUndef = 0"
| "json_size JNull = 4"
| "json_size (JBool b) = 5"
| "json_size (JNum x) = length (number_string x) + 4"
| "json_size (JStr s) = 6 * length s + 2"
| "json_size (JArr vs) = 2 + (\<Sum>v \<leftarrow> vs. json_size v + 5)"
| "json_size (JObj ps) = 2 + (\<Sum>(k, v) \<leftarrow> ps. 6 * length k + 4 + json_size v)"

lemma length_hex4: "length (hex4 c) = 4"
  by (simp add: hex4_def Let_def)

lemma length_escape_unit: "length (escape_unit c) \<le> 6"
  by (simp add: escape_unit_def length_hex4)

lemma length_escape_units: "length (escape_units s) \<le> 6 * length s"
proof (induction s rule: escape_units.induct)
  case (2 c)
  show ?case using length_escape_unit [of c] by (simp add: length_hex4)
next
  case (3 c d cs)
  then show ?case using length_escape_unit [of c] by (auto simp: length_hex4)
qed simp

lemma length_quote: "length (quote s) \<le> 6 * length s + 2"
  using length_escape_units [of s] by (simp add: quote_def)

lemma length_join: "length (join [c] ws) \<le> (\<Sum>w \<leftarrow> ws. length w + 1)"
  by (induction "[c]" ws rule: join.induct) auto

lemma length_stringify: "stringify v = Some t \<Longrightarrow> length t \<le> json_size v"
proof (induction v arbitrary: t rule: stringify.induct)
  case (6 vs)
  let ?f = "\<lambda>v. case stringify v of None \<Rightarrow> js ''null'' | Some t \<Rightarrow> t"
  have "length (?f v) + 1 \<le> json_size v + 5" if "v \<in> set vs" for v
    using 6(1) [OF that] by (auto split: option.split)
  then have "(\<Sum>w \<leftarrow> map ?f vs. length w + 1) \<le> (\<Sum>v \<leftarrow> vs. json_size v + 5)"
    by (auto simp: comp_def intro: sum_list_mono)
  with length_join [of 44 "map ?f vs"] 6(2) show ?case by (auto simp: comp_def)
next
  case (7 ps)
  let ?f = "\<lambda>(k, v). case stringify v of None \<Rightarrow> [] | Some t \<Rightarrow> [quote k @ [58] @ t]"
  have "(\<Sum>w \<leftarrow> ?f p. length w + 1) \<le> (case p of (k, v) \<Rightarrow> 6 * length k + 4 + json_size v)" if p: "p \<in> set ps" for p
  proof (cases p)
    case (Pair k v)
    show ?thesis
    proof (cases "stringify v")
      case (Some u)
      have "length u \<le> json_size v" using 7(1) p Pair Some by fastforce
      with Pair Some length_quote [of k] show ?thesis by simp
    qed (simp add: Pair)
  qed
  then have "(\<Sum>p \<leftarrow> ps. \<Sum>w \<leftarrow> ?f p. length w + 1) \<le> (\<Sum>(k, v) \<leftarrow> ps. 6 * length k + 4 + json_size v)"
    by (intro sum_list_mono) auto
  moreover have "(\<Sum>w \<leftarrow> concat (map ?f ps). length w + 1) = (\<Sum>p \<leftarrow> ps. \<Sum>w \<leftarrow> ?f p. length w + 1)"
    by (induction ps) (simp_all del: sum_list_addf)
  ultimately show ?case
    using length_join [of 44 "concat (map ?f ps)"] 7(2) by auto
next
  case (5 s)
  then show ?case using length_quote [of s] by auto
qed (auto split: jsnum.splits)

lemma serialized_bytes_le: "serialized_bytes v \<le> 3 * json_size v"
proof (cases "stringify v")
  case (Some t)
  then show ?thesis
    using length_stringify [OF Some] utf8_length_le [of t] by (simp add: serialized_bytes_def)
qed (simp add: serialized_bytes_def)

end
