(* ===== verification/Checked.thy ===== *)
theory Checked
  imports JsValue
begin

text \<open>
  Checked results: a computation of the program that may throw is a value of a sum type,
  \<open>Inl\<close> the error and \<open>Inr\<close> the value.  \<open>and_then\<close> runs a second computation on the value
  of the first; \<open>check_all\<close> is \<open>array.map((entry, index) => ...)\<close> with a callback that may
  throw, which stops at the first entry that does.
\<close>

named_theorems decode_simps "when a checked read succeeds"
named_theorems located_intros "an error names the place it was raised for"

definition and_then :: "'e + 'a \<Rightarrow> ('a \<Rightarrow> 'e + 'b) \<Rightarrow> 'e + 'b" where
  "and_then r f = (case r of Inl e \<Rightarrow> Inl e | Inr x \<Rightarrow> f x)"

fun check_all :: "nat \<Rightarrow> (nat \<Rightarrow> 'a \<Rightarrow> 'e + 'b) \<Rightarrow> 'a list \<Rightarrow> 'e + 'b list" where
  "check_all i f [] = Inr []"
| "check_all i f (x # xs) =
     and_then (f i x) (\<lambda>y. and_then (check_all (Suc i) f xs) (\<lambda>ys. Inr (y # ys)))"

lemma and_then_simps [simp]:
  "and_then (Inr x) f = f x" "and_then (Inl e) f = Inl e"
  by (simp_all add: and_then_def)

lemma and_then_eq_Inr [simp, decode_simps]:
  "and_then r f = Inr y \<longleftrightarrow> (\<exists>x. r = Inr x \<and> f x = Inr y)"
  by (cases r) auto

lemma and_then_eq_Inl: "and_then r f = Inl e \<longleftrightarrow> r = Inl e \<or> (\<exists>x. r = Inr x \<and> f x = Inl e)"
  by (cases r) auto

lemma check_all_eq_Inr:
  "check_all i f xs = Inr ys \<longleftrightarrow>
     length ys = length xs \<and> (\<forall>k < length xs. f (i + k) (xs ! k) = Inr (ys ! k))"
proof (induction xs arbitrary: i ys)
  case Nil
  show ?case by auto
next
  case (Cons x xs)
  show ?case
  proof (cases ys)
    case Nil
    then show ?thesis by auto
  next
    case (Cons y ys')
    have "check_all i f (x # xs) = Inr ys \<longleftrightarrow> f i x = Inr y \<and> check_all (Suc i) f xs = Inr ys'"
      by (auto simp: Cons)
    then show ?thesis
      by (simp add: Cons.IH Cons All_less_Suc2 conj_ac del: check_all.simps)
  qed
qed

lemma check_all_pointwise:
  assumes "\<And>i x y. f i x = Inr y \<longleftrightarrow> P x y"
  shows "check_all i f xs = Inr ys \<longleftrightarrow> list_all2 P xs ys"
  by (auto simp: check_all_eq_Inr list_all2_conv_all_nth assms)

lemma check_all_cong:
  "(\<And>i x. x \<in> set xs \<Longrightarrow> f i x = g i x) \<Longrightarrow> check_all i f xs = check_all i g xs"
  by (induction xs arbitrary: i) auto

text \<open>The error of a whole is the error of its first entry that fails.\<close>

lemma check_all_eq_Inl:
  "check_all i f xs = Inl e \<longleftrightarrow>
     (\<exists>k < length xs. f (i + k) (xs ! k) = Inl e \<and> (\<forall>j < k. \<exists>y. f (i + j) (xs ! j) = Inr y))"
proof (induction xs arbitrary: i)
  case Nil
  show ?case by simp
next
  case (Cons x xs)
  have "check_all i f (x # xs) = Inl e \<longleftrightarrow>
      f i x = Inl e \<or> (\<exists>y. f i x = Inr y) \<and> check_all (Suc i) f xs = Inl e"
    by (auto simp: and_then_eq_Inl)
  then show ?case
    by (simp add: Cons.IH Ex_less_Suc2 All_less_Suc2 conj_ac del: check_all.simps) auto
qed

end
