(* ===== verification/KiloInbound.thy ===== *)
theory KiloInbound
  imports Encoding Checked TaskStart Board
begin

text \<open>
  The inbound half of the bridge to the frozen Kilo UI (\<open>apps/vscode/src/kilo-bridge.ts\<close>):
  every webview message is validated into one typed command, or dropped with a reason;
  a command is then mapped onto the host's own message vocabulary.

  What the bridge takes from the platform is the record \<open>platform\<close>: \<open>node:path\<close> (which
  depends on the operating system), \<open>fileURLToPath\<close>, the \<open>URL\<close> parser (protocol and
  serialised form, \<open>None\<close> when it throws) and the hexadecimal SHA-256 digest.
\<close>

section \<open>Bounds\<close>

definition maxInboundBytes :: nat where [cap_simps]: "maxInboundBytes = 10 * 1024 * 1024"
definition maxTextChars :: nat where [cap_simps]: "maxTextChars = 64 * 1024"
definition maxStringChars :: nat where [cap_simps]: "maxStringChars = 4096"
definition maxMessagesLimit :: int where [cap_simps]: "maxMessagesLimit = 500"
definition defaultMessagesLimit :: int where [cap_simps]: "defaultMessagesLimit = 100"
definition maxAttachmentBytes :: nat where [cap_simps]: "maxAttachmentBytes = 7 * 1024 * 1024"
definition maxAttachments :: nat where [cap_simps]: "maxAttachments = 64"
definition maxFilesPerPrompt :: nat where [cap_simps]: "maxFilesPerPrompt = 64"
definition maxFilePathBytes :: nat where [cap_simps]: "maxFilePathBytes = 4096"
definition maxSteerChars :: nat where [cap_simps]: "maxSteerChars = 500"
definition maxModelChars :: nat where [cap_simps]: "maxModelChars = 256"
definition maxAbortReasonBytes :: nat where [cap_simps]: "maxAbortReasonBytes = 512"
definition maxBoardSubjectBytes :: nat where [cap_simps]: "maxBoardSubjectBytes = 512"
definition maxBoardBodyBytes :: nat where [cap_simps]: "maxBoardBodyBytes = 16 * 1024"
definition maxBoardRefs :: nat where [cap_simps]: "maxBoardRefs = 32"
definition maxBoardRefBytes :: nat where [cap_simps]: "maxBoardRefBytes = 1024"
definition maxBoardPage :: int where [cap_simps]: "maxBoardPage = 500"

definition SUPPORTED_INBOUND :: "jsstr list" where
  "SUPPORTED_INBOUND = map js [''webviewReady'', ''sendMessage'', ''abort'', ''createSession'',
     ''loadSessions'', ''loadMessages'', ''openExternal'', ''faktorAgentAction'',
     ''faktorTournamentAction'', ''faktorEvidenceExpand'', ''faktorBoardAction'', ''tournamentControl'']"

definition AGENT_ACTIONS :: "jsstr list" where
  "AGENT_ACTIONS = map js [''retry'', ''pause'', ''resume'', ''cancel'', ''steer'', ''model'', ''budget'',
     ''presentation'']"

definition BOARD_ACTIONS :: "jsstr list" where
  "BOARD_ACTIONS = map js [''read'', ''post'']"

definition PRESENTATION_STATES :: "jsstr list" where
  "PRESENTATION_STATES = map js [''foreground'', ''background'']"

definition MESSAGE_LOAD_MODES :: "jsstr list" where
  "MESSAGE_LOAD_MODES = map js [''replace'', ''prepend'', ''focus'', ''reconcile'']"

section \<open>Data\<close>

record platform =
  isAbsolute :: "jsstr \<Rightarrow> bool"
  resolve_path :: "jsstr \<Rightarrow> jsstr"
  relative_path :: "jsstr \<Rightarrow> jsstr \<Rightarrow> jsstr"
  fileURLToPath :: "jsstr \<Rightarrow> jsstr option"
  sha256_hex :: "8 word list \<Rightarrow> jsstr"
  parse_url :: "jsstr \<Rightarrow> (jsstr \<times> jsstr) option"

record attachment_ref =
  arRef :: jsstr
  arMime :: jsstr
  arFilename :: "jsstr option"
  arBytes :: nat
  arDataBase64 :: jsstr
  arIsImage :: bool

type_synonym attachment_refusal = "nat \<times> jsstr"

record files_mapping =
  fmFiles :: "jsstr list"
  fmAttachments :: "attachment_ref list"
  fmRefused :: "attachment_refusal list"

record bridge_pending =
  kpText :: jsstr
  kpSessionId :: "jsstr option"
  kpDraftId :: "jsstr option"
  kpMessageId :: "jsstr option"
  kpFiles :: "jsval list"
  kpAttachments :: "attachment_ref list"

record send_command =
  scText :: jsstr
  scSessionId :: "jsstr option"
  scPending :: bridge_pending
  scFiles :: "jsstr list"
  scAttachments :: "attachment_ref list"
  scRefused :: "attachment_refusal list"
  scCompletion :: "completion_contract option"

datatype bridge_command =
    CReady
  | CSendMessage send_command
  | CAbort jsstr
  | CCreateSession
  | CLoadSessions
  | CLoadMessages jsstr "jsstr option" int jsstr
  | CTournamentDecide jsstr
  | CTournamentAbort jsstr "jsstr option"
  | CAgentAction jsstr jsstr "jsstr option" "jsstr option"
  | CEvidenceExpand int
  | CBoardRead "int option" "int option"
  | CBoardPost jsstr "jsstr option" "jsstr list"
  | COpenExternal jsstr

datatype bridge_ingest = Accepted bridge_command | Dropped "jsstr option" jsstr nat

section \<open>Field guards\<close>

definition boundedString :: "jsval \<Rightarrow> nat \<Rightarrow> jsstr option" where
  "boundedString v bound =
     (case v of
        JStr s \<Rightarrow>
          (let trimmed = trim s
           in if length trimmed = 0 \<or> length trimmed > bound then None else Some trimmed)
      | _ \<Rightarrow> None)"

definition isNonEmptyStructured :: "jsval \<Rightarrow> bool" where
  "isNonEmptyStructured v =
     (if nullish v then False
      else (case v of
          JArr vs \<Rightarrow> length vs > 0
        | JObj ps \<Rightarrow> length (jkeys ps) > 0
        | _ \<Rightarrow> True))"

definition normalizeSteerText :: "jsval \<Rightarrow> jsstr + jsstr" where
  "normalizeSteerText raw =
     (case raw of
        JStr s \<Rightarrow>
          (let trimmed = trim s
           in if length trimmed = 0
                then refuse ''faktorAgentAction.text must be a non-empty string for steer''
              else if length trimmed > maxSteerChars
                then refuse ''faktorAgentAction.text exceeds 500 character bound''
              else Inr trimmed)
      | _ \<Rightarrow> refuse ''faktorAgentAction.text must be a non-empty string for steer'')"

definition completionContractOf :: "jsval \<Rightarrow> jsstr + completion_contract option" where
  "completionContractOf raw =
     (if nullish raw then Inr None
      else (case raw of
          JObj record \<Rightarrow>
            (case find (\<lambda>key. key \<noteq> js ''include_commit'' \<and> key \<noteq> js ''include_push''
                            \<and> key \<noteq> js ''include_pr'') (jkeys record) of
               Some key \<Rightarrow> Inl (js ''completionContract.'' @ key @ js '' is not a known member'')
             | None \<Rightarrow>
                 (case (bool_member record (js ''include_commit''), bool_member record (js ''include_push''),
                        bool_member record (js ''include_pr'')) of
                    (None, _, _) \<Rightarrow> refuse ''completionContract.include_commit must be a boolean''
                  | (Some _, None, _) \<Rightarrow> refuse ''completionContract.include_push must be a boolean''
                  | (Some _, Some _, None) \<Rightarrow> refuse ''completionContract.include_pr must be a boolean''
                  | (Some commit, Some push, Some pr) \<Rightarrow>
                      Inr (if \<not> commit \<and> \<not> push \<and> \<not> pr then None
                           else Some \<lparr>ccCommit = commit, ccPush = push, ccPr = pr\<rparr>)))
        | _ \<Rightarrow> refuse ''completionContract must be an object''))"

section \<open>Attachments\<close>

text \<open>\<open>MIME_RE\<close>: two names of at most 64 units around one slash.\<close>

definition mime_start :: "cunit \<Rightarrow> bool" where
  "mime_start c \<longleftrightarrow> is_alpha c \<or> is_digit c"

definition mime_unit :: "cunit \<Rightarrow> bool" where
  "mime_unit c \<longleftrightarrow> mime_start c \<or> c \<in> {33, 35, 36, 38, 94, 95, 46, 43, 45}"

definition mime_name :: "jsstr \<Rightarrow> bool" where
  "mime_name s =
     (case s of c # cs \<Rightarrow> mime_start c \<and> length cs \<le> 63 \<and> list_all mime_unit cs | [] \<Rightarrow> False)"

definition mime_ok :: "jsstr \<Rightarrow> bool" where
  "mime_ok s = (case split_by (\<lambda>c. c = 47) s of [a, b] \<Rightarrow> mime_name a \<and> mime_name b | _ \<Rightarrow> False)"

definition attachmentMime :: "jsval \<Rightarrow> jsstr \<Rightarrow> jsstr" where
  "attachmentMime v fallback =
     (case v of
        JStr s \<Rightarrow>
          (let candidate = trim (hd (split_by (\<lambda>c. c = 59) (to_lower (trim s))))
           in if mime_ok candidate then candidate else fallback)
      | _ \<Rightarrow> fallback)"

definition forward_slashes :: "jsstr \<Rightarrow> jsstr" where
  "forward_slashes s = map (\<lambda>c. if c = 92 then 47 else c) s"

definition hasControlChars :: "jsstr \<Rightarrow> bool" where
  [simp]: "hasControlChars s = list_ex is_control s"

definition sanitizeFilename :: "jsval \<Rightarrow> jsstr option" where
  "sanitizeFilename v =
     (case v of
        JStr s \<Rightarrow>
          (let trimmed = trim (last (split_by (\<lambda>c. c = 47) (forward_slashes s)))
           in if length trimmed = 0 \<or> length trimmed > 255 \<or> trimmed = js ''.'' \<or> trimmed = js ''..''
                 \<or> hasControlChars trimmed
              then None else Some trimmed)
      | _ \<Rightarrow> None)"

definition workspaceRelativePath :: "platform \<Rightarrow> jsstr \<Rightarrow> jsstr option \<Rightarrow> jsstr + jsstr" where
  "workspaceRelativePath env candidate workspaceDirectory =
     (let trimmed = trim candidate
      in if length trimmed = 0 then refuse ''attachment path is empty''
         else if utf8_length trimmed > maxFilePathBytes then refuse ''attachment path exceeds 4096 bytes''
         else if hasControlChars trimmed then refuse ''attachment path carries control characters''
         else if drive_path trimmed \<or> isAbsolute env trimmed
         then (case workspaceDirectory of
             None \<Rightarrow> refuse ''absolute attachment path without a workspace root''
           | Some dir \<Rightarrow>
               if length (trim dir) = 0 then refuse ''absolute attachment path without a workspace root''
               else (let posix = forward_slashes
                           (relative_path env (resolve_path env dir) (resolve_path env trimmed))
                     in if length posix = 0 \<or> starts_with (js ''..'') posix \<or> isAbsolute env posix
                          then refuse ''attachment path is outside the workspace''
                        else if List.member (split_by (\<lambda>c. c = 47) posix) (js ''..'')
                          then refuse ''attachment path traverses outside the workspace''
                        else Inr posix))
         else (let segments = split_by is_slash trimmed
               in if List.member segments (js ''..'')
                    then refuse ''attachment path traverses outside the workspace''
                  else Inr (join [47] (filter (\<lambda>segment. length segment > 0) segments))))"

text \<open>The text of \<open>/^data:([^,]*),([\s\S]*)$/\<close>: the part before the first comma and the rest.\<close>

definition data_url :: "jsstr \<Rightarrow> (jsstr \<times> jsstr) option" where
  "data_url url =
     (let body = drop 5 url; meta = takeWhile (\<lambda>c. c \<noteq> 44) body
      in if starts_with (js ''data:'') url \<and> length meta < length body
         then Some (meta, drop (Suc (length meta)) body) else None)"

definition base64_shape :: "jsstr \<Rightarrow> bool" where
  "base64_shape s =
     List.member [[], [61], [61, 61]] (dropWhile (\<lambda>c. b64_value c \<noteq> None) s)"

text \<open>The decoded bytes of the payload, or the reason it is refused.\<close>

definition attachment_payload :: "jsstr \<Rightarrow> jsstr \<Rightarrow> jsstr + 8 word list" where
  "attachment_payload meta payload =
     (if ends_with (js '';base64'') (to_lower meta)
      then (let compact = filter (\<lambda>c. \<not> is_ws c) payload
            in if length compact > maxAttachmentBytes * 2 \<or> \<not> base64_shape compact
               then refuse ''malformed or oversized base64 attachment''
               else Inr (base64_decode compact))
      else (case decodeURIComponent payload of
          None \<Rightarrow> refuse ''malformed percent-encoded data URL attachment''
        | Some decoded \<Rightarrow> Inr (utf8_encode decoded)))"

definition binaryAttachmentRef ::
  "platform \<Rightarrow> jsstr \<Rightarrow> jsval \<Rightarrow> jsval \<Rightarrow> jsstr + attachment_ref" where
  "binaryAttachmentRef env url rawMime filename =
     (case data_url url of
        None \<Rightarrow> refuse ''malformed data URL attachment''
      | Some (meta, payload) \<Rightarrow>
          (let mime = attachmentMime (JStr (hd (split_by (\<lambda>c. c = 59) meta)))
                 (attachmentMime rawMime (js ''application/octet-stream''))
           in case attachment_payload meta payload of
                Inl reason \<Rightarrow> Inl reason
              | Inr bytes \<Rightarrow>
                  if length bytes > maxAttachmentBytes
                  then refuse ''attachment exceeds 7340032 bytes''
                  else Inr \<lparr>arRef = js ''faktor-attachment:sha256:'' @ sha256_hex env bytes, arMime = mime,
                    arFilename = sanitizeFilename filename, arBytes = length bytes,
                    arDataBase64 = base64_encode bytes, arIsImage = starts_with (js ''image/'') mime\<rparr>))"

section \<open>The files payload\<close>

text \<open>A refusal is recorded while fewer than 64 are; the message itself is kept.\<close>

definition refuse_entry :: "files_mapping \<Rightarrow> nat \<Rightarrow> jsstr \<Rightarrow> files_mapping" where
  "refuse_entry m index reason =
     (if length (fmRefused m) < maxFilesPerPrompt
      then m\<lparr>fmRefused := fmRefused m @ [(index, reason)]\<rparr> else m)"

definition add_binary :: "files_mapping \<Rightarrow> nat \<Rightarrow> jsstr + attachment_ref \<Rightarrow> files_mapping" where
  "add_binary m index ref =
     (case ref of
        Inl reason \<Rightarrow> refuse_entry m index reason
      | Inr a \<Rightarrow>
          if length (fmAttachments m) \<ge> maxAttachments
          then refuse_entry m index (js ''more than 64 binary attachments'')
          else m\<lparr>fmAttachments := fmAttachments m @ [a]\<rparr>)"

definition add_path :: "files_mapping \<Rightarrow> nat \<Rightarrow> jsstr + jsstr \<Rightarrow> files_mapping" where
  "add_path m index mapped =
     (case mapped of
        Inl reason \<Rightarrow> refuse_entry m index reason
      | Inr path \<Rightarrow>
          if length (fmFiles m) \<ge> maxFilesPerPrompt
          then refuse_entry m index (js ''more than 64 file attachments'')
          else m\<lparr>fmFiles := fmFiles m @ [path]\<rparr>)"

definition str_member :: "jsval props \<Rightarrow> jsstr \<Rightarrow> jsstr option" where
  "str_member ps k = (case jget ps k of JStr s \<Rightarrow> Some s | _ \<Rightarrow> None)"

text \<open>The candidate of one entry: \<open>source.path\<close> before \<open>url\<close>.\<close>

definition entry_candidate :: "jsval props \<Rightarrow> jsstr option" where
  "entry_candidate entry =
     (case jget entry (js ''source'') of
        JObj source \<Rightarrow>
          (case str_member source (js ''path'') of
             Some path \<Rightarrow> Some path | None \<Rightarrow> str_member entry (js ''url''))
      | _ \<Rightarrow> str_member entry (js ''url''))"

definition is_data :: "jsstr option \<Rightarrow> bool" where
  "is_data s = (case s of Some t \<Rightarrow> starts_with (js ''data:'') t | None \<Rightarrow> False)"

definition map_path ::
  "platform \<Rightarrow> jsstr option \<Rightarrow> files_mapping \<Rightarrow> nat \<Rightarrow> jsstr \<Rightarrow> files_mapping" where
  "map_path env workspaceDirectory m index candidate =
     (if has_scheme candidate
      then (if \<not> starts_with (js ''file:'') candidate
            then refuse_entry m index (js ''unsupported attachment url scheme in '' @ take 32 candidate)
            else (case fileURLToPath env candidate of
                None \<Rightarrow> refuse_entry m index (js ''malformed file URL attachment'')
              | Some path \<Rightarrow> add_path m index (workspaceRelativePath env path workspaceDirectory)))
      else add_path m index (workspaceRelativePath env candidate workspaceDirectory))"

definition map_entry ::
  "platform \<Rightarrow> jsstr option \<Rightarrow> files_mapping \<Rightarrow> nat \<Rightarrow> jsval \<Rightarrow> files_mapping" where
  "map_entry env workspaceDirectory m index raw =
     (case raw of
        JObj entry \<Rightarrow>
          (let url = str_member entry (js ''url'');
               candidate = entry_candidate entry;
               binary = (\<lambda>u. add_binary m index (binaryAttachmentRef env u (jget entry (js ''mime''))
                   (jget entry (js ''filename''))))
           in if is_data url then binary (the url)
              else (case candidate of
                  None \<Rightarrow> refuse_entry m index (js ''attachment has no url or source path'')
                | Some c \<Rightarrow>
                    if length (trim c) = 0
                      then refuse_entry m index (js ''attachment has no url or source path'')
                    else if is_data candidate then binary c
                    else map_path env workspaceDirectory m index c))
      | _ \<Rightarrow> refuse_entry m index (js ''attachment must be an object''))"

fun map_entries ::
  "platform \<Rightarrow> jsstr option \<Rightarrow> nat \<Rightarrow> files_mapping \<Rightarrow> jsval list \<Rightarrow> files_mapping" where
  "map_entries env workspaceDirectory index m [] = m"
| "map_entries env workspaceDirectory index m (entry # raw) =
     map_entries env workspaceDirectory (Suc index) (map_entry env workspaceDirectory m index entry) raw"

definition mapKiloFiles :: "platform \<Rightarrow> jsval \<Rightarrow> jsstr option \<Rightarrow> files_mapping" where
  "mapKiloFiles env raw workspaceDirectory =
     (let empty = \<lparr>fmFiles = [], fmAttachments = [], fmRefused = []\<rparr>
      in if nullish raw then empty
         else (case raw of
             JArr entries \<Rightarrow> map_entries env workspaceDirectory 0 empty entries
           | _ \<Rightarrow> empty\<lparr>fmRefused := [(0, js ''files must be an array of attachments'')]\<rparr>))"

section \<open>One handler per message kind\<close>

text \<open>An optional identity: absent, a bounded string, or the reason.\<close>

definition optional_id :: "jsval \<Rightarrow> string \<Rightarrow> jsstr + jsstr option" where
  "optional_id v name =
     (if nullish v then Inr None
      else (case boundedString v maxStringChars of
          None \<Rightarrow> refuse (name @ '' must be a bounded non-empty string'')
        | Some s \<Rightarrow> Inr (Some s)))"

definition required_id :: "jsval \<Rightarrow> jsstr \<Rightarrow> jsstr + jsstr" where
  "required_id v name =
     (case boundedString v maxStringChars of
        None \<Rightarrow> Inl (name @ js '' must be a bounded non-empty string'')
      | Some s \<Rightarrow> Inr s)"

definition array_items :: "jsval \<Rightarrow> jsval list" where
  "array_items v = (case v of JArr vs \<Rightarrow> vs | _ \<Rightarrow> [])"

definition is_array :: "jsval \<Rightarrow> bool" where
  "is_array v = (case v of JArr _ \<Rightarrow> True | _ \<Rightarrow> False)"

definition ingest_send :: "platform \<Rightarrow> jsstr option \<Rightarrow> jsval props \<Rightarrow> jsstr + bridge_command" where
  "ingest_send env workspaceDirectory message =
     (let files = jget message (js ''files'')
      in if isNonEmptyStructured (jget message (js ''review''))
           then refuse ''review comments are not supported by the native bridge''
         else if isNonEmptyStructured (jget message (js ''agentManagerContext''))
           then refuse ''agent-manager context is not supported by the native bridge''
         else if \<not> nullish files \<and> \<not> is_array files
           then refuse ''sendMessage.files must be an array of attachments''
         else (case jget message (js ''text'') of
             JStr body \<Rightarrow>
               if length (trim body) = 0 then refuse ''sendMessage.text must be a non-empty string''
               else if length body > maxTextChars
                 then refuse ''sendMessage.text exceeds 65536 character bound''
               else
                 and_then (optional_id (jget message (js ''sessionID'')) ''sendMessage.sessionID'') (\<lambda>sessionId.
                 and_then (optional_id (jget message (js ''messageID'')) ''sendMessage.messageID'') (\<lambda>messageId.
                 and_then (optional_id (jget message (js ''draftID'')) ''sendMessage.draftID'') (\<lambda>draftId.
                   (let mapping = mapKiloFiles env files workspaceDirectory
                    in and_then (completionContractOf (jget message (js ''completionContract''))) (\<lambda>completion.
                         Inr (CSendMessage \<lparr>scText = body, scSessionId = sessionId,
                           scPending = \<lparr>kpText = body, kpSessionId = sessionId, kpDraftId = draftId,
                             kpMessageId = messageId, kpFiles = array_items files,
                             kpAttachments = fmAttachments mapping\<rparr>,
                           scFiles = fmFiles mapping, scAttachments = fmAttachments mapping,
                           scRefused = fmRefused mapping, scCompletion = completion\<rparr>))))))
           | _ \<Rightarrow> refuse ''sendMessage.text must be a non-empty string''))"

definition ingest_abort :: "jsval props \<Rightarrow> jsstr + bridge_command" where
  "ingest_abort message =
     and_then (required_id (jget message (js ''sessionID'')) (js ''abort.sessionID'')) (\<lambda>sessionId.
       Inr (CAbort sessionId))"

definition load_limit :: "jsval \<Rightarrow> jsstr + int" where
  "load_limit v =
     (case v of
        JUndef \<Rightarrow> Inr defaultMessagesLimit
      | JNum x \<Rightarrow>
          (case integer_value x of
             Some n \<Rightarrow>
               if n \<le> 0 \<or> n > maxMessagesLimit
               then refuse ''loadMessages.limit must be an integer in 1..500'' else Inr n
           | None \<Rightarrow> refuse ''loadMessages.limit must be an integer in 1..500'')
      | _ \<Rightarrow> refuse ''loadMessages.limit must be an integer in 1..500'')"

definition load_mode :: "jsval \<Rightarrow> jsstr + jsstr" where
  "load_mode v =
     (case v of
        JUndef \<Rightarrow> Inr (js ''replace'')
      | JStr mode \<Rightarrow>
          if List.member MESSAGE_LOAD_MODES mode then Inr mode
          else Inl (js ''loadMessages.mode \"'' @ mode @ js ''\" is not a known mode'')
      | _ \<Rightarrow> Inl (js ''loadMessages.mode \"'' @ to_string v @ js ''\" is not a known mode''))"

definition ingest_load :: "jsval props \<Rightarrow> jsstr + bridge_command" where
  "ingest_load message =
     and_then (required_id (jget message (js ''sessionID'')) (js ''loadMessages.sessionID'')) (\<lambda>sessionId.
     and_then (optional_id (jget message (js ''before'')) ''loadMessages.before'') (\<lambda>before.
     and_then (load_limit (jget message (js ''limit''))) (\<lambda>limit.
     and_then (load_mode (jget message (js ''mode''))) (\<lambda>mode.
       Inr (CLoadMessages sessionId before limit mode)))))"

definition abort_reason :: "jsval \<Rightarrow> jsstr \<Rightarrow> jsstr + jsstr option" where
  "abort_reason v rawType =
     (if nullish v then Inr None
      else (case v of
          JStr s \<Rightarrow>
            if utf8_length s > maxAbortReasonBytes then Inl (rawType @ js ''.reason exceeds 512 bytes'')
            else (let trimmed = trim s in Inr (if length trimmed = 0 then None else Some trimmed))
        | _ \<Rightarrow> Inl (rawType @ js ''.reason must be a string'')))"

definition ingest_tournament :: "jsstr \<Rightarrow> jsval props \<Rightarrow> jsstr + bridge_command" where
  "ingest_tournament rawType message =
     and_then (required_id (jget message (js ''tournamentId'')) (rawType @ js ''.tournamentId'')) (\<lambda>tournamentId.
       (let action = jget message (js ''action'')
        in if action = JStr (js ''decide'') then
             (if isNonEmptyStructured (jget message (js ''reason''))
              then Inl (rawType @ js '' decide takes no reason'')
              else Inr (CTournamentDecide tournamentId))
           else if action = JStr (js ''abort'') then
             and_then (abort_reason (jget message (js ''reason'')) rawType) (\<lambda>reason.
               Inr (CTournamentAbort tournamentId reason))
           else Inl (rawType @ js ''.action must be \"decide\" or \"abort\"'')))"

text \<open>The members only one action may carry: \<open>state\<close>, \<open>text\<close>, \<open>model\<close>, \<open>maxTokens\<close>.\<close>

definition agent_state :: "jsstr \<Rightarrow> jsval \<Rightarrow> jsstr + jsstr option" where
  "agent_state action v =
     (if action = js ''presentation''
      then (case v of
          JStr st \<Rightarrow>
            if List.member PRESENTATION_STATES st then Inr (Some st)
            else refuse ''faktorAgentAction.state must be \"foreground\" or \"background\"''
        | _ \<Rightarrow> refuse ''faktorAgentAction.state must be \"foreground\" or \"background\"'')
      else if nullish v then Inr None
      else Inl (js ''faktorAgentAction.state is not valid for action \"'' @ action @ js ''\"''))"

definition agent_text :: "jsstr \<Rightarrow> jsval \<Rightarrow> jsstr + jsstr option" where
  "agent_text action v =
     (if action = js ''steer''
      then (if nullish v then Inr None else and_then (normalizeSteerText v) (\<lambda>note. Inr (Some note)))
      else if nullish v then Inr None
      else Inl (js ''faktorAgentAction.text is not valid for action \"'' @ action @ js ''\"''))"

definition agent_model :: "jsstr \<Rightarrow> jsval \<Rightarrow> jsstr + unit" where
  "agent_model action v =
     (if action = js ''model'' \<and> \<not> nullish v \<and> boundedString v maxModelChars = None
      then refuse ''faktorAgentAction.model must be a bounded non-empty string'' else Inr ())"

definition positive_integer :: "jsval \<Rightarrow> bool" where
  "positive_integer v = (case v of JNum x \<Rightarrow> is_integer x \<and> int_of_num x > 0 | _ \<Rightarrow> False)"

definition agent_tokens :: "jsstr \<Rightarrow> jsval \<Rightarrow> jsstr + unit" where
  "agent_tokens action v =
     (if action = js ''budget'' \<and> \<not> nullish v \<and> \<not> positive_integer v
      then refuse ''faktorAgentAction.maxTokens must be a positive integer'' else Inr ())"

definition ingest_agent :: "jsval props \<Rightarrow> jsstr + bridge_command" where
  "ingest_agent message =
     and_then (required_id (jget message (js ''agentId'')) (js ''faktorAgentAction.agentId'')) (\<lambda>agentId.
       (case jget message (js ''action'') of
          JStr action \<Rightarrow>
            if \<not> List.member AGENT_ACTIONS action
            then refuse ''faktorAgentAction.action must be one of retry|pause|resume|cancel|steer|model|budget|presentation''
            else
              and_then (agent_state action (jget message (js ''state''))) (\<lambda>state.
              and_then (agent_text action (jget message (js ''text''))) (\<lambda>note.
              and_then (agent_model action (jget message (js ''model''))) (\<lambda>_.
              and_then (agent_tokens action (jget message (js ''maxTokens''))) (\<lambda>_.
                Inr (CAgentAction agentId action state note)))))
        | _ \<Rightarrow> refuse ''faktorAgentAction.action must be one of retry|pause|resume|cancel|steer|model|budget|presentation''))"

definition ingest_evidence :: "jsval props \<Rightarrow> jsstr + bridge_command" where
  "ingest_evidence message =
     (case jget message (js ''evidenceId'') of
        JNum x \<Rightarrow>
          if is_integer x \<and> int_of_num x > 0 \<and> is_safe_integer x
          then Inr (CEvidenceExpand (int_of_num x))
          else refuse ''faktorEvidenceExpand.evidenceId must be a positive integer''
      | _ \<Rightarrow> refuse ''faktorEvidenceExpand.evidenceId must be a positive integer'')"

definition board_since :: "jsval \<Rightarrow> jsstr + int option" where
  "board_since v =
     (if nullish v then Inr None
      else (case v of
          JNum x \<Rightarrow>
            if is_integer x \<and> int_of_num x \<ge> 0 then Inr (Some (int_of_num x))
            else refuse ''faktorBoardAction.since must be a non-negative integer''
        | _ \<Rightarrow> refuse ''faktorBoardAction.since must be a non-negative integer''))"

definition board_limit :: "jsval \<Rightarrow> jsstr + int option" where
  "board_limit v =
     (if nullish v then Inr None
      else (case v of
          JNum x \<Rightarrow>
            if is_integer x \<and> int_of_num x > 0 \<and> int_of_num x \<le> maxBoardPage
            then Inr (Some (int_of_num x))
            else refuse ''faktorBoardAction.limit must be an integer in 1..500''
        | _ \<Rightarrow> refuse ''faktorBoardAction.limit must be an integer in 1..500''))"

definition board_body :: "jsval \<Rightarrow> jsstr + jsstr option" where
  "board_body v =
     (if nullish v then Inr None
      else (case v of
          JStr body \<Rightarrow>
            if utf8_length body > maxBoardBodyBytes
            then refuse ''faktorBoardAction.body exceeds 16384 bytes'' else Inr (Some body)
        | _ \<Rightarrow> refuse ''faktorBoardAction.body must be a string''))"

definition board_ref_reason :: "nat \<Rightarrow> string \<Rightarrow> jsstr" where
  "board_ref_reason index what = js ''faktorBoardAction.refs['' @ decimal_nat index @ js what"

fun board_ref_loop :: "nat \<Rightarrow> jsstr list \<Rightarrow> jsval list \<Rightarrow> jsstr + jsstr list" where
  "board_ref_loop index refs [] = Inr refs"
| "board_ref_loop index refs (v # vs) =
     (case v of
        JStr ref \<Rightarrow>
          if length (trim ref) = 0 then Inl (board_ref_reason index ''] must be a non-empty string'')
          else if utf8_length ref > maxBoardRefBytes
            then Inl (board_ref_reason index ''] exceeds 1024 bytes'')
          else board_ref_loop (Suc index) (refs @ [trim ref]) vs
      | _ \<Rightarrow> Inl (board_ref_reason index ''] must be a non-empty string''))"

definition board_refs :: "jsval \<Rightarrow> jsstr + jsstr list" where
  "board_refs v =
     (if nullish v then Inr []
      else (case v of
          JArr vs \<Rightarrow>
            if length vs > maxBoardRefs then refuse ''faktorBoardAction.refs exceeds 32 entries''
            else board_ref_loop 0 [] vs
        | _ \<Rightarrow> refuse ''faktorBoardAction.refs must be an array of strings''))"

definition ingest_board_post :: "jsval props \<Rightarrow> jsstr + bridge_command" where
  "ingest_board_post message =
     (case jget message (js ''subject'') of
        JStr subject \<Rightarrow>
          if length (trim subject) = 0
            then refuse ''faktorBoardAction.subject must be a non-empty string''
          else if utf8_length subject > maxBoardSubjectBytes
            then refuse ''faktorBoardAction.subject exceeds 512 bytes''
          else
            and_then (board_body (jget message (js ''body''))) (\<lambda>body.
            and_then (board_refs (jget message (js ''refs''))) (\<lambda>refs.
              Inr (CBoardPost (trim subject) body refs)))
      | _ \<Rightarrow> refuse ''faktorBoardAction.subject must be a non-empty string'')"

definition ingest_board :: "jsval props \<Rightarrow> jsstr + bridge_command" where
  "ingest_board message =
     (case jget message (js ''action'') of
        JStr action \<Rightarrow>
          if \<not> List.member BOARD_ACTIONS action
            then refuse ''faktorBoardAction.action must be \"read\" or \"post\"''
          else if action = js ''read'' then
            and_then (board_since (jget message (js ''since''))) (\<lambda>since.
            and_then (board_limit (jget message (js ''limit''))) (\<lambda>limit.
              Inr (CBoardRead since limit)))
          else ingest_board_post message
      | _ \<Rightarrow> refuse ''faktorBoardAction.action must be \"read\" or \"post\"'')"

definition ingest_external :: "platform \<Rightarrow> jsval props \<Rightarrow> jsstr + bridge_command" where
  "ingest_external env message =
     (case jget message (js ''url'') of
        JStr url \<Rightarrow>
          if length url > maxStringChars then refuse ''openExternal.url must be a bounded string''
          else (case parse_url env url of
              None \<Rightarrow> refuse ''openExternal.url is not a valid URL''
            | Some (protocol, href) \<Rightarrow>
                if protocol \<noteq> js ''https:''
                then Inl (js ''openExternal refuses non-https protocol \"'' @ protocol @ js ''\"'')
                else Inr (COpenExternal href))
      | _ \<Rightarrow> refuse ''openExternal.url must be a bounded string'')"

section \<open>The dispatch\<close>

definition ingest_kind ::
  "platform \<Rightarrow> jsstr option \<Rightarrow> jsstr \<Rightarrow> jsval props \<Rightarrow> jsstr + bridge_command" where
  "ingest_kind env workspaceDirectory rawType message =
     (if rawType = js ''webviewReady'' then Inr CReady
      else if rawType = js ''createSession'' then Inr CCreateSession
      else if rawType = js ''loadSessions'' then Inr CLoadSessions
      else if rawType = js ''sendMessage'' then ingest_send env workspaceDirectory message
      else if rawType = js ''abort'' then ingest_abort message
      else if rawType = js ''loadMessages'' then ingest_load message
      else if rawType = js ''faktorTournamentAction'' \<or> rawType = js ''tournamentControl''
        then ingest_tournament rawType message
      else if rawType = js ''faktorAgentAction'' then ingest_agent message
      else if rawType = js ''faktorEvidenceExpand'' then ingest_evidence message
      else if rawType = js ''faktorBoardAction'' then ingest_board message
      else ingest_external env message)"

definition ingestWebviewMessage :: "platform \<Rightarrow> jsval \<Rightarrow> jsstr option \<Rightarrow> bridge_ingest" where
  "ingestWebviewMessage env raw workspaceDirectory =
     (let bytes = serialized_bytes raw
      in if bytes > maxInboundBytes
         then Dropped None
           (js ''payload '' @ decimal_nat bytes @ js '' bytes exceeds 10485760 byte bound'') bytes
         else (case raw of
             JObj message \<Rightarrow>
               (case jget message (js ''type'') of
                  JStr rawType \<Rightarrow>
                    if length rawType = 0 \<or> length rawType > 64
                      then Dropped None (js ''message type must be a non-empty string'') bytes
                    else if \<not> List.member SUPPORTED_INBOUND rawType
                      then Dropped (Some rawType)
                        (js ''unsupported message kind \"'' @ rawType @ js ''\"'') bytes
                    else (case ingest_kind env workspaceDirectory rawType message of
                        Inl reason \<Rightarrow> Dropped (Some rawType) reason bytes
                      | Inr command \<Rightarrow> Accepted command)
                | _ \<Rightarrow> Dropped None (js ''message type must be a non-empty string'') bytes)
           | _ \<Rightarrow> Dropped None (js ''message must be a JSON object'') bytes))"

section \<open>Commands to host messages\<close>

text \<open>\<open>member_if\<close> is the conditional spread of a literal: the member is there or it is not.\<close>

definition member_if :: "bool \<Rightarrow> string \<Rightarrow> jsval \<Rightarrow> jsval props" where
  "member_if b k v = (if b then [(js k, v)] else [])"

definition attachment_value :: "attachment_ref \<Rightarrow> jsval" where
  "attachment_value a =
     JObj [(js ''ref'', JStr (arRef a)), (js ''mime'', JStr (arMime a)),
       (js ''filename'', opt_string (arFilename a)), (js ''bytes'', JNum (num_of_int (int (arBytes a)))),
       (js ''dataBase64'', JStr (arDataBase64 a)), (js ''isImage'', JBool (arIsImage a))]"

definition refusal_value :: "attachment_refusal \<Rightarrow> jsval" where
  "refusal_value r =
     JObj [(js ''index'', JNum (num_of_int (int (fst r)))), (js ''reason'', JStr (snd r))]"

definition contract_value :: "completion_contract \<Rightarrow> jsval" where
  "contract_value c =
     JObj [(js ''include_commit'', JBool (ccCommit c)), (js ''include_push'', JBool (ccPush c)),
       (js ''include_pr'', JBool (ccPr c))]"

definition pending_value :: "bridge_pending \<Rightarrow> jsval" where
  "pending_value p =
     JObj [(js ''text'', JStr (kpText p)), (js ''sessionId'', opt_string (kpSessionId p)),
       (js ''draftId'', opt_string (kpDraftId p)), (js ''messageId'', opt_string (kpMessageId p)),
       (js ''files'', JArr (kpFiles p)), (js ''attachments'', JArr (map attachment_value (kpAttachments p)))]"

definition send_goal :: "send_command \<Rightarrow> jsval props" where
  "send_goal c =
     [(js ''type'', JStr (js ''sendGoal'')), (js ''goal'', JStr (scText c))]
     @ member_if (length (scFiles c) > 0) ''files'' (JArr (map JStr (scFiles c)))
     @ member_if (length (scAttachments c) > 0) ''attachments'' (JArr (map attachment_value (scAttachments c)))
     @ member_if (length (scRefused c) > 0) ''refusedAttachments'' (JArr (map refusal_value (scRefused c)))
     @ (case scCompletion c of None \<Rightarrow> [] | Some k \<Rightarrow> [(js ''completionContract'', contract_value k)])
     @ [(js ''pending'', pending_value (scPending c))]"

definition opt_member :: "string \<Rightarrow> jsval option \<Rightarrow> jsval props" where
  "opt_member k v = (case v of None \<Rightarrow> [] | Some x \<Rightarrow> [(js k, x)])"

definition host_message :: "string \<Rightarrow> jsval props \<Rightarrow> jsval props option" where
  "host_message kind members = Some ((js ''type'', JStr (js kind)) # members)"

definition bridgeCommandToHostMessage :: "bridge_command \<Rightarrow> jsval props option" where
  "bridgeCommandToHostMessage command =
     (case command of
        CReady \<Rightarrow> host_message ''ready'' []
      | CSendMessage c \<Rightarrow> Some (send_goal c)
      | CAbort _ \<Rightarrow> host_message ''cancelRun'' []
      | CCreateSession \<Rightarrow> host_message ''refresh'' []
      | CLoadSessions \<Rightarrow> host_message ''refresh'' []
      | CLoadMessages _ _ _ _ \<Rightarrow> host_message ''refresh'' []
      | CTournamentDecide i \<Rightarrow>
          host_message ''tournamentControl''
            [(js ''tournamentId'', JStr i), (js ''action'', JStr (js ''decide''))]
      | CTournamentAbort i reason \<Rightarrow>
          host_message ''tournamentControl''
            [(js ''tournamentId'', JStr i), (js ''action'', JStr (js ''abort'')),
             (js ''reason'', case reason of None \<Rightarrow> JUndef | Some r \<Rightarrow> JStr r)]
      | CAgentAction i action state note \<Rightarrow>
          host_message ''agentControl''
            ([(js ''agentId'', JStr i), (js ''action'', JStr action)]
             @ opt_member ''state'' (map_option JStr state) @ opt_member ''text'' (map_option JStr note))
      | CEvidenceExpand n \<Rightarrow> host_message ''retrieveEvidence'' [(js ''evidenceId'', JNum (num_of_int n))]
      | CBoardRead since limit \<Rightarrow>
          host_message ''boardRead''
            (opt_member ''since'' (map_option (\<lambda>n. JNum (num_of_int n)) since)
             @ opt_member ''limit'' (map_option (\<lambda>n. JNum (num_of_int n)) limit))
      | CBoardPost subject body refs \<Rightarrow>
          host_message ''boardPost''
            ([(js ''subject'', JStr subject)] @ opt_member ''body'' (map_option JStr body)
             @ member_if (length refs > 0) ''refs'' (JArr (map JStr refs)))
      | COpenExternal _ \<Rightarrow> None)"

section \<open>Restoring a failed submission\<close>

definition sendMessageFailedMessage :: "bridge_pending \<Rightarrow> jsstr \<Rightarrow> jsval props" where
  "sendMessageFailedMessage pending error =
     [(js ''type'', JStr (js ''sendMessageFailed'')), (js ''error'', JStr (clip 2000 error)),
      (js ''text'', JStr (kpText pending))]
     @ opt_member ''sessionID'' (map_option JStr (kpSessionId pending))
     @ opt_member ''draftID'' (map_option JStr (kpDraftId pending))
     @ opt_member ''messageID'' (map_option JStr (kpMessageId pending))
     @ member_if (length (kpFiles pending) > 0) ''files'' (JArr (kpFiles pending))"

section \<open>Facts on the guards\<close>

lemma refuse_not_Inr [simp]: "refuse r \<noteq> Inr x" "Inr x \<noteq> refuse r"
  by (simp_all add: refuse_def)

lemma boundedString_eq: "boundedString = pendingString"
  by (intro ext) (simp add: boundedString_def pendingString_def)

lemma boundedString_ok: "boundedString v n = Some s \<Longrightarrow> id_ok n s"
  by (simp add: boundedString_eq pendingString_ok)

lemma boundedString_accepts: "id_ok n s \<Longrightarrow> boundedString (JStr s) n = Some s"
  by (simp add: boundedString_eq pendingString_accepts)

definition opt_id_ok :: "jsstr option \<Rightarrow> bool" where
  "opt_id_ok i = (case i of None \<Rightarrow> True | Some s \<Rightarrow> id_ok 4096 s)"

lemma optional_id_ok: "optional_id v name = Inr i \<Longrightarrow> opt_id_ok i"
  by (auto simp: optional_id_def opt_id_ok_def cap_simps split: if_splits option.splits dest: boundedString_ok)

lemma optional_id_accepts:
  "opt_id_ok i \<Longrightarrow> optional_id (case i of None \<Rightarrow> JUndef | Some s \<Rightarrow> JStr s) name = Inr i"
  by (cases i) (auto simp: optional_id_def opt_id_ok_def nullish_def boundedString_accepts cap_simps)

lemma required_id_ok: "required_id v name = Inr s \<Longrightarrow> id_ok 4096 s"
  by (auto simp: required_id_def cap_simps split: option.splits dest: boundedString_ok)

lemma steer_ok: "normalizeSteerText v = Inr note \<Longrightarrow> id_ok 500 note"
  by (auto simp: normalizeSteerText_def id_ok_def Let_def cap_simps split: jsval.splits if_splits)

lemma steer_accepts: "id_ok 500 note \<Longrightarrow> normalizeSteerText (JStr note) = Inr note"
  by (simp add: normalizeSteerText_def id_ok_def Let_def cap_simps)

text \<open>The bridge and the host read a completion contract alike.\<close>

lemma completion_contract_agreement: "completionContractOf raw = parseCompletionContract raw"
proof (cases raw)
  case (JObj ps)
  have k: "(\<lambda>key. key \<noteq> js ''include_commit'' \<and> key \<noteq> js ''include_push'' \<and> key \<noteq> js ''include_pr'')
      = (\<lambda>key. \<not> List.member contract_keys key)"
    by (auto simp: contract_keys_def List.member_iff)
  have e: "refuse ''completionContract.include_commit must be a boolean''
        = Inl (js ''completionContract.'' @ js ''include_commit'' @ js '' must be a boolean'')"
      "refuse ''completionContract.include_push must be a boolean''
        = Inl (js ''completionContract.'' @ js ''include_push'' @ js '' must be a boolean'')"
      "refuse ''completionContract.include_pr must be a boolean''
        = Inl (js ''completionContract.'' @ js ''include_pr'' @ js '' must be a boolean'')"
    by (simp_all add: refuse_def flip: js_append)
  show ?thesis
    unfolding completionContractOf_def parseCompletionContract_def k JObj e
    by (auto simp: nullish_def contract_keys_def hasCompletionSteps_def Let_def
        split: option.splits)
qed (auto simp: completionContractOf_def parseCompletionContract_def nullish_def refuse_def)

section \<open>What an accepted command carries\<close>

fun command_ok :: "bridge_command \<Rightarrow> bool" where
  "command_ok (CSendMessage c) \<longleftrightarrow>
     trim (scText c) \<noteq> [] \<and> length (scText c) \<le> 65536 \<and> kpText (scPending c) = scText c
     \<and> kpSessionId (scPending c) = scSessionId c \<and> kpAttachments (scPending c) = scAttachments c
     \<and> list_all opt_id_ok [scSessionId c, kpDraftId (scPending c), kpMessageId (scPending c)]"
| "command_ok (CAbort i) \<longleftrightarrow> id_ok 4096 i"
| "command_ok (CLoadMessages i before limit mode) \<longleftrightarrow>
     id_ok 4096 i \<and> opt_id_ok before \<and> 1 \<le> limit \<and> limit \<le> 500 \<and> mode \<in> set MESSAGE_LOAD_MODES"
| "command_ok (CTournamentDecide i) \<longleftrightarrow> id_ok 4096 i"
| "command_ok (CTournamentAbort i reason) \<longleftrightarrow>
     id_ok 4096 i \<and> pred_option (\<lambda>r. id_ok 512 r \<and> utf8_length r \<le> 512) reason"
| "command_ok (CAgentAction i action state note) \<longleftrightarrow>
     id_ok 4096 i \<and> action \<in> set AGENT_ACTIONS
     \<and> (state \<noteq> None) = (action = js ''presentation'')
     \<and> pred_option (\<lambda>st. st \<in> set PRESENTATION_STATES) state
     \<and> pred_option (\<lambda>t. action = js ''steer'' \<and> id_ok 500 t) note"
| "command_ok (CEvidenceExpand n) \<longleftrightarrow> 0 < n \<and> n \<le> max_safe_integer"
| "command_ok (CBoardRead since limit) \<longleftrightarrow>
     pred_option (\<lambda>n. 0 \<le> n) since \<and> pred_option (\<lambda>n. 1 \<le> n \<and> n \<le> 500) limit"
| "command_ok (CBoardPost subject body refs) \<longleftrightarrow>
     id_ok 512 subject \<and> utf8_length subject \<le> 512 \<and> pred_option (\<lambda>b. utf8_length b \<le> 16384) body
     \<and> length refs \<le> 32 \<and> list_all ref_ok refs"
| "command_ok _ \<longleftrightarrow> True"

lemma ingest_send_ok: "ingest_send env ws m = Inr c \<Longrightarrow> command_ok c"
  by (auto simp: ingest_send_def Let_def cap_simps optional_id_ok
      split: if_splits jsval.splits)

lemma load_limit_ok: "load_limit v = Inr n \<Longrightarrow> 1 \<le> n \<and> n \<le> 500"
  by (auto simp: load_limit_def cap_simps split: jsval.splits option.splits if_splits)

lemma load_mode_ok: "load_mode v = Inr mode \<Longrightarrow> mode \<in> set MESSAGE_LOAD_MODES"
  by (auto simp: load_mode_def MESSAGE_LOAD_MODES_def List.member_iff split: jsval.splits if_splits)

lemma ingest_load_ok: "ingest_load m = Inr c \<Longrightarrow> command_ok c"
  by (auto simp: ingest_load_def load_mode_ok dest: required_id_ok optional_id_ok load_limit_ok)

lemma length_trim_utf8: "utf8_length s \<le> n \<Longrightarrow> trim s \<noteq> [] \<Longrightarrow> id_ok n (trim s) \<and> utf8_length (trim s) \<le> n"
  using length_le_utf8_length [of "trim s"] utf8_length_trim [of s] by (simp add: id_ok_def)

lemma abort_reason_ok:
  "abort_reason v t = Inr reason \<Longrightarrow> pred_option (\<lambda>r. id_ok 512 r \<and> utf8_length r \<le> 512) reason"
  using length_trim_utf8 [of _ 512]
  by (auto simp: abort_reason_def Let_def cap_simps split: if_splits jsval.splits)

lemma ingest_tournament_ok: "ingest_tournament t m = Inr c \<Longrightarrow> command_ok c"
  by (auto simp: ingest_tournament_def Let_def split: if_splits
      dest: required_id_ok abort_reason_ok)

lemma agent_state_ok:
  "agent_state action v = Inr state \<Longrightarrow>
     (state \<noteq> None) = (action = js ''presentation'') \<and> pred_option (\<lambda>st. st \<in> set PRESENTATION_STATES) state"
  by (auto simp: agent_state_def List.member_iff split: if_splits jsval.splits)

lemma agent_text_ok:
  "agent_text action v = Inr note \<Longrightarrow> pred_option (\<lambda>t. action = js ''steer'' \<and> id_ok 500 t) note"
  by (auto simp: agent_text_def steer_ok split: if_splits)

lemma ingest_agent_shape:
  "ingest_agent m = Inr c \<Longrightarrow>
     \<exists>i action state note. c = CAgentAction i action state note \<and> action \<in> set AGENT_ACTIONS
       \<and> required_id (jget m (js ''agentId'')) (js ''faktorAgentAction.agentId'') = Inr i
       \<and> agent_state action (jget m (js ''state'')) = Inr state
       \<and> agent_text action (jget m (js ''text'')) = Inr note"
  by (cases "jget m (js ''action'')") (auto simp: ingest_agent_def List.member_iff split: if_splits)

lemma ingest_agent_ok: "ingest_agent m = Inr c \<Longrightarrow> command_ok c"
  by (drule ingest_agent_shape, elim exE conjE, drule required_id_ok, drule agent_state_ok,
      drule agent_text_ok) (simp only: command_ok.simps simp_thms)

lemma ingest_evidence_ok: "ingest_evidence m = Inr c \<Longrightarrow> command_ok c"
  by (auto simp: ingest_evidence_def is_safe_integer_def split: jsval.splits if_splits)

lemma board_ref_loop_parse:
  "board_ref_loop i acc vs = Inr refs \<longleftrightarrow> parse_refs i acc vs = Inr refs"
  by (induction i acc vs rule: board_ref_loop.induct)
    (auto simp: cap_simps split: jsval.splits)

lemma board_refs_ok: "board_refs v = Inr refs \<Longrightarrow> length refs \<le> 32 \<and> list_all ref_ok refs"
  by (auto simp: board_refs_def board_ref_loop_parse cap_simps split: if_splits jsval.splits
      dest!: parse_refs_ok)

lemma board_body_ok: "board_body v = Inr body \<Longrightarrow> pred_option (\<lambda>b. utf8_length b \<le> 16384) body"
  by (auto simp: board_body_def cap_simps split: if_splits jsval.splits)

lemma ingest_board_post_ok: "ingest_board_post m = Inr c \<Longrightarrow> command_ok c"
  using length_trim_utf8 [of _ 512]
  by (auto simp: ingest_board_post_def cap_simps board_body_ok split: jsval.splits if_splits
      dest: board_refs_ok)

lemma board_since_ok: "board_since v = Inr since \<Longrightarrow> pred_option (\<lambda>n. 0 \<le> n) since"
  by (auto simp: board_since_def split: if_splits jsval.splits)

lemma board_limit_ok: "board_limit v = Inr limit \<Longrightarrow> pred_option (\<lambda>n. 1 \<le> n \<and> n \<le> 500) limit"
  by (auto simp: board_limit_def cap_simps split: if_splits jsval.splits)

lemma ingest_board_ok: "ingest_board m = Inr c \<Longrightarrow> command_ok c"
  by (auto simp: ingest_board_def split: jsval.splits if_splits dest: ingest_board_post_ok)
    (auto simp: board_since_ok board_limit_ok)

lemmas handler_ok = ingest_send_ok ingest_load_ok ingest_tournament_ok ingest_agent_ok
  ingest_evidence_ok ingest_board_ok

text \<open>The type a command answers, and the protocol of an external URL.\<close>

definition answers :: "platform \<Rightarrow> jsval props \<Rightarrow> bridge_command \<Rightarrow> bool" where
  "answers env message command =
     (case command of
        CReady \<Rightarrow> jget message (js ''type'') = JStr (js ''webviewReady'')
      | CSendMessage _ \<Rightarrow> jget message (js ''type'') = JStr (js ''sendMessage'')
      | CAbort _ \<Rightarrow> jget message (js ''type'') = JStr (js ''abort'')
      | CCreateSession \<Rightarrow> jget message (js ''type'') = JStr (js ''createSession'')
      | CLoadSessions \<Rightarrow> jget message (js ''type'') = JStr (js ''loadSessions'')
      | CLoadMessages _ _ _ _ \<Rightarrow> jget message (js ''type'') = JStr (js ''loadMessages'')
      | COpenExternal href \<Rightarrow>
          jget message (js ''type'') = JStr (js ''openExternal'')
          \<and> (\<exists>url. jget message (js ''url'') = JStr url \<and> parse_url env url = Some (js ''https:'', href))
      | CAgentAction _ _ _ _ \<Rightarrow> jget message (js ''type'') = JStr (js ''faktorAgentAction'')
      | CEvidenceExpand _ \<Rightarrow> jget message (js ''type'') = JStr (js ''faktorEvidenceExpand'')
      | CBoardRead _ _ \<Rightarrow> jget message (js ''type'') = JStr (js ''faktorBoardAction'')
      | CBoardPost _ _ _ \<Rightarrow> jget message (js ''type'') = JStr (js ''faktorBoardAction'')
      | _ \<Rightarrow> jget message (js ''type'') \<in> {JStr (js ''faktorTournamentAction''), JStr (js ''tournamentControl'')})"


lemma ingest_kind_answers:
  assumes t: "jget m (js ''type'') = JStr t" and sup: "List.member SUPPORTED_INBOUND t"
    and c: "ingest_kind env ws t m = Inr c"
  shows "command_ok c \<and> answers env m c"
proof -
  consider "t \<in> set (map js [''webviewReady'', ''createSession'', ''loadSessions''])"
    | "t = js ''sendMessage''" | "t = js ''abort''" | "t = js ''loadMessages''"
    | "t = js ''faktorTournamentAction'' \<or> t = js ''tournamentControl''"
    | "t = js ''faktorAgentAction''" | "t = js ''faktorEvidenceExpand''" | "t = js ''faktorBoardAction''"
    | "t = js ''openExternal''"
    using sup by (auto simp: SUPPORTED_INBOUND_def List.member_iff)
  then show ?thesis
  proof cases
    case 1
    then show ?thesis using c t by (auto simp: ingest_kind_def answers_def)
  next
    case 2
    then have "ingest_send env ws m = Inr c" using c by (simp add: ingest_kind_def)
    moreover from this have "\<exists>k. c = CSendMessage k"
      by (cases "jget m (js ''text'')") (auto simp: ingest_send_def Let_def split: if_splits)
    ultimately show ?thesis using t 2 by (auto simp: answers_def ingest_send_ok)
  next
    case 3
    then show ?thesis using c t by (auto simp: ingest_kind_def ingest_abort_def answers_def required_id_ok)
  next
    case 4
    then have "ingest_load m = Inr c" using c by (simp add: ingest_kind_def)
    with t 4 show ?thesis
      using ingest_load_ok [of m c] by (auto simp: answers_def ingest_load_def)
  next
    case 5
    then have "ingest_tournament t m = Inr c" using c by (auto simp: ingest_kind_def)
    with t 5 show ?thesis
      using ingest_tournament_ok [of t m c]
      by (auto simp: answers_def ingest_tournament_def Let_def split: if_splits)
  next
    case 6
    then have "ingest_agent m = Inr c" using c by (simp add: ingest_kind_def)
    with t 6 show ?thesis
      using ingest_agent_ok [of m c] ingest_agent_shape [of m c] by (auto simp: answers_def)
  next
    case 7
    then have "ingest_evidence m = Inr c" using c by (simp add: ingest_kind_def)
    with t 7 show ?thesis
      using ingest_evidence_ok [of m c]
      by (auto simp: answers_def ingest_evidence_def split: jsval.splits if_splits)
  next
    case 8
    then have i: "ingest_board m = Inr c" using c by (simp add: ingest_kind_def)
    then have "(\<exists>x y. c = CBoardRead x y) \<or> (\<exists>x y z. c = CBoardPost x y z)"
      by (auto simp: ingest_board_def ingest_board_post_def split: jsval.splits if_splits)
    with t 8 show ?thesis using ingest_board_ok [OF i] by (auto simp: answers_def)
  next
    case 9
    then have "ingest_external env m = Inr c" using c by (simp add: ingest_kind_def)
    with t 9 show ?thesis
      by (auto simp: answers_def ingest_external_def split: jsval.splits if_splits option.splits)
  qed
qed

lemma ingest_AcceptedD:
  assumes "ingestWebviewMessage env raw ws = Accepted command"
  obtains m t where "raw = JObj m" and "jget m (js ''type'') = JStr t" and "List.member SUPPORTED_INBOUND t"
    and "serialized_bytes raw \<le> 10485760" and "ingest_kind env ws t m = Inr command"
proof (cases raw)
  case (JObj m)
  then show ?thesis
    using assms that
    by (auto simp: ingestWebviewMessage_def Let_def cap_simps split: if_splits jsval.splits sum.splits)
qed (use assms in \<open>auto simp: ingestWebviewMessage_def Let_def split: if_splits\<close>)

text \<open>
  C2.  The bridge forwards nothing it has not checked.  An accepted message is an object of
  at most 10 MiB whose supported type the command answers; every identity in the command
  is trimmed, non-empty and bounded, every number is in its range, every enumeration
  value is a known one, a presentation state or a steering note accompanies its own
  action only, and an external URL was parsed with the protocol \<open>https:\<close>.
\<close>

theorem ingest_accepts_checked:
  assumes "ingestWebviewMessage env raw ws = Accepted command"
  shows "\<exists>message. raw = JObj message \<and> serialized_bytes raw \<le> 10485760
     \<and> command_ok command \<and> answers env message command"
  using assms ingest_kind_answers by (elim ingest_AcceptedD) blast

section \<open>Facts on attachments\<close>

lemma split_by_length: "(\<Sum>w \<leftarrow> split_by p s. Suc (length w)) = Suc (length s)"
  by (induction p s rule: split_by.induct) (auto split: list.splits)

lemma mime_ok_length: "mime_ok s \<Longrightarrow> s \<noteq> [] \<and> length s \<le> 129"
  using split_by_length [of "\<lambda>c. c = 47" s]
  by (auto simp: mime_ok_def mime_name_def split: list.splits)

text \<open>A media type the bridge settles on.\<close>

definition octet_stream :: jsstr where
  "octet_stream = js ''application/octet-stream''"

lemma octet_stream_ok: "id_ok 129 octet_stream"
  unfolding octet_stream_def by code_simp

lemma attachmentMime_ok: "id_ok 129 fallback \<Longrightarrow> id_ok 129 (attachmentMime v fallback)"
  by (auto simp: attachmentMime_def Let_def id_ok_def dest: mime_ok_length split: jsval.split)

text \<open>A bare file name: no separator, no dot name, trimmed, bounded, no control character.\<close>

definition bare_name :: "jsstr \<Rightarrow> bool" where
  "bare_name f \<longleftrightarrow> id_ok 255 f \<and> \<not> list_ex is_control f \<and> 47 \<notin> set f \<and> 92 \<notin> set f
     \<and> f \<noteq> js ''.'' \<and> f \<noteq> js ''..''"

lemma set_trim: "set (trim s) \<subseteq> set s"
  by (auto simp: trim_def dest!: set_dropWhileD)

lemma set_split_by: "w \<in> set (split_by p s) \<Longrightarrow> set w \<subseteq> set s"
proof (induction s arbitrary: w)
  case (Cons c s)
  then show ?case by (cases "split_by p s") (fastforce split: if_splits)+
qed simp

lemma sanitizeFilename_ok:
  assumes "sanitizeFilename v = Some f"
  shows "bare_name f"
proof -
  obtain s where v: "v = JStr s" using assms by (cases v) (simp_all add: sanitizeFilename_def)
  let ?base = "last (split_by (\<lambda>c. c = 47) (forward_slashes s))"
  have f: "f = trim ?base" "id_ok 255 f" "\<not> list_ex is_control f" "f \<noteq> js ''.''" "f \<noteq> js ''..''"
    using assms by (auto simp: v sanitizeFilename_def Let_def id_ok_def split: if_splits)
  have "?base \<in> set (split_by (\<lambda>c. c = 47) (forward_slashes s))" by simp
  then have "47 \<notin> set ?base" "set ?base \<subseteq> set (forward_slashes s)"
    using split_by_no_sep set_split_by by blast+
  moreover have "92 \<notin> set (forward_slashes s)" by (auto simp: forward_slashes_def split: if_splits)
  ultimately show ?thesis using f set_trim [of ?base] unfolding bare_name_def by blast
qed

definition ref_wf :: "platform \<Rightarrow> attachment_ref \<Rightarrow> bool" where
  "ref_wf env a \<longleftrightarrow>
     (\<exists>bytes. length bytes = arBytes a \<and> arBytes a \<le> 7340032
        \<and> arDataBase64 a = base64_encode bytes \<and> base64_decode (arDataBase64 a) = bytes
        \<and> arRef a = js ''faktor-attachment:sha256:'' @ sha256_hex env bytes)
     \<and> id_ok 129 (arMime a) \<and> pred_option bare_name (arFilename a)
     \<and> arIsImage a = starts_with (js ''image/'') (arMime a)"

lemma binaryAttachmentRef_ok: "binaryAttachmentRef env url mime name = Inr a \<Longrightarrow> ref_wf env a"
  using octet_stream_ok
  by (auto simp: binaryAttachmentRef_def ref_wf_def Let_def cap_simps base64_round_trip
      pred_option_def sanitizeFilename_ok octet_stream_def intro!: attachmentMime_ok
      split: option.splits prod.splits sum.splits if_splits)

section \<open>Facts on paths\<close>

lemma split_by_none: "\<forall>c \<in> set s. \<not> p c \<Longrightarrow> split_by p s = [s]"
  by (induction p s rule: split_by.induct) (auto split: list.splits)

lemma split_by_append: "\<forall>c \<in> set s. \<not> p c \<Longrightarrow> p d \<Longrightarrow> split_by p (s @ d # t) = s # split_by p t"
  by (induction s) (auto split: list.splits)

lemma split_join:
  "ws \<noteq> [] \<Longrightarrow> p d \<Longrightarrow> \<forall>w \<in> set ws. \<forall>c \<in> set w. \<not> p c \<Longrightarrow> split_by p (join [d] ws) = ws"
  by (induction "[d]" ws rule: join.induct) (auto simp: split_by_none split_by_append)

text \<open>What the bridge guarantees of a path: forward slashes only, no parent segment, not rooted.\<close>

definition bridge_path :: "jsstr \<Rightarrow> bool" where
  "bridge_path s \<longleftrightarrow> 92 \<notin> set s \<and> js ''..'' \<notin> set (split_by is_slash s) \<and> \<not> starts_with [47] s"

lemma forward_slashes_no_back: "92 \<notin> set (forward_slashes s)"
  by (auto simp: forward_slashes_def)

lemma split_by_cong: "\<forall>c \<in> set s. p c = q c \<Longrightarrow> split_by p s = split_by q s"
  by (induction s) (auto split: list.splits)

lemma split_slash: "92 \<notin> set s \<Longrightarrow> split_by is_slash s = split_by (\<lambda>c. c = 47) s"
  by (intro split_by_cong) (auto simp: is_slash_def)

lemma join_no: "c \<notin> set sep \<Longrightarrow> \<forall>w \<in> set ws. c \<notin> set w \<Longrightarrow> c \<notin> set (join sep ws)"
  by (induction sep ws rule: join.induct) auto

lemma joined_path:
  assumes "\<forall>w \<in> set ws. w \<noteq> [] \<and> w \<noteq> js ''..'' \<and> (\<forall>c \<in> set w. \<not> is_slash c)"
  shows "bridge_path (join [47] ws)"
proof (cases ws)
  case Nil
  then show ?thesis by (simp add: bridge_path_def starts_with_def)
next
  case (Cons w rest)
  have "split_by is_slash (join [47] ws) = ws"
    using assms Cons by (intro split_join) (auto simp: is_slash_def)
  moreover have "92 \<notin> set (join [47] ws)"
    using assms by (intro join_no) (auto simp: is_slash_def)
  moreover obtain c cs where "w = c # cs" "c \<noteq> 47"
    using assms Cons by (cases w) (auto simp: is_slash_def)
  then have "\<not> starts_with [47] (join [47] ws)"
    unfolding Cons by (cases rest) (simp_all add: starts_with_def)
  ultimately show ?thesis using assms by (auto simp: bridge_path_def)
qed

lemma segments_path:
  "js ''..'' \<notin> set (split_by is_slash s) \<Longrightarrow>
     bridge_path (join [47] (filter (\<lambda>w. w \<noteq> []) (split_by is_slash s)))"
  using split_by_no_sep [of _ is_slash s] by (intro joined_path) auto

text \<open>Both \<open>node:path\<close> flavours call a path that starts with a slash absolute.\<close>

definition slash_absolute :: "platform \<Rightarrow> bool" where
  "slash_absolute env \<longleftrightarrow> (\<forall>s. starts_with [47] s \<longrightarrow> isAbsolute env s)"

lemma workspaceRelativePath_ok:
  "slash_absolute env \<Longrightarrow> workspaceRelativePath env candidate ws = Inr path \<Longrightarrow> bridge_path path"
  by (auto simp: workspaceRelativePath_def Let_def List.member_iff segments_path split: if_splits option.splits)
    (auto simp: bridge_path_def split_slash slash_absolute_def forward_slashes_no_back)

section \<open>The files payload is accounted for\<close>

definition mapping_count :: "files_mapping \<Rightarrow> nat" where
  "mapping_count m = length (fmFiles m) + length (fmAttachments m) + length (fmRefused m)"

definition mapping_wf :: "platform \<Rightarrow> files_mapping \<Rightarrow> bool" where
  "mapping_wf env m \<longleftrightarrow> list_all bridge_path (fmFiles m) \<and> list_all (ref_wf env) (fmAttachments m)
     \<and> length (fmFiles m) \<le> 64 \<and> length (fmAttachments m) \<le> 64 \<and> length (fmRefused m) \<le> 64"

text \<open>One entry keeps the mapping well-formed and, below the cap, adds exactly one record.\<close>

definition counted :: "platform \<Rightarrow> files_mapping \<Rightarrow> files_mapping \<Rightarrow> bool" where
  "counted env m m' \<longleftrightarrow>
     (mapping_wf env m \<longrightarrow> mapping_wf env m' \<and> (mapping_count m < 64 \<longrightarrow> mapping_count m' = Suc (mapping_count m)))"

lemma counted_refuse: "counted env m (refuse_entry m i r)"
  by (auto simp: counted_def refuse_entry_def mapping_wf_def mapping_count_def cap_simps)

lemma counted_binary: "(\<And>a. ref = Inr a \<Longrightarrow> ref_wf env a) \<Longrightarrow> counted env m (add_binary m i ref)"
  using counted_refuse
  by (auto simp: add_binary_def split: sum.split)
    (auto simp: counted_def mapping_wf_def mapping_count_def cap_simps)

lemma counted_path: "(\<And>p. mapped = Inr p \<Longrightarrow> bridge_path p) \<Longrightarrow> counted env m (add_path m i mapped)"
  using counted_refuse
  by (auto simp: add_path_def split: sum.split)
    (auto simp: counted_def mapping_wf_def mapping_count_def cap_simps)

lemma counted_map_path: "slash_absolute env \<Longrightarrow> counted env m (map_path env ws m i c)"
  using workspaceRelativePath_ok
  by (auto simp: map_path_def counted_refuse split: option.split intro!: counted_path)

lemma counted_entry: "slash_absolute env \<Longrightarrow> counted env m (map_entry env ws m i raw)"
  using binaryAttachmentRef_ok
  by (auto simp: map_entry_def Let_def counted_refuse counted_map_path split: jsval.split option.split
      intro!: counted_binary)

lemma map_entries_counted:
  "slash_absolute env \<Longrightarrow> mapping_wf env m \<Longrightarrow>
     mapping_wf env (map_entries env ws i m raw)
     \<and> (mapping_count m + length raw \<le> 64 \<longrightarrow>
          mapping_count (map_entries env ws i m raw) = mapping_count m + length raw)"
proof (induction raw arbitrary: i m)
  case (Cons v raw)
  have "counted env m (map_entry env ws m i v)" by (rule counted_entry [OF Cons.prems(1)])
  then have m: "mapping_wf env (map_entry env ws m i v)"
      "mapping_count m < 64 \<longrightarrow> mapping_count (map_entry env ws m i v) = Suc (mapping_count m)"
    using Cons.prems(2) by (simp_all add: counted_def)
  show ?case using Cons.IH [OF Cons.prems(1) m(1), of "Suc i"] m(2) by auto
qed simp

text \<open>
  C23.  No entry of a files payload vanishes, and nothing unsafe comes out of it: every
  mapped path uses forward slashes only, has no parent segment and is not rooted; every
  binary reference carries at most 7 MiB whose base64 decodes to the hashed bytes, a
  bounded media type, and a bare file name, trimmed and without separators, dot names and
  control characters; there are at most 64 of each and at most 64 refusals; and of up to 64 entries each one is a path, a
  reference or a recorded refusal.
\<close>

theorem mapKiloFiles_accounted:
  assumes "slash_absolute env"
  shows "mapping_wf env (mapKiloFiles env (JArr entries) ws)
     \<and> (length entries \<le> 64 \<longrightarrow> mapping_count (mapKiloFiles env (JArr entries) ws) = length entries)"
proof -
  let ?m = "\<lparr>fmFiles = [], fmAttachments = [], fmRefused = []\<rparr>"
  have "mapping_wf env ?m" "mapping_count ?m = 0" by (simp_all add: mapping_wf_def mapping_count_def)
  with map_entries_counted [OF assms this(1), of ws 0 entries] show ?thesis
    by (simp add: mapKiloFiles_def Let_def nullish_def)
qed

definition posix :: platform where
  "posix = \<lparr>isAbsolute = starts_with [47], resolve_path = (\<lambda>p. p), relative_path = (\<lambda>base p. drop (Suc (length base)) p),
     fileURLToPath = (\<lambda>u. Some (drop 7 u)), sha256_hex = (\<lambda>bytes. decimal_nat (length bytes)),
     parse_url = (\<lambda>u. Some (takeWhile (\<lambda>c. c \<noteq> 58) u @ [58], u))\<rparr>"

theorem mapKiloFiles_accounted_witness:
  "mapping_count (mapKiloFiles posix (JArr [JNull, JObj [(js ''url'', JStr (js ''../x''))]]) None) = 2"
  using mapKiloFiles_accounted [of posix "[JNull, JObj [(js ''url'', JStr (js ''../x''))]]" None]
  by (simp add: slash_absolute_def posix_def)

end
