(* ===== verification/BridgeHost.thy ===== *)
theory BridgeHost
  imports KiloInbound
begin

text \<open>
  The bridge and the extension host together: what the bridge forwards is validated again
  by the host (\<open>taskStart.ts\<close>, \<open>state.ts\<close>), and a refused submission goes back to the UI as
  a \<open>sendMessageFailed\<close> message.  The lemmas show when the two validations agree.
\<close>

section \<open>The pending envelope\<close>

text \<open>The host's reading of the bridge's envelope.\<close>

definition host_attachment :: "attachment_ref \<Rightarrow> pending_attachment" where
  "host_attachment a = \<lparr>paMime = arMime a, paFilename = arFilename a, paBytes = int (arBytes a),
     paDataBase64 = arDataBase64 a, paIsImage = arIsImage a\<rparr>"

definition host_pending :: "bridge_pending \<Rightarrow> pending_submission" where
  "host_pending p = \<lparr>psText = kpText p, psSessionId = kpSessionId p, psDraftId = kpDraftId p,
     psMessageId = kpMessageId p, psFiles = kpFiles p, psAttachments = map host_attachment (kpAttachments p)\<rparr>"

definition mime_fits :: "attachment_ref \<Rightarrow> bool" where
  "mime_fits a \<longleftrightarrow> length (arMime a) \<le> 128"

lemma host_attachment_ok: "ref_wf env a \<Longrightarrow> mime_fits a \<Longrightarrow> attachment_ok (host_attachment a)"
proof -
  assume wf: "ref_wf env a" and fits: "mime_fits a"
  then obtain bytes where "length bytes = arBytes a" "arBytes a \<le> 7340032" "arDataBase64 a = base64_encode bytes"
    by (auto simp: ref_wf_def)
  then have "length (arDataBase64 a) \<le> 9786720" by (simp add: length_base64_encode)
  with wf fits show ?thesis
    by (auto simp: ref_wf_def bare_name_def mime_fits_def attachment_ok_def host_attachment_def id_ok_def split: option.split)
qed

lemma parse_attachment_value:
  "attachment_ok (host_attachment a) \<Longrightarrow> parse_attachment (attachment_value a) = Some (host_attachment a)"
  by (cases "arFilename a")
    (auto simp: parse_attachment_def attachment_value_def attachment_ok_def jget_def opt_string_def
      nullish_def pendingString_accepts cap_simps Let_def host_attachment_def)

lemma parse_attachment_values:
  "list_all attachment_ok (map host_attachment as) \<Longrightarrow>
     parse_attachments (map attachment_value as) = Some (map host_attachment as)"
  by (induction as) (auto simp: parse_attachment_value)

lemma host_accepts_pending:
  assumes "pending_ok (host_pending p)"
  shows "parsePendingSubmission (pending_value p) = Some (host_pending p)"
proof -
  have ids: "optionalId (opt_string (kpSessionId p)) = Some (kpSessionId p)"
      "optionalId (opt_string (kpDraftId p)) = Some (kpDraftId p)"
      "optionalId (opt_string (kpMessageId p)) = Some (kpMessageId p)"
    using assms by (auto simp: pending_ok_def host_pending_def intro!: optionalId_accepts)
  have as: "parse_attachment_list (JArr (map attachment_value (kpAttachments p)))
      = Some (map host_attachment (kpAttachments p))"
    using assms parse_attachment_values [of "kpAttachments p"]
    by (simp add: pending_ok_def host_pending_def parse_attachment_list_def nullish_def cap_simps)
  show ?thesis
    using assms ids as
    by (simp add: parsePendingSubmission_def pending_value_def pending_ok_def host_pending_def jget_def
        parse_pending_files_def nullish_def cap_simps)
qed

text \<open>The anatomy of an accepted submission.\<close>

lemma ingest_sendD:
  assumes "ingestWebviewMessage env raw ws = Accepted (CSendMessage c)"
  obtains m where "raw = JObj m" and "ingest_send env ws m = Inr (CSendMessage c)"
    and "jget m (js ''type'') = JStr (js ''sendMessage'')" and "command_ok (CSendMessage c)"
proof -
  from ingest_AcceptedD [OF assms] obtain m t where m: "raw = JObj m" "jget m (js ''type'') = JStr t"
      "List.member SUPPORTED_INBOUND t" "ingest_kind env ws t m = Inr (CSendMessage c)"
    by metis
  note ok = ingest_kind_answers [OF m(2-4)]
  then have t: "t = js ''sendMessage''" using m(2) by (simp add: answers_def)
  then have "ingest_send env ws m = Inr (CSendMessage c)" using m(4) by (simp add: ingest_kind_def)
  with that m(1,2) t ok show thesis by blast
qed

lemma ingest_send_fields:
  assumes "ingest_send env ws m = Inr (CSendMessage c)"
  obtains files where "nullish files \<or> is_array files" and "files = jget m (js ''files'')"
    and "kpFiles (scPending c) = array_items files"
    and "scFiles c = fmFiles (mapKiloFiles env files ws)"
    and "scAttachments c = fmAttachments (mapKiloFiles env files ws)"
    and "scRefused c = fmRefused (mapKiloFiles env files ws)"
    and "completionContractOf (jget m (js ''completionContract'')) = Inr (scCompletion c)"
  using assms by (cases "jget m (js ''text'')") (auto simp: ingest_send_def Let_def split: if_splits)

lemma mapKiloFiles_wf:
  assumes "slash_absolute env" and "nullish files \<or> is_array files"
  shows "mapping_wf env (mapKiloFiles env files ws)"
proof (cases files)
  case (JArr vs)
  have "mapping_wf env \<lparr>fmFiles = [], fmAttachments = [], fmRefused = []\<rparr>" by (simp add: mapping_wf_def)
  from map_entries_counted [OF assms(1) this] show ?thesis
    by (simp add: JArr mapKiloFiles_def Let_def nullish_def)
qed (use assms(2) in \<open>auto simp: is_array_def mapKiloFiles_def nullish_def mapping_wf_def\<close>)

text \<open>
  The envelope survives the second validation: when an accepted submission carries at
  most 64 original files and its media types have at most 128 units, the host parses
  the forwarded envelope into exactly the same text, identities, files and attachments,
  and reads the same completion contract.
\<close>

theorem envelope_survives_host:
  assumes "slash_absolute env" and acc: "ingestWebviewMessage env raw ws = Accepted (CSendMessage c)"
    and "length (kpFiles (scPending c)) \<le> 64" and "list_all mime_fits (scAttachments c)"
  shows "\<exists>goal. bridgeCommandToHostMessage (CSendMessage c) = Some goal
     \<and> jget goal (js ''goal'') = JStr (kpText (scPending c))
     \<and> parsePendingSubmission (jget goal (js ''pending'')) = Some (host_pending (scPending c))
     \<and> parseCompletionContract (jget goal (js ''completionContract'')) = Inr (scCompletion c)"
proof -
  from ingest_sendD [OF acc] obtain m where s: "ingest_send env ws m = Inr (CSendMessage c)"
    and ok: "command_ok (CSendMessage c)" by blast
  from ingest_send_fields [OF s] obtain files where f: "nullish files \<or> is_array files"
    and a: "scAttachments c = fmAttachments (mapKiloFiles env files ws)"
    and k: "completionContractOf (jget m (js ''completionContract'')) = Inr (scCompletion c)" by blast
  have wf: "list_all (ref_wf env) (scAttachments c)" "length (scAttachments c) \<le> 64"
    using mapKiloFiles_wf [OF assms(1) f, of ws] a by (simp_all add: mapping_wf_def)
  have as: "list_all attachment_ok (map host_attachment (scAttachments c))"
    using wf(1) assms(4) host_attachment_ok by (auto simp: list_all_iff)
  have "pending_ok (host_pending (scPending c))"
    using ok as wf(2) assms(3) by (simp add: pending_ok_def host_pending_def opt_id_ok_def)
  from host_accepts_pending [OF this]
  have p: "parsePendingSubmission (jget (send_goal c) (js ''pending'')) = Some (host_pending (scPending c))"
    by (simp add: send_goal_def jget_def member_if_def split: option.split)
  have goal: "jget (send_goal c) (js ''goal'') = JStr (kpText (scPending c))"
    using ok by (simp add: send_goal_def jget_def)
  have "parseCompletionContract (jget (send_goal c) (js ''completionContract'')) = Inr (scCompletion c)"
  proof (cases "scCompletion c")
    case None
    then show ?thesis
      by (simp add: send_goal_def jget_def member_if_def parseCompletionContract_def nullish_def)
  next
    case (Some x)
    then have "hasCompletionSteps (Some x)"
      using k by (auto simp: completionContractOf_def hasCompletionSteps_def split: jsval.splits if_splits option.splits)
    then show ?thesis
      using Some
      by (cases x) (simp add: send_goal_def jget_def member_if_def contract_value_def parseCompletionContract_def nullish_def
          contract_keys_def bool_member_def jkeys_def List.member_iff Let_def)
  qed
  with p goal show ?thesis by (simp add: bridgeCommandToHostMessage_def)
qed


text \<open>
  Where the two validations disagree.  A media type of more than 128 units, which the bridge
  allows, makes the host refuse the whole envelope; and a path of separators only is mapped to
  the empty path, which the host refuses.
\<close>

lemma long_mime_refused:
  "length (trim (arMime a)) > 128 \<Longrightarrow> parse_attachment (attachment_value a) = None"
  by (auto simp: parse_attachment_def attachment_value_def jget_def pendingString_def Let_def split: option.split)

lemma long_mime_accepted:
  "mime_ok (replicate 64 97 @ [47] @ replicate 64 97)" "length (replicate 64 97 @ [47 :: cunit] @ replicate 64 97) = 129"
proof -
  have "split_by (\<lambda>c. c = 47) (replicate 64 97 @ 47 # replicate 64 97) = [replicate 64 97, replicate 64 (97 :: cunit)]"
    by (simp add: split_by_append split_by_none)
  moreover have "replicate 64 97 = (97 :: cunit) # replicate 63 97"
    using replicate_Suc [of 63 "97 :: cunit"] by simp
  moreover have "mime_unit 97" "mime_start 97" by (simp_all add: mime_unit_def mime_start_def is_alpha_def)
  then have "mime_name (97 # replicate 63 97)"
    by (simp add: mime_name_def list_all_iff)
  ultimately show "mime_ok (replicate 64 97 @ [47] @ replicate 64 97)" by (simp only: mime_ok_def append_Cons append_Nil list.case)
qed simp

lemma separator_path_empty:
  assumes "\<not> isAbsolute env [92, 92]"
  shows "workspaceRelativePath env [92, 92] ws = Inr [] \<and> check_path (JStr []) = Inl ''attachment path is empty''"
proof -
  define s :: jsstr where "s = [92, 92]"
  have t: "trim s = s" "utf8_length s \<le> 4096" "\<not> list_ex is_control s" "\<not> drive_path s"
      "split_by is_slash s = [[], [], []]" "s \<noteq> []"
    unfolding s_def by code_simp+
  have "workspaceRelativePath env s ws = Inr []"
    using assms unfolding s_def [symmetric]
    by (simp add: workspaceRelativePath_def t cap_simps Let_def List.member_iff not_less)
  then show ?thesis by (simp add: s_def check_path_def trim_def)
qed

section \<open>The coordination board\<close>

text \<open>The gestures both validations accept.\<close>

definition host_read_range :: "int option \<Rightarrow> int option \<Rightarrow> bool" where
  "host_read_range since limit \<longleftrightarrow>
     pred_option (\<lambda>n. 0 < n \<and> n \<le> max_safe_integer) since \<and> pred_option (\<lambda>n. 1 \<le> n \<and> n \<le> 100) limit"

lemma parse_since_num:
  "parse_since (JNum (num_of_int n)) = Inr (Some n) \<longleftrightarrow> 0 < n \<and> n \<le> max_safe_integer"
  by (auto simp: parse_since_def nullish_def is_safe_integer_def)

lemma parse_limit_num: "parse_limit (JNum (num_of_int n)) = Inr (Some n) \<longleftrightarrow> 1 \<le> n \<and> n \<le> 100"
  by (auto simp: parse_limit_def nullish_def cap_simps)

lemma parse_since_JUndef: "parse_since JUndef = Inr None" "parse_limit JUndef = Inr None"
  by (simp_all add: parse_since_def parse_limit_def nullish_def)

lemma read_agreement:
  assumes "bridgeCommandToHostMessage (CBoardRead since limit) = Some m"
  shows "(parseBoardReadRequest (jget m (js ''since'')) (jget m (js ''limit'')) = Inr (since, limit))
      = host_read_range since limit"
proof -
  have g: "jget m (js ''since'') = (case since of None \<Rightarrow> JUndef | Some n \<Rightarrow> JNum (num_of_int n))"
      "jget m (js ''limit'') = (case limit of None \<Rightarrow> JUndef | Some n \<Rightarrow> JNum (num_of_int n))"
    using assms
    by (auto simp: bridgeCommandToHostMessage_def host_message_def opt_member_def jget_def split: option.splits)
  show ?thesis
    unfolding g parseBoardReadRequest_def host_read_range_def
    by (cases since; cases limit)
      (auto simp: parse_since_JUndef simp flip: parse_since_num parse_limit_num split: sum.splits)
qed

lemma post_agreement:
  assumes "command_ok (CBoardPost subject body refs)"
    and "bridgeCommandToHostMessage (CBoardPost subject body refs) = Some m"
  shows "(parseBoardPostRequest m = Inr \<lparr>brSubject = subject, brBody = b, brRefs = refs\<rparr>)
      = (body = Some b \<and> trim b \<noteq> [])"
proof -
  have g: "jget m (js ''subject'') = JStr subject"
      "jget m (js ''body'') = (case body of None \<Rightarrow> JUndef | Some c \<Rightarrow> JStr c)"
      "jget m (js ''refs'') = (if refs = [] then JUndef else JArr (map JStr refs))"
    using assms(2)
    by (auto simp: bridgeCommandToHostMessage_def host_message_def opt_member_def member_if_def jget_def
        split: option.splits if_splits)
  have "parse_ref_list (jget m (js ''refs'')) = Inr refs"
    using assms(1) parse_refs_accepts [of refs 0 "[]"]
    by (simp add: g parse_ref_list_def nullish_def cap_simps)
  then show ?thesis
    using assms(1) unfolding parseBoardPostRequest_def g(1,2)
    by (cases body) (auto simp: id_ok_def cap_simps Let_def Board.refuse_def)
qed

text \<open>
  The two board validations agree where both apply: a read the bridge accepts is passed
  on by the host with the same cursor and page size exactly when the cursor is positive
  and safe and the page size at most 100, and a post is accepted by the host unchanged
  exactly when it has a body that is not blank.
\<close>

theorem board_gesture_agreement:
  assumes "command_ok (CBoardRead since limit)" and "command_ok (CBoardPost subject body refs)"
  shows "\<exists>read post. bridgeCommandToHostMessage (CBoardRead since limit) = Some read
     \<and> bridgeCommandToHostMessage (CBoardPost subject body refs) = Some post
     \<and> (parseBoardReadRequest (jget read (js ''since'')) (jget read (js ''limit'')) = Inr (since, limit))
         = host_read_range since limit
     \<and> (\<forall>b. (parseBoardPostRequest post = Inr \<lparr>brSubject = subject, brBody = b, brRefs = refs\<rparr>)
         = (body = Some b \<and> trim b \<noteq> []))"
proof -
  obtain r p where r: "bridgeCommandToHostMessage (CBoardRead since limit) = Some r"
    and p: "bridgeCommandToHostMessage (CBoardPost subject body refs) = Some p"
    by (simp add: bridgeCommandToHostMessage_def host_message_def)
  show ?thesis
    using r p read_agreement [OF r] post_agreement [OF assms(2) p] by blast
qed

section \<open>Restoring a refused submission\<close>

definition undef_or :: "jsstr option \<Rightarrow> jsval" where
  "undef_or i = (case i of None \<Rightarrow> JUndef | Some s \<Rightarrow> JStr s)"

lemma jget_opt_member:
  "jget (opt_member k (map_option JStr i) @ ps) (js k') = (if k = k' \<and> i \<noteq> None then undef_or i else jget ps (js k'))"
  by (cases i) (auto simp: opt_member_def jget_def undef_or_def)

lemma jget_member_if: "jget (member_if b k v @ ps) (js k') = (if k = k' \<and> b then v else jget ps (js k'))"
  by (auto simp: member_if_def jget_def)

lemma jget_Cons: "jget ((k, v) # ps) k' = (if k = k' then v else jget ps k')"
  by (simp add: jget_def)

lemma jget_Nil: "jget [] k = JUndef"
  by (simp add: jget_def)

lemmas jget_members = jget_opt_member jget_member_if jget_Cons jget_Nil

text \<open>
  What the restore message gives back of the message the page had sent: the text, the
  identities (which the bridge trims) and the original list of files, each in the member it
  came in and absent when it was, with the bounded reason.
\<close>

definition gives_back :: "jsval props \<Rightarrow> jsstr \<Rightarrow> jsval props \<Rightarrow> bool" where
  "gives_back m error reply \<longleftrightarrow>
     jget reply (js ''type'') = JStr (js ''sendMessageFailed'')
     \<and> jget reply (js ''error'') = JStr (clip 2000 error)
     \<and> jget reply (js ''text'') = jget m (js ''text'')
     \<and> list_all (\<lambda>key. jget reply (js key) = (case jget m (js key) of JStr s \<Rightarrow> JStr (trim s) | _ \<Rightarrow> JUndef))
         [''sessionID'', ''draftID'', ''messageID'']
     \<and> jget reply (js ''files'') = (case jget m (js ''files'') of JArr (v # vs) \<Rightarrow> JArr (v # vs) | _ \<Rightarrow> JUndef)"

lemma failed_message_gets:
  "jget (sendMessageFailedMessage p err) (js ''type'') = JStr (js ''sendMessageFailed'')"
  "jget (sendMessageFailedMessage p err) (js ''error'') = JStr (clip 2000 err)"
  "jget (sendMessageFailedMessage p err) (js ''text'') = JStr (kpText p)"
  "jget (sendMessageFailedMessage p err) (js ''sessionID'') = undef_or (kpSessionId p)"
  "jget (sendMessageFailedMessage p err) (js ''draftID'') = undef_or (kpDraftId p)"
  "jget (sendMessageFailedMessage p err) (js ''messageID'') = undef_or (kpMessageId p)"
  "jget (sendMessageFailedMessage p err) (js ''files'') = (if kpFiles p = [] then JUndef else JArr (kpFiles p))"
proof -
  have e: "sendMessageFailedMessage p err =
     [(js ''type'', JStr (js ''sendMessageFailed'')), (js ''error'', JStr (clip 2000 err)), (js ''text'', JStr (kpText p))]
     @ opt_member ''sessionID'' (map_option JStr (kpSessionId p))
     @ opt_member ''draftID'' (map_option JStr (kpDraftId p))
     @ opt_member ''messageID'' (map_option JStr (kpMessageId p))
     @ member_if (length (kpFiles p) > 0) ''files'' (JArr (kpFiles p)) @ []"
    by (simp add: sendMessageFailedMessage_def)
  show
    "jget (sendMessageFailedMessage p err) (js ''type'') = JStr (js ''sendMessageFailed'')"
    "jget (sendMessageFailedMessage p err) (js ''error'') = JStr (clip 2000 err)"
    "jget (sendMessageFailedMessage p err) (js ''text'') = JStr (kpText p)"
    "jget (sendMessageFailedMessage p err) (js ''sessionID'') = undef_or (kpSessionId p)"
    "jget (sendMessageFailedMessage p err) (js ''draftID'') = undef_or (kpDraftId p)"
    "jget (sendMessageFailedMessage p err) (js ''messageID'') = undef_or (kpMessageId p)"
    "jget (sendMessageFailedMessage p err) (js ''files'') = (if kpFiles p = [] then JUndef else JArr (kpFiles p))"
    unfolding e append.simps jget_members by (auto simp: undef_or_def)
qed

lemma optional_id_text: "optional_id v name = Inr i \<Longrightarrow> undef_or i = (case v of JStr s \<Rightarrow> JStr (trim s) | _ \<Rightarrow> JUndef)"
  by (cases v) (auto simp: optional_id_def boundedString_def nullish_def undef_or_def Let_def
      split: if_split_asm option.split_asm)

lemma ingested_gives_back:
  assumes "ingest_send env ws m = Inr (CSendMessage c)"
  shows "gives_back m err (sendMessageFailedMessage (scPending c) err)"
proof -
  obtain body where body: "jget m (js ''text'') = JStr body"
    using assms by (cases "jget m (js ''text'')") (auto simp: ingest_send_def Let_def split: if_splits)
  with assms have k: "kpText (scPending c) = body"
      "optional_id (jget m (js ''sessionID'')) ''sendMessage.sessionID'' = Inr (kpSessionId (scPending c))"
      "optional_id (jget m (js ''messageID'')) ''sendMessage.messageID'' = Inr (kpMessageId (scPending c))"
      "optional_id (jget m (js ''draftID'')) ''sendMessage.draftID'' = Inr (kpDraftId (scPending c))"
      "kpFiles (scPending c) = array_items (jget m (js ''files''))"
    by (auto simp: ingest_send_def Let_def split: if_splits)
  show ?thesis
    using body k(1) optional_id_text [OF k(2)] optional_id_text [OF k(3)] optional_id_text [OF k(4)] k(5)
    by (auto simp: gives_back_def failed_message_gets array_items_def split: jsval.split list.split)
qed

section \<open>A concrete submission\<close>

definition demo_members :: "jsval props" where
  "demo_members = [(js ''type'', JStr (js ''sendMessage'')), (js ''text'', JStr (js ''fix it'')),
     (js ''messageID'', JStr (js ''m1'')),
     (js ''files'', JArr [JObj [(js ''url'', JStr (js ''data:text/plain,AB'')), (js ''filename'', JStr (js ''a.txt''))]])]"

definition demo_ref :: attachment_ref where
  "demo_ref = \<lparr>arRef = js ''faktor-attachment:sha256:2'', arMime = js ''text/plain'',
     arFilename = Some (js ''a.txt''), arBytes = 2, arDataBase64 = js ''QUI='', arIsImage = False\<rparr>"

definition demo_send :: send_command where
  "demo_send = \<lparr>scText = js ''fix it'', scSessionId = None,
     scPending = \<lparr>kpText = js ''fix it'', kpSessionId = None, kpDraftId = None, kpMessageId = Some (js ''m1''),
       kpFiles = array_items (jget demo_members (js ''files'')), kpAttachments = [demo_ref]\<rparr>,
     scFiles = [], scAttachments = [demo_ref], scRefused = [], scCompletion = None\<rparr>"

lemma demo_binary:
  "binaryAttachmentRef posix (js ''data:text/plain,AB'') JUndef (JStr (js ''a.txt'')) = Inr demo_ref"
proof -
  have d: "data_url (js ''data:text/plain,AB'') = Some (js ''text/plain'', js ''AB'')" by code_simp
  have m: "attachmentMime (JStr (hd (split_by (\<lambda>c. c = 59) (js ''text/plain'')))) (js ''application/octet-stream'')
      = js ''text/plain''" by code_simp
  have u: "attachmentMime JUndef (js ''application/octet-stream'') = js ''application/octet-stream''"
    by (simp add: attachmentMime_def)
  have p: "attachment_payload (js ''text/plain'') (js ''AB'') = Inr [65, 66]" by code_simp
  have b: "base64_encode [65, 66] = js ''QUI=''" by code_simp
  have n: "sanitizeFilename (JStr (js ''a.txt'')) = Some (js ''a.txt'')" by code_simp
  have h: "js ''faktor-attachment:sha256:'' @ decimal_nat (Suc (Suc 0)) = js ''faktor-attachment:sha256:2''"
    by code_simp
  have i: "starts_with (js ''image/'') (js ''text/plain'') = False" by code_simp
  show ?thesis
    unfolding binaryAttachmentRef_def d u option.case prod.case Let_def m p sum.case
    using b n h i by (simp add: demo_ref_def posix_def cap_simps)
qed

lemma demo_ingested: "ingestWebviewMessage posix (JObj demo_members) None = Accepted (CSendMessage demo_send)"
proof -
  have bytes: "serialized_bytes (JObj demo_members) \<le> 10485760"
    by (rule order_trans [OF serialized_bytes_le]) (simp add: demo_members_def)
  have t: "trim (js ''fix it'') = js ''fix it''" "trim (js ''m1'') = js ''m1''" by code_simp+
  have data: "is_data (Some (js ''data:text/plain,AB''))" by code_simp
  show ?thesis
    using bytes
    by (simp add: ingestWebviewMessage_def demo_members_def jget_Cons jget_Nil SUPPORTED_INBOUND_def List.member_iff
        cap_simps ingest_kind_def ingest_send_def isNonEmptyStructured_def nullish_def is_array_def Let_def t
        optional_id_def boundedString_def mapKiloFiles_def map_entry_def str_member_def data demo_binary
        add_binary_def demo_send_def array_items_def completionContractOf_def)
qed

lemma posix_slash: "slash_absolute posix"
  by (simp add: slash_absolute_def posix_def)

theorem envelope_survives_host_witness:
  "\<exists>goal. bridgeCommandToHostMessage (CSendMessage demo_send) = Some goal
     \<and> jget goal (js ''goal'') = JStr (js ''fix it'')
     \<and> parsePendingSubmission (jget goal (js ''pending'')) = Some (host_pending (scPending demo_send))"
  using envelope_survives_host [OF posix_slash demo_ingested]
  by (auto simp: demo_send_def demo_members_def jget_Cons array_items_def mime_fits_def demo_ref_def)

theorem ingest_accepts_checked_witness: "command_ok (CSendMessage demo_send)"
  using ingest_accepts_checked [OF demo_ingested] by blast

theorem board_gesture_agreement_witness:
  "parseBoardPostRequest [(js ''type'', JStr (js ''boardPost'')), (js ''subject'', JStr (js ''s'')),
     (js ''body'', JStr (js ''b''))] = Inr \<lparr>brSubject = js ''s'', brBody = js ''b'', brRefs = []\<rparr>"
proof -
  have "trim (js ''s'') = js ''s''" "trim (js ''b'') = js ''b''" "utf8_length (js ''s'') = 1" by code_simp+
  moreover have "utf8_length (js ''b'') \<le> 16384" by code_simp
  ultimately show ?thesis
    using board_gesture_agreement [of None None "js ''s''" "Some (js ''b'')" "[]"]
    by (auto simp: id_ok_def bridgeCommandToHostMessage_def host_message_def opt_member_def member_if_def)
qed

end
