(* ===== verification/Summaries.thy ===== *)
theory Summaries
  imports AgentSummary
begin

text \<open>
  The summaries of \<open>apps/vscode/src/state.ts\<close> that the host derives from the native
  responses and the views are drawn from: the task with its plan, budget and completion
  contract, the verification view and the usage.
\<close>

record task_plan_step =
  tpId :: jsstr
  tpSummary :: jsstr
  tpState :: jsstr
  tpDependsOn :: "jsstr list"

record budget_summary =
  bgMaxTokens :: "int option"
  bgSpentTokens :: "int option"
  bgMaxCostMicro :: "int option"
  bgSpentCostMicro :: int
  bgOpenReservedMicro :: int

record completion_step =
  csStep :: jsstr
  csStatus :: jsstr
  csDetail :: "jsstr option"

record completion_summary =
  cmCommit :: bool
  cmPush :: bool
  cmPr :: bool
  cmSteps :: "completion_step list"
  cmSource :: jsstr
  cmReason :: "jsstr option"

record task_summary =
  tsGoal :: jsstr
  tsState :: jsstr
  tsCompleted :: "jsstr list"
  tsOpen :: "jsstr list"
  tsTestsRun :: "jsstr list"
  tsTestsFailed :: "jsstr list"
  tsChangedFiles :: "jsstr list"
  tsBudget :: "budget_summary option"
  tsCriteria :: "jsstr list"
  tsPlan :: "task_plan_step list"
  tsBlockers :: "jsstr list"
  tsEvidenceRefs :: "jsstr list"
  tsPhase :: "jsstr option"
  tsProgress :: jsval
  tsCompletion :: "completion_summary option"

record owed_entry =
  owOpId :: jsstr
  owTool :: jsstr
  owStatus :: jsstr
  owEffect :: "jsstr option"

record verification_summary =
  vsOwed :: "owed_entry list"
  vsFailedChecks :: "(jsstr \<times> jsstr) list"

record usage_summary =
  usTokens :: int
  usSpentMicro :: int
  usMaxMicro :: "int option"
  usOpenMicro :: int
  usTruncated :: bool

end
