(* ===== verification/Cockpit.thy ===== *)
theory Cockpit
  imports Summaries
begin

text \<open>
  The task cockpit of \<open>apps/vscode/src/cockpit.ts\<close>: the tournament projection, the phase,
  the blockers and the evidence references read from free-form records, the cockpit view
  assembled from the summaries the host holds, and the sections rendered from the view.
  Counts are \<open>nat\<close>; a reference id is the number \<open>Number(digits)\<close> gives.
\<close>

section \<open>Data\<close>

record evidence_ref =
  erId :: "jsnum option"
  erLabel :: jsstr

record step_view =
  svId :: jsstr
  svSummary :: jsstr
  svStatus :: jsstr
  svDependsOn :: "jsstr list"
  svChildIds :: "jsstr list"

record child_view =
  cvChildId :: jsstr
  cvState :: jsstr
  cvItemId :: "jsstr option"
  cvItemKind :: "jsstr option"
  cvWorktreeId :: "int option"
  cvOwnership :: jsstr
  cvModel :: "jsstr option"
  cvProvider :: "jsstr option"
  cvReasoning :: "bool option"
  cvThinking :: "bool option"
  cvBudget :: "int option"
  cvProgress :: "jsstr option"
  cvResult :: "jsstr option"
  cvPresentation :: presentation

record verification_view =
  vvStatus :: jsstr
  vvPassed :: nat
  vvTotal :: nat
  vvChecksFailed :: nat
  vvOwed :: nat
  vvFailedChecks :: nat

record spend_view =
  spSpentTokens :: "int option"
  spMaxTokens :: "int option"
  spSpentCost :: int
  spMaxCost :: "int option"
  spOpenReserved :: int

record candidate_row =
  crChildId :: jsstr
  crState :: jsstr
  crVerification :: "int option"
  crVerificationPass :: "bool option"
  crReviewRank :: "jsstr option"
  crReviewer :: "jsstr option"
  crCostMicro :: int
  crWallMs :: int

record candidate_view =
  cdRow :: candidate_row
  cdWinner :: bool

record native_tournament =
  ntId :: jsstr
  ntState :: jsstr
  ntWinner :: "jsstr option"
  ntCriteria :: "(jsstr \<times> jsstr) list"
  ntCandidates :: "candidate_row list"

record tournament_view =
  tvId :: jsstr
  tvState :: jsstr
  tvOpen :: bool
  tvCanDecide :: bool
  tvWinner :: "jsstr option"
  tvCriteria :: "jsstr list"
  tvCandidates :: "candidate_view list"

record criterion_record =
  kcKey :: jsstr
  kcPassed :: bool
  kcEvidence :: "jsstr option"

record check_record =
  ckCheck :: jsstr
  ckStatus :: jsstr
  ckRequired :: bool

record verification_record =
  vrStatus :: jsstr
  vrCriteria :: "criterion_record list"
  vrChecks :: "check_record list"

record cockpit_input =
  ciTask :: "task_summary option"
  ciAgents :: "agent_summary list"
  ciVerification :: "verification_summary option"
  ciUsage :: "usage_summary option"
  ciRecords :: "verification_record list option"
  ciTournament :: "tournament_view option"

record cockpit_view =
  cpGoal :: jsstr
  cpState :: jsstr
  cpPhase :: jsstr
  cpCriteria :: "jsstr list"
  cpSteps :: "step_view list"
  cpChildren :: "child_view list"
  cpBlockers :: "jsstr list"
  cpVerification :: verification_view
  cpEvidence :: "evidence_ref list"
  cpSpend :: "spend_view option"
  cpTournament :: "tournament_view option"
  cpCompletion :: "completion_summary option"

record cockpit_action =
  caKey :: jsstr
  caLabel :: jsstr
  caEnabled :: bool

record cockpit_section =
  ckKey :: jsstr
  ckTitle :: jsstr
  ckPresent :: bool
  ckLines :: "jsstr list"
  ckEvidence :: "evidence_ref list"
  ckActions :: "cockpit_action list option"

definition MAX_LINES :: nat where [cap_simps]: "MAX_LINES = 64"
definition MAX_TEXT :: nat where [cap_simps]: "MAX_TEXT = 240"

section \<open>The tournament\<close>

definition candidate_of :: "jsstr option \<Rightarrow> candidate_row \<Rightarrow> candidate_view" where
  "candidate_of winner candidate =
     \<lparr>cdRow = candidate, cdWinner = (winner \<noteq> None \<and> Some (crChildId candidate) = winner)\<rparr>"

definition tournamentViewOf :: "native_tournament option \<Rightarrow> tournament_view option" where
  "tournamentViewOf tournament =
     (case tournament of
        None \<Rightarrow> None
      | Some t \<Rightarrow>
          (let is_open = (ntState t = js ''open'' \<or> ntState t = js ''deciding'');
               candidates = map (candidate_of (ntWinner t)) (ntCandidates t)
           in Some \<lparr>tvId = ntId t, tvState = ntState t, tvOpen = is_open,
                tvCanDecide = (is_open \<and> length candidates > 0
                  \<and> list_all (\<lambda>c. crState (cdRow c) \<noteq> js ''running'') candidates),
                tvWinner = ntWinner t, tvCriteria = map snd (ntCriteria t),
                tvCandidates = candidates\<rparr>))"

section \<open>Free-form records\<close>

definition clamp :: "jsstr \<Rightarrow> jsstr" where
  "clamp v = (if length v > MAX_TEXT then take MAX_TEXT v @ ellipsis else v)"

definition textOf :: "jsval \<Rightarrow> jsstr option" where
  "textOf v =
     (case v of JStr s \<Rightarrow> if length (trim s) > 0 then Some (clamp (trim s)) else None | _ \<Rightarrow> None)"

text \<open>The first key whose value gives a text.\<close>

fun first_text :: "jsval props \<Rightarrow> jsstr list \<Rightarrow> jsstr option" where
  "first_text record [] = None"
| "first_text record (key # keys) =
     (case textOf (jget record key) of Some t \<Rightarrow> Some t | None \<Rightarrow> first_text record keys)"

definition phaseOf :: "jsval \<Rightarrow> jsstr option" where
  "phaseOf progress =
     (case progress of
        JObj record \<Rightarrow>
          first_text record (map js [''phase'', ''stage'', ''current_phase'', ''currentPhase'', ''label''])
      | _ \<Rightarrow> None)"

definition blocker_entry :: "jsval \<Rightarrow> jsstr option" where
  "blocker_entry entry =
     (case entry of
        JStr _ \<Rightarrow> textOf entry
      | JObj object \<Rightarrow> first_text object (map js [''detail'', ''message'', ''summary'', ''id''])
      | _ \<Rightarrow> None)"

fun first_blockers :: "jsval props \<Rightarrow> jsstr list \<Rightarrow> jsstr list" where
  "first_blockers record [] = []"
| "first_blockers record (key # keys) =
     (case jget record key of
        JStr s \<Rightarrow> if length (trim s) > 0 then [clamp (trim s)] else first_blockers record keys
      | JArr entries \<Rightarrow> take MAX_LINES (List.map_filter blocker_entry entries)
      | _ \<Rightarrow> first_blockers record keys)"

definition blockersOf :: "jsval \<Rightarrow> jsstr list" where
  "blockersOf progress =
     (case progress of
        JObj record \<Rightarrow>
          first_blockers record (map js [''blockers'', ''blocked_on'', ''blockedOn'', ''blocker''])
      | _ \<Rightarrow> [])"

text \<open>
  \<open>/(?:^|[^\w])evidence[:#/](\d+)(?![\d])/\<close>: the digits after the first word \<open>evidence\<close>
  that starts the text or follows a non-word unit and is followed by a separator and a
  digit.  \<open>boundary\<close> tells whether the word may start here.
\<close>

definition word_unit :: "cunit \<Rightarrow> bool" where
  "word_unit c \<longleftrightarrow> 65 \<le> c \<and> c \<le> 90 \<or> 97 \<le> c \<and> c \<le> 122 \<or> is_digit c \<or> c = 95"

definition evidence_here :: "jsstr \<Rightarrow> jsstr option" where
  "evidence_here s =
     (if starts_with (js ''evidence'') s
      then (case drop 8 s of
          c # rest \<Rightarrow>
            if (c = 58 \<or> c = 35 \<or> c = 47) \<and> takeWhile is_digit rest \<noteq> []
            then Some (takeWhile is_digit rest) else None
        | [] \<Rightarrow> None)
      else None)"

fun evidence_digits :: "bool \<Rightarrow> jsstr \<Rightarrow> jsstr option" where
  "evidence_digits boundary [] = None"
| "evidence_digits boundary (c # cs) =
     (case (if boundary then evidence_here (c # cs) else None) of
        Some ds \<Rightarrow> Some ds
      | None \<Rightarrow> evidence_digits (\<not> word_unit c) cs)"

definition evidenceRefOf :: "jsstr \<Rightarrow> evidence_ref" where
  "evidenceRefOf raw =
     \<lparr>erId = map_option number_of_string (evidence_digits True raw), erLabel = clamp raw\<rparr>"

definition boundedJson :: "jsval \<Rightarrow> jsstr option" where
  "boundedJson v = (if nullish v then None else map_option clamp (stringify v))"

section \<open>The view\<close>

definition cockpit_children :: "agent_summary list \<Rightarrow> agent_summary list" where
  "cockpit_children agents =
     (let allChildren = filter (\<lambda>a. asKind a = js ''child'') agents
      in filter (\<lambda>c. asPresentation c \<noteq> Background) allChildren
         @ filter (\<lambda>c. asPresentation c = Background) allChildren)"

definition or_empty :: "'a list option \<Rightarrow> 'a list" where
  "or_empty xs = (case xs of Some ys \<Rightarrow> ys | None \<Rightarrow> [])"

definition child_ids :: "agent_summary list \<Rightarrow> jsstr \<Rightarrow> jsstr list" where
  "child_ids children i = map asAgentId (filter (\<lambda>c. asItemId c = Some i) children)"

definition plan_steps :: "agent_summary list \<Rightarrow> task_plan_step list \<Rightarrow> step_view list" where
  "plan_steps children plan =
     map (\<lambda>step. \<lparr>svId = tpId step, svSummary = tpSummary step, svStatus = tpState step,
       svDependsOn = tpDependsOn step, svChildIds = child_ids children (tpId step)\<rparr>) plan"

text \<open>A milestone that is not a planned step becomes a step of its own.\<close>

definition milestone_steps ::
  "agent_summary list \<Rightarrow> jsstr list \<Rightarrow> string \<Rightarrow> jsstr list \<Rightarrow> step_view list" where
  "milestone_steps children planned status milestones =
     map (\<lambda>m. \<lparr>svId = m, svSummary = m, svStatus = js status, svDependsOn = [],
       svChildIds = child_ids children m\<rparr>)
       (filter (\<lambda>m. \<not> List.member planned m) milestones)"

definition cockpit_steps :: "agent_summary list \<Rightarrow> task_summary option \<Rightarrow> step_view list" where
  "cockpit_steps children task =
     (let steps = plan_steps children (or_empty (map_option tsPlan task));
          planned = map svId steps
      in steps @ milestone_steps children planned ''done'' (or_empty (map_option tsCompleted task))
         @ milestone_steps children planned ''open'' (or_empty (map_option tsOpen task)))"

definition child_blocker :: "agent_summary \<Rightarrow> jsstr option" where
  "child_blocker child =
     (if to_lower (trim (asState child)) = js ''blocked''
      then Some (js ''child '' @ asAgentId child @ js '' is blocked on ''
        @ (case asItemId child of Some i \<Rightarrow> i | None \<Rightarrow> js ''its work item''))
      else None)"

definition cockpit_blockers :: "agent_summary list \<Rightarrow> task_summary option \<Rightarrow> jsstr list" where
  "cockpit_blockers children task =
     map clamp (or_empty (map_option tsBlockers task))
     @ (case task of Some t \<Rightarrow> blockersOf (tsProgress t) | None \<Rightarrow> [])
     @ List.map_filter child_blocker children"

definition cockpit_criteria :: "task_summary option \<Rightarrow> verification_record list \<Rightarrow> jsstr list" where
  "cockpit_criteria task records =
     (let explicitCriteria = filter (\<lambda>e. length (trim e) > 0) (or_empty (map_option tsCriteria task));
          recordCriteria = concat (map (\<lambda>r. map kcKey (vrCriteria r)) records)
      in take MAX_LINES (if length explicitCriteria > 0 then explicitCriteria else recordCriteria))"

text \<open>The loop over the records: the last status and the three counters.\<close>

definition count_record ::
  "jsstr option \<times> nat \<times> nat \<times> nat \<Rightarrow> verification_record \<Rightarrow> jsstr option \<times> nat \<times> nat \<times> nat" where
  "count_record acc record =
     (case acc of (_, passed, tot, failed) \<Rightarrow>
        (Some (vrStatus record),
         passed + length (filter kcPassed (vrCriteria record)), tot + length (vrCriteria record),
         failed + length (filter (\<lambda>c. to_lower (ckStatus c) = js ''failed'') (vrChecks record))))"

definition cockpit_verification ::
  "task_summary option \<Rightarrow> verification_summary option \<Rightarrow> verification_record list \<Rightarrow> verification_view" where
  "cockpit_verification task verification records =
     (case foldl count_record (None, 0, 0, 0) records of (recordStatus, passed, tot, failed) \<Rightarrow>
        (let owed = length (or_empty (map_option vsOwed verification));
             failedChecks = length (or_empty (map_option vsFailedChecks verification))
         in \<lparr>vvStatus =
               (case recordStatus of
                  Some s \<Rightarrow> s
                | None \<Rightarrow>
                    if tot > 0 \<and> passed = tot then js ''passed''
                    else if failedChecks > 0 \<or> failed > 0 then js ''failed''
                    else if owed > 0 then js ''pending''
                    else (case task of Some t \<Rightarrow> tsState t | None \<Rightarrow> js ''unknown'')),
             vvPassed = passed, vvTotal = tot, vvChecksFailed = failed, vvOwed = owed,
             vvFailedChecks = failedChecks\<rparr>))"

definition ref_key :: "evidence_ref \<Rightarrow> jsstr" where
  "ref_key ref =
     (case erId ref of Some n \<Rightarrow> number_string n | None \<Rightarrow> js ''text'') @ [58] @ erLabel ref"

text \<open>\<open>pushEvidence\<close>: the seen keys and the references so far.\<close>

definition push_evidence ::
  "jsstr list \<times> evidence_ref list \<Rightarrow> jsstr option \<Rightarrow> jsstr list \<times> evidence_ref list" where
  "push_evidence acc raw =
     (case (acc, raw) of
        ((seen, evidence), Some s) \<Rightarrow>
          (let ref = evidenceRefOf (trim s)
           in if length (trim s) = 0 then acc
              else if \<not> List.member seen (ref_key ref) \<and> length evidence < MAX_LINES
                then (ref_key ref # seen, evidence @ [ref]) else acc)
      | (_, None) \<Rightarrow> acc)"

definition cockpit_evidence ::
  "task_summary option \<Rightarrow> verification_record list \<Rightarrow> evidence_ref list" where
  "cockpit_evidence task records =
     snd (foldl push_evidence ([], [])
       (concat (map (\<lambda>r. map kcEvidence (vrCriteria r)) records)
        @ map Some (or_empty (map_option tsEvidenceRefs task))))"

definition cockpit_spend :: "task_summary option \<Rightarrow> usage_summary option \<Rightarrow> spend_view option" where
  "cockpit_spend task usage =
     (let budget = (case task of Some t \<Rightarrow> tsBudget t | None \<Rightarrow> None)
      in case usage of
           Some u \<Rightarrow>
             Some \<lparr>spSpentTokens = Some (usTokens u),
               spMaxTokens = (case budget of Some b \<Rightarrow> bgMaxTokens b | None \<Rightarrow> None),
               spSpentCost = usSpentMicro u, spMaxCost = usMaxMicro u, spOpenReserved = usOpenMicro u\<rparr>
         | None \<Rightarrow>
             map_option (\<lambda>b. \<lparr>spSpentTokens = bgSpentTokens b, spMaxTokens = bgMaxTokens b,
               spSpentCost = bgSpentCostMicro b, spMaxCost = bgMaxCostMicro b,
               spOpenReserved = bgOpenReservedMicro b\<rparr>) budget)"

definition child_view_of :: "agent_summary \<Rightarrow> child_view" where
  "child_view_of child =
     \<lparr>cvChildId = asAgentId child, cvState = asState child, cvItemId = asItemId child,
      cvItemKind = asItemKind child, cvWorktreeId = asWorktreeId child, cvOwnership = asOwnership child,
      cvModel = asModel child, cvProvider = asProvider child, cvReasoning = asReasoning child,
      cvThinking = asThinking child, cvBudget = asBudget child,
      cvProgress = boundedJson (asProgress child), cvResult = boundedJson (asResult child),
      cvPresentation = (if asPresentation child = Background then Background else Foreground)\<rparr>"

definition cockpit_phase :: "task_summary option \<Rightarrow> jsstr" where
  "cockpit_phase task =
     (case task of
        None \<Rightarrow> js ''unknown''
      | Some t \<Rightarrow>
          (case tsPhase t of
             Some p \<Rightarrow> p
           | None \<Rightarrow> (case phaseOf (tsProgress t) of Some p \<Rightarrow> p | None \<Rightarrow> tsState t)))"

definition buildCockpit :: "cockpit_input \<Rightarrow> cockpit_view option" where
  "buildCockpit input =
     (let task = ciTask input; children = cockpit_children (ciAgents input);
          records = or_empty (ciRecords input)
      in if task = None \<and> length children = 0 \<and> ciVerification input = None \<and> ciTournament input = None
         then None
         else Some
           \<lparr>cpGoal = (case task of Some t \<Rightarrow> tsGoal t
                | None \<Rightarrow> (case children of c # _ \<Rightarrow> asGoal c | [] \<Rightarrow> [])),
            cpState = (case task of Some t \<Rightarrow> tsState t | None \<Rightarrow> js ''unknown''),
            cpPhase = cockpit_phase task, cpCriteria = cockpit_criteria task records,
            cpSteps = cockpit_steps children task, cpChildren = map child_view_of children,
            cpBlockers = cockpit_blockers children task,
            cpVerification = cockpit_verification task (ciVerification input) records,
            cpEvidence = cockpit_evidence task records, cpSpend = cockpit_spend task (ciUsage input),
            cpTournament = ciTournament input,
            cpCompletion = (case task of Some t \<Rightarrow> tsCompletion t | None \<Rightarrow> None)\<rparr>)"

section \<open>The sections\<close>

definition bullet :: jsstr where "bullet = [0x2022, 32]"
definition arrow :: jsstr where "arrow = [32, 0x2192, 32]"
definition dash :: jsstr where "dash = [0x2014]"
definition spaced_dash :: jsstr where "spaced_dash = [32, 0x2014, 32]"
definition middle_dot :: jsstr where "middle_dot = [32, 0xB7, 32]"

text \<open>\<open>lines.length > 0 ? lines : ['none']\<close>\<close>

definition or_none :: "jsstr list \<Rightarrow> jsstr list" where
  "or_none ls = (if length ls > 0 then ls else [js ''none''])"

definition plain_section :: "string \<Rightarrow> string \<Rightarrow> bool \<Rightarrow> jsstr list \<Rightarrow> cockpit_section" where
  "plain_section key title present ls =
     \<lparr>ckKey = js key, ckTitle = js title, ckPresent = present, ckLines = ls, ckEvidence = [], ckActions = None\<rparr>"

definition step_line :: "step_view \<Rightarrow> jsstr" where
  "step_line step =
     [91] @ svStatus step @ js ''] '' @ svId step @ js '': '' @ svSummary step
     @ (if length (svDependsOn step) > 0
        then js '' (after '' @ join (js '', '') (svDependsOn step) @ js '')'' else [])
     @ (if length (svChildIds step) > 0 then arrow @ join (js '', '') (svChildIds step) else [])"

definition completion_line :: "completion_step \<Rightarrow> jsstr" where
  "completion_line step =
     [91] @ csStatus step @ js ''] '' @ csStep step
     @ (case csDetail step of
          Some d \<Rightarrow> if length d > 0 then spaced_dash @ d else [] | None \<Rightarrow> [])"

definition or_text :: "jsstr \<Rightarrow> jsstr \<Rightarrow> jsstr" where
  "or_text s t = (if length s > 0 then s else t)"

definition completion_lines :: "completion_summary option \<Rightarrow> jsstr list" where
  "completion_lines completion =
     (case completion of
        None \<Rightarrow> [js ''none (plain task; no conditional commit/push/PR steps)'']
      | Some c \<Rightarrow>
          [js ''requested: ''
             @ or_text (join (js '', '')
                 ((if cmCommit c then [js ''commit''] else []) @ (if cmPush c then [js ''push''] else [])
                  @ (if cmPr c then [js ''pr''] else []))) (js ''none'')]
          @ map completion_line (cmSteps c)
          @ [js ''status source: '' @ cmSource c
             @ (case cmReason c of Some r \<Rightarrow> js '' ('' @ r @ js '')'' | None \<Rightarrow> [])])"

text \<open>A text that counts in a condition: present and not empty.\<close>

definition truthy :: "jsstr option \<Rightarrow> bool" where
  "truthy s = (case s of Some t \<Rightarrow> length t > 0 | None \<Rightarrow> False)"

definition labelled :: "string \<Rightarrow> jsstr option \<Rightarrow> jsstr list" where
  "labelled label v = (if truthy v then [js label @ the v] else [])"

definition yes_no :: "string \<Rightarrow> bool option \<Rightarrow> jsstr list" where
  "yes_no label v =
     (case v of Some b \<Rightarrow> [js label @ (if b then js ''yes'' else js ''no'')] | None \<Rightarrow> [])"

definition child_line :: "child_view \<Rightarrow> jsstr" where
  "child_line child =
     join middle_dot
       ([cvChildId child @ js '' ['' @ cvState child @ js '']'']
        @ (if cvPresentation child = Background then [js ''background (dimmed)''] else [])
        @ (if truthy (cvItemId child)
           then [js ''item '' @ the (cvItemId child)
             @ (if truthy (cvItemKind child) then js '' ('' @ the (cvItemKind child) @ js '')'' else [])]
           else [])
        @ (case cvWorktreeId child of Some w \<Rightarrow> [js ''worktree '' @ int_string w] | None \<Rightarrow> [])
        @ [js ''ownership '' @ cvOwnership child]
        @ labelled ''model '' (cvModel child) @ labelled ''provider '' (cvProvider child)
        @ yes_no ''reasoning '' (cvReasoning child) @ yes_no ''thinking '' (cvThinking child)
        @ (case cvBudget child of Some b \<Rightarrow> [js ''budget '' @ int_string b] | None \<Rightarrow> []))"

definition candidate_line :: "candidate_view \<Rightarrow> jsstr" where
  "candidate_line candidate =
     (let row = cdRow candidate;
          verdict = (if crVerification row = None then js ''unverified''
            else if crVerificationPass row = Some True then js ''pass'' else js ''fail'');
          review = (case crReviewRank row of
              None \<Rightarrow> js ''no review''
            | Some rank \<Rightarrow> rank @ (case crReviewer row of
                Some r \<Rightarrow> js '' ('' @ r @ js '')'' | None \<Rightarrow> []))
      in (if cdWinner candidate then js ''* '' else []) @ crChildId row @ js '' ['' @ crState row @ js ''] ''
         @ verdict @ js '' '' @ review @ js '' cost '' @ int_string (crCostMicro row)
         @ js '' wall '' @ int_string (crWallMs row) @ js ''ms'')"

definition tournament_lines :: "tournament_view option \<Rightarrow> jsstr list" where
  "tournament_lines tournament =
     (case tournament of
        None \<Rightarrow> [js ''none'']
      | Some t \<Rightarrow>
          [js ''tournament '' @ tvId t @ js '' ['' @ tvState t @ js ''] winner ''
             @ (case tvWinner t of Some w \<Rightarrow> w | None \<Rightarrow> dash),
           js ''criteria '' @ decimal_nat (length (tvCriteria t)) @ js '': ''
             @ or_text (join (js ''; '') (tvCriteria t)) dash]
          @ map candidate_line (tvCandidates t))"

definition tournament_actions :: "tournament_view option \<Rightarrow> cockpit_action list" where
  "tournament_actions tournament =
     (case tournament of
        None \<Rightarrow> []
      | Some t \<Rightarrow>
          [\<lparr>caKey = js ''decide'', caLabel = js ''Decide winner'', caEnabled = tvCanDecide t\<rparr>,
           \<lparr>caKey = js ''abort'', caLabel = js ''Abort'', caEnabled = tvOpen t\<rparr>])"

definition verification_lines :: "verification_view \<Rightarrow> jsstr list" where
  "verification_lines v =
     [js ''status '' @ vvStatus v,
      js ''criteria '' @ decimal_nat (vvPassed v) @ [47] @ decimal_nat (vvTotal v) @ js '' passed'',
      js ''checks failed '' @ decimal_nat (vvChecksFailed v),
      js ''owed '' @ decimal_nat (vvOwed v) @ middle_dot @ js ''failed checks '' @ decimal_nat (vvFailedChecks v)]"

text \<open>\<open>Number.prototype.toFixed\<close>: the nearest multiple of \<open>10 ^ (- f)\<close>, ties upwards.\<close>

definition fixed_digits :: "nat \<Rightarrow> rat \<Rightarrow> jsstr" where
  "fixed_digits f q =
     (let ds = decimal \<lfloor>q * 10 ^ f + 1 / 2\<rfloor>; padded = replicate (Suc f - length ds) 48 @ ds;
          whole = length padded - f
      in take whole padded @ [46] @ drop whole padded)"

definition to_fixed :: "nat \<Rightarrow> jsnum \<Rightarrow> jsstr" where
  "to_fixed f x =
     (case x of
        Fin q \<Rightarrow>
          if \<bar>q\<bar> \<ge> 10 ^ 21 then number_string x
          else if q < 0 then 45 # fixed_digits f (- q) else fixed_digits f q
      | _ \<Rightarrow> number_string x)"

definition micro_text :: "int \<Rightarrow> jsstr" where
  "micro_text micro = to_fixed 4 (round_double (of_int micro / 1000000))"

definition spend_lines :: "spend_view option \<Rightarrow> jsstr list" where
  "spend_lines spend =
     (case spend of
        None \<Rightarrow> [js ''none'']
      | Some s \<Rightarrow>
          [js ''tokens '' @ (case spSpentTokens s of Some n \<Rightarrow> int_string n | None \<Rightarrow> dash)
             @ (case spMaxTokens s of Some n \<Rightarrow> js '' / '' @ int_string n | None \<Rightarrow> []),
           js ''cost '' @ micro_text (spSpentCost s)
             @ (case spMaxCost s of Some n \<Rightarrow> js '' / '' @ micro_text n | None \<Rightarrow> []),
           js ''reserved '' @ micro_text (spOpenReserved s)])"

definition cockpitSections :: "cockpit_view \<Rightarrow> cockpit_section list" where
  "cockpitSections view =
     [plain_section ''acceptance'' ''Acceptance criteria'' (length (cpCriteria view) > 0)
        (or_none (map (\<lambda>c. bullet @ c) (cpCriteria view))),
      plain_section ''plan'' ''Plan / DAG steps'' (length (cpSteps view) > 0)
        (or_none (map step_line (cpSteps view))),
      plain_section ''completion'' ''Completion contract'' (cpCompletion view \<noteq> None)
        (completion_lines (cpCompletion view)),
      plain_section ''children'' ''Children'' (length (cpChildren view) > 0)
        (or_none (map child_line (cpChildren view))),
      (plain_section ''tournament'' ''Tournament'' (cpTournament view \<noteq> None)
        (tournament_lines (cpTournament view)))\<lparr>ckActions := Some (tournament_actions (cpTournament view))\<rparr>,
      plain_section ''phase'' ''Current phase''
        (length (cpPhase view) > 0 \<and> cpPhase view \<noteq> js ''unknown'')
        [cpPhase view @ spaced_dash @ cpState view],
      plain_section ''blockers'' ''Blockers'' (length (cpBlockers view) > 0)
        (or_none (map (\<lambda>b. js ''! '' @ b) (cpBlockers view))),
      plain_section ''verification'' ''Verification'' True (verification_lines (cpVerification view)),
      (plain_section ''evidence'' ''Evidence'' (length (cpEvidence view) > 0)
        (or_none (map erLabel (cpEvidence view))))\<lparr>ckEvidence := cpEvidence view\<rparr>,
      plain_section ''spend'' ''Spend'' (cpSpend view \<noteq> None) (spend_lines (cpSpend view))]"

section \<open>Facts on the view\<close>

lemma length_clamp: "length (clamp s) \<le> 241"
  by (simp add: clamp_def cap_simps)

lemma textOf_bounded: "textOf v = Some t \<Longrightarrow> t \<noteq> [] \<and> length t \<le> 241"
  using length_clamp by (auto simp: textOf_def clamp_def cap_simps split: jsval.splits if_splits)

text \<open>Evidence: every pushed key is seen, and the references have distinct keys.\<close>

definition evidence_inv :: "jsstr list \<times> evidence_ref list \<Rightarrow> bool" where
  "evidence_inv acc \<longleftrightarrow>
     set (fst acc) = ref_key ` set (snd acc) \<and> distinct (map ref_key (snd acc)) \<and> length (snd acc) \<le> 64"

lemma push_evidence_inv: "evidence_inv acc \<Longrightarrow> evidence_inv (push_evidence acc raw)"
  by (cases acc; cases raw)
    (auto simp: push_evidence_def evidence_inv_def Let_def List.member_iff cap_simps)

interpretation evidence: preserving push_evidence evidence_inv
  by unfold_locales (rule push_evidence_inv)

lemma push_evidence_from:
  "set (snd (foldl push_evidence acc raws)) \<subseteq>
     set (snd acc) \<union> (\<lambda>s. evidenceRefOf (trim s)) ` {s. Some s \<in> set raws \<and> trim s \<noteq> []}"
proof (induction raws arbitrary: acc)
  case (Cons raw raws)
  have "set (snd (push_evidence acc raw)) \<subseteq>
      set (snd acc) \<union> (\<lambda>s. evidenceRefOf (trim s)) ` {s. raw = Some s \<and> trim s \<noteq> []}"
    by (cases acc; cases raw) (auto simp: push_evidence_def Let_def)
  with Cons.IH [of "push_evidence acc raw"] show ?case by (simp, blast)
qed simp

lemma push_evidence_seen: "set (fst acc) \<subseteq> set (fst (foldl push_evidence acc raws))"
proof (induction raws arbitrary: acc)
  case (Cons raw raws)
  have "set (fst acc) \<subseteq> set (fst (push_evidence acc raw))"
    by (cases acc; cases raw) (auto simp: push_evidence_def Let_def)
  with Cons.IH [of "push_evidence acc raw"] show ?case by auto
qed simp

lemma push_evidence_grows: "length (snd acc) \<le> length (snd (foldl push_evidence acc raws))"
proof (induction raws arbitrary: acc)
  case (Cons raw raws)
  have "length (snd acc) \<le> length (snd (push_evidence acc raw))"
    by (cases acc; cases raw) (auto simp: push_evidence_def Let_def)
  with Cons.IH [of "push_evidence acc raw"] show ?case by auto
qed simp

text \<open>While the list is not full, every reference that is not blank is shown.\<close>

lemma push_evidence_complete:
  assumes "Some s \<in> set raws" and "trim s \<noteq> []" and "length (snd (foldl push_evidence acc raws)) < 64"
  shows "ref_key (evidenceRefOf (trim s)) \<in> set (fst (foldl push_evidence acc raws))"
  using assms
proof (induction raws arbitrary: acc)
  case (Cons raw raws)
  have len: "length (snd (push_evidence acc raw)) < 64"
    using push_evidence_grows [of "push_evidence acc raw" raws] Cons.prems(3) by simp
  show ?case
  proof (cases "raw = Some s")
    case True
    have "length (snd acc) < 64"
      using len by (cases acc; cases raw) (auto simp: push_evidence_def Let_def split: if_splits)
    then have "ref_key (evidenceRefOf (trim s)) \<in> set (fst (push_evidence acc raw))"
      using True Cons.prems(2) by (cases acc) (auto simp: push_evidence_def Let_def List.member_iff cap_simps)
    with push_evidence_seen [of "push_evidence acc raw" raws] show ?thesis by auto
  next
    case False
    with Cons show ?thesis by simp
  qed
qed simp

definition evidence_inputs :: "cockpit_input \<Rightarrow> jsstr option list" where
  "evidence_inputs input =
     concat (map (\<lambda>r. map kcEvidence (vrCriteria r)) (or_empty (ciRecords input)))
     @ map Some (or_empty (map_option tsEvidenceRefs (ciTask input)))"

text \<open>
  The cockpit invents no evidence and hides none silently: its references have distinct
  keys, are at most 64, each one is the reading of a reference the task or a
  verification criterion carries, and while there are fewer than 64 every reference that
  is not blank is shown.
\<close>

theorem cockpit_evidence_faithful:
  assumes "buildCockpit input = Some view"
  shows "distinct (map ref_key (cpEvidence view)) \<and> length (cpEvidence view) \<le> 64
     \<and> (\<forall>ref \<in> set (cpEvidence view). \<exists>s. Some s \<in> set (evidence_inputs input) \<and> ref = evidenceRefOf (trim s))
     \<and> (length (cpEvidence view) < 64 \<longrightarrow>
          (\<forall>s. Some s \<in> set (evidence_inputs input) \<and> trim s \<noteq> [] \<longrightarrow>
             ref_key (evidenceRefOf (trim s)) \<in> ref_key ` set (cpEvidence view)))"
proof -
  let ?acc = "foldl push_evidence ([], []) (evidence_inputs input)"
  have v: "cpEvidence view = snd ?acc"
    using assms by (auto simp: buildCockpit_def Let_def cockpit_evidence_def evidence_inputs_def split: if_splits)
  have inv: "evidence_inv ?acc" by (rule evidence.run_inv) (simp add: evidence_inv_def)
  show ?thesis
    using inv push_evidence_from [of "([], [])" "evidence_inputs input"]
      push_evidence_complete [of _ "evidence_inputs input" "([], [])"]
    unfolding v evidence_inv_def by auto
qed

definition demo_task :: task_summary where
  "demo_task = \<lparr>tsGoal = js ''g'', tsState = js ''running'', tsCompleted = [], tsOpen = [], tsTestsRun = [],
     tsTestsFailed = [], tsChangedFiles = [], tsBudget = None, tsCriteria = [], tsPlan = [], tsBlockers = [],
     tsEvidenceRefs = [js ''evidence:41''], tsPhase = None, tsProgress = JNull, tsCompletion = None\<rparr>"

definition demo_input :: cockpit_input where
  "demo_input = \<lparr>ciTask = Some demo_task, ciAgents = [], ciVerification = None, ciUsage = None,
     ciRecords = None, ciTournament = None\<rparr>"

theorem cockpit_evidence_faithful_witness:
  "distinct (map ref_key (cpEvidence (the (buildCockpit demo_input))))"
proof -
  obtain view where "buildCockpit demo_input = Some view"
    by (simp add: buildCockpit_def demo_input_def Let_def)
  with cockpit_evidence_faithful [OF this] show ?thesis by simp
qed

lemma evidence_ref_41: "erId (evidenceRefOf (js ''see evidence:41.'')) = Some (Fin 41)"
  by code_simp

text \<open>A bare number sign is no reference.\<close>

lemma hash_ref_unparsed: "erId (evidenceRefOf (js ''#41'')) = None"
  by code_simp

section \<open>Facts on the tournament\<close>

definition section_of :: "string \<Rightarrow> cockpit_view \<Rightarrow> cockpit_section option" where
  "section_of key view = find (\<lambda>s. ckKey s = js key) (cockpitSections view)"

lemma section_tournament:
  "section_of ''tournament'' view =
     Some ((plain_section ''tournament'' ''Tournament'' (cpTournament view \<noteq> None)
        (tournament_lines (cpTournament view)))\<lparr>ckActions := Some (tournament_actions (cpTournament view))\<rparr>)"
  by (simp add: section_of_def cockpitSections_def plain_section_def)

text \<open>
  The tournament controls follow the rule of the engine: the panel offers exactly the
  decide and abort controls; abort is enabled exactly while the tournament is open or
  deciding, decide exactly when in addition it has candidates and none of them is still
  running; and a candidate is marked as winner exactly when the tournament names it.
\<close>

theorem tournament_controls:
  assumes "cpTournament view = tournamentViewOf (Some t)"
  shows "\<exists>s. section_of ''tournament'' view = Some s
     \<and> ckActions s = Some
         [\<lparr>caKey = js ''decide'', caLabel = js ''Decide winner'',
            caEnabled = (ntState t \<in> {js ''open'', js ''deciding''} \<and> ntCandidates t \<noteq> []
              \<and> (\<forall>c \<in> set (ntCandidates t). crState c \<noteq> js ''running''))\<rparr>,
          \<lparr>caKey = js ''abort'', caLabel = js ''Abort'',
            caEnabled = (ntState t \<in> {js ''open'', js ''deciding''})\<rparr>]
     \<and> (\<forall>tv. cpTournament view = Some tv \<longrightarrow>
          map cdRow (tvCandidates tv) = ntCandidates t
          \<and> (\<forall>c \<in> set (tvCandidates tv). cdWinner c \<longleftrightarrow> ntWinner t = Some (crChildId (cdRow c))))"
  unfolding section_tournament assms
  by (auto simp: tournamentViewOf_def Let_def tournament_actions_def candidate_of_def list_all_iff comp_def)

definition demo_tournament :: native_tournament where
  "demo_tournament = \<lparr>ntId = js ''t1'', ntState = js ''open'', ntWinner = None, ntCriteria = [],
     ntCandidates = [\<lparr>crChildId = js ''c1'', crState = js ''running'', crVerification = None,
       crVerificationPass = None, crReviewRank = None, crReviewer = None, crCostMicro = 0, crWallMs = 0\<rparr>]\<rparr>"

theorem tournament_controls_witness:
  "\<exists>s. section_of ''tournament''
        (the (buildCockpit (demo_input\<lparr>ciTournament := tournamentViewOf (Some demo_tournament)\<rparr>))) = Some s
     \<and> map caEnabled (the (ckActions s)) = [False, True]"
proof -
  let ?v = "the (buildCockpit (demo_input\<lparr>ciTournament := tournamentViewOf (Some demo_tournament)\<rparr>))"
  have "cpTournament ?v = tournamentViewOf (Some demo_tournament)"
    by (simp add: buildCockpit_def demo_input_def Let_def)
  from tournament_controls [OF this] show ?thesis by (auto simp: demo_tournament_def)
qed

section \<open>Facts on the verification\<close>

lemma count_record_fold:
  "foldl count_record (st, p, n, f) records =
     ((if records = [] then st else Some (vrStatus (last records))),
      p + length (filter kcPassed (concat (map vrCriteria records))),
      n + length (concat (map vrCriteria records)),
      f + length (filter (\<lambda>c. to_lower (ckStatus c) = js ''failed'') (concat (map vrChecks records))))"
  by (induction records arbitrary: st p n f) (simp_all add: count_record_def)

text \<open>
  The verification line reports the records as they are: the status is the status of
  the last record, and without records it is derived from the failed checks, the owed
  effects and the task alone (so a pass is never derived); the criteria passed, the
  criteria in all and the failed checks are counted over all records.
\<close>

theorem cockpit_verification_counts:
  assumes "buildCockpit input = Some view"
  shows "let records = or_empty (ciRecords input); v = cpVerification view;
       criteria = concat (map vrCriteria records)
     in vvTotal v = length criteria \<and> vvPassed v = length (filter kcPassed criteria) \<and> vvPassed v \<le> vvTotal v
        \<and> vvChecksFailed v
            = length (filter (\<lambda>c. to_lower (ckStatus c) = js ''failed'') (concat (map vrChecks records)))
        \<and> vvStatus v =
            (if records \<noteq> [] then vrStatus (last records)
             else if vvFailedChecks v > 0 then js ''failed'' else if vvOwed v > 0 then js ''pending''
             else case ciTask input of Some t \<Rightarrow> tsState t | None \<Rightarrow> js ''unknown'')"
proof -
  have v: "cpVerification view
      = cockpit_verification (ciTask input) (ciVerification input) (or_empty (ciRecords input))"
    using assms by (auto simp: buildCockpit_def Let_def split: if_splits)
  show ?thesis
    unfolding v Let_def
    by (simp add: cockpit_verification_def count_record_fold Let_def split: option.split)
qed

theorem cockpit_verification_counts_witness:
  "vvStatus (cpVerification (the (buildCockpit demo_input))) = js ''running''"
proof -
  obtain view where v: "buildCockpit demo_input = Some view"
    by (simp add: buildCockpit_def demo_input_def Let_def)
  have "vvFailedChecks (cpVerification view) = 0" "vvOwed (cpVerification view) = 0"
    using v by (auto simp: buildCockpit_def demo_input_def Let_def cockpit_verification_def or_empty_def)
  with cockpit_verification_counts [OF v] v show ?thesis
    by (simp add: demo_input_def demo_task_def or_empty_def Let_def)
qed

section \<open>Facts on the children and the sections\<close>

text \<open>
  The panel draws every child once and tucks the background: its rows are the children
  of the agent list, foreground ones first and each group in the order of the list; the
  ten sections come in a fixed order and none of them is empty.
\<close>

theorem cockpit_children_tucked:
  assumes "buildCockpit input = Some view"
  shows "map cvChildId (cpChildren view)
       = map asAgentId (filter (\<lambda>a. asKind a = js ''child'' \<and> asPresentation a = Foreground) (ciAgents input))
         @ map asAgentId (filter (\<lambda>a. asKind a = js ''child'' \<and> asPresentation a = Background) (ciAgents input))
     \<and> map ckKey (cockpitSections view) = map js [''acceptance'', ''plan'', ''completion'', ''children'',
         ''tournament'', ''phase'', ''blockers'', ''verification'', ''evidence'', ''spend'']
     \<and> list_all (\<lambda>s. ckLines s \<noteq> []) (cockpitSections view)"
proof -
  have p: "asPresentation a \<noteq> Background \<longleftrightarrow> asPresentation a = Foreground" for a
    by (cases "asPresentation a") auto
  have "cpChildren view = map child_view_of (cockpit_children (ciAgents input))"
    using assms by (auto simp: buildCockpit_def Let_def split: if_splits)
  then have "map cvChildId (cpChildren view)
       = map asAgentId (filter (\<lambda>a. asKind a = js ''child'' \<and> asPresentation a = Foreground) (ciAgents input))
         @ map asAgentId (filter (\<lambda>a. asKind a = js ''child'' \<and> asPresentation a = Background) (ciAgents input))"
    by (simp add: cockpit_children_def Let_def child_view_of_def comp_def p conj_commute)
  then show ?thesis
    by (auto simp: cockpitSections_def plain_section_def or_none_def completion_lines_def tournament_lines_def
        verification_lines_def spend_lines_def split: option.split)
qed

theorem cockpit_children_tucked_witness: "cpChildren (the (buildCockpit demo_input)) = []"
proof -
  obtain view where "buildCockpit demo_input = Some view"
    by (simp add: buildCockpit_def demo_input_def Let_def)
  with cockpit_children_tucked [OF this] show ?thesis by (simp add: demo_input_def)
qed

end
