(* ===== verification/KiloOutbound.thy ===== *)
theory KiloOutbound
  imports Cockpit Transcript Store KiloInbound
begin

text \<open>
  The outbound half of the bridge (\<open>apps/vscode/src/kilo-bridge.ts\<close>): one snapshot becomes
  a batch of messages for the frozen UI, followed by the frames of the Faktor panel; one
  journal event becomes at most one message.  Messages are JavaScript values.  A member
  whose value is \<open>undefined\<close> is present with the value \<open>undefined\<close>, as in the source.
\<close>

section \<open>Bounds\<close>

definition maxOutboundBytes :: nat where [cap_simps]: "maxOutboundBytes = 1024 * 1024"
definition maxPageEntries :: nat where [cap_simps]: "maxPageEntries = 200"
definition maxToolPartsPerMessage :: nat where [cap_simps]: "maxToolPartsPerMessage = 200"
definition maxFaktorAgents :: nat where [cap_simps]: "maxFaktorAgents = 64"
definition maxFaktorEvidenceRefs :: nat where [cap_simps]: "maxFaktorEvidenceRefs = 64"
definition maxFaktorEvidenceChars :: nat where [cap_simps]: "maxFaktorEvidenceChars = 256 * 1024"
definition maxFaktorCockpitLines :: nat where [cap_simps]: "maxFaktorCockpitLines = 64"
definition maxFaktorFrameBytes :: nat where [cap_simps]: "maxFaktorFrameBytes = 128 * 1024"

section \<open>The snapshot the messages are made from\<close>

record session_summary =
  ssId :: jsstr
  ssTitle :: jsstr
  ssProvider :: jsstr
  ssModel :: jsstr
  ssState :: jsstr

datatype daemon_status = DStopped | DStarting | DRunning | DError

record faktor_snapshot =
  fsDaemon :: daemon_status
  fsDaemonDetail :: jsstr
  fsBaseUrl :: "jsstr option"
  fsSession :: "session_summary option"
  fsMachineState :: jsstr
  fsMachineLabel :: jsstr
  fsSessions :: "session_summary list"
  fsRuns :: "run_summary list"
  fsActiveRunId :: "jsstr option"
  fsAgents :: "agent_summary list"
  fsTask :: "task_summary option"
  fsVerification :: "verification_summary option"
  fsUsage :: "usage_summary option"
  fsCockpit :: "cockpit_view option"
  fsCockpitSections :: "cockpit_section list"
  fsTournament :: "tournament_view option"
  fsBoard :: "board_state_summary option"
  fsTranscript :: "transcript_entry list"
  fsStreamStatus :: jsstr
  fsLastError :: "jsstr option"
  fsBusy :: bool

section \<open>Literals\<close>

definition jobj :: "(string \<times> jsval) list \<Rightarrow> jsval" where
  "jobj ms = JObj (map (\<lambda>(k, v). (js k, v)) ms)"

definition jstrs :: "jsstr list \<Rightarrow> jsval" where
  "jstrs ss = JArr (map JStr ss)"

definition jint :: "int \<Rightarrow> jsval" where
  "jint n = JNum (num_of_int n)"

definition opt_int :: "int option \<Rightarrow> jsval" where
  "opt_int n = (case n of None \<Rightarrow> JNull | Some i \<Rightarrow> jint i)"

definition opt_bool :: "bool option \<Rightarrow> jsval" where
  "opt_bool b = (case b of None \<Rightarrow> JNull | Some x \<Rightarrow> JBool x)"

definition message :: "string \<Rightarrow> (string \<times> jsval) list \<Rightarrow> jsval" where
  "message kind ms = jobj ((''type'', JStr (js kind)) # ms)"

section \<open>Dates\<close>

text \<open>
  \<open>new Date(ms).toISOString()\<close>: days since the epoch to a civil date in the proleptic
  Gregorian calendar.  It throws outside the time range of 8.64e15 ms; the fraction of a
  millisecond is dropped.  A year beyond 9999 has a sign and six digits.
\<close>

definition civil_date :: "int \<Rightarrow> int \<times> int \<times> int" where
  "civil_date days =
     (let z = days + 719468; era = z div 146097; doe = z mod 146097;
          yoe = (doe - doe div 1460 + doe div 36524 - doe div 146096) div 365;
          doy = doe - (365 * yoe + yoe div 4 - yoe div 100); mp = (5 * doy + 2) div 153;
          d = doy - (153 * mp + 2) div 5 + 1; m = (if mp < 10 then mp + 3 else mp - 9)
      in (yoe + era * 400 + (if m \<le> 2 then 1 else 0), m, d))"

definition padded :: "nat \<Rightarrow> int \<Rightarrow> jsstr" where
  "padded n k = (let ds = decimal k in replicate (n - length ds) 48 @ ds)"

definition iso_string :: "int \<Rightarrow> jsstr" where
  "iso_string ms =
     (case civil_date (ms div 86400000) of (y, m, d) \<Rightarrow>
        (if y > 9999 then 43 # padded 6 y else padded 4 y) @ [45] @ padded 2 m @ [45] @ padded 2 d
        @ [84] @ padded 2 (ms div 3600000 mod 24) @ [58] @ padded 2 (ms div 60000 mod 60)
        @ [58] @ padded 2 (ms div 1000 mod 60) @ [46] @ padded 3 (ms mod 1000) @ [90])"

definition EPOCH_ISO :: jsstr where
  "EPOCH_ISO = iso_string 0"

definition isoFromMs :: "int \<Rightarrow> jsstr" where
  "isoFromMs ms = (if ms \<le> 0 then EPOCH_ISO else if ms > 8640000000000000 then EPOCH_ISO else iso_string ms)"

section \<open>Frozen messages\<close>

record bridge_context =
  bcExtensionVersion :: jsstr
  bcWorkspaceDirectory :: jsstr
  bcDaemonVersion :: "jsstr option"
  bcPort :: "jsnum option"

definition sessionToUpstream :: "session_summary \<Rightarrow> jsval" where
  "sessionToUpstream session =
     jobj [(''id'', JStr (ssId session)), (''title'', JStr (ssTitle session)),
       (''createdAt'', JStr EPOCH_ISO), (''updatedAt'', JStr EPOCH_ISO)]"

definition opt_undef :: "jsstr option \<Rightarrow> jsval" where
  "opt_undef s = (case s of None \<Rightarrow> JUndef | Some t \<Rightarrow> JStr t)"

definition readyMessage :: "bridge_context \<Rightarrow> jsval" where
  "readyMessage ctx =
     message ''ready''
       [(''extensionVersion'', JStr (bcExtensionVersion ctx)),
        (''workspaceDirectory'', JStr (bcWorkspaceDirectory ctx)),
        (''serverInfo'',
          (case bcPort ctx of
             Some port \<Rightarrow>
               if is_integer port \<and> int_of_num port > 0
               then jobj [(''port'', JNum port), (''version'', opt_undef (bcDaemonVersion ctx))] else JUndef
           | None \<Rightarrow> JUndef))]"

definition connectionStateMessage :: "daemon_status \<Rightarrow> jsstr \<Rightarrow> jsval" where
  "connectionStateMessage daemon detail =
     (case daemon of
        DRunning \<Rightarrow> message ''connectionState'' [(''state'', JStr (js ''connected''))]
      | DStarting \<Rightarrow> message ''connectionState'' [(''state'', JStr (js ''connecting''))]
      | DError \<Rightarrow> message ''connectionState''
          [(''state'', JStr (js ''error'')), (''error'', if length detail > 0 then JStr detail else JUndef)]
      | DStopped \<Rightarrow> message ''connectionState'' [(''state'', JStr (js ''disconnected''))])"

definition sessionsLoadedMessage :: "session_summary list \<Rightarrow> jsval" where
  "sessionsLoadedMessage sessions =
     message ''sessionsLoaded'' [(''sessions'', JArr (map sessionToUpstream (take maxPageEntries sessions)))]"

definition sessionStatusMessage :: "jsstr \<Rightarrow> string \<Rightarrow> jsval" where
  "sessionStatusMessage sessionId status =
     message ''sessionStatus'' [(''sessionID'', JStr sessionId), (''status'', JStr (js status))]"

definition errorMessage :: "jsstr \<Rightarrow> jsstr option \<Rightarrow> jsval" where
  "errorMessage text sessionId =
     message ''error'' [(''message'', JStr (clip 2000 text)), (''sessionID'', opt_undef sessionId)]"

definition todo_item :: "string \<Rightarrow> string \<Rightarrow> nat \<Rightarrow> jsstr \<Rightarrow> jsval" where
  "todo_item prefix status index content =
     jobj [(''id'', JStr (js prefix @ decimal_nat index)), (''content'', JStr content),
       (''status'', JStr (js status))]"

definition todo_items :: "string \<Rightarrow> string \<Rightarrow> jsstr list \<Rightarrow> jsval list" where
  "todo_items prefix status contents =
     map (\<lambda>(i, c). todo_item prefix status i c) (zip [0..<length contents] contents)"

definition todoUpdatedMessage :: "jsstr \<Rightarrow> task_summary \<Rightarrow> jsval" where
  "todoUpdatedMessage sessionId task =
     message ''todoUpdated''
       [(''sessionID'', JStr sessionId),
        (''items'', JArr (take maxPageEntries
           (todo_items ''milestone-completed-'' ''completed'' (tsCompleted task)
            @ todo_items ''milestone-open-'' ''pending'' (tsOpen task))))]"

section \<open>The transcript\<close>

definition obj_or_empty :: "jsval \<Rightarrow> jsval" where
  "obj_or_empty v = (case v of JObj ps \<Rightarrow> JObj ps | _ \<Rightarrow> JObj [])"

definition toolState :: "transcript_tool \<Rightarrow> jsval" where
  "toolState tool =
     (let input = obj_or_empty (ttInput tool)
      in if ttState tool = js ''completed'' \<and> (ttExitCode tool = None \<or> ttExitCode tool = Some 0)
           then jobj [(''status'', JStr (js ''completed'')), (''input'', input),
             (''output'', JStr (or_default (ttExcerpt tool) [])), (''title'', JStr (ttName tool))]
         else if ttExitCode tool \<noteq> None \<and> ttExitCode tool \<noteq> Some 0
           then jobj [(''status'', JStr (js ''error'')), (''input'', input),
             (''error'', JStr (or_default (ttExcerpt tool)
                (ttName tool @ js '' exited with '' @ int_string (the (ttExitCode tool)))))]
         else if ttState tool = js ''running'' \<or> ttState tool = js ''pending''
           then jobj [(''status'', JStr (if ttState tool = js ''pending'' then js ''pending'' else js ''running'')),
             (''input'', input)]
         else jobj [(''status'', JStr (js ''pending'')), (''input'', input)])"

definition text_part_value :: "string \<Rightarrow> jsstr \<Rightarrow> transcript_entry \<Rightarrow> jsstr \<Rightarrow> jsval" where
  "text_part_value kind sessionId entry text =
     message kind [(''id'', JStr (teId entry @ [58] @ js kind)), (''sessionID'', JStr sessionId),
       (''messageID'', JStr (teId entry)), (''text'', JStr text)]"

definition tool_part_value :: "jsstr \<Rightarrow> transcript_entry \<Rightarrow> transcript_tool \<Rightarrow> jsval" where
  "tool_part_value sessionId entry tool =
     message ''tool'' [(''id'', JStr (teId entry @ js '':tool:'' @ ttCallId tool)),
       (''sessionID'', JStr sessionId), (''messageID'', JStr (teId entry)), (''tool'', JStr (ttName tool)),
       (''callID'', if length (ttCallId tool) > 0 then JStr (ttCallId tool) else JUndef),
       (''state'', toolState tool)]"

definition entry_parts :: "transcript_entry \<Rightarrow> jsstr \<Rightarrow> jsval list" where
  "entry_parts entry sessionId =
     (if length (teText entry) > 0 then [text_part_value ''text'' sessionId entry (teText entry)] else [])
     @ (if length (teReasoning entry) > 0
        then [text_part_value ''reasoning'' sessionId entry (teReasoning entry)] else [])
     @ map (tool_part_value sessionId entry) (take maxToolPartsPerMessage (teTools entry))"

definition messageFromEntry :: "transcript_entry \<Rightarrow> jsstr \<Rightarrow> jsval" where
  "messageFromEntry entry sessionId =
     jobj [(''id'', JStr (teId entry)), (''sessionID'', JStr sessionId),
       (''role'', JStr (if teRole entry = js ''user'' then js ''user'' else js ''assistant'')),
       (''content'', JStr (teText entry)), (''createdAt'', JStr (isoFromMs (teCreatedMs entry))),
       (''time'', jobj [(''created'', jint (teCreatedMs entry))]), (''parts'', JArr (entry_parts entry sessionId))]"

text \<open>The loop that drops the oldest messages: how many, given the sizes and their sum.\<close>

fun drop_count :: "nat list \<Rightarrow> int \<Rightarrow> nat" where
  "drop_count (x # y # sizes) left =
     (if left > int maxOutboundBytes then Suc (drop_count (y # sizes) (left - int x)) else 0)"
| "drop_count sizes left = 0"

definition boundEntries :: "transcript_entry list \<Rightarrow> jsstr \<Rightarrow> jsval list \<times> bool" where
  "boundEntries entries sessionId =
     (let slice = drop (length entries - maxPageEntries) entries;
          messages = map (\<lambda>entry. messageFromEntry entry sessionId) slice;
          hasMore = (length slice < length entries)
      in if length messages > 1
         then (let sizes = map serialized_bytes messages; n = drop_count sizes (int (sum_list sizes))
               in if n > 0 then (drop n messages, True) else (messages, hasMore))
         else (messages, hasMore))"

definition messagesLoadedMessage :: "jsstr \<Rightarrow> transcript_entry list \<Rightarrow> jsval" where
  "messagesLoadedMessage sessionId entries =
     (case boundEntries entries sessionId of (messages, hasMore) \<Rightarrow>
        message ''messagesLoaded'' [(''sessionID'', JStr sessionId), (''messages'', JArr messages),
          (''mode'', JStr (js ''replace'')), (''hasMore'', JBool hasMore)])"

section \<open>The Faktor panel\<close>

definition clampPanel :: "jsstr \<Rightarrow> nat \<Rightarrow> jsstr" where
  "clampPanel v bound = (if length v > bound then take bound v @ ellipsis else v)"

definition clampPanelLines :: "jsstr list \<Rightarrow> nat \<Rightarrow> jsval" where
  "clampPanelLines vs bound = jstrs (map (\<lambda>v. clampPanel v 240) (take bound vs))"

text \<open>Entries while their cost fits; the first that does not fit ends the frame.\<close>

fun withinFrameBudget :: "jsval list \<Rightarrow> nat \<Rightarrow> jsval list" where
  "withinFrameBudget [] left = []"
| "withinFrameBudget (item # items) left =
     (let cost = serialized_bytes item + 1
      in if cost > left then [] else item # withinFrameBudget items (left - cost))"

definition clamp_opt :: "jsstr option \<Rightarrow> nat \<Rightarrow> jsval" where
  "clamp_opt v bound = (case v of None \<Rightarrow> JNull | Some t \<Rightarrow> JStr (clampPanel t bound))"

definition snapshot_session :: "faktor_snapshot \<Rightarrow> jsval" where
  "snapshot_session snapshot = opt_string (map_option ssId (fsSession snapshot))"

definition budget_value :: "budget_summary \<Rightarrow> jsval" where
  "budget_value b =
     jobj [(''maxTokens'', opt_int (bgMaxTokens b)), (''spentTokens'', opt_int (bgSpentTokens b)),
       (''maxCostMicro'', opt_int (bgMaxCostMicro b)), (''spentCostMicro'', jint (bgSpentCostMicro b)),
       (''openReservedMicro'', jint (bgOpenReservedMicro b))]"

definition verification_value :: "verification_view \<Rightarrow> jsval" where
  "verification_value v =
     jobj [(''status'', JStr (clampPanel (vvStatus v) 48)), (''criteriaPassed'', jint (int (vvPassed v))),
       (''criteriaTotal'', jint (int (vvTotal v))), (''checksFailed'', jint (int (vvChecksFailed v))),
       (''owed'', jint (int (vvOwed v))), (''failedChecks'', jint (int (vvFailedChecks v)))]"

definition opt_value :: "('a \<Rightarrow> jsval) \<Rightarrow> 'a option \<Rightarrow> jsval" where
  "opt_value f v = (case v of None \<Rightarrow> JNull | Some x \<Rightarrow> f x)"

definition faktorTaskStateMessage :: "faktor_snapshot \<Rightarrow> jsval" where
  "faktorTaskStateMessage snapshot =
     (let sessionID = snapshot_session snapshot
      in case fsTask snapshot of
           None \<Rightarrow> message ''faktorTaskState'' [(''sessionID'', sessionID), (''present'', JBool False)]
         | Some task \<Rightarrow>
             message ''faktorTaskState''
               [(''sessionID'', sessionID), (''present'', JBool True),
                (''goal'', JStr (clampPanel (tsGoal task) 512)), (''state'', JStr (clampPanel (tsState task) 64)),
                (''phase'', clamp_opt (tsPhase task) 96),
                (''acceptanceCriteria'', clampPanelLines (tsCriteria task) maxFaktorCockpitLines),
                (''milestones'', jobj [(''completed'', clampPanelLines (tsCompleted task) maxFaktorCockpitLines),
                   (''open'', clampPanelLines (tsOpen task) maxFaktorCockpitLines)]),
                (''tests'', jobj [(''run'', clampPanelLines (tsTestsRun task) 32),
                   (''failed'', clampPanelLines (tsTestsFailed task) 32)]),
                (''changedFiles'', clampPanelLines (tsChangedFiles task) maxFaktorCockpitLines),
                (''blockers'', clampPanelLines (tsBlockers task) maxFaktorCockpitLines),
                (''verification'',
                   opt_value (\<lambda>cockpit. verification_value (cpVerification cockpit)) (fsCockpit snapshot)),
                (''budget'', opt_value budget_value (tsBudget task))])"

definition presentation_tag :: "presentation \<Rightarrow> jsstr" where
  "presentation_tag p = (case p of Foreground \<Rightarrow> js ''foreground'' | Background \<Rightarrow> js ''background'')"

definition pixel_value :: "pixel_presence \<Rightarrow> jsval" where
  "pixel_value p =
     jobj [(''childId'', JStr (ppChildId p)), (''state'', JStr (pixel_state_tag (ppState p))),
       (''animation'', JStr (ppAnimation p)),
       (''avatar'', jobj [(''hash'', jint (uint (avHash (ppAvatar p)))), (''color'', JStr (avColor (ppAvatar p))),
          (''accent'', JStr (avAccent (ppAvatar p))), (''pixels'', JArr (map jint (take 25 (avPixels (ppAvatar p))))),
          (''version'', jint (avVersion (ppAvatar p)))])]"

definition agent_card :: "agent_summary \<Rightarrow> jsval" where
  "agent_card agent =
     jobj [(''agentId'', JStr (asAgentId agent)), (''kind'', JStr (asKind agent)),
       (''state'', JStr (clampPanel (asState agent) 64)), (''goal'', JStr (clampPanel (asGoal agent) 512)),
       (''model'', clamp_opt (asModel agent) 128), (''provider'', clamp_opt (asProvider agent) 128),
       (''reasoning'', opt_bool (asReasoning agent)), (''thinking'', opt_bool (asThinking agent)),
       (''itemId'', clamp_opt (asItemId agent) 128), (''itemKind'', clamp_opt (asItemKind agent) 64),
       (''itemIds'', jstrs (map (\<lambda>i. clampPanel i 128) (take 16 (asItemIds agent)))),
       (''sessionId'', opt_int (asSessionId agent)), (''worktreeId'', opt_int (asWorktreeId agent)),
       (''ownership'', JStr (clampPanel (asOwnership agent) 64)), (''budget'', opt_int (asBudget agent)),
       (''capabilities'', jstrs (map (\<lambda>c. clampPanel c 128) (take 16 (asCapabilities agent)))),
       (''progress'', asProgress agent), (''result'', asResult agent),
       (''blockers'', clampPanelLines (asBlockers agent) 16),
       (''presentation'', JStr (presentation_tag (asPresentation agent))),
       (''pixel'', pixel_value (asPixel agent))]"

definition is_background :: "jsval \<Rightarrow> bool" where
  "is_background row =
     (case row of JObj ps \<Rightarrow> jget ps (js ''presentation'') = JStr (js ''background'') | _ \<Rightarrow> False)"

definition faktorAgentsMessage :: "faktor_snapshot \<Rightarrow> jsval" where
  "faktorAgentsMessage snapshot =
     (let agents = withinFrameBudget (map agent_card (take maxFaktorAgents (fsAgents snapshot))) maxFaktorFrameBytes
      in message ''faktorAgents'' [(''sessionID'', snapshot_session snapshot), (''agents'', JArr agents),
           (''background'', jint (int (length (filter is_background agents))))])"

definition ref_value :: "evidence_ref \<Rightarrow> jsval" where
  "ref_value ref =
     jobj [(''id'', opt_value JNum (erId ref)), (''label'', JStr (clampPanel (erLabel ref) 240))]"

definition action_value :: "cockpit_action \<Rightarrow> jsval" where
  "action_value action =
     jobj [(''key'', JStr (caKey action)), (''label'', JStr (clampPanel (caLabel action) 96)),
       (''enabled'', JBool (caEnabled action))]"

definition section_value :: "cockpit_section \<Rightarrow> jsval" where
  "section_value sec =
     jobj [(''key'', JStr (ckKey sec)), (''title'', JStr (clampPanel (ckTitle sec) 96)),
       (''present'', JBool (ckPresent sec)), (''lines'', clampPanelLines (ckLines sec) maxFaktorCockpitLines),
       (''evidence'', JArr (map ref_value (take maxFaktorEvidenceRefs (ckEvidence sec)))),
       (''actions'', JArr (case ckActions sec of None \<Rightarrow> [] | Some actions \<Rightarrow> map action_value actions))]"

definition faktorCockpitMessage :: "faktor_snapshot \<Rightarrow> jsval" where
  "faktorCockpitMessage snapshot =
     (let sections = withinFrameBudget (map section_value (take 16 (fsCockpitSections snapshot))) maxFaktorFrameBytes
      in message ''faktorCockpit'' [(''sessionID'', snapshot_session snapshot),
           (''present'', JBool (length sections > 0)), (''sections'', JArr sections)])"

definition candidate_value :: "candidate_view \<Rightarrow> jsval" where
  "candidate_value c =
     (let row = cdRow c
      in jobj [(''childId'', JStr (clampPanel (crChildId row) 128)), (''state'', JStr (clampPanel (crState row) 48)),
           (''verification'', opt_int (crVerification row)), (''verificationPass'', opt_bool (crVerificationPass row)),
           (''reviewRank'', clamp_opt (crReviewRank row) 64), (''reviewer'', clamp_opt (crReviewer row) 128),
           (''costMicro'', jint (crCostMicro row)), (''wallMs'', jint (crWallMs row)),
           (''winner'', JBool (cdWinner c))])"

definition faktorTournamentMessage :: "faktor_snapshot \<Rightarrow> jsval" where
  "faktorTournamentMessage snapshot =
     (let sessionID = snapshot_session snapshot
      in case fsTournament snapshot of
           None \<Rightarrow>
             message ''faktorTournament'' [(''sessionID'', sessionID), (''present'', JBool False), (''tournament'', JNull)]
         | Some t \<Rightarrow>
             message ''faktorTournament'' [(''sessionID'', sessionID), (''present'', JBool True),
               (''tournament'', jobj
                 [(''id'', JStr (clampPanel (tvId t) 128)), (''state'', JStr (clampPanel (tvState t) 48)),
                  (''open'', JBool (tvOpen t)), (''canDecide'', JBool (tvCanDecide t)),
                  (''winner'', clamp_opt (tvWinner t) 128), (''criteria'', clampPanelLines (tvCriteria t) 64),
                  (''candidates'',
                    JArr (withinFrameBudget (map candidate_value (take 8 (tvCandidates t))) maxFaktorFrameBytes))])])"

text \<open>The references of all sections, each key once.\<close>

definition push_ref :: "jsstr list \<times> jsval list \<Rightarrow> evidence_ref \<Rightarrow> jsstr list \<times> jsval list" where
  "push_ref acc ref =
     (case acc of (seen, refs) \<Rightarrow>
        if \<not> List.member seen (ref_key ref) \<and> length refs < maxFaktorEvidenceRefs
        then (ref_key ref # seen, refs @ [ref_value ref]) else acc)"

definition faktorEvidenceRefsMessage :: "faktor_snapshot \<Rightarrow> jsval" where
  "faktorEvidenceRefsMessage snapshot =
     message ''faktorEvidence''
       [(''sessionID'', snapshot_session snapshot), (''mode'', JStr (js ''refs'')),
        (''refs'', JArr (snd (foldl push_ref ([], []) (concat (map ckEvidence (fsCockpitSections snapshot)))))),
        (''evidence'', JNull)]"

definition faktorEvidenceExpandedMessage :: "jsstr option \<Rightarrow> int \<Rightarrow> jsstr \<Rightarrow> bool \<Rightarrow> jsval" where
  "faktorEvidenceExpandedMessage sessionId evidenceId text truncated =
     (let bounded = (if length text > maxFaktorEvidenceChars then take maxFaktorEvidenceChars text else text)
      in message ''faktorEvidence''
           [(''sessionID'', opt_string sessionId), (''mode'', JStr (js ''expanded'')), (''refs'', JArr []),
            (''evidence'', jobj [(''id'', jint evidenceId), (''text'', JStr bounded),
               (''truncated'', JBool (truncated \<or> length bounded < length text)),
               (''bytes'', jint (int (utf8_length bounded)))])])"

definition post_value :: "board_post_summary \<Rightarrow> jsval" where
  "post_value post =
     jobj [(''id'', JStr (clampPanel (bpId post) 128)), (''author'', JStr (clampPanel (bpAuthor post) 128)),
       (''subject'', JStr (clampPanel (bpSubject post) maxBoardSubjectBytes)),
       (''body'', JStr (clampPanel (bpBody post) maxBoardBodyBytes)),
       (''refs'', jstrs (map (\<lambda>r. clampPanel r 512) (take maxBoardRefs (bpRefs post)))),
       (''revision'', opt_int (bpRevision post)), (''createdMs'', opt_int (bpCreatedMs post))]"

definition faktorBoardStateMessage :: "faktor_snapshot \<Rightarrow> jsval" where
  "faktorBoardStateMessage snapshot =
     (let sessionID = snapshot_session snapshot
      in case fsBoard snapshot of
           None \<Rightarrow>
             message ''faktorBoardState'' [(''sessionID'', sessionID), (''present'', JBool False),
               (''available'', JBool False), (''source'', JStr (js ''none'')), (''revision'', JNull),
               (''unread'', JNull), (''posts'', JArr []),
               (''reason'', JStr (js ''the serving daemon exposes no coordination-board read''))]
         | Some board \<Rightarrow>
             message ''faktorBoardState'' [(''sessionID'', sessionID), (''present'', JBool True),
               (''available'', JBool (bsAvailable board)), (''source'', JStr (clampPanel (bsSource board) 64)),
               (''revision'', opt_int (bsRevision board)), (''unread'', opt_int (bsUnread board)),
               (''posts'',
                 JArr (withinFrameBudget (map post_value (take maxPageEntries (bsPosts board))) maxFaktorFrameBytes)),
               (''reason'', clamp_opt (bsReason board) 240)])"

section \<open>The batch of one snapshot\<close>

definition session_messages :: "faktor_snapshot \<Rightarrow> jsval list" where
  "session_messages snapshot =
     (case fsSession snapshot of
        None \<Rightarrow> []
      | Some session \<Rightarrow>
          [sessionStatusMessage (ssId session) (if fsBusy snapshot then ''busy'' else ''idle''),
           messagesLoadedMessage (ssId session) (fsTranscript snapshot)]
          @ (case fsTask snapshot of Some task \<Rightarrow> [todoUpdatedMessage (ssId session) task] | None \<Rightarrow> []))"

definition frozen_messages :: "faktor_snapshot \<Rightarrow> jsval list" where
  "frozen_messages snapshot =
     [connectionStateMessage (fsDaemon snapshot) (fsDaemonDetail snapshot)]
     @ (if length (fsSessions snapshot) > 0 then [sessionsLoadedMessage (fsSessions snapshot)] else [])
     @ session_messages snapshot
     @ (case fsLastError snapshot of
          Some e \<Rightarrow> [errorMessage e (map_option ssId (fsSession snapshot))] | None \<Rightarrow> [])"

definition panel_messages :: "faktor_snapshot \<Rightarrow> jsval list" where
  "panel_messages snapshot =
     [faktorTaskStateMessage snapshot, faktorAgentsMessage snapshot, faktorCockpitMessage snapshot,
      faktorTournamentMessage snapshot, faktorEvidenceRefsMessage snapshot, faktorBoardStateMessage snapshot]"

definition snapshotToWebviewMessages :: "faktor_snapshot \<Rightarrow> jsval list" where
  "snapshotToWebviewMessages snapshot = frozen_messages snapshot @ panel_messages snapshot"

section \<open>Journal events\<close>

definition str_or :: "jsval \<Rightarrow> jsstr \<Rightarrow> jsstr" where
  "str_or v d = (case v of JStr s \<Rightarrow> s | _ \<Rightarrow> d)"

definition str_or_undef :: "jsval \<Rightarrow> jsval" where
  "str_or_undef v = (case v of JStr s \<Rightarrow> JStr s | _ \<Rightarrow> JUndef)"

definition failed_exit :: "jsval \<Rightarrow> bool" where
  "failed_exit v = (case v of JNum x \<Rightarrow> x \<noteq> Fin 0 | _ \<Rightarrow> False)"

definition ssePartToUpstream :: "jsval props \<Rightarrow> jsval props option" where
  "ssePartToUpstream part =
     (let type = jget part (js ''type'')
      in if type = JStr (js ''text'') \<or> type = JStr (js ''reasoning'') then
           (let text = str_or (jget part (js ''text'')) []
            in if length text = 0 then None
               else Some [(js ''type'', type), (js ''text'', JStr text)])
         else if type = JStr (js ''tool_call'') then
           Some [(js ''type'', JStr (js ''tool'')), (js ''tool'', JStr (str_or (jget part (js ''name'')) [])),
             (js ''callID'', str_or_undef (jget part (js ''tool_call_id''))),
             (js ''state'', jobj [(''status'', JStr (js ''running'')), (''input'', obj_or_empty (jget part (js ''input'')))])]
         else if type = JStr (js ''tool_result'') then
           (let result = (case jget part (js ''result'') of JObj r \<Rightarrow> r | _ \<Rightarrow> []);
                excerpt = JStr (str_or (jget result (js ''excerpt'')) [])
            in Some [(js ''type'', JStr (js ''tool'')), (js ''tool'', JStr []),
                 (js ''callID'', str_or_undef (jget part (js ''tool_call_id''))),
                 (js ''state'',
                   if failed_exit (jget result (js ''exit_code''))
                   then jobj [(''status'', JStr (js ''error'')), (''input'', JObj []), (''error'', excerpt)]
                   else jobj [(''status'', JStr (js ''completed'')), (''input'', JObj []), (''output'', excerpt),
                     (''title'', JStr [])])])
         else None)"

text \<open>One iteration over the parts of a created message.\<close>

definition push_part :: "jsstr \<Rightarrow> jsstr \<Rightarrow> jsval list \<Rightarrow> jsval \<Rightarrow> jsval list" where
  "push_part i sessionId parts rawPart =
     (case rawPart of
        JObj part \<Rightarrow>
          (case ssePartToUpstream part of
             None \<Rightarrow> parts
           | Some mapped \<Rightarrow>
               parts @ [JObj (mapped @ [(js ''id'', JStr (i @ [58] @ decimal_nat (length parts))),
                 (js ''sessionID'', JStr sessionId), (js ''messageID'', JStr i)])])
      | _ \<Rightarrow> parts)"

definition created_message :: "jsval props \<Rightarrow> jsstr \<Rightarrow> jsval list" where
  "created_message message_obj sessionId =
     (case jget message_obj (js ''id'') of
        JStr i \<Rightarrow>
          if length i = 0 then []
          else [message ''messageCreated''
            [(''message'', jobj
               [(''id'', JStr i), (''sessionID'', JStr sessionId),
                (''role'', JStr (str_or (jget message_obj (js ''role'')) (js ''assistant''))),
                (''parts'', JArr (foldl (push_part i sessionId) []
                   (take maxToolPartsPerMessage (array_items (jget message_obj (js ''parts'')))))),
                (''createdAt'', JStr EPOCH_ISO)])]]
      | _ \<Rightarrow> [])"

definition part_update :: "jsstr \<Rightarrow> jsstr \<Rightarrow> jsval props \<Rightarrow> jsval props" where
  "part_update messageId sessionId mapped =
     [(js ''type'', JStr (js ''partUpdated'')), (js ''sessionID'', JStr sessionId),
      (js ''messageID'', JStr messageId),
      (js ''part'', JObj (mapped @ [(js ''id'', JStr (messageId @ js '':part'')), (js ''sessionID'', JStr sessionId),
         (js ''messageID'', JStr messageId)]))]"

definition updated_part :: "jsval props \<Rightarrow> jsstr \<Rightarrow> jsval list" where
  "updated_part event_obj sessionId =
     (case (jget event_obj (js ''message_id''), jget event_obj (js ''part'')) of
        (JStr messageId, JObj part) \<Rightarrow>
          (case ssePartToUpstream part of
             None \<Rightarrow> []
           | Some mapped \<Rightarrow>
               (case (jget mapped (js ''type''), jget mapped (js ''text'')) of
                  (JStr kind, JStr text) \<Rightarrow>
                    if kind = js ''text''
                    then [JObj (part_update messageId sessionId mapped @
                      [(js ''delta'', jobj [(''type'', JStr (js ''text-delta'')), (''textDelta'', JStr text)])])]
                    else [JObj (part_update messageId sessionId mapped)]
                | _ \<Rightarrow> [JObj (part_update messageId sessionId mapped)]))
      | _ \<Rightarrow> [])"

definition nativeEventToWebviewMessages :: "jsstr \<Rightarrow> jsval \<Rightarrow> jsstr \<Rightarrow> jsval list" where
  "nativeEventToWebviewMessages event data sessionId =
     (case data of
        JObj event_obj \<Rightarrow>
          if event = js ''message_created'' then
            (case jget event_obj (js ''message'') of JObj m \<Rightarrow> created_message m sessionId | _ \<Rightarrow> [])
          else if event = js ''message_part_updated'' then updated_part event_obj sessionId
          else []
      | _ \<Rightarrow> [])"

section \<open>Facts on the frames\<close>

lemma epoch_text: "EPOCH_ISO = js ''1970-01-01T00:00:00.000Z''"
  by code_simp

lemma leap_day_text: "isoFromMs 1709210096789 = js ''2024-02-29T12:34:56.789Z''"
  by code_simp

definition frame_cost :: "jsval list \<Rightarrow> nat" where
  "frame_cost items = (\<Sum>item \<leftarrow> items. serialized_bytes item + 1)"

text \<open>
  A panel frame never exceeds its byte budget and never cuts inside an entry: what is
  sent is a prefix of the entries whose serialised sizes (with a separator each) fit the
  budget, and it is the longest such prefix.
\<close>

theorem frame_budget_prefix:
  "\<exists>n. withinFrameBudget items budget = take n items \<and> frame_cost (take n items) \<le> budget
     \<and> (n = length items \<or> n < length items \<and> frame_cost (take (Suc n) items) > budget)"
proof (induction items arbitrary: budget)
  case (Cons item items)
  let ?cost = "serialized_bytes item + 1"
  show ?case
  proof (cases "?cost > budget")
    case True
    then have "withinFrameBudget (item # items) budget = take 0 (item # items)"
      and "frame_cost (take (Suc 0) (item # items)) > budget"
      by (simp_all add: frame_cost_def)
    then show ?thesis by (intro exI [of _ 0]) (simp add: frame_cost_def)
  next
    case False
    from Cons.IH [of "budget - ?cost"] obtain n where
      "withinFrameBudget items (budget - ?cost) = take n items" "frame_cost (take n items) \<le> budget - ?cost"
      "n = length items \<or> n < length items \<and> frame_cost (take (Suc n) items) > budget - ?cost"
      by blast
    with False show ?thesis by (intro exI [of _ "Suc n"]) (auto simp: frame_cost_def Let_def)
  qed
qed (simp add: frame_cost_def)

section \<open>Facts on the page of messages\<close>

lemma drop_count_less: "sizes \<noteq> [] \<Longrightarrow> drop_count sizes left < length sizes"
  by (induction sizes left rule: drop_count.induct) auto

lemma drop_count_fits:
  "left = int (sum_list sizes) \<Longrightarrow>
     sum_list (drop (drop_count sizes left) sizes) \<le> maxOutboundBytes
     \<or> length (drop (drop_count sizes left) sizes) \<le> 1"
  by (induction sizes left rule: drop_count.induct) auto

lemma drop_count_needed:
  "left = int (sum_list sizes) \<Longrightarrow> k < drop_count sizes left \<Longrightarrow>
     sum_list (drop k sizes) > maxOutboundBytes"
proof (induction sizes left arbitrary: k rule: drop_count.induct)
  case (1 x y sizes left)
  then show ?case by (cases k) (auto split: if_splits)
qed auto

definition entry_messages :: "jsstr \<Rightarrow> transcript_entry list \<Rightarrow> jsval list" where
  "entry_messages sessionId entries = map (\<lambda>entry. messageFromEntry entry sessionId) entries"

lemma boundEntries_eq:
  "\<exists>n. boundEntries entries sessionId =
      (drop n (entry_messages sessionId (drop (length entries - 200) entries)),
       length entries > 200 \<or> n > 0)
    \<and> n = (let sizes = map serialized_bytes (entry_messages sessionId (drop (length entries - 200) entries))
           in if length sizes > 1 then drop_count sizes (int (sum_list sizes)) else 0)"
  by (auto simp: boundEntries_def Let_def cap_simps entry_messages_def comp_def)

text \<open>
  A page of messages is bounded and honest.  It holds the newest entries of the
  transcript, in order: at most 200, and their serialised sizes sum up to at most 1 MiB
  unless it is a single message; it is empty only for an empty transcript; \<open>hasMore\<close> is
  set exactly when entries are missing; and no entry is left out that would have fit.
\<close>

theorem messages_page_bounded:
  "case boundEntries entries sessionId of (messages, hasMore) \<Rightarrow>
     \<exists>k. messages = entry_messages sessionId (drop k entries) \<and> k \<le> length entries
       \<and> length messages \<le> 200 \<and> (messages = [] \<longleftrightarrow> entries = [])
       \<and> (sum_list (map serialized_bytes messages) \<le> 1048576 \<or> length messages = 1)
       \<and> (hasMore \<longleftrightarrow> k > 0)
       \<and> list_all (\<lambda>j. length entries - j > 200
            \<or> sum_list (map serialized_bytes (entry_messages sessionId (drop j entries))) > 1048576) [0..<k]"
proof -
  define base where "base = length entries - 200"
  define ms where "ms = entry_messages sessionId (drop base entries)"
  define sizes where "sizes = map serialized_bytes ms"
  obtain n where b: "boundEntries entries sessionId = (drop n ms, length entries > 200 \<or> n > 0)"
    and n: "n = (if length sizes > 1 then drop_count sizes (int (sum_list sizes)) else 0)"
    using boundEntries_eq [of entries sessionId] by (auto simp: ms_def base_def sizes_def Let_def)
  have len: "length ms = length entries - base" "length sizes = length ms"
    by (simp_all add: ms_def entry_messages_def sizes_def)
  have less: "n < length ms \<or> ms = []"
  proof (cases "length sizes > 1")
    case True
    then have "sizes \<noteq> []" by auto
    from drop_count_less [OF this] show ?thesis using True n len by simp
  qed (use n len in \<open>cases ms; simp\<close>)
  have d: "drop n ms = entry_messages sessionId (drop (base + n) entries)"
    by (simp add: ms_def entry_messages_def drop_map add.commute)
  have dl: "length (drop n ms) \<le> 200" using len by (simp add: base_def)
  have fits: "sum_list (map serialized_bytes (drop n ms)) \<le> 1048576 \<or> length (drop n ms) \<le> 1"
    using drop_count_fits [of "int (sum_list sizes)" sizes] n len
    by (cases "length sizes > 1") (auto simp: sizes_def drop_map cap_simps)
  have needed: "length entries - j > 200
      \<or> sum_list (map serialized_bytes (entry_messages sessionId (drop j entries))) > 1048576"
    if "j < base + n" for j
  proof (cases "j < base")
    case False
    then have "sum_list (drop (j - base) sizes) > maxOutboundBytes"
      using drop_count_needed [of "int (sum_list sizes)" sizes "j - base"] n that by (auto split: if_splits)
    then show ?thesis
      using False by (simp add: sizes_def ms_def entry_messages_def drop_map cap_simps)
  next
    case True
    then have "length entries - j > 200" unfolding base_def by arith
    then show ?thesis ..
  qed
  have "length ms = 0 \<longleftrightarrow> length entries = 0" using len(1) unfolding base_def by arith
  then have e: "drop n ms = [] \<longleftrightarrow> entries = []" using less by auto
  then have "length (drop n ms) \<le> 1 \<longrightarrow> entries = [] \<or> length (drop n ms) = 1"
    by (cases "drop n ms") auto
  then have "sum_list (map serialized_bytes (drop n ms)) \<le> 1048576 \<or> length (drop n ms) = 1"
    using fits e by (auto simp: ms_def entry_messages_def)
  moreover have "(length entries > 200 \<or> n > 0) = (base + n > 0)" by (auto simp: base_def)
  moreover have "base + n \<le> length entries"
  proof (cases "ms = []")
    case True
    with n len have "n = 0" by simp
    then show ?thesis by (simp add: base_def)
  qed (use less len in auto)
  moreover have "list_all (\<lambda>j. length entries - j > 200
      \<or> sum_list (map serialized_bytes (entry_messages sessionId (drop j entries))) > 1048576) [0..<base + n]"
    unfolding list_all_iff by (intro ballI needed) simp
  ultimately show ?thesis using dl e by (auto simp: b d intro!: exI [of _ "base + n"])
qed

section \<open>Facts on the batch\<close>

definition message_type :: "jsval \<Rightarrow> jsval" where
  "message_type m = (case m of JObj ps \<Rightarrow> jget ps (js ''type'') | _ \<Rightarrow> JUndef)"

lemma message_type_message [simp]: "message_type (message kind ms) = JStr (js kind)"
  by (simp add: message_type_def message_def jobj_def jget_def)

lemma frozen_type [simp]:
  "message_type (connectionStateMessage d x) = JStr (js ''connectionState'')"
  "message_type (sessionsLoadedMessage ss) = JStr (js ''sessionsLoaded'')"
  "message_type (sessionStatusMessage i st) = JStr (js ''sessionStatus'')"
  "message_type (messagesLoadedMessage i es) = JStr (js ''messagesLoaded'')"
  "message_type (todoUpdatedMessage i t) = JStr (js ''todoUpdated'')"
  "message_type (errorMessage e o') = JStr (js ''error'')"
  by (simp_all add: connectionStateMessage_def sessionsLoadedMessage_def sessionStatusMessage_def
      messagesLoadedMessage_def todoUpdatedMessage_def errorMessage_def split: daemon_status.split prod.split)

lemma panel_type [simp]:
  "message_type (faktorTaskStateMessage snap) = JStr (js ''faktorTaskState'')"
  "message_type (faktorAgentsMessage snap) = JStr (js ''faktorAgents'')"
  "message_type (faktorCockpitMessage snap) = JStr (js ''faktorCockpit'')"
  "message_type (faktorTournamentMessage snap) = JStr (js ''faktorTournament'')"
  "message_type (faktorEvidenceRefsMessage snap) = JStr (js ''faktorEvidence'')"
  "message_type (faktorBoardStateMessage snap) = JStr (js ''faktorBoardState'')"
  by (simp_all add: faktorTaskStateMessage_def faktorAgentsMessage_def faktorCockpitMessage_def
      faktorTournamentMessage_def faktorEvidenceRefsMessage_def faktorBoardStateMessage_def Let_def
      split: option.split)

lemma frozen_types_eq:
  "map message_type (frozen_messages snap) =
     [JStr (js ''connectionState'')]
     @ (if fsSessions snap \<noteq> [] then [JStr (js ''sessionsLoaded'')] else [])
     @ (if fsSession snap \<noteq> None then [JStr (js ''sessionStatus''), JStr (js ''messagesLoaded'')]
          @ (if fsTask snap \<noteq> None then [JStr (js ''todoUpdated'')] else []) else [])
     @ (if fsLastError snap \<noteq> None then [JStr (js ''error'')] else [])"
  by (cases "fsSession snap"; cases "fsTask snap"; cases "fsLastError snap")
    (simp_all add: frozen_messages_def session_messages_def)

text \<open>
  The frozen vocabulary comes first and the Faktor frames after it: of the batch for a
  snapshot the last six messages are the six panel frames in their fixed order, whatever
  the snapshot holds, everything before them belongs to the frozen UI, and session
  messages are there exactly when the snapshot has a session.
\<close>

theorem batch_order:
  "\<exists>frozen. snapshotToWebviewMessages snapshot = frozen @ panel_messages snapshot
     \<and> map message_type (panel_messages snapshot) = map (\<lambda>k. JStr (js k)) [''faktorTaskState'', ''faktorAgents'',
         ''faktorCockpit'', ''faktorTournament'', ''faktorEvidence'', ''faktorBoardState'']
     \<and> set (map message_type frozen) \<subseteq> JStr ` set (map js [''connectionState'', ''sessionsLoaded'',
         ''sessionStatus'', ''messagesLoaded'', ''todoUpdated'', ''error''])
     \<and> (JStr (js ''messagesLoaded'') \<in> set (map message_type frozen) \<longleftrightarrow> fsSession snapshot \<noteq> None)"
proof (intro exI conjI)
  show "snapshotToWebviewMessages snapshot = frozen_messages snapshot @ panel_messages snapshot"
    by (simp add: snapshotToWebviewMessages_def)
  show "map message_type (panel_messages snapshot) = map (\<lambda>k. JStr (js k)) [''faktorTaskState'', ''faktorAgents'',
         ''faktorCockpit'', ''faktorTournament'', ''faktorEvidence'', ''faktorBoardState'']"
    by (simp add: panel_messages_def)
qed (simp_all only: frozen_types_eq, auto)

section \<open>Facts on the journal events\<close>

text \<open>The text a message for the UI appends, if any.\<close>

definition ui_delta :: "jsval \<Rightarrow> jsstr" where
  "ui_delta m =
     (case m of
        JObj ps \<Rightarrow> (case jget ps (js ''delta'') of JObj d \<Rightarrow> str_or (jget d (js ''textDelta'')) [] | _ \<Rightarrow> [])
      | _ \<Rightarrow> [])"

definition ui_messages :: "jsstr \<Rightarrow> (jsstr \<times> jsval) list \<Rightarrow> jsval list" where
  "ui_messages sessionId frames =
     concat (map (\<lambda>(event, data). nativeEventToWebviewMessages event data sessionId) frames)"

lemma ui_text_frame:
  "map ui_delta (case text_frame i t of (event, data) \<Rightarrow> nativeEventToWebviewMessages event data sessionId)
     = (if t = [] then [] else [t])"
  by (simp add: text_frame_def part_frame_def Transcript.text_part_def nativeEventToWebviewMessages_def
      updated_part_def ssePartToUpstream_def part_update_def ui_delta_def jobj_def str_or_def)

lemma ui_messages_text: "concat (map ui_delta (ui_messages sessionId (map (text_frame i) ts))) = concat ts"
proof (induction ts)
  case (Cons t ts)
  have "concat (map ui_delta (case text_frame i t of (e, d) \<Rightarrow> nativeEventToWebviewMessages e d sessionId)) = t"
    by (simp add: ui_text_frame)
  with Cons show ?case by (simp add: ui_messages_def)
qed (simp add: ui_messages_def)

text \<open>
  C37.  The two readings of a streamed text agree: after any run of text deltas for a message
  of the transcript, the entry holds its old text followed by exactly what the delta
  messages told the UI to append, cut at the 256 Ki bound of an entry.
\<close>

theorem deltas_match_transcript:
  assumes "i \<noteq> []" and "find_index (\<lambda>e. teId e = i) es = Some n"
    and "length (teText (es ! n)) \<le> 262144"
  shows "teText (foldl sse_step es (map (text_frame i) ts) ! n)
     = take 262144 (teText (es ! n) @ concat (map ui_delta (ui_messages sessionId (map (text_frame i) ts))))"
proof -
  have "n < length es" using find_index_Some [OF assms(2)] by simp
  with assms foldl_text_existing [OF assms(1,2), of ts] show ?thesis
    by (simp add: cap_simps ui_messages_text)
qed

theorem deltas_match_transcript_witness:
  "teText (foldl sse_step [emptyEntry (js ''m'') (js ''user'') 1 0] (map (text_frame (js ''m'')) [js ''a'', js ''b'']) ! 0)
     = js ''ab''"
  using deltas_match_transcript [of "js ''m''" "[emptyEntry (js ''m'') (js ''user'') 1 0]" 0 "[js ''a'', js ''b'']" "js ''s''"]
    ui_messages_text [of "js ''s''" "js ''m''" "[js ''a'', js ''b'']"]
  by (simp add: emptyEntry_def js_append [symmetric])

text \<open>Expanded evidence is cut at the bound, and the cut is announced.\<close>

lemma evidence_expanded_honest:
  assumes "faktorEvidenceExpandedMessage sessionId n text truncated = JObj m"
  shows "\<exists>ev. jget m (js ''evidence'') = JObj ev \<and> jget ev (js ''text'') = JStr (take 262144 text)
     \<and> jget ev (js ''truncated'') = JBool (truncated \<or> length text > 262144)"
  using assms by (auto simp: faktorEvidenceExpandedMessage_def Let_def message_def jobj_def cap_simps)

end
