(* ===== verification/NativeFields.thy ===== *)
theory NativeFields
  imports Encoding Checked
begin

text \<open>
  The field readers of the native client (\<open>apps/vscode/src/nativeClient.ts\<close>): every member
  of a response is read through one of them, and a member that is missing or of another
  type is a \<open>NativeProtocolError\<close> with the path of the member.

  A JSON object is the list of its members; \<open>hasOwnProperty\<close> is a lookup in it.  The readers
  take the member's name as an Isabelle string and the path as a JavaScript string.

  The locale \<open>decoder\<close> is the contract of a response validator: it accepts exactly the
  values that carry a record, the record is determined by the value, and an error lies
  under the path the validator was called with.  The validators of \<open>NativeReads\<close> and
  \<open>NativeTasks\<close> interpret it.
\<close>

section \<open>Protocol errors\<close>

record protocol_violation =
  pePath :: jsstr
  peDetail :: jsstr

type_synonym 'a checked = "protocol_violation + 'a"
type_synonym members = "jsval props"

definition protocol_message :: "protocol_violation \<Rightarrow> jsstr" where
  "protocol_message e = js ''native protocol violation at '' @ pePath e @ js '': '' @ peDetail e"

definition describe :: "jsval \<Rightarrow> jsstr" where
  "describe v =
     (case v of
        JNull \<Rightarrow> js ''null'' | JArr _ \<Rightarrow> js ''an array'' | JUndef \<Rightarrow> js ''undefined''
      | JBool _ \<Rightarrow> js ''boolean'' | JNum _ \<Rightarrow> js ''number'' | JStr _ \<Rightarrow> js ''string''
      | JObj _ \<Rightarrow> js ''object'')"

definition fail :: "jsstr \<Rightarrow> jsstr \<Rightarrow> 'a checked" where
  "fail path detail = Inl \<lparr>pePath = path, peDetail = detail\<rparr>"

definition expected :: "jsstr \<Rightarrow> string \<Rightarrow> jsval \<Rightarrow> 'a checked" where
  "expected path what v = fail path (js ''expected '' @ js what @ js '', got '' @ describe v)"

text \<open>The paths \<open>${path}.${key}\<close> and \<open>${path}[${index}]\<close>.\<close>

definition dot :: "jsstr \<Rightarrow> string \<Rightarrow> jsstr" where
  "dot path key = path @ [46] @ js key"

definition at_index :: "jsstr \<Rightarrow> nat \<Rightarrow> jsstr" where
  "at_index path i = path @ [91] @ decimal_nat i @ [93]"

section \<open>Field readers\<close>

definition asObject :: "jsval \<Rightarrow> jsstr \<Rightarrow> members checked" where
  "asObject v path = (case v of JObj ps \<Rightarrow> Inr ps | _ \<Rightarrow> expected path ''an object'' v)"

definition asArray :: "jsval \<Rightarrow> jsstr \<Rightarrow> jsval list checked" where
  "asArray v path = (case v of JArr vs \<Rightarrow> Inr vs | _ \<Rightarrow> expected path ''an array'' v)"

definition missing :: "jsstr \<Rightarrow> string \<Rightarrow> 'a checked" where
  "missing path key = fail path (js ''missing required field '' @ js key)"

fun checkResponseKeys :: "members \<Rightarrow> jsstr \<Rightarrow> string list \<Rightarrow> unit checked" where
  "checkResponseKeys ps path [] = Inr ()"
| "checkResponseKeys ps path (key # keys) =
     (if map_of ps (js key) = None then missing path key else checkResponseKeys ps path keys)"

definition field :: "members \<Rightarrow> string \<Rightarrow> jsstr \<Rightarrow> jsval checked" where
  "field ps key path = (case map_of ps (js key) of None \<Rightarrow> missing path key | Some v \<Rightarrow> Inr v)"

definition fString :: "members \<Rightarrow> string \<Rightarrow> jsstr \<Rightarrow> jsstr checked" where
  "fString ps key path = and_then (field ps key path) (\<lambda>v.
     case v of JStr s \<Rightarrow> Inr s | _ \<Rightarrow> expected (dot path key) ''a string'' v)"

definition fNumber :: "members \<Rightarrow> string \<Rightarrow> jsstr \<Rightarrow> rat checked" where
  "fNumber ps key path = and_then (field ps key path) (\<lambda>v.
     case v of JNum (Fin q) \<Rightarrow> Inr q | _ \<Rightarrow> expected (dot path key) ''a finite number'' v)"

definition fInt :: "members \<Rightarrow> string \<Rightarrow> jsstr \<Rightarrow> int checked" where
  "fInt ps key path = and_then (fNumber ps key path) (\<lambda>q.
     if of_int \<lfloor>q\<rfloor> = q then Inr \<lfloor>q\<rfloor>
     else fail (dot path key) (js ''expected an integer, got '' @ number_string (Fin q)))"

definition fBool :: "members \<Rightarrow> string \<Rightarrow> jsstr \<Rightarrow> bool checked" where
  "fBool ps key path = and_then (field ps key path) (\<lambda>v.
     case v of JBool b \<Rightarrow> Inr b | _ \<Rightarrow> expected (dot path key) ''a boolean'' v)"

definition fArray :: "members \<Rightarrow> string \<Rightarrow> jsstr \<Rightarrow> jsval list checked" where
  "fArray ps key path = and_then (field ps key path) (\<lambda>v. asArray v (dot path key))"

definition fNullableString :: "members \<Rightarrow> string \<Rightarrow> jsstr \<Rightarrow> jsstr option checked" where
  "fNullableString ps key path = and_then (field ps key path) (\<lambda>v.
     case v of JNull \<Rightarrow> Inr None | JStr s \<Rightarrow> Inr (Some s)
     | _ \<Rightarrow> expected (dot path key) ''a string or null'' v)"

definition fNullableInt :: "members \<Rightarrow> string \<Rightarrow> jsstr \<Rightarrow> int option checked" where
  "fNullableInt ps key path = and_then (field ps key path) (\<lambda>v.
     case v of
       JNull \<Rightarrow> Inr None
     | JNum x \<Rightarrow> (case integer_value x of Some i \<Rightarrow> Inr (Some i)
         | None \<Rightarrow> expected (dot path key) ''an integer or null'' v)
     | _ \<Rightarrow> expected (dot path key) ''an integer or null'' v)"

definition fNullableObject :: "members \<Rightarrow> string \<Rightarrow> jsstr \<Rightarrow> members option checked" where
  "fNullableObject ps key path = and_then (field ps key path) (\<lambda>v.
     if v = JNull then Inr None
     else and_then (asObject v (dot path key)) (\<lambda>qs. Inr (Some qs)))"

definition fObject :: "members \<Rightarrow> string \<Rightarrow> jsstr \<Rightarrow> members checked" where
  "fObject ps key path = and_then (field ps key path) (\<lambda>v. asObject v (dot path key))"

definition fJson :: "members \<Rightarrow> string \<Rightarrow> jsstr \<Rightarrow> jsval checked" where
  "fJson ps key path = field ps key path"

definition string_at :: "jsstr \<Rightarrow> nat \<Rightarrow> jsval \<Rightarrow> jsstr checked" where
  "string_at path i v = (case v of JStr s \<Rightarrow> Inr s | _ \<Rightarrow> expected (at_index path i) ''a string'' v)"

definition fStringArray :: "members \<Rightarrow> string \<Rightarrow> jsstr \<Rightarrow> jsstr list checked" where
  "fStringArray ps key path = and_then (fArray ps key path) (check_all 0 (string_at (dot path key)))"

definition fObjectArray :: "members \<Rightarrow> string \<Rightarrow> jsstr \<Rightarrow> members list checked" where
  "fObjectArray ps key path = and_then (fArray ps key path)
     (check_all 0 (\<lambda>i v. asObject v (at_index (dot path key) i)))"

text \<open>
  \<open>fObjectArray(object, key, path).map(...)\<close>: all entries are checked to be objects before
  the first one is read.  \<open>json.map(...)\<close> over the whole response reads entry by entry.
\<close>

definition objects_of ::
  "members \<Rightarrow> string \<Rightarrow> jsstr \<Rightarrow> (members \<Rightarrow> jsstr \<Rightarrow> 'a checked) \<Rightarrow> 'a list checked" where
  "objects_of ps key path read =
     and_then (fObjectArray ps key path) (check_all 0 (\<lambda>i qs. read qs (at_index (dot path key) i)))"

definition entries_of :: "jsval \<Rightarrow> jsstr \<Rightarrow> (members \<Rightarrow> jsstr \<Rightarrow> 'a checked) \<Rightarrow> 'a list checked" where
  "entries_of v path read =
     and_then (asArray v path)
       (check_all 0 (\<lambda>i w. and_then (asObject w (at_index path i)) (\<lambda>qs. read qs (at_index path i))))"

definition nullable ::
  "members option \<Rightarrow> jsstr \<Rightarrow> (members \<Rightarrow> jsstr \<Rightarrow> 'a checked) \<Rightarrow> 'a option checked" where
  "nullable x path read =
     (case x of None \<Rightarrow> Inr None | Some qs \<Rightarrow> and_then (read qs path) (\<lambda>y. Inr (Some y)))"

text \<open>\<open>key in object ? read : other\<close>\<close>

definition if_member ::
  "members \<Rightarrow> string \<Rightarrow> (members \<Rightarrow> string \<Rightarrow> jsstr \<Rightarrow> 'a checked) \<Rightarrow> jsstr \<Rightarrow> 'a \<Rightarrow> 'a checked" where
  "if_member ps key read path other =
     (if map_of ps (js key) = None then Inr other else read ps key path)"

section \<open>When a read succeeds\<close>

text \<open>\<open>has ps key v\<close>: the object has the member \<open>key\<close> with the value \<open>v\<close>.\<close>

definition has :: "members \<Rightarrow> string \<Rightarrow> jsval \<Rightarrow> bool" where
  "has ps key v \<longleftrightarrow> map_of ps (js key) = Some v"

definition JInt :: "int \<Rightarrow> jsval" where
  "JInt i = JNum (num_of_int i)"

definition jopt :: "('a \<Rightarrow> jsval) \<Rightarrow> 'a option \<Rightarrow> jsval" where
  "jopt f o' = (case o' of None \<Rightarrow> JNull | Some x \<Rightarrow> f x)"

lemma jopt_simps [simp]: "jopt f None = JNull" "jopt f (Some x) = f x"
  by (simp_all add: jopt_def)

lemma JInt_inject [simp]: "JInt i = JInt j \<longleftrightarrow> i = j"
  by (simp add: JInt_def)

lemma JInt_neq [simp]: "JInt i \<noteq> JNull" "JNull \<noteq> JInt i"
  by (simp_all add: JInt_def)

lemma jopt_inject [simp]:
  "jopt JStr x = jopt JStr y \<longleftrightarrow> x = y" "jopt JInt i = jopt JInt j \<longleftrightarrow> i = j"
  "jopt JBool b = jopt JBool c \<longleftrightarrow> b = c" "jopt JObj ps = jopt JObj qs \<longleftrightarrow> ps = qs"
  by (simp_all add: jopt_def split: option.split)

lemma has_unique: "has ps key v \<Longrightarrow> has ps key w \<Longrightarrow> v = w"
  by (simp add: has_def)

lemma expected_neq [simp]:
  "expected path what v \<noteq> Inr x" "fail path d \<noteq> Inr x" "missing path key \<noteq> Inr x"
  "Inr x \<noteq> expected path what v" "Inr x \<noteq> fail path d" "Inr x \<noteq> missing path key"
  by (simp_all add: expected_def fail_def missing_def)

lemma field_ok [decode_simps]: "field ps key path = Inr v \<longleftrightarrow> has ps key v"
  by (auto simp: field_def has_def split: option.split)

lemma checkResponseKeys_ok [decode_simps]:
  "checkResponseKeys ps path keys = Inr u \<longleftrightarrow> (\<forall>key \<in> set keys. \<exists>v. has ps key v)"
  by (induction keys) (auto simp: has_def)

lemma asObject_ok [decode_simps]: "asObject v path = Inr qs \<longleftrightarrow> v = JObj qs"
  by (cases v) (auto simp: asObject_def)

lemma asArray_ok [decode_simps]: "asArray v path = Inr vs \<longleftrightarrow> v = JArr vs"
  by (cases v) (auto simp: asArray_def)

lemma fString_ok [decode_simps]: "fString ps key path = Inr s \<longleftrightarrow> has ps key (JStr s)"
  by (auto simp: fString_def field_ok split: jsval.split_asm)

lemma fNumber_ok [decode_simps]: "fNumber ps key path = Inr q \<longleftrightarrow> has ps key (JNum (Fin q))"
  by (auto simp: fNumber_def field_ok split: jsval.split_asm jsnum.split_asm)

lemma fInt_ok [decode_simps]: "fInt ps key path = Inr i \<longleftrightarrow> has ps key (JInt i)"
  by (auto simp: fInt_def fNumber_ok JInt_def num_of_int_def)

lemma fBool_ok [decode_simps]: "fBool ps key path = Inr b \<longleftrightarrow> has ps key (JBool b)"
  by (auto simp: fBool_def field_ok split: jsval.split_asm)

lemma fArray_ok [decode_simps]: "fArray ps key path = Inr vs \<longleftrightarrow> has ps key (JArr vs)"
  by (auto simp: fArray_def field_ok asArray_ok)

lemma fNullableString_ok [decode_simps]:
  "fNullableString ps key path = Inr x \<longleftrightarrow> has ps key (jopt JStr x)"
  by (cases x) (auto simp: fNullableString_def field_ok split: jsval.split_asm)

lemma fNullableInt_ok [decode_simps]:
  "fNullableInt ps key path = Inr x \<longleftrightarrow> has ps key (jopt JInt x)"
  by (cases x) (auto simp: fNullableInt_def field_ok JInt_def integer_value_eq_Some_iff
      split: jsval.split_asm option.split_asm)

lemma fNullableObject_ok [decode_simps]:
  "fNullableObject ps key path = Inr x \<longleftrightarrow> has ps key (jopt JObj x)"
  by (cases x) (auto simp: fNullableObject_def field_ok asObject_ok)

lemma fObject_ok [decode_simps]: "fObject ps key path = Inr qs \<longleftrightarrow> has ps key (JObj qs)"
  by (auto simp: fObject_def field_ok asObject_ok)

lemma fJson_ok [decode_simps]: "fJson ps key path = Inr v \<longleftrightarrow> has ps key v"
  by (simp add: fJson_def field_ok)

lemma string_at_ok: "string_at path i v = Inr s \<longleftrightarrow> v = JStr s"
  by (cases v) (auto simp: string_at_def)

lemma list_all2_eq_map: "list_all2 (\<lambda>x y. x = f y) xs ys \<longleftrightarrow> xs = map f ys"
  by (auto simp: list_all2_conv_all_nth list_eq_iff_nth_eq)

lemma fStringArray_ok [decode_simps]:
  "fStringArray ps key path = Inr ss \<longleftrightarrow> has ps key (JArr (map JStr ss))"
  by (simp add: fStringArray_def fArray_ok check_all_pointwise [OF string_at_ok] list_all2_eq_map)

lemma fObjectArray_ok [decode_simps]:
  "fObjectArray ps key path = Inr qss \<longleftrightarrow> has ps key (JArr (map JObj qss))"
  by (simp add: fObjectArray_def fArray_ok check_all_pointwise [OF asObject_ok] list_all2_eq_map)

lemma if_member_ok:
  "if_member ps key read path other = Inr x \<longleftrightarrow>
     (if \<exists>v. has ps key v then read ps key path = Inr x else x = other)"
  by (auto simp: if_member_def has_def)

text \<open>An additive member: absent reads as the default, present must be well-formed.\<close>

definition additive :: "members \<Rightarrow> string \<Rightarrow> bool \<Rightarrow> bool \<Rightarrow> bool" where
  "additive ps key present absent \<longleftrightarrow> (if \<exists>v. has ps key v then present else absent)"

lemma if_member_additive [decode_simps]:
  "if_member ps key fArray p [] = Inr vs \<longleftrightarrow> additive ps key (has ps key (JArr vs)) (vs = [])"
  "if_member ps key fBool p False = Inr b \<longleftrightarrow> additive ps key (has ps key (JBool b)) (\<not> b)"
  "if_member ps key fNullableString p None = Inr s \<longleftrightarrow> additive ps key (has ps key (jopt JStr s)) (s = None)"
  "if_member ps key fNullableInt p None = Inr i \<longleftrightarrow> additive ps key (has ps key (jopt JInt i)) (i = None)"
  "if_member ps key fJson p JNull = Inr v \<longleftrightarrow> additive ps key (has ps key v) (v = JNull)"
  by (auto simp: additive_def if_member_ok decode_simps)

section \<open>Where an error lies\<close>

text \<open>\<open>located path r\<close>: an error of \<open>r\<close> has a path below \<open>path\<close>.\<close>

definition located :: "jsstr \<Rightarrow> 'a checked \<Rightarrow> bool" where
  "located path r \<longleftrightarrow> (\<forall>e. r = Inl e \<longrightarrow> starts_with path (pePath e))"

lemma starts_with_trans: "starts_with p q \<Longrightarrow> starts_with q s \<Longrightarrow> starts_with p s"
  by (metis append.assoc starts_withD starts_with_append)

lemma located_mono: "located q r \<Longrightarrow> starts_with p q \<Longrightarrow> located p r"
  by (auto simp: located_def intro: starts_with_trans)

lemma located_dot: "located (dot p key) r \<Longrightarrow> located p r"
  by (erule located_mono) (simp add: dot_def)

lemma located_at: "located (at_index p i) r \<Longrightarrow> located p r"
  by (erule located_mono) (simp add: at_index_def)

lemma located_Inr [located_intros, simp]: "located p (Inr x)"
  by (simp add: located_def)

lemma located_fail [simp]:
  "located p (fail p d)" "located p (expected p what v)" "located p (missing p key)"
  "located p (fail (dot p key) d)" "located p (expected (dot p key) what v)"
  "located p (expected (at_index p i) what v)"
  "located p (expected (at_index (dot p key) i) what v)"
  by (simp_all add: located_def fail_def expected_def missing_def dot_def at_index_def starts_with_def)

lemma located_and_then [located_intros]:
  "located p r \<Longrightarrow> (\<And>x. r = Inr x \<Longrightarrow> located p (f x)) \<Longrightarrow> located p (and_then r f)"
  by (cases r) (auto simp: located_def)

lemma located_check_all:
  "(\<And>i x. x \<in> set xs \<Longrightarrow> located p (f i x)) \<Longrightarrow> located p (check_all i f xs)"
  by (induction xs arbitrary: i) (auto intro!: located_and_then)

lemma located_checkResponseKeys [located_intros]: "located p (checkResponseKeys ps p keys)"
  by (induction keys) auto

lemma located_checkResponseKeys_dot [located_intros]: "located p (checkResponseKeys ps (dot p key) keys)"
  by (rule located_dot) (rule located_checkResponseKeys)

lemma located_field [located_intros]: "located p (field ps key p)"
  by (auto simp: field_def split: option.split)

lemma located_as [located_intros]:
  "located p (asObject v p)" "located p (asArray v p)"
  "located p (asObject v (dot p key))" "located p (asArray v (dot p key))"
  "located p (asObject v (at_index (dot p key) i))"
  by (auto simp: asObject_def asArray_def split: jsval.split)

lemma located_readers [located_intros]:
  "located p (fString ps key p)" "located p (fNumber ps key p)" "located p (fBool ps key p)"
  "located p (fNullableString ps key p)" "located p (fNullableInt ps key p)" "located p (fJson ps key p)"
  by (auto simp: fString_def fNumber_def fBool_def fNullableString_def fNullableInt_def fJson_def
      intro!: located_intros split: jsval.split jsnum.split option.split)

lemma located_arrays [located_intros]:
  "located p (fInt ps key p)" "located p (fArray ps key p)"
  "located p (fNullableObject ps key p)" "located p (fObject ps key p)"
  by (auto simp: fInt_def fArray_def fNullableObject_def fObject_def intro!: located_intros)

lemma located_fStringArray [located_intros]: "located p (fStringArray ps key p)"
  unfolding fStringArray_def
  by (intro located_intros located_check_all) (auto simp: string_at_def split: jsval.split)

lemma located_fObjectArray [located_intros]: "located p (fObjectArray ps key p)"
  unfolding fObjectArray_def by (intro located_intros located_check_all)

lemma located_objects_of [located_intros]:
  assumes "\<And>qs q. located q (read qs q)"
  shows "located p (objects_of ps key p read)"
  unfolding objects_of_def
  by (intro located_and_then located_fObjectArray located_check_all)
    (rule located_dot [OF located_at [OF assms]])

lemma located_entries_of [located_intros]:
  assumes "\<And>qs q. located q (read qs q)"
  shows "located p (entries_of v p read)"
proof -
  have "located p (and_then (asObject w (at_index p i)) (\<lambda>qs. read qs (at_index p i)))" for w i
    by (rule located_at [where i = i]) (intro located_and_then located_as assms)
  then show ?thesis
    unfolding entries_of_def by (intro located_and_then [OF located_as(2)] located_check_all)
qed

lemma located_nullable [located_intros]:
  "(\<And>qs. located p (read qs p)) \<Longrightarrow> located p (nullable x p read)"
  by (cases x) (auto simp: nullable_def intro!: located_intros)

lemma located_if_member [located_intros]:
  "(\<And>ps. located p (read ps key p)) \<Longrightarrow> located p (if_member ps key read p other)"
  by (simp add: if_member_def)

section \<open>The contract of a validator\<close>

text \<open>
  The members of nested objects: a list of objects, an object or \<open>null\<close>, an object.
\<close>

definition has_list :: "members \<Rightarrow> string \<Rightarrow> (members \<Rightarrow> 'a \<Rightarrow> bool) \<Rightarrow> 'a list \<Rightarrow> bool" where
  "has_list ps key carries rs \<longleftrightarrow>
     (\<exists>qss. has ps key (JArr (map JObj qss)) \<and> list_all2 carries qss rs)"

definition has_opt :: "members \<Rightarrow> string \<Rightarrow> (members \<Rightarrow> 'a \<Rightarrow> bool) \<Rightarrow> 'a option \<Rightarrow> bool" where
  "has_opt ps key carries r \<longleftrightarrow> (\<exists>x. has ps key (jopt JObj x) \<and> rel_option carries x r)"

definition has_obj :: "members \<Rightarrow> string \<Rightarrow> (members \<Rightarrow> 'a \<Rightarrow> bool) \<Rightarrow> 'a \<Rightarrow> bool" where
  "has_obj ps key carries r \<longleftrightarrow> (\<exists>qs. has ps key (JObj qs) \<and> carries qs r)"

lemma has_list_present: "has_list ps key C rs \<Longrightarrow> \<exists>v. map_of ps (js key) = Some v"
  by (auto simp: has_list_def has_def)

lemma has_opt_present: "has_opt ps key C r \<Longrightarrow> \<exists>v. map_of ps (js key) = Some v"
  by (auto simp: has_opt_def has_def)

lemma has_obj_present: "has_obj ps key C r' \<Longrightarrow> \<exists>v. map_of ps (js key) = Some v"
  by (auto simp: has_obj_def has_def)

lemmas present = has_list_present has_opt_present has_obj_present

definition agree :: "string list \<Rightarrow> members \<Rightarrow> members \<Rightarrow> bool" where
  "agree keys ps qs \<longleftrightarrow> (\<forall>key \<in> set keys. map_of ps (js key) = map_of qs (js key))"

lemma has_present: "has ps key v \<Longrightarrow> \<exists>v. has ps key v"
  by auto

lemma agreeD: "agree keys ps qs \<Longrightarrow> key \<in> set keys \<Longrightarrow> map_of ps (js key) = map_of qs (js key)"
  by (simp add: agree_def)

lemma field_cong:
  "agree keys ps qs \<Longrightarrow> key \<in> set keys \<Longrightarrow> field ps key p = field qs key p"
  by (simp add: field_def agreeD)

lemma checkResponseKeys_cong:
  "agree keys ps qs \<Longrightarrow> set ks \<subseteq> set keys \<Longrightarrow> checkResponseKeys ps p ks = checkResponseKeys qs p ks"
  by (induction ks) (auto simp: agreeD)

lemma readers_cong:
  assumes "agree keys ps qs" and "key \<in> set keys"
  shows "fString ps key p = fString qs key p" "fNumber ps key p = fNumber qs key p"
    "fBool ps key p = fBool qs key p" "fArray ps key p = fArray qs key p"
    "fNullableString ps key p = fNullableString qs key p"
    "fNullableInt ps key p = fNullableInt qs key p"
    "fNullableObject ps key p = fNullableObject qs key p" "fObject ps key p = fObject qs key p"
    "fJson ps key p = fJson qs key p"
  using field_cong [OF assms]
  by (simp_all add: fString_def fNumber_def fBool_def fArray_def fNullableString_def
      fNullableInt_def fNullableObject_def fObject_def fJson_def)

lemma composed_cong:
  assumes "agree keys ps qs" and "key \<in> set keys"
  shows "fInt ps key p = fInt qs key p" "fStringArray ps key p = fStringArray qs key p"
    "objects_of ps key p read = objects_of qs key p read"
    "if_member ps key fString p d = if_member qs key fString p d"
    "if_member ps key fNullableString p d1 = if_member qs key fNullableString p d1"
    "if_member ps key fNullableInt p d2 = if_member qs key fNullableInt p d2"
    "if_member ps key fJson p d3 = if_member qs key fJson p d3"
    "if_member ps key fBool p d4 = if_member qs key fBool p d4"
    "if_member ps key fArray p d5 = if_member qs key fArray p d5"
    "if_member ps key fNullableObject p d6 = if_member qs key fNullableObject p d6"
  using readers_cong [OF assms] agreeD [OF assms]
  by (simp_all add: fInt_def fStringArray_def objects_of_def fObjectArray_def if_member_def)

declare checkResponseKeys.simps [simp del]

lemma and_then_cong:
  "r = r' \<Longrightarrow> (\<And>x. r' = Inr x \<Longrightarrow> f x = g x) \<Longrightarrow> and_then r f = and_then r' g"
  by (cases r') auto

lemmas member_cong = field_cong checkResponseKeys_cong readers_cong composed_cong

lemmas reader_cong = and_then_cong member_cong

text \<open>
  \<open>reader\<close>: errors lie under the path, and only the known members matter.  That is the
  additive contract: a member of another name changes nothing, nor does the order.
\<close>

locale reader =
  fixes read :: "members \<Rightarrow> jsstr \<Rightarrow> 'a checked"
    and known :: "string list"
  assumes read_located: "located p (read ps p)"
    and read_known: "agree known ps qs \<Longrightarrow> read ps p = read qs p"
begin

lemma unknown_member: "key \<notin> set (map js known) \<Longrightarrow> read (jdefine ps key v) p = read ps p"
  by (rule read_known) (auto simp: agree_def)

lemma appended_members:
  assumes "fst ` set extra \<inter> set (map js known) = {}"
  shows "read (ps @ extra) p = read ps p"
proof (rule read_known)
  have "map_of extra (js key) = None" if "key \<in> set known" for key
    using assms that by (auto simp: map_of_eq_None_iff)
  then show "agree known (ps @ extra) ps"
    by (simp add: agree_def map_add_def split: option.split)
qed

lemma member_order:
  "distinct (map fst ps) \<Longrightarrow> distinct (map fst qs) \<Longrightarrow> set ps = set qs \<Longrightarrow> read ps p = read qs p"
  by (rule read_known) (use map_of_inject_set [of ps qs] in \<open>simp add: agree_def\<close>)

lemma check_all_known:
  "list_all2 (agree known) pss qss \<Longrightarrow>
     check_all i (\<lambda>i w. and_then (asObject w (at_index p i)) (\<lambda>qs. read qs (at_index p i))) (map JObj pss) =
     check_all i (\<lambda>i w. and_then (asObject w (at_index p i)) (\<lambda>qs. read qs (at_index p i))) (map JObj qss)"
proof (induction arbitrary: i rule: list_all2_induct)
  case (Cons ps pss qs qss)
  then show ?case using read_known [OF Cons(1)] by (simp add: asObject_def)
qed simp

lemma entries_known:
  "list_all2 (agree known) pss qss \<Longrightarrow>
     entries_of (JArr (map JObj pss)) p read = entries_of (JArr (map JObj qss)) p read"
  by (simp add: entries_of_def asArray_def check_all_known)

lemma entries_appended:
  assumes "\<And>i. i < length pss \<Longrightarrow> fst ` set (extra i) \<inter> set (map js known) = {}"
  shows "entries_of (JArr (map (\<lambda>i. JObj (pss ! i @ extra i)) [0..<length pss])) p read
    = entries_of (JArr (map JObj pss)) p read"
proof -
  have "agree known (pss ! i @ extra i) (pss ! i)" if "i < length pss" for i
  proof -
    have "map_of (extra i) (js key) = None" if "key \<in> set known" for key
      using assms [OF \<open>i < length pss\<close>] that by (auto simp: map_of_eq_None_iff)
    then show ?thesis by (simp add: agree_def map_add_def split: option.split)
  qed
  then have "list_all2 (agree known) (map (\<lambda>i. pss ! i @ extra i) [0..<length pss]) pss"
    by (simp add: list_all2_conv_all_nth)
  from entries_known [OF this] show ?thesis by (simp add: comp_def)
qed

lemma read_located' [located_intros]:
  "located p (read ps p)" "located p (read ps (dot p key))"
  "located p (nullable x (dot p key) read)"
  by (rule read_located, rule located_dot, rule read_located)
    (rule located_dot, rule located_nullable, rule read_located)

lemma entries_error:
  "entries_of v p read = Inl e \<Longrightarrow> starts_with p (pePath e)"
  using located_entries_of [OF read_located, of p v] by (simp add: located_def)

lemma object_error:
  "and_then (asObject v p) (\<lambda>obj. read obj p) = Inl e \<Longrightarrow> starts_with p (pePath e)"
  using located_and_then [OF located_as(1) read_located, of p v] by (simp add: located_def)

end

locale decoder = reader read known
  for read :: "members \<Rightarrow> jsstr \<Rightarrow> 'a checked"
    and carries :: "members \<Rightarrow> 'a \<Rightarrow> bool"
    and known :: "string list" +
  assumes read_ok: "read ps p = Inr r \<longleftrightarrow> carries ps r"
begin

lemma carries_unique: "carries ps r \<Longrightarrow> carries ps s \<Longrightarrow> r = s"
  by (metis read_ok sum.inject(2))

lemma accepts: "(\<exists>r. read ps p = Inr r) \<longleftrightarrow> (\<exists>r. carries ps r)"
  by (simp add: read_ok)

lemma rejects: "(\<nexists>r. carries ps r) \<Longrightarrow> \<exists>e. read ps p = Inl e \<and> starts_with p (pePath e)"
  using read_located [of p ps] by (cases "read ps p") (auto simp: read_ok located_def)

lemma object_ok [decode_simps]:
  "and_then (asObject v p) (\<lambda>obj. read obj p) = Inr r \<longleftrightarrow> (\<exists>ps. v = JObj ps \<and> carries ps r)"
  by (auto simp: asObject_ok read_ok)

lemma objects_ok [decode_simps]:
  "objects_of ps key p read = Inr rs \<longleftrightarrow> has_list ps key carries rs"
proof -
  have "check_all 0 (\<lambda>i qs. read qs (at_index (dot p key) i)) qss = Inr rs \<longleftrightarrow> list_all2 carries qss rs"
    for qss by (rule check_all_pointwise) (rule read_ok)
  then show ?thesis by (simp add: objects_of_def fObjectArray_ok has_list_def)
qed

lemma entries_ok [decode_simps]:
  "entries_of v p read = Inr rs \<longleftrightarrow> (\<exists>qss. v = JArr (map JObj qss) \<and> list_all2 carries qss rs)"
proof -
  have entry: "and_then (asObject w (at_index p i)) (\<lambda>qs. read qs (at_index p i)) = Inr r \<longleftrightarrow>
      (\<exists>qs. w = JObj qs \<and> carries qs r)" for w i r
    by (auto simp: asObject_ok read_ok)
  have "list_all2 (\<lambda>w r. \<exists>qs. w = JObj qs \<and> carries qs r) ws rs \<longleftrightarrow>
      (\<exists>qss. ws = map JObj qss \<and> list_all2 carries qss rs)" for ws
  proof (induction ws arbitrary: rs)
    case (Cons w ws)
    show ?case by (cases rs) (auto simp: Cons.IH map_eq_Cons_conv intro: exI [of _ "_ # _"])
  qed auto
  then show ?thesis
    by (auto simp: entries_of_def asArray_ok check_all_pointwise [OF entry])
qed

lemma nullable_ok [decode_simps]: "nullable x p read = Inr r \<longleftrightarrow> rel_option carries x r"
  by (cases x; cases r) (auto simp: nullable_def read_ok)

lemma read_iff [decode_simps]: "read ps p = Inr r \<longleftrightarrow> carries ps r"
  by (rule read_ok)

end

end
