(* ===== verification/NativeReads.thy ===== *)
theory NativeReads
  imports NativeFields
begin

text \<open>
  The read side of the native client: the response types and validators of sessions, the
  model catalog, the projection, turns, checkpoints, messages, events, usage, evidence and
  the semantic status (\<open>apps/vscode/src/nativeClient.ts\<close>).

  A validator is a reader of one object at a path, with its checks in the order of the
  source, so that the first violation of a response is the one reported.  \<open>carries_x\<close> is
  what the record promises: each field is the member of the object it was read from.  The
  interpretations of \<open>decoder\<close> discharge the contract for each reader; the exact
  acceptance of a whole response then follows from the parts.
\<close>

section \<open>Health, sessions and the model catalog\<close>

record native_health =
  nhOk :: bool
  nhVersion :: jsstr

record session_created =
  scId :: jsstr
  scTitle :: jsstr
  scCreatedMs :: int

record session_row =
  srId :: jsstr
  srTitle :: jsstr
  srProvider :: jsstr
  srModel :: jsstr
  srState :: jsstr

record model_info =
  miProvider :: jsstr
  miModel :: jsstr
  miContext :: rat
  miMaxOutput :: rat
  miTools :: bool
  miParallelTools :: bool
  miReasoning :: bool
  miThinking :: bool
  miVision :: bool
  miStructuredOutput :: bool
  miEmbeddings :: bool
  miStreaming :: bool
  miSource :: jsstr

definition validateHealth :: "jsval \<Rightarrow> native_health checked" where
  "validateHealth json =
     (let path = js ''GET /native/health''
      in and_then (asObject json path) (\<lambda>obj.
         and_then (checkResponseKeys obj path [''ok'', ''version'']) (\<lambda>_.
         and_then (fBool obj ''ok'' path) (\<lambda>ok.
         and_then (fString obj ''version'' path) (\<lambda>version.
         Inr \<lparr>nhOk = ok, nhVersion = version\<rparr>)))))"

definition validateReady :: "jsval \<Rightarrow> bool checked" where
  "validateReady json =
     (let path = js ''GET /native/ready''
      in and_then (asObject json path) (\<lambda>obj.
         and_then (checkResponseKeys obj path [''ready'']) (\<lambda>_.
         fBool obj ''ready'' path)))"

definition session_created_at :: "members \<Rightarrow> jsstr \<Rightarrow> session_created checked" where
  "session_created_at obj path =
     and_then (checkResponseKeys obj path [''id'', ''title'', ''created_ms'']) (\<lambda>_.
     and_then (fString obj ''id'' path) (\<lambda>id'.
     and_then (fString obj ''title'' path) (\<lambda>title.
     and_then (fInt obj ''created_ms'' path) (\<lambda>created.
     Inr \<lparr>scId = id', scTitle = title, scCreatedMs = created\<rparr>))))"

definition validateSessionCreated :: "jsval \<Rightarrow> session_created checked" where
  "validateSessionCreated json =
     (let path = js ''POST /session/create''
      in and_then (asObject json path) (\<lambda>obj. session_created_at obj path))"

definition validateSessionSummary :: "members \<Rightarrow> jsstr \<Rightarrow> session_row checked" where
  "validateSessionSummary obj path =
     and_then (checkResponseKeys obj path [''id'', ''title'', ''provider'', ''model'', ''state'']) (\<lambda>_.
     and_then (fString obj ''id'' path) (\<lambda>id'.
     and_then (fString obj ''title'' path) (\<lambda>title.
     and_then (fString obj ''provider'' path) (\<lambda>provider.
     and_then (fString obj ''model'' path) (\<lambda>model.
     and_then (fString obj ''state'' path) (\<lambda>state.
     Inr \<lparr>srId = id', srTitle = title, srProvider = provider, srModel = model, srState = state\<rparr>))))))"

definition validateSessionList :: "jsval \<Rightarrow> session_row list checked" where
  "validateSessionList json =
     (let path = js ''GET /session/list''
      in and_then (asObject json path) (\<lambda>obj.
         and_then (checkResponseKeys obj path [''sessions'']) (\<lambda>_.
         objects_of obj ''sessions'' path validateSessionSummary)))"

definition model_info_at :: "members \<Rightarrow> jsstr \<Rightarrow> model_info checked" where
  "model_info_at obj path =
     and_then (checkResponseKeys obj path [''provider'', ''model'', ''context'', ''maxOutput'', ''tools'',
       ''parallelTools'', ''reasoning'', ''thinking'', ''vision'', ''structuredOutput'', ''embeddings'',
       ''streaming'', ''source'']) (\<lambda>_.
     and_then (fString obj ''provider'' path) (\<lambda>provider.
     and_then (fString obj ''model'' path) (\<lambda>model.
     and_then (fNumber obj ''context'' path) (\<lambda>context'.
     and_then (fNumber obj ''maxOutput'' path) (\<lambda>maxOutput.
     and_then (fBool obj ''tools'' path) (\<lambda>tools.
     and_then (fBool obj ''parallelTools'' path) (\<lambda>parallelTools.
     and_then (fBool obj ''reasoning'' path) (\<lambda>reasoning.
     and_then (fBool obj ''thinking'' path) (\<lambda>thinking.
     and_then (fBool obj ''vision'' path) (\<lambda>vision.
     and_then (fBool obj ''structuredOutput'' path) (\<lambda>structuredOutput.
     and_then (fBool obj ''embeddings'' path) (\<lambda>embeddings.
     and_then (fBool obj ''streaming'' path) (\<lambda>streaming.
     and_then (fString obj ''source'' path) (\<lambda>source.
     Inr \<lparr>miProvider = provider, miModel = model, miContext = context', miMaxOutput = maxOutput,
          miTools = tools, miParallelTools = parallelTools, miReasoning = reasoning,
          miThinking = thinking, miVision = vision, miStructuredOutput = structuredOutput,
          miEmbeddings = embeddings, miStreaming = streaming, miSource = source\<rparr>))))))))))))))"

definition validateModelCatalog :: "jsval \<Rightarrow> model_info list checked" where
  "validateModelCatalog json = entries_of json (js ''GET /models'') model_info_at"

definition carries_session_created :: "members \<Rightarrow> session_created \<Rightarrow> bool" where
  "carries_session_created ps r \<longleftrightarrow>
     has ps ''id'' (JStr (scId r)) \<and> has ps ''title'' (JStr (scTitle r))
     \<and> has ps ''created_ms'' (JInt (scCreatedMs r))"

definition carries_session_row :: "members \<Rightarrow> session_row \<Rightarrow> bool" where
  "carries_session_row ps r \<longleftrightarrow>
     has ps ''id'' (JStr (srId r)) \<and> has ps ''title'' (JStr (srTitle r))
     \<and> has ps ''provider'' (JStr (srProvider r)) \<and> has ps ''model'' (JStr (srModel r))
     \<and> has ps ''state'' (JStr (srState r))"

definition carries_model_info :: "members \<Rightarrow> model_info \<Rightarrow> bool" where
  "carries_model_info ps r \<longleftrightarrow>
     has ps ''provider'' (JStr (miProvider r)) \<and> has ps ''model'' (JStr (miModel r))
     \<and> has ps ''context'' (JNum (Fin (miContext r))) \<and> has ps ''maxOutput'' (JNum (Fin (miMaxOutput r)))
     \<and> has ps ''tools'' (JBool (miTools r)) \<and> has ps ''parallelTools'' (JBool (miParallelTools r))
     \<and> has ps ''reasoning'' (JBool (miReasoning r)) \<and> has ps ''thinking'' (JBool (miThinking r))
     \<and> has ps ''vision'' (JBool (miVision r)) \<and> has ps ''structuredOutput'' (JBool (miStructuredOutput r))
     \<and> has ps ''embeddings'' (JBool (miEmbeddings r)) \<and> has ps ''streaming'' (JBool (miStreaming r))
     \<and> has ps ''source'' (JStr (miSource r))"

definition model_info_keys :: "string list" where
  "model_info_keys = [''provider'', ''model'', ''context'', ''maxOutput'', ''tools'',
     ''parallelTools'', ''reasoning'', ''thinking'', ''vision'', ''structuredOutput'', ''embeddings'',
     ''streaming'', ''source'']"

interpretation session_created: decoder session_created_at carries_session_created
  "[''id'', ''title'', ''created_ms'']"
  by unfold_locales (auto simp: session_created_at_def carries_session_created_def has_def decode_simps
      intro!: located_intros reader_cong)

interpretation session_row: decoder validateSessionSummary carries_session_row
  "[''id'', ''title'', ''provider'', ''model'', ''state'']"
  by unfold_locales (auto simp: validateSessionSummary_def carries_session_row_def has_def decode_simps
      intro!: located_intros reader_cong)

interpretation model_info: decoder model_info_at carries_model_info model_info_keys
proof unfold_locales
  show "model_info_at ps p = Inr r \<longleftrightarrow> carries_model_info ps r" for ps p r
    by (cases r) (auto simp: model_info_at_def carries_model_info_def has_def decode_simps)
qed (auto simp: model_info_at_def model_info_keys_def intro!: located_intros reader_cong)

section \<open>The session projection\<close>

record projection_session =
  pjId :: jsstr
  pjTitle :: jsstr
  pjProvider :: jsstr
  pjModel :: jsstr
  pjLifecycle :: jsstr

record projection_state =
  pjMachine :: jsstr
  pjLabel :: jsstr
  pjActive :: bool
  pjTerminal :: bool

record active_model =
  amProvider :: jsstr
  amModel :: jsstr
  amVariant :: "jsstr option"

record active_tool =
  atTool :: jsstr
  atOpId :: jsstr
  atStartedMs :: int
  atStatus :: jsstr

record last_checkpoint =
  lcSequence :: int
  lcPath :: jsstr
  lcCreatedMs :: int
  lcRestoredMs :: "int option"

record verification_entry =
  veOpId :: jsstr
  veTool :: jsstr
  veStartedMs :: int
  veEffect :: "jsstr option"

record prefix_stability =
  sbObservations :: int
  sbMean :: rat
  sbStdDev :: rat

record native_projection =
  npSession :: projection_session
  npState :: projection_state
  npActiveModel :: "active_model option"
  npActiveTool :: "active_tool option"
  npProgress :: jsval
  npFilesChanged :: "jsstr list"
  npLastCheckpoint :: "last_checkpoint option"
  npVerification :: "verification_entry list"
  npContextUsage :: jsval
  npQueued :: int
  npPrefixStability :: "prefix_stability option"

definition active_model_at :: "members \<Rightarrow> jsstr \<Rightarrow> active_model checked" where
  "active_model_at obj path =
     and_then (checkResponseKeys obj path [''provider'', ''model'', ''variant'']) (\<lambda>_.
     and_then (fString obj ''provider'' path) (\<lambda>provider.
     and_then (fString obj ''model'' path) (\<lambda>model.
     and_then (fNullableString obj ''variant'' path) (\<lambda>variant.
     Inr \<lparr>amProvider = provider, amModel = model, amVariant = variant\<rparr>))))"

definition active_tool_at :: "members \<Rightarrow> jsstr \<Rightarrow> active_tool checked" where
  "active_tool_at obj path =
     and_then (checkResponseKeys obj path [''tool'', ''opId'', ''startedMs'', ''status'']) (\<lambda>_.
     and_then (fString obj ''tool'' path) (\<lambda>tool.
     and_then (fString obj ''opId'' path) (\<lambda>opId.
     and_then (fInt obj ''startedMs'' path) (\<lambda>started.
     and_then (fString obj ''status'' path) (\<lambda>status.
     Inr \<lparr>atTool = tool, atOpId = opId, atStartedMs = started, atStatus = status\<rparr>)))))"

definition last_checkpoint_at :: "members \<Rightarrow> jsstr \<Rightarrow> last_checkpoint checked" where
  "last_checkpoint_at obj path =
     and_then (checkResponseKeys obj path [''sequence'', ''path'', ''createdMs'', ''restoredMs'']) (\<lambda>_.
     and_then (fInt obj ''sequence'' path) (\<lambda>sequence.
     and_then (fString obj ''path'' path) (\<lambda>file.
     and_then (fInt obj ''createdMs'' path) (\<lambda>created.
     and_then (fNullableInt obj ''restoredMs'' path) (\<lambda>restored.
     Inr \<lparr>lcSequence = sequence, lcPath = file, lcCreatedMs = created, lcRestoredMs = restored\<rparr>)))))"

definition verification_entry_at :: "members \<Rightarrow> jsstr \<Rightarrow> verification_entry checked" where
  "verification_entry_at obj path =
     and_then (checkResponseKeys obj path [''opId'', ''tool'', ''startedMs'', ''effectStatus'']) (\<lambda>_.
     and_then (fString obj ''opId'' path) (\<lambda>opId.
     and_then (fString obj ''tool'' path) (\<lambda>tool.
     and_then (fInt obj ''startedMs'' path) (\<lambda>started.
     and_then (fNullableString obj ''effectStatus'' path) (\<lambda>effect.
     Inr \<lparr>veOpId = opId, veTool = tool, veStartedMs = started, veEffect = effect\<rparr>)))))"

definition prefix_stability_at :: "members \<Rightarrow> jsstr \<Rightarrow> prefix_stability checked" where
  "prefix_stability_at obj path =
     and_then (checkResponseKeys obj path [''observations'', ''mean'', ''stdDev'']) (\<lambda>_.
     and_then (fInt obj ''observations'' path) (\<lambda>observations.
     and_then (fNumber obj ''mean'' path) (\<lambda>mean.
     and_then (fNumber obj ''stdDev'' path) (\<lambda>stdDev.
     Inr \<lparr>sbObservations = observations, sbMean = mean, sbStdDev = stdDev\<rparr>))))"

text \<open>The session and state members are looked at twice: their keys first, their values last.\<close>

definition projection_session_at :: "members \<Rightarrow> jsstr \<Rightarrow> projection_session checked" where
  "projection_session_at session path =
     and_then (fString session ''id'' path) (\<lambda>id'.
     and_then (fString session ''title'' path) (\<lambda>title.
     and_then (fString session ''provider'' path) (\<lambda>provider.
     and_then (fString session ''model'' path) (\<lambda>model.
     and_then (fString session ''lifecycle'' path) (\<lambda>lifecycle.
     Inr \<lparr>pjId = id', pjTitle = title, pjProvider = provider, pjModel = model,
          pjLifecycle = lifecycle\<rparr>)))))"

definition projection_state_at :: "members \<Rightarrow> jsstr \<Rightarrow> projection_state checked" where
  "projection_state_at state path =
     and_then (fString state ''machine'' path) (\<lambda>machine.
     and_then (fString state ''label'' path) (\<lambda>label.
     and_then (fBool state ''active'' path) (\<lambda>active.
     and_then (fBool state ''terminal'' path) (\<lambda>terminal.
     Inr \<lparr>pjMachine = machine, pjLabel = label, pjActive = active, pjTerminal = terminal\<rparr>))))"

definition validateProjectionAt :: "members \<Rightarrow> jsstr \<Rightarrow> native_projection checked" where
  "validateProjectionAt obj path =
     and_then (checkResponseKeys obj path [''session'', ''state'', ''activeModel'', ''activeTool'',
       ''progress'', ''filesChanged'', ''lastCheckpoint'', ''verification'', ''contextUsage'', ''queued'']) (\<lambda>_.
     and_then (fObject obj ''session'' path) (\<lambda>session.
     and_then (checkResponseKeys session (dot path ''session'')
       [''id'', ''title'', ''provider'', ''model'', ''lifecycle'']) (\<lambda>_.
     and_then (fObject obj ''state'' path) (\<lambda>state.
     and_then (checkResponseKeys state (dot path ''state'')
       [''machine'', ''label'', ''active'', ''terminal'']) (\<lambda>_.
     and_then (fNullableObject obj ''activeModel'' path) (\<lambda>activeModelRaw.
     and_then (nullable activeModelRaw (dot path ''activeModel'') active_model_at) (\<lambda>activeModel.
     and_then (fNullableObject obj ''activeTool'' path) (\<lambda>activeToolRaw.
     and_then (nullable activeToolRaw (dot path ''activeTool'') active_tool_at) (\<lambda>activeTool.
     and_then (fNullableObject obj ''lastCheckpoint'' path) (\<lambda>checkpointRaw.
     and_then (nullable checkpointRaw (dot path ''lastCheckpoint'') last_checkpoint_at) (\<lambda>lastCheckpoint.
     and_then (objects_of obj ''verification'' path verification_entry_at) (\<lambda>verification.
     and_then (if_member obj ''prefixStability'' fNullableObject path None) (\<lambda>prefixRaw.
     and_then (nullable prefixRaw (dot path ''prefixStability'') prefix_stability_at) (\<lambda>prefixStability.
     and_then (projection_session_at session (dot path ''session'')) (\<lambda>sessionView.
     and_then (projection_state_at state (dot path ''state'')) (\<lambda>stateView.
     and_then (fJson obj ''progress'' path) (\<lambda>progress.
     and_then (fStringArray obj ''filesChanged'' path) (\<lambda>filesChanged.
     and_then (fJson obj ''contextUsage'' path) (\<lambda>contextUsage.
     and_then (fInt obj ''queued'' path) (\<lambda>queued.
     Inr \<lparr>npSession = sessionView, npState = stateView, npActiveModel = activeModel,
          npActiveTool = activeTool, npProgress = progress, npFilesChanged = filesChanged,
          npLastCheckpoint = lastCheckpoint, npVerification = verification,
          npContextUsage = contextUsage, npQueued = queued,
          npPrefixStability = prefixStability\<rparr>))))))))))))))))))))"

definition validateProjection :: "jsval \<Rightarrow> native_projection checked" where
  "validateProjection json =
     (let path = js ''GET /session/{id}/projection''
      in and_then (asObject json path) (\<lambda>obj. validateProjectionAt obj path))"

definition carries_active_model :: "members \<Rightarrow> active_model \<Rightarrow> bool" where
  "carries_active_model ps r \<longleftrightarrow>
     has ps ''provider'' (JStr (amProvider r)) \<and> has ps ''model'' (JStr (amModel r))
     \<and> has ps ''variant'' (jopt JStr (amVariant r))"

definition carries_active_tool :: "members \<Rightarrow> active_tool \<Rightarrow> bool" where
  "carries_active_tool ps r \<longleftrightarrow>
     has ps ''tool'' (JStr (atTool r)) \<and> has ps ''opId'' (JStr (atOpId r))
     \<and> has ps ''startedMs'' (JInt (atStartedMs r)) \<and> has ps ''status'' (JStr (atStatus r))"

definition carries_checkpoint :: "members \<Rightarrow> last_checkpoint \<Rightarrow> bool" where
  "carries_checkpoint ps r \<longleftrightarrow>
     has ps ''sequence'' (JInt (lcSequence r)) \<and> has ps ''path'' (JStr (lcPath r))
     \<and> has ps ''createdMs'' (JInt (lcCreatedMs r)) \<and> has ps ''restoredMs'' (jopt JInt (lcRestoredMs r))"

definition carries_verification_entry :: "members \<Rightarrow> verification_entry \<Rightarrow> bool" where
  "carries_verification_entry ps r \<longleftrightarrow>
     has ps ''opId'' (JStr (veOpId r)) \<and> has ps ''tool'' (JStr (veTool r))
     \<and> has ps ''startedMs'' (JInt (veStartedMs r)) \<and> has ps ''effectStatus'' (jopt JStr (veEffect r))"

definition carries_stability :: "members \<Rightarrow> prefix_stability \<Rightarrow> bool" where
  "carries_stability ps r \<longleftrightarrow>
     has ps ''observations'' (JInt (sbObservations r)) \<and> has ps ''mean'' (JNum (Fin (sbMean r)))
     \<and> has ps ''stdDev'' (JNum (Fin (sbStdDev r)))"

definition carries_session_part :: "members \<Rightarrow> projection_session \<Rightarrow> bool" where
  "carries_session_part ps r \<longleftrightarrow>
     has ps ''id'' (JStr (pjId r)) \<and> has ps ''title'' (JStr (pjTitle r))
     \<and> has ps ''provider'' (JStr (pjProvider r)) \<and> has ps ''model'' (JStr (pjModel r))
     \<and> has ps ''lifecycle'' (JStr (pjLifecycle r))"

definition carries_state_part :: "members \<Rightarrow> projection_state \<Rightarrow> bool" where
  "carries_state_part ps r \<longleftrightarrow>
     has ps ''machine'' (JStr (pjMachine r)) \<and> has ps ''label'' (JStr (pjLabel r))
     \<and> has ps ''active'' (JBool (pjActive r)) \<and> has ps ''terminal'' (JBool (pjTerminal r))"

definition carries_projection :: "members \<Rightarrow> native_projection \<Rightarrow> bool" where
  "carries_projection ps r \<longleftrightarrow>
     has_obj ps ''session'' carries_session_part (npSession r)
     \<and> has_obj ps ''state'' carries_state_part (npState r)
     \<and> has_opt ps ''activeModel'' carries_active_model (npActiveModel r)
     \<and> has_opt ps ''activeTool'' carries_active_tool (npActiveTool r)
     \<and> has ps ''progress'' (npProgress r)
     \<and> has ps ''filesChanged'' (JArr (map JStr (npFilesChanged r)))
     \<and> has_opt ps ''lastCheckpoint'' carries_checkpoint (npLastCheckpoint r)
     \<and> has_list ps ''verification'' carries_verification_entry (npVerification r)
     \<and> has ps ''contextUsage'' (npContextUsage r)
     \<and> has ps ''queued'' (JInt (npQueued r))
     \<and> additive ps ''prefixStability''
         (has_opt ps ''prefixStability'' carries_stability (npPrefixStability r))
         (npPrefixStability r = None)"

interpretation active_model: decoder active_model_at carries_active_model
  "[''provider'', ''model'', ''variant'']"
  by unfold_locales (auto simp: active_model_at_def carries_active_model_def has_def decode_simps
      intro!: located_intros reader_cong)

interpretation active_tool: decoder active_tool_at carries_active_tool
  "[''tool'', ''opId'', ''startedMs'', ''status'']"
  by unfold_locales (auto simp: active_tool_at_def carries_active_tool_def has_def decode_simps
      intro!: located_intros reader_cong)

interpretation last_checkpoint: decoder last_checkpoint_at carries_checkpoint
  "[''sequence'', ''path'', ''createdMs'', ''restoredMs'']"
  by unfold_locales (auto simp: last_checkpoint_at_def carries_checkpoint_def has_def decode_simps
      intro!: located_intros reader_cong)

interpretation verification_entry: decoder verification_entry_at carries_verification_entry
  "[''opId'', ''tool'', ''startedMs'', ''effectStatus'']"
  by unfold_locales (auto simp: verification_entry_at_def carries_verification_entry_def has_def decode_simps
      intro!: located_intros reader_cong)

interpretation prefix_stability: decoder prefix_stability_at carries_stability
  "[''observations'', ''mean'', ''stdDev'']"
  by unfold_locales (auto simp: prefix_stability_at_def carries_stability_def has_def decode_simps
      intro!: located_intros reader_cong)

interpretation projection_session: decoder projection_session_at carries_session_part
  "[''id'', ''title'', ''provider'', ''model'', ''lifecycle'']"
  by unfold_locales (auto simp: projection_session_at_def carries_session_part_def has_def decode_simps
      intro!: located_intros reader_cong)

interpretation projection_state: decoder projection_state_at carries_state_part
  "[''machine'', ''label'', ''active'', ''terminal'']"
  by unfold_locales (auto simp: projection_state_at_def carries_state_part_def has_def decode_simps
      intro!: located_intros reader_cong)

definition projection_keys :: "string list" where
  "projection_keys = [''session'', ''state'', ''activeModel'', ''activeTool'', ''progress'',
     ''filesChanged'', ''lastCheckpoint'', ''verification'', ''contextUsage'', ''queued'',
     ''prefixStability'']"

text \<open>Keys of a part that its values imply.\<close>

lemma session_part_keys:
  "carries_session_part ps r \<Longrightarrow>
     (\<forall>key \<in> set [''id'', ''title'', ''provider'', ''model'', ''lifecycle'']. \<exists>v. has ps key v)"
  by (auto simp: carries_session_part_def)

lemma state_part_keys:
  "carries_state_part ps r \<Longrightarrow>
     (\<forall>key \<in> set [''machine'', ''label'', ''active'', ''terminal'']. \<exists>v. has ps key v)"
  by (auto simp: carries_state_part_def)

lemma projection_keys_present:
  "carries_projection ps r \<Longrightarrow> (\<forall>key \<in> set (butlast projection_keys). \<exists>v. has ps key v)"
  by (auto simp: carries_projection_def projection_keys_def has_obj_def has_opt_def has_list_def)

lemma rel_option_None_iff [simp]: "rel_option C x None \<longleftrightarrow> x = None" "rel_option C None y \<longleftrightarrow> y = None"
  by (cases x; cases y; simp)+

lemma projection_ok: "validateProjectionAt ps p = Inr r \<longleftrightarrow> carries_projection ps r"
proof
  assume "validateProjectionAt ps p = Inr r"
  then show "carries_projection ps r"
    by (cases r) (auto simp: validateProjectionAt_def if_member_ok decode_simps carries_projection_def
        has_obj_def has_opt_def additive_def simp del: list.set split: if_split_asm)
next
  assume r: "carries_projection ps r"
  obtain session where session: "has ps ''session'' (JObj session)" "carries_session_part session (npSession r)"
    using r by (auto simp: carries_projection_def has_obj_def)
  obtain state where state: "has ps ''state'' (JObj state)" "carries_state_part state (npState r)"
    using r by (auto simp: carries_projection_def has_obj_def)
  show "validateProjectionAt ps p = Inr r"
  proof (cases "\<exists>v. has ps ''prefixStability'' v")
    case True
    with r obtain x where
      "has ps ''prefixStability'' (jopt JObj x)" "rel_option carries_stability x (npPrefixStability r)"
      by (auto simp: carries_projection_def additive_def has_opt_def)
    with r session(1) state(1) session_part_keys [OF session(2)] state_part_keys [OF state(2)]
      projection_keys_present [OF r] session(2) state(2)
    show ?thesis
      by (cases r) (auto simp: validateProjectionAt_def if_member_ok decode_simps carries_projection_def has_opt_def
          projection_keys_def has_def simp del: list.set)
  next
    case False
    with r session(1) state(1) session_part_keys [OF session(2)] state_part_keys [OF state(2)]
      projection_keys_present [OF r] session(2) state(2)
    show ?thesis
      by (cases r) (auto simp: validateProjectionAt_def if_member_ok decode_simps carries_projection_def has_opt_def
          projection_keys_def has_def additive_def simp del: list.set)
  qed
qed

interpretation projection: decoder validateProjectionAt carries_projection projection_keys
proof unfold_locales
  show "validateProjectionAt ps p = Inr r \<longleftrightarrow> carries_projection ps r" for ps p r
    by (rule projection_ok)
qed (auto simp: validateProjectionAt_def projection_keys_def intro!: located_intros reader_cong)

end
