(* ===== verification/NativePages.thy ===== *)
theory NativePages
  imports NativeReads
begin

text \<open>
  Validators of the bounded pages and aggregates of the native client
  (\<open>apps/vscode/src/nativeClient.ts\<close>): turns, checkpoints, messages, events, budgets and
  usage, evidence, the semantic status and the abort acknowledgement.
\<close>

section \<open>Turns and checkpoints\<close>

record native_turn =
  nuOpId :: jsstr
  nuStatus :: jsstr
  nuProvider :: jsstr
  nuModel :: jsstr
  nuVariant :: "jsstr option"
  nuToolMode :: "jsstr option"
  nuStartedAt :: int
  nuUpdatedMs :: int
  nuQueueSeq :: "int option"
  nuPromptMessageId :: "int option"

record native_checkpoint =
  nkSequence :: int
  nkPath :: jsstr
  nkBeforeHash :: "jsstr option"
  nkAfterHash :: "jsstr option"
  nkBeforeExists :: bool
  nkAfterExists :: bool
  nkCreatedMs :: int
  nkRestoredMs :: "int option"

definition turn_at :: "members \<Rightarrow> jsstr \<Rightarrow> native_turn checked" where
  "turn_at obj path =
     and_then (checkResponseKeys obj path [''opId'', ''status'', ''provider'', ''model'', ''variant'',
       ''toolMode'', ''startedAt'', ''updatedMs'', ''queueSeq'', ''promptMessageId'']) (\<lambda>_.
     and_then (fString obj ''opId'' path) (\<lambda>opId.
     and_then (fString obj ''status'' path) (\<lambda>status.
     and_then (fString obj ''provider'' path) (\<lambda>provider.
     and_then (fString obj ''model'' path) (\<lambda>model.
     and_then (fNullableString obj ''variant'' path) (\<lambda>variant.
     and_then (fNullableString obj ''toolMode'' path) (\<lambda>toolMode.
     and_then (fInt obj ''startedAt'' path) (\<lambda>startedAt.
     and_then (fInt obj ''updatedMs'' path) (\<lambda>updatedMs.
     and_then (fNullableInt obj ''queueSeq'' path) (\<lambda>queueSeq.
     and_then (fNullableInt obj ''promptMessageId'' path) (\<lambda>promptMessageId.
     Inr \<lparr>nuOpId = opId, nuStatus = status, nuProvider = provider, nuModel = model,
          nuVariant = variant, nuToolMode = toolMode, nuStartedAt = startedAt,
          nuUpdatedMs = updatedMs, nuQueueSeq = queueSeq,
          nuPromptMessageId = promptMessageId\<rparr>)))))))))))"

definition validateTurns :: "jsval \<Rightarrow> native_turn list checked" where
  "validateTurns json = entries_of json (js ''GET /native/session/{id}/turns'') turn_at"

definition checkpoint_at :: "members \<Rightarrow> jsstr \<Rightarrow> native_checkpoint checked" where
  "checkpoint_at obj path =
     and_then (checkResponseKeys obj path [''sequence'', ''path'', ''beforeHash'', ''afterHash'',
       ''beforeExists'', ''afterExists'', ''createdMs'', ''restoredMs'']) (\<lambda>_.
     and_then (fInt obj ''sequence'' path) (\<lambda>sequence.
     and_then (fString obj ''path'' path) (\<lambda>file.
     and_then (fNullableString obj ''beforeHash'' path) (\<lambda>beforeHash.
     and_then (fNullableString obj ''afterHash'' path) (\<lambda>afterHash.
     and_then (fBool obj ''beforeExists'' path) (\<lambda>beforeExists.
     and_then (fBool obj ''afterExists'' path) (\<lambda>afterExists.
     and_then (fInt obj ''createdMs'' path) (\<lambda>createdMs.
     and_then (fNullableInt obj ''restoredMs'' path) (\<lambda>restoredMs.
     Inr \<lparr>nkSequence = sequence, nkPath = file, nkBeforeHash = beforeHash, nkAfterHash = afterHash,
          nkBeforeExists = beforeExists, nkAfterExists = afterExists, nkCreatedMs = createdMs,
          nkRestoredMs = restoredMs\<rparr>)))))))))"

definition validateCheckpoints :: "jsval \<Rightarrow> native_checkpoint list checked" where
  "validateCheckpoints json =
     entries_of json (js ''GET /native/session/{id}/checkpoints'') checkpoint_at"

definition carries_turn :: "members \<Rightarrow> native_turn \<Rightarrow> bool" where
  "carries_turn ps r \<longleftrightarrow>
     has ps ''opId'' (JStr (nuOpId r)) \<and> has ps ''status'' (JStr (nuStatus r))
     \<and> has ps ''provider'' (JStr (nuProvider r)) \<and> has ps ''model'' (JStr (nuModel r))
     \<and> has ps ''variant'' (jopt JStr (nuVariant r)) \<and> has ps ''toolMode'' (jopt JStr (nuToolMode r))
     \<and> has ps ''startedAt'' (JInt (nuStartedAt r)) \<and> has ps ''updatedMs'' (JInt (nuUpdatedMs r))
     \<and> has ps ''queueSeq'' (jopt JInt (nuQueueSeq r))
     \<and> has ps ''promptMessageId'' (jopt JInt (nuPromptMessageId r))"

definition carries_native_checkpoint :: "members \<Rightarrow> native_checkpoint \<Rightarrow> bool" where
  "carries_native_checkpoint ps r \<longleftrightarrow>
     has ps ''sequence'' (JInt (nkSequence r)) \<and> has ps ''path'' (JStr (nkPath r))
     \<and> has ps ''beforeHash'' (jopt JStr (nkBeforeHash r)) \<and> has ps ''afterHash'' (jopt JStr (nkAfterHash r))
     \<and> has ps ''beforeExists'' (JBool (nkBeforeExists r)) \<and> has ps ''afterExists'' (JBool (nkAfterExists r))
     \<and> has ps ''createdMs'' (JInt (nkCreatedMs r)) \<and> has ps ''restoredMs'' (jopt JInt (nkRestoredMs r))"

interpretation turn: decoder turn_at carries_turn
  "[''opId'', ''status'', ''provider'', ''model'', ''variant'', ''toolMode'', ''startedAt'',
    ''updatedMs'', ''queueSeq'', ''promptMessageId'']"
  by unfold_locales (auto simp: turn_at_def carries_turn_def has_def decode_simps
      intro!: located_intros reader_cong)

interpretation checkpoint: decoder checkpoint_at carries_native_checkpoint
  "[''sequence'', ''path'', ''beforeHash'', ''afterHash'', ''beforeExists'', ''afterExists'',
    ''createdMs'', ''restoredMs'']"
  by unfold_locales (auto simp: checkpoint_at_def carries_native_checkpoint_def has_def decode_simps
      intro!: located_intros reader_cong)

section \<open>Messages and events\<close>

record message_part =
  mpKind :: jsstr
  mpCreatedMs :: int
  mpData :: jsval

record native_message =
  nmSeq :: int
  nmId :: int
  nmRole :: jsstr
  nmCreatedMs :: int
  nmData :: jsval
  nmParts :: "message_part list"

record message_page =
  mgSessionId :: jsstr
  mgMessages :: "native_message list"
  mgHasMore :: bool
  mgNextBefore :: "int option"

record native_event =
  neSeq :: int
  neKind :: jsstr
  neState :: jsstr
  neOpId :: "jsstr option"
  neTsMs :: int
  nePayload :: jsval

record event_page =
  egSessionId :: jsstr
  egEvents :: "native_event list"
  egHasMore :: bool
  egNextCursor :: "int option"

definition message_part_at :: "members \<Rightarrow> jsstr \<Rightarrow> message_part checked" where
  "message_part_at part path =
     and_then (checkResponseKeys part path [''kind'', ''createdMs'', ''data'']) (\<lambda>_.
     and_then (fString part ''kind'' path) (\<lambda>kind.
     and_then (fInt part ''createdMs'' path) (\<lambda>createdMs.
     and_then (fJson part ''data'' path) (\<lambda>data.
     Inr \<lparr>mpKind = kind, mpCreatedMs = createdMs, mpData = data\<rparr>))))"

definition message_at :: "members \<Rightarrow> jsstr \<Rightarrow> native_message checked" where
  "message_at entry path =
     and_then (checkResponseKeys entry path [''seq'', ''id'', ''role'', ''createdMs'', ''data'', ''parts'']) (\<lambda>_.
     and_then (fInt entry ''seq'' path) (\<lambda>seq.
     and_then (fInt entry ''id'' path) (\<lambda>id'.
     and_then (fString entry ''role'' path) (\<lambda>role.
     and_then (fInt entry ''createdMs'' path) (\<lambda>createdMs.
     and_then (fJson entry ''data'' path) (\<lambda>data.
     and_then (objects_of entry ''parts'' path message_part_at) (\<lambda>parts.
     Inr \<lparr>nmSeq = seq, nmId = id', nmRole = role, nmCreatedMs = createdMs, nmData = data,
          nmParts = parts\<rparr>)))))))"

definition message_page_at :: "members \<Rightarrow> jsstr \<Rightarrow> message_page checked" where
  "message_page_at obj path =
     and_then (checkResponseKeys obj path [''sessionId'', ''messages'', ''hasMore'', ''nextBefore'']) (\<lambda>_.
     and_then (fString obj ''sessionId'' path) (\<lambda>sessionId.
     and_then (objects_of obj ''messages'' path message_at) (\<lambda>messages.
     and_then (fBool obj ''hasMore'' path) (\<lambda>hasMore.
     and_then (fNullableInt obj ''nextBefore'' path) (\<lambda>nextBefore.
     Inr \<lparr>mgSessionId = sessionId, mgMessages = messages, mgHasMore = hasMore,
          mgNextBefore = nextBefore\<rparr>)))))"

definition validateMessagePage :: "jsval \<Rightarrow> message_page checked" where
  "validateMessagePage json =
     (let path = js ''GET /native/messages''
      in and_then (asObject json path) (\<lambda>obj. message_page_at obj path))"

definition event_at :: "members \<Rightarrow> jsstr \<Rightarrow> native_event checked" where
  "event_at entry path =
     and_then (checkResponseKeys entry path [''seq'', ''kind'', ''state'', ''opId'', ''tsMs'', ''payload'']) (\<lambda>_.
     and_then (fInt entry ''seq'' path) (\<lambda>seq.
     and_then (fString entry ''kind'' path) (\<lambda>kind.
     and_then (fString entry ''state'' path) (\<lambda>state.
     and_then (fNullableString entry ''opId'' path) (\<lambda>opId.
     and_then (fInt entry ''tsMs'' path) (\<lambda>tsMs.
     and_then (fJson entry ''payload'' path) (\<lambda>payload.
     Inr \<lparr>neSeq = seq, neKind = kind, neState = state, neOpId = opId, neTsMs = tsMs,
          nePayload = payload\<rparr>)))))))"

definition event_page_at :: "members \<Rightarrow> jsstr \<Rightarrow> event_page checked" where
  "event_page_at obj path =
     and_then (checkResponseKeys obj path [''sessionId'', ''events'', ''hasMore'', ''nextCursor'']) (\<lambda>_.
     and_then (fString obj ''sessionId'' path) (\<lambda>sessionId.
     and_then (objects_of obj ''events'' path event_at) (\<lambda>events.
     and_then (fBool obj ''hasMore'' path) (\<lambda>hasMore.
     and_then (fNullableInt obj ''nextCursor'' path) (\<lambda>nextCursor.
     Inr \<lparr>egSessionId = sessionId, egEvents = events, egHasMore = hasMore,
          egNextCursor = nextCursor\<rparr>)))))"

definition validateEventPage :: "jsval \<Rightarrow> event_page checked" where
  "validateEventPage json =
     (let path = js ''GET /native/events''
      in and_then (asObject json path) (\<lambda>obj. event_page_at obj path))"

definition carries_message_part :: "members \<Rightarrow> message_part \<Rightarrow> bool" where
  "carries_message_part ps r \<longleftrightarrow>
     has ps ''kind'' (JStr (mpKind r)) \<and> has ps ''createdMs'' (JInt (mpCreatedMs r))
     \<and> has ps ''data'' (mpData r)"

definition carries_message :: "members \<Rightarrow> native_message \<Rightarrow> bool" where
  "carries_message ps r \<longleftrightarrow>
     has ps ''seq'' (JInt (nmSeq r)) \<and> has ps ''id'' (JInt (nmId r)) \<and> has ps ''role'' (JStr (nmRole r))
     \<and> has ps ''createdMs'' (JInt (nmCreatedMs r)) \<and> has ps ''data'' (nmData r)
     \<and> has_list ps ''parts'' carries_message_part (nmParts r)"

definition carries_message_page :: "members \<Rightarrow> message_page \<Rightarrow> bool" where
  "carries_message_page ps r \<longleftrightarrow>
     has ps ''sessionId'' (JStr (mgSessionId r)) \<and> has_list ps ''messages'' carries_message (mgMessages r)
     \<and> has ps ''hasMore'' (JBool (mgHasMore r)) \<and> has ps ''nextBefore'' (jopt JInt (mgNextBefore r))"

definition carries_event :: "members \<Rightarrow> native_event \<Rightarrow> bool" where
  "carries_event ps r \<longleftrightarrow>
     has ps ''seq'' (JInt (neSeq r)) \<and> has ps ''kind'' (JStr (neKind r)) \<and> has ps ''state'' (JStr (neState r))
     \<and> has ps ''opId'' (jopt JStr (neOpId r)) \<and> has ps ''tsMs'' (JInt (neTsMs r))
     \<and> has ps ''payload'' (nePayload r)"

definition carries_event_page :: "members \<Rightarrow> event_page \<Rightarrow> bool" where
  "carries_event_page ps r \<longleftrightarrow>
     has ps ''sessionId'' (JStr (egSessionId r)) \<and> has_list ps ''events'' carries_event (egEvents r)
     \<and> has ps ''hasMore'' (JBool (egHasMore r)) \<and> has ps ''nextCursor'' (jopt JInt (egNextCursor r))"

interpretation message_part: decoder message_part_at carries_message_part "[''kind'', ''createdMs'', ''data'']"
  by unfold_locales (auto simp: message_part_at_def carries_message_part_def has_def decode_simps
      intro!: located_intros reader_cong)

interpretation native_message: decoder message_at carries_message
  "[''seq'', ''id'', ''role'', ''createdMs'', ''data'', ''parts'']"
proof unfold_locales
  show "message_at ps p = Inr r \<longleftrightarrow> carries_message ps r" for ps p r
    by (cases r) (auto simp: message_at_def carries_message_def has_def decode_simps present)
qed (auto simp: message_at_def intro!: located_intros reader_cong)

interpretation message_page: decoder message_page_at carries_message_page
  "[''sessionId'', ''messages'', ''hasMore'', ''nextBefore'']"
proof unfold_locales
  show "message_page_at ps p = Inr r \<longleftrightarrow> carries_message_page ps r" for ps p r
    by (cases r) (auto simp: message_page_at_def carries_message_page_def has_def decode_simps present)
qed (auto simp: message_page_at_def intro!: located_intros reader_cong)

interpretation native_event: decoder event_at carries_event
  "[''seq'', ''kind'', ''state'', ''opId'', ''tsMs'', ''payload'']"
  by unfold_locales (auto simp: event_at_def carries_event_def has_def decode_simps
      intro!: located_intros reader_cong)

interpretation event_page: decoder event_page_at carries_event_page
  "[''sessionId'', ''events'', ''hasMore'', ''nextCursor'']"
proof unfold_locales
  show "event_page_at ps p = Inr r \<longleftrightarrow> carries_event_page ps r" for ps p r
    by (cases r) (auto simp: event_page_at_def carries_event_page_def has_def decode_simps present)
qed (auto simp: event_page_at_def intro!: located_intros reader_cong)

section \<open>Budgets, reservations and usage\<close>

record task_budget =
  tbMaxTokens :: "int option"
  tbMaxTurns :: "int option"
  tbSpentTokens :: "int option"
  tbSpentTurns :: "int option"
  tbMaxCostMicro :: "int option"
  tbSpentCostMicro :: int
  tbOpenReservedMicro :: int

record reservation_group =
  rgCount :: int
  rgPredictedMicro :: int

record reservation_settled =
  rsCount :: int
  rsPredictedMicro :: int
  rsSpentMicro :: int
  rsProviderReportedMicro :: int

record reservations =
  rvOpen :: reservation_group
  rvSettled :: reservation_settled
  rvRefunded :: reservation_group
  rvUncertain :: reservation_group
  rvRouteDecisions :: "jsval list"
  rvTruncated :: bool

definition validateBudget :: "members \<Rightarrow> jsstr \<Rightarrow> task_budget checked" where
  "validateBudget obj path =
     and_then (checkResponseKeys obj path [''maxTokens'', ''maxTurns'', ''spentTokens'', ''spentTurns'',
       ''maxCostMicro'', ''spentCostMicro'', ''openReservedMicro'']) (\<lambda>_.
     and_then (fNullableInt obj ''maxTokens'' path) (\<lambda>maxTokens.
     and_then (fNullableInt obj ''maxTurns'' path) (\<lambda>maxTurns.
     and_then (fNullableInt obj ''spentTokens'' path) (\<lambda>spentTokens.
     and_then (fNullableInt obj ''spentTurns'' path) (\<lambda>spentTurns.
     and_then (fNullableInt obj ''maxCostMicro'' path) (\<lambda>maxCostMicro.
     and_then (fInt obj ''spentCostMicro'' path) (\<lambda>spentCostMicro.
     and_then (fInt obj ''openReservedMicro'' path) (\<lambda>openReservedMicro.
     Inr \<lparr>tbMaxTokens = maxTokens, tbMaxTurns = maxTurns, tbSpentTokens = spentTokens,
          tbSpentTurns = spentTurns, tbMaxCostMicro = maxCostMicro,
          tbSpentCostMicro = spentCostMicro, tbOpenReservedMicro = openReservedMicro\<rparr>))))))))"

definition validateReservationGroup :: "members \<Rightarrow> jsstr \<Rightarrow> reservation_group checked" where
  "validateReservationGroup obj path =
     and_then (checkResponseKeys obj path [''count'', ''predictedMicro'']) (\<lambda>_.
     and_then (fInt obj ''count'' path) (\<lambda>count'.
     and_then (fInt obj ''predictedMicro'' path) (\<lambda>predicted.
     Inr \<lparr>rgCount = count', rgPredictedMicro = predicted\<rparr>)))"

text \<open>\<open>settled\<close> has its keys checked first and its values read after the open group.\<close>

definition settled_at :: "members \<Rightarrow> jsstr \<Rightarrow> reservation_settled checked" where
  "settled_at settled path =
     and_then (fInt settled ''count'' path) (\<lambda>count'.
     and_then (fInt settled ''predictedMicro'' path) (\<lambda>predicted.
     and_then (fInt settled ''spentMicro'' path) (\<lambda>spent.
     and_then (fInt settled ''providerReportedMicro'' path) (\<lambda>reported.
     Inr \<lparr>rsCount = count', rsPredictedMicro = predicted, rsSpentMicro = spent,
          rsProviderReportedMicro = reported\<rparr>))))"

definition validateReservations :: "members \<Rightarrow> jsstr \<Rightarrow> reservations checked" where
  "validateReservations obj path =
     and_then (checkResponseKeys obj path [''open'', ''settled'', ''refunded'', ''uncertain'']) (\<lambda>_.
     and_then (fObject obj ''settled'' path) (\<lambda>settled.
     and_then (checkResponseKeys settled (dot path ''settled'')
       [''count'', ''predictedMicro'', ''spentMicro'', ''providerReportedMicro'']) (\<lambda>_.
     and_then (fObject obj ''open'' path) (\<lambda>openRaw.
     and_then (validateReservationGroup openRaw (dot path ''open'')) (\<lambda>open'.
     and_then (settled_at settled (dot path ''settled'')) (\<lambda>settledView.
     and_then (fObject obj ''refunded'' path) (\<lambda>refundedRaw.
     and_then (validateReservationGroup refundedRaw (dot path ''refunded'')) (\<lambda>refunded.
     and_then (fObject obj ''uncertain'' path) (\<lambda>uncertainRaw.
     and_then (validateReservationGroup uncertainRaw (dot path ''uncertain'')) (\<lambda>uncertain.
     and_then (if_member obj ''routeDecisions'' fArray path []) (\<lambda>routeDecisions.
     and_then (if_member obj ''truncated'' fBool path False) (\<lambda>truncated.
     Inr \<lparr>rvOpen = open', rvSettled = settledView, rvRefunded = refunded, rvUncertain = uncertain,
          rvRouteDecisions = routeDecisions, rvTruncated = truncated\<rparr>))))))))))))"

record prefix_observation =
  poRowId :: int
  poPromptTokens :: int
  poStability :: jsval

record provider_calls =
  pcTokens :: int
  pcObservations :: "prefix_observation list"

record task_usage =
  tuTaskId :: jsstr
  tuBudget :: task_budget
  tuReservations :: reservations

record session_usage =
  suSessionId :: jsstr
  suCalls :: provider_calls
  suPrefixStability :: "prefix_stability option"
  suTasks :: "task_usage list"

definition prefix_observation_at :: "members \<Rightarrow> jsstr \<Rightarrow> prefix_observation checked" where
  "prefix_observation_at entry path =
     and_then (checkResponseKeys entry path [''rowId'', ''promptTokens'', ''stability'']) (\<lambda>_.
     and_then (fInt entry ''rowId'' path) (\<lambda>rowId.
     and_then (fInt entry ''promptTokens'' path) (\<lambda>promptTokens.
     and_then (fJson entry ''stability'' path) (\<lambda>stability.
     Inr \<lparr>poRowId = rowId, poPromptTokens = promptTokens, poStability = stability\<rparr>))))"

definition provider_calls_at :: "members \<Rightarrow> jsstr \<Rightarrow> provider_calls checked" where
  "provider_calls_at calls path =
     and_then (fInt calls ''tokens'' path) (\<lambda>tokens.
     and_then (objects_of calls ''prefixObservations'' path prefix_observation_at) (\<lambda>observations.
     Inr \<lparr>pcTokens = tokens, pcObservations = observations\<rparr>))"

definition task_usage_at :: "members \<Rightarrow> jsstr \<Rightarrow> task_usage checked" where
  "task_usage_at entry path =
     and_then (checkResponseKeys entry path [''taskId'', ''budget'', ''reservations'']) (\<lambda>_.
     and_then (fString entry ''taskId'' path) (\<lambda>taskId.
     and_then (fObject entry ''budget'' path) (\<lambda>budgetRaw.
     and_then (validateBudget budgetRaw (dot path ''budget'')) (\<lambda>budget.
     and_then (fObject entry ''reservations'' path) (\<lambda>reservationsRaw.
     and_then (validateReservations reservationsRaw (dot path ''reservations'')) (\<lambda>reservations.
     Inr \<lparr>tuTaskId = taskId, tuBudget = budget, tuReservations = reservations\<rparr>))))))"

definition session_usage_at :: "members \<Rightarrow> jsstr \<Rightarrow> session_usage checked" where
  "session_usage_at obj path =
     and_then (checkResponseKeys obj path [''sessionId'', ''providerCalls'', ''prefixStability'', ''tasks'']) (\<lambda>_.
     and_then (fObject obj ''providerCalls'' path) (\<lambda>calls.
     and_then (checkResponseKeys calls (dot path ''providerCalls'') [''tokens'', ''prefixObservations'']) (\<lambda>_.
     and_then (fNullableObject obj ''prefixStability'' path) (\<lambda>prefixRaw.
     and_then (nullable prefixRaw (dot path ''prefixStability'') prefix_stability_at) (\<lambda>prefixStability.
     and_then (fString obj ''sessionId'' path) (\<lambda>sessionId.
     and_then (provider_calls_at calls (dot path ''providerCalls'')) (\<lambda>providerCalls.
     and_then (objects_of obj ''tasks'' path task_usage_at) (\<lambda>tasks.
     Inr \<lparr>suSessionId = sessionId, suCalls = providerCalls, suPrefixStability = prefixStability,
          suTasks = tasks\<rparr>))))))))"

definition validateSessionUsage :: "jsval \<Rightarrow> session_usage checked" where
  "validateSessionUsage json =
     (let path = js ''GET /native/session/{id}/usage''
      in and_then (asObject json path) (\<lambda>obj. session_usage_at obj path))"

record usage_row =
  urSessionId :: jsstr
  urBudget :: "int option"
  urSpent :: "int option"

record durable_calls =
  dcTokens :: int
  dcPrefixObservations :: int
  dcPrefixTokens :: int
  dcStabilityObservations :: int

record usage_durable =
  udSessionsWithCalls :: int
  udCalls :: durable_calls
  udSettledCostMicro :: int
  udReservations :: reservations
  udTruncated :: bool

record usage_totals =
  utSessions :: int
  utBudget :: int
  utSpent :: int
  utPerSession :: "usage_row list"
  utDurable :: usage_durable

definition usage_row_at :: "members \<Rightarrow> jsstr \<Rightarrow> usage_row checked" where
  "usage_row_at entry path =
     and_then (checkResponseKeys entry path [''sessionId'', ''budget'', ''spent'']) (\<lambda>_.
     and_then (fString entry ''sessionId'' path) (\<lambda>sessionId.
     and_then (fNullableInt entry ''budget'' path) (\<lambda>budget.
     and_then (fNullableInt entry ''spent'' path) (\<lambda>spent.
     Inr \<lparr>urSessionId = sessionId, urBudget = budget, urSpent = spent\<rparr>))))"

definition durable_calls_at :: "members \<Rightarrow> jsstr \<Rightarrow> durable_calls checked" where
  "durable_calls_at calls path =
     and_then (fInt calls ''tokens'' path) (\<lambda>tokens.
     and_then (fInt calls ''prefixObservations'' path) (\<lambda>observations.
     and_then (fInt calls ''prefixTokens'' path) (\<lambda>prefixTokens.
     and_then (fInt calls ''prefixStabilityObservations'' path) (\<lambda>stability.
     Inr \<lparr>dcTokens = tokens, dcPrefixObservations = observations, dcPrefixTokens = prefixTokens,
          dcStabilityObservations = stability\<rparr>))))"

text \<open>
  The nested members of \<open>durable\<close> are looked up with the outer path, so only an error
  beside a missing member would be misplaced, and the keys have been checked before.
\<close>

definition usage_at :: "members \<Rightarrow> jsstr \<Rightarrow> usage_totals checked" where
  "usage_at obj path =
     and_then (checkResponseKeys obj path [''sessions'', ''totals'', ''perSession'', ''durable'']) (\<lambda>_.
     and_then (fObject obj ''totals'' path) (\<lambda>totals.
     and_then (checkResponseKeys totals (dot path ''totals'') [''budget'', ''spent'']) (\<lambda>_.
     and_then (fObject obj ''durable'' path) (\<lambda>durable.
     and_then (checkResponseKeys durable (dot path ''durable'')
       [''sessionsWithCalls'', ''providerCalls'', ''taskSpend'', ''reservations'']) (\<lambda>_.
     and_then (field durable ''providerCalls'' path) (\<lambda>callsRaw.
     and_then (asObject callsRaw (dot (dot path ''durable'') ''providerCalls'')) (\<lambda>calls.
     and_then (checkResponseKeys calls (dot (dot path ''durable'') ''providerCalls'')
       [''tokens'', ''prefixObservations'', ''prefixTokens'', ''prefixStabilityObservations'']) (\<lambda>_.
     and_then (field durable ''taskSpend'' path) (\<lambda>taskSpendRaw.
     and_then (asObject taskSpendRaw (dot (dot path ''durable'') ''taskSpend'')) (\<lambda>taskSpend.
     and_then (checkResponseKeys taskSpend (dot (dot path ''durable'') ''taskSpend'')
       [''settledCostMicro'']) (\<lambda>_.
     and_then (fInt obj ''sessions'' path) (\<lambda>sessions.
     and_then (fInt totals ''budget'' (dot path ''totals'')) (\<lambda>budget.
     and_then (fInt totals ''spent'' (dot path ''totals'')) (\<lambda>spent.
     and_then (objects_of obj ''perSession'' path usage_row_at) (\<lambda>perSession.
     and_then (fInt durable ''sessionsWithCalls'' (dot path ''durable'')) (\<lambda>sessionsWithCalls.
     and_then (durable_calls_at calls (dot (dot path ''durable'') ''providerCalls'')) (\<lambda>callsView.
     and_then (fInt taskSpend ''settledCostMicro'' (dot (dot path ''durable'') ''taskSpend'')) (\<lambda>settled.
     and_then (field durable ''reservations'' path) (\<lambda>reservationsRaw.
     and_then (asObject reservationsRaw (dot (dot path ''durable'') ''reservations'')) (\<lambda>reservations.
     and_then (validateReservations reservations (dot (dot path ''durable'') ''reservations'')) (\<lambda>reservationsView.
     and_then (if_member durable ''truncated'' fBool (dot path ''durable'') False) (\<lambda>truncated.
     Inr \<lparr>utSessions = sessions, utBudget = budget, utSpent = spent, utPerSession = perSession,
          utDurable = \<lparr>udSessionsWithCalls = sessionsWithCalls, udCalls = callsView,
            udSettledCostMicro = settled, udReservations = reservationsView,
            udTruncated = truncated\<rparr>\<rparr>))))))))))))))))))))))"

definition validateUsage :: "jsval \<Rightarrow> usage_totals checked" where
  "validateUsage json =
     (let path = js ''GET /native/usage''
      in and_then (asObject json path) (\<lambda>obj. usage_at obj path))"

section \<open>Evidence, the semantic status and aborts\<close>

record native_evidence =
  evId :: int
  evKind :: jsval
  evSessionId :: int
  evWorkspaceId :: int
  evTaskId :: jsval
  evSourceRevision :: jsval
  evCompressibility :: jsval
  evCompleteness :: jsval
  evRetained :: bool
  evBackingLen :: "int option"
  evAllowRanges :: bool
  evAllowSearch :: bool
  evMaxBytes :: int

record evidence_retrieval =
  rtId :: int
  rtSelector :: jsval
  rtBytesBase64 :: jsstr
  rtByteLen :: int
  rtTruncated :: bool

record semantic_provider =
  spvId :: jsstr
  spvVersion :: int
  spvCapabilities :: jsval

record semantic_status =
  smConfigured :: bool
  smProviderCount :: int
  smProviders :: "semantic_provider list"
  smFallback :: semantic_provider
  smSnapshotProviders :: "jsstr list"
  smSnapshotFallback :: bool

definition evidence_at :: "members \<Rightarrow> jsstr \<Rightarrow> native_evidence checked" where
  "evidence_at obj path =
     and_then (checkResponseKeys obj path [''id'', ''kind'', ''sessionId'', ''workspaceId'', ''taskId'',
       ''sourceRevision'', ''compressibility'', ''backingCompleteness'', ''backingRetained'',
       ''backingLen'', ''allowRanges'', ''allowSearch'', ''maxBytes'']) (\<lambda>_.
     and_then (fInt obj ''id'' path) (\<lambda>id'.
     and_then (fJson obj ''kind'' path) (\<lambda>kind.
     and_then (fInt obj ''sessionId'' path) (\<lambda>sessionId.
     and_then (fInt obj ''workspaceId'' path) (\<lambda>workspaceId.
     and_then (fJson obj ''taskId'' path) (\<lambda>taskId.
     and_then (fJson obj ''sourceRevision'' path) (\<lambda>sourceRevision.
     and_then (fJson obj ''compressibility'' path) (\<lambda>compressibility.
     and_then (fJson obj ''backingCompleteness'' path) (\<lambda>completeness.
     and_then (fBool obj ''backingRetained'' path) (\<lambda>retained.
     and_then (fNullableInt obj ''backingLen'' path) (\<lambda>backingLen.
     and_then (fBool obj ''allowRanges'' path) (\<lambda>allowRanges.
     and_then (fBool obj ''allowSearch'' path) (\<lambda>allowSearch.
     and_then (fInt obj ''maxBytes'' path) (\<lambda>maxBytes.
     Inr \<lparr>evId = id', evKind = kind, evSessionId = sessionId, evWorkspaceId = workspaceId,
          evTaskId = taskId, evSourceRevision = sourceRevision, evCompressibility = compressibility,
          evCompleteness = completeness, evRetained = retained, evBackingLen = backingLen,
          evAllowRanges = allowRanges, evAllowSearch = allowSearch, evMaxBytes = maxBytes\<rparr>))))))))))))))"

definition validateEvidence :: "jsval \<Rightarrow> native_evidence checked" where
  "validateEvidence json =
     (let path = js ''GET /native/evidence/{id}''
      in and_then (asObject json path) (\<lambda>obj. evidence_at obj path))"

definition retrieval_at :: "members \<Rightarrow> jsstr \<Rightarrow> evidence_retrieval checked" where
  "retrieval_at obj path =
     and_then (checkResponseKeys obj path
       [''id'', ''selector'', ''bytesBase64'', ''byteLen'', ''truncatedByPolicy'']) (\<lambda>_.
     and_then (fInt obj ''id'' path) (\<lambda>id'.
     and_then (fJson obj ''selector'' path) (\<lambda>selector.
     and_then (fString obj ''bytesBase64'' path) (\<lambda>bytesBase64.
     and_then (fInt obj ''byteLen'' path) (\<lambda>byteLen.
     and_then (fBool obj ''truncatedByPolicy'' path) (\<lambda>truncated.
     Inr \<lparr>rtId = id', rtSelector = selector, rtBytesBase64 = bytesBase64, rtByteLen = byteLen,
          rtTruncated = truncated\<rparr>))))))"

definition validateEvidenceRetrieval :: "jsval \<Rightarrow> evidence_retrieval checked" where
  "validateEvidenceRetrieval json =
     (let path = js ''POST /native/evidence/{id}/retrieve''
      in and_then (asObject json path) (\<lambda>obj. retrieval_at obj path))"

definition semantic_provider_at :: "members \<Rightarrow> jsstr \<Rightarrow> semantic_provider checked" where
  "semantic_provider_at entry path =
     and_then (checkResponseKeys entry path [''id'', ''version'', ''capabilities'']) (\<lambda>_.
     and_then (fString entry ''id'' path) (\<lambda>id'.
     and_then (fInt entry ''version'' path) (\<lambda>version.
     and_then (fJson entry ''capabilities'' path) (\<lambda>capabilities.
     Inr \<lparr>spvId = id', spvVersion = version, spvCapabilities = capabilities\<rparr>))))"

definition semantic_status_at :: "members \<Rightarrow> jsstr \<Rightarrow> semantic_status checked" where
  "semantic_status_at obj path =
     and_then (checkResponseKeys obj path
       [''configured'', ''providerCount'', ''providers'', ''fallback'', ''snapshotState'']) (\<lambda>_.
     and_then (fObject obj ''snapshotState'' path) (\<lambda>snapshot.
     and_then (checkResponseKeys snapshot (dot path ''snapshotState'') [''providers'', ''fallback'']) (\<lambda>_.
     and_then (fBool obj ''configured'' path) (\<lambda>configured.
     and_then (fInt obj ''providerCount'' path) (\<lambda>providerCount.
     and_then (objects_of obj ''providers'' path semantic_provider_at) (\<lambda>providers.
     and_then (fObject obj ''fallback'' path) (\<lambda>fallbackRaw.
     and_then (semantic_provider_at fallbackRaw (dot path ''fallback'')) (\<lambda>fallback.
     and_then (fStringArray snapshot ''providers'' (dot path ''snapshotState'')) (\<lambda>snapshotProviders.
     and_then (fBool snapshot ''fallback'' (dot path ''snapshotState'')) (\<lambda>snapshotFallback.
     Inr \<lparr>smConfigured = configured, smProviderCount = providerCount, smProviders = providers,
          smFallback = fallback, smSnapshotProviders = snapshotProviders,
          smSnapshotFallback = snapshotFallback\<rparr>))))))))))"

definition validateSemanticStatus :: "jsval \<Rightarrow> semantic_status checked" where
  "validateSemanticStatus json =
     (let path = js ''GET /native/semantic/status''
      in and_then (asObject json path) (\<lambda>obj. semantic_status_at obj path))"

definition validateAbortAck :: "jsval \<Rightarrow> jsstr list checked" where
  "validateAbortAck json =
     (let path = js ''POST /native/session/{id}/abort''
      in and_then (asObject json path) (\<lambda>obj.
         and_then (checkResponseKeys obj path [''aborted'']) (\<lambda>_.
         fStringArray obj ''aborted'' path)))"

end
