(* ===== verification/NativeUsage.thy ===== *)
theory NativeUsage
  imports NativePages
begin

text \<open>
  The contracts of the budget, usage and evidence validators: what their records carry of
  the response, and the interpretations of \<open>decoder\<close>.
\<close>

definition carries_budget :: "members \<Rightarrow> task_budget \<Rightarrow> bool" where
  "carries_budget ps r \<longleftrightarrow>
     has ps ''maxTokens'' (jopt JInt (tbMaxTokens r)) \<and> has ps ''maxTurns'' (jopt JInt (tbMaxTurns r))
     \<and> has ps ''spentTokens'' (jopt JInt (tbSpentTokens r)) \<and> has ps ''spentTurns'' (jopt JInt (tbSpentTurns r))
     \<and> has ps ''maxCostMicro'' (jopt JInt (tbMaxCostMicro r))
     \<and> has ps ''spentCostMicro'' (JInt (tbSpentCostMicro r))
     \<and> has ps ''openReservedMicro'' (JInt (tbOpenReservedMicro r))"

definition carries_group :: "members \<Rightarrow> reservation_group \<Rightarrow> bool" where
  "carries_group ps r \<longleftrightarrow>
     has ps ''count'' (JInt (rgCount r)) \<and> has ps ''predictedMicro'' (JInt (rgPredictedMicro r))"

definition carries_settled :: "members \<Rightarrow> reservation_settled \<Rightarrow> bool" where
  "carries_settled ps r \<longleftrightarrow>
     has ps ''count'' (JInt (rsCount r)) \<and> has ps ''predictedMicro'' (JInt (rsPredictedMicro r))
     \<and> has ps ''spentMicro'' (JInt (rsSpentMicro r))
     \<and> has ps ''providerReportedMicro'' (JInt (rsProviderReportedMicro r))"

definition carries_reservations :: "members \<Rightarrow> reservations \<Rightarrow> bool" where
  "carries_reservations ps r \<longleftrightarrow>
     has_obj ps ''open'' carries_group (rvOpen r) \<and> has_obj ps ''settled'' carries_settled (rvSettled r)
     \<and> has_obj ps ''refunded'' carries_group (rvRefunded r)
     \<and> has_obj ps ''uncertain'' carries_group (rvUncertain r)
     \<and> additive ps ''routeDecisions'' (has ps ''routeDecisions'' (JArr (rvRouteDecisions r)))
         (rvRouteDecisions r = [])
     \<and> additive ps ''truncated'' (has ps ''truncated'' (JBool (rvTruncated r))) (\<not> rvTruncated r)"

definition carries_observation :: "members \<Rightarrow> prefix_observation \<Rightarrow> bool" where
  "carries_observation ps r \<longleftrightarrow>
     has ps ''rowId'' (JInt (poRowId r)) \<and> has ps ''promptTokens'' (JInt (poPromptTokens r))
     \<and> has ps ''stability'' (poStability r)"

definition carries_calls :: "members \<Rightarrow> provider_calls \<Rightarrow> bool" where
  "carries_calls ps r \<longleftrightarrow>
     has ps ''tokens'' (JInt (pcTokens r))
     \<and> has_list ps ''prefixObservations'' carries_observation (pcObservations r)"

definition carries_task_usage :: "members \<Rightarrow> task_usage \<Rightarrow> bool" where
  "carries_task_usage ps r \<longleftrightarrow>
     has ps ''taskId'' (JStr (tuTaskId r)) \<and> has_obj ps ''budget'' carries_budget (tuBudget r)
     \<and> has_obj ps ''reservations'' carries_reservations (tuReservations r)"

definition carries_session_usage :: "members \<Rightarrow> session_usage \<Rightarrow> bool" where
  "carries_session_usage ps r \<longleftrightarrow>
     has ps ''sessionId'' (JStr (suSessionId r)) \<and> has_obj ps ''providerCalls'' carries_calls (suCalls r)
     \<and> has_opt ps ''prefixStability'' carries_stability (suPrefixStability r)
     \<and> has_list ps ''tasks'' carries_task_usage (suTasks r)"

definition carries_retrieval :: "members \<Rightarrow> evidence_retrieval \<Rightarrow> bool" where
  "carries_retrieval ps r \<longleftrightarrow>
     has ps ''id'' (JInt (rtId r)) \<and> has ps ''selector'' (rtSelector r)
     \<and> has ps ''bytesBase64'' (JStr (rtBytesBase64 r)) \<and> has ps ''byteLen'' (JInt (rtByteLen r))
     \<and> has ps ''truncatedByPolicy'' (JBool (rtTruncated r))"

interpretation budget: decoder validateBudget carries_budget
  "[''maxTokens'', ''maxTurns'', ''spentTokens'', ''spentTurns'', ''maxCostMicro'', ''spentCostMicro'',
    ''openReservedMicro'']"
  by unfold_locales (auto simp: validateBudget_def carries_budget_def has_def decode_simps
      intro!: located_intros reader_cong)

interpretation reservation_group: decoder validateReservationGroup carries_group
  "[''count'', ''predictedMicro'']"
  by unfold_locales (auto simp: validateReservationGroup_def carries_group_def has_def decode_simps
      intro!: located_intros reader_cong)

interpretation settled: decoder settled_at carries_settled
  "[''count'', ''predictedMicro'', ''spentMicro'', ''providerReportedMicro'']"
  by unfold_locales (auto simp: settled_at_def carries_settled_def has_def decode_simps
      intro!: located_intros reader_cong)

lemma settled_keys:
  "carries_settled ps r \<Longrightarrow>
     \<forall>key \<in> set [''count'', ''predictedMicro'', ''spentMicro'', ''providerReportedMicro'']. \<exists>v. has ps key v"
  by (auto simp: carries_settled_def)

lemma reservations_keys:
  "carries_reservations ps r \<Longrightarrow>
     \<forall>key \<in> set [''open'', ''settled'', ''refunded'', ''uncertain'']. \<exists>v. has ps key v"
  by (auto simp: carries_reservations_def has_obj_def)

lemma reservations_ok: "validateReservations ps p = Inr r \<longleftrightarrow> carries_reservations ps r"
proof
  assume "validateReservations ps p = Inr r"
  then show "carries_reservations ps r"
    by (cases r) (auto simp: validateReservations_def decode_simps carries_reservations_def has_obj_def
        simp del: list.set)
next
  assume r: "carries_reservations ps r"
  then obtain settled where settled: "has ps ''settled'' (JObj settled)" "carries_settled settled (rvSettled r)"
    by (auto simp: carries_reservations_def has_obj_def)
  show "validateReservations ps p = Inr r"
    using r settled settled_keys [OF settled(2)] reservations_keys [OF r]
    by (cases r) (auto simp: validateReservations_def decode_simps carries_reservations_def has_obj_def
        has_def simp del: list.set)
qed

interpretation reservations: decoder validateReservations carries_reservations
  "[''open'', ''settled'', ''refunded'', ''uncertain'', ''routeDecisions'', ''truncated'']"
proof unfold_locales
  show "validateReservations ps p = Inr r \<longleftrightarrow> carries_reservations ps r" for ps p r
    by (rule reservations_ok)
qed (auto simp: validateReservations_def intro!: located_intros reader_cong)

interpretation prefix_observation: decoder prefix_observation_at carries_observation
  "[''rowId'', ''promptTokens'', ''stability'']"
  by unfold_locales (auto simp: prefix_observation_at_def carries_observation_def has_def decode_simps
      intro!: located_intros reader_cong)

interpretation provider_calls: decoder provider_calls_at carries_calls
  "[''tokens'', ''prefixObservations'']"
proof unfold_locales
  show "provider_calls_at ps p = Inr r \<longleftrightarrow> carries_calls ps r" for ps p r
    by (cases r) (auto simp: provider_calls_at_def carries_calls_def has_def decode_simps)
qed (auto simp: provider_calls_at_def intro!: located_intros reader_cong)

interpretation task_usage: decoder task_usage_at carries_task_usage
  "[''taskId'', ''budget'', ''reservations'']"
proof unfold_locales
  show "task_usage_at ps p = Inr r \<longleftrightarrow> carries_task_usage ps r" for ps p r
    by (cases r) (auto simp: task_usage_at_def carries_task_usage_def has_def has_obj_def decode_simps)
qed (auto simp: task_usage_at_def intro!: located_intros reader_cong)

lemma calls_keys:
  "carries_calls ps r \<Longrightarrow> \<forall>key \<in> set [''tokens'', ''prefixObservations'']. \<exists>v. has ps key v"
  by (auto simp: carries_calls_def has_list_def)

lemma session_usage_keys:
  "carries_session_usage ps r \<Longrightarrow>
     \<forall>key \<in> set [''sessionId'', ''providerCalls'', ''prefixStability'', ''tasks'']. \<exists>v. has ps key v"
  by (auto simp: carries_session_usage_def has_obj_def has_opt_def has_list_def)

lemma session_usage_ok: "session_usage_at ps p = Inr r \<longleftrightarrow> carries_session_usage ps r"
proof
  assume "session_usage_at ps p = Inr r"
  then show "carries_session_usage ps r"
    by (cases r) (auto simp: session_usage_at_def decode_simps carries_session_usage_def has_obj_def has_opt_def
        simp del: list.set)
next
  assume r: "carries_session_usage ps r"
  then obtain calls where calls: "has ps ''providerCalls'' (JObj calls)" "carries_calls calls (suCalls r)"
    by (auto simp: carries_session_usage_def has_obj_def)
  show "session_usage_at ps p = Inr r"
    using r calls calls_keys [OF calls(2)] session_usage_keys [OF r]
    by (cases r) (auto simp: session_usage_at_def decode_simps carries_session_usage_def has_obj_def has_opt_def
        has_def simp del: list.set)
qed

interpretation session_usage: decoder session_usage_at carries_session_usage
  "[''sessionId'', ''providerCalls'', ''prefixStability'', ''tasks'']"
proof unfold_locales
  show "session_usage_at ps p = Inr r \<longleftrightarrow> carries_session_usage ps r" for ps p r
    by (rule session_usage_ok)
qed (auto simp: session_usage_at_def intro!: located_intros reader_cong)

interpretation retrieval: decoder retrieval_at carries_retrieval
  "[''id'', ''selector'', ''bytesBase64'', ''byteLen'', ''truncatedByPolicy'']"
  by unfold_locales (auto simp: retrieval_at_def carries_retrieval_def has_def decode_simps
      intro!: located_intros reader_cong)

end
