(* ===== verification/NativeTasks.thy ===== *)
theory NativeTasks
  imports TaskStart Cockpit NativeUsage
begin

text \<open>
  Validators of the task side of the native client (\<open>apps/vscode/src/nativeClient.ts\<close>): task
  views with their additive members, task runs, attachments, agents, tournaments, the
  coordination board and verification records.

  The records of the board, of attachments, of started runs and of the completion contract
  are the ones the other components take; the richer tournament and verification records
  are projected onto what the cockpit reads.
\<close>

section \<open>Additive members\<close>

text \<open>\<open>optionalField\<close>: the first of the spellings the object has, \<open>JUndef\<close> when it has none.\<close>

fun optionalField :: "members \<Rightarrow> string list \<Rightarrow> jsval option" where
  "optionalField ps [] = None"
| "optionalField ps (key # keys) =
     (case map_of ps (js key) of Some v \<Rightarrow> Some v | None \<Rightarrow> optionalField ps keys)"

definition optionalString :: "members \<Rightarrow> string list \<Rightarrow> jsstr \<Rightarrow> jsstr option checked" where
  "optionalString ps keys path =
     (case optionalField ps keys of
        None \<Rightarrow> Inr None
      | Some JNull \<Rightarrow> Inr None
      | Some (JStr s) \<Rightarrow> Inr (Some s)
      | Some v \<Rightarrow> expected (dot path (hd keys)) ''a string or null'' v)"

definition optionalStringArray :: "members \<Rightarrow> string list \<Rightarrow> jsstr \<Rightarrow> jsstr list checked" where
  "optionalStringArray ps keys path =
     (case optionalField ps keys of
        None \<Rightarrow> Inr []
      | Some v \<Rightarrow> and_then (asArray v (dot path (hd keys))) (\<lambda>vs.
          check_all 0 (string_at (dot path (hd keys))) (take 64 vs)))"

record plan_step =
  plId :: jsstr
  plSummary :: jsstr
  plState :: jsstr
  plDependsOn :: "jsstr list"

text \<open>A plan step's id is a string or an integer, and not empty.\<close>

definition step_id :: "jsval option \<Rightarrow> jsstr" where
  "step_id raw =
     (case raw of
        Some (JStr s) \<Rightarrow> s
      | Some (JNum x) \<Rightarrow> if is_integer x then number_string x else []
      | _ \<Rightarrow> [])"

definition or_else :: "jsstr option \<Rightarrow> jsstr \<Rightarrow> jsstr" where
  "or_else x d = (case x of Some s \<Rightarrow> s | None \<Rightarrow> d)"

definition plan_step_at :: "jsstr \<Rightarrow> nat \<Rightarrow> jsval \<Rightarrow> plan_step checked" where
  "plan_step_at path i entry =
     (let itemPath = at_index (dot path ''plan'') i
      in and_then (asObject entry itemPath) (\<lambda>step.
         let id' = step_id (optionalField step [''id''])
         in if id' = [] then fail (dot itemPath ''id'') (js ''expected a non-empty string or integer id'')
            else and_then (optionalString step [''summary'', ''title''] itemPath) (\<lambda>summary.
                 and_then (optionalString step [''state'', ''status''] itemPath) (\<lambda>state.
                 and_then (optionalStringArray step [''depends_on'', ''dependsOn''] itemPath) (\<lambda>dependsOn.
                 Inr \<lparr>plId = id', plSummary = or_else summary [], plState = or_else state (js ''pending''),
                      plDependsOn = dependsOn\<rparr>)))))"

definition optionalPlanSteps :: "members \<Rightarrow> jsstr \<Rightarrow> plan_step list checked" where
  "optionalPlanSteps ps path =
     (case optionalField ps [''plan'', ''plan_steps'', ''planSteps''] of
        None \<Rightarrow> Inr []
      | Some v \<Rightarrow> and_then (asArray v (dot path ''plan'')) (\<lambda>vs.
          check_all 0 (plan_step_at path) (take 64 vs)))"

record native_blocker =
  blId :: "jsstr option"
  blDetail :: jsstr
  blState :: "jsstr option"

definition blocker_at :: "jsstr \<Rightarrow> nat \<Rightarrow> jsval \<Rightarrow> native_blocker checked" where
  "blocker_at path i entry =
     (case entry of
        JStr s \<Rightarrow> Inr \<lparr>blId = None, blDetail = s, blState = None\<rparr>
      | _ \<Rightarrow>
        let itemPath = at_index (dot path ''blockers'') i
        in and_then (asObject entry itemPath) (\<lambda>blocker.
           and_then (optionalString blocker [''detail'', ''message'', ''summary'', ''reason''] itemPath) (\<lambda>text.
           let detail = or_else text []
           in if detail = [] then fail (dot itemPath ''detail'') (js ''expected a non-empty blocker detail'')
              else and_then (optionalString blocker [''id''] itemPath) (\<lambda>id'.
                   and_then (optionalString blocker [''state'', ''status''] itemPath) (\<lambda>state.
                   Inr \<lparr>blId = id', blDetail = detail, blState = state\<rparr>)))))"

definition optionalBlockers :: "members \<Rightarrow> jsstr \<Rightarrow> native_blocker list checked" where
  "optionalBlockers ps path =
     (case optionalField ps [''blockers'', ''blocked_on''] of
        None \<Rightarrow> Inr []
      | Some v \<Rightarrow> and_then (asArray v (dot path ''blockers'')) (\<lambda>vs.
          check_all 0 (blocker_at path) (take 64 vs)))"

section \<open>The completion contract\<close>

record step_status =
  ssStep :: jsstr
  ssStatus :: jsstr
  ssDetail :: jsstr
  ssAtMs :: "int option"
  ssSeq :: "int option"

record task_completion =
  tcContract :: completion_contract
  tcSteps :: "step_status list"

definition completion_contract_at :: "members \<Rightarrow> jsstr \<Rightarrow> completion_contract checked" where
  "completion_contract_at obj path =
     and_then (checkResponseKeys obj path [''include_commit'', ''include_push'', ''include_pr'']) (\<lambda>_.
     and_then (fBool obj ''include_commit'' path) (\<lambda>commit.
     and_then (fBool obj ''include_push'' path) (\<lambda>push.
     and_then (fBool obj ''include_pr'' path) (\<lambda>pr.
     Inr \<lparr>ccCommit = commit, ccPush = push, ccPr = pr\<rparr>))))"

definition step_status_at :: "members \<Rightarrow> jsstr \<Rightarrow> step_status checked" where
  "step_status_at entry path =
     and_then (checkResponseKeys entry path [''step'', ''status'', ''detail'']) (\<lambda>_.
     and_then (fString entry ''step'' path) (\<lambda>step.
     and_then (fString entry ''status'' path) (\<lambda>status.
     and_then (fString entry ''detail'' path) (\<lambda>detail.
     and_then (if_member entry ''at_ms'' fNullableInt path None) (\<lambda>atMs.
     and_then (if_member entry ''seq'' fNullableInt path None) (\<lambda>seq.
     Inr \<lparr>ssStep = step, ssStatus = status, ssDetail = detail, ssAtMs = atMs, ssSeq = seq\<rparr>))))))"

definition completion_at :: "members \<Rightarrow> jsstr \<Rightarrow> task_completion checked" where
  "completion_at obj path =
     and_then (fObject obj ''contract'' path) (\<lambda>contractRaw.
     and_then (completion_contract_at contractRaw (dot path ''contract'')) (\<lambda>contract.
     and_then (objects_of obj ''steps'' path step_status_at) (\<lambda>steps.
     Inr \<lparr>tcContract = contract, tcSteps = steps\<rparr>)))"

definition optionalCompletion :: "members \<Rightarrow> jsstr \<Rightarrow> task_completion option checked" where
  "optionalCompletion ps path =
     (case optionalField ps [''completion''] of
        None \<Rightarrow> Inr None
      | Some JNull \<Rightarrow> Inr None
      | Some v \<Rightarrow> and_then (asObject v (dot path ''completion'')) (\<lambda>qs.
          and_then (completion_at qs (dot path ''completion'')) (\<lambda>c. Inr (Some c))))"

section \<open>Task views\<close>

record verification_fact =
  vfId :: jsstr
  vfDetail :: jsstr
  vfStatus :: jsstr

definition validateVerificationFact :: "members \<Rightarrow> jsstr \<Rightarrow> verification_fact checked" where
  "validateVerificationFact obj path =
     and_then (checkResponseKeys obj path [''id'', ''detail'', ''status'']) (\<lambda>_.
     and_then (fString obj ''id'' path) (\<lambda>id'.
     and_then (fString obj ''detail'' path) (\<lambda>detail.
     and_then (fString obj ''status'' path) (\<lambda>status.
     Inr \<lparr>vfId = id', vfDetail = detail, vfStatus = status\<rparr>))))"

record native_task_view =
  nvGoal :: jsstr
  nvConstraints :: "jsstr list"
  nvState :: jsstr
  nvCompleted :: "jsstr list"
  nvOpen :: "jsstr list"
  nvDecisions :: "jsstr list"
  nvFailures :: "jsstr list"
  nvChangedFiles :: "jsstr list"
  nvTestsRun :: "jsstr list"
  nvTestsFailed :: "jsstr list"
  nvPreferences :: "jsstr list"
  nvVerification :: "verification_fact list"
  nvProgress :: jsval
  nvBudget :: "task_budget option"
  nvCriteria :: "jsstr list"
  nvPlan :: "plan_step list"
  nvBlockers :: "native_blocker list"
  nvEvidenceRefs :: "jsstr list"
  nvPhase :: "jsstr option"
  nvCompletion :: "task_completion option"

definition task_view_at :: "members \<Rightarrow> jsstr \<Rightarrow> native_task_view checked" where
  "task_view_at obj path =
     and_then (checkResponseKeys obj path [''goal'', ''constraints'', ''state'', ''milestones'', ''decisions'',
       ''failures'', ''changedFiles'', ''tests'', ''preferences'', ''verification'', ''progress'', ''budget'']) (\<lambda>_.
     and_then (fObject obj ''milestones'' path) (\<lambda>milestones.
     and_then (checkResponseKeys milestones (dot path ''milestones'') [''completed'', ''open'']) (\<lambda>_.
     and_then (fObject obj ''tests'' path) (\<lambda>tests.
     and_then (checkResponseKeys tests (dot path ''tests'') [''run'', ''failed'']) (\<lambda>_.
     and_then (fNullableObject obj ''budget'' path) (\<lambda>budgetRaw.
     and_then (fString obj ''goal'' path) (\<lambda>goal.
     and_then (fStringArray obj ''constraints'' path) (\<lambda>constraints.
     and_then (fString obj ''state'' path) (\<lambda>state.
     and_then (fStringArray milestones ''completed'' (dot path ''milestones'')) (\<lambda>completed.
     and_then (fStringArray milestones ''open'' (dot path ''milestones'')) (\<lambda>open'.
     and_then (fStringArray obj ''decisions'' path) (\<lambda>decisions.
     and_then (fStringArray obj ''failures'' path) (\<lambda>failures.
     and_then (fStringArray obj ''changedFiles'' path) (\<lambda>changedFiles.
     and_then (fStringArray tests ''run'' (dot path ''tests'')) (\<lambda>run.
     and_then (fStringArray tests ''failed'' (dot path ''tests'')) (\<lambda>failed.
     and_then (fStringArray obj ''preferences'' path) (\<lambda>preferences.
     and_then (objects_of obj ''verification'' path validateVerificationFact) (\<lambda>verification.
     and_then (fJson obj ''progress'' path) (\<lambda>progress.
     and_then (nullable budgetRaw (dot path ''budget'') validateBudget) (\<lambda>budget.
     and_then (optionalStringArray obj [''acceptanceCriteria'', ''acceptance_criteria''] path) (\<lambda>criteria.
     and_then (optionalPlanSteps obj path) (\<lambda>plan.
     and_then (optionalBlockers obj path) (\<lambda>blockers.
     and_then (optionalStringArray obj [''evidenceRefs'', ''evidence_refs''] path) (\<lambda>evidenceRefs.
     and_then (optionalString obj [''phase''] path) (\<lambda>phase.
     and_then (optionalCompletion obj path) (\<lambda>completion.
     Inr \<lparr>nvGoal = goal, nvConstraints = constraints, nvState = state, nvCompleted = completed,
          nvOpen = open', nvDecisions = decisions, nvFailures = failures,
          nvChangedFiles = changedFiles, nvTestsRun = run, nvTestsFailed = failed,
          nvPreferences = preferences, nvVerification = verification, nvProgress = progress,
          nvBudget = budget, nvCriteria = criteria, nvPlan = plan, nvBlockers = blockers,
          nvEvidenceRefs = evidenceRefs, nvPhase = phase,
          nvCompletion = completion\<rparr>))))))))))))))))))))))))))"

definition validateTaskViews :: "jsval \<Rightarrow> native_task_view list checked" where
  "validateTaskViews json = entries_of json (js ''GET /native/session/{id}/tasks'') task_view_at"

record owed_fact =
  ofOpId :: jsstr
  ofTool :: jsstr
  ofStartedMs :: int
  ofStatus :: jsstr
  ofEffect :: "jsstr option"

record native_verification_view =
  nwOwed :: "owed_fact list"
  nwFailedChecks :: "verification_fact list"

definition owed_fact_at :: "members \<Rightarrow> jsstr \<Rightarrow> owed_fact checked" where
  "owed_fact_at entry path =
     and_then (checkResponseKeys entry path [''opId'', ''tool'', ''startedMs'', ''status'', ''effectStatus'']) (\<lambda>_.
     and_then (fString entry ''opId'' path) (\<lambda>opId.
     and_then (fString entry ''tool'' path) (\<lambda>tool.
     and_then (fInt entry ''startedMs'' path) (\<lambda>startedMs.
     and_then (fString entry ''status'' path) (\<lambda>status.
     and_then (fNullableString entry ''effectStatus'' path) (\<lambda>effect.
     Inr \<lparr>ofOpId = opId, ofTool = tool, ofStartedMs = startedMs, ofStatus = status,
          ofEffect = effect\<rparr>))))))"

definition validateVerificationView :: "jsval \<Rightarrow> native_verification_view checked" where
  "validateVerificationView json =
     (let path = js ''GET /native/session/{id}/verification''
      in and_then (asObject json path) (\<lambda>obj.
         and_then (checkResponseKeys obj path [''owed'', ''failedChecks'']) (\<lambda>_.
         and_then (objects_of obj ''owed'' path owed_fact_at) (\<lambda>owed.
         and_then (objects_of obj ''failedChecks'' path validateVerificationFact) (\<lambda>failedChecks.
         Inr \<lparr>nwOwed = owed, nwFailedChecks = failedChecks\<rparr>)))))"

end
