(* ===== verification/NativeControl.thy ===== *)
theory NativeControl
  imports Board NativeTasks
begin

text \<open>
  Validators of the control side of the native client (\<open>apps/vscode/src/nativeClient.ts\<close>):
  task runs, attachments, agents and their acknowledgements, tournaments, the coordination
  board and verification records.
\<close>

section \<open>Task runs and attachments\<close>

record native_task_run =
  nrTaskId :: int
  nrRunId :: jsstr
  nrMode :: jsstr
  nrState :: jsstr
  nrGoal :: "jsstr option"
  nrItemIds :: "jsstr list"
  nrModel :: "jsstr option"

definition task_run_at :: "members \<Rightarrow> jsstr \<Rightarrow> native_task_run checked" where
  "task_run_at obj path =
     and_then (checkResponseKeys obj path
       [''task_id'', ''run_id'', ''mode'', ''state'', ''goal'', ''item_ids'', ''model'']) (\<lambda>_.
     and_then (fInt obj ''task_id'' path) (\<lambda>taskId.
     and_then (fString obj ''run_id'' path) (\<lambda>runId.
     and_then (fString obj ''mode'' path) (\<lambda>mode.
     and_then (fString obj ''state'' path) (\<lambda>state.
     and_then (fNullableString obj ''goal'' path) (\<lambda>goal.
     and_then (fStringArray obj ''item_ids'' path) (\<lambda>itemIds.
     and_then (fNullableString obj ''model'' path) (\<lambda>model.
     Inr \<lparr>nrTaskId = taskId, nrRunId = runId, nrMode = mode, nrState = state, nrGoal = goal,
          nrItemIds = itemIds, nrModel = model\<rparr>))))))))"

definition validateTaskRuns :: "jsval \<Rightarrow> native_task_run list checked" where
  "validateTaskRuns json = entries_of json (js ''GET /native/session/{id}/task-runs'') task_run_at"

definition validateTaskRun :: "jsval \<Rightarrow> native_task_run checked" where
  "validateTaskRun json = and_then (validateTaskRuns (JArr [json])) (\<lambda>entries. Inr (hd entries))"

definition run_started_at :: "members \<Rightarrow> jsstr \<Rightarrow> task_run_started checked" where
  "run_started_at obj path =
     and_then (checkResponseKeys obj path [''task_id'', ''run_id'', ''state'']) (\<lambda>_.
     and_then (fInt obj ''task_id'' path) (\<lambda>taskId.
     and_then (fString obj ''run_id'' path) (\<lambda>runId.
     and_then (fString obj ''state'' path) (\<lambda>state.
     Inr \<lparr>trTaskId = taskId, trRunId = runId, trState = state\<rparr>))))"

definition validateTaskRunStarted :: "jsval \<Rightarrow> task_run_started checked" where
  "validateTaskRunStarted json =
     (let path = js ''POST /native/session/{id}/task-runs''
      in and_then (asObject json path) (\<lambda>obj. run_started_at obj path))"

definition validateTaskRunCancelled :: "jsval \<Rightarrow> (jsstr \<times> bool) checked" where
  "validateTaskRunCancelled json =
     (let path = js ''POST /native/session/{id}/task-runs/{run_id}/cancel''
      in and_then (asObject json path) (\<lambda>obj.
         and_then (checkResponseKeys obj path [''run_id'', ''cancelled'']) (\<lambda>_.
         and_then (fString obj ''run_id'' path) (\<lambda>runId.
         and_then (fBool obj ''cancelled'' path) (\<lambda>cancelled.
         Inr (runId, cancelled))))))"

definition is_lower_hex :: "cunit \<Rightarrow> bool" where
  "is_lower_hex c \<longleftrightarrow> 48 \<le> c \<and> c \<le> 57 \<or> 97 \<le> c \<and> c \<le> 102"

definition is_digest :: "jsstr \<Rightarrow> bool" where
  "is_digest s \<longleftrightarrow> length s = 64 \<and> list_all is_lower_hex s"

definition attachment_at :: "members \<Rightarrow> jsstr \<Rightarrow> native_attachment_id checked" where
  "attachment_at obj path =
     and_then (checkResponseKeys obj path [''digest'', ''mime'', ''filename'', ''size'']) (\<lambda>_.
     and_then (fString obj ''digest'' path) (\<lambda>digest.
     if \<not> is_digest digest
       then fail path (js ''expected a 64-char lowercase hex digest, got '' @ quote digest)
     else and_then (fInt obj ''size'' path) (\<lambda>size'.
     if size' < 0
       then fail path (js ''expected a non-negative size, got '' @ int_string size')
     else and_then (fString obj ''mime'' path) (\<lambda>mime.
     and_then (fNullableString obj ''filename'' path) (\<lambda>filename.
     Inr \<lparr>naDigest = digest, naMime = mime, naFilename = filename, naSize = size'\<rparr>)))))"

definition validateAttachmentId :: "jsval \<Rightarrow> native_attachment_id checked" where
  "validateAttachmentId json =
     (let path = js ''POST /native/session/{id}/attachments''
      in and_then (asObject json path) (\<lambda>obj. attachment_at obj path))"

section \<open>Agents\<close>

definition presentationTag :: "members \<Rightarrow> string \<Rightarrow> jsstr \<Rightarrow> presentation checked" where
  "presentationTag ps key path =
     (case map_of ps (js key) of
        None \<Rightarrow> Inr Foreground
      | Some v \<Rightarrow>
          if v = JStr (js ''foreground'') then Inr Foreground
          else if v = JStr (js ''background'') then Inr Background
          else fail (dot path key) (js ''expected \"foreground\" or \"background\", got ''
                 @ (case stringify v of Some t \<Rightarrow> t | None \<Rightarrow> js ''undefined'')))"

datatype agent_kind = Self | Child

record native_agent =
  ngAgentId :: jsstr
  ngKind :: agent_kind
  ngRunId :: jsstr
  ngSessionId :: int
  ngWorktreeId :: int
  ngGoal :: jsstr
  ngState :: jsstr
  ngModel :: "jsstr option"
  ngProvider :: "jsstr option"
  ngBudget :: "int option"
  ngOwnership :: jsstr
  ngCapabilities :: "jsval list"
  ngProgress :: jsval
  ngResult :: jsval
  ngItemIds :: "jsstr list option"
  ngItemId :: "jsstr option"
  ngItemKind :: "jsstr option"
  ngBlockers :: jsval
  ngBlocker :: jsval
  ngPresentation :: presentation

definition agent_kind_of :: "jsstr \<Rightarrow> jsstr \<Rightarrow> agent_kind checked" where
  "agent_kind_of kind path =
     (if kind = js ''self'' then Inr Self
      else if kind = js ''child'' then Inr Child
      else fail (dot path ''kind'') (js ''expected \"self\" or \"child\", got '' @ quote kind))"

definition agent_budget :: "jsval \<Rightarrow> jsstr \<Rightarrow> int option checked" where
  "agent_budget v path =
     (case v of
        JNull \<Rightarrow> Inr None
      | JNum x \<Rightarrow> (case integer_value x of Some i \<Rightarrow> Inr (Some i)
          | None \<Rightarrow> expected path ''an integer or null'' v)
      | _ \<Rightarrow> expected path ''an integer or null'' v)"

definition agent_at :: "members \<Rightarrow> jsstr \<Rightarrow> native_agent checked" where
  "agent_at obj path =
     and_then (checkResponseKeys obj path [''agent_id'', ''kind'', ''run_id'', ''session_id'', ''worktree_id'',
       ''goal'', ''state'', ''model'', ''budget'', ''ownership'', ''capabilities'', ''progress'', ''result'']) (\<lambda>_.
     and_then (fString obj ''kind'' path) (\<lambda>kindText.
     and_then (agent_kind_of kindText path) (\<lambda>kind.
     and_then (field obj ''budget'' path) (\<lambda>budgetRaw.
     and_then (agent_budget budgetRaw (dot path ''budget'')) (\<lambda>budget.
     and_then (fString obj ''agent_id'' path) (\<lambda>agentId.
     and_then (fString obj ''run_id'' path) (\<lambda>runId.
     and_then (fInt obj ''session_id'' path) (\<lambda>sessionId.
     and_then (fInt obj ''worktree_id'' path) (\<lambda>worktreeId.
     and_then (fString obj ''goal'' path) (\<lambda>goal.
     and_then (fString obj ''state'' path) (\<lambda>state.
     and_then (fNullableString obj ''model'' path) (\<lambda>model.
     and_then (if_member obj ''provider'' fNullableString path None) (\<lambda>provider.
     and_then (fString obj ''ownership'' path) (\<lambda>ownership.
     and_then (fArray obj ''capabilities'' path) (\<lambda>capabilities.
     and_then (fJson obj ''progress'' path) (\<lambda>progress.
     and_then (fJson obj ''result'' path) (\<lambda>result.
     and_then (if_member obj ''item_ids''
       (\<lambda>ps k p. and_then (fStringArray ps k p) (\<lambda>ids. Inr (Some ids))) path None) (\<lambda>itemIds.
     and_then (if_member obj ''item_id'' fNullableString path None) (\<lambda>itemId.
     and_then (if_member obj ''item_kind'' fNullableString path None) (\<lambda>itemKind.
     and_then (if_member obj ''blockers'' fJson path JNull) (\<lambda>blockers.
     and_then (if_member obj ''blocker'' fJson path JNull) (\<lambda>blocker.
     and_then (presentationTag obj ''presentation'' path) (\<lambda>presentation.
     Inr \<lparr>ngAgentId = agentId, ngKind = kind, ngRunId = runId, ngSessionId = sessionId,
          ngWorktreeId = worktreeId, ngGoal = goal, ngState = state, ngModel = model,
          ngProvider = provider, ngBudget = budget, ngOwnership = ownership,
          ngCapabilities = capabilities, ngProgress = progress, ngResult = result,
          ngItemIds = itemIds, ngItemId = itemId, ngItemKind = itemKind, ngBlockers = blockers,
          ngBlocker = blocker, ngPresentation = presentation\<rparr>)))))))))))))))))))))))"

definition validateAgents :: "jsval \<Rightarrow> native_agent list checked" where
  "validateAgents json = entries_of json (js ''GET /native/agents'') agent_at"

record presentation_ack =
  akChildId :: jsstr
  akPresentation :: presentation
  akChanged :: bool

definition validateAgentPresentationAck :: "jsval \<Rightarrow> jsstr \<Rightarrow> presentation_ack checked" where
  "validateAgentPresentationAck json path =
     and_then (asObject json path) (\<lambda>obj.
     and_then (checkResponseKeys obj path [''child_id'', ''presentation'', ''changed'']) (\<lambda>_.
     and_then (fString obj ''child_id'' path) (\<lambda>childId.
     and_then (presentationTag obj ''presentation'' path) (\<lambda>presentation.
     and_then (fBool obj ''changed'' path) (\<lambda>changed.
     Inr \<lparr>akChildId = childId, akPresentation = presentation, akChanged = changed\<rparr>)))))"

definition applied_flag :: "jsval \<Rightarrow> jsstr \<Rightarrow> bool option checked" where
  "applied_flag v path =
     (case v of JNull \<Rightarrow> Inr None | JBool b \<Rightarrow> Inr (Some b)
      | _ \<Rightarrow> expected path ''a boolean or null'' v)"

definition validateAgentControlAck :: "jsval \<Rightarrow> jsstr \<Rightarrow> (int option \<times> bool option) checked" where
  "validateAgentControlAck json path =
     and_then (asObject json path) (\<lambda>obj.
     and_then (checkResponseKeys obj path [''queuedSeq'', ''applied'']) (\<lambda>_.
     and_then (field obj ''queuedSeq'' path) (\<lambda>queued.
     and_then (field obj ''applied'' path) (\<lambda>applied.
     and_then (agent_budget queued (dot path ''queuedSeq'')) (\<lambda>queuedSeq.
     and_then (applied_flag applied (dot path ''applied'')) (\<lambda>flag.
     Inr (queuedSeq, flag)))))))"

section \<open>Tournaments\<close>

record tournament_candidate =
  tdChildId :: jsstr
  tdWorktree :: jsstr
  tdBaseRevision :: jsstr
  tdState :: jsstr
  tdVerification :: "int option"
  tdVerificationPass :: "bool option"
  tdReviewRank :: "jsstr option"
  tdReviewer :: "jsstr option"
  tdCostMicro :: int
  tdWallMs :: int

record tournament_response =
  tpoId :: jsstr
  tpoRunFamily :: jsstr
  tpoGoal :: jsstr
  tpoCriteria :: "(jsstr \<times> jsstr) list"
  tpoCandidates :: "tournament_candidate list"
  tpoWinner :: "jsstr option"
  tpoState :: jsstr

definition review_at :: "members \<Rightarrow> jsstr \<Rightarrow> (jsstr \<times> jsstr) checked" where
  "review_at review path =
     and_then (checkResponseKeys review path [''rank'', ''reviewer'']) (\<lambda>_.
     and_then (fString review ''rank'' path) (\<lambda>rank.
     and_then (fString review ''reviewer'' path) (\<lambda>reviewer.
     Inr (rank, reviewer))))"

definition fNullableBool :: "members \<Rightarrow> string \<Rightarrow> jsstr \<Rightarrow> bool option checked" where
  "fNullableBool ps key path = and_then (field ps key path) (\<lambda>v.
     if v = JNull then Inr None else and_then (fBool ps key path) (\<lambda>b. Inr (Some b)))"

definition validateTournamentCandidate :: "members \<Rightarrow> jsstr \<Rightarrow> tournament_candidate checked" where
  "validateTournamentCandidate obj path =
     and_then (checkResponseKeys obj path [''child_id'', ''worktree'', ''base_revision'', ''state'',
       ''verification'', ''verification_pass'', ''review'', ''cost_micro'', ''wall_ms'']) (\<lambda>_.
     and_then (fNullableObject obj ''review'' path) (\<lambda>reviewRaw.
     and_then (nullable reviewRaw (dot path ''review'') review_at) (\<lambda>review.
     and_then (fString obj ''child_id'' path) (\<lambda>childId.
     and_then (fString obj ''worktree'' path) (\<lambda>worktree.
     and_then (fString obj ''base_revision'' path) (\<lambda>baseRevision.
     and_then (fString obj ''state'' path) (\<lambda>state.
     and_then (fNullableInt obj ''verification'' path) (\<lambda>verification.
     and_then (fNullableBool obj ''verification_pass'' path) (\<lambda>pass.
     and_then (fInt obj ''cost_micro'' path) (\<lambda>costMicro.
     and_then (fInt obj ''wall_ms'' path) (\<lambda>wallMs.
     Inr \<lparr>tdChildId = childId, tdWorktree = worktree, tdBaseRevision = baseRevision, tdState = state,
          tdVerification = verification, tdVerificationPass = pass,
          tdReviewRank = map_option fst review, tdReviewer = map_option snd review,
          tdCostMicro = costMicro, tdWallMs = wallMs\<rparr>)))))))))))"

definition criterion_at :: "members \<Rightarrow> jsstr \<Rightarrow> (jsstr \<times> jsstr) checked" where
  "criterion_at entry path =
     and_then (checkResponseKeys entry path [''id'', ''spec'']) (\<lambda>_.
     and_then (fString entry ''id'' path) (\<lambda>id'.
     and_then (fString entry ''spec'' path) (\<lambda>spec.
     Inr (id', spec))))"

definition tournament_at :: "members \<Rightarrow> jsstr \<Rightarrow> tournament_response checked" where
  "tournament_at obj path =
     and_then (checkResponseKeys obj path
       [''id'', ''run_family'', ''goal'', ''criteria'', ''candidates'', ''winner'', ''state'']) (\<lambda>_.
     and_then (fString obj ''id'' path) (\<lambda>id'.
     and_then (fString obj ''run_family'' path) (\<lambda>runFamily.
     and_then (fString obj ''goal'' path) (\<lambda>goal.
     and_then (objects_of obj ''criteria'' path criterion_at) (\<lambda>criteria.
     and_then (objects_of obj ''candidates'' path validateTournamentCandidate) (\<lambda>candidates.
     and_then (fNullableString obj ''winner'' path) (\<lambda>winner.
     and_then (fString obj ''state'' path) (\<lambda>state.
     Inr \<lparr>tpoId = id', tpoRunFamily = runFamily, tpoGoal = goal, tpoCriteria = criteria,
          tpoCandidates = candidates, tpoWinner = winner, tpoState = state\<rparr>))))))))"

definition validateTournament :: "jsval \<Rightarrow> tournament_response checked" where
  "validateTournament json =
     (let path = js ''GET /native/session/{id}/tournament/{tournament_id}''
      in and_then (asObject json path) (\<lambda>obj. tournament_at obj path))"

record tournament_started =
  tnTournamentId :: jsstr
  tnRunId :: jsstr
  tnCandidates :: "jsstr list"
  tnState :: jsstr
  tnWinner :: "jsstr option"

definition validateTournamentStarted :: "jsval \<Rightarrow> tournament_started checked" where
  "validateTournamentStarted json =
     (let path = js ''POST /native/session/{id}/tournament''
      in and_then (asObject json path) (\<lambda>obj.
         and_then (checkResponseKeys obj path
           [''tournament_id'', ''run_id'', ''candidates'', ''state'', ''winner'']) (\<lambda>_.
         and_then (fString obj ''tournament_id'' path) (\<lambda>tournamentId.
         and_then (fString obj ''run_id'' path) (\<lambda>runId.
         and_then (fStringArray obj ''candidates'' path) (\<lambda>candidates.
         and_then (fString obj ''state'' path) (\<lambda>state.
         and_then (fNullableString obj ''winner'' path) (\<lambda>winner.
         Inr \<lparr>tnTournamentId = tournamentId, tnRunId = runId, tnCandidates = candidates,
              tnState = state, tnWinner = winner\<rparr>))))))))"

record tournament_summary =
  tyId :: jsstr
  tyState :: jsstr
  tyCandidateCount :: int
  tyWinner :: "jsstr option"
  tyDecidedMs :: "int option"

definition tournament_summary_at :: "members \<Rightarrow> jsstr \<Rightarrow> tournament_summary checked" where
  "tournament_summary_at obj path =
     and_then (checkResponseKeys obj path [''id'', ''state'', ''candidate_count'', ''winner'', ''decided_ms'']) (\<lambda>_.
     and_then (fString obj ''id'' path) (\<lambda>id'.
     and_then (fString obj ''state'' path) (\<lambda>state.
     and_then (fInt obj ''candidate_count'' path) (\<lambda>candidateCount.
     and_then (fNullableString obj ''winner'' path) (\<lambda>winner.
     and_then (fNullableInt obj ''decided_ms'' path) (\<lambda>decidedMs.
     Inr \<lparr>tyId = id', tyState = state, tyCandidateCount = candidateCount, tyWinner = winner,
          tyDecidedMs = decidedMs\<rparr>))))))"

definition validateTournamentSummaries :: "jsval \<Rightarrow> tournament_summary list checked" where
  "validateTournamentSummaries json =
     entries_of json (js ''GET /native/session/{id}/tournaments'') tournament_summary_at"

record tournament_decision =
  teTournamentId :: jsstr
  teWinner :: jsstr
  teRationale :: jsstr
  teDiscarded :: "(jsstr \<times> jsstr) list"

definition discarded_at :: "members \<Rightarrow> jsstr \<Rightarrow> (jsstr \<times> jsstr) checked" where
  "discarded_at entry path =
     and_then (checkResponseKeys entry path [''child_id'', ''reason'']) (\<lambda>_.
     and_then (fString entry ''child_id'' path) (\<lambda>childId.
     and_then (fString entry ''reason'' path) (\<lambda>reason.
     Inr (childId, reason))))"

definition validateTournamentDecision :: "jsval \<Rightarrow> tournament_decision checked" where
  "validateTournamentDecision json =
     (let path = js ''POST /native/session/{id}/tournaments/{tournament_id}/decide''
      in and_then (asObject json path) (\<lambda>obj.
         and_then (checkResponseKeys obj path [''tournament_id'', ''winner'', ''rationale'', ''discarded'']) (\<lambda>_.
         and_then (fString obj ''tournament_id'' path) (\<lambda>tournamentId.
         and_then (fString obj ''winner'' path) (\<lambda>winner.
         and_then (fString obj ''rationale'' path) (\<lambda>rationale.
         and_then (objects_of obj ''discarded'' path discarded_at) (\<lambda>discarded.
         Inr \<lparr>teTournamentId = tournamentId, teWinner = winner, teRationale = rationale,
              teDiscarded = discarded\<rparr>)))))))"

text \<open>What the cockpit reads of a validated tournament.\<close>

definition as_candidate_row :: "tournament_candidate \<Rightarrow> candidate_row" where
  "as_candidate_row c =
     \<lparr>crChildId = tdChildId c, crState = tdState c, crVerification = tdVerification c,
      crVerificationPass = tdVerificationPass c, crReviewRank = tdReviewRank c,
      crReviewer = tdReviewer c, crCostMicro = tdCostMicro c, crWallMs = tdWallMs c\<rparr>"

definition as_native_tournament :: "tournament_response \<Rightarrow> native_tournament" where
  "as_native_tournament t =
     \<lparr>ntId = tpoId t, ntState = tpoState t, ntWinner = tpoWinner t, ntCriteria = tpoCriteria t,
      ntCandidates = map as_candidate_row (tpoCandidates t)\<rparr>"

section \<open>The coordination board\<close>

definition fPositiveInt :: "members \<Rightarrow> string \<Rightarrow> jsstr \<Rightarrow> int checked" where
  "fPositiveInt ps key path = and_then (fInt ps key path) (\<lambda>i.
     if i \<le> 0 then fail (dot path key) (js ''expected a positive integer, got '' @ int_string i) else Inr i)"

definition fNonNegativeInt :: "members \<Rightarrow> string \<Rightarrow> jsstr \<Rightarrow> int checked" where
  "fNonNegativeInt ps key path = and_then (fInt ps key path) (\<lambda>i.
     if i < 0 then fail (dot path key) (js ''expected a non-negative integer, got '' @ int_string i) else Inr i)"

definition validateBoardPostAt :: "members \<Rightarrow> jsstr \<Rightarrow> native_board_post checked" where
  "validateBoardPostAt obj path =
     and_then (checkResponseKeys obj path [''id'', ''board_id'', ''author_child'', ''author_session'', ''subject'',
       ''body'', ''refs'', ''revision'', ''created_ms'']) (\<lambda>_.
     and_then (fPositiveInt obj ''id'' path) (\<lambda>id'.
     and_then (fPositiveInt obj ''board_id'' path) (\<lambda>boardId.
     and_then (fNullableInt obj ''author_child'' path) (\<lambda>authorChild.
     and_then (fPositiveInt obj ''author_session'' path) (\<lambda>authorSession.
     and_then (fString obj ''subject'' path) (\<lambda>subject.
     and_then (fString obj ''body'' path) (\<lambda>body.
     and_then (fStringArray obj ''refs'' path) (\<lambda>refs.
     and_then (fPositiveInt obj ''revision'' path) (\<lambda>revision.
     and_then (fInt obj ''created_ms'' path) (\<lambda>createdMs.
     Inr \<lparr>nbId = id', nbBoardId = boardId, nbAuthorChild = authorChild, nbAuthorSession = authorSession,
          nbSubject = subject, nbBody = body, nbRefs = take 64 refs, nbRevision = revision,
          nbCreatedMs = createdMs\<rparr>))))))))))"

definition validateBoardPost :: "jsval \<Rightarrow> native_board_post checked" where
  "validateBoardPost json =
     (let path = js ''POST /native/session/{id}/board''
      in and_then (asObject json path) (\<lambda>obj. validateBoardPostAt obj path))"

definition board_page_at :: "members \<Rightarrow> jsstr \<Rightarrow> native_board_page checked" where
  "board_page_at obj path =
     and_then (checkResponseKeys obj path
       [''board_id'', ''revision'', ''posts'', ''next_before_revision'', ''has_more'']) (\<lambda>_.
     and_then (fPositiveInt obj ''board_id'' path) (\<lambda>boardId.
     and_then (fNonNegativeInt obj ''revision'' path) (\<lambda>revision.
     and_then (objects_of obj ''posts'' path validateBoardPostAt) (\<lambda>posts.
     and_then (fNullableInt obj ''next_before_revision'' path) (\<lambda>nextBefore.
     and_then (fBool obj ''has_more'' path) (\<lambda>hasMore.
     Inr \<lparr>npBoardId = boardId, npRevision = revision, npPosts = posts, npNextBefore = nextBefore,
          npHasMore = hasMore\<rparr>))))))"

definition validateBoardPage :: "jsval \<Rightarrow> native_board_page checked" where
  "validateBoardPage json =
     (let path = js ''GET /native/session/{id}/board''
      in and_then (asObject json path) (\<lambda>obj. board_page_at obj path))"

section \<open>Verification records\<close>

record criterion_result =
  clKey :: jsstr
  clPassed :: bool
  clEvidence :: "jsstr option"

record check_result =
  chCheck :: jsstr
  chProgram :: jsstr
  chArgs :: "jsstr list"
  chCategory :: jsstr
  chRequired :: bool
  chStatus :: jsstr
  chStartedMs :: int
  chFinishedMs :: "int option"
  chExit :: "int option"
  chSummary :: "jsstr option"

record changed_file =
  cfPath :: jsstr
  cfDigestHex :: jsstr
  cfSize :: int

record native_verification_record =
  nzRecordId :: jsstr
  nzRevision :: jsstr
  nzWorkspaceId :: jsstr
  nzWorktreeId :: jsstr
  nzTreeHash :: "jsstr option"
  nzCriteria :: "criterion_result list"
  nzChecks :: "check_result list"
  nzChangedFiles :: "changed_file list"
  nzUnrelatedChanges :: "jsstr list"
  nzReviewer :: jsval
  nzStatus :: jsstr
  nzStartedMs :: int
  nzCompletedMs :: "int option"

definition criterion_result_at :: "members \<Rightarrow> jsstr \<Rightarrow> criterion_result checked" where
  "criterion_result_at entry path =
     and_then (checkResponseKeys entry path [''criterionKey'', ''passed'', ''evidence'']) (\<lambda>_.
     and_then (fString entry ''criterionKey'' path) (\<lambda>key.
     and_then (fBool entry ''passed'' path) (\<lambda>passed.
     and_then (fNullableString entry ''evidence'' path) (\<lambda>evidence.
     Inr \<lparr>clKey = key, clPassed = passed, clEvidence = evidence\<rparr>))))"

definition check_result_at :: "members \<Rightarrow> jsstr \<Rightarrow> check_result checked" where
  "check_result_at entry path =
     and_then (checkResponseKeys entry path [''check'', ''program'', ''args'', ''category'', ''required'',
       ''status'', ''startedMs'', ''finishedMs'', ''exit'', ''summary'']) (\<lambda>_.
     and_then (fString entry ''check'' path) (\<lambda>check.
     and_then (fString entry ''program'' path) (\<lambda>program.
     and_then (fStringArray entry ''args'' path) (\<lambda>args.
     and_then (fString entry ''category'' path) (\<lambda>category.
     and_then (fBool entry ''required'' path) (\<lambda>required.
     and_then (fString entry ''status'' path) (\<lambda>status.
     and_then (fInt entry ''startedMs'' path) (\<lambda>startedMs.
     and_then (fNullableInt entry ''finishedMs'' path) (\<lambda>finishedMs.
     and_then (fNullableInt entry ''exit'' path) (\<lambda>exit.
     and_then (fNullableString entry ''summary'' path) (\<lambda>summary.
     Inr \<lparr>chCheck = check, chProgram = program, chArgs = args, chCategory = category,
          chRequired = required, chStatus = status, chStartedMs = startedMs,
          chFinishedMs = finishedMs, chExit = exit, chSummary = summary\<rparr>)))))))))))"

definition changed_file_at :: "members \<Rightarrow> jsstr \<Rightarrow> changed_file checked" where
  "changed_file_at entry path =
     and_then (checkResponseKeys entry path [''path'', ''digestHex'', ''size'']) (\<lambda>_.
     and_then (fString entry ''path'' path) (\<lambda>file.
     and_then (fString entry ''digestHex'' path) (\<lambda>digestHex.
     and_then (fInt entry ''size'' path) (\<lambda>size'.
     Inr \<lparr>cfPath = file, cfDigestHex = digestHex, cfSize = size'\<rparr>))))"

definition validateVerificationRecord :: "members \<Rightarrow> jsstr \<Rightarrow> native_verification_record checked" where
  "validateVerificationRecord obj path =
     and_then (checkResponseKeys obj path [''recordId'', ''revision'', ''workspaceId'', ''worktreeId'',
       ''treeHash'', ''criteria'', ''checks'', ''changedFiles'', ''unrelatedChanges'', ''reviewer'', ''status'',
       ''startedMs'', ''completedMs'']) (\<lambda>_.
     and_then (fString obj ''recordId'' path) (\<lambda>recordId.
     and_then (fString obj ''revision'' path) (\<lambda>revision.
     and_then (fString obj ''workspaceId'' path) (\<lambda>workspaceId.
     and_then (fString obj ''worktreeId'' path) (\<lambda>worktreeId.
     and_then (fNullableString obj ''treeHash'' path) (\<lambda>treeHash.
     and_then (objects_of obj ''criteria'' path criterion_result_at) (\<lambda>criteria.
     and_then (objects_of obj ''checks'' path check_result_at) (\<lambda>checks.
     and_then (objects_of obj ''changedFiles'' path changed_file_at) (\<lambda>changedFiles.
     and_then (fStringArray obj ''unrelatedChanges'' path) (\<lambda>unrelated.
     and_then (fJson obj ''reviewer'' path) (\<lambda>reviewer.
     and_then (fString obj ''status'' path) (\<lambda>status.
     and_then (fInt obj ''startedMs'' path) (\<lambda>startedMs.
     and_then (fNullableInt obj ''completedMs'' path) (\<lambda>completedMs.
     Inr \<lparr>nzRecordId = recordId, nzRevision = revision, nzWorkspaceId = workspaceId,
          nzWorktreeId = worktreeId, nzTreeHash = treeHash, nzCriteria = criteria, nzChecks = checks,
          nzChangedFiles = changedFiles, nzUnrelatedChanges = unrelated, nzReviewer = reviewer,
          nzStatus = status, nzStartedMs = startedMs, nzCompletedMs = completedMs\<rparr>))))))))))))))"

record task_verification =
  tvnSessionId :: jsstr
  tvnTaskId :: jsstr
  tvnRecords :: "native_verification_record list"

definition task_verification_at :: "members \<Rightarrow> jsstr \<Rightarrow> task_verification checked" where
  "task_verification_at obj path =
     and_then (checkResponseKeys obj path [''sessionId'', ''taskId'', ''records'']) (\<lambda>_.
     and_then (fString obj ''sessionId'' path) (\<lambda>sessionId.
     and_then (fString obj ''taskId'' path) (\<lambda>taskId.
     and_then (objects_of obj ''records'' path validateVerificationRecord) (\<lambda>records.
     Inr \<lparr>tvnSessionId = sessionId, tvnTaskId = taskId, tvnRecords = records\<rparr>))))"

definition validateTaskVerification :: "jsval \<Rightarrow> task_verification checked" where
  "validateTaskVerification json =
     (let path = js ''GET /native/session/{id}/tasks/{task_id}/verification''
      in and_then (asObject json path) (\<lambda>obj. task_verification_at obj path))"

end
