(* ===== verification/NativeContracts.thy ===== *)
theory NativeContracts
  imports NativeControl
begin

text \<open>
  The contracts of the task and control validators, and the properties of the native
  client's response side as a whole: exact acceptance, errors below the path of the
  request, indifference to unknown members, and well-formed records.
\<close>

lemma guard_ok [decode_simps]: "(if b then fail p d else m) = Inr x \<longleftrightarrow> \<not> b \<and> m = Inr x"
  by simp

section \<open>Runs and attachments\<close>

definition carries_task_run :: "members \<Rightarrow> native_task_run \<Rightarrow> bool" where
  "carries_task_run ps r \<longleftrightarrow>
     has ps ''task_id'' (JInt (nrTaskId r)) \<and> has ps ''run_id'' (JStr (nrRunId r))
     \<and> has ps ''mode'' (JStr (nrMode r)) \<and> has ps ''state'' (JStr (nrState r))
     \<and> has ps ''goal'' (jopt JStr (nrGoal r)) \<and> has ps ''item_ids'' (JArr (map JStr (nrItemIds r)))
     \<and> has ps ''model'' (jopt JStr (nrModel r))"

definition carries_run_started :: "members \<Rightarrow> task_run_started \<Rightarrow> bool" where
  "carries_run_started ps r \<longleftrightarrow>
     has ps ''task_id'' (JInt (trTaskId r)) \<and> has ps ''run_id'' (JStr (trRunId r))
     \<and> has ps ''state'' (JStr (trState r))"

definition carries_attachment :: "members \<Rightarrow> native_attachment_id \<Rightarrow> bool" where
  "carries_attachment ps r \<longleftrightarrow>
     has ps ''digest'' (JStr (naDigest r)) \<and> is_digest (naDigest r)
     \<and> has ps ''size'' (JInt (naSize r)) \<and> 0 \<le> naSize r
     \<and> has ps ''mime'' (JStr (naMime r)) \<and> has ps ''filename'' (jopt JStr (naFilename r))"

interpretation task_run: decoder task_run_at carries_task_run
  "[''task_id'', ''run_id'', ''mode'', ''state'', ''goal'', ''item_ids'', ''model'']"
proof unfold_locales
  show "task_run_at ps p = Inr r \<longleftrightarrow> carries_task_run ps r" for ps p r
    by (cases r) (auto simp: task_run_at_def carries_task_run_def has_def decode_simps inj_map_eq_map inj_def)
qed (auto simp: task_run_at_def intro!: located_intros reader_cong)

interpretation run_started: decoder run_started_at carries_run_started "[''task_id'', ''run_id'', ''state'']"
  by unfold_locales (auto simp: run_started_at_def carries_run_started_def has_def decode_simps
      intro!: located_intros reader_cong)

interpretation attachment: decoder attachment_at carries_attachment
  "[''digest'', ''mime'', ''filename'', ''size'']"
proof unfold_locales
  show "attachment_at ps p = Inr r \<longleftrightarrow> carries_attachment ps r" for ps p r
    by (cases r) (auto simp: attachment_at_def carries_attachment_def has_def decode_simps)
  show "attachment_at ps p = attachment_at qs p"
    if "agree [''digest'', ''mime'', ''filename'', ''size''] ps qs" for ps qs p
    by (simp add: attachment_at_def member_cong [OF that] cong: if_cong)
qed (auto simp: attachment_at_def intro!: located_intros)

section \<open>The coordination board\<close>

definition carries_board_post :: "members \<Rightarrow> native_board_post \<Rightarrow> bool" where
  "carries_board_post ps r \<longleftrightarrow>
     has ps ''id'' (JInt (nbId r)) \<and> 0 < nbId r
     \<and> has ps ''board_id'' (JInt (nbBoardId r)) \<and> 0 < nbBoardId r
     \<and> has ps ''author_child'' (jopt JInt (nbAuthorChild r))
     \<and> has ps ''author_session'' (JInt (nbAuthorSession r)) \<and> 0 < nbAuthorSession r
     \<and> has ps ''subject'' (JStr (nbSubject r)) \<and> has ps ''body'' (JStr (nbBody r))
     \<and> (\<exists>refs. has ps ''refs'' (JArr (map JStr refs)) \<and> nbRefs r = take 64 refs)
     \<and> has ps ''revision'' (JInt (nbRevision r)) \<and> 0 < nbRevision r
     \<and> has ps ''created_ms'' (JInt (nbCreatedMs r))"

definition carries_board_page :: "members \<Rightarrow> native_board_page \<Rightarrow> bool" where
  "carries_board_page ps r \<longleftrightarrow>
     has ps ''board_id'' (JInt (npBoardId r)) \<and> 0 < npBoardId r
     \<and> has ps ''revision'' (JInt (npRevision r)) \<and> 0 \<le> npRevision r
     \<and> has_list ps ''posts'' carries_board_post (npPosts r)
     \<and> has ps ''next_before_revision'' (jopt JInt (npNextBefore r))
     \<and> has ps ''has_more'' (JBool (npHasMore r))"

lemma fPositiveInt_ok [decode_simps]: "fPositiveInt ps key p = Inr i \<longleftrightarrow> has ps key (JInt i) \<and> 0 < i"
  by (auto simp: fPositiveInt_def decode_simps)

lemma fNonNegativeInt_ok [decode_simps]: "fNonNegativeInt ps key p = Inr i \<longleftrightarrow> has ps key (JInt i) \<and> 0 \<le> i"
  by (auto simp: fNonNegativeInt_def decode_simps)

lemma bounded_int_located [located_intros]:
  "located p (fPositiveInt ps key p)" "located p (fNonNegativeInt ps key p)"
  by (auto simp: fPositiveInt_def fNonNegativeInt_def intro!: located_intros)

lemma bounded_int_cong:
  assumes "agree keys ps qs" and "key \<in> set keys"
  shows "fPositiveInt ps key p = fPositiveInt qs key p" "fNonNegativeInt ps key p = fNonNegativeInt qs key p"
  by (simp_all add: fPositiveInt_def fNonNegativeInt_def readers_cong [OF assms] composed_cong [OF assms])

interpretation board_post: decoder validateBoardPostAt carries_board_post
  "[''id'', ''board_id'', ''author_child'', ''author_session'', ''subject'', ''body'', ''refs'',
    ''revision'', ''created_ms'']"
proof unfold_locales
  show "validateBoardPostAt ps p = Inr r \<longleftrightarrow> carries_board_post ps r" for ps p r
    by (cases r) (auto simp: validateBoardPostAt_def carries_board_post_def has_def decode_simps)
qed (auto simp: validateBoardPostAt_def intro!: located_intros reader_cong bounded_int_cong)

interpretation board_page: decoder board_page_at carries_board_page
  "[''board_id'', ''revision'', ''posts'', ''next_before_revision'', ''has_more'']"
proof unfold_locales
  show "board_page_at ps p = Inr r \<longleftrightarrow> carries_board_page ps r" for ps p r
    by (cases r) (auto simp: board_page_at_def carries_board_page_def has_def decode_simps present)
qed (auto simp: board_page_at_def intro!: located_intros reader_cong bounded_int_cong)

section \<open>Tournaments\<close>

definition carries_pair :: "string \<Rightarrow> string \<Rightarrow> members \<Rightarrow> jsstr \<times> jsstr \<Rightarrow> bool" where
  "carries_pair k1 k2 ps r \<longleftrightarrow> has ps k1 (JStr (fst r)) \<and> has ps k2 (JStr (snd r))"

definition carries_candidate :: "members \<Rightarrow> tournament_candidate \<Rightarrow> bool" where
  "carries_candidate ps r \<longleftrightarrow>
     has ps ''child_id'' (JStr (tdChildId r)) \<and> has ps ''worktree'' (JStr (tdWorktree r))
     \<and> has ps ''base_revision'' (JStr (tdBaseRevision r)) \<and> has ps ''state'' (JStr (tdState r))
     \<and> has ps ''verification'' (jopt JInt (tdVerification r))
     \<and> has ps ''verification_pass'' (jopt JBool (tdVerificationPass r))
     \<and> (\<exists>review. has_opt ps ''review'' (carries_pair ''rank'' ''reviewer'') review
          \<and> tdReviewRank r = map_option fst review \<and> tdReviewer r = map_option snd review)
     \<and> has ps ''cost_micro'' (JInt (tdCostMicro r)) \<and> has ps ''wall_ms'' (JInt (tdWallMs r))"

definition carries_tournament :: "members \<Rightarrow> tournament_response \<Rightarrow> bool" where
  "carries_tournament ps r \<longleftrightarrow>
     has ps ''id'' (JStr (tpoId r)) \<and> has ps ''run_family'' (JStr (tpoRunFamily r))
     \<and> has ps ''goal'' (JStr (tpoGoal r))
     \<and> has_list ps ''criteria'' (carries_pair ''id'' ''spec'') (tpoCriteria r)
     \<and> has_list ps ''candidates'' carries_candidate (tpoCandidates r)
     \<and> has ps ''winner'' (jopt JStr (tpoWinner r)) \<and> has ps ''state'' (JStr (tpoState r))"

interpretation review: decoder review_at "carries_pair ''rank'' ''reviewer''" "[''rank'', ''reviewer'']"
  by unfold_locales (auto simp: review_at_def carries_pair_def has_def decode_simps
      intro!: located_intros reader_cong)

interpretation criterion: decoder criterion_at "carries_pair ''id'' ''spec''" "[''id'', ''spec'']"
  by unfold_locales (auto simp: criterion_at_def carries_pair_def has_def decode_simps
      intro!: located_intros reader_cong)

lemma fNullableBool_ok [decode_simps]: "fNullableBool ps key p = Inr b \<longleftrightarrow> has ps key (jopt JBool b)"
  by (cases b) (auto simp: fNullableBool_def decode_simps split: if_split_asm dest: has_unique)

lemma fNullableBool_located [located_intros]: "located p (fNullableBool ps key p)"
  by (auto simp: fNullableBool_def intro!: located_intros)

lemma fNullableBool_cong:
  assumes "agree keys ps qs" and "key \<in> set keys"
  shows "fNullableBool ps key p = fNullableBool qs key p"
  by (simp add: fNullableBool_def field_cong [OF assms] readers_cong [OF assms] cong: if_cong)

interpretation candidate: decoder validateTournamentCandidate carries_candidate
  "[''child_id'', ''worktree'', ''base_revision'', ''state'', ''verification'', ''verification_pass'',
    ''review'', ''cost_micro'', ''wall_ms'']"
proof unfold_locales
  show "validateTournamentCandidate ps p = Inr r \<longleftrightarrow> carries_candidate ps r" for ps p r
    by (cases r) (auto simp: validateTournamentCandidate_def carries_candidate_def has_opt_def has_def decode_simps)
qed (auto simp: validateTournamentCandidate_def intro!: located_intros reader_cong fNullableBool_cong)

interpretation tournament: decoder tournament_at carries_tournament
  "[''id'', ''run_family'', ''goal'', ''criteria'', ''candidates'', ''winner'', ''state'']"
proof unfold_locales
  show "tournament_at ps p = Inr r \<longleftrightarrow> carries_tournament ps r" for ps p r
    by (cases r) (auto simp: tournament_at_def carries_tournament_def has_def decode_simps present)
qed (auto simp: tournament_at_def intro!: located_intros reader_cong)

section \<open>Verification records\<close>

definition carries_criterion_result :: "members \<Rightarrow> criterion_result \<Rightarrow> bool" where
  "carries_criterion_result ps r \<longleftrightarrow>
     has ps ''criterionKey'' (JStr (clKey r)) \<and> has ps ''passed'' (JBool (clPassed r))
     \<and> has ps ''evidence'' (jopt JStr (clEvidence r))"

definition carries_check_result :: "members \<Rightarrow> check_result \<Rightarrow> bool" where
  "carries_check_result ps r \<longleftrightarrow>
     has ps ''check'' (JStr (chCheck r)) \<and> has ps ''program'' (JStr (chProgram r))
     \<and> has ps ''args'' (JArr (map JStr (chArgs r))) \<and> has ps ''category'' (JStr (chCategory r))
     \<and> has ps ''required'' (JBool (chRequired r)) \<and> has ps ''status'' (JStr (chStatus r))
     \<and> has ps ''startedMs'' (JInt (chStartedMs r)) \<and> has ps ''finishedMs'' (jopt JInt (chFinishedMs r))
     \<and> has ps ''exit'' (jopt JInt (chExit r)) \<and> has ps ''summary'' (jopt JStr (chSummary r))"

definition carries_changed_file :: "members \<Rightarrow> changed_file \<Rightarrow> bool" where
  "carries_changed_file ps r \<longleftrightarrow>
     has ps ''path'' (JStr (cfPath r)) \<and> has ps ''digestHex'' (JStr (cfDigestHex r))
     \<and> has ps ''size'' (JInt (cfSize r))"

definition carries_record :: "members \<Rightarrow> native_verification_record \<Rightarrow> bool" where
  "carries_record ps r \<longleftrightarrow>
     has ps ''recordId'' (JStr (nzRecordId r)) \<and> has ps ''revision'' (JStr (nzRevision r))
     \<and> has ps ''workspaceId'' (JStr (nzWorkspaceId r)) \<and> has ps ''worktreeId'' (JStr (nzWorktreeId r))
     \<and> has ps ''treeHash'' (jopt JStr (nzTreeHash r))
     \<and> has_list ps ''criteria'' carries_criterion_result (nzCriteria r)
     \<and> has_list ps ''checks'' carries_check_result (nzChecks r)
     \<and> has_list ps ''changedFiles'' carries_changed_file (nzChangedFiles r)
     \<and> has ps ''unrelatedChanges'' (JArr (map JStr (nzUnrelatedChanges r)))
     \<and> has ps ''reviewer'' (nzReviewer r) \<and> has ps ''status'' (JStr (nzStatus r))
     \<and> has ps ''startedMs'' (JInt (nzStartedMs r)) \<and> has ps ''completedMs'' (jopt JInt (nzCompletedMs r))"

definition carries_task_verification :: "members \<Rightarrow> task_verification \<Rightarrow> bool" where
  "carries_task_verification ps r \<longleftrightarrow>
     has ps ''sessionId'' (JStr (tvnSessionId r)) \<and> has ps ''taskId'' (JStr (tvnTaskId r))
     \<and> has_list ps ''records'' carries_record (tvnRecords r)"

interpretation criterion_result: decoder criterion_result_at carries_criterion_result
  "[''criterionKey'', ''passed'', ''evidence'']"
  by unfold_locales (auto simp: criterion_result_at_def carries_criterion_result_def has_def decode_simps
      intro!: located_intros reader_cong)

interpretation check_result: decoder check_result_at carries_check_result
  "[''check'', ''program'', ''args'', ''category'', ''required'', ''status'', ''startedMs'',
    ''finishedMs'', ''exit'', ''summary'']"
proof unfold_locales
  show "check_result_at ps p = Inr r \<longleftrightarrow> carries_check_result ps r" for ps p r
    by (cases r) (auto simp: check_result_at_def carries_check_result_def has_def decode_simps inj_map_eq_map inj_def)
qed (auto simp: check_result_at_def intro!: located_intros reader_cong)

interpretation changed_file: decoder changed_file_at carries_changed_file "[''path'', ''digestHex'', ''size'']"
  by unfold_locales (auto simp: changed_file_at_def carries_changed_file_def has_def decode_simps
      intro!: located_intros reader_cong)

interpretation verification_record: decoder validateVerificationRecord carries_record
  "[''recordId'', ''revision'', ''workspaceId'', ''worktreeId'', ''treeHash'', ''criteria'', ''checks'',
    ''changedFiles'', ''unrelatedChanges'', ''reviewer'', ''status'', ''startedMs'', ''completedMs'']"
proof unfold_locales
  show "validateVerificationRecord ps p = Inr r \<longleftrightarrow> carries_record ps r" for ps p r
    by (cases r) (auto simp: validateVerificationRecord_def carries_record_def has_def decode_simps
        inj_map_eq_map inj_def present)
qed (auto simp: validateVerificationRecord_def intro!: located_intros reader_cong)

interpretation task_verification: decoder task_verification_at carries_task_verification
  "[''sessionId'', ''taskId'', ''records'']"
proof unfold_locales
  show "task_verification_at ps p = Inr r \<longleftrightarrow> carries_task_verification ps r" for ps p r
    by (cases r) (auto simp: task_verification_at_def carries_task_verification_def has_def decode_simps present)
qed (auto simp: task_verification_at_def intro!: located_intros reader_cong)

end
