(* ===== verification/NativeViews.thy ===== *)
theory NativeViews
  imports NativeContracts
begin

text \<open>
  The contracts of the task views and of the agents: the two validators with additive
  members.  A member that is absent reads as its default and is never made up; a member
  that is present is read or refused, an additive list by its first 64 entries.
\<close>

lemma located_nested [located_intros]:
  "located p (fStringArray ps key (dot p k))" "located p (fInt ps key (dot p k))"
  "located p (fBool ps key (dot p k))" "located p (if_member ps key fBool (dot p k) d)"
  "located p (fInt ps key (dot (dot p k) k'))" "located p (asObject v (dot (dot p k) k'))"
  "located p (checkResponseKeys ps (dot (dot p k) k') keys)"
  by (rule located_dot [where key = k]; (intro located_intros | rule located_dot [where key = k'], intro located_intros))+

section \<open>Additive members\<close>

definition carries_text :: "members \<Rightarrow> string list \<Rightarrow> jsstr option \<Rightarrow> bool" where
  "carries_text ps keys r \<longleftrightarrow>
     (case optionalField ps keys of None \<Rightarrow> r = None | Some v \<Rightarrow> v = jopt JStr r)"

definition carries_strings :: "members \<Rightarrow> string list \<Rightarrow> jsstr list \<Rightarrow> bool" where
  "carries_strings ps keys r \<longleftrightarrow>
     (case optionalField ps keys of None \<Rightarrow> r = []
      | Some v \<Rightarrow> \<exists>vs. v = JArr vs \<and> take 64 vs = map JStr r)"

definition carries_plan_step :: "jsval \<Rightarrow> plan_step \<Rightarrow> bool" where
  "carries_plan_step entry r \<longleftrightarrow>
     (\<exists>step. entry = JObj step \<and> plId r = step_id (optionalField step [''id'']) \<and> plId r \<noteq> []
        \<and> (\<exists>s. carries_text step [''summary'', ''title''] s \<and> plSummary r = or_else s [])
        \<and> (\<exists>s. carries_text step [''state'', ''status''] s \<and> plState r = or_else s (js ''pending''))
        \<and> carries_strings step [''depends_on'', ''dependsOn''] (plDependsOn r))"

definition carries_blocker :: "jsval \<Rightarrow> native_blocker \<Rightarrow> bool" where
  "carries_blocker entry r \<longleftrightarrow>
     entry = JStr (blDetail r) \<and> blId r = None \<and> blState r = None
     \<or> (\<exists>ps. entry = JObj ps \<and> blDetail r \<noteq> []
          \<and> carries_text ps [''detail'', ''message'', ''summary'', ''reason''] (Some (blDetail r))
          \<and> carries_text ps [''id''] (blId r) \<and> carries_text ps [''state'', ''status''] (blState r))"

text \<open>At most 64 entries of an additive list are read, each as its reader says.\<close>

definition carries_bounded :: "members \<Rightarrow> string list \<Rightarrow> (jsval \<Rightarrow> 'a \<Rightarrow> bool) \<Rightarrow> 'a list \<Rightarrow> bool" where
  "carries_bounded ps keys C r \<longleftrightarrow>
     (case optionalField ps keys of None \<Rightarrow> r = []
      | Some v \<Rightarrow> \<exists>vs. v = JArr vs \<and> list_all2 C (take 64 vs) r)"

lemma optionalField_cong:
  "agree known ps qs \<Longrightarrow> set keys \<subseteq> set known \<Longrightarrow> optionalField ps keys = optionalField qs keys"
  by (induction keys) (auto simp: agreeD split: option.split)

lemma optional_cong:
  assumes "agree known ps qs" and "set keys \<subseteq> set known"
  shows "optionalString ps keys p = optionalString qs keys p"
    "optionalStringArray ps keys p = optionalStringArray qs keys p"
  by (simp_all add: optionalString_def optionalStringArray_def optionalField_cong [OF assms])

lemma optional_parts_cong:
  assumes "agree known ps qs"
  shows "set [''plan'', ''plan_steps'', ''planSteps''] \<subseteq> set known \<Longrightarrow>
      optionalPlanSteps ps p = optionalPlanSteps qs p"
    "set [''blockers'', ''blocked_on''] \<subseteq> set known \<Longrightarrow> optionalBlockers ps p = optionalBlockers qs p"
    "set [''completion''] \<subseteq> set known \<Longrightarrow> optionalCompletion ps p = optionalCompletion qs p"
  by (simp_all only: optionalPlanSteps_def optionalBlockers_def optionalCompletion_def
      optionalField_cong [OF assms])

lemma optionalString_ok [decode_simps]: "optionalString ps keys p = Inr r \<longleftrightarrow> carries_text ps keys r"
  by (cases r) (auto simp: optionalString_def carries_text_def split: option.split jsval.split)

lemma optionalStringArray_ok [decode_simps]:
  "optionalStringArray ps keys p = Inr r \<longleftrightarrow> carries_strings ps keys r"
  by (auto simp: optionalStringArray_def carries_strings_def asArray_ok list_all2_eq_map
      check_all_pointwise [OF string_at_ok] split: option.split)

lemma plan_step_ok: "plan_step_at path i entry = Inr r \<longleftrightarrow> carries_plan_step entry r"
  by (cases r) (auto simp: plan_step_at_def carries_plan_step_def Let_def decode_simps)

lemma or_else_Nil: "or_else s [] \<noteq> [] \<longleftrightarrow> (\<exists>t. s = Some t \<and> t \<noteq> [])"
  by (cases s) (auto simp: or_else_def)

lemma carries_text_unique: "carries_text ps keys r \<Longrightarrow> carries_text ps keys s \<Longrightarrow> r = s"
  by (auto simp: carries_text_def split: option.split_asm)

lemma blocker_ok: "blocker_at path i entry = Inr r \<longleftrightarrow> carries_blocker entry r"
  by (cases entry; cases r)
    (auto simp: blocker_at_def carries_blocker_def Let_def decode_simps asObject_def or_else_Nil or_else_def
      split: option.split_asm)

lemma optionalPlanSteps_ok [decode_simps]:
  "optionalPlanSteps ps p = Inr r \<longleftrightarrow>
     carries_bounded ps [''plan'', ''plan_steps'', ''planSteps''] carries_plan_step r"
  by (auto simp: optionalPlanSteps_def carries_bounded_def asArray_ok check_all_pointwise [OF plan_step_ok]
      split: option.split)

lemma optionalBlockers_ok [decode_simps]:
  "optionalBlockers ps p = Inr r \<longleftrightarrow> carries_bounded ps [''blockers'', ''blocked_on''] carries_blocker r"
  by (auto simp: optionalBlockers_def carries_bounded_def asArray_ok check_all_pointwise [OF blocker_ok]
      split: option.split)

lemma optionalString_located [located_intros]: "located p (optionalString ps keys p)"
  by (auto simp: optionalString_def split: option.split jsval.split)

lemma optionalStringArray_located [located_intros]: "located p (optionalStringArray ps keys p)"
  by (auto simp: optionalStringArray_def string_at_def split: option.split jsval.split
      intro!: located_intros located_check_all)

lemma located_below:
  "located p (fail (dot (at_index (dot p key) i) key') d)"
  by (simp add: located_def fail_def dot_def at_index_def starts_with_def)

lemma plan_step_located: "located p (plan_step_at p i entry)"
proof -
  have "located (at_index (dot p ''plan'') i) (plan_step_at p i entry)"
    by (auto simp: plan_step_at_def Let_def intro!: located_intros)
  then show ?thesis by (rule located_dot [OF located_at])
qed

lemma blocker_located: "located p (blocker_at p i entry)"
proof -
  have "located (at_index (dot p ''blockers'') i) (blocker_at p i entry)"
    by (cases entry) (auto simp: blocker_at_def Let_def intro!: located_intros)
  then show ?thesis by (rule located_dot [OF located_at])
qed

lemma optional_parts_located [located_intros]:
  "located p (optionalPlanSteps ps p)" "located p (optionalBlockers ps p)"
  by (auto simp: optionalPlanSteps_def optionalBlockers_def split: option.split
      intro!: located_intros located_check_all plan_step_located blocker_located)

section \<open>The completion surface\<close>

definition carries_contract :: "members \<Rightarrow> completion_contract \<Rightarrow> bool" where
  "carries_contract ps r \<longleftrightarrow>
     has ps ''include_commit'' (JBool (ccCommit r)) \<and> has ps ''include_push'' (JBool (ccPush r))
     \<and> has ps ''include_pr'' (JBool (ccPr r))"

definition carries_step_status :: "members \<Rightarrow> step_status \<Rightarrow> bool" where
  "carries_step_status ps r \<longleftrightarrow>
     has ps ''step'' (JStr (ssStep r)) \<and> has ps ''status'' (JStr (step_status.ssStatus r))
     \<and> has ps ''detail'' (JStr (ssDetail r))
     \<and> additive ps ''at_ms'' (has ps ''at_ms'' (jopt JInt (ssAtMs r))) (ssAtMs r = None)
     \<and> additive ps ''seq'' (has ps ''seq'' (jopt JInt (ssSeq r))) (ssSeq r = None)"

definition carries_completion :: "members \<Rightarrow> task_completion \<Rightarrow> bool" where
  "carries_completion ps r \<longleftrightarrow>
     has_obj ps ''contract'' carries_contract (tcContract r)
     \<and> has_list ps ''steps'' carries_step_status (tcSteps r)"

text \<open>\<open>null\<close> and an absent member are no completion; anything else is read in full.\<close>

definition carries_optional_completion :: "members \<Rightarrow> task_completion option \<Rightarrow> bool" where
  "carries_optional_completion ps r \<longleftrightarrow>
     (case optionalField ps [''completion''] of None \<Rightarrow> r = None
      | Some v \<Rightarrow> \<exists>x. v = jopt JObj x \<and> rel_option carries_completion x r)"

interpretation contract: decoder completion_contract_at carries_contract
  "[''include_commit'', ''include_push'', ''include_pr'']"
  by unfold_locales (auto simp: completion_contract_at_def carries_contract_def has_def decode_simps
      intro!: located_intros reader_cong)

interpretation step_status: decoder step_status_at carries_step_status
  "[''step'', ''status'', ''detail'', ''at_ms'', ''seq'']"
proof unfold_locales
  show "step_status_at ps p = Inr r \<longleftrightarrow> carries_step_status ps r" for ps p r
    by (cases r) (auto simp: step_status_at_def carries_step_status_def has_def decode_simps)
qed (auto simp: step_status_at_def intro!: located_intros reader_cong)

interpretation completion: decoder completion_at carries_completion "[''contract'', ''steps'']"
proof unfold_locales
  show "completion_at ps p = Inr r \<longleftrightarrow> carries_completion ps r" for ps p r
    by (cases r) (auto simp: completion_at_def carries_completion_def has_obj_def decode_simps)
qed (auto simp: completion_at_def intro!: located_intros reader_cong)

lemma optionalCompletion_ok [decode_simps]:
  "optionalCompletion ps p = Inr r \<longleftrightarrow> carries_optional_completion ps r"
  by (cases r) (auto simp: optionalCompletion_def carries_optional_completion_def asObject_def jopt_def
      decode_simps split: option.split jsval.split)

lemma optionalCompletion_located [located_intros]: "located p (optionalCompletion ps p)"
  by (auto simp: optionalCompletion_def split: option.split jsval.split intro!: located_intros)

section \<open>Task views\<close>

definition carries_fact :: "members \<Rightarrow> verification_fact \<Rightarrow> bool" where
  "carries_fact ps r \<longleftrightarrow>
     has ps ''id'' (JStr (vfId r)) \<and> has ps ''detail'' (JStr (vfDetail r))
     \<and> has ps ''status'' (JStr (vfStatus r))"

definition carries_two_lists :: "string \<Rightarrow> string \<Rightarrow> members \<Rightarrow> jsstr list \<times> jsstr list \<Rightarrow> bool" where
  "carries_two_lists k1 k2 ps r \<longleftrightarrow>
     has ps k1 (JArr (map JStr (fst r))) \<and> has ps k2 (JArr (map JStr (snd r)))"

definition carries_task_view :: "members \<Rightarrow> native_task_view \<Rightarrow> bool" where
  "carries_task_view ps r \<longleftrightarrow>
     has ps ''goal'' (JStr (nvGoal r)) \<and> has ps ''constraints'' (JArr (map JStr (nvConstraints r)))
     \<and> has ps ''state'' (JStr (nvState r))
     \<and> has_obj ps ''milestones'' (carries_two_lists ''completed'' ''open'') (nvCompleted r, nvOpen r)
     \<and> has ps ''decisions'' (JArr (map JStr (nvDecisions r)))
     \<and> has ps ''failures'' (JArr (map JStr (nvFailures r)))
     \<and> has ps ''changedFiles'' (JArr (map JStr (nvChangedFiles r)))
     \<and> has_obj ps ''tests'' (carries_two_lists ''run'' ''failed'') (nvTestsRun r, nvTestsFailed r)
     \<and> has ps ''preferences'' (JArr (map JStr (nvPreferences r)))
     \<and> has_list ps ''verification'' carries_fact (nvVerification r)
     \<and> has ps ''progress'' (nvProgress r)
     \<and> has_opt ps ''budget'' carries_budget (nvBudget r)
     \<and> carries_strings ps [''acceptanceCriteria'', ''acceptance_criteria''] (nvCriteria r)
     \<and> carries_bounded ps [''plan'', ''plan_steps'', ''planSteps''] carries_plan_step (nvPlan r)
     \<and> carries_bounded ps [''blockers'', ''blocked_on''] carries_blocker (nvBlockers r)
     \<and> carries_strings ps [''evidenceRefs'', ''evidence_refs''] (nvEvidenceRefs r)
     \<and> carries_text ps [''phase''] (nvPhase r)
     \<and> carries_optional_completion ps (nvCompletion r)"

interpretation fact: decoder validateVerificationFact carries_fact "[''id'', ''detail'', ''status'']"
  by unfold_locales (auto simp: validateVerificationFact_def carries_fact_def has_def decode_simps
      intro!: located_intros reader_cong)

definition task_view_keys :: "string list" where
  "task_view_keys = [''goal'', ''constraints'', ''state'', ''milestones'', ''decisions'', ''failures'',
     ''changedFiles'', ''tests'', ''preferences'', ''verification'', ''progress'', ''budget'',
     ''acceptanceCriteria'', ''acceptance_criteria'', ''plan'', ''plan_steps'', ''planSteps'',
     ''blockers'', ''blocked_on'', ''evidenceRefs'', ''evidence_refs'', ''phase'', ''completion'']"

lemma task_view_keys_present:
  "carries_task_view ps r \<Longrightarrow> (\<forall>key \<in> set (take 12 task_view_keys). \<exists>v. has ps key v)"
  by (auto simp: carries_task_view_def task_view_keys_def has_obj_def has_opt_def has_list_def)

lemma two_lists_keys:
  "carries_two_lists k1 k2 ps r \<Longrightarrow> (\<forall>key \<in> set [k1, k2]. \<exists>v. has ps key v)"
  by (auto simp: carries_two_lists_def)

lemma map_JStr_inject [simp]: "map JStr xs = map JStr ys \<longleftrightarrow> xs = ys"
  by (simp add: inj_map_eq_map inj_def)

lemma task_view_ok: "task_view_at ps p = Inr r \<longleftrightarrow> carries_task_view ps r"
proof
  assume "task_view_at ps p = Inr r"
  then show "carries_task_view ps r"
    by (cases r) (auto simp: task_view_at_def decode_simps carries_task_view_def carries_two_lists_def
        has_obj_def has_opt_def simp del: list.set)
next
  assume r: "carries_task_view ps r"
  obtain ms where ms: "has ps ''milestones'' (JObj ms)"
      "carries_two_lists ''completed'' ''open'' ms (nvCompleted r, nvOpen r)"
    using r by (auto simp: carries_task_view_def has_obj_def)
  obtain ts where ts: "has ps ''tests'' (JObj ts)"
      "carries_two_lists ''run'' ''failed'' ts (nvTestsRun r, nvTestsFailed r)"
    using r by (auto simp: carries_task_view_def has_obj_def)
  obtain b where b: "has ps ''budget'' (jopt JObj b)" "rel_option carries_budget b (nvBudget r)"
    using r by (auto simp: carries_task_view_def has_opt_def)
  show "task_view_at ps p = Inr r"
    using r ms ts b two_lists_keys [OF ms(2)] two_lists_keys [OF ts(2)] task_view_keys_present [OF r]
    by (cases r) (auto simp: task_view_at_def decode_simps carries_task_view_def carries_two_lists_def
        task_view_keys_def has_def simp del: list.set)
qed

interpretation task_view: decoder task_view_at carries_task_view task_view_keys
proof unfold_locales
  show "task_view_at ps p = Inr r \<longleftrightarrow> carries_task_view ps r" for ps p r
    by (rule task_view_ok)
  show "task_view_at ps p = task_view_at qs p" if known: "agree task_view_keys ps qs" for ps qs p
    by (simp add: task_view_at_def member_cong [OF known [unfolded task_view_keys_def]]
        optional_cong [OF known [unfolded task_view_keys_def]]
        optional_parts_cong [OF known [unfolded task_view_keys_def]])
qed (auto simp: task_view_at_def intro!: located_intros)

section \<open>Agents\<close>

definition agent_keys :: "string list" where
  "agent_keys = [''agent_id'', ''kind'', ''run_id'', ''session_id'', ''worktree_id'', ''goal'', ''state'',
     ''model'', ''budget'', ''ownership'', ''capabilities'', ''progress'', ''result'', ''provider'',
     ''item_ids'', ''item_id'', ''item_kind'', ''blockers'', ''blocker'', ''presentation'']"

definition carries_presentation :: "members \<Rightarrow> string \<Rightarrow> presentation \<Rightarrow> bool" where
  "carries_presentation ps key r \<longleftrightarrow>
     additive ps key (has ps key (JStr (js (case r of Foreground \<Rightarrow> ''foreground'' | Background \<Rightarrow> ''background''))))
       (r = Foreground)"

definition carries_agent :: "members \<Rightarrow> native_agent \<Rightarrow> bool" where
  "carries_agent ps r \<longleftrightarrow>
     has ps ''agent_id'' (JStr (ngAgentId r))
     \<and> has ps ''kind'' (JStr (js (case ngKind r of Self \<Rightarrow> ''self'' | Child \<Rightarrow> ''child'')))
     \<and> has ps ''run_id'' (JStr (ngRunId r)) \<and> has ps ''session_id'' (JInt (ngSessionId r))
     \<and> has ps ''worktree_id'' (JInt (ngWorktreeId r)) \<and> has ps ''goal'' (JStr (ngGoal r))
     \<and> has ps ''state'' (JStr (ngState r)) \<and> has ps ''model'' (jopt JStr (ngModel r))
     \<and> additive ps ''provider'' (has ps ''provider'' (jopt JStr (ngProvider r))) (ngProvider r = None)
     \<and> has ps ''budget'' (jopt JInt (ngBudget r)) \<and> has ps ''ownership'' (JStr (ngOwnership r))
     \<and> has ps ''capabilities'' (JArr (ngCapabilities r)) \<and> has ps ''progress'' (ngProgress r)
     \<and> has ps ''result'' (ngResult r)
     \<and> additive ps ''item_ids'' (\<exists>ids. ngItemIds r = Some ids \<and> has ps ''item_ids'' (JArr (map JStr ids)))
         (ngItemIds r = None)
     \<and> additive ps ''item_id'' (has ps ''item_id'' (jopt JStr (ngItemId r))) (ngItemId r = None)
     \<and> additive ps ''item_kind'' (has ps ''item_kind'' (jopt JStr (ngItemKind r))) (ngItemKind r = None)
     \<and> additive ps ''blockers'' (has ps ''blockers'' (ngBlockers r)) (ngBlockers r = JNull)
     \<and> additive ps ''blocker'' (has ps ''blocker'' (ngBlocker r)) (ngBlocker r = JNull)
     \<and> carries_presentation ps ''presentation'' (ngPresentation r)"

lemma agent_kind_ok [decode_simps]:
  "agent_kind_of kind p = Inr r \<longleftrightarrow> kind = js (case r of Self \<Rightarrow> ''self'' | Child \<Rightarrow> ''child'')"
  by (cases r) (auto simp: agent_kind_of_def)

lemma agent_budget_ok [decode_simps]: "agent_budget v p = Inr r \<longleftrightarrow> v = jopt JInt r"
  by (cases v; cases r)
    (auto simp: agent_budget_def JInt_def integer_value_eq_Some_iff split: option.split_asm)

lemma presentationTag_ok [decode_simps]:
  "presentationTag ps key p = Inr r \<longleftrightarrow> carries_presentation ps key r"
  by (cases r) (auto simp: presentationTag_def carries_presentation_def additive_def has_def
      split: option.split)

lemma item_ids_ok [decode_simps]:
  "if_member ps key (\<lambda>ps k p. and_then (fStringArray ps k p) (\<lambda>ids. Inr (Some ids))) p None = Inr r \<longleftrightarrow>
     additive ps key (\<exists>ids. r = Some ids \<and> has ps key (JArr (map JStr ids))) (r = None)"
  by (auto simp: if_member_ok additive_def decode_simps)

lemma agent_ok: "agent_at ps p = Inr r \<longleftrightarrow> carries_agent ps r"
  by (cases r) (auto simp: agent_at_def carries_agent_def has_def decode_simps)

lemma agent_parts_located [located_intros]:
  "located p (agent_kind_of kind p)" "located p (agent_budget v (dot p key))" "located p (presentationTag ps key p)"
  by (auto simp: agent_kind_of_def agent_budget_def presentationTag_def split: option.split jsval.split)

lemma item_ids_located [located_intros]:
  "located p (if_member ps key (\<lambda>ps k p. and_then (fStringArray ps k p) (\<lambda>ids. Inr (Some ids))) p d)"
  by (intro located_intros)

lemma item_ids_cong:
  assumes "agree keys ps qs" and "key \<in> set keys"
  shows "if_member ps key (\<lambda>ps k p. and_then (fStringArray ps k p) (\<lambda>ids. Inr (Some ids))) p d =
    if_member qs key (\<lambda>ps k p. and_then (fStringArray ps k p) (\<lambda>ids. Inr (Some ids))) p d"
    "presentationTag ps key p = presentationTag qs key p"
  using composed_cong(2) [OF assms] agreeD [OF assms]
  by (simp_all add: if_member_def presentationTag_def)

interpretation agent: decoder agent_at carries_agent agent_keys
proof unfold_locales
  show "agent_at ps p = Inr r \<longleftrightarrow> carries_agent ps r" for ps p r
    by (rule agent_ok)
  show "agent_at ps p = agent_at qs p" if known: "agree agent_keys ps qs" for ps qs p
    by (simp add: agent_at_def member_cong [OF known [unfolded agent_keys_def]]
        item_ids_cong [OF known [unfolded agent_keys_def]])
  show "located p (agent_at ps p)" for p ps
    unfolding agent_at_def by (intro located_intros)
qed

end
