(* ===== verification/NativeTransport.thy ===== *)
theory NativeTransport
  imports EventStream NativeViews
begin

text \<open>
  The transport of the native client (\<open>apps/vscode/src/nativeClient.ts\<close>): the bounded body
  reader, the typed API errors, \<open>request\<close>, the polling of the readiness probe and the
  requests of the client's methods.

  Parameters: \<open>url\<close> is \<open>new URL(base + path)\<close> with its \<open>searchParams\<close> set, \<open>None\<close> when it
  throws; \<open>decode\<close> is the non-fatal \<open>TextDecoder\<close>.  What \<open>fetch\<close> and the body stream do is
  an input of the definitions.  A body stream is the list of its reads; after the last one
  it reports \<open>done\<close>.
\<close>

section \<open>Errors\<close>

datatype client_error =
    CProtocol protocol_violation
  | CApi int jsstr jsstr bool
  | CRaw jsstr

definition protocol :: "jsstr \<Rightarrow> jsstr \<Rightarrow> client_error + 'a" where
  "protocol path detail = Inl (CProtocol \<lparr>pePath = path, peDetail = detail\<rparr>)"

text \<open>How a rejection of the client looks to its callers.\<close>

definition thrown_of :: "client_error \<Rightarrow> thrown" where
  "thrown_of e =
     (case e of
        CProtocol v \<Rightarrow> ThrownError (protocol_message v)
      | CApi status code message retryable \<Rightarrow> api_error status code message
      | CRaw m \<Rightarrow> ThrownError m)"

definition member_of :: "jsval \<Rightarrow> string \<Rightarrow> jsval" where
  "member_of v key = (case v of JObj ps \<Rightarrow> jget ps (js key) | _ \<Rightarrow> JUndef)"

definition apiError :: "int \<Rightarrow> jsstr \<Rightarrow> jsstr \<Rightarrow> client_error" where
  "apiError status body label =
     (case json_parse body of
        None \<Rightarrow> CApi status (js ''http_error'')
          (if take 200 body = [] then js ''HTTP '' @ int_string status else take 200 body) False
      | Some parsed \<Rightarrow>
          let error = member_of parsed ''error''
          in (case (member_of error ''code'', member_of error ''message'') of
                (JStr code, JStr message) \<Rightarrow>
                  CApi status code message (member_of error ''retryable'' = JBool True)
              | _ \<Rightarrow> CProtocol \<lparr>pePath = label,
                       peDetail = js ''non-JSON error body with HTTP '' @ int_string status\<rparr>))"

section \<open>Bounded bodies\<close>

datatype stream_read = RChunk "8 word list" | REmpty | RFailed jsstr

datatype body_source = Streamed "stream_read list" | Buffered "8 word list" | BufferFailed jsstr

record response_like =
  rsStatus :: int
  rsOk :: bool
  rsLength :: "jsstr option"
  rsBody :: body_source

fun read_loop :: "int \<Rightarrow> jsstr \<Rightarrow> 8 word list \<Rightarrow> stream_read list \<Rightarrow> client_error + 8 word list" where
  "read_loop maxBytes label kept [] = Inr kept"
| "read_loop maxBytes label kept (REmpty # reads) = read_loop maxBytes label kept reads"
| "read_loop maxBytes label kept (RFailed m # reads) = Inl (CRaw m)"
| "read_loop maxBytes label kept (RChunk chunk # reads) =
     (if int (length kept + length chunk) > maxBytes
      then protocol label (js ''streamed body exceeded bound '' @ int_string maxBytes @ js '' bytes'')
      else read_loop maxBytes label (kept @ chunk) reads)"

definition declared_length :: "response_like \<Rightarrow> jsnum" where
  "declared_length response =
     (case rsLength response of None \<Rightarrow> NaN | Some s \<Rightarrow> number_of_string s)"

definition readBounded :: "response_like \<Rightarrow> int \<Rightarrow> jsstr \<Rightarrow> client_error + 8 word list" where
  "readBounded response maxBytes label =
     (let declared = declared_length response
      in if (case declared of Fin q \<Rightarrow> q > of_int maxBytes | _ \<Rightarrow> False)
           then protocol label (js ''declared body '' @ number_string declared
                  @ js '' bytes exceeds bound '' @ int_string maxBytes)
         else (case rsBody response of
             Streamed reads \<Rightarrow> read_loop maxBytes label [] reads
           | BufferFailed m \<Rightarrow> Inl (CRaw m)
           | Buffered bytes \<Rightarrow>
               if int (length bytes) > maxBytes
                 then protocol label (js ''body '' @ decimal_nat (length bytes)
                        @ js '' bytes exceeds bound '' @ int_string maxBytes)
               else Inr bytes))"

section \<open>The client and its requests\<close>

record client_options =
  coBaseUrl :: jsstr
  coBearerToken :: jsstr
  coTimeoutMs :: "int option"
  coMaxBodyBytes :: "int option"

record native_client =
  ncBaseUrl :: jsstr
  ncBearerToken :: jsstr
  ncTimeoutMs :: int
  ncMaxBodyBytes :: int

definition DEFAULT_TIMEOUT_MS :: int where [cap_simps]: "DEFAULT_TIMEOUT_MS = 15000"
definition DEFAULT_MAX_BODY_BYTES :: int where [cap_simps]: "DEFAULT_MAX_BODY_BYTES = 4 * 1024 * 1024"
definition ERROR_BODY_BYTES :: int where [cap_simps]: "ERROR_BODY_BYTES = 64 * 1024"
definition EVIDENCE_MAX_BODY_BYTES :: int where [cap_simps]: "EVIDENCE_MAX_BODY_BYTES = 32 * 1024 * 1024"

definition given :: "'a option \<Rightarrow> 'a \<Rightarrow> 'a" where
  "given x d = (case x of Some y \<Rightarrow> y | None \<Rightarrow> d)"

text \<open>The constructor; \<open>has_fetch\<close>: a fetch was injected or the platform has one.\<close>

definition new_client :: "bool \<Rightarrow> client_options \<Rightarrow> native_client checked" where
  "new_client has_fetch options =
     (let base = strip_trailing_slashes (coBaseUrl options)
      in if \<not> (starts_with (js ''http://'') base \<or> starts_with (js ''https://'') base)
           then fail (js ''NativeClient'') (js ''baseUrl must be http(s), got '' @ coBaseUrl options)
         else if \<not> has_fetch
           then fail (js ''NativeClient'') (js ''no fetch implementation available; pass options.fetch'')
         else Inr \<lparr>ncBaseUrl = base, ncBearerToken = coBearerToken options,
                ncTimeoutMs = given (coTimeoutMs options) DEFAULT_TIMEOUT_MS,
                ncMaxBodyBytes = given (coMaxBodyBytes options) DEFAULT_MAX_BODY_BYTES\<rparr>)"

record request_spec =
  tqMethod :: string
  tqPath :: jsstr
  tqQuery :: "(string \<times> jsval) list"
  tqBody :: "jsval option"
  tqMaxBytes :: "int option"

record fetch_init =
  fiUrl :: jsstr
  fiMethod :: jsstr
  fiHeaders :: "(jsstr \<times> jsstr) list"
  fiBody :: "jsstr option"

definition request_label :: "request_spec \<Rightarrow> jsstr" where
  "request_label spec = js (tqMethod spec) @ [32] @ tqPath spec"

definition query_pairs :: "(string \<times> jsval) list \<Rightarrow> (jsstr \<times> jsstr) list" where
  "query_pairs query = map (\<lambda>(k, v). (js k, to_string v)) (filter (\<lambda>(k, v). v \<noteq> JUndef) query)"

definition fetch_request ::
  "(jsstr \<Rightarrow> (jsstr \<times> jsstr) list \<Rightarrow> jsstr option) \<Rightarrow> native_client \<Rightarrow> request_spec \<Rightarrow> fetch_init option" where
  "fetch_request url client spec =
     map_option (\<lambda>u.
       \<lparr>fiUrl = u, fiMethod = js (tqMethod spec),
        fiHeaders = [(js ''Authorization'', js ''Bearer '' @ ncBearerToken client),
          (js ''Accept'', js ''application/json'')]
          @ (if tqBody spec = None then [] else [(js ''Content-Type'', js ''application/json'')]),
        fiBody = Option.bind (tqBody spec) stringify\<rparr>)
       (url (ncBaseUrl client @ tqPath spec) (query_pairs (tqQuery spec)))"

datatype fetch_result = Fetched response_like | FetchRejected bool jsstr

text \<open>
  What \<open>request\<close> does with the outcome of \<open>fetch\<close>.  The timer is cleared as soon as the
  fetch settles, so it bounds the wait for the headers, not the reading of the body.
\<close>

definition settle ::
  "(8 word list \<Rightarrow> jsstr) \<Rightarrow> native_client \<Rightarrow> request_spec \<Rightarrow> (jsval \<Rightarrow> jsstr \<Rightarrow> 'a checked)
     \<Rightarrow> fetch_result \<Rightarrow> client_error + 'a" where
  "settle decode client spec validate result =
     (let label = request_label spec
      in case result of
           FetchRejected aborted m \<Rightarrow>
             protocol label
               (if aborted then js ''request timed out after '' @ int_string (ncTimeoutMs client) @ js ''ms''
                else js ''fetch failed: '' @ m)
         | Fetched response \<Rightarrow>
             if \<not> rsOk response
             then and_then (readBounded response ERROR_BODY_BYTES label) (\<lambda>bytes.
                    Inl (apiError (rsStatus response) (decode bytes) label))
             else and_then (readBounded response (given (tqMaxBytes spec) (ncMaxBodyBytes client)) label) (\<lambda>bytes.
                    let text = decode bytes
                    in case json_parse text of
                         None \<Rightarrow> protocol label (js ''response was not valid JSON (''
                                   @ decimal_nat (length text) @ js '' bytes)'')
                       | Some parsed \<Rightarrow>
                           (case validate parsed label of
                              Inl e \<Rightarrow> Inl (CProtocol e) | Inr x \<Rightarrow> Inr x)))"

section \<open>Waiting for the daemon to be ready\<close>

text \<open>
  \<open>readyOrThrow\<close>: \<open>clock i\<close> is \<open>Date.now()\<close> at the \<open>i\<close>-th test of the loop and \<open>answer i\<close> the
  outcome of the \<open>i\<close>-th probe, \<open>None\<close> if the awaited request never settles (the time limit of a request
  ends when its response begins, so its body may hang).  The result \<open>None\<close> means that the wait has not
  ended: it hangs in a probe, or the fuel is used up.
\<close>

fun ready_loop ::
  "nat \<Rightarrow> nat \<Rightarrow> int \<Rightarrow> (nat \<Rightarrow> int) \<Rightarrow> (nat \<Rightarrow> (jsstr + bool) option) \<Rightarrow> jsstr \<Rightarrow> unit checked option" where
  "ready_loop 0 i deadline clock answer last' = None"
| "ready_loop (Suc fuel) i deadline clock answer last' =
     (if clock i < deadline
      then (case answer i of
          None \<Rightarrow> None
        | Some (Inr True) \<Rightarrow> Some (Inr ())
        | Some (Inr False) \<Rightarrow> ready_loop fuel (Suc i) deadline clock answer (js ''ready:false'')
        | Some (Inl m) \<Rightarrow> ready_loop fuel (Suc i) deadline clock answer m)
      else Some (fail (js ''GET /native/ready'') (js ''daemon never became ready ('' @ last' @ js '')'')))"

definition readyOrThrow ::
  "nat \<Rightarrow> int \<Rightarrow> int \<Rightarrow> (nat \<Rightarrow> int) \<Rightarrow> (nat \<Rightarrow> (jsstr + bool) option) \<Rightarrow> unit checked option" where
  "readyOrThrow fuel timeoutMs now clock answer =
     ready_loop fuel 0 (now + timeoutMs) clock answer (js ''not ready'')"

end
