(* ===== verification/NativeRequests.thy ===== *)
theory NativeRequests
  imports NativeTransport
begin

text \<open>
  The methods of \<open>NativeClient\<close> (\<open>apps/vscode/src/nativeClient.ts\<close>): the request each of them
  sends.  A method is the request it builds, \<open>None\<close> when \<open>encodeURIComponent\<close> throws on a
  lone surrogate.  The response of \<open>x_request\<close> goes to the validator \<open>validateX\<close>.

  An id from outside is always one encoded segment of the path: it holds no separator, and
  decoding it gives the id back.
\<close>

section \<open>Requests\<close>

definition read_from :: "jsstr \<Rightarrow> (string \<times> jsval) list \<Rightarrow> request_spec" where
  "read_from path query =
     \<lparr>tqMethod = ''GET'', tqPath = path, tqQuery = query, tqBody = None, tqMaxBytes = None\<rparr>"

definition post_to :: "jsstr \<Rightarrow> jsval option \<Rightarrow> request_spec" where
  "post_to path body =
     \<lparr>tqMethod = ''POST'', tqPath = path, tqQuery = [], tqBody = body, tqMaxBytes = None\<rparr>"

text \<open>\<open>${prefix}${encodeURIComponent(id)}${suffix}\<close>\<close>

definition id_path :: "string \<Rightarrow> jsstr \<Rightarrow> string \<Rightarrow> jsstr option" where
  "id_path pre ident suf = map_option (\<lambda>t. js pre @ t @ js suf) (encodeURIComponent ident)"

definition id_path2 :: "string \<Rightarrow> jsstr \<Rightarrow> string \<Rightarrow> jsstr \<Rightarrow> string \<Rightarrow> jsstr option" where
  "id_path2 pre id1 mid id2 suf =
     Option.bind (encodeURIComponent id1) (\<lambda>t.
       map_option (\<lambda>u. js pre @ t @ js mid @ u @ js suf) (encodeURIComponent id2))"

section \<open>Health, sessions and reads\<close>

definition health_request :: request_spec where
  "health_request = read_from (js ''/native/health'') []"

definition ready_request :: request_spec where
  "ready_request = read_from (js ''/native/ready'') []"

definition createSession_request :: "members \<Rightarrow> request_spec" where
  "createSession_request request = post_to (js ''/session/create'') (Some (JObj request))"

definition listSessions_request :: request_spec where
  "listSessions_request = read_from (js ''/session/list'') []"

definition projection_request :: "jsstr \<Rightarrow> request_spec option" where
  "projection_request sid = map_option (\<lambda>p. read_from p []) (id_path ''/session/'' sid ''/projection'')"

definition modelCatalog_request :: request_spec where
  "modelCatalog_request = read_from (js ''/models'') []"

definition session_read :: "jsstr \<Rightarrow> string \<Rightarrow> (string \<times> jsval) list \<Rightarrow> request_spec option" where
  "session_read sid suf query = map_option (\<lambda>p. read_from p query) (id_path ''/native/session/'' sid suf)"

definition session_post :: "jsstr \<Rightarrow> string \<Rightarrow> jsval option \<Rightarrow> request_spec option" where
  "session_post sid suf body = map_option (\<lambda>p. post_to p body) (id_path ''/native/session/'' sid suf)"

definition turns_request :: "jsstr \<Rightarrow> request_spec option" where
  "turns_request sid = session_read sid ''/turns'' []"

definition tasks_request :: "jsstr \<Rightarrow> request_spec option" where
  "tasks_request sid = session_read sid ''/tasks'' []"

definition checkpoints_request :: "jsstr \<Rightarrow> request_spec option" where
  "checkpoints_request sid = session_read sid ''/checkpoints'' []"

definition verification_request :: "jsstr \<Rightarrow> request_spec option" where
  "verification_request sid = session_read sid ''/verification'' []"

definition taskRuns_request :: "jsstr \<Rightarrow> request_spec option" where
  "taskRuns_request sid = session_read sid ''/task-runs'' []"

definition taskRunState_request :: "jsstr \<Rightarrow> jsstr \<Rightarrow> request_spec option" where
  "taskRunState_request sid runId =
     map_option (\<lambda>p. read_from p []) (id_path2 ''/native/session/'' sid ''/task-runs/'' runId '''')"

section \<open>Task runs and uploads\<close>

definition startTaskRun_request :: "jsstr \<Rightarrow> jsval \<Rightarrow> request_spec option" where
  "startTaskRun_request sid request = session_post sid ''/task-runs'' (Some request)"

definition uploadAttachment_request :: "jsstr \<Rightarrow> upload_request \<Rightarrow> request_spec option" where
  "uploadAttachment_request sid request =
     session_post sid ''/attachments'' (Some (JObj
       ((js ''mime'', JStr (urMime request))
        # (case urFilename request of None \<Rightarrow> [] | Some f \<Rightarrow> [(js ''filename'', JStr f)])
        @ [(js ''data_base64'', JStr (urData request))])))"

definition cancelTaskRun_request :: "jsstr \<Rightarrow> jsstr \<Rightarrow> request_spec option" where
  "cancelTaskRun_request sid runId =
     map_option (\<lambda>p. post_to p None) (id_path2 ''/native/session/'' sid ''/task-runs/'' runId ''/cancel'')"

section \<open>Agents\<close>

definition agents_request :: "jsstr \<Rightarrow> request_spec" where
  "agents_request sid = read_from (js ''/native/agents'') [(''session'', JStr sid)]"

definition agentControlPost :: "jsstr \<Rightarrow> string \<Rightarrow> request_spec option" where
  "agentControlPost childId action =
     map_option (\<lambda>p. post_to p None) (id_path ''/native/agents/'' childId (''/'' @ action))"

definition pauseAgent_request :: "jsstr \<Rightarrow> request_spec option" where
  "pauseAgent_request childId = agentControlPost childId ''pause''"

definition resumeAgent_request :: "jsstr \<Rightarrow> request_spec option" where
  "resumeAgent_request childId = agentControlPost childId ''resume''"

definition cancelAgent_request :: "jsstr \<Rightarrow> request_spec option" where
  "cancelAgent_request childId = agentControlPost childId ''cancel''"

definition retryAgent_request :: "jsstr \<Rightarrow> request_spec option" where
  "retryAgent_request childId = agentControlPost childId ''retry''"

definition agent_post :: "jsstr \<Rightarrow> string \<Rightarrow> members \<Rightarrow> request_spec option" where
  "agent_post childId suf body =
     map_option (\<lambda>p. post_to p (Some (JObj body))) (id_path ''/native/agents/'' childId suf)"

definition steerAgent_request :: "jsstr \<Rightarrow> jsstr \<Rightarrow> request_spec option" where
  "steerAgent_request childId text = agent_post childId ''/steer'' [(js ''text'', JStr text)]"

definition setAgentModel_request :: "jsstr \<Rightarrow> jsstr \<Rightarrow> request_spec option" where
  "setAgentModel_request childId model = agent_post childId ''/model'' [(js ''model'', JStr model)]"

definition setAgentBudget_request :: "jsstr \<Rightarrow> members \<Rightarrow> request_spec option" where
  "setAgentBudget_request childId budget = agent_post childId ''/budget'' budget"

definition presentation_text :: "presentation \<Rightarrow> jsstr" where
  "presentation_text p = js (case p of Foreground \<Rightarrow> ''foreground'' | Background \<Rightarrow> ''background'')"

definition setAgentPresentation_request :: "jsstr \<Rightarrow> jsstr \<Rightarrow> presentation \<Rightarrow> request_spec option" where
  "setAgentPresentation_request sid childId state =
     map_option (\<lambda>p. post_to p (Some (JObj [(js ''state'', JStr (presentation_text state))])))
       (id_path2 ''/native/session/'' sid ''/agents/'' childId ''/presentation'')"

section \<open>Tournaments\<close>

definition tournamentState_request :: "jsstr \<Rightarrow> jsstr \<Rightarrow> request_spec option" where
  "tournamentState_request sid tid =
     map_option (\<lambda>p. read_from p []) (id_path2 ''/native/session/'' sid ''/tournament/'' tid '''')"

definition tournaments_request :: "jsstr \<Rightarrow> request_spec option" where
  "tournaments_request sid = session_read sid ''/tournaments'' []"

definition startTournament_request :: "jsstr \<Rightarrow> jsval \<Rightarrow> request_spec option" where
  "startTournament_request sid request = session_post sid ''/tournament'' (Some request)"

definition decideTournament_request :: "jsstr \<Rightarrow> jsstr \<Rightarrow> request_spec option" where
  "decideTournament_request sid tid =
     map_option (\<lambda>p. post_to p (Some (JObj [])))
       (id_path2 ''/native/session/'' sid ''/tournaments/'' tid ''/decide'')"

definition abortTournament_request :: "jsstr \<Rightarrow> jsstr \<Rightarrow> jsstr option \<Rightarrow> request_spec option" where
  "abortTournament_request sid tid reason =
     (let body = (case reason of
          None \<Rightarrow> [] | Some r \<Rightarrow> if length r = 0 then [] else [(js ''reason'', JStr r)])
      in map_option (\<lambda>p. post_to p (Some (JObj body)))
           (id_path2 ''/native/session/'' sid ''/tournaments/'' tid ''/abort''))"

section \<open>The board, messages and events\<close>

definition number_or_undefined :: "jsnum option \<Rightarrow> jsval" where
  "number_or_undefined x = (case x of None \<Rightarrow> JUndef | Some n \<Rightarrow> JNum n)"

definition board_request :: "jsstr \<Rightarrow> jsnum option \<Rightarrow> jsnum option \<Rightarrow> request_spec option" where
  "board_request sid since limit =
     session_read sid ''/board'' [(''since'', number_or_undefined since), (''limit'', number_or_undefined limit)]"

text \<open>\<open>boardPost\<close> refuses an empty subject or body before anything is sent.\<close>

definition boardPost_request :: "jsstr \<Rightarrow> jsstr \<Rightarrow> jsstr \<Rightarrow> jsstr list option \<Rightarrow> request_spec option checked" where
  "boardPost_request sid subject body refs =
     (if length (trim subject) = 0 \<or> length (trim body) = 0
      then fail (js ''POST /native/session/{id}/board'')
             (js ''board subject and body must both be non-empty'')
      else Inr (session_post sid ''/board'' (Some (JObj
        ([(js ''subject'', JStr subject), (js ''body'', JStr body)]
         @ (case refs of None \<Rightarrow> []
            | Some rs \<Rightarrow> if length rs > 0 then [(js ''refs'', JArr (map JStr rs))] else []))))))"

definition messages_request :: "jsstr \<Rightarrow> jsnum option \<Rightarrow> jsnum option \<Rightarrow> request_spec" where
  "messages_request sid before limit =
     read_from (js ''/native/messages'')
       [(''session'', JStr sid), (''before'', number_or_undefined before), (''limit'', number_or_undefined limit)]"

definition events_request :: "jsstr \<Rightarrow> jsnum option \<Rightarrow> jsnum option \<Rightarrow> request_spec" where
  "events_request sid after limit =
     read_from (js ''/native/events'')
       [(''session'', JStr sid), (''after'', number_or_undefined after), (''limit'', number_or_undefined limit)]"

section \<open>Usage, evidence and aborts\<close>

definition usage_request :: request_spec where
  "usage_request = read_from (js ''/native/usage'') []"

definition sessionUsage_request :: "jsstr \<Rightarrow> request_spec option" where
  "sessionUsage_request sid = session_read sid ''/usage'' []"

definition taskVerification_request :: "jsstr \<Rightarrow> jsstr \<Rightarrow> request_spec option" where
  "taskVerification_request sid taskId =
     map_option (\<lambda>p. read_from p []) (id_path2 ''/native/session/'' sid ''/tasks/'' taskId ''/verification'')"

definition evidence_request :: "jsstr \<Rightarrow> jsnum \<Rightarrow> request_spec option" where
  "evidence_request sid evidenceId =
     map_option (\<lambda>p. read_from p [(''session'', JStr sid)])
       (id_path ''/native/evidence/'' (number_string evidenceId) '''')"

definition retrieveEvidence_request :: "jsstr \<Rightarrow> jsnum \<Rightarrow> jsval \<Rightarrow> request_spec option" where
  "retrieveEvidence_request sid evidenceId selector =
     map_option (\<lambda>p. \<lparr>tqMethod = ''POST'', tqPath = p, tqQuery = [(''session'', JStr sid)],
         tqBody = Some selector, tqMaxBytes = Some EVIDENCE_MAX_BODY_BYTES\<rparr>)
       (id_path ''/native/evidence/'' (number_string evidenceId) ''/retrieve'')"

definition semanticStatus_request :: request_spec where
  "semanticStatus_request = read_from (js ''/native/semantic/status'') []"

definition abortSession_request :: "jsstr \<Rightarrow> jsstr option \<Rightarrow> request_spec option" where
  "abortSession_request sid opId =
     session_post sid ''/abort'' (Some (JObj
       ((js ''session_id'', JStr sid) # (case opId of None \<Rightarrow> [] | Some i \<Rightarrow> [(js ''op_id'', JStr i)]))))"

end
