(* ===== verification/UriCodec.thy ===== *)
theory UriCodec
  imports Encoding EventStream
begin

text \<open>
  \<open>encodeURIComponent\<close> and \<open>decodeURIComponent\<close> are inverse on well-formed text, and an
  encoded component holds no character that separates the parts of a URL.
\<close>

lemma hex_digit_of: "0 \<le> d \<Longrightarrow> d < 16 \<Longrightarrow>
    hex_digit (if d < 10 then of_int (48 + d) else of_int (55 + d)) = Some d"
proof -
  assume d: "0 \<le> d" "d < 16"
  have "\<forall>d \<in> set [0..15]. hex_digit (if d < 10 then of_int (48 + d) else of_int (55 + d)) = Some d"
    by code_simp
  moreover have "d \<in> set [0..15]" using d by simp
  ultimately show ?thesis by blast
qed

lemma percent_byte_percent:
  "0 \<le> b \<Longrightarrow> b < 256 \<Longrightarrow> percent_byte (percent b @ r) = Some (b, r)"
proof -
  assume b: "0 \<le> b" "b < 256"
  then have "0 \<le> b div 16" "b div 16 < 16" "0 \<le> b mod 16" "b mod 16 < 16" by auto
  from hex_digit_of [OF this(1,2)] hex_digit_of [OF this(3,4)] show ?thesis
    by (simp add: percent_def percent_byte_def Let_def)
qed

lemma lead_div_mod:
  assumes "0 \<le> x" and "x < b"
  shows "(b * q + x) div b = q" "(b * q + x) mod (b :: int) = x"
  using assms by (auto intro: int_div_pos_eq int_mod_pos_eq)

lemma continuation_percent:
  assumes x: "0 \<le> x" "x < 64"
  shows "continuation (Suc n) acc (percent (128 + x) @ r) = continuation n (acc * 64 + x) r"
  using x lead_div_mod [OF x, of 2] by (simp add: percent_byte_percent)

lemma decode_point2:
  assumes q: "2 \<le> q" "q < 32" and m: "0 \<le> m" "m < 64"
  shows "decode_escape (percent (192 + q) @ percent (128 + m) @ r) = Some (point_units (64 * q + m), r)"
  using q m lead_div_mod [of q 32 6] continuation_percent [OF m, of 0 q r]
  by (simp add: decode_escape_def percent_byte_percent mult.commute)

lemma decode_point3:
  assumes q: "0 \<le> q" "q < 16" and m: "0 \<le> m" "m < 64" and k: "0 \<le> k" "k < 64"
    and p: "p = 4096 * q + 64 * m + k" "2048 \<le> p" "\<not> (0xD800 \<le> p \<and> p \<le> 0xDFFF)"
  shows "decode_escape (percent (224 + q) @ percent (128 + m) @ percent (128 + k) @ r)
    = Some (point_units p, r)"
proof -
  have "p \<le> 0x10FFFF" using q m k p(1) by simp
  moreover have "(224 + q) div 32 = 7"
    using q by (intro int_div_pos_eq [where r = q]) auto
  moreover have "(224 + q) div 16 = 14" "(224 + q) mod 16 = q"
    using lead_div_mod [of q 16 14] q by simp_all
  moreover have "continuation 2 q (percent (128 + m) @ percent (128 + k) @ r) = Some (p, r)"
    using continuation_percent [OF m, of "Suc 0" q] continuation_percent [OF k, of 0]
    by (simp add: numeral_2_eq_2 p(1) algebra_simps del: continuation.simps(2))
  ultimately show ?thesis
    using q p(2,3) by (simp add: decode_escape_def percent_byte_percent)
qed

lemma decode_point4:
  assumes q: "0 \<le> q" "q < 8" and l: "0 \<le> l" "l < 64" and m: "0 \<le> m" "m < 64" and k: "0 \<le> k" "k < 64"
    and p: "p = 262144 * q + 4096 * l + 64 * m + k" "65536 \<le> p" "p \<le> 0x10FFFF"
  shows "decode_escape (percent (240 + q) @ percent (128 + l) @ percent (128 + m) @ percent (128 + k) @ r)
    = Some (point_units p, r)"
proof -
  have "(240 + q) div 32 = 7" "(240 + q) div 16 = 15"
    using q by (intro int_div_pos_eq [where r = "16 + q"] int_div_pos_eq [where r = q]; simp)+
  moreover have "(240 + q) div 8 = 30" "(240 + q) mod 8 = q"
    using lead_div_mod [of q 8 30] q by simp_all
  moreover have "continuation 3 q (percent (128 + l) @ percent (128 + m) @ percent (128 + k) @ r) = Some (p, r)"
    using continuation_percent [OF l, of "Suc (Suc 0)" q] continuation_percent [OF m, of "Suc 0"]
      continuation_percent [OF k, of 0]
    by (simp add: numeral_3_eq_3 p(1) algebra_simps del: continuation.simps(2))
  ultimately show ?thesis
    using q p(2,3) by (simp add: decode_escape_def percent_byte_percent)
qed

lemma digits64: "0 \<le> (p :: int) \<Longrightarrow> p = 64 * (p div 64) + p mod 64 \<and> 0 \<le> p mod 64 \<and> p mod 64 < 64"
  by simp

lemma decode_escape_percent_point:
  assumes p: "0 \<le> p" "p \<le> 0x10FFFF" "\<not> (0xD800 \<le> p \<and> p \<le> 0xDFFF)"
  shows "decode_escape (percent_point p @ r) = Some (point_units p, r)"
proof -
  define a b c where "a = p div 64" and "b = p div 4096" and "c = p div 262144"
  have ab: "a = 64 * b + a mod 64" and bc: "b = 64 * c + b mod 64"
    using zdiv_zmult2_eq [of 64 p 64] zdiv_zmult2_eq [of 64 p 4096] by (simp_all add: a_def b_def c_def)
  have pa: "p = 64 * a + p mod 64" by (simp add: a_def)
  have m: "0 \<le> p mod 64" "p mod 64 < 64" "0 \<le> a mod 64" "a mod 64 < 64" "0 \<le> b mod 64" "b mod 64 < 64"
    by simp_all
  consider "p < 128" | "128 \<le> p" "p < 2048" | "2048 \<le> p" "p < 65536" | "65536 \<le> p" by linarith
  then show ?thesis
  proof cases
    case 1
    with p show ?thesis
      by (simp add: percent_point_def decode_escape_def percent_byte_percent point_units_def)
  next
    case 2
    then have "2 \<le> a" "a < 32" using pa m by linarith+
    from decode_point2 [OF this m(1,2), of r] 2 show ?thesis
      by (simp add: percent_point_def flip: a_def pa)
  next
    case 3
    then have "0 \<le> b" "b < 16" "p = 4096 * b + 64 * (a mod 64) + p mod 64" using pa ab m by linarith+
    from decode_point3 [OF this(1,2) m(3,4,1,2) this(3), of r] 3 p show ?thesis
      by (simp add: percent_point_def flip: a_def b_def)
  next
    case 4
    then have "0 \<le> c" "c < 8" "p = 262144 * c + 4096 * (b mod 64) + 64 * (a mod 64) + p mod 64"
      using pa ab bc m p(2) by linarith+
    from decode_point4 [OF this(1,2) m(5,6,3,4,1,2) this(3), of r] 4 p show ?thesis
      by (simp add: percent_point_def flip: a_def b_def c_def)
  qed
qed

section \<open>Decoding an encoded text\<close>

lemma decode_uri_enough: "length s \<le> n \<Longrightarrow> decode_uri n s = decodeURIComponent s"
proof (induction n)
  case (Suc n)
  show ?case
  proof (cases "length s = Suc n")
    case False
    with Suc show ?thesis by (simp add: decode_uri_fuel)
  qed (simp add: decodeURIComponent_def)
qed (simp add: decodeURIComponent_def)

lemma decodeURIComponent_Nil [simp]: "decodeURIComponent [] = Some []"
  by (simp add: decodeURIComponent_def)

lemma decodeURIComponent_unit:
  "c \<noteq> 37 \<Longrightarrow> decodeURIComponent (c # r) = map_option (\<lambda>u. c # u) (decodeURIComponent r)"
  by (simp add: decodeURIComponent_def)

lemma percent_point_head: "\<exists>u. percent_point p = 37 # u"
proof -
  have h: "\<exists>u. concat (map percent (x # xs)) = 37 # u" for x xs by (simp add: percent_def Let_def)
  define l where "l = (if p < 128 then [p]
        else if p < 2048 then [192 + p div 64, 128 + p mod 64]
        else if p < 65536 then [224 + p div 4096, 128 + p div 64 mod 64, 128 + p mod 64]
        else [240 + p div 262144, 128 + p div 4096 mod 64, 128 + p div 64 mod 64, 128 + p mod 64])"
  have "l \<noteq> []" unfolding l_def by simp
  then obtain x xs where "l = x # xs" by (cases l) simp_all
  then show ?thesis unfolding percent_point_def l_def [symmetric] using h by simp
qed

lemma decodeURIComponent_point:
  assumes "0 \<le> p" "p \<le> 0x10FFFF" "\<not> (0xD800 \<le> p \<and> p \<le> 0xDFFF)"
  shows "decodeURIComponent (percent_point p @ r) = map_option (\<lambda>u. point_units p @ u) (decodeURIComponent r)"
proof -
  obtain u where u: "percent_point p = 37 # u" using percent_point_head by blast
  have "decodeURIComponent (percent_point p @ r) =
      map_option (\<lambda>v. point_units p @ v) (decode_uri (length (u @ r)) r)"
    using decode_escape_percent_point [OF assms, of r] u by (simp add: decodeURIComponent_def)
  then show ?thesis by (simp add: decode_uri_enough)
qed

lemma unreserved_not_percent: "unreserved c \<Longrightarrow> c \<noteq> 37"
  by (auto simp: unreserved_def is_digit_def js_def)

lemma scalar_unit:
  assumes "\<not> is_high c" "\<not> is_low c"
  shows "0 \<le> uint c" "uint c \<le> 0x10FFFF" "\<not> (0xD800 \<le> uint c \<and> uint c \<le> 0xDFFF)" "point_units (uint c) = [c]"
proof -
  have c: "uint c < 65536" using uint_lt2p [of c] by simp
  then show "0 \<le> uint c" "uint c \<le> 0x10FFFF" "point_units (uint c) = [c]"
    by (simp_all add: point_units_def)
  show "\<not> (0xD800 \<le> uint c \<and> uint c \<le> 0xDFFF)"
    using assms by (auto simp: is_high_def is_low_def word_le_def)
qed

lemma scalar_pair:
  assumes "is_high c" "is_low d"
  defines "p \<equiv> 65536 + (uint c - 0xD800) * 1024 + (uint d - 0xDC00)"
  shows "0 \<le> p" "p \<le> 0x10FFFF" "\<not> (0xD800 \<le> p \<and> p \<le> 0xDFFF)" "point_units p = [c, d]"
proof -
  have c: "0xD800 \<le> uint c" "uint c \<le> 0xDBFF" and d: "0xDC00 \<le> uint d" "uint d \<le> 0xDFFF"
    using assms(1,2) by (auto simp: is_high_def is_low_def word_le_def)
  then show "0 \<le> p" "p \<le> 0x10FFFF" "\<not> (0xD800 \<le> p \<and> p \<le> 0xDFFF)" by (auto simp: p_def)
  have split: "p - 65536 = 1024 * (uint c - 0xD800) + (uint d - 0xDC00)" by (simp add: p_def)
  have "(p - 65536) div 1024 = uint c - 0xD800" "(p - 65536) mod 1024 = uint d - 0xDC00"
    unfolding split by (rule lead_div_mod; use d in simp)+
  moreover have "\<not> p < 65536" using c d by (simp add: p_def)
  ultimately show "point_units p = [c, d]" by (simp add: point_units_def)
qed

lemma decode_encode: "encodeURIComponent s = Some t \<Longrightarrow> decodeURIComponent t = Some s"
proof (induction s arbitrary: t rule: encodeURIComponent.induct)
  case (2 c)
  then have c: "\<not> is_high c" "\<not> is_low c" and t: "t = (if unreserved c then [c] else percent_point (uint c))"
    by (auto split: if_split_asm)
  show ?case
    using decodeURIComponent_point [OF scalar_unit(1-3) [OF c], of "[]"] scalar_unit(4) [OF c]
    by (auto simp: t decodeURIComponent_unit unreserved_not_percent)
next
  case (3 c d cs)
  show ?case
  proof (cases "is_high c")
    case True
    with 3 obtain u where u: "is_low d" "\<not> is_low c" "encodeURIComponent cs = Some u"
        "t = percent_point (65536 + (uint c - 0xD800) * 1024 + (uint d - 0xDC00)) @ u"
      by (auto split: if_split_asm)
    then show ?thesis
      using 3(1) [OF u(2) True u(1,3)] decodeURIComponent_point [OF scalar_pair(1-3) [OF True u(1)], of u]
        scalar_pair(4) [OF True u(1)] by simp
  next
    case False
    with 3 obtain u where u: "\<not> is_low c" "encodeURIComponent (d # cs) = Some u"
        "t = (if unreserved c then [c] else percent_point (uint c)) @ u"
      by (auto split: if_split_asm)
    have "decodeURIComponent u = Some (d # cs)" using 3(2) [OF u(1) False u(2)] .
    then show ?thesis
      using decodeURIComponent_point [OF scalar_unit(1-3) [OF False u(1)], of u] scalar_unit(4) [OF False u(1)]
      by (auto simp: u(3) decodeURIComponent_unit unreserved_not_percent)
  qed
qed simp

lemma encodeURIComponent_inject:
  "encodeURIComponent s = Some t \<Longrightarrow> encodeURIComponent s' = Some t \<Longrightarrow> s = s'"
  by (metis decode_encode option.inject)

section \<open>What an encoded text contains\<close>

definition component_unit :: "cunit \<Rightarrow> bool" where
  "component_unit c \<longleftrightarrow> unreserved c \<or> c = 37"

lemma percent_units: "0 \<le> b \<Longrightarrow> b < 256 \<Longrightarrow> list_all component_unit (percent b)"
proof -
  assume b: "0 \<le> b" "b < 256"
  have "\<forall>d \<in> set [0..15]. component_unit (if d < 10 then of_int (48 + d) else of_int (55 + d))" by code_simp
  moreover have "b div 16 \<in> set [0..15]" "b mod 16 \<in> set [0..15]" using b by auto
  ultimately show ?thesis by (simp add: percent_def Let_def component_unit_def)
qed

lemma percent_point_units:
  assumes p: "0 \<le> p" "p \<le> 0x10FFFF"
  shows "list_all component_unit (percent_point p)"
proof -
  define a b c where "a = p div 64" and "b = p div 4096" and "c = p div 262144"
  have bounds: "0 \<le> a" "0 \<le> b" "0 \<le> c" "64 * a \<le> p" "4096 * b \<le> p" "262144 * c \<le> p"
    using p by (simp_all add: a_def b_def c_def pos_imp_zdiv_nonneg_iff)
  have cont: "list_all component_unit (percent (128 + x mod 64))" for x
    by (rule percent_units) (use pos_mod_bound [of 64 x] pos_mod_sign [of 64 x] in linarith)+
  have "p < 128 \<Longrightarrow> list_all component_unit (percent p)"
    "p < 2048 \<Longrightarrow> list_all component_unit (percent (192 + a))"
    "p < 65536 \<Longrightarrow> list_all component_unit (percent (224 + b))"
    "list_all component_unit (percent (240 + c))"
    by (rule percent_units; use p bounds in linarith)+
  with cont show ?thesis
    by (simp add: percent_point_def flip: a_def b_def c_def)
qed

lemma component_unit_unreserved [simp]: "unreserved c \<Longrightarrow> component_unit c"
  by (simp add: component_unit_def)

lemma encoded_units: "encodeURIComponent s = Some t \<Longrightarrow> list_all component_unit t"
proof (induction s arbitrary: t rule: encodeURIComponent.induct)
  case (2 c)
  then show ?case
    using percent_point_units [of "uint c"] uint_lt2p [of c]
    by (auto split: if_split_asm)
next
  case (3 c d cs)
  have unit: "list_all component_unit (if unreserved c then [c] else percent_point (uint c))"
    using percent_point_units [of "uint c"] uint_lt2p [of c] by simp
  show ?case
  proof (cases "is_high c")
    case True
    with 3 show ?thesis
      using percent_point_units [OF scalar_pair(1,2) [OF True]] by (auto split: if_split_asm)
  next
    case False
    with 3 unit show ?thesis by (auto split: if_split_asm)
  qed
qed simp

text \<open>No slash, question mark, hash sign, backslash or space.\<close>

lemma component_unit_no_separator:
  "component_unit c \<Longrightarrow> c \<noteq> 47 \<and> c \<noteq> 63 \<and> c \<noteq> 35 \<and> c \<noteq> 92 \<and> c \<noteq> 32"
  by (auto simp: component_unit_def unreserved_def is_digit_def js_def)

end
