(* ===== verification/NativeClient.thy ===== *)
theory NativeClient
  imports NativeRequests UriCodec
begin

text \<open>
  The native client as a whole (\<open>apps/vscode/src/nativeClient.ts\<close>): its response side
  (exact acceptance, located errors, the additive contract), its transport (bounded
  bodies, typed errors, the readiness probe) and its request side (ids confined to one
  path segment), and the admission of a submission through it.
\<close>

section \<open>Readers without a record contract\<close>

interpretation usage_row: reader usage_row_at "[''sessionId'', ''budget'', ''spent'']"
  by unfold_locales (auto simp: usage_row_at_def intro!: located_intros reader_cong)

interpretation durable_calls: reader durable_calls_at
  "[''tokens'', ''prefixObservations'', ''prefixTokens'', ''prefixStabilityObservations'']"
  by unfold_locales (auto simp: durable_calls_at_def intro!: located_intros reader_cong)

lemma usage_parts_located [located_intros]:
  "located p (durable_calls_at ps (dot (dot p k) k'))" "located p (validateReservations ps (dot (dot p k) k'))"
  by (rule located_dot, rule located_dot, rule durable_calls.read_located)
    (rule located_dot, rule located_dot, rule reservations.read_located)

interpretation usage: reader usage_at "[''sessions'', ''totals'', ''perSession'', ''durable'']"
proof unfold_locales
  show "located p (usage_at ps p)" for p ps
    unfolding usage_at_def
    by (intro located_and_then located_field located_nested located_checkResponseKeys
        located_checkResponseKeys_dot located_arrays usage_row.read_located located_objects_of
        usage_parts_located located_Inr)
qed (auto simp: usage_at_def intro!: reader_cong)

interpretation owed_fact: reader owed_fact_at "[''opId'', ''tool'', ''startedMs'', ''status'', ''effectStatus'']"
  by unfold_locales (auto simp: owed_fact_at_def intro!: located_intros reader_cong)

interpretation evidence_meta: reader evidence_at
  "[''id'', ''kind'', ''sessionId'', ''workspaceId'', ''taskId'', ''sourceRevision'', ''compressibility'',
    ''backingCompleteness'', ''backingRetained'', ''backingLen'', ''allowRanges'', ''allowSearch'', ''maxBytes'']"
  by unfold_locales (auto simp: evidence_at_def intro!: located_intros reader_cong)

interpretation semantic_provider: reader semantic_provider_at "[''id'', ''version'', ''capabilities'']"
  by unfold_locales (auto simp: semantic_provider_at_def intro!: located_intros reader_cong)

interpretation semantic_status: reader semantic_status_at
  "[''configured'', ''providerCount'', ''providers'', ''fallback'', ''snapshotState'']"
  by unfold_locales (auto simp: semantic_status_at_def intro!: located_intros reader_cong)

interpretation discarded: reader discarded_at "[''child_id'', ''reason'']"
  by unfold_locales (auto simp: discarded_at_def intro!: located_intros reader_cong)

interpretation tournament_summary: reader tournament_summary_at
  "[''id'', ''state'', ''candidate_count'', ''winner'', ''decided_ms'']"
  by unfold_locales (auto simp: tournament_summary_at_def intro!: located_intros reader_cong)

section \<open>Responses\<close>

lemma presentationTag_located [located_intros]: "located p (presentationTag ps key p)"
  by (auto simp: presentationTag_def split: option.split)

lemma applied_flag_located [located_intros]: "located p (applied_flag v (dot p key))"
  by (auto simp: applied_flag_def split: jsval.split)

text \<open>
  C15.  Every rejection of a response names where it was found: for each of the 33 exported
  validators, whatever the daemon answers, the path of the protocol error begins with the
  label the validator carries, or, for the two acknowledgements of the agent controls,
  with the path of the request it is given.  The label is the method and the route of the
  request that uses the validator, with two exceptions the code has: the state of one task
  run is validated as an entry of the list of task runs, and the answer to a tournament's
  abort as a \<open>GET\<close> of the tournament, so their rejections name those routes.
\<close>

theorem rejections_located:
  "located (js ''GET /native/health'') (validateHealth json)
   \<and> located (js ''GET /native/ready'') (validateReady json)
   \<and> located (js ''POST /session/create'') (validateSessionCreated json)
   \<and> located (js ''GET /session/list'') (validateSessionList json)
   \<and> located (js ''GET /models'') (validateModelCatalog json)
   \<and> located (js ''GET /session/{id}/projection'') (validateProjection json)
   \<and> located (js ''GET /native/session/{id}/turns'') (validateTurns json)
   \<and> located (js ''GET /native/session/{id}/tasks'') (validateTaskViews json)
   \<and> located (js ''GET /native/session/{id}/checkpoints'') (validateCheckpoints json)
   \<and> located (js ''GET /native/session/{id}/verification'') (validateVerificationView json)
   \<and> located (js ''GET /native/session/{id}/task-runs'') (validateTaskRuns json)
   \<and> located (js ''GET /native/session/{id}/task-runs'') (validateTaskRun json)
   \<and> located (js ''POST /native/session/{id}/task-runs'') (validateTaskRunStarted json)
   \<and> located (js ''POST /native/session/{id}/task-runs/{run_id}/cancel'') (validateTaskRunCancelled json)
   \<and> located (js ''POST /native/session/{id}/attachments'') (validateAttachmentId json)
   \<and> located (js ''GET /native/agents'') (validateAgents json)
   \<and> located (js ''GET /native/session/{id}/tournament/{tournament_id}'') (validateTournament json)
   \<and> located (js ''POST /native/session/{id}/tournament'') (validateTournamentStarted json)
   \<and> located (js ''GET /native/session/{id}/tournaments'') (validateTournamentSummaries json)
   \<and> located (js ''POST /native/session/{id}/tournaments/{tournament_id}/decide'') (validateTournamentDecision json)
   \<and> located (js ''POST /native/session/{id}/board'') (validateBoardPost json)
   \<and> located (js ''GET /native/session/{id}/board'') (validateBoardPage json)
   \<and> located (js ''GET /native/messages'') (validateMessagePage json)
   \<and> located (js ''GET /native/events'') (validateEventPage json)
   \<and> located (js ''GET /native/session/{id}/usage'') (validateSessionUsage json)
   \<and> located (js ''GET /native/usage'') (validateUsage json)
   \<and> located (js ''GET /native/session/{id}/tasks/{task_id}/verification'') (validateTaskVerification json)
   \<and> located (js ''GET /native/evidence/{id}'') (validateEvidence json)
   \<and> located (js ''POST /native/evidence/{id}/retrieve'') (validateEvidenceRetrieval json)
   \<and> located (js ''GET /native/semantic/status'') (validateSemanticStatus json)
   \<and> located (js ''POST /native/session/{id}/abort'') (validateAbortAck json)
   \<and> located path (validateAgentPresentationAck json path)
   \<and> located path (validateAgentControlAck json path)"
  unfolding validateHealth_def validateReady_def validateSessionCreated_def validateSessionList_def
    validateModelCatalog_def validateProjection_def validateTurns_def validateTaskViews_def
    validateCheckpoints_def validateVerificationView_def validateTaskRuns_def validateTaskRun_def
    validateTaskRunStarted_def validateTaskRunCancelled_def validateAttachmentId_def
    validateAgents_def validateTournament_def validateTournamentStarted_def
    validateTournamentSummaries_def validateTournamentDecision_def validateBoardPost_def
    validateBoardPage_def validateMessagePage_def validateEventPage_def validateSessionUsage_def
    validateUsage_def validateTaskVerification_def validateEvidence_def
    validateEvidenceRetrieval_def validateSemanticStatus_def validateAbortAck_def
    validateAgentPresentationAck_def validateAgentControlAck_def Let_def
  by (intro conjI located_intros)

text \<open>The two exceptions, on an answer that is no object.\<close>

lemma misnamed_rejections:
  "\<exists>e. validateTaskRun JNull = Inl e \<and> pePath e = at_index (js ''GET /native/session/{id}/task-runs'') 0"
  "\<exists>e. validateTournament JNull = Inl e \<and> pePath e = js ''GET /native/session/{id}/tournament/{tournament_id}''"
  by (simp_all add: validateTaskRun_def validateTaskRuns_def entries_of_def validateTournament_def asObject_def
      asArray_def expected_def fail_def Let_def)

text \<open>
  The additive lists are cut to 64 entries before any entry is looked at: a malformed entry
  beyond the bound is neither refused nor kept.
\<close>

lemma entry_beyond_bound_ignored:
  assumes "length refs = 64"
  shows "optionalStringArray [(js ''evidenceRefs'', JArr (map JStr refs @ [JNull]))] [''evidenceRefs''] path = Inr refs"
  using assms by (simp add: decode_simps carries_strings_def)

text \<open>
  C17.  The task views are accepted exactly: an answer is accepted iff it is an array of
  objects whose twelve required members have their types and whose additive members, the
  first present one of the names each may have, are absent or well-formed; then every
  required field of a view is the member it is named after, an additive text that is
  absent or null reads as none, a completion is present only where the daemon serves one,
  and of each additive list (criteria, plan steps, their dependencies, blockers, evidence
  references) exactly the first 64 entries are checked and kept, the rest being ignored
  whatever it is.
\<close>

theorem task_views_exact:
  "validateTaskViews json = Inr views \<longleftrightarrow>
     (\<exists>pss. json = JArr (map JObj pss) \<and> list_all2 carries_task_view pss views)"
  unfolding validateTaskViews_def by (rule task_view.entries_ok)

text \<open>
  The additive contract: members a newer daemon adds to the task views, under any
  names the client does not know, change neither the result nor the error.
\<close>

theorem task_views_additive:
  assumes "\<And>i. i < length pss \<Longrightarrow> fst ` set (extra i) \<inter> set (map js task_view_keys) = {}"
  shows "validateTaskViews (JArr (map (\<lambda>i. JObj (pss ! i @ extra i)) [0..<length pss]))
    = validateTaskViews (JArr (map JObj pss))"
  unfolding validateTaskViews_def by (rule task_view.entries_appended [OF assms])

text \<open>
  C28.  A board page the client accepts is well-formed: positive ids, revisions and
  authors, a non-negative page revision, at most 64 references per post, and its posts
  are the served ones in their order.
\<close>

theorem board_page_well_formed:
  assumes "validateBoardPage json = Inr page"
  shows "0 < npBoardId page \<and> 0 \<le> npRevision page
    \<and> list_all (\<lambda>p. 0 < nbId p \<and> 0 < nbBoardId p \<and> 0 < nbAuthorSession p \<and> 0 < nbRevision p
         \<and> length (nbRefs p) \<le> 64) (npPosts page)
    \<and> (\<exists>ps qss. json = JObj ps \<and> map_of ps (js ''posts'') = Some (JArr (map JObj qss))
         \<and> list_all2 (\<lambda>qs p. map_of qs (js ''subject'') = Some (JStr (nbSubject p))
              \<and> map_of qs (js ''body'') = Some (JStr (nbBody p))
              \<and> map_of qs (js ''revision'') = Some (JInt (nbRevision p))) qss (npPosts page))"
proof -
  from assms obtain ps where ps: "json = JObj ps" "carries_board_page ps page"
    by (auto simp: validateBoardPage_def asObject_ok board_page.read_ok Let_def)
  then obtain qss where qss: "has ps ''posts'' (JArr (map JObj qss))"
      "list_all2 carries_board_post qss (npPosts page)"
    by (auto simp: carries_board_page_def has_list_def)
  from qss(2) have "list_all (\<lambda>p. 0 < nbId p \<and> 0 < nbBoardId p \<and> 0 < nbAuthorSession p \<and> 0 < nbRevision p
      \<and> length (nbRefs p) \<le> 64) (npPosts page)"
    by (induction rule: list_all2_induct) (auto simp: carries_board_post_def)
  moreover have "list_all2 (\<lambda>qs p. map_of qs (js ''subject'') = Some (JStr (nbSubject p))
      \<and> map_of qs (js ''body'') = Some (JStr (nbBody p))
      \<and> map_of qs (js ''revision'') = Some (JInt (nbRevision p))) qss (npPosts page)"
    using qss(2) by (rule list_all2_mono) (auto simp: carries_board_post_def has_def)
  ultimately show ?thesis
    using ps qss(1) by (auto simp: carries_board_page_def has_def)
qed

text \<open>
  An upload answer is accepted exactly when its digest is 64 lowercase hexadecimal
  digits, its size a non-negative integer and its names have their types; it is read
  without change, whatever other members it has.
\<close>

theorem attachment_exact:
  "validateAttachmentId json = Inr a \<longleftrightarrow>
     (\<exists>ps. json = JObj ps
        \<and> map_of ps (js ''digest'') = Some (JStr (naDigest a)) \<and> is_digest (naDigest a)
        \<and> map_of ps (js ''size'') = Some (JInt (naSize a)) \<and> 0 \<le> naSize a
        \<and> map_of ps (js ''mime'') = Some (JStr (naMime a))
        \<and> map_of ps (js ''filename'') = Some (jopt JStr (naFilename a)))"
  by (auto simp: validateAttachmentId_def Let_def asObject_ok attachment.read_ok carries_attachment_def has_def)

definition demo_view :: members where
  "demo_view =
     [(js ''goal'', JStr (js ''ship'')), (js ''constraints'', JArr []), (js ''state'', JStr (js ''running'')),
      (js ''milestones'', JObj [(js ''completed'', JArr []), (js ''open'', JArr [JStr (js ''m1'')])]),
      (js ''decisions'', JArr []), (js ''failures'', JArr []), (js ''changedFiles'', JArr []),
      (js ''tests'', JObj [(js ''run'', JArr []), (js ''failed'', JArr [])]),
      (js ''preferences'', JArr []), (js ''verification'', JArr []), (js ''progress'', JNull),
      (js ''budget'', JNull), (js ''plan_steps'', JArr [JObj [(js ''id'', JStr (js ''s1''))]])]"

theorem task_views_additive_witness:
  "validateTaskViews (JArr [JObj (demo_view @ [(js ''futureField'', JBool True)])])
     = validateTaskViews (JArr [JObj demo_view])"
proof -
  have "fst ` set [(js ''futureField'', JBool True)] \<inter> set (map js task_view_keys) = {}"
    by (simp add: task_view_keys_def)
  then show ?thesis
    using task_views_additive [of "[demo_view]" "\<lambda>_. [(js ''futureField'', JBool True)]"] by simp
qed

definition demo_post :: members where
  "demo_post = [(js ''id'', JInt 3), (js ''board_id'', JInt 1), (js ''author_child'', JNull),
     (js ''author_session'', JInt 7), (js ''subject'', JStr (js ''s'')), (js ''body'', JStr (js ''b'')),
     (js ''refs'', JArr [JStr (js ''r'')]), (js ''revision'', JInt 3), (js ''created_ms'', JInt 5)]"

definition demo_page_json :: jsval where
  "demo_page_json = JObj [(js ''board_id'', JInt 1), (js ''revision'', JInt 3), (js ''posts'', JArr [JObj demo_post]),
     (js ''next_before_revision'', JNull), (js ''has_more'', JBool False)]"

lemma demo_page_json_accepted: "\<exists>page. validateBoardPage demo_page_json = Inr page \<and> length (npPosts page) = 1"
proof -
  let ?post = "\<lparr>nbId = 3, nbBoardId = 1, nbAuthorChild = None, nbAuthorSession = 7, nbSubject = js ''s'',
    nbBody = js ''b'', nbRefs = [js ''r''], nbRevision = 3, nbCreatedMs = 5\<rparr>"
  have "carries_board_post demo_post ?post"
    by (auto simp: carries_board_post_def demo_post_def has_def intro!: exI [of _ "[js ''r'']"])
  then have "validateBoardPage demo_page_json = Inr \<lparr>npBoardId = 1, npRevision = 3, npPosts = [?post],
      npNextBefore = None, npHasMore = False\<rparr>"
    by (auto simp: validateBoardPage_def demo_page_json_def Let_def asObject_ok board_page.read_ok
        carries_board_page_def has_def has_list_def intro!: exI [of _ "[demo_post]"])
  then show ?thesis by (intro exI conjI) (assumption, simp)
qed

theorem board_page_well_formed_witness:
  "\<exists>page. validateBoardPage demo_page_json = Inr page \<and> length (npPosts page) = 1 \<and> 0 < npBoardId page
     \<and> list_all (\<lambda>p. 0 < nbId p) (npPosts page)"
proof -
  obtain page where p: "validateBoardPage demo_page_json = Inr page" "length (npPosts page) = 1"
    using demo_page_json_accepted by blast
  from board_page_well_formed [OF p(1)] have "0 < npBoardId page" "list_all (\<lambda>p. 0 < nbId p) (npPosts page)"
    by (auto simp: list_all_iff)
  with p show ?thesis by blast
qed

section \<open>Bounded bodies and typed errors\<close>

text \<open>The bytes a run of reads brings, and whether they all arrive.\<close>

fun read_bytes :: "stream_read list \<Rightarrow> 8 word list" where
  "read_bytes [] = []"
| "read_bytes (RChunk c # reads) = c @ read_bytes reads"
| "read_bytes (_ # reads) = read_bytes reads"

definition no_failure :: "stream_read list \<Rightarrow> bool" where
  "no_failure reads \<longleftrightarrow> list_all (\<lambda>r. case r of RFailed _ \<Rightarrow> False | _ \<Rightarrow> True) reads"

lemma read_loop_prefix:
  "int (length kept + length (read_bytes pre)) \<le> m \<Longrightarrow> no_failure pre \<Longrightarrow>
     read_loop m label kept (pre @ reads) = read_loop m label (kept @ read_bytes pre) reads"
  by (induction pre arbitrary: kept rule: read_bytes.induct) (auto simp: no_failure_def)

lemma read_loop_kept:
  "int (length kept) \<le> m \<Longrightarrow> read_loop m label kept reads = Inr bytes \<Longrightarrow>
     int (length bytes) \<le> m \<and> no_failure reads \<and> bytes = kept @ read_bytes reads"
  by (induction m label kept reads rule: read_loop.induct)
    (auto simp: no_failure_def protocol_def split: if_split_asm)

lemma read_loop_whole:
  "int (length kept) \<le> m \<Longrightarrow> no_failure reads \<Longrightarrow>
     read_loop m label kept reads =
       (if int (length kept + length (read_bytes reads)) \<le> m then Inr (kept @ read_bytes reads)
        else protocol label (js ''streamed body exceeded bound '' @ int_string m @ js '' bytes''))"
  by (induction m label kept reads rule: read_loop.induct) (auto simp: no_failure_def)

lemma read_loop_overflow:
  "int (length kept + length (read_bytes pre)) \<le> m \<Longrightarrow> no_failure pre \<Longrightarrow>
     int (length kept + length (read_bytes pre) + length c) > m \<Longrightarrow>
     read_loop m label kept (pre @ RChunk c # rest)
       = protocol label (js ''streamed body exceeded bound '' @ int_string m @ js '' bytes'')"
  by (simp add: read_loop_prefix)

text \<open>
  C26.  Bodies are bounded: a body that is accepted is all that was sent and lies within
  the bound; a stream that exceeds the bound is refused at the chunk that crosses it,
  whatever would still follow; a body within the bound that arrives whole is accepted,
  however it is cut into chunks.
\<close>

theorem bodies_bounded:
  assumes "0 \<le> m" and "case declared_length response of Fin q \<Rightarrow> q \<le> of_int m | _ \<Rightarrow> True"
  shows "(\<forall>bytes. readBounded response m label = Inr bytes \<longrightarrow> int (length bytes) \<le> m
            \<and> (\<forall>reads. rsBody response = Streamed reads \<longrightarrow> bytes = read_bytes reads))
    \<and> (\<forall>reads. rsBody response = Streamed reads \<and> no_failure reads \<longrightarrow>
          readBounded response m label
            = (if int (length (read_bytes reads)) \<le> m then Inr (read_bytes reads)
               else protocol label (js ''streamed body exceeded bound '' @ int_string m @ js '' bytes'')))
    \<and> (\<forall>pre c rest. rsBody response = Streamed (pre @ RChunk c # rest) \<and> no_failure pre
          \<and> int (length (read_bytes pre)) \<le> m \<and> m < int (length (read_bytes pre) + length c) \<longrightarrow>
          readBounded response m label
            = protocol label (js ''streamed body exceeded bound '' @ int_string m @ js '' bytes''))"
proof -
  have whole: "read_loop m label [] reads =
      (if int (length (read_bytes reads)) \<le> m then Inr (read_bytes reads)
       else protocol label (js ''streamed body exceeded bound '' @ int_string m @ js '' bytes''))"
    if "no_failure reads" for reads
    using that assms(1) read_loop_whole [of "[]"] by simp
  have kept: "int (length bytes) \<le> m \<and> (\<forall>reads. rsBody response = Streamed reads \<longrightarrow> bytes = read_bytes reads)"
    if "readBounded response m label = Inr bytes" for bytes
    using that read_loop_kept [of "[]" m label _ bytes] assms
    by (auto simp: readBounded_def Let_def protocol_def
        split: body_source.split_asm if_split_asm jsnum.split_asm)
  have streamed: "readBounded response m label = read_loop m label [] reads"
    if "rsBody response = Streamed reads" for reads
    using that assms(2) by (auto simp: readBounded_def Let_def split: jsnum.split)
  have over: "readBounded response m label
      = protocol label (js ''streamed body exceeded bound '' @ int_string m @ js '' bytes'')"
    if "rsBody response = Streamed (pre @ RChunk c # rest)" "no_failure pre"
      "int (length (read_bytes pre)) \<le> m" "m < int (length (read_bytes pre) + length c)" for pre c rest
    using streamed [OF that(1)] read_loop_overflow [of "[]" pre m c label rest] that(2-4) by simp
  show ?thesis
    by (intro conjI allI impI) (metis kept, metis kept, metis streamed whole, metis over)
qed


definition chunked_body :: "8 word list \<Rightarrow> 8 word list \<Rightarrow> response_like" where
  "chunked_body a b = \<lparr>rsStatus = 200, rsOk = True, rsLength = Some (js ''5''),
     rsBody = Streamed [RChunk a, REmpty, RChunk b]\<rparr>"

theorem bodies_bounded_witness:
  "readBounded (chunked_body [1, 2, 3] [4, 5]) 8 (js ''l'') = Inr [1, 2, 3, 4, 5]
   \<and> readBounded (chunked_body [1, 2, 3] [4, 5, 6, 7, 8, 9]) 8 (js ''l'')
       = protocol (js ''l'') (js ''streamed body exceeded bound '' @ int_string 8 @ js '' bytes'')"
proof -
  have d: "case declared_length (chunked_body a b) of Fin q \<Rightarrow> q \<le> of_int 8 | _ \<Rightarrow> True" for a b
  proof -
    have "number_of_string (js ''5'') = Fin 5" by code_simp
    then show ?thesis by (simp add: declared_length_def chunked_body_def)
  qed
  have "readBounded (chunked_body a b) 8 (js ''l'') =
      (if int (length (a @ b)) \<le> 8 then Inr (a @ b)
       else protocol (js ''l'') (js ''streamed body exceeded bound '' @ int_string 8 @ js '' bytes''))" for a b
  proof -
    have "rsBody (chunked_body a b) = Streamed [RChunk a, REmpty, RChunk b]
        \<and> no_failure [RChunk a, REmpty, RChunk b]"
      by (simp add: chunked_body_def no_failure_def)
    with bodies_bounded [OF _ d, of a b "js ''l''", THEN conjunct2, THEN conjunct1]
    have "readBounded (chunked_body a b) 8 (js ''l'') =
      (if int (length (read_bytes [RChunk a, REmpty, RChunk b])) \<le> 8
       then Inr (read_bytes [RChunk a, REmpty, RChunk b])
       else protocol (js ''l'') (js ''streamed body exceeded bound '' @ int_string 8 @ js '' bytes''))"
      by (metis zero_le_numeral)
    then show ?thesis by simp
  qed
  from this [of "[1, 2, 3]" "[4, 5]"] this [of "[1, 2, 3]" "[4, 5, 6, 7, 8, 9]"] show ?thesis by simp
qed

text \<open>A refused request is never taken for an answer, and its reason is typed.\<close>

lemma protocol_neq_Inr [simp]: "protocol path d \<noteq> Inr x"
  by (simp add: protocol_def)

lemma parsed_ok:
  "(case o' of None \<Rightarrow> protocol path d | Some parsed \<Rightarrow>
      (case v parsed of Inl e \<Rightarrow> Inl (CProtocol e) | Inr x \<Rightarrow> Inr x)) = Inr y \<longleftrightarrow>
   (\<exists>parsed. o' = Some parsed \<and> v parsed = Inr y)"
  by (cases o') (simp_all split: sum.split)

lemma settle_accepted:
  assumes "settle decode client spec validate result = Inr x"
  shows "\<exists>response bytes parsed. result = Fetched response \<and> rsOk response
    \<and> readBounded response (given (tqMaxBytes spec) (ncMaxBodyBytes client)) (request_label spec) = Inr bytes
    \<and> json_parse (decode bytes) = Some parsed \<and> validate parsed (request_label spec) = Inr x"
proof (cases result)
  case (Fetched response)
  with assms show ?thesis
    by (cases "rsOk response") (auto simp: settle_def Let_def parsed_ok)
qed (use assms in \<open>simp add: settle_def\<close>)

text \<open>
  C27.  A typed refusal of the daemon reaches the host as what it is: an error body within
  64 KiB that parses to an object with a code and a message becomes an API error with the
  status, the code and the retry flag of the answer, and the start of a task reports it
  with that status and code, as a conflict, a validation, an authorisation or a server
  failure and never as a transport failure.
\<close>

theorem typed_refusal_reaches_host:
  assumes "\<not> rsOk response"
    and "readBounded response ERROR_BODY_BYTES (request_label spec) = Inr bytes"
    and "json_parse (decode bytes) = Some (JObj ps)"
    and "map_of ps (js ''error'') = Some (JObj es)"
    and "map_of es (js ''code'') = Some (JStr code)" and "map_of es (js ''message'') = Some (JStr message)"
  shows "\<exists>retryable. settle decode client spec validate (Fetched response)
        = Inl (CApi (rsStatus response) code message retryable)
      \<and> (retryable \<longleftrightarrow> map_of es (js ''retryable'') = Some (JBool True))
      \<and> sfStatus (failureOf (thrown_of (CApi (rsStatus response) code message retryable)) settings)
          = Some (rsStatus response)
      \<and> sfCode (failureOf (thrown_of (CApi (rsStatus response) code message retryable)) settings) = Some code
      \<and> sfKind (failureOf (thrown_of (CApi (rsStatus response) code message retryable)) settings)
          \<noteq> FTransport"
proof -
  have "apiError (rsStatus response) (decode bytes) (request_label spec) =
      CApi (rsStatus response) code message (jget es (js ''retryable'') = JBool True)"
    using assms(3-6) by (simp add: apiError_def member_of_def jget_def)
  then have "settle decode client spec validate (Fetched response) =
      Inl (CApi (rsStatus response) code message (jget es (js ''retryable'') = JBool True))"
    using assms(1,2) by (simp add: settle_def)
  moreover have "jget es (js ''retryable'') = JBool True \<longleftrightarrow> map_of es (js ''retryable'') = Some (JBool True)"
    by (simp add: jget_def split: option.split)
  moreover have "sfStatus (failureOf (thrown_of (CApi s c m r)) settings) = Some s"
    "sfCode (failureOf (thrown_of (CApi s c m r)) settings) = Some c"
    "sfKind (failureOf (thrown_of (CApi s c m r)) settings) \<noteq> FTransport" for s c m r
    by (simp_all add: thrown_of_def api_error_def failureOf_def start_failed_def)
  ultimately show ?thesis by blast
qed

text \<open>An error body that is JSON without a typed error loses its status on the way.\<close>

lemma untyped_refusal_loses_status:
  assumes "json_parse body = Some (JObj ps)" and "map_of ps (js ''error'') = None"
  shows "sfStatus (failureOf (thrown_of (apiError status body label)) settings) = None
    \<and> sfKind (failureOf (thrown_of (apiError status body label)) settings) = FTransport"
  using assms
  by (simp add: apiError_def member_of_def jget_def thrown_of_def failureOf_def start_failed_def)

definition ascii :: "8 word list \<Rightarrow> jsstr" where
  "ascii bytes = map (\<lambda>b. of_int (uint b)) bytes"

definition ascii_bytes :: "string \<Rightarrow> 8 word list" where
  "ascii_bytes s = map of_char s"

definition refusal :: response_like where
  "refusal = \<lparr>rsStatus = 409, rsOk = False, rsLength = None,
     rsBody = Buffered (ascii_bytes ''{\"error\":{\"code\":\"c\",\"message\":\"m\"}}'')\<rparr>"

theorem typed_refusal_reaches_host_witness:
  "\<exists>retryable. settle ascii \<lparr>ncBaseUrl = [], ncBearerToken = [], ncTimeoutMs = 1, ncMaxBodyBytes = 1\<rparr>
       ready_request (\<lambda>_ _. Inr ()) (Fetched refusal) = Inl (CApi 409 (js ''c'') (js ''m'') retryable)"
proof -
  let ?bytes = "ascii_bytes ''{\"error\":{\"code\":\"c\",\"message\":\"m\"}}''"
  let ?client = "\<lparr>ncBaseUrl = [], ncBearerToken = [], ncTimeoutMs = 1, ncMaxBodyBytes = 1\<rparr>"
  let ?v = "\<lambda>_ _. Inr ()"
  let ?settings = "\<lparr>stMutationMode = [], stMaxTokens = Fin 0, stMaxCostMicro = Fin 0, stFiles = None,
    stAttachments = None, stCompletion = None\<rparr>"
  let ?es = "[(js ''code'', JStr (js ''c'')), (js ''message'', JStr (js ''m''))]"
  have "json_parse (ascii ?bytes) = Some (JObj [(js ''error'', JObj ?es)])"
    by code_simp
  moreover have "readBounded refusal ERROR_BODY_BYTES (request_label ready_request) = Inr ?bytes"
    by (simp add: readBounded_def refusal_def declared_length_def ERROR_BODY_BYTES_def ascii_bytes_def)
  ultimately have "\<exists>retryable. settle ascii ?client ready_request ?v (Fetched refusal) =
      Inl (CApi (rsStatus refusal) (js ''c'') (js ''m'') retryable)"
    using typed_refusal_reaches_host [of refusal ready_request ?bytes ascii _ ?es "js ''c''" "js ''m''" ?client ?v ?settings]
    by (auto simp: refusal_def)
  then show ?thesis by (simp add: refusal_def)
qed

section \<open>Waiting for the daemon\<close>

lemma ready_loop_ends:
  assumes "0 < d" and "\<And>i. clock i + d \<le> clock (Suc i)" and "deadline - clock i < int fuel * d"
    and "\<And>i. answer i \<noteq> None"
  shows "ready_loop (Suc fuel) i deadline clock answer last' \<noteq> None"
  using assms(3)
proof (induction fuel arbitrary: i last')
  case 0
  then show ?case by simp
next
  case (Suc fuel)
  have "deadline - clock (Suc i) < int fuel * d"
    using Suc.prems assms(2) [of i] by (simp add: algebra_simps)
  from Suc.IH [OF this] obtain y where "answer i = Some y" 
      and "\<And>last'. ready_loop (Suc fuel) (Suc i) deadline clock answer last' \<noteq> None"
    using assms(4) [of i] by auto
  then show ?case by (simp split: sum.split bool.split)
qed

lemma ready_loop_ok:
  "ready_loop fuel i deadline clock answer last' = Some (Inr ()) \<Longrightarrow>
     \<exists>k \<ge> i. clock k < deadline \<and> answer k = Some (Inr True)"
proof (induction fuel arbitrary: i last')
  case (Suc fuel)
  from Suc.prems show ?case
    by (auto simp: fail_def split: if_split_asm option.split_asm sum.split_asm bool.split_asm
        dest!: Suc.IH dest: Suc_leD)
qed simp

text \<open>A probe that never settles holds the wait up for good, whatever the deadline.\<close>

lemma hanging_probe_hangs:
  assumes "clock 0 < now + timeoutMs" and "answer 0 = None"
  shows "readyOrThrow fuel timeoutMs now clock answer = None"
  using assms by (cases fuel) (simp_all add: readyOrThrow_def)

text \<open>
  C25.  The readiness wait ends: if every probe settles, one way or the other, and the clock advances
  by at least \<open>d\<close> milliseconds between two tests (the pause is 100), \<open>timeout / d + 2\<close> rounds are
  enough whatever the probes answer; and it succeeds only if a probe made before the deadline
  answered true.  That the probes settle is a premise, because the code sets no limit to the reading of
  a body: the lemma before shows the wait that a probe in suspense holds up.
\<close>

theorem readiness_wait_ends:
  assumes "0 < d" and "\<And>i. clock i + d \<le> clock (Suc i)" and "now \<le> clock 0" and "\<And>i. answer i \<noteq> None"
  shows "\<exists>result. readyOrThrow (Suc (Suc (nat (timeoutMs div d)))) timeoutMs now clock answer = Some result
    \<and> (result = Inr () \<longrightarrow> (\<exists>k. clock k < now + timeoutMs \<and> answer k = Some (Inr True)))"
proof -
  have "timeoutMs - clock 0 + now < int (Suc (nat (timeoutMs div d))) * d"
  proof (cases "0 \<le> timeoutMs div d")
    case True
    have "timeoutMs < d * (timeoutMs div d) + d"
      using pos_mod_bound [OF assms(1), of timeoutMs] mult_div_mod_eq [of d timeoutMs] by linarith
    with True assms(3) show ?thesis by (simp add: algebra_simps)
  next
    case False
    then have "timeoutMs < 0" using assms(1) by (simp add: pos_imp_zdiv_neg_iff not_le)
    with assms(1,3) show ?thesis by (simp add: False)
  qed
  then obtain result where r: "readyOrThrow (Suc (Suc (nat (timeoutMs div d)))) timeoutMs now clock answer = Some result"
    using ready_loop_ends [of d clock "now + timeoutMs" 0 "Suc (nat (timeoutMs div d))" answer "js ''not ready''"]
      assms(1,2,4)
    by (auto simp: readyOrThrow_def algebra_simps)
  moreover have "\<exists>k. clock k < now + timeoutMs \<and> answer k = Some (Inr True)" if "result = Inr ()"
    using ready_loop_ok [of _ 0 "now + timeoutMs" clock answer] r that
    unfolding readyOrThrow_def by (metis le0)
  ultimately show ?thesis by blast
qed

definition slow_daemon :: "nat \<Rightarrow> (jsstr + bool) option" where
  "slow_daemon i = Some (if i < 7 then Inl (js ''fetch failed'') else Inr True)"

theorem readiness_wait_ends_witness:
  "\<exists>result. readyOrThrow 102 10000 5 (\<lambda>i. 5 + 100 * int i) slow_daemon = Some result
     \<and> (result = Inr () \<longrightarrow> (\<exists>k. 5 + 100 * int k < 5 + 10000 \<and> slow_daemon k = Some (Inr True)))"
  using readiness_wait_ends [of 100 "\<lambda>i. 5 + 100 * int i" 5 slow_daemon 10000] by (simp add: slow_daemon_def)

section \<open>Requests\<close>

text \<open>An id is one segment of the path: it holds no separator and decodes to itself.\<close>

definition segment :: "jsstr \<Rightarrow> jsstr \<Rightarrow> bool" where
  "segment ident t \<longleftrightarrow> list_all (\<lambda>c. c \<noteq> 47 \<and> c \<noteq> 63 \<and> c \<noteq> 35 \<and> c \<noteq> 92 \<and> c \<noteq> 32) t
     \<and> decodeURIComponent t = Some ident"

lemma encoded_segment: "encodeURIComponent ident = Some t \<Longrightarrow> segment ident t"
  using encoded_units [of ident t] component_unit_no_separator decode_encode [of ident t]
  by (auto simp: segment_def list_all_iff)

lemma segment_split:
  assumes "segment i t" "segment j u" "t @ 47 # r = u @ 47 # s"
  shows "t = u \<and> r = s"
proof -
  have "takeWhile (\<lambda>c. c \<noteq> 47) (v @ 47 # w) = v" if "segment k v" for k v w
    using that by (induction v arbitrary: k) (auto simp: segment_def list_all_iff)
  from this [OF assms(1), of r] this [OF assms(2), of s] assms(3) show ?thesis by auto
qed

lemma segment_inject: "segment i t \<Longrightarrow> segment j t \<Longrightarrow> i = j"
  by (simp add: segment_def)

text \<open>
  A request cannot address another run: the path of a cancel is the fixed route with
  the session and the run as one segment each, whatever characters their ids hold, and
  two cancels with the same path are of the same session and the same run.
\<close>

theorem cancel_addresses_one_run:
  assumes "cancelTaskRun_request sid runId = Some spec"
  shows "(\<exists>t u. tqPath spec = js ''/native/session/'' @ t @ js ''/task-runs/'' @ u @ js ''/cancel''
            \<and> segment sid t \<and> segment runId u)
    \<and> (\<forall>sid' runId'. (case cancelTaskRun_request sid' runId' of
          None \<Rightarrow> True | Some spec' \<Rightarrow> tqPath spec' \<noteq> tqPath spec \<or> sid' = sid \<and> runId' = runId))"
proof -
  have path: "\<exists>t u. tqPath spec = js ''/native/session/'' @ t @ js ''/task-runs/'' @ u @ js ''/cancel''
      \<and> segment sid t \<and> segment runId u"
    if "cancelTaskRun_request sid runId = Some spec" for sid runId spec
    using that
    by (auto simp: cancelTaskRun_request_def id_path2_def post_to_def bind_eq_Some_conv
        dest!: encoded_segment) blast
  have "sid' = sid \<and> runId' = runId"
    if c: "cancelTaskRun_request sid' runId' = Some spec'" and p: "tqPath spec' = tqPath spec" for sid' runId' spec'
  proof -
    obtain t u where t: "tqPath spec = js ''/native/session/'' @ t @ js ''/task-runs/'' @ u @ js ''/cancel''"
        "segment sid t" "segment runId u" using path [OF assms] by blast
    obtain t' u' where t': "tqPath spec' = js ''/native/session/'' @ t' @ js ''/task-runs/'' @ u' @ js ''/cancel''"
        "segment sid' t'" "segment runId' u'" using path [OF c] by blast
    have s: "js ''/task-runs/'' = 47 # js ''task-runs/''" "js ''/cancel'' = 47 # js ''cancel''"
      by (simp_all add: js_def)
    have "t' @ 47 # js ''task-runs/'' @ u' @ 47 # js ''cancel'' = t @ 47 # js ''task-runs/'' @ u @ 47 # js ''cancel''"
      using t(1) t'(1) p by (simp add: s)
    from segment_split [OF t'(2) t(2) this] have "t' = t" "u' @ 47 # js ''cancel'' = u @ 47 # js ''cancel''"
      by simp_all
    with segment_split [OF t'(3) t(3)] t t' show ?thesis by (auto dest: segment_inject)
  qed
  with path [OF assms] show ?thesis by (auto split: option.split)
qed

theorem cancel_addresses_one_run_witness:
  "\<exists>spec t u. cancelTaskRun_request (js ''../x?y'') (js ''run 1'') = Some spec
     \<and> tqPath spec = js ''/native/session/'' @ t @ js ''/task-runs/'' @ u @ js ''/cancel''
     \<and> segment (js ''../x?y'') t"
proof -
  have "encodeURIComponent (js ''../x?y'') \<noteq> None" "encodeURIComponent (js ''run 1'') \<noteq> None"
    by code_simp+
  then obtain spec where spec: "cancelTaskRun_request (js ''../x?y'') (js ''run 1'') = Some spec"
    by (auto simp: cancelTaskRun_request_def id_path2_def)
  from cancel_addresses_one_run [OF spec] spec show ?thesis by blast
qed

text \<open>
  What the encoding does not do: the dot segments are unreserved, so an id \<open>..\<close> stays as
  it is, and the URL parser then drops the segment before it.
\<close>

lemma dot_segment_unencoded:
  "map_option tqPath (pauseAgent_request (js ''..'')) = Some (js ''/native/agents/../pause'')"
  by code_simp

end
