(* ===== verification/NativeAdmission.thy ===== *)
theory NativeAdmission
  imports NativeClient
begin

text \<open>
  The admission of a submission (\<open>taskStart.ts\<close>) through the native client
  (\<open>nativeClient.ts\<close>): the client that \<open>admitPendingSubmission\<close> is handed, built from the
  transport and the validators, and what a submission that was admitted rests on.
\<close>

section \<open>The client of the admission\<close>

text \<open>One call of \<open>NativeClient.request\<close> against a network.\<close>

definition perform ::
  "(jsstr \<Rightarrow> (jsstr \<times> jsstr) list \<Rightarrow> jsstr option) \<Rightarrow> (8 word list \<Rightarrow> jsstr) \<Rightarrow> native_client
     \<Rightarrow> (fetch_init \<Rightarrow> fetch_result) \<Rightarrow> request_spec option \<Rightarrow> (jsval \<Rightarrow> jsstr \<Rightarrow> 'a checked)
     \<Rightarrow> thrown + 'a" where
  "perform url decode nc net spec validate =
     (case spec of
        None \<Rightarrow> Inl (ThrownError (js ''URI malformed''))
      | Some s \<Rightarrow>
          (case fetch_request url nc s of
             None \<Rightarrow> Inl (ThrownError (js ''Invalid URL''))
           | Some init \<Rightarrow>
               (case settle decode nc s validate (net init) of
                  Inl e \<Rightarrow> Inl (thrown_of e) | Inr x \<Rightarrow> Inr x)))"

text \<open>The JSON body of a start, in the member order of \<open>startTaskRequest\<close>.\<close>

definition opt_field :: "string \<Rightarrow> ('a \<Rightarrow> jsval) \<Rightarrow> 'a option \<Rightarrow> members" where
  "opt_field key f x = (case x of None \<Rightarrow> [] | Some y \<Rightarrow> [(js key, f y)])"

definition attachment_json :: "native_attachment_id \<Rightarrow> jsval" where
  "attachment_json a = JObj [(js ''digest'', JStr (naDigest a)), (js ''mime'', JStr (naMime a)),
     (js ''filename'', jopt JStr (naFilename a)), (js ''size'', JInt (naSize a))]"

definition work_item_json :: "work_item \<Rightarrow> jsval" where
  "work_item_json w = JObj [(js ''id'', JStr (wiId w)), (js ''kind'', JStr (wiKind w)),
     (js ''summary'', JStr (wiSummary w)), (js ''ownership'', JStr (wiOwnership w))]"

definition contract_json :: "completion_contract \<Rightarrow> jsval" where
  "contract_json c = JObj [(js ''include_commit'', JBool (ccCommit c)), (js ''include_push'', JBool (ccPush c)),
     (js ''include_pr'', JBool (ccPr c))]"

definition start_request_json :: "start_task_request \<Rightarrow> jsval" where
  "start_request_json rq = JObj
     ([(js ''goal'', JStr (rqGoal rq))]
      @ opt_field ''max_tokens'' JNum (rqMaxTokens rq)
      @ opt_field ''max_cost_micro'' JNum (rqMaxCostMicro rq)
      @ opt_field ''files'' (\<lambda>fs. JArr (map JStr fs)) (rqFiles rq)
      @ opt_field ''attachments'' (\<lambda>as. JArr (map attachment_json as)) (rqAttachments rq)
      @ opt_field ''work_items'' (\<lambda>ws. JArr (map work_item_json ws)) (rqWorkItems rq)
      @ opt_field ''completion_contract'' contract_json (rqCompletion rq)
      @ opt_field ''mutation_mode'' JStr (rqMutationMode rq))"

text \<open>\<open>net\<close> answers a request from the calls made so far, so it may answer differently each time.\<close>

definition native_upload ::
  "(jsstr \<Rightarrow> (jsstr \<times> jsstr) list \<Rightarrow> jsstr option) \<Rightarrow> (8 word list \<Rightarrow> jsstr) \<Rightarrow> native_client
     \<Rightarrow> (call list \<Rightarrow> fetch_init \<Rightarrow> fetch_result) \<Rightarrow> call list \<Rightarrow> jsstr \<Rightarrow> upload_request
     \<Rightarrow> thrown + native_attachment_id" where
  "native_upload url decode nc net calls sid request =
     perform url decode nc (net calls) (uploadAttachment_request sid request) (\<lambda>json _. validateAttachmentId json)"

definition native_start ::
  "(jsstr \<Rightarrow> (jsstr \<times> jsstr) list \<Rightarrow> jsstr option) \<Rightarrow> (8 word list \<Rightarrow> jsstr) \<Rightarrow> native_client
     \<Rightarrow> (call list \<Rightarrow> fetch_init \<Rightarrow> fetch_result) \<Rightarrow> call list \<Rightarrow> jsstr \<Rightarrow> start_task_request
     \<Rightarrow> thrown + task_run_started" where
  "native_start url decode nc net calls sid request =
     perform url decode nc (net calls) (startTaskRun_request sid (start_request_json request))
       (\<lambda>json _. validateTaskRunStarted json)"

definition wired_client ::
  "(jsstr \<Rightarrow> (jsstr \<times> jsstr) list \<Rightarrow> jsstr option) \<Rightarrow> (8 word list \<Rightarrow> jsstr) \<Rightarrow> native_client
     \<Rightarrow> (call list \<Rightarrow> fetch_init \<Rightarrow> fetch_result) \<Rightarrow> (task_run_started \<Rightarrow> thrown option) \<Rightarrow> client" where
  "wired_client url decode nc net onStarted =
     \<lparr>clUpload = native_upload url decode nc net, clStart = native_start url decode nc net,
      clOnStarted = onStarted\<rparr>"

section \<open>What an admitted submission rests on\<close>

definition attachment_valid :: "native_attachment_id \<Rightarrow> bool" where
  "attachment_valid a \<longleftrightarrow> is_digest (naDigest a) \<and> 0 \<le> naSize a"

lemma perform_ok:
  assumes "perform url decode nc net spec validate = Inr x"
  shows "\<exists>s init response bytes parsed. spec = Some s \<and> fetch_request url nc s = Some init
    \<and> net init = Fetched response \<and> rsOk response
    \<and> readBounded response (given (tqMaxBytes s) (ncMaxBodyBytes nc)) (request_label s) = Inr bytes
    \<and> json_parse (decode bytes) = Some parsed \<and> validate parsed (request_label s) = Inr x"
proof -
  obtain s init where s: "spec = Some s" "fetch_request url nc s = Some init"
      "settle decode nc s validate (net init) = Inr x"
    using assms by (auto simp: perform_def split: option.split_asm sum.split_asm)
  from settle_accepted [OF s(3)] s(1,2) show ?thesis by blast
qed

lemma native_upload_valid:
  "native_upload url decode nc net calls sid request = Inr a \<Longrightarrow> attachment_valid a"
  unfolding native_upload_def
  by (drule perform_ok)
    (auto simp: validateAttachmentId_def Let_def asObject_ok attachment.read_ok carries_attachment_def
      attachment_valid_def)

lemma upload_all_valid:
  assumes "\<And>calls sid request a. clUpload client calls sid request = Inr a \<Longrightarrow> P a"
    and "list_all P uploaded" and "upload_all client sid uploaded calls as = (ids, err, calls')"
  shows "list_all P ids"
  using assms(2,3)
proof (induction as arbitrary: uploaded calls)
  case (Cons a as)
  show ?case
  proof (cases "clUpload client calls sid (attachment_request a)")
    case (Inl e)
    with Cons.prems show ?thesis by simp
  next
    case (Inr i)
    with Cons.prems assms(1) [OF Inr] Cons.IH [of "uploaded @ [i]"] show ?thesis by simp
  qed
qed simp

definition starts_valid :: "call list \<Rightarrow> bool" where
  "starts_valid calls \<longleftrightarrow>
     list_all (\<lambda>c. case c of
         CStart sid rq \<Rightarrow> list_all attachment_valid (given (rqAttachments rq) []) | _ \<Rightarrow> True) calls"

lemma starts_valid_append [simp]: "starts_valid (xs @ ys) \<longleftrightarrow> starts_valid xs \<and> starts_valid ys"
  by (simp add: starts_valid_def)

lemma starts_valid_upload [simp]: "starts_valid (map (\<lambda>a. CUpload sid (attachment_request a)) as)"
  by (simp add: starts_valid_def list_all_iff)

lemma starts_valid_startTaskRun:
  assumes "startTaskRun client sid goal settings calls = (res, calls')" and "starts_valid calls"
    and "list_all attachment_valid (given (stAttachments settings) [])"
  shows "starts_valid calls'"
proof -
  have start: "starts_valid [CStart sid (startTaskRequest goal settings)]"
    using assms(3)
    by (cases "stAttachments settings")
      (auto simp: starts_valid_def startTaskRequest_def Let_def non_empty_def given_def split: list.split)
  have quiet: "starts_valid [COnStarted started]" "starts_valid [COnFailure f]" for started f
    by (simp_all add: starts_valid_def)
  have shape: "calls' = (calls @ [CStart sid (startTaskRequest goal settings)]) @ rest \<Longrightarrow>
      starts_valid rest \<Longrightarrow> starts_valid calls'" for rest
    using assms(2) start by (simp only: starts_valid_append)
  show ?thesis
  proof (cases res)
    case (Inr started)
    with startTaskRun_calls [OF assms(1)] shape [of "[COnStarted started]"] quiet(1) show ?thesis by simp
  next
    case (Inl f)
    from startTaskRun_calls [OF assms(1)] Inl consider
        "calls' = (calls @ [CStart sid (startTaskRequest goal settings)]) @ [COnFailure f]"
      | started where "calls' = (calls @ [CStart sid (startTaskRequest goal settings)]) @ [COnStarted started] @ [COnFailure f]"
      by auto
    then show ?thesis using shape quiet by cases (metis starts_valid_append)+
  qed
qed

text \<open>
  C20.  Every attachment a task start names went through the validator: whatever the
  daemon answers to the uploads, the starts of one admission carry only ids with a
  64-digit lowercase hexadecimal digest and a non-negative size.
\<close>

theorem started_attachments_validated:
  "starts_valid (snd (admitPendingSubmission (wired_client url decode nc net onStarted) sid pending settings []))"
proof (cases "find is_image (psAttachments pending)")
  case (Some a)
  then show ?thesis by (simp add: admitPendingSubmission_def starts_valid_def)
next
  case None
  let ?client = "wired_client url decode nc net onStarted"
  obtain ids err calls1 where u: "upload_all ?client sid [] [] (psAttachments pending) = (ids, err, calls1)"
    by (metis prod_cases3)
  have ids: "list_all attachment_valid ids"
    by (rule upload_all_valid [OF _ _ u]) (auto simp: wired_client_def intro: native_upload_valid)
  have calls1: "starts_valid calls1"
    using upload_all_log [OF u] by auto
  obtain res calls2 where s: "startTaskRun ?client sid (psText pending)
      (settings\<lparr>stAttachments := Some ids\<rparr>) calls1 = (res, calls2)" by fastforce
  have "starts_valid calls2"
    using starts_valid_startTaskRun [OF s calls1] ids by (simp add: given_def)
  with None u s calls1 show ?thesis
    by (cases err; cases res) (auto simp: admitPendingSubmission_def Let_def starts_valid_def)
qed

lemma startTaskRun_started:
  "startTaskRun client sid goal settings calls = (Inr started, calls') \<Longrightarrow>
     clStart client calls sid (startTaskRequest goal settings) = Inr started"
  by (auto simp: startTaskRun_def Let_def split: sum.split_asm option.split_asm)

lemma native_start_acknowledged:
  assumes "native_start url decode nc net calls sid rq = Inr started"
  shows "\<exists>init response bytes ps. net calls init = Fetched response \<and> rsOk response
    \<and> readBounded response (ncMaxBodyBytes nc) (js (''POST '') @ tqPath (the (startTaskRun_request sid (start_request_json rq)))) = Inr bytes
    \<and> json_parse (decode bytes) = Some (JObj ps) \<and> map_of ps (js ''run_id'') = Some (JStr (trRunId started))"
proof -
  obtain s init response bytes parsed where
      s: "startTaskRun_request sid (start_request_json rq) = Some s" "net calls init = Fetched response"
        "rsOk response" "json_parse (decode bytes) = Some parsed"
        "validateTaskRunStarted parsed = Inr started"
      and b: "readBounded response (given (tqMaxBytes s) (ncMaxBodyBytes nc)) (request_label s) = Inr bytes"
    using perform_ok [OF assms [unfolded native_start_def]] by blast
  have "tqMaxBytes s = None" "tqMethod s = ''POST''"
    using s(1) by (auto simp: startTaskRun_request_def session_post_def post_to_def)
  moreover obtain ps where "parsed = JObj ps" "map_of ps (js ''run_id'') = Some (JStr (trRunId started))"
    using s(5) by (auto simp: validateTaskRunStarted_def Let_def asObject_ok run_started.read_ok
        carries_run_started_def has_def)
  ultimately show ?thesis
    using s b by (auto simp: given_def request_label_def js_def)
qed

text \<open>
  A submission is reported as admitted only on the daemon's word: there is an answer
  of the network with a success status, whose body lies within the client's bound and
  parses to an object that names the very run the outcome reports.
\<close>

theorem admitted_run_acknowledged:
  assumes "admitPendingSubmission (wired_client url decode nc net onStarted) sid pending settings [] = (r, calls)"
    and "aoFailure r = None" and "0 \<le> ncMaxBodyBytes nc"
  shows "\<exists>before init response bytes ps runId. net before init = Fetched response \<and> rsOk response
    \<and> (\<exists>label. readBounded response (ncMaxBodyBytes nc) label = Inr bytes)
    \<and> json_parse (decode bytes) = Some (JObj ps)
    \<and> map_of ps (js ''run_id'') = Some (JStr runId) \<and> aoRunId r = Some runId"
proof -
  let ?client = "wired_client url decode nc net onStarted"
  obtain ids err calls1 where u: "upload_all ?client sid [] [] (psAttachments pending) = (ids, err, calls1)"
    by (metis prod_cases3)
  obtain res calls2 where t: "startTaskRun ?client sid (psText pending)
      (settings\<lparr>stAttachments := Some ids\<rparr>) calls1 = (res, calls2)" by fastforce
  have none: "find is_image (psAttachments pending) = None" "err = None"
    using assms(1,2) u by (auto simp: admitPendingSubmission_def Let_def split: option.split_asm)
  with assms(1,2) u t obtain started where started: "res = Inr started" "aoRunId r = Some (trRunId started)"
    by (cases res) (auto simp: admitPendingSubmission_def)
  from startTaskRun_started [OF t [unfolded started(1)]] native_start_acknowledged [of url decode nc net calls1 sid]
  show ?thesis using started(2) by (fastforce simp: wired_client_def)
qed

definition yes_net :: "call list \<Rightarrow> fetch_init \<Rightarrow> fetch_result" where
  "yes_net calls init = Fetched \<lparr>rsStatus = 201, rsOk = True, rsLength = None,
     rsBody = Streamed [RChunk (ascii_bytes ''{\"task_id\":1,\"run_id\":\"r\",\"state\":\"s\"}'')]\<rparr>"

definition demo_client :: client where
  "demo_client = wired_client (\<lambda>base _. Some base) ascii
     \<lparr>ncBaseUrl = js ''http://x'', ncBearerToken = [], ncTimeoutMs = 1, ncMaxBodyBytes = 99\<rparr> yes_net (\<lambda>_. None)"

definition demo_settings :: start_task_settings where
  "demo_settings = \<lparr>stMutationMode = js ''shadow'', stMaxTokens = Fin 0, stMaxCostMicro = Fin 0, stFiles = None,
     stAttachments = None, stCompletion = None\<rparr>"

definition plain_submission :: pending_submission where
  "plain_submission = \<lparr>psText = js ''go'', psSessionId = None, psDraftId = None, psMessageId = None,
     psFiles = [], psAttachments = []\<rparr>"

lemma demo_start:
  "clStart demo_client calls (js ''s1'') rq = Inr \<lparr>trTaskId = 1, trRunId = js ''r'', trState = js ''s''\<rparr>"
proof -
  let ?b = "ascii_bytes ''{\"task_id\":1,\"run_id\":\"r\",\"state\":\"s\"}''"
  let ?ps = "[(js ''task_id'', JNum (Fin 1)), (js ''run_id'', JStr (js ''r'')), (js ''state'', JStr (js ''s''))]"
  have parse: "json_parse (ascii ?b) = Some (JObj ?ps)" by code_simp
  have len: "length ?b = 38" by (simp add: ascii_bytes_def)
  have "carries_run_started ?ps \<lparr>trTaskId = 1, trRunId = js ''r'', trState = js ''s''\<rparr>"
    by (simp add: carries_run_started_def has_def JInt_def num_of_int_def)
  then have v: "validateTaskRunStarted (JObj ?ps) = Inr \<lparr>trTaskId = 1, trRunId = js ''r'', trState = js ''s''\<rparr>"
    by (simp add: validateTaskRunStarted_def Let_def asObject_ok run_started.read_ok)
  have "encodeURIComponent (js ''s1'') \<noteq> None" by code_simp
  then obtain t where t: "encodeURIComponent (js ''s1'') = Some t" by blast
  show ?thesis
    using parse v len t
    by (simp add: demo_client_def wired_client_def native_start_def perform_def startTaskRun_request_def
        session_post_def id_path_def fetch_request_def settle_def yes_net_def readBounded_def
        declared_length_def post_to_def given_def Let_def)
qed

theorem admitted_run_acknowledged_witness:
  "\<exists>r calls. admitPendingSubmission demo_client (js ''s1'') plain_submission demo_settings [] = (r, calls)
     \<and> aoRunId r = Some (js ''r'')
     \<and> (\<exists>before init response bytes ps. yes_net before init = Fetched response \<and> rsOk response
          \<and> json_parse (ascii bytes) = Some (JObj ps) \<and> map_of ps (js ''run_id'') = Some (JStr (js ''r'')))"
proof -
  have s: "clOnStarted demo_client st = None" for st
    by (simp add: demo_client_def wired_client_def)
  obtain r calls where rc: "admitPendingSubmission demo_client (js ''s1'') plain_submission demo_settings [] = (r, calls)"
    by fastforce
  then have r: "aoFailure r = None" "aoRunId r = Some (js ''r'')"
    by (auto simp: admitPendingSubmission_def plain_submission_def startTaskRun_def demo_start s Let_def)
  from admitted_run_acknowledged [OF rc [unfolded demo_client_def] r(1)] r(2)
  have "\<exists>before init response bytes ps. yes_net before init = Fetched response \<and> rsOk response
      \<and> json_parse (ascii bytes) = Some (JObj ps) \<and> map_of ps (js ''run_id'') = Some (JStr (js ''r''))"
    by fastforce
  with rc r(2) show ?thesis by blast
qed

end
