(* ===== verification/Daemon.thy ===== *)
theory Daemon
  imports Interfaces Encoding "HOL-Library.Sublist"
begin

text \<open>
  The daemon process of \<open>apps/vscode/src/daemon.ts\<close>: the bounded tail of its stderr, the
  reader of the startup line, the health check and the module that starts and stops child
  processes.

  What the operating system does arrives as events: chunks of stdout, the startup timer, the
  exit of a child.  Asynchronous code is cut at its \<open>await\<close>s; the parts run in the order of the
  events, so an overlap of two starts is a sequence of events.
\<close>

section \<open>The stderr tail\<close>

record bounded_tail =
  btChunks :: "jsstr list"
  btSize :: int
  btLimit :: nat

definition STDERR_TAIL_BYTES :: nat where [cap_simps]: "STDERR_TAIL_BYTES = 8 * 1024"

definition new_tail :: "nat \<Rightarrow> bounded_tail" where
  "new_tail limit = \<lparr>btChunks = [], btSize = 0, btLimit = limit\<rparr>"

text \<open>The \<open>while\<close> loop of \<open>push\<close>: whole chunks go while the size is over the limit and more than one is left.\<close>

fun shift_chunks :: "nat \<Rightarrow> jsstr list \<Rightarrow> int \<Rightarrow> jsstr list \<times> int" where
  "shift_chunks limit (c # d # cs) n =
     (if n > int limit then shift_chunks limit (d # cs) (n - int (length c)) else (c # d # cs, n))"
| "shift_chunks limit cs n = (cs, n)"

text \<open>\<open>text.slice(-n)\<close>: \<open>-0\<close> is 0, so nothing is cut for \<open>n = 0\<close>.\<close>

definition slice_last :: "nat \<Rightarrow> jsstr \<Rightarrow> jsstr" where
  "slice_last n s = (if n = 0 then s else drop (length s - n) s)"

definition tail_push :: "bounded_tail \<Rightarrow> jsstr \<Rightarrow> bounded_tail" where
  "tail_push tail chunk =
     (case shift_chunks (btLimit tail) (btChunks tail @ [chunk]) (btSize tail + int (length chunk)) of
        (chunks, units) \<Rightarrow>
          (case chunks of
             [c] \<Rightarrow>
               if length c > btLimit tail
               then (let kept = slice_last (btLimit tail) c
                     in tail\<lparr>btChunks := [kept], btSize := int (length kept)\<rparr>)
               else tail\<lparr>btChunks := chunks, btSize := units\<rparr>
           | _ \<Rightarrow> tail\<lparr>btChunks := chunks, btSize := units\<rparr>))"

definition tail_text :: "bounded_tail \<Rightarrow> jsstr" where
  "tail_text tail = concat (btChunks tail)"

section \<open>The stderr tail: facts\<close>

lemma suffix_slice_last [simp, intro]: "suffix (slice_last n s) s"
  by (simp add: slice_last_def suffix_drop)

lemma length_slice_last: "0 < n \<Longrightarrow> length (slice_last n s) = min n (length s)"
  by (simp add: slice_last_def)

text \<open>The chunks the loop leaves: a suffix of the chunks, with the size of its text.\<close>

lemma shift_chunks_result:
  assumes "shift_chunks limit cs n = (cs', n')" and "n = int (length (concat cs))" and "cs \<noteq> []"
  shows "cs' \<noteq> [] \<and> n' = int (length (concat cs')) \<and> suffix cs' cs
    \<and> (n' \<le> int limit \<or> length cs' = 1) \<and> (n \<le> int limit \<longrightarrow> cs' = cs)"
  using assms
proof (induction limit cs n rule: shift_chunks.induct)
  case (1 limit c d cs n)
  show ?case
  proof (cases "n > int limit")
    case True
    with 1 show ?thesis by (auto intro: suffix_ConsI)
  next
    case False
    with 1 show ?thesis by auto
  qed
qed auto

lemma suffix_concat: "suffix cs cs' \<Longrightarrow> suffix (concat cs) (concat cs')"
  by (auto simp: suffix_def)

text \<open>The invariant of a tail: \<open>pushed\<close> is everything that was pushed.\<close>

definition tail_ok :: "jsstr \<Rightarrow> bounded_tail \<Rightarrow> bool" where
  "tail_ok pushed tail \<longleftrightarrow>
     0 < btLimit tail \<and> btSize tail = int (length (tail_text tail))
     \<and> length (tail_text tail) \<le> btLimit tail \<and> suffix (tail_text tail) pushed
     \<and> (length pushed \<le> btLimit tail \<longrightarrow> tail_text tail = pushed)"

lemma tail_push_limit [simp]: "btLimit (tail_push tail chunk) = btLimit tail"
  by (auto simp: tail_push_def Let_def split: prod.split list.split)

text \<open>One push: either the whole newest chunk fits, or its last units are what is left.\<close>

lemma tail_push_cases:
  assumes "tail_ok pushed tail"
  shows "(\<exists>cs. suffix cs (btChunks tail @ [chunk]) \<and> cs \<noteq> [] \<and> length (concat cs) \<le> btLimit tail
        \<and> (length (concat (btChunks tail @ [chunk])) \<le> btLimit tail \<longrightarrow> cs = btChunks tail @ [chunk])
        \<and> tail_push tail chunk = tail\<lparr>btChunks := cs, btSize := int (length (concat cs))\<rparr>)
    \<or> (btLimit tail < length chunk
        \<and> tail_push tail chunk =
            tail\<lparr>btChunks := [slice_last (btLimit tail) chunk], btSize := int (btLimit tail)\<rparr>)"
proof -
  let ?cs = "btChunks tail @ [chunk]"
  obtain cs n where sh: "shift_chunks (btLimit tail) ?cs (btSize tail + int (length chunk)) = (cs, n)"
    by fastforce
  have len: "btSize tail + int (length chunk) = int (length (concat ?cs))"
    using assms by (simp add: tail_ok_def tail_text_def)
  note r = shift_chunks_result [OF sh len, simplified]
  show ?thesis
  proof (cases "n \<le> int (btLimit tail)")
    case True
    with r have push: "tail_push tail chunk = tail\<lparr>btChunks := cs, btSize := int (length (concat cs))\<rparr>"
      by (auto simp: tail_push_def sh split: list.split)
    have "length (concat ?cs) \<le> btLimit tail \<longrightarrow> cs = ?cs" using r len by auto
    with r True push show ?thesis by (intro disjI1 exI [of _ cs]) auto
  next
    case False
    with r obtain c where c: "cs = [c]" "suffix [c] ?cs" by (auto simp: length_Suc_conv)
    then have "c = chunk" by (auto simp: suffix_def)
    with r False c have big: "btLimit tail < length chunk" by simp
    have "tail_push tail chunk =
        tail\<lparr>btChunks := [slice_last (btLimit tail) chunk],
             btSize := int (length (slice_last (btLimit tail) chunk))\<rparr>"
      using big c \<open>c = chunk\<close> unfolding tail_push_def sh by (simp add: Let_def)
    with big assms show ?thesis
      by (intro disjI2) (simp add: tail_ok_def length_slice_last)
  qed
qed

lemma tail_ok_push:
  assumes ok: "tail_ok pushed tail"
  shows "tail_ok (pushed @ chunk) (tail_push tail chunk)"
    and "suffix (slice_last (btLimit tail) chunk) (tail_text (tail_push tail chunk))"
proof -
  have all: "suffix (concat (btChunks tail) @ chunk) (pushed @ chunk)"
    using ok by (auto simp: tail_ok_def tail_text_def suffix_def)
  have ih: "length (concat (btChunks tail)) \<le> length pushed" "0 < btLimit tail"
      "length pushed \<le> btLimit tail \<longrightarrow> concat (btChunks tail) = pushed"
    using ok by (auto simp: tail_ok_def tail_text_def suffix_def)
  have "tail_ok (pushed @ chunk) (tail_push tail chunk)
      \<and> suffix (slice_last (btLimit tail) chunk) (tail_text (tail_push tail chunk))"
    using tail_push_cases [OF ok, of chunk]
  proof (elim disjE exE conjE)
    fix cs
    assume cs: "suffix cs (btChunks tail @ [chunk])" "cs \<noteq> []" "length (concat cs) \<le> btLimit tail"
      "length (concat (btChunks tail @ [chunk])) \<le> btLimit tail \<longrightarrow> cs = btChunks tail @ [chunk]"
      "tail_push tail chunk = tail\<lparr>btChunks := cs, btSize := int (length (concat cs))\<rparr>"
    from cs(1,2) obtain xs where "cs = xs @ [chunk]"
      by (cases cs rule: rev_cases) (auto simp: suffix_def)
    then have "suffix (slice_last (btLimit tail) chunk) (concat cs)"
      by (simp add: suffix_appendI)
    moreover have "suffix (concat cs) (pushed @ chunk)"
      using suffix_order.trans [OF suffix_concat [OF cs(1)]] all by simp
    ultimately show ?thesis
      using cs ih by (auto simp: tail_ok_def tail_text_def)
  next
    assume big: "btLimit tail < length chunk"
      "tail_push tail chunk = tail\<lparr>btChunks := [slice_last (btLimit tail) chunk], btSize := int (btLimit tail)\<rparr>"
    have "suffix (slice_last (btLimit tail) chunk) (pushed @ chunk)"
      by (simp add: suffix_appendI)
    then show ?thesis
      using big ih by (simp add: tail_ok_def tail_text_def length_slice_last)
  qed
  then show "tail_ok (pushed @ chunk) (tail_push tail chunk)"
    and "suffix (slice_last (btLimit tail) chunk) (tail_text (tail_push tail chunk))"
    by simp_all
qed

text \<open>
  The tail of a daemon's stderr: after any pushes its text is the end of everything pushed,
  at most \<open>STDERR_TAIL_BYTES\<close> units long, all of it while it fits, and the end of the newest
  chunk is always there.
\<close>

theorem stderr_tail_recent:
  "let t = foldl tail_push (new_tail STDERR_TAIL_BYTES) (chunks @ [chunk])
   in suffix (tail_text t) (concat chunks @ chunk) \<and> length (tail_text t) \<le> STDERR_TAIL_BYTES
    \<and> btSize t = int (length (tail_text t))
    \<and> (tail_text t = concat chunks @ chunk \<or> STDERR_TAIL_BYTES < length (concat chunks @ chunk))
    \<and> suffix (slice_last STDERR_TAIL_BYTES chunk) (tail_text t)"
proof -
  have run: "tail_ok (concat cs) (foldl tail_push (new_tail STDERR_TAIL_BYTES) cs)
      \<and> btLimit (foldl tail_push (new_tail STDERR_TAIL_BYTES) cs) = STDERR_TAIL_BYTES" for cs
  proof (induction cs rule: rev_induct)
    case Nil
    show ?case by (simp add: tail_ok_def new_tail_def tail_text_def cap_simps)
  next
    case (snoc c cs)
    then show ?case by (simp add: tail_ok_push(1))
  qed
  show ?thesis
    using run [of "chunks @ [chunk]"] tail_ok_push(2) [OF conjunct1 [OF run [of chunks]], of chunk]
      conjunct2 [OF run [of chunks]]
    by (auto simp: Let_def tail_ok_def not_less)
qed

section \<open>The startup line\<close>

definition startup_prefix :: jsstr where
  "startup_prefix = js ''faktor server listening on http://127.0.0.1:''"

text \<open>\<open>STARTUP_LINE.exec(line)\<close>: the digits of the leftmost match; \<open>\\d+\<close> is greedy.\<close>

definition startup_here :: "jsstr \<Rightarrow> jsstr option" where
  "startup_here line =
     (if starts_with startup_prefix line
      then (let digits = takeWhile is_digit (drop (length startup_prefix) line)
            in if digits = [] then None else Some digits)
      else None)"

fun startup_match :: "jsstr \<Rightarrow> jsstr option" where
  "startup_match [] = None"
| "startup_match (c # line) =
     (case startup_here (c # line) of Some digits \<Rightarrow> Some digits | None \<Rightarrow> startup_match line)"

text \<open>\<open>buffer.indexOf\<close> of the newline, and the two slices around it.\<close>

definition take_line :: "jsstr \<Rightarrow> (jsstr \<times> jsstr) option" where
  "take_line buffer =
     (case dropWhile (\<lambda>c. c \<noteq> 10) buffer of
        [] \<Rightarrow> None | _ # rest \<Rightarrow> Some (takeWhile (\<lambda>c. c \<noteq> 10) buffer, rest))"

definition strip_cr :: "jsstr \<Rightarrow> jsstr" where
  "strip_cr line = (if line \<noteq> [] \<and> last line = 13 then butlast line else line)"

lemma take_line_shorter: "take_line buffer = Some (line, rest) \<Longrightarrow> length rest < length buffer"
  using length_dropWhile_le [of "\<lambda>c. c \<noteq> 10" buffer] by (auto simp: take_line_def split: list.split_asm)

text \<open>The loop over the complete lines of the buffer: the port of the first match, and the buffer that is left.\<close>

function scan_lines :: "jsstr \<Rightarrow> jsnum option \<times> jsstr" where
  "scan_lines buffer =
     (case take_line buffer of
        None \<Rightarrow> (None, buffer)
      | Some (line, rest) \<Rightarrow>
          (case startup_match (strip_cr line) of
             Some digits \<Rightarrow> (Some (number_of_string digits), rest)
           | None \<Rightarrow> scan_lines rest))"
  by auto
termination by (relation "measure length") (auto dest: take_line_shorter)

declare scan_lines.simps [simp del]

text \<open>\<open>readStartupPort\<close>: the buffer, how the promise settled, and the times \<open>stopChild\<close> was called.\<close>

record startup =
  suTimeoutMs :: int
  suBuffer :: jsstr
  suOutcome :: "(jsstr + jsnum) option"
  suStops :: nat

datatype startup_event = SChunk jsstr | STimer | SError jsstr | SExit "int option" "jsstr option"

definition new_startup :: "int \<Rightarrow> startup" where
  "new_startup timeoutMs = \<lparr>suTimeoutMs = timeoutMs, suBuffer = [], suOutcome = None, suStops = 0\<rparr>"

text \<open>\<open>finish\<close>, and the timer, which rejects the same way.\<close>

definition startup_finish :: "startup \<Rightarrow> jsstr + jsnum \<Rightarrow> startup" where
  "startup_finish st outcome =
     (if suOutcome st \<noteq> None then st
      else st\<lparr>suOutcome := Some outcome,
              suStops := (case outcome of Inl _ \<Rightarrow> Suc (suStops st) | Inr _ \<Rightarrow> suStops st)\<rparr>)"

definition exit_message :: "int option \<Rightarrow> jsstr option \<Rightarrow> jsstr" where
  "exit_message code signal =
     js ''daemon exited before the startup line (code=''
       @ (case code of Some c \<Rightarrow> int_string c | None \<Rightarrow> js ''null'')
       @ js '' signal='' @ (case signal of Some s \<Rightarrow> s | None \<Rightarrow> js ''null'') @ js '')''"

definition startup_step :: "startup \<Rightarrow> startup_event \<Rightarrow> startup" where
  "startup_step st event =
     (case event of
        STimer \<Rightarrow>
          startup_finish st (Inl (js ''timed out waiting for the daemon startup line (''
            @ int_string (suTimeoutMs st) @ js ''ms)''))
      | SError m \<Rightarrow> startup_finish st (Inl m)
      | SExit code signal \<Rightarrow> startup_finish st (Inl (exit_message code signal))
      | SChunk chunk \<Rightarrow>
          (case scan_lines (suBuffer st @ chunk) of
             (None, rest) \<Rightarrow> st\<lparr>suBuffer := rest\<rparr>
           | (Some port, rest) \<Rightarrow> startup_finish (st\<lparr>suBuffer := rest\<rparr>) (Inr port)))"

section \<open>The startup line: facts\<close>

lemma take_line_append:
  "take_line (buffer @ after) =
     (case take_line buffer of
        Some (line, rest) \<Rightarrow> Some (line, rest @ after)
      | None \<Rightarrow> (case take_line after of Some (line, rest) \<Rightarrow> Some (buffer @ line, rest) | None \<Rightarrow> None))"
proof (cases "10 \<in> set buffer")
  case True
  then have "dropWhile (\<lambda>c. c \<noteq> 10) (buffer @ after) = dropWhile (\<lambda>c. c \<noteq> 10) buffer @ after"
    "takeWhile (\<lambda>c. c \<noteq> 10) (buffer @ after) = takeWhile (\<lambda>c. c \<noteq> 10) buffer"
    by auto
  moreover from True have "dropWhile (\<lambda>c. c \<noteq> 10) buffer \<noteq> []" by auto
  ultimately show ?thesis by (auto simp: take_line_def split: list.split)
next
  case False
  then have not_nl: "\<And>c. c \<in> set buffer \<Longrightarrow> c \<noteq> 10" by metis
  then have d: "dropWhile (\<lambda>c. c \<noteq> 10) (buffer @ after) = dropWhile (\<lambda>c. c \<noteq> 10) after"
    "takeWhile (\<lambda>c. c \<noteq> 10) (buffer @ after) = buffer @ takeWhile (\<lambda>c. c \<noteq> 10) after"
    "dropWhile (\<lambda>c. c \<noteq> 10) buffer = []"
    using not_nl by (simp_all add: dropWhile_append2 takeWhile_append2)
  show ?thesis
    by (cases "dropWhile (\<lambda>c. c \<noteq> 10) after") (simp_all only: take_line_def d list.case option.case prod.case)
qed

text \<open>Where a chunk ends does not matter: the lines scanned so far stay scanned.\<close>

lemma scan_lines_append:
  "scan_lines (buffer @ after) =
     (case scan_lines buffer of
        (Some port, rest) \<Rightarrow> (Some port, rest @ after) | (None, rest) \<Rightarrow> scan_lines (rest @ after))"
proof (induction buffer rule: scan_lines.induct)
  case (1 buffer)
  show ?case
  proof (cases "take_line buffer")
    case None
    then have "scan_lines buffer = (None, buffer)" by (subst scan_lines.simps) simp
    then show ?thesis by simp
  next
    case (Some lr)
    obtain line rest where lr: "lr = (line, rest)" by fastforce
    have scan: "scan_lines buffer = (case startup_match (strip_cr line) of
        Some digits \<Rightarrow> (Some (number_of_string digits), rest) | None \<Rightarrow> scan_lines rest)"
      by (subst scan_lines.simps) (simp add: Some lr)
    have "scan_lines (buffer @ after) = (case startup_match (strip_cr line) of
        Some digits \<Rightarrow> (Some (number_of_string digits), rest @ after) | None \<Rightarrow> scan_lines (rest @ after))"
      by (subst scan_lines.simps) (simp add: Some lr take_line_append)
    with 1 [OF Some lr [symmetric]] scan show ?thesis by (cases "startup_match (strip_cr line)") auto
  qed
qed

lemma take_line_left: "scan_lines buffer = (None, rest) \<Longrightarrow> scan_lines rest = (None, rest)"
  using scan_lines_append [of buffer "[]"] by simp

text \<open>What the reader has settled on is final, and a rejected start stopped its child once.\<close>

definition startup_ok :: "startup \<Rightarrow> bool" where
  "startup_ok st \<longleftrightarrow> suStops st = (case suOutcome st of Some (Inl _) \<Rightarrow> 1 | _ \<Rightarrow> 0)"

lemma startup_finish_ok: "startup_ok st \<Longrightarrow> startup_ok (startup_finish st outcome)"
  by (auto simp: startup_ok_def startup_finish_def split: sum.splits option.splits)

lemma startup_ok_step: "startup_ok st \<Longrightarrow> startup_ok (startup_step st event)"
proof -
  assume "startup_ok st"
  then have "startup_ok (st\<lparr>suBuffer := b\<rparr>)" for b by (simp add: startup_ok_def)
  with \<open>startup_ok st\<close> show ?thesis
    by (auto simp: startup_step_def startup_finish_ok split: startup_event.split prod.split option.split)
qed

interpretation startup_run: preserving startup_step startup_ok
  by unfold_locales (rule startup_ok_step)

lemma startup_settled_step: "suOutcome st = Some r \<Longrightarrow> suOutcome (startup_step st event) = Some r"
  by (auto simp: startup_step_def startup_finish_def split: startup_event.split prod.split option.split)

interpretation startup_settled: preserving startup_step "\<lambda>st. suOutcome st = Some r" for r
  by unfold_locales (rule startup_settled_step)

text \<open>The chunks of an unsettled reader amount to their concatenation.\<close>

lemma startup_chunks:
  assumes "suOutcome st = None" and "scan_lines (suBuffer st) = (None, suBuffer st)"
  shows "suOutcome (foldl startup_step st (map SChunk chunks)) =
    map_option Inr (fst (scan_lines (suBuffer st @ concat chunks)))"
  using assms
proof (induction chunks arbitrary: st)
  case Nil
  then show ?case by simp
next
  case (Cons chunk chunks)
  obtain port rest where sc: "scan_lines (suBuffer st @ chunk) = (port, rest)" by fastforce
  have all: "scan_lines (suBuffer st @ concat (chunk # chunks)) =
      (case port of Some p \<Rightarrow> (Some p, rest @ concat chunks) | None \<Rightarrow> scan_lines (rest @ concat chunks))"
    using scan_lines_append [of "suBuffer st @ chunk" "concat chunks"] by (simp add: sc split: option.split)
  show ?case
  proof (cases port)
    case None
    then have "startup_step st (SChunk chunk) = st\<lparr>suBuffer := rest\<rparr>" by (simp add: startup_step_def sc)
    with Cons.IH [of "st\<lparr>suBuffer := rest\<rparr>"] Cons.prems(1) take_line_left sc None all
    show ?thesis by simp
  next
    case (Some p)
    then have "suOutcome (startup_step st (SChunk chunk)) = Some (Inr p)"
      by (simp add: startup_step_def sc startup_finish_def Cons.prems(1))
    then have "suOutcome (foldl startup_step (startup_step st (SChunk chunk)) (map SChunk chunks)) = Some (Inr p)"
      by (rule startup_settled.run_inv)
    with Some all show ?thesis by simp
  qed
qed

section \<open>Where the daemon is and how it is called\<close>

text \<open>\<open>path_join\<close> is \<open>node:path.join\<close>, \<open>present\<close> is \<open>existsSync\<close>; an error is the text of the thrown \<open>Error\<close>.\<close>

definition findBinary ::
  "(jsstr list \<Rightarrow> jsstr) \<Rightarrow> (jsstr \<Rightarrow> bool) \<Rightarrow> jsstr option \<Rightarrow> jsstr option \<Rightarrow> jsstr \<Rightarrow> jsstr + jsstr" where
  "findBinary path_join present binaryPath faktor_bin workspaceRoot =
     (let env = (case binaryPath of Some b \<Rightarrow> Some b | None \<Rightarrow> faktor_bin);
          candidates = [path_join [workspaceRoot, js ''target'', js ''debug'', js ''faktor-cli''],
            path_join [workspaceRoot, js ''target'', js ''release'', js ''faktor-cli'']]
      in case env of
           Some (c # bin) \<Rightarrow> Inr (c # bin)
         | _ \<Rightarrow>
             (case find present candidates of
                Some bin \<Rightarrow> Inr bin
              | None \<Rightarrow> Inl (js ''faktor-cli binary not found (looked for '' @ join (js '', '') candidates
                  @ js ''; set FAKTOR_BIN or faktor.binaryPath to override)'')))"

definition daemon_args :: "jsstr option \<Rightarrow> jsstr list option \<Rightarrow> jsstr list" where
  "daemon_args dataDir extraArgs =
     [js ''serve'', js ''--port'', js ''0'']
       @ (case dataDir of Some (c # dir) \<Rightarrow> [js ''--data-dir'', c # dir] | _ \<Rightarrow> [])
       @ (case extraArgs of Some args \<Rightarrow> args | None \<Rightarrow> [])"

record daemon_handle =
  dhPort :: jsnum
  dhPassword :: jsstr
  dhBaseUrl :: jsstr
  dhAuthHeader :: jsstr
  dhBearerToken :: jsstr

definition daemon_handle_for :: "jsstr \<Rightarrow> jsnum \<Rightarrow> daemon_handle" where
  "daemon_handle_for password port =
     \<lparr>dhPort = port, dhPassword = password,
      dhBaseUrl = js ''http://127.0.0.1:'' @ number_string port,
      dhAuthHeader = js ''Basic '' @ base64_encode (utf8_encode (js ''kilo:'' @ password)),
      dhBearerToken = password\<rparr>"

section \<open>The health check\<close>

definition MAX_HEALTH_BODY_BYTES :: nat where [cap_simps]: "MAX_HEALTH_BODY_BYTES = 64 * 1024"

text \<open>The \<open>data\<close> events: \<open>None\<close> when the body grew over the bound and the response was destroyed.\<close>

fun health_body :: "nat \<Rightarrow> 8 word list \<Rightarrow> 8 word list list \<Rightarrow> 8 word list option" where
  "health_body received kept [] = Some kept"
| "health_body received kept (chunk # chunks) =
     (if received + length chunk > MAX_HEALTH_BODY_BYTES then None
      else health_body (received + length chunk) (kept @ chunk) chunks)"

definition health_failed :: "string \<Rightarrow> jsstr + 'a" where
  "health_failed reason = Inl (js ''health check failed: '' @ js reason)"

definition health_end :: "int option \<Rightarrow> jsstr \<Rightarrow> jsstr + bool \<times> jsstr" where
  "health_end statusCode body =
     (let status = (case statusCode of Some s \<Rightarrow> s | None \<Rightarrow> 0)
      in if status = 401 then health_failed ''401 unauthorized''
         else if status \<noteq> 200
           then Inl (js ''health check failed: HTTP ''
                  @ (if status = 0 then js ''unknown'' else int_string status))
         else (case json_parse body of
             None \<Rightarrow> health_failed ''response was not JSON''
           | Some (JObj parsed) \<Rightarrow>
               (case (jget parsed (js ''ok''), jget parsed (js ''version'')) of
                  (JBool ok, JStr version) \<Rightarrow> Inr (ok, version)
                | _ \<Rightarrow> health_failed ''unexpected response shape'')
           | Some _ \<Rightarrow> health_failed ''unexpected response shape''))"

definition daemon_health ::
  "(8 word list \<Rightarrow> jsstr) \<Rightarrow> int option \<Rightarrow> 8 word list list \<Rightarrow> jsstr + bool \<times> jsstr" where
  "daemon_health decode statusCode chunks =
     (case health_body 0 [] chunks of
        None \<Rightarrow> health_failed ''response body exceeded the bound''
      | Some body \<Rightarrow> health_end statusCode (decode body))"

lemma health_body_concat:
  "health_body (length kept) kept chunks =
     (if length kept + length (concat chunks) > MAX_HEALTH_BODY_BYTES \<and> chunks \<noteq> [] then None
      else Some (kept @ concat chunks))"
proof (induction chunks arbitrary: kept)
  case (Cons chunk chunks)
  show ?case
    using Cons.IH [of "kept @ chunk"] by (cases chunks) auto
qed simp

section \<open>The processes\<close>

text \<open>
  A child process: whether it has exited (\<open>exitCode\<close> or \<open>signalCode\<close> set), the signals it was
  sent and the escalation timers armed for it.  The module keeps \<open>activeChild\<close> and
  \<open>activeHandle\<close>, which are always set and cleared together; \<open>dmStarting\<close> holds the calls of
  \<open>startDaemon\<close> that wait for their startup line.
\<close>

record child =
  chExited :: bool
  chSignals :: "string list"
  chTimers :: nat

record daemon_module =
  dmChildren :: "child list"
  dmActive :: "nat option"
  dmStarting :: "nat list"

definition daemon_initial :: daemon_module where
  "daemon_initial = \<lparr>dmChildren = [], dmActive = None, dmStarting = []\<rparr>"

definition update_child :: "nat \<Rightarrow> (child \<Rightarrow> child) \<Rightarrow> daemon_module \<Rightarrow> daemon_module" where
  "update_child i f m =
     (if i < length (dmChildren m)
      then m\<lparr>dmChildren := (dmChildren m)[i := f (dmChildren m ! i)]\<rparr> else m)"

definition child_alive :: "daemon_module \<Rightarrow> nat \<Rightarrow> bool" where
  "child_alive m i \<longleftrightarrow> i < length (dmChildren m) \<and> \<not> chExited (dmChildren m ! i)"

definition clear_active :: "nat \<Rightarrow> daemon_module \<Rightarrow> daemon_module" where
  "clear_active i m = (if dmActive m = Some i then m\<lparr>dmActive := None\<rparr> else m)"

definition stopChild :: "nat \<Rightarrow> daemon_module \<Rightarrow> daemon_module" where
  "stopChild i m =
     (if \<not> child_alive m i then clear_active i m
      else update_child i (\<lambda>c. c\<lparr>chSignals := chSignals c @ [''SIGTERM''], chTimers := Suc (chTimers c)\<rparr>) m)"

definition stopDaemon :: "nat option \<Rightarrow> daemon_module \<Rightarrow> daemon_module" where
  "stopDaemon handle m =
     (case (case handle of Some i \<Rightarrow> Some i | None \<Rightarrow> dmActive m) of
        Some i \<Rightarrow> stopChild i m | None \<Rightarrow> m)"

definition isRunning :: "daemon_module \<Rightarrow> bool" where
  "isRunning m = (case dmActive m of Some i \<Rightarrow> child_alive m i | None \<Rightarrow> False)"

text \<open>\<open>startDaemon\<close> up to its \<open>await\<close>: the running daemon, or a new child.\<close>

definition startDaemon :: "daemon_module \<Rightarrow> daemon_module" where
  "startDaemon m =
     (if isRunning m then m
      else m\<lparr>dmChildren := dmChildren m @ [\<lparr>chExited = False, chSignals = [], chTimers = 0\<rparr>],
             dmStarting := dmStarting m @ [length (dmChildren m)]\<rparr>)"

datatype daemon_event =
    DStart | DReady nat | DFailed nat | DStop "nat option" | DEscalate nat | DExit nat

definition daemon_step :: "daemon_module \<Rightarrow> daemon_event \<Rightarrow> daemon_module" where
  "daemon_step m event =
     (case event of
        DStart \<Rightarrow> startDaemon m
      | DReady i \<Rightarrow>
          if List.member (dmStarting m) i
          then m\<lparr>dmStarting := remove1 i (dmStarting m), dmActive := Some i\<rparr> else m
      | DFailed i \<Rightarrow>
          if List.member (dmStarting m) i
          then stopChild i (m\<lparr>dmStarting := remove1 i (dmStarting m)\<rparr>) else m
      | DStop handle \<Rightarrow> stopDaemon handle m
      | DEscalate i \<Rightarrow>
          if i < length (dmChildren m) \<and> chTimers (dmChildren m ! i) > 0
          then update_child i (\<lambda>c. c\<lparr>chTimers := chTimers c - 1,
                 chSignals := (if chExited c then chSignals c else chSignals c @ [''SIGKILL''])\<rparr>) m
          else m
      | DExit i \<Rightarrow> clear_active i (update_child i (\<lambda>c. c\<lparr>chExited := True, chTimers := 0\<rparr>) m))"

section \<open>The processes: facts\<close>

lemma update_child_simps [simp]:
  "length (dmChildren (update_child i f m)) = length (dmChildren m)"
  "dmActive (update_child i f m) = dmActive m" "dmStarting (update_child i f m) = dmStarting m"
  by (simp_all add: update_child_def)

lemma update_child_nth:
  "k < length (dmChildren m) \<Longrightarrow>
     dmChildren (update_child i f m) ! k = (if k = i then f (dmChildren m ! k) else dmChildren m ! k)"
  by (simp add: update_child_def)

lemma clear_active_simps [simp]:
  "dmChildren (clear_active i m) = dmChildren m" "dmStarting (clear_active i m) = dmStarting m"
  "dmActive (clear_active i m) = (if dmActive m = Some i then None else dmActive m)"
  by (simp_all add: clear_active_def)

lemma child_alive_clear [simp]: "child_alive (clear_active i m) k = child_alive m k"
  by (simp add: child_alive_def)

text \<open>A child that runs and was never told to stop.\<close>

definition unsignalled :: "daemon_module \<Rightarrow> nat \<Rightarrow> bool" where
  "unsignalled m i \<longleftrightarrow> child_alive m i \<and> chSignals (dmChildren m ! i) = []"

text \<open>The starts one after the other: a new one begins when no other waits for its startup line.\<close>

definition one_start_at_a_time :: "daemon_module \<Rightarrow> daemon_event \<Rightarrow> bool" where
  "one_start_at_a_time m event \<longleftrightarrow> (event = DStart \<longrightarrow> dmStarting m = [])"

inductive daemon_reached :: "daemon_module \<Rightarrow> bool" where
  daemon_init: "daemon_reached daemon_initial"
| daemon_next: "daemon_reached m \<Longrightarrow> one_start_at_a_time m event \<Longrightarrow> daemon_reached (daemon_step m event)"

definition daemon_inv :: "daemon_module \<Rightarrow> bool" where
  "daemon_inv m \<longleftrightarrow>
     (\<forall>i. unsignalled m i \<longrightarrow> i \<in> set (dmStarting m) \<or> dmActive m = Some i)
     \<and> (dmStarting m = [] \<or> \<not> isRunning m \<and> length (dmStarting m) = 1)
     \<and> (\<forall>i \<in> set (dmStarting m) \<union> set_option (dmActive m). i < length (dmChildren m))"

lemma unsignalled_stopChild: "unsignalled (stopChild i m) k \<longleftrightarrow> unsignalled m k \<and> k \<noteq> i"
proof (cases "child_alive m i")
  case False
  then show ?thesis by (auto simp: unsignalled_def stopChild_def)
next
  case True
  then show ?thesis
    by (auto simp: unsignalled_def stopChild_def child_alive_def update_child_def nth_list_update)
qed

lemma stopChild_fields [simp]:
  "dmStarting (stopChild i m) = dmStarting m"
  "dmActive (stopChild i m) = (if dmActive m = Some i \<and> \<not> child_alive m i then None else dmActive m)"
  "child_alive (stopChild i m) k = child_alive m k"
  by (auto simp: stopChild_def child_alive_def update_child_def nth_list_update)

lemma length_stopChild [simp]: "length (dmChildren (stopChild i m)) = length (dmChildren m)"
  by (simp add: stopChild_def)

lemma isRunning_stopChild: "isRunning (stopChild i m) \<Longrightarrow> isRunning m"
  by (auto simp: isRunning_def split: option.split_asm if_split_asm)

lemma daemon_inv_stopChild:
  assumes "daemon_inv m"
  shows "daemon_inv (stopChild i m)"
  using assms isRunning_stopChild [of i m]
  by (auto simp: daemon_inv_def unsignalled_stopChild)

lemma alive_update:
  assumes "\<And>c. chExited c \<Longrightarrow> chExited (f c)" and "child_alive (update_child i f m) k"
  shows "child_alive m k"
  using assms(1) [of "dmChildren m ! i"] assms(2)
  by (auto simp: child_alive_def update_child_def nth_list_update split: if_split_asm)

lemma isRunning_update:
  assumes "\<And>c. chExited c \<Longrightarrow> chExited (f c)" and "isRunning (update_child i f m)"
  shows "isRunning m"
  using alive_update [of f i m, OF assms(1)] assms(2) by (simp add: isRunning_def split: option.split_asm)

lemma unsignalled_update:
  assumes f: "\<And>c. chExited c \<Longrightarrow> chExited (f c)" "\<And>c. chSignals (f c) = [] \<Longrightarrow> chSignals c = []"
    and u: "unsignalled (update_child i f m) k"
  shows "unsignalled m k"
proof -
  have "child_alive m k" using alive_update [of f i m k, OF f(1)] u by (simp add: unsignalled_def)
  with u f(2) [of "dmChildren m ! k"] show ?thesis
    by (cases "k = i") (auto simp: unsignalled_def child_alive_def update_child_nth)
qed

lemma daemon_inv_update:
  assumes inv: "daemon_inv m" and f: "\<And>c. chExited c \<Longrightarrow> chExited (f c)"
    "\<And>c. chSignals (f c) = [] \<Longrightarrow> chSignals c = []"
  shows "daemon_inv (update_child i f m)"
proof -
  let ?m = "update_child i f m"
  have "i \<in> set (dmStarting ?m) \<or> dmActive ?m = Some i" if "unsignalled ?m i" for i
    using unsignalled_update [OF f that] inv by (simp add: daemon_inv_def)
  moreover have "dmStarting ?m = [] \<or> \<not> isRunning ?m \<and> length (dmStarting ?m) = 1"
    using inv isRunning_update [of f i m, OF f(1)] by (auto simp: daemon_inv_def)
  ultimately show ?thesis using inv by (simp add: daemon_inv_def)
qed

lemma daemon_inv_clear:
  assumes "daemon_inv m" and "\<not> child_alive m i"
  shows "daemon_inv (clear_active i m)"
proof -
  have "unsignalled (clear_active i m) k = unsignalled m k" for k by (simp add: unsignalled_def)
  moreover have "isRunning (clear_active i m) \<Longrightarrow> isRunning m"
    by (auto simp: isRunning_def split: option.split_asm if_split_asm)
  ultimately show ?thesis using assms by (auto simp: daemon_inv_def unsignalled_def)
qed

lemma daemon_inv_start:
  assumes inv: "daemon_inv m" and idle: "dmStarting m = []"
  shows "daemon_inv (startDaemon m)"
proof (cases "isRunning m")
  case True
  with inv show ?thesis by (simp add: startDaemon_def)
next
  case False
  from inv have active: "\<And>i. dmActive m = Some i \<Longrightarrow> i < length (dmChildren m)"
    by (auto simp: daemon_inv_def)
  have alive: "child_alive (startDaemon m) i \<longleftrightarrow> child_alive m i \<or> i = length (dmChildren m)" for i
    using False by (auto simp: startDaemon_def child_alive_def nth_append)
  have "dmActive (startDaemon m) = dmActive m" using False by (simp add: startDaemon_def)
  with False active alive have "\<not> isRunning (startDaemon m)"
    by (auto simp: isRunning_def split: option.split_asm option.split)
  moreover have "unsignalled m i \<or> i = length (dmChildren m)" if "unsignalled (startDaemon m) i" for i
    using that False by (auto simp: unsignalled_def child_alive_def startDaemon_def nth_append split: if_split_asm)
  ultimately show ?thesis
    using inv idle False by (auto simp: daemon_inv_def startDaemon_def less_Suc_eq)
qed

lemma daemon_inv_ready:
  assumes inv: "daemon_inv m" and i: "i \<in> set (dmStarting m)"
  shows "daemon_inv (m\<lparr>dmStarting := remove1 i (dmStarting m), dmActive := Some i\<rparr>)"
proof -
  from inv i have starting: "dmStarting m = [i]" "i < length (dmChildren m)" "\<not> isRunning m"
    by (auto simp: daemon_inv_def length_Suc_conv)
  have "k = i" if "unsignalled m k" for k
    using that inv starting
    by (auto simp: daemon_inv_def isRunning_def unsignalled_def)
  then show ?thesis using starting by (auto simp: daemon_inv_def unsignalled_def child_alive_def)
qed

lemma daemon_inv_drop:
  assumes "daemon_inv m" and "i \<in> set (dmStarting m)"
  shows "daemon_inv (stopChild i (m\<lparr>dmStarting := remove1 i (dmStarting m)\<rparr>))"
proof -
  from assms have starting: "dmStarting m = [i]" "i < length (dmChildren m)" "\<not> isRunning m"
    by (auto simp: daemon_inv_def length_Suc_conv)
  let ?m = "m\<lparr>dmStarting := remove1 i (dmStarting m)\<rparr>"
  have "unsignalled ?m k = unsignalled m k" for k by (simp add: unsignalled_def child_alive_def)
  with assms starting isRunning_stopChild [of i ?m] show ?thesis
    by (auto simp: daemon_inv_def unsignalled_stopChild starting)
qed

lemma daemon_inv_step:
  assumes inv: "daemon_inv m" and serial: "one_start_at_a_time m event"
  shows "daemon_inv (daemon_step m event)"
proof (cases event)
  case (DExit i)
  let ?m = "update_child i (\<lambda>c. c\<lparr>chExited := True, chTimers := 0\<rparr>) m"
  have "daemon_inv ?m" by (rule daemon_inv_update [OF inv]) auto
  moreover have "\<not> child_alive ?m i" by (simp add: child_alive_def update_child_def)
  ultimately show ?thesis using DExit by (simp add: daemon_step_def daemon_inv_clear)
next
  case (DStop handle)
  with inv show ?thesis
    by (auto simp: daemon_step_def stopDaemon_def daemon_inv_stopChild split: option.split)
qed (use inv serial in \<open>auto simp: daemon_step_def one_start_at_a_time_def daemon_inv_start
       daemon_inv_ready daemon_inv_drop intro!: daemon_inv_update split: if_split_asm\<close>)

lemma daemon_inv_initial: "daemon_inv daemon_initial"
  by (simp add: daemon_inv_def daemon_initial_def unsignalled_def child_alive_def)

lemma daemon_reached_inv: "daemon_reached m \<Longrightarrow> daemon_inv m"
  by (induction rule: daemon_reached.induct) (rule daemon_inv_initial, rule daemon_inv_step)

text \<open>
  C39.  The startup line is found wherever the chunks of stdout end: the reader settles as it
  would on the whole output at once, and whatever arrives afterwards (more output, the timer,
  an exit) changes neither the outcome nor stops the child of a start that succeeded.
\<close>

theorem startup_port_chunking:
  "suOutcome (foldl startup_step (new_startup ms) (map SChunk chunks)) =
     suOutcome (startup_step (new_startup ms) (SChunk (concat chunks)))
   \<and> (case suOutcome (foldl startup_step (new_startup ms) (map SChunk chunks)) of
        None \<Rightarrow> True
      | Some r \<Rightarrow>
          (let st = foldl startup_step (foldl startup_step (new_startup ms) (map SChunk chunks)) later
           in suOutcome st = Some r \<and> suStops st = 0))"
proof -
  let ?st = "foldl startup_step (new_startup ms) (map SChunk chunks)"
  have start: "scan_lines [] = (None, [])" by (subst scan_lines.simps) (simp add: take_line_def)
  have outcome: "suOutcome ?st = map_option Inr (fst (scan_lines (concat chunks)))"
    using startup_chunks [of "new_startup ms" chunks] by (simp add: new_startup_def start)
  have whole: "suOutcome (startup_step (new_startup ms) (SChunk (concat chunks))) =
      map_option Inr (fst (scan_lines (concat chunks)))"
    by (auto simp: startup_step_def new_startup_def startup_finish_def split: prod.split option.split)
  have ok: "startup_ok (foldl startup_step ?st later)"
    by (intro startup_run.run_inv) (simp add: startup_ok_def new_startup_def)
  show ?thesis
  proof (cases "suOutcome ?st")
    case None
    with outcome whole show ?thesis by simp
  next
    case (Some r)
    then obtain p where r: "r = Inr p" using outcome by auto
    have "suOutcome (foldl startup_step ?st later) = Some r"
      using Some by (rule startup_settled.run_inv)
    with ok r Some outcome whole show ?thesis by (simp add: Let_def startup_ok_def)
  qed
qed

text \<open>
  C38.  While starts do not overlap, no daemon is lost: a child that still runs and was never told
  to stop is the one being started or the one \<open>stopDaemon\<close> stops, and at most one is being
  started.
\<close>

theorem daemon_never_orphaned:
  assumes "daemon_reached m" and "child_alive m i" and "chSignals (dmChildren m ! i) = []"
  shows "length (dmStarting m) \<le> 1
    \<and> (i \<in> set (dmStarting m) \<or> chSignals (dmChildren (stopDaemon None m) ! i) = [''SIGTERM''])"
proof -
  have inv: "daemon_inv m" by (rule daemon_reached_inv [OF assms(1)])
  then have one: "length (dmStarting m) \<le> 1" by (auto simp: daemon_inv_def)
  have "unsignalled m i" using assms(2,3) by (simp add: unsignalled_def)
  with inv consider "i \<in> set (dmStarting m)" | "dmActive m = Some i"
    unfolding daemon_inv_def by blast
  then show ?thesis
  proof cases
    case 1
    with one show ?thesis by simp
  next
    case 2
    with one assms(2,3) show ?thesis
      by (simp add: stopDaemon_def stopChild_def update_child_nth child_alive_def)
  qed
qed

theorem daemon_never_orphaned_witness:
  "chSignals (dmChildren (stopDaemon None (daemon_step (daemon_step daemon_initial DStart) (DReady 0))) ! 0)
     = [''SIGTERM'']"
proof -
  let ?m = "daemon_step (daemon_step daemon_initial DStart) (DReady 0)"
  have "daemon_reached ?m"
    by (intro daemon_reached.intros) (simp_all add: one_start_at_a_time_def daemon_initial_def)
  moreover have "child_alive ?m 0" "chSignals (dmChildren ?m ! 0) = []" "dmStarting ?m = []"
    by (simp_all add: daemon_step_def startDaemon_def isRunning_def daemon_initial_def child_alive_def)
  ultimately show ?thesis using daemon_never_orphaned [of ?m 0] by simp
qed

text \<open>
  Two overlapping starts, which \<open>startDaemon\<close> does not exclude, leave a child that nothing stops:
  the second handle replaces the first.
\<close>

lemma overlapping_starts_orphan:
  "let m = foldl daemon_step daemon_initial [DStart, DStart, DReady 0, DReady 1, DStop None]
   in child_alive m 0 \<and> chSignals (dmChildren m ! 0) = [] \<and> dmActive m = Some 1"
  by (simp add: Let_def daemon_step_def startDaemon_def isRunning_def daemon_initial_def child_alive_def
      stopDaemon_def stopChild_def update_child_def)

text \<open>A stop that arrives before the startup line finds no handle and does nothing.\<close>

lemma stop_misses_starting:
  "foldl daemon_step daemon_initial [DStart, DStop None] = daemon_step daemon_initial DStart"
  by (simp add: daemon_step_def startDaemon_def isRunning_def daemon_initial_def stopDaemon_def)

text \<open>A child that ignores SIGTERM is killed when its timer fires.\<close>

lemma child_update_other:
  assumes "k < length (dmChildren m)" and "e \<noteq> DExit k" and "e \<noteq> DEscalate k"
  shows "k < length (dmChildren (daemon_step m e))
     \<and> chExited (dmChildren (daemon_step m e) ! k) = chExited (dmChildren m ! k)
     \<and> chTimers (dmChildren (daemon_step m e) ! k) \<ge> chTimers (dmChildren m ! k)"
proof (cases e)
  case DStart
  with assms show ?thesis by (simp add: daemon_step_def startDaemon_def nth_append)
next
  case (DStop handle)
  with assms show ?thesis
    by (simp add: daemon_step_def stopDaemon_def stopChild_def update_child_nth split: option.split)
next
  case (DFailed i)
  with assms show ?thesis by (simp add: daemon_step_def stopChild_def update_child_nth)
next
  case (DEscalate i)
  with assms show ?thesis by (simp add: daemon_step_def update_child_nth)
qed (use assms in \<open>simp_all add: daemon_step_def update_child_nth\<close>)

definition waits_for :: "nat \<Rightarrow> daemon_module \<Rightarrow> bool" where
  "waits_for k m \<longleftrightarrow>
     k < length (dmChildren m) \<and> \<not> chExited (dmChildren m ! k) \<and> chTimers (dmChildren m ! k) > 0"

lemma waits_for_run:
  "waits_for k m \<Longrightarrow> list_all (\<lambda>e. e \<noteq> DExit k \<and> e \<noteq> DEscalate k) es \<Longrightarrow> waits_for k (foldl daemon_step m es)"
proof (induction es arbitrary: m)
  case (Cons e es)
  then show ?case using child_update_other [of k m e] by (auto simp: waits_for_def)
qed simp

text \<open>
  C40.  A stop is carried through: the child gets SIGTERM at once, and whatever happens to other
  children meanwhile, when its timer fires and it has not exited it gets SIGKILL.
\<close>

theorem stop_escalates:
  assumes "child_alive m k" and "list_all (\<lambda>e. e \<noteq> DExit k \<and> e \<noteq> DEscalate k) es"
  shows "last (chSignals (dmChildren (daemon_step m (DStop (Some k))) ! k)) = ''SIGTERM''
    \<and> last (chSignals (dmChildren (foldl daemon_step m (DStop (Some k) # es @ [DEscalate k])) ! k)) = ''SIGKILL''"
proof -
  let ?m = "daemon_step m (DStop (Some k))"
  have stop: "waits_for k ?m \<and> last (chSignals (dmChildren ?m ! k)) = ''SIGTERM''"
    using assms(1)
    by (simp add: waits_for_def daemon_step_def stopDaemon_def stopChild_def child_alive_def update_child_def)
  then have "waits_for k (foldl daemon_step ?m es)" using assms(2) by (blast intro: waits_for_run)
  then show ?thesis using stop by (simp add: daemon_step_def waits_for_def update_child_def)
qed

theorem stop_escalates_witness:
  "last (chSignals (dmChildren (foldl daemon_step
     (daemon_step (daemon_step daemon_initial DStart) (DReady 0))
     (DStop (Some 0) # [DStart] @ [DEscalate 0])) ! 0)) = ''SIGKILL''"
  by (rule conjunct2 [OF stop_escalates])
    (simp_all add: daemon_step_def startDaemon_def isRunning_def daemon_initial_def child_alive_def)

text \<open>
  C1.  The health check reads a bounded body: a body over the bound is an error whatever its
  status, an accepted one has status 200 and is the JSON of the whole body with a boolean
  \<open>ok\<close> and a text \<open>version\<close>.
\<close>

theorem health_checked:
  "(case daemon_health decode status chunks of
      Inl _ \<Rightarrow> True
    | Inr (ok, version) \<Rightarrow>
        length (concat chunks) \<le> MAX_HEALTH_BODY_BYTES \<and> status = Some 200
        \<and> (\<exists>parsed. json_parse (decode (concat chunks)) = Some (JObj parsed)
            \<and> jget parsed (js ''ok'') = JBool ok \<and> jget parsed (js ''version'') = JStr version))"
proof (cases "daemon_health decode status chunks")
  case (Inr r)
  obtain ok version where r: "r = (ok, version)" by fastforce
  obtain body where body: "health_body 0 [] chunks = Some body" "health_end status (decode body) = Inr (ok, version)"
    using Inr r by (auto simp: daemon_health_def health_failed_def split: option.split_asm)
  have "body = concat chunks \<and> length (concat chunks) \<le> MAX_HEALTH_BODY_BYTES"
    using health_body_concat [of "[]" chunks] body(1) by (cases chunks) (auto split: if_split_asm)
  with body(2) r Inr show ?thesis
    by (auto simp: health_end_def health_failed_def Let_def split: option.split_asm if_split_asm jsval.split_asm)
qed simp

end
