(* ===== verification/HostViews.thy ===== *)
theory HostViews
  imports NativeControl Cockpit WorkspaceBinding TaskStart Store
begin

text \<open>
  The projections of \<open>apps/vscode/src/extension.ts\<close>: how the host turns validated native
  responses into the summaries of the snapshot.  The completion block is derived from the
  daemon's step rows or, without them, from the durable state of the run; the usage block acc
  the tasks.

  Sums are JavaScript additions: \<open>add_numbers\<close> rounds to a double.  They are exact while they
  stay within \<open>2 ^ 53\<close>.
\<close>

section \<open>Errors\<close>

definition messageOf :: "thrown \<Rightarrow> jsstr" where
  "messageOf e =
     (let raw = thrown_message e
      in if length raw > 500 then take 500 raw @ ellipsis else raw)"

section \<open>The stored bindings\<close>

definition keep_binding :: "bindings \<Rightarrow> jsstr \<times> jsval \<Rightarrow> bindings" where
  "keep_binding out kv =
     (case kv of (key, v) \<Rightarrow>
        (case v of
           JStr _ \<Rightarrow> if length key > 0 \<and> length key \<le> 2048 then jassign out key v else out
         | _ \<Rightarrow> out))"

text \<open>\<open>Object.entries\<close> of an array has the indices as keys.\<close>

definition readBindings :: "jsval \<Rightarrow> bindings" where
  "readBindings stored =
     (case stored of
        JObj ps \<Rightarrow> foldl keep_binding [] ps
      | JArr vs \<Rightarrow> foldl keep_binding [] (zip (map decimal_nat [0..<length vs]) vs)
      | _ \<Rightarrow> [])"

section \<open>The completion contract of a task\<close>

definition requested_steps :: "completion_contract \<Rightarrow> jsstr list" where
  "requested_steps contract =
     map fst (filter snd [(js ''commit'', ccCommit contract), (js ''push'', ccPush contract),
       (js ''pr'', ccPr contract)])"

definition derived_completion ::
  "completion_contract \<Rightarrow> string \<Rightarrow> string \<Rightarrow> string \<Rightarrow> jsstr option \<Rightarrow> completion_summary" where
  "derived_completion contract status detail source reason =
     \<lparr>cmCommit = ccCommit contract, cmPush = ccPush contract, cmPr = ccPr contract,
      cmSteps = map (\<lambda>step. \<lparr>csStep = step, csStatus = js status, csDetail = Some (js detail)\<rparr>)
        (requested_steps contract),
      cmSource = js source, cmReason = reason\<rparr>"

definition daemon_step_row :: "step_status \<Rightarrow> completion_step" where
  "daemon_step_row row =
     \<lparr>csStep = ssStep row, csStatus = ssStatus row,
      csDetail = (if length (ssDetail row) > 0 then Some (ssDetail row) else None)\<rparr>"

definition completionSummaryOf ::
  "native_task_view \<Rightarrow> jsstr option \<Rightarrow> completion_contract option \<Rightarrow> completion_summary option" where
  "completionSummaryOf view runState submitted =
     (case nvCompletion view of
        Some completion \<Rightarrow>
          Some \<lparr>cmCommit = ccCommit (tcContract completion), cmPush = ccPush (tcContract completion),
                cmPr = ccPr (tcContract completion), cmSteps = map daemon_step_row (tcSteps completion),
                cmSource = js ''daemon'', cmReason = None\<rparr>
      | None \<Rightarrow>
          if \<not> hasCompletionSteps submitted then None
          else
            (let contract = the submitted;
                 state = to_lower (trim (case runState of Some s \<Rightarrow> s | None \<Rightarrow> nvState view))
             in if state = js ''done'' then
                  Some (derived_completion contract ''succeeded''
                    ''certified by the durable completion gate (all requested steps succeeded)'' ''derived'' None)
                else if state = js ''failed'' \<or> state = js ''cancelled'' then
                  Some (derived_completion contract ''unknown'' ''the run ended before certification'' ''unavailable''
                    (Some (js ''the serving daemon exposes no per-step completion read; exact statuses are not served'')))
                else
                  Some (derived_completion contract ''pending''
                    ''awaiting deterministic verification and the durable completion gate'' ''derived'' None)))"

section \<open>The other summaries\<close>

definition modelInfoOf :: "model_info \<Rightarrow> agent_model_info" where
  "modelInfoOf info =
     agent_model_info.make (miProvider info) (miModel info) (miReasoning info) (miThinking info) (miTools info)"

definition cockpitTaskVerificationView :: "task_verification option \<Rightarrow> verification_record list option" where
  "cockpitTaskVerificationView view =
     map_option (\<lambda>v.
       map (\<lambda>record'.
         \<lparr>vrStatus = nzStatus record',
          vrCriteria = map (\<lambda>c. \<lparr>kcKey = clKey c, kcPassed = clPassed c, kcEvidence = clEvidence c\<rparr>)
            (nzCriteria record'),
          vrChecks = map (\<lambda>c. \<lparr>ckCheck = chCheck c, ckStatus = chStatus c, ckRequired = chRequired c\<rparr>)
            (nzChecks record')\<rparr>) (tvnRecords v)) view"

definition taskSummary ::
  "native_task_view \<Rightarrow> jsstr option \<Rightarrow> completion_contract option \<Rightarrow> task_summary" where
  "taskSummary view runState submitted =
     \<lparr>tsGoal = nvGoal view, tsState = nvState view, tsCompleted = nvCompleted view, tsOpen = nvOpen view,
      tsTestsRun = nvTestsRun view, tsTestsFailed = nvTestsFailed view, tsChangedFiles = nvChangedFiles view,
      tsBudget = map_option (\<lambda>b.
        \<lparr>bgMaxTokens = tbMaxTokens b, bgSpentTokens = tbSpentTokens b, bgMaxCostMicro = tbMaxCostMicro b,
         bgSpentCostMicro = tbSpentCostMicro b, bgOpenReservedMicro = tbOpenReservedMicro b\<rparr>) (nvBudget view),
      tsCriteria = nvCriteria view,
      tsPlan = map (\<lambda>s. \<lparr>tpId = plId s, tpSummary = plSummary s, tpState = plState s,
        tpDependsOn = plDependsOn s\<rparr>) (nvPlan view),
      tsBlockers = map blDetail (nvBlockers view), tsEvidenceRefs = nvEvidenceRefs view,
      tsPhase = nvPhase view, tsProgress = nvProgress view,
      tsCompletion = completionSummaryOf view runState submitted\<rparr>"

definition verificationSummary :: "native_verification_view \<Rightarrow> verification_summary" where
  "verificationSummary view =
     \<lparr>vsOwed = map (\<lambda>e. \<lparr>owOpId = ofOpId e, owTool = ofTool e, owStatus = ofStatus e,
        owEffect = ofEffect e\<rparr>) (nwOwed view),
      vsFailedChecks = map (\<lambda>e. (vfId e, vfDetail e)) (nwFailedChecks view)\<rparr>"

definition runSummary :: "native_task_run \<Rightarrow> run_summary" where
  "runSummary run =
     \<lparr>rsTaskId = number_string (num_of_int (nrTaskId run)), rsRunId = nrRunId run, rsMode = nrMode run,
      rsState = nrState run, rsGoal = nrGoal run, rsModel = nrModel run\<rparr>"

definition pendingEnvelope :: "jsstr \<Rightarrow> pending_submission" where
  "pendingEnvelope text =
     \<lparr>psText = text, psSessionId = None, psDraftId = None, psMessageId = None, psFiles = [],
      psAttachments = []\<rparr>"

section \<open>Usage\<close>

definition add_numbers :: "int \<Rightarrow> int \<Rightarrow> int" where
  "add_numbers a b = int_of_num (round_double (of_int a + of_int b))"

record usage_sums =
  uaSpent :: int
  uaOpen :: int
  uaMax :: "int option"
  uaTruncated :: bool

definition add_usage :: "usage_sums \<Rightarrow> task_usage \<Rightarrow> usage_sums" where
  "add_usage acc task =
     \<lparr>uaSpent = add_numbers (uaSpent acc) (tbSpentCostMicro (tuBudget task)),
      uaOpen = add_numbers (uaOpen acc) (tbOpenReservedMicro (tuBudget task)),
      uaMax = (case tbMaxCostMicro (tuBudget task) of
          None \<Rightarrow> uaMax acc
        | Some m \<Rightarrow> Some (add_numbers (case uaMax acc of Some x \<Rightarrow> x | None \<Rightarrow> 0) m)),
      uaTruncated = (uaTruncated acc \<or> rvTruncated (tuReservations task))\<rparr>"

definition usageSummary :: "session_usage \<Rightarrow> usage_summary" where
  "usageSummary usage =
     (let acc = foldl add_usage \<lparr>uaSpent = 0, uaOpen = 0, uaMax = None, uaTruncated = False\<rparr> (suTasks usage)
      in \<lparr>usTokens = pcTokens (suCalls usage), usSpentMicro = uaSpent acc, usMaxMicro = uaMax acc,
          usOpenMicro = uaOpen acc, usTruncated = uaTruncated acc\<rparr>)"

section \<open>The transcript of a page\<close>

definition message_part_json :: "message_part \<Rightarrow> jsval" where
  "message_part_json p = JObj [(js ''kind'', JStr (mpKind p)), (js ''createdMs'', JInt (mpCreatedMs p)),
     (js ''data'', mpData p)]"

definition message_json :: "native_message \<Rightarrow> jsval" where
  "message_json m = JObj [(js ''seq'', JInt (nmSeq m)), (js ''id'', JInt (nmId m)), (js ''role'', JStr (nmRole m)),
     (js ''createdMs'', JInt (nmCreatedMs m)), (js ''data'', nmData m),
     (js ''parts'', JArr (map message_part_json (nmParts m)))]"

definition agent_json :: "native_agent \<Rightarrow> jsval" where
  "agent_json a = JObj
     [(js ''agent_id'', JStr (ngAgentId a)),
      (js ''kind'', JStr (case ngKind a of Self \<Rightarrow> js ''self'' | Child \<Rightarrow> js ''child'')),
      (js ''run_id'', JStr (ngRunId a)), (js ''session_id'', JInt (ngSessionId a)),
      (js ''worktree_id'', JInt (ngWorktreeId a)), (js ''goal'', JStr (ngGoal a)),
      (js ''state'', JStr (ngState a)), (js ''model'', jopt JStr (ngModel a)),
      (js ''provider'', jopt JStr (ngProvider a)), (js ''budget'', jopt JInt (ngBudget a)),
      (js ''ownership'', JStr (ngOwnership a)), (js ''capabilities'', JArr (ngCapabilities a)),
      (js ''progress'', ngProgress a), (js ''result'', ngResult a),
      (js ''item_ids'', jopt (\<lambda>is. JArr (map JStr is)) (ngItemIds a)),
      (js ''item_id'', jopt JStr (ngItemId a)), (js ''item_kind'', jopt JStr (ngItemKind a)),
      (js ''blockers'', ngBlockers a), (js ''blocker'', ngBlocker a),
      (js ''presentation'', JStr (case ngPresentation a of
         Foreground \<Rightarrow> js ''foreground'' | Background \<Rightarrow> js ''background''))]"

definition transcriptOf :: "message_page \<Rightarrow> transcript_entry list" where
  "transcriptOf page = transcriptFromMessages (map message_json (mgMessages page))"

definition tool_signature :: "transcript_tool \<Rightarrow> jsstr" where
  "tool_signature tool =
     ttState tool @ js '':'' @ decimal_nat (case ttExcerpt tool of Some e \<Rightarrow> length e | None \<Rightarrow> 0) @ js '':''
       @ (case ttExitCode tool of Some c \<Rightarrow> int_string c | None \<Rightarrow> js ''n'') @ js '';''"

definition entry_signature :: "transcript_entry \<Rightarrow> jsstr" where
  "entry_signature entry =
     teId entry @ js '':'' @ decimal_nat (length (teText entry)) @ js '':''
       @ decimal_nat (length (teReasoning entry)) @ js '':'' @ decimal_nat (length (teSummary entry)) @ js '':''
       @ concat (map tool_signature (teTools entry)) @ js ''|''"

definition transcriptSignature :: "transcript_entry list \<Rightarrow> jsstr" where
  "transcriptSignature entries = concat (map entry_signature entries)"

section \<open>The status bar\<close>

definition status_icon :: "jsstr \<Rightarrow> jsstr" where
  "status_icon daemon =
     (if daemon = js ''running'' then js ''$(pulse)''
      else if daemon = js ''starting'' then js ''$(sync~spin)''
      else if daemon = js ''error'' then js ''$(error)''
      else js ''$(circle-slash)'')"

definition status_text :: "jsstr \<Rightarrow> task_summary option \<Rightarrow> jsstr" where
  "status_text daemon task =
     status_icon daemon @ js '' Faktor: '' @ daemon
       @ (case task of Some t \<Rightarrow> middle_dot @ js ''task '' @ tsState t | None \<Rightarrow> [])"

definition status_tooltip :: "jsstr \<Rightarrow> jsstr option \<Rightarrow> jsstr option \<Rightarrow> jsstr" where
  "status_tooltip daemon baseUrl title =
     (case baseUrl of
        Some (c # url) \<Rightarrow>
          js ''Faktor daemon '' @ daemon @ js '' at '' @ (c # url)
            @ (case title of Some t \<Rightarrow> middle_dot @ js ''session '' @ t | None \<Rightarrow> [])
      | _ \<Rightarrow> js ''Faktor daemon stopped'')"

end
