(* ===== verification/HostSummaries.thy ===== *)
theory HostSummaries
  imports HostViews
begin

text \<open>
  What the summaries of the extension host promise (\<open>completionSummaryOf\<close> and \<open>usageSummary\<close> of
  \<open>apps/vscode/src/extension.ts\<close>).
\<close>

section \<open>The completion block is never invented\<close>

text \<open>
  C21.  The completion steps on display are never fabricated.  When the daemon serves a completion
  block, the steps are the served rows, in their order and with their statuses, marked as the
  daemon's, whatever the state of the run is.  When it serves none, nothing is shown unless
  the submitted contract asked for a step; then the steps are exactly the requested ones, marked
  as derived or unavailable, and all have the one status the run state allows: succeeded only
  for a run that is \<open>done\<close>, unknown for one that failed or was cancelled, and pending otherwise.
\<close>

theorem completion_never_fabricated:
  assumes "completionSummaryOf view runState submitted = Some block"
  shows "case nvCompletion view of
      Some completion \<Rightarrow> cmSource block = js ''daemon''
        \<and> map (\<lambda>row. (csStep row, csStatus row)) (cmSteps block) = map (\<lambda>r. (ssStep r, ssStatus r)) (tcSteps completion)
    | None \<Rightarrow> hasCompletionSteps submitted \<and> cmSource block \<in> {js ''derived'', js ''unavailable''}
        \<and> map csStep (cmSteps block) = requested_steps (the submitted)
        \<and> (let state = to_lower (trim (case runState of Some s \<Rightarrow> s | None \<Rightarrow> nvState view))
           in list_all (\<lambda>row. csStatus row =
                (if state = js ''done'' then js ''succeeded''
                 else if state \<in> {js ''failed'', js ''cancelled''} then js ''unknown'' else js ''pending'')) (cmSteps block))"
proof (cases "nvCompletion view")
  case (Some completion)
  with assms show ?thesis
    by (auto simp: completionSummaryOf_def daemon_step_row_def comp_def)
next
  case None
  have rows: "map csStep (cmSteps (derived_completion contract status detail source reason)) = requested_steps contract"
    "list_all (\<lambda>row. csStatus row = js status) (cmSteps (derived_completion contract status detail source reason))"
    "cmSource (derived_completion contract status detail source reason) = js source"
    for contract status detail source reason
    by (simp_all add: derived_completion_def comp_def list_all_iff)
  from None assms show ?thesis
    by (auto simp: completionSummaryOf_def Let_def rows split: if_split_asm)
qed

definition demo_view :: "task_completion option \<Rightarrow> native_task_view" where
  "demo_view completion = \<lparr>nvGoal = js ''g'', nvConstraints = [], nvState = js ''Running'', nvCompleted = [],
     nvOpen = [], nvDecisions = [], nvFailures = [], nvChangedFiles = [], nvTestsRun = [], nvTestsFailed = [],
     nvPreferences = [], nvVerification = [], nvProgress = JNull, nvBudget = None, nvCriteria = [],
     nvPlan = [], nvBlockers = [], nvEvidenceRefs = [], nvPhase = None, nvCompletion = completion\<rparr>"

theorem completion_never_fabricated_witness:
  "\<exists>block. completionSummaryOf (demo_view None) (Some (js '' Failed'')) (Some \<lparr>ccCommit = False, ccPush = True, ccPr = False\<rparr>)
       = Some block
     \<and> map csStep (cmSteps block) = [js ''push'']
     \<and> list_all (\<lambda>row. csStatus row = js ''unknown'') (cmSteps block)"
proof -
  let ?push = "\<lparr>ccCommit = False, ccPush = True, ccPr = False\<rparr>"
  have state: "to_lower (trim (js '' Failed'')) = js ''failed''" "js ''failed'' \<noteq> js ''done''" by code_simp+
  obtain block where block: "completionSummaryOf (demo_view None) (Some (js '' Failed'')) (Some ?push) = Some block"
    by (simp add: completionSummaryOf_def demo_view_def hasCompletionSteps_def state Let_def)
  from completion_never_fabricated [OF block] block show ?thesis
    by (simp add: demo_view_def state requested_steps_def Let_def)
qed

section \<open>Usage totals\<close>

lemma add_numbers_exact: "\<bar>a + b\<bar> \<le> 9007199254740992 \<Longrightarrow> add_numbers a b = a + b"
proof -
  assume le: "\<bar>a + b\<bar> \<le> 9007199254740992"
  have "\<bar>of_int (a + b) :: rat\<bar> = of_int \<bar>a + b\<bar>" by simp
  also have "\<dots> \<le> of_int 9007199254740992" using le by (subst of_int_le_iff)
  finally have "\<bar>of_int a + of_int b :: rat\<bar> \<le> 9007199254740992" by simp
  moreover have "of_int \<lfloor>of_int a + of_int b :: rat\<rfloor> = (of_int a + of_int b :: rat)" by (metis floor_of_int of_int_add)
  ultimately show ?thesis
    unfolding add_numbers_def round_double_def int_of_num_def by (simp flip: of_int_add)
qed

lemma add_numbers_sum:
  "0 \<le> a \<Longrightarrow> 0 \<le> b \<Longrightarrow> a + b \<le> 9007199254740992 \<Longrightarrow> add_numbers a b = a + b"
  using add_numbers_exact [of a b] by simp

definition task_max :: "task_usage \<Rightarrow> int" where
  "task_max task = (case tbMaxCostMicro (tuBudget task) of Some m \<Rightarrow> m | None \<Rightarrow> 0)"

definition amounts_ok :: "task_usage \<Rightarrow> bool" where
  "amounts_ok task \<longleftrightarrow> 0 \<le> tbSpentCostMicro (tuBudget task) \<and> 0 \<le> tbOpenReservedMicro (tuBudget task) \<and> 0 \<le> task_max task"

lemma sum_amounts_nonneg:
  "list_all amounts_ok tasks \<Longrightarrow> 0 \<le> sum_list (map (tbSpentCostMicro \<circ> tuBudget) tasks)
     \<and> 0 \<le> sum_list (map (tbOpenReservedMicro \<circ> tuBudget) tasks) \<and> 0 \<le> sum_list (map task_max tasks)"
  by (induction tasks) (auto simp: amounts_ok_def)

definition sum_from :: "usage_sums \<Rightarrow> task_usage list \<Rightarrow> usage_sums" where
  "sum_from acc tasks =
     \<lparr>uaSpent = uaSpent acc + sum_list (map (tbSpentCostMicro \<circ> tuBudget) tasks),
      uaOpen = uaOpen acc + sum_list (map (tbOpenReservedMicro \<circ> tuBudget) tasks),
      uaMax = (if uaMax acc = None \<and> list_all (\<lambda>t. tbMaxCostMicro (tuBudget t) = None) tasks then None
        else Some ((case uaMax acc of Some m \<Rightarrow> m | None \<Rightarrow> 0) + sum_list (map task_max tasks))),
      uaTruncated = (uaTruncated acc \<or> list_ex (rvTruncated \<circ> tuReservations) tasks)\<rparr>"

definition within_double :: "usage_sums \<Rightarrow> bool" where
  "within_double acc \<longleftrightarrow> uaSpent acc \<le> 9007199254740992 \<and> uaOpen acc \<le> 9007199254740992
     \<and> (case uaMax acc of Some m \<Rightarrow> m \<le> 9007199254740992 | None \<Rightarrow> True)"

definition sums_nonneg :: "usage_sums \<Rightarrow> bool" where
  "sums_nonneg acc \<longleftrightarrow> 0 \<le> uaSpent acc \<and> 0 \<le> uaOpen acc \<and> (case uaMax acc of Some m \<Rightarrow> 0 \<le> m | None \<Rightarrow> True)"

lemma add_usage_exact:
  assumes "sums_nonneg acc" and "list_all amounts_ok (task # tasks)" and "within_double (sum_from acc (task # tasks))"
  shows "add_usage acc task = sum_from acc [task]"
  using assms sum_amounts_nonneg [of tasks]
  by (auto simp: add_usage_def sum_from_def sums_nonneg_def amounts_ok_def within_double_def task_max_def
      add_numbers_sum split: option.split_asm option.split if_split_asm)

lemma fold_usage:
  "sums_nonneg acc \<Longrightarrow> list_all amounts_ok tasks \<Longrightarrow> within_double (sum_from acc tasks) \<Longrightarrow>
     foldl add_usage acc tasks = sum_from acc tasks"
proof (induction tasks arbitrary: acc)
  case Nil
  show ?case by (cases acc) (simp add: sum_from_def split: option.split)
next
  case (Cons task tasks)
  have step: "add_usage acc task = sum_from acc [task]" using add_usage_exact Cons.prems by blast
  have app: "sum_from (sum_from acc [task]) tasks = sum_from acc (task # tasks)"
    by (auto simp: sum_from_def task_max_def split: option.split)
  have "sums_nonneg (sum_from acc [task])"
    using Cons.prems by (auto simp: sums_nonneg_def sum_from_def amounts_ok_def split: option.split)
  with Cons app step show ?case by simp
qed

text \<open>
  The usage totals are the exact sums over the tasks as long as they stay within the
  integers a double holds: spent and reserved amounts, the ceilings of the tasks that have one
  (no ceiling at all only when no task has one), and truncated when any part was.
\<close>

theorem usage_totals_exact:
  assumes "list_all amounts_ok (suTasks usage)"
    and "within_double (sum_from \<lparr>uaSpent = 0, uaOpen = 0, uaMax = None, uaTruncated = False\<rparr> (suTasks usage))"
  shows "usSpentMicro (usageSummary usage) = sum_list (map (tbSpentCostMicro \<circ> tuBudget) (suTasks usage))
    \<and> usOpenMicro (usageSummary usage) = sum_list (map (tbOpenReservedMicro \<circ> tuBudget) (suTasks usage))
    \<and> usMaxMicro (usageSummary usage) =
        (if list_all (\<lambda>t. tbMaxCostMicro (tuBudget t) = None) (suTasks usage) then None
         else Some (sum_list (map task_max (suTasks usage))))
    \<and> usTruncated (usageSummary usage) = list_ex (rvTruncated \<circ> tuReservations) (suTasks usage)"
  using fold_usage [OF _ assms] by (simp add: usageSummary_def sums_nonneg_def sum_from_def)

definition demo_usage :: "int \<Rightarrow> int option \<Rightarrow> task_usage" where
  "demo_usage spent cap =
     (let none = \<lparr>rgCount = 0, rgPredictedMicro = 0\<rparr>
      in \<lparr>tuTaskId = js ''t'', tuBudget = \<lparr>tbMaxTokens = None, tbMaxTurns = None, tbSpentTokens = None,
             tbSpentTurns = None, tbMaxCostMicro = cap, tbSpentCostMicro = spent, tbOpenReservedMicro = 1\<rparr>,
           tuReservations = \<lparr>rvOpen = none, rvSettled = \<lparr>rsCount = 0, rsPredictedMicro = 0, rsSpentMicro = 0,
               rsProviderReportedMicro = 0\<rparr>, rvRefunded = none, rvUncertain = none, rvRouteDecisions = [],
             rvTruncated = False\<rparr>\<rparr>)"

theorem usage_totals_exact_witness:
  "usMaxMicro (usageSummary \<lparr>suSessionId = js ''s'', suCalls = \<lparr>pcTokens = 7, pcObservations = []\<rparr>,
     suPrefixStability = None, suTasks = [demo_usage 2 None, demo_usage 3 (Some 10)]\<rparr>) = Some 10"
proof -
  let ?usage = "\<lparr>suSessionId = js ''s'', suCalls = \<lparr>pcTokens = 7, pcObservations = []\<rparr>,
    suPrefixStability = None, suTasks = [demo_usage 2 None, demo_usage 3 (Some 10)]\<rparr>"
  have "list_all amounts_ok (suTasks ?usage)"
    by (simp add: amounts_ok_def demo_usage_def task_max_def Let_def)
  moreover have "within_double (sum_from \<lparr>uaSpent = 0, uaOpen = 0, uaMax = None, uaTruncated = False\<rparr> (suTasks ?usage))"
    by (simp add: within_double_def sum_from_def demo_usage_def task_max_def Let_def)
  ultimately show ?thesis
    using usage_totals_exact [of ?usage] by (simp add: demo_usage_def task_max_def Let_def)
qed

end
