(* ===== verification/HostState.thy ===== *)
theory HostState
  imports HostViews EventStream NativeReads NativePages NativeUsage Daemon
begin

text \<open>
  The state of the extension host (\<open>apps/vscode/src/extension.ts\<close>): the module variable
  \<open>active\<close>, the snapshot of the store, the workspace state, the module \<open>daemon.ts\<close> and what
  the host is waiting for.

  Every handler is asynchronous.  It is cut at its \<open>await\<close>s into parts; what it needs after an
  \<open>await\<close> is a \<open>waiting\<close> entry.  A part runs to its end without interruption, parts of different
  handlers run in any order.  What the host sends (notices, results, restored drafts, calls to
  the daemon that change something) is logged.

  The snapshot is typed; \<open>Store\<close> models the generic store with its comparison of fields and its
  listeners.  What matters here is the value of the snapshot after a patch: a patch that changes
  nothing changes no value, so the comparison is left to \<open>Store\<close>, and so is the subscription that
  posts the snapshot to the view after each change (\<open>WebviewHost\<close> models the post itself).
\<close>

section \<open>The snapshot\<close>

record shown =
  shDaemon :: jsstr
  shDetail :: jsstr
  shBaseUrl :: "jsstr option"
  shSession :: "session_row option"
  shMachineState :: jsstr
  shMachineLabel :: jsstr
  shSessions :: "session_row list"
  shRuns :: "run_summary list"
  shActiveRun :: "jsstr option"
  shAgents :: "agent_summary list"
  shTask :: "task_summary option"
  shVerification :: "verification_summary option"
  shUsage :: "usage_summary option"
  shCockpit :: "cockpit_view option"
  shSections :: "cockpit_section list"
  shTournament :: "tournament_view option"
  shBoard :: "board_state_summary option"
  shTranscript :: "transcript_entry list"
  shStream :: jsstr
  shError :: "jsstr option"
  shBusy :: bool

definition empty_shown :: shown where
  "empty_shown =
     \<lparr>shDaemon = js ''stopped'', shDetail = [], shBaseUrl = None, shSession = None,
      shMachineState = js ''unknown'', shMachineLabel = js ''Daemon stopped'', shSessions = [], shRuns = [],
      shActiveRun = None, shAgents = [], shTask = None, shVerification = None, shUsage = None,
      shCockpit = None, shSections = [], shTournament = None, shBoard = None, shTranscript = [],
      shStream = js ''stopped'', shError = None, shBusy = False\<rparr>"

text \<open>\<open>store.patch\<close>: another session, or the stop of the daemon, clears the tournament and the board.\<close>

definition patched :: "(shown \<Rightarrow> shown) \<Rightarrow> shown \<Rightarrow> shown" where
  "patched f previous =
     (let after' = f previous;
          sessionChanged = (map_option srId (shSession after') \<noteq> map_option srId (shSession previous));
          stopped = (shDaemon after' = js ''stopped'' \<and> shDaemon previous \<noteq> js ''stopped'')
      in if sessionChanged \<or> stopped then after'\<lparr>shTournament := None, shBoard := None\<rparr> else after')"

section \<open>What the host sends\<close>

datatype agent_call =
    APause | AResume | ACancel | ARetry | ASteer jsstr | AModel jsstr | ABudget "jsnum option"
  | APresentation presentation jsstr

datatype host_call =
    CallCancel jsstr jsstr
  | CallDecide jsstr jsstr
  | CallAbort jsstr jsstr "jsstr option"
  | CallAgent jsstr agent_call
  | CallEvidence jsstr int
  | CallBoard jsstr "int option" "int option"
  | CallPost jsstr board_post_request
  | CallCreate jsstr jsstr "jsstr option" jsstr
  | CallAdmission call

datatype host_out =
    OInfo jsstr
  | OError jsstr
  | OShowError jsstr
  | ORestore pending_submission jsstr
  | OStartResult jsstr bool
  | OEvidence int jsstr bool
  | OSnapshot shown
  | OCall host_call

section \<open>What the host waits for\<close>

record task_start =
  tgGoal :: jsstr
  tgFiles :: "jsstr list"
  tgContract :: "completion_contract option"
  tgPending :: pending_submission

text \<open>Who called \<open>startServer\<close>: a command, whose error is reported, or \<open>startTask\<close>.\<close>

datatype caller = ByCommand | ByTask task_start

text \<open>
  Who called \<open>ensureSession\<close>: \<open>startServer\<close> with a running daemon, or after the start of a daemon
  (its number, its version and its base URL).
\<close>

datatype ensure_caller = ForRunning caller | ForStarted caller nat jsstr jsstr

record refresh_reads =
  rrMachineState :: jsstr
  rrMachineLabel :: jsstr
  rrTasks :: "native_task_view list"
  rrVerification :: native_verification_view
  rrUsage :: session_usage
  rrAgents :: "native_agent list"
  rrRuns :: "native_task_run list"
  rrSessions :: "session_row list"
  rrMessages :: message_page
  rrCatalog :: "model_info list"

record refresh_result =
  reReads :: refresh_reads
  reBoard :: board_state_summary
  reTask :: "task_summary option"
  reActiveRun :: "jsstr option"
  reAgents :: "agent_summary list"
  reVerification :: verification_summary
  reUsage :: usage_summary
  reRecords :: "verification_record list option"

datatype waiting =
    WSpawn caller nat
  | WHealth caller nat daemon_handle
  | WList ensure_caller
  | WPruned ensure_caller bindings "session_row list"
  | WCatalog ensure_caller bindings
  | WCreate ensure_caller bindings jsstr jsstr
  | WBound ensure_caller session_created jsstr jsstr
  | WHistory ensure_caller jsstr
  | WRefresh jsstr "board_state_summary option"
  | WVerification jsstr refresh_result "task_verification option + jsstr \<times> jsstr"
  | WTournaments jsstr refresh_result
  | WTournament jsstr refresh_result jsstr
  | WBoardRead jsstr "int option"
  | WBoardPost jsstr
  | WCancel jsstr jsstr
  | WDecide jsstr
  | WAbort jsstr
  | WAgent jsstr jsstr
  | WPrompt jsstr jsstr
  | WEvidence int
  | WAdmission jsstr task_start
  | WUpload jsstr task_start "native_attachment_id list" "call list"

section \<open>The host\<close>

record host_env =
  heKey :: "jsstr option"
  heFsPath :: "jsstr option"
  heTitle :: jsstr
  heProvider :: jsstr
  heModel :: jsstr
  heMutationMode :: jsstr
  heMaxTokens :: jsnum
  heMaxCostMicro :: jsnum

record host =
  hoDaemon :: "nat option"
  hoClient :: "nat option"
  hoStream :: "jsstr option"
  hoSession :: "jsstr option"
  hoRun :: "jsstr option"
  hoRefreshing :: bool
  hoTimer :: bool
  hoTvKey :: "jsstr option"
  hoTv :: "task_verification option"
  hoTournament :: "jsstr option"
  hoPresence :: "pixel_presence jsmap"
  hoContract :: "completion_contract option"
  hoSeen :: int
  hoShown :: shown
  hoStored :: jsval
  hoModule :: daemon_module
  hoWaiting :: "waiting list"
  hoOut :: "host_out list"

definition initial_host :: "jsval \<Rightarrow> host" where
  "initial_host stored =
     \<lparr>hoDaemon = None, hoClient = None, hoStream = None, hoSession = None, hoRun = None,
      hoRefreshing = False, hoTimer = False, hoTvKey = None, hoTv = None, hoTournament = None,
      hoPresence = [], hoContract = None, hoSeen = 0, hoShown = empty_shown, hoStored = stored,
      hoModule = daemon_initial, hoWaiting = [], hoOut = []\<rparr>"

definition patch_shown :: "(shown \<Rightarrow> shown) \<Rightarrow> host \<Rightarrow> host" where
  "patch_shown f h = h\<lparr>hoShown := patched f (hoShown h)\<rparr>"

definition send :: "host_out \<Rightarrow> host \<Rightarrow> host" where
  "send out h = h\<lparr>hoOut := hoOut h @ [out]\<rparr>"

definition wait_for :: "waiting \<Rightarrow> host \<Rightarrow> host" where
  "wait_for w h = h\<lparr>hoWaiting := hoWaiting h @ [w]\<rparr>"

definition settled :: "waiting \<Rightarrow> host \<Rightarrow> host" where
  "settled w h = h\<lparr>hoWaiting := remove1 w (hoWaiting h)\<rparr>"

definition show_error :: "thrown \<Rightarrow> host \<Rightarrow> host" where
  "show_error e h = patch_shown (\<lambda>s. s\<lparr>shError := Some (messageOf e)\<rparr>) h"

definition reportError :: "thrown \<Rightarrow> host \<Rightarrow> host" where
  "reportError e h =
     (let message = messageOf e;
          h1 = (if shDaemon (hoShown h) = js ''starting''
                then patch_shown (\<lambda>s. s\<lparr>shDaemon := js ''error'', shDetail := message\<rparr>) h else h)
      in send (OShowError (js ''Faktor: '' @ message))
           (send (OError message) (patch_shown (\<lambda>s. s\<lparr>shError := Some message\<rparr>) h1)))"

text \<open>\<open>scheduleRefresh\<close> arms the one refresh timer again.\<close>

definition scheduleRefresh :: "host \<Rightarrow> host" where
  "scheduleRefresh h = h\<lparr>hoTimer := True\<rparr>"

section \<open>Stopping\<close>

definition stopServer :: "host \<Rightarrow> host" where
  "stopServer h =
     patch_shown (\<lambda>s. empty_shown\<lparr>shBoard := shBoard s\<rparr>)
       (h\<lparr>hoTimer := False, hoStream := None, hoModule := stopDaemon (hoDaemon h) (hoModule h),
          hoDaemon := None, hoClient := None, hoSession := None, hoRun := None, hoRefreshing := False,
          hoTvKey := None, hoTv := None, hoTournament := None, hoPresence := [], hoContract := None,
          hoSeen := 0\<rparr>)"

end
