(* ===== verification/HostSession.thy ===== *)
theory HostSession
  imports HostState
begin

text \<open>
  \<open>startServer\<close>, \<open>ensureSession\<close> and \<open>startStream\<close> of \<open>apps/vscode/src/extension.ts\<close>, cut at their
  \<open>await\<close>s.  A write to the workspace state is visible to every later read at once, as the
  \<open>Memento\<close> of VS Code documents it, and its promise settles later, with or without an error.
\<close>

section \<open>The event stream\<close>

definition startStream :: "host \<Rightarrow> host" where
  "startStream h =
     (case (hoDaemon h, hoSession h) of
        (Some _, Some sid) \<Rightarrow> patch_shown (\<lambda>s. s\<lparr>shStream := js ''connecting''\<rparr>) (h\<lparr>hoStream := Some sid\<rparr>)
      | _ \<Rightarrow> h)"

text \<open>The callbacks of the stream: a frame, a status and an error.\<close>

definition stream_event :: "jsstr \<Rightarrow> jsval \<Rightarrow> host \<Rightarrow> host" where
  "stream_event event data h =
     scheduleRefresh (patch_shown (\<lambda>s. s\<lparr>shTranscript := applySseEvent (shTranscript s) event data\<rparr>) h)"

definition stream_status :: "jsstr \<Rightarrow> host \<Rightarrow> host" where
  "stream_status status h = patch_shown (\<lambda>s. s\<lparr>shStream := status\<rparr>) h"

section \<open>The end of startServer, for its callers\<close>

definition unavailable_message :: jsstr where
  "unavailable_message = js ''daemon/session unavailable; the draft and attachments were kept''"

text \<open>\<open>startTask\<close> once a daemon is there: the admission begins, or the draft goes back.\<close>

definition task_ready :: "task_start \<Rightarrow> host \<Rightarrow> host" where
  "task_ready t h =
     (case (hoClient h, hoSession h) of
        (Some _, Some sid) \<Rightarrow> wait_for (WAdmission sid t) h
      | _ \<Rightarrow> send (ORestore (tgPending t) unavailable_message) (reportError (ThrownError unavailable_message) h))"

definition server_started :: "caller \<Rightarrow> host \<Rightarrow> host" where
  "server_started c h = (case c of ByCommand \<Rightarrow> h | ByTask t \<Rightarrow> task_ready t h)"

definition server_failed :: "caller \<Rightarrow> thrown \<Rightarrow> host \<Rightarrow> host" where
  "server_failed c e h =
     (case c of
        ByCommand \<Rightarrow> reportError e h
      | ByTask t \<Rightarrow> send (ORestore (tgPending t) (thrown_message e)) (reportError e h))"

text \<open>The \<open>catch\<close> after a started daemon: the daemon is stopped and forgotten.\<close>

definition setup_failed :: "nat \<Rightarrow> thrown \<Rightarrow> host \<Rightarrow> host" where
  "setup_failed i e h =
     patch_shown (\<lambda>s. s\<lparr>shDaemon := js ''error'', shDetail := messageOf e, shBaseUrl := None\<rparr>)
       (h\<lparr>hoModule := stopDaemon (Some i) (hoModule h), hoDaemon := None, hoClient := None\<rparr>)"

section \<open>ensureSession\<close>

definition ensure_done :: "ensure_caller \<Rightarrow> host \<Rightarrow> host" where
  "ensure_done ec h =
     (case ec of
        ForRunning c \<Rightarrow> server_started c (startStream h)
      | ForStarted c i version baseUrl \<Rightarrow>
          server_started c (send (OInfo (js ''daemon '' @ version @ js '' ready at '' @ baseUrl))
            (scheduleRefresh (startStream h))))"

definition ensure_failed :: "ensure_caller \<Rightarrow> thrown \<Rightarrow> host \<Rightarrow> host" where
  "ensure_failed ec e h =
     (case ec of
        ForRunning c \<Rightarrow> server_failed c e h
      | ForStarted c i version baseUrl \<Rightarrow> server_failed c e (setup_failed i e h))"

definition ensureSession :: "ensure_caller \<Rightarrow> host \<Rightarrow> host" where
  "ensureSession ec h =
     (case hoSession h of Some _ \<Rightarrow> ensure_done ec h | None \<Rightarrow> wait_for (WList ec) h)"

text \<open>
  A session was found or created: the board watermark starts anew and the history is read.  An
  empty id counts as no session: every read of \<open>active.sessionId\<close> is a truthiness test.
\<close>

definition truthy_id :: "jsstr \<Rightarrow> jsstr option" where
  "truthy_id sid = (if sid = [] then None else Some sid)"

definition session_found :: "ensure_caller \<Rightarrow> jsstr \<Rightarrow> host \<Rightarrow> host" where
  "session_found ec sid h = wait_for (WHistory ec sid) (h\<lparr>hoSession := truthy_id sid, hoSeen := 0\<rparr>)"

definition create_session :: "host_env \<Rightarrow> ensure_caller \<Rightarrow> bindings \<Rightarrow> jsstr \<Rightarrow> jsstr \<Rightarrow> host \<Rightarrow> host" where
  "create_session env ec bnds provider model h =
     wait_for (WCreate ec bnds provider model)
       (send (OCall (CallCreate (if provider = [] then js ''faktor'' else provider)
          (if model = [] then js ''default'' else model) (heFsPath env) (heTitle env))) h)"

definition bound_text :: "bindings \<Rightarrow> jsstr option \<Rightarrow> jsstr option" where
  "bound_text bnds key =
     (case key of
        None \<Rightarrow> None
      | Some k \<Rightarrow> (case jget bnds k of JStr (c # s) \<Rightarrow> Some (c # s) | _ \<Rightarrow> None))"

text \<open>The choice of the session: the bound one, the remembered one, or a new one.\<close>

definition choose_session ::
  "host_env \<Rightarrow> ensure_caller \<Rightarrow> bindings \<Rightarrow> session_row list \<Rightarrow> bool \<Rightarrow> host \<Rightarrow> host" where
  "choose_session env ec bnds sessions listed h =
     (let boundId = boundSessionFor (heKey env) (map srId sessions) bnds;
          boundSummary = (case boundId of Some b \<Rightarrow> find (\<lambda>row. srId row = b) sessions | None \<Rightarrow> None)
      in case (boundId, boundSummary) of
           (Some b, Some row) \<Rightarrow>
             session_found ec b (patch_shown (\<lambda>s. s\<lparr>shSession := Some row\<rparr>) (h\<lparr>hoSession := Some b\<rparr>))
         | _ \<Rightarrow>
             (case (if boundId = None \<and> \<not> listed then bound_text bnds (heKey env) else None) of
                Some sid \<Rightarrow> session_found ec sid h
              | None \<Rightarrow>
                  if heProvider env = [] \<or> heModel env = [] then wait_for (WCatalog ec bnds) h
                  else create_session env ec bnds (heProvider env) (heModel env) h))"

text \<open>After \<open>listSessions\<close>: the pruned bindings are written, unless the listing failed.\<close>

definition list_settled :: "host_env \<Rightarrow> ensure_caller \<Rightarrow> thrown + session_row list \<Rightarrow> host \<Rightarrow> host" where
  "list_settled env ec outcome h =
     (case outcome of
        Inr rows \<Rightarrow>
          (let h1 = patch_shown (\<lambda>s. s\<lparr>shSessions := rows\<rparr>) h;
               bnds = pruneBindings (readBindings (hoStored h1)) (map srId rows)
           in wait_for (WPruned ec bnds rows) (h1\<lparr>hoStored := JObj bnds\<rparr>))
      | Inl e \<Rightarrow>
          (let h1 = show_error e h
           in choose_session env ec (pruneBindings (readBindings (hoStored h1)) []) [] False h1))"

text \<open>After the write of the pruned bindings, whose error ends \<open>ensureSession\<close>.\<close>

definition pruned_written ::
  "host_env \<Rightarrow> ensure_caller \<Rightarrow> bindings \<Rightarrow> session_row list \<Rightarrow> thrown option \<Rightarrow> host \<Rightarrow> host" where
  "pruned_written env ec bnds rows failed h =
     (case failed of
        Some e \<Rightarrow> ensure_failed ec e h
      | None \<Rightarrow> choose_session env ec bnds rows True h)"

text \<open>After \<open>modelCatalog\<close>, whose error is ignored.\<close>

definition catalog_settled ::
  "host_env \<Rightarrow> ensure_caller \<Rightarrow> bindings \<Rightarrow> thrown + model_info list \<Rightarrow> host \<Rightarrow> host" where
  "catalog_settled env ec bnds outcome h =
     (case outcome of
        Inr (info # _) \<Rightarrow>
          create_session env ec bnds (if heProvider env = [] then miProvider info else heProvider env)
            (if heModel env = [] then miModel info else heModel env) h
      | _ \<Rightarrow> create_session env ec bnds (heProvider env) (heModel env) h)"

definition create_settled ::
  "host_env \<Rightarrow> ensure_caller \<Rightarrow> bindings \<Rightarrow> jsstr \<Rightarrow> jsstr \<Rightarrow> thrown + session_created \<Rightarrow> host \<Rightarrow> host" where
  "create_settled env ec bnds provider model outcome h =
     (case outcome of
        Inl e \<Rightarrow> ensure_failed ec e h
      | Inr created \<Rightarrow>
          wait_for (WBound ec created provider model)
            (h\<lparr>hoSession := truthy_id (scId created),
               hoStored := JObj (withBinding bnds (heKey env) (scId created))\<rparr>))"

text \<open>
  After the write of the new binding.  The session is the one of this moment: a stop meanwhile
  has forgotten it.  An error leaves the created session entered but not on display.
\<close>

definition binding_written ::
  "ensure_caller \<Rightarrow> session_created \<Rightarrow> jsstr \<Rightarrow> jsstr \<Rightarrow> thrown option \<Rightarrow> host \<Rightarrow> host" where
  "binding_written ec created provider model failed h =
     (case failed of
        Some e \<Rightarrow> ensure_failed ec e h
      | None \<Rightarrow>
          wait_for (WHistory ec (case hoSession h of Some sid \<Rightarrow> sid | None \<Rightarrow> []))
            (patch_shown (\<lambda>s. s\<lparr>shSession := Some \<lparr>srId = scId created, srTitle = scTitle created,
               srProvider = provider, srModel = model, srState = js ''unknown''\<rparr>\<rparr>) (h\<lparr>hoSeen := 0\<rparr>)))"

definition history_settled :: "ensure_caller \<Rightarrow> thrown + message_page \<Rightarrow> host \<Rightarrow> host" where
  "history_settled ec outcome h =
     ensure_done ec
       (case outcome of
          Inr page \<Rightarrow> patch_shown (\<lambda>s. s\<lparr>shTranscript := transcriptOf page\<rparr>) h
        | Inl e \<Rightarrow> show_error e h)"

section \<open>startServer\<close>

text \<open>\<open>binary\<close> is the result of \<open>findBinary\<close> at this moment.\<close>

definition startServer :: "jsstr + jsstr \<Rightarrow> caller \<Rightarrow> host \<Rightarrow> host" where
  "startServer binary c h =
     (if (case hoDaemon h of Some i \<Rightarrow> child_alive (hoModule h) i | None \<Rightarrow> False) \<and> hoClient h \<noteq> None
      then (if hoSession h = None then ensureSession (ForRunning c) h else server_started c h)
      else
        (let h1 = patch_shown (\<lambda>s. s\<lparr>shDaemon := js ''starting'', shDetail := js ''locating faktor-cli'',
               shError := None\<rparr>) h
         in if isRunning (hoModule h1) then wait_for (WSpawn c (the (dmActive (hoModule h1)))) h1
            else (case binary of
                Inl m \<Rightarrow> server_failed c (ThrownError m) h1
              | Inr _ \<Rightarrow>
                  wait_for (WSpawn c (length (dmChildren (hoModule h1))))
                    (h1\<lparr>hoModule := startDaemon (hoModule h1)\<rparr>))))"

text \<open>After \<open>startDaemon\<close>: the handle, or an error, which leaves the snapshot to the caller.\<close>

definition spawn_settled :: "caller \<Rightarrow> nat \<Rightarrow> thrown + daemon_handle \<Rightarrow> host \<Rightarrow> host" where
  "spawn_settled c i outcome h =
     (case outcome of
        Inl e \<Rightarrow> server_failed c e (h\<lparr>hoModule := daemon_step (hoModule h) (DFailed i)\<rparr>)
      | Inr handle \<Rightarrow>
          wait_for (WHealth c i handle) (h\<lparr>hoModule := daemon_step (hoModule h) (DReady i)\<rparr>))"

definition health_settled :: "caller \<Rightarrow> nat \<Rightarrow> daemon_handle \<Rightarrow> thrown + native_health \<Rightarrow> host \<Rightarrow> host" where
  "health_settled c i handle outcome h =
     (case outcome of
        Inl e \<Rightarrow> server_failed c e (setup_failed i e h)
      | Inr health \<Rightarrow>
          ensureSession (ForStarted c i (nhVersion health) (dhBaseUrl handle))
            (patch_shown (\<lambda>s. s\<lparr>shDaemon := js ''running'',
                 shDetail := nhVersion health @ js '' on port '' @ number_string (dhPort handle),
                 shBaseUrl := Some (dhBaseUrl handle), shError := None\<rparr>)
               (h\<lparr>hoDaemon := Some i, hoClient := Some i\<rparr>)))"

end
