(* ===== verification/HostRefresh.thy ===== *)
theory HostRefresh
  imports HostState Board
begin

text \<open>
  \<open>refresh\<close> and the reads of the coordination board in \<open>apps/vscode/src/extension.ts\<close>: the bundle of
  reads, the task verification with its cache, the tournament on display, the patch of the
  snapshot, and the board with its read watermark.
\<close>

section \<open>The board block\<close>

definition boardRouteMissing :: "thrown \<Rightarrow> bool" where
  "boardRouteMissing e =
     (case e of ThrownApi status _ _ \<Rightarrow> status = 404 \<or> status = 405 \<or> status = 501 | _ \<Rightarrow> False)"

definition route_missing_board :: "thrown \<Rightarrow> board_state_summary" where
  "route_missing_board e =
     unavailableBoardState
       (case e of
          ThrownApi status code _ \<Rightarrow> js ''the serving daemon exposes no coordination-board route (HTTP ''
            @ int_string status @ js '' '' @ code @ js '')''
        | _ \<Rightarrow> []) (js ''none'')"

text \<open>\<open>seen\<close> is the watermark at the moment the page arrives.\<close>

definition boardFor :: "thrown + native_board_page \<Rightarrow> int \<Rightarrow> board_state_summary" where
  "boardFor outcome seen =
     (case outcome of
        Inr page \<Rightarrow> fst (boardStateFromPage page (Some seen))
      | Inl e \<Rightarrow>
          if boardRouteMissing e then route_missing_board e
          else unavailableBoardState (js ''board read failed: '' @ messageOf e) (js ''none''))"

section \<open>Reading the board on request\<close>

definition readBoard :: "int option \<Rightarrow> int option \<Rightarrow> host \<Rightarrow> host" where
  "readBoard since limit h =
     (case (hoClient h, hoSession h) of
        (Some _, Some sid) \<Rightarrow> wait_for (WBoardRead sid since) (send (OCall (CallBoard sid since limit)) h)
      | _ \<Rightarrow> h)"

definition board_read_settled :: "int option \<Rightarrow> thrown + native_board_page \<Rightarrow> host \<Rightarrow> host" where
  "board_read_settled since outcome h =
     (case outcome of
        Inr page \<Rightarrow>
          (let h1 = (if since = None then h\<lparr>hoSeen := npRevision page\<rparr> else h)
           in patch_shown (\<lambda>s. s\<lparr>shBoard := Some (fst (boardStateFromPage page (Some (hoSeen h1))))\<rparr>) h1)
      | Inl e \<Rightarrow>
          if boardRouteMissing e
          then patch_shown (\<lambda>s. s\<lparr>shBoard := Some (route_missing_board e)\<rparr>) h
          else reportError e h)"

text \<open>The \<open>boardRead\<close> message.\<close>

definition board_read_message :: "jsval props \<Rightarrow> host \<Rightarrow> host" where
  "board_read_message message h =
     (case parseBoardReadRequest (jget message (js ''since'')) (jget message (js ''limit'')) of
        Inl reason \<Rightarrow> send (OError reason) h
      | Inr (since, limit) \<Rightarrow> readBoard since limit h)"

section \<open>Posting\<close>

definition postBoard :: "jsval props \<Rightarrow> host \<Rightarrow> host" where
  "postBoard message h =
     (case parseBoardPostRequest message of
        Inl reason \<Rightarrow> send (OError reason) h
      | Inr request \<Rightarrow>
          (case (hoClient h, hoSession h) of
             (Some _, Some sid) \<Rightarrow> wait_for (WBoardPost sid) (send (OCall (CallPost sid request)) h)
           | _ \<Rightarrow> send (OInfo (js ''start the daemon before posting to the board'')) h))"

definition board_post_settled :: "thrown + native_board_post \<Rightarrow> host \<Rightarrow> host" where
  "board_post_settled outcome h =
     (case outcome of
        Inr post \<Rightarrow>
          scheduleRefresh
            (send (OInfo (js ''board post #'' @ int_string (nbRevision post) @ js '' recorded''))
              (h\<lparr>hoSeen := max (hoSeen h) (nbRevision post)\<rparr>))
      | Inl e \<Rightarrow> reportError e h)"

section \<open>The reads of a refresh\<close>

definition refresh :: "host \<Rightarrow> host" where
  "refresh h =
     (case (hoClient h, hoSession h) of
        (Some _, Some sid) \<Rightarrow>
          if hoRefreshing h then h else wait_for (WRefresh sid None) (h\<lparr>hoRefreshing := True\<rparr>)
      | _ \<Rightarrow> h)"

definition refresh_timer :: "host \<Rightarrow> host" where
  "refresh_timer h = (if hoTimer h then refresh (h\<lparr>hoTimer := False\<rparr>) else h)"

text \<open>The board part arrives on its own; it is awaited after the other reads.\<close>

definition refresh_board :: "jsstr \<Rightarrow> thrown + native_board_page \<Rightarrow> host \<Rightarrow> host" where
  "refresh_board sid outcome h = wait_for (WRefresh sid (Some (boardFor outcome (hoSeen h)))) h"

text \<open>One of the reads failed: \<open>catch\<close> and \<open>finally\<close>.\<close>

definition refresh_failed :: "thrown \<Rightarrow> host \<Rightarrow> host" where
  "refresh_failed e h = (show_error e h)\<lparr>hoRefreshing := False\<rparr>"

definition verification_key :: "refresh_reads \<Rightarrow> task_summary option \<Rightarrow> (jsstr \<times> jsstr) option" where
  "verification_key reads task =
     (case (task, rrRuns reads) of
        (Some t, run # _) \<Rightarrow>
          (let taskId = number_string (num_of_int (nrTaskId run))
           in Some (taskId, taskId @ js '':'' @ tsState t @ js '':''
                @ decimal_nat (length (nwFailedChecks (rrVerification reads))) @ js '':''
                @ decimal_nat (length (nwOwed (rrVerification reads)))))
      | _ \<Rightarrow> None)"

text \<open>
  All reads and the board are there: the summaries are computed, the tracked run and the
  presence map are updated, and \<open>taskVerificationFor\<close> begins.  It has its answer at once (\<open>Inl\<close>) or
  reads a task (its id and the key of the cache).
\<close>

definition refresh_reads_settled :: "jsstr \<Rightarrow> board_state_summary \<Rightarrow> refresh_reads \<Rightarrow> host \<Rightarrow> host" where
  "refresh_reads_settled sid board reads h =
     (let task = (case rrTasks reads of
            [] \<Rightarrow> None
          | view # _ \<Rightarrow> Some (taskSummary view
              (case rrRuns reads of [] \<Rightarrow> None | run # _ \<Rightarrow> Some (nrState run)) (hoContract h)));
          activeRunId = activeRunIdAfter (hoRun h) (map runSummary (rrRuns reads));
          agentFrame = map agent_json (rrAgents reads);
          result = \<lparr>reReads = reads, reBoard = board, reTask = task, reActiveRun = activeRunId,
            reAgents = summarizeAgents agentFrame (map modelInfoOf (rrCatalog reads)) (Some (hoPresence h)),
            reVerification = verificationSummary (rrVerification reads),
            reUsage = usageSummary (rrUsage reads), reRecords = None\<rparr>;
          h1 = h\<lparr>hoRun := activeRunId, hoPresence := nextPixelPresence (hoPresence h) agentFrame\<rparr>
      in case verification_key reads task of
           None \<Rightarrow> wait_for (WVerification sid result (Inl None)) (h1\<lparr>hoTvKey := None, hoTv := None\<rparr>)
         | Some (taskId, key) \<Rightarrow>
             if hoTvKey h1 = Some key then wait_for (WVerification sid result (Inl (hoTv h1))) h1
             else wait_for (WVerification sid result (Inr (taskId, key))) h1)"

text \<open>After \<open>taskVerificationFor\<close>; a failed read leaves the cached answer.\<close>

definition verification_settled ::
  "jsstr \<Rightarrow> refresh_result \<Rightarrow> task_verification option + jsstr \<times> jsstr \<Rightarrow> thrown + task_verification
     \<Rightarrow> host \<Rightarrow> host" where
  "verification_settled sid result asked outcome h =
     (let (view, h1) = (case asked of
            Inl cached \<Rightarrow> (cached, h)
          | Inr (_, key) \<Rightarrow>
              (case outcome of
                 Inr view \<Rightarrow> (Some view, h\<lparr>hoTvKey := Some key, hoTv := Some view\<rparr>)
               | Inl _ \<Rightarrow> (hoTv h, h)))
      in wait_for (WTournaments sid (result\<lparr>reRecords := cockpitTaskVerificationView view\<rparr>)) h1)"

section \<open>The end of a refresh\<close>

definition cockpit_of :: "refresh_result \<Rightarrow> tournament_view option \<Rightarrow> cockpit_view option" where
  "cockpit_of result tournament =
     buildCockpit \<lparr>ciTask = reTask result, ciAgents = reAgents result,
       ciVerification = Some (reVerification result), ciUsage = Some (reUsage result),
       ciRecords = reRecords result, ciTournament = tournament\<rparr>"

definition refreshed :: "refresh_result \<Rightarrow> tournament_view option \<Rightarrow> shown \<Rightarrow> shown" where
  "refreshed result tournament s =
     (let cockpit = cockpit_of result tournament
      in s\<lparr>shSessions := rrSessions (reReads result), shMachineState := rrMachineState (reReads result),
           shMachineLabel := rrMachineLabel (reReads result), shTask := reTask result,
           shVerification := Some (reVerification result), shUsage := Some (reUsage result),
           shAgents := reAgents result, shRuns := map runSummary (rrRuns (reReads result)),
           shActiveRun := reActiveRun result, shBusy := (reActiveRun result \<noteq> None),
           shCockpit := cockpit,
           shSections := (case cockpit of None \<Rightarrow> [] | Some c \<Rightarrow> cockpitSections c),
           shTournament := (case cockpit of None \<Rightarrow> None | Some c \<Rightarrow> cpTournament c),
           shBoard := Some (reBoard result), shError := None\<rparr>)"

definition refresh_done :: "refresh_result \<Rightarrow> native_tournament option \<Rightarrow> host \<Rightarrow> host" where
  "refresh_done result tournament h =
     (let h1 = patch_shown (refreshed result (tournamentViewOf tournament)) h;
          transcript = transcriptOf (rrMessages (reReads result));
          h2 = (if transcriptSignature transcript \<noteq> transcriptSignature (shTranscript (hoShown h1))
                then patch_shown (\<lambda>s. s\<lparr>shTranscript := transcript\<rparr>) h1 else h1)
      in h2\<lparr>hoRefreshing := False\<rparr>)"

text \<open>The tournament that is loaded: the tracked one while it is listed, else the newest.\<close>

definition tournament_target :: "jsstr option \<Rightarrow> tournament_summary list \<Rightarrow> jsstr option" where
  "tournament_target tracked summaries =
     (case tracked of
        Some t \<Rightarrow>
          if list_ex (\<lambda>summary. tyId summary = t) summaries then Some t
          else if length summaries > 0 then Some (tyId (last summaries)) else None
      | None \<Rightarrow> if length summaries > 0 then Some (tyId (last summaries)) else None)"

definition tournaments_settled ::
  "jsstr \<Rightarrow> refresh_result \<Rightarrow> thrown + tournament_summary list \<Rightarrow> host \<Rightarrow> host" where
  "tournaments_settled sid result outcome h =
     (case outcome of
        Inl _ \<Rightarrow> refresh_done result None (h\<lparr>hoTournament := None\<rparr>)
      | Inr summaries \<Rightarrow>
          (case tournament_target (hoTournament h) summaries of
             None \<Rightarrow> refresh_done result None (h\<lparr>hoTournament := None\<rparr>)
           | Some target \<Rightarrow> wait_for (WTournament sid result target) h))"

definition tournament_settled :: "refresh_result \<Rightarrow> thrown + tournament_response \<Rightarrow> host \<Rightarrow> host" where
  "tournament_settled result outcome h =
     (case outcome of
        Inl _ \<Rightarrow> refresh_done result None h
      | Inr state \<Rightarrow>
          refresh_done result (Some (as_native_tournament state)) (h\<lparr>hoTournament := Some (tpoId state)\<rparr>))"

end
