(* ===== verification/HostActions.thy ===== *)
theory HostActions
  imports HostSession HostRefresh KiloInbound
begin

text \<open>
  The actions of the user in \<open>apps/vscode/src/extension.ts\<close>: starting and cancelling a task run,
  the control of tournaments and agents, the evidence preview, and the dispatch of the webview
  messages.
\<close>

section \<open>Starting a task\<close>

text \<open>The callbacks of the admission, one call of its log at a time.\<close>

definition run_started :: "task_start \<Rightarrow> task_run_started \<Rightarrow> host \<Rightarrow> host" where
  "run_started t started h =
     (let attached = length (tgFiles t) + length (psAttachments (tgPending t));
          attachments = (if attached > 0 then js '' with '' @ decimal_nat attached @ js '' attachment(s)'' else []);
          steps = (if tgContract t \<noteq> None then js '' + completion contract'' else [])
      in scheduleRefresh
           (send (OInfo (js ''task run '' @ trRunId started @ js '' started ('' @ trState started @ js '')''
              @ attachments @ steps))
            (patch_shown (\<lambda>s. s\<lparr>shActiveRun := Some (trRunId started), shBusy := True, shError := None\<rparr>)
              (h\<lparr>hoRun := Some (trRunId started), hoContract := tgContract t\<rparr>))))"

definition restore_draft :: "task_start \<Rightarrow> jsstr \<Rightarrow> host \<Rightarrow> host" where
  "restore_draft t message h =
     send (ORestore (tgPending t) message) (reportError (ThrownError message) h)"

definition admission_call :: "task_start \<Rightarrow> host \<Rightarrow> call \<Rightarrow> host" where
  "admission_call t h c =
     (case c of
        COnStarted started \<Rightarrow> run_started t started h
      | COnFailure failure \<Rightarrow> reportError (ThrownError (sfMessage failure)) h
      | CRestore failure \<Rightarrow> restore_draft t (sfMessage failure) h
      | _ \<Rightarrow> send (OCall (CallAdmission c)) h)"

definition start_settings :: "host_env \<Rightarrow> task_start \<Rightarrow> start_task_settings" where
  "start_settings env t =
     \<lparr>stMutationMode = heMutationMode env, stMaxTokens = heMaxTokens env,
      stMaxCostMicro = heMaxCostMicro env, stFiles = Some (tgFiles t), stAttachments = None,
      stCompletion = tgContract t\<rparr>"

text \<open>
  \<open>admitPendingSubmission\<close> as the host runs it, cut at its \<open>await\<close>s.  A step makes one call and
  goes on with its answer: the next attachment that is not uploaded yet, or the start when
  none is left.  \<open>uploaded\<close> and \<open>calls\<close> are the ids and the calls so far; between two steps
  every other part of the host may run.  The scan for images, which the code does without
  waiting, is part of the first step.
\<close>

definition admission_failed :: "task_start \<Rightarrow> start_failure \<Rightarrow> host \<Rightarrow> host" where
  "admission_failed t failure h = foldl (admission_call t) h [COnFailure failure, CRestore failure]"

definition admission_next ::
  "host_env \<Rightarrow> client \<Rightarrow> jsstr \<Rightarrow> task_start \<Rightarrow> native_attachment_id list \<Rightarrow> call list \<Rightarrow> host \<Rightarrow> host" where
  "admission_next env client sid t uploaded calls h =
     (case drop (length uploaded) (psAttachments (tgPending t)) of
        a # _ \<Rightarrow>
          (let request = CUpload sid (attachment_request a);
               h1 = admission_call t h request
           in case clUpload client calls sid (attachment_request a) of
                Inl e \<Rightarrow> admission_failed t (uploadFailureOf e sid) h1
              | Inr i \<Rightarrow> wait_for (WUpload sid t (uploaded @ [i]) (calls @ [request])) h1)
      | [] \<Rightarrow>
          (case startTaskRun client sid (psText (tgPending t))
              ((start_settings env t)\<lparr>stAttachments := Some uploaded\<rparr>) calls of
             (outcome, calls1) \<Rightarrow>
               (let h1 = foldl (admission_call t) h (drop (length calls) calls1)
                in case outcome of
                     Inr _ \<Rightarrow> send (OStartResult (tgGoal t) True) h1
                   | Inl failure \<Rightarrow> admission_call t h1 (CRestore failure))))"

definition admission_settled :: "host_env \<Rightarrow> client \<Rightarrow> jsstr \<Rightarrow> task_start \<Rightarrow> host \<Rightarrow> host" where
  "admission_settled env client sid t h =
     (case find is_image (psAttachments (tgPending t)) of
        Some _ \<Rightarrow> admission_failed t image_failure h
      | None \<Rightarrow> admission_next env client sid t [] [] h)"

definition startTask :: "jsstr + jsstr \<Rightarrow> task_start \<Rightarrow> host \<Rightarrow> host" where
  "startTask binary t h =
     (if hoClient h = None \<or> hoSession h = None then startServer binary (ByTask t) h else task_ready t h)"

text \<open>The refusals of single files, the first five of them.\<close>

definition refused_notice :: "(nat \<times> jsstr) list \<Rightarrow> jsstr" where
  "refused_notice refused =
     decimal_nat (length refused) @ js '' attachment(s) refused: ''
       @ join (js ''; '') (map (\<lambda>(index, reason). js ''#'' @ decimal_nat index @ js '': '' @ reason) (take 5 refused))"

definition sendGoal :: "jsstr + jsstr \<Rightarrow> jsval props \<Rightarrow> host \<Rightarrow> host" where
  "sendGoal binary message h =
     (let goal = (case jget message (js ''goal'') of JStr g \<Rightarrow> trim g | _ \<Rightarrow> [])
      in if goal = [] then h
         else
           (case boundedWebviewFiles (jget message (js ''files'')) of
              (files, refused) \<Rightarrow>
                (let h1 = (if refused \<noteq> [] then send (OError (refused_notice refused)) h else h)
                 in case parseCompletionContract (jget message (js ''completionContract'')) of
                      Inl reason \<Rightarrow>
                        send (OStartResult goal False) (send (OError (js ''task start refused: '' @ reason)) h1)
                    | Inr contract \<Rightarrow>
                        if \<not> nullish (jget message (js ''pending''))
                        then (case parsePendingSubmission (jget message (js ''pending'')) of
                            None \<Rightarrow>
                              send (OError (js ''task start refused: malformed pending submission envelope; the draft was kept'')) h1
                          | Some pending \<Rightarrow>
                              startTask binary \<lparr>tgGoal = goal, tgFiles = files, tgContract = contract,
                                tgPending = pending\<rparr> h1)
                        else
                          (let refs = (case jget message (js ''attachments'') of JArr vs \<Rightarrow> length vs | _ \<Rightarrow> 0);
                               h2 = (if refs > 0
                                 then send (OInfo (decimal_nat refs @ js '' binary attachment reference(s) noted; only workspace-relative file paths reach the native run'')) h1
                                 else h1)
                           in startTask binary \<lparr>tgGoal = goal, tgFiles = files, tgContract = contract,
                                tgPending = pendingEnvelope goal\<rparr> h2))))"

text \<open>The command: a goal and the picked steps; no pick is no contract.\<close>

definition promptCompletionContract :: "jsstr list option \<Rightarrow> completion_contract option" where
  "promptCompletionContract picks =
     (case picks of
        Some (p # ps) \<Rightarrow>
          Some \<lparr>ccCommit = List.member (p # ps) (js ''include_commit''),
                ccPush = List.member (p # ps) (js ''include_push''),
                ccPr = List.member (p # ps) (js ''include_pr'')\<rparr>
      | _ \<Rightarrow> None)"

definition newTaskFromCommand :: "jsstr + jsstr \<Rightarrow> jsstr option \<Rightarrow> jsstr list option \<Rightarrow> host \<Rightarrow> host" where
  "newTaskFromCommand binary goal picks h =
     (case goal of
        None \<Rightarrow> h
      | Some g \<Rightarrow>
          if trim g = [] then h
          else startTask binary \<lparr>tgGoal = trim g, tgFiles = [], tgContract = promptCompletionContract picks,
                 tgPending = pendingEnvelope (trim g)\<rparr> h)"

section \<open>Cancelling\<close>

definition cancelActiveRun :: "host \<Rightarrow> host" where
  "cancelActiveRun h =
     (case (hoClient h, hoSession h, cancelRunTarget (hoRun h) (shRuns (hoShown h))) of
        (Some _, Some sid, Some runId) \<Rightarrow> wait_for (WCancel sid runId) (send (OCall (CallCancel sid runId)) h)
      | _ \<Rightarrow> send (OInfo (js ''no active task run to cancel'')) h)"

text \<open>The acknowledgement names the run.\<close>

definition cancel_settled :: "thrown + jsstr \<Rightarrow> host \<Rightarrow> host" where
  "cancel_settled outcome h =
     (case outcome of
        Inl e \<Rightarrow> reportError e h
      | Inr runId \<Rightarrow>
          scheduleRefresh
            (patch_shown (\<lambda>s. s\<lparr>shActiveRun := None, shBusy := False\<rparr>)
              ((send (OInfo (js ''run '' @ runId @ js '' cancel requested'')) h)\<lparr>hoRun := None\<rparr>)))"

section \<open>Tournaments\<close>

definition message_text :: "jsval props \<Rightarrow> string \<Rightarrow> jsstr" where
  "message_text message key = (case jget message (js key) of JStr s \<Rightarrow> s | _ \<Rightarrow> [])"

definition controlTournament :: "jsval props \<Rightarrow> host \<Rightarrow> host" where
  "controlTournament message h =
     (let tournamentId = trim (message_text message ''tournamentId''); action = message_text message ''action''
      in case (hoClient h, hoSession h) of
           (Some _, Some sid) \<Rightarrow>
             if tournamentId = [] then h
             else
               (let shown_one = (case shTournament (hoShown h) of
                      Some view \<Rightarrow> if tvId view = tournamentId then Some view else None | None \<Rightarrow> None)
                in if action = js ''decide'' \<and> (case shown_one of Some view \<Rightarrow> \<not> tvCanDecide view | None \<Rightarrow> False)
                   then send (OInfo (js ''tournament '' @ tournamentId @ js '' cannot decide yet'')) h
                   else if action = js ''abort'' \<and> (case shown_one of Some view \<Rightarrow> \<not> tvOpen view | None \<Rightarrow> False)
                   then send (OInfo (js ''tournament '' @ tournamentId @ js '' is no longer open'')) h
                   else if action = js ''decide''
                   then wait_for (WDecide tournamentId) (send (OCall (CallDecide sid tournamentId)) h)
                   else if action = js ''abort''
                   then (let reason = trim (message_text message ''reason'')
                         in wait_for (WAbort tournamentId)
                              (send (OCall (CallAbort sid tournamentId
                                 (if reason = [] then None else Some reason))) h))
                   else h)
         | _ \<Rightarrow> h)"

definition decide_settled :: "thrown + tournament_decision \<Rightarrow> host \<Rightarrow> host" where
  "decide_settled outcome h =
     (case outcome of
        Inl e \<Rightarrow> reportError e h
      | Inr decision \<Rightarrow>
          scheduleRefresh (send (OInfo (js ''tournament '' @ teTournamentId decision @ js '': winner ''
            @ teWinner decision @ js '' proposed (integration stays the approved-merge path)'')) h))"

definition abort_settled :: "jsstr \<Rightarrow> thrown option \<Rightarrow> host \<Rightarrow> host" where
  "abort_settled tournamentId failed h =
     (case failed of
        Some e \<Rightarrow> reportError e h
      | None \<Rightarrow> scheduleRefresh (send (OInfo (js ''tournament '' @ tournamentId @ js '' aborted'')) h))"

section \<open>Agents\<close>

datatype agent_plan = PlanCall agent_call | PlanPrompt | PlanRefuse jsstr | PlanNothing

definition steer_plan :: "jsstr \<Rightarrow> agent_plan" where
  "steer_plan text =
     (case normalizeSteerText (JStr text) of Inl reason \<Rightarrow> PlanRefuse reason | Inr note \<Rightarrow> PlanCall (ASteer note))"

definition agent_plan_of :: "jsval props \<Rightarrow> jsstr option \<Rightarrow> agent_plan" where
  "agent_plan_of message session =
     (let action = message_text message ''action''
      in if action = js ''pause'' then PlanCall APause
         else if action = js ''resume'' then PlanCall AResume
         else if action = js ''cancel'' then PlanCall ACancel
         else if action = js ''retry'' then PlanCall ARetry
         else if action = js ''steer''
           then (case jget message (js ''text'') of JStr text \<Rightarrow> steer_plan text | _ \<Rightarrow> PlanPrompt)
         else if action = js ''model'' \<or> action = js ''budget'' then PlanPrompt
         else if action = js ''presentation'' then
           (let state = jget message (js ''state'')
            in if state \<noteq> JStr (js ''foreground'') \<and> state \<noteq> JStr (js ''background'')
               then PlanRefuse (js ''presentation state must be foreground or background'')
               else (case session of
                   None \<Rightarrow> PlanNothing
                 | Some sid \<Rightarrow>
                     PlanCall (APresentation
                       (if state = JStr (js ''foreground'') then Foreground else Background) sid)))
         else PlanNothing)"

text \<open>What the user typed at the prompt of an action; \<open>None\<close> is a dismissed prompt.\<close>

definition prompt_plan :: "jsstr \<Rightarrow> jsstr option \<Rightarrow> agent_plan" where
  "prompt_plan action entered =
     (case entered of
        None \<Rightarrow> PlanNothing
      | Some text \<Rightarrow>
          if action = js ''steer'' then steer_plan text
          else if action = js ''model''
          then (if trim text = [] then PlanNothing else PlanCall (AModel (trim text)))
          else if trim text = [] then PlanCall (ABudget None)
          else (let tokens = number_of_string (trim text)
                in if is_integer tokens \<and> int_of_num tokens > 0 then PlanCall (ABudget (Some tokens))
                   else PlanRefuse (js ''budget must be a positive integer token count'')))"

definition follow_plan :: "jsstr \<Rightarrow> jsstr \<Rightarrow> agent_plan \<Rightarrow> host \<Rightarrow> host" where
  "follow_plan agentId action plan h =
     (case plan of
        PlanCall c \<Rightarrow> wait_for (WAgent agentId action) (send (OCall (CallAgent agentId c)) h)
      | PlanPrompt \<Rightarrow> wait_for (WPrompt agentId action) h
      | PlanRefuse reason \<Rightarrow> reportError (ThrownError reason) h
      | PlanNothing \<Rightarrow> h)"

definition controlAgent :: "jsval props \<Rightarrow> host \<Rightarrow> host" where
  "controlAgent message h =
     (let agentId = message_text message ''agentId''
      in if hoClient h = None \<or> agentId = [] then h
         else follow_plan agentId (message_text message ''action'') (agent_plan_of message (hoSession h)) h)"

definition prompt_settled :: "jsstr \<Rightarrow> jsstr \<Rightarrow> jsstr option \<Rightarrow> host \<Rightarrow> host" where
  "prompt_settled agentId action entered h = follow_plan agentId action (prompt_plan action entered) h"

definition agent_settled :: "jsstr \<Rightarrow> jsstr \<Rightarrow> thrown option \<Rightarrow> host \<Rightarrow> host" where
  "agent_settled agentId action failed h =
     (case failed of
        Some e \<Rightarrow> reportError e h
      | None \<Rightarrow> scheduleRefresh (send (OInfo (action @ js '' queued for '' @ agentId)) h))"

section \<open>Evidence\<close>

definition MAX_EVIDENCE_PREVIEW_BYTES :: nat where [cap_simps]: "MAX_EVIDENCE_PREVIEW_BYTES = 256 * 1024"

definition retrieveEvidence :: "jsval props \<Rightarrow> host \<Rightarrow> host" where
  "retrieveEvidence message h =
     (case (hoClient h, hoSession h, jget message (js ''evidenceId'')) of
        (Some _, Some sid, JNum x) \<Rightarrow>
          (case integer_value x of
             Some i \<Rightarrow> wait_for (WEvidence i) (send (OCall (CallEvidence sid i)) h)
           | None \<Rightarrow> h)
      | _ \<Rightarrow> h)"

definition evidence_settled ::
  "(8 word list \<Rightarrow> jsstr) \<Rightarrow> int \<Rightarrow> thrown + evidence_retrieval \<Rightarrow> host \<Rightarrow> host" where
  "evidence_settled decode i outcome h =
     (case outcome of
        Inl e \<Rightarrow> reportError e h
      | Inr retrieval \<Rightarrow>
          (let bytes = base64_decode (rtBytesBase64 retrieval);
               truncated = (rtTruncated retrieval \<or> length bytes > MAX_EVIDENCE_PREVIEW_BYTES)
           in send (OEvidence i (decode (take MAX_EVIDENCE_PREVIEW_BYTES bytes)) truncated) h))"

section \<open>The webview messages\<close>

text \<open>\<open>newTask\<close> opens prompts first; its answers come with \<open>newTaskFromCommand\<close>.\<close>

definition handleWebviewMessage :: "jsstr + jsstr \<Rightarrow> jsval props \<Rightarrow> host \<Rightarrow> host" where
  "handleWebviewMessage binary message h =
     (let type' = message_text message ''type''
      in if type' = js ''ready'' then send (OSnapshot (hoShown h)) h
         else if type' = js ''startDaemon'' then startServer binary ByCommand h
         else if type' = js ''stopDaemon'' then stopServer h
         else if type' = js ''refresh'' then refresh h
         else if type' = js ''sendGoal'' then sendGoal binary message h
         else if type' = js ''cancelRun'' then cancelActiveRun h
         else if type' = js ''agentControl'' then controlAgent message h
         else if type' = js ''tournamentControl'' then controlTournament message h
         else if type' = js ''retrieveEvidence'' then retrieveEvidence message h
         else if type' = js ''boardRead'' then board_read_message message h
         else if type' = js ''boardPost'' then postBoard message h
         else h)"

end
