(* ===== verification/Host.thy ===== *)
theory Host
  imports HostActions
begin

text \<open>
  The extension host as a transition system: one rule for every part of every handler of
  \<open>apps/vscode/src/extension.ts\<close>, for the events of the stream, of the timer and of the daemon
  processes.  The outcome of a call is whatever the rule is instantiated with, and the parts
  that are waiting may go on in any order.
\<close>

section \<open>The steps\<close>

text \<open>What happens without the user: the stream, the timer, the parts of a refresh, the processes.\<close>

inductive auto_step :: "host \<Rightarrow> host \<Rightarrow> bool" where
  timer: "auto_step h (refresh_timer h)"
| frame: "auto_step h (stream_event event data h)"
| status: "auto_step h (stream_status text h)"
| stream_error: "auto_step h (show_error e h)"
| board_part: "WRefresh sid None \<in> set (hoWaiting h) \<Longrightarrow>
    auto_step h (refresh_board sid page (settled (WRefresh sid None) h))"
| reads_failed: "WRefresh sid part \<in> set (hoWaiting h) \<Longrightarrow>
    auto_step h (refresh_failed e (settled (WRefresh sid part) h))"
| reads_done: "WRefresh sid (Some board) \<in> set (hoWaiting h) \<Longrightarrow>
    auto_step h (refresh_reads_settled sid board reads (settled (WRefresh sid (Some board)) h))"
| verification_part: "WVerification sid result asked \<in> set (hoWaiting h) \<Longrightarrow>
    auto_step h (verification_settled sid result asked view (settled (WVerification sid result asked) h))"
| tournaments_part: "WTournaments sid result \<in> set (hoWaiting h) \<Longrightarrow>
    auto_step h (tournaments_settled sid result listing (settled (WTournaments sid result) h))"
| tournament_part: "WTournament sid result target \<in> set (hoWaiting h) \<Longrightarrow>
    auto_step h (tournament_settled result state (settled (WTournament sid result target) h))"
| process: "event \<in> {DEscalate i, DExit i} \<Longrightarrow>
    auto_step h (h\<lparr>hoModule := daemon_step (hoModule h) event\<rparr>)"

text \<open>What the user does.\<close>

inductive user_step :: "host \<Rightarrow> host \<Rightarrow> bool" where
  message: "user_step h (handleWebviewMessage binary message h)"
| new_task: "user_step h (newTaskFromCommand binary goal picks h)"
| stop: "user_step h (stopServer h)"

text \<open>What was waiting for the daemon, or for a prompt, goes on.\<close>

inductive settle_step :: "host_env \<Rightarrow> host \<Rightarrow> host \<Rightarrow> bool" for env where
  spawned: "WSpawn c i \<in> set (hoWaiting h) \<Longrightarrow>
    settle_step env h (spawn_settled c i spawn (settled (WSpawn c i) h))"
| healthy: "WHealth c i handle \<in> set (hoWaiting h) \<Longrightarrow>
    settle_step env h (health_settled c i handle health (settled (WHealth c i handle) h))"
| listed: "WList ec \<in> set (hoWaiting h) \<Longrightarrow>
    settle_step env h (list_settled env ec rows (settled (WList ec) h))"
| pruned: "WPruned ec bnds rows \<in> set (hoWaiting h) \<Longrightarrow>
    settle_step env h (pruned_written env ec bnds rows failed (settled (WPruned ec bnds rows) h))"
| catalogued: "WCatalog ec bnds \<in> set (hoWaiting h) \<Longrightarrow>
    settle_step env h (catalog_settled env ec bnds infos (settled (WCatalog ec bnds) h))"
| created: "WCreate ec bnds provider model \<in> set (hoWaiting h) \<Longrightarrow>
    settle_step env h (create_settled env ec bnds provider model session (settled (WCreate ec bnds provider model) h))"
| bound: "WBound ec created provider model \<in> set (hoWaiting h) \<Longrightarrow>
    settle_step env h (binding_written ec created provider model failed (settled (WBound ec created provider model) h))"
| history: "WHistory ec sid \<in> set (hoWaiting h) \<Longrightarrow>
    settle_step env h (history_settled ec page (settled (WHistory ec sid) h))"
| admitted: "WAdmission sid t \<in> set (hoWaiting h) \<Longrightarrow>
    settle_step env h (admission_settled env client sid t (settled (WAdmission sid t) h))"
| uploaded: "WUpload sid t ids calls \<in> set (hoWaiting h) \<Longrightarrow>
    settle_step env h (admission_next env client sid t ids calls (settled (WUpload sid t ids calls) h))"
| board_read: "WBoardRead sid since \<in> set (hoWaiting h) \<Longrightarrow>
    settle_step env h (board_read_settled since page' (settled (WBoardRead sid since) h))"
| board_posted: "WBoardPost sid \<in> set (hoWaiting h) \<Longrightarrow>
    settle_step env h (board_post_settled post (settled (WBoardPost sid) h))"
| cancelled: "WCancel sid run \<in> set (hoWaiting h) \<Longrightarrow>
    settle_step env h (cancel_settled ack (settled (WCancel sid run) h))"
| decided: "WDecide tid \<in> set (hoWaiting h) \<Longrightarrow>
    settle_step env h (decide_settled decision (settled (WDecide tid) h))"
| aborted: "WAbort tid \<in> set (hoWaiting h) \<Longrightarrow>
    settle_step env h (abort_settled tid failed (settled (WAbort tid) h))"
| prompted: "WPrompt agent action \<in> set (hoWaiting h) \<Longrightarrow>
    settle_step env h (prompt_settled agent action entered (settled (WPrompt agent action) h))"
| controlled: "WAgent agent action \<in> set (hoWaiting h) \<Longrightarrow>
    settle_step env h (agent_settled agent action failed (settled (WAgent agent action) h))"
| retrieved: "WEvidence i \<in> set (hoWaiting h) \<Longrightarrow>
    settle_step env h (evidence_settled decode i retrieval (settled (WEvidence i) h))"

inductive host_step :: "host_env \<Rightarrow> host \<Rightarrow> host \<Rightarrow> bool" for env where
  auto: "auto_step h h' \<Longrightarrow> host_step env h h'"
| user: "user_step h h' \<Longrightarrow> host_step env h h'"
| settle: "settle_step env h h' \<Longrightarrow> host_step env h h'"

inductive host_reached :: "host_env \<Rightarrow> host \<Rightarrow> bool" for env where
  activated: "host_reached env (initial_host stored)"
| stepped: "host_reached env h \<Longrightarrow> host_step env h h' \<Longrightarrow> host_reached env h'"

section \<open>The fields the helpers leave alone\<close>

lemma send_simps [simp]:
  "hoShown (send out h) = hoShown h" "hoWaiting (send out h) = hoWaiting h" "hoSeen (send out h) = hoSeen h"
  "hoSession (send out h) = hoSession h" "hoClient (send out h) = hoClient h" "hoRun (send out h) = hoRun h"
  "hoContract (send out h) = hoContract h" "hoOut (send out h) = hoOut h @ [out]"
  "hoModule (send out h) = hoModule h" "hoDaemon (send out h) = hoDaemon h"
  "hoRefreshing (send out h) = hoRefreshing h" "hoStored (send out h) = hoStored h"
  by (simp_all add: send_def)

lemma wait_for_simps [simp]:
  "hoShown (wait_for w h) = hoShown h" "hoWaiting (wait_for w h) = hoWaiting h @ [w]"
  "hoSeen (wait_for w h) = hoSeen h" "hoSession (wait_for w h) = hoSession h"
  "hoClient (wait_for w h) = hoClient h" "hoRun (wait_for w h) = hoRun h"
  "hoContract (wait_for w h) = hoContract h" "hoOut (wait_for w h) = hoOut h"
  "hoModule (wait_for w h) = hoModule h" "hoDaemon (wait_for w h) = hoDaemon h"
  "hoRefreshing (wait_for w h) = hoRefreshing h" "hoStored (wait_for w h) = hoStored h"
  by (simp_all add: wait_for_def)

lemma settled_simps [simp]:
  "hoShown (settled w h) = hoShown h" "hoWaiting (settled w h) = remove1 w (hoWaiting h)"
  "hoSeen (settled w h) = hoSeen h" "hoSession (settled w h) = hoSession h"
  "hoClient (settled w h) = hoClient h" "hoRun (settled w h) = hoRun h"
  "hoContract (settled w h) = hoContract h" "hoOut (settled w h) = hoOut h"
  "hoModule (settled w h) = hoModule h" "hoDaemon (settled w h) = hoDaemon h"
  "hoRefreshing (settled w h) = hoRefreshing h" "hoStored (settled w h) = hoStored h"
  by (simp_all add: settled_def)

lemma patch_shown_simps [simp]:
  "hoShown (patch_shown f h) = patched f (hoShown h)" "hoWaiting (patch_shown f h) = hoWaiting h"
  "hoSeen (patch_shown f h) = hoSeen h" "hoSession (patch_shown f h) = hoSession h"
  "hoClient (patch_shown f h) = hoClient h" "hoRun (patch_shown f h) = hoRun h"
  "hoContract (patch_shown f h) = hoContract h" "hoOut (patch_shown f h) = hoOut h"
  "hoModule (patch_shown f h) = hoModule h" "hoDaemon (patch_shown f h) = hoDaemon h"
  "hoRefreshing (patch_shown f h) = hoRefreshing h" "hoStored (patch_shown f h) = hoStored h"
  by (simp_all add: patch_shown_def)

lemma scheduleRefresh_simps [simp]:
  "hoShown (scheduleRefresh h) = hoShown h" "hoWaiting (scheduleRefresh h) = hoWaiting h"
  "hoSeen (scheduleRefresh h) = hoSeen h" "hoSession (scheduleRefresh h) = hoSession h"
  "hoClient (scheduleRefresh h) = hoClient h" "hoRun (scheduleRefresh h) = hoRun h"
  "hoContract (scheduleRefresh h) = hoContract h" "hoOut (scheduleRefresh h) = hoOut h"
  "hoModule (scheduleRefresh h) = hoModule h" "hoDaemon (scheduleRefresh h) = hoDaemon h"
  "hoRefreshing (scheduleRefresh h) = hoRefreshing h" "hoStored (scheduleRefresh h) = hoStored h"
  by (simp_all add: scheduleRefresh_def)

lemma show_error_simps [simp]:
  "hoWaiting (show_error e h) = hoWaiting h" "hoSeen (show_error e h) = hoSeen h"
  "hoSession (show_error e h) = hoSession h" "hoClient (show_error e h) = hoClient h"
  "hoRun (show_error e h) = hoRun h" "hoContract (show_error e h) = hoContract h"
  "hoOut (show_error e h) = hoOut h" "hoModule (show_error e h) = hoModule h"
  "hoDaemon (show_error e h) = hoDaemon h" "hoRefreshing (show_error e h) = hoRefreshing h"
  "hoStored (show_error e h) = hoStored h"
  "hoShown (show_error e h) = patched (\<lambda>s. s\<lparr>shError := Some (messageOf e)\<rparr>) (hoShown h)"
  by (simp_all add: show_error_def)

lemma reportError_simps [simp]:
  "hoWaiting (reportError e h) = hoWaiting h" "hoSeen (reportError e h) = hoSeen h"
  "hoSession (reportError e h) = hoSession h" "hoClient (reportError e h) = hoClient h"
  "hoRun (reportError e h) = hoRun h" "hoContract (reportError e h) = hoContract h"
  "hoOut (reportError e h) = hoOut h @ [OError (messageOf e), OShowError (js ''Faktor: '' @ messageOf e)]"
  "hoModule (reportError e h) = hoModule h" "hoDaemon (reportError e h) = hoDaemon h"
  "hoRefreshing (reportError e h) = hoRefreshing h" "hoStored (reportError e h) = hoStored h"
  by (simp_all add: reportError_def Let_def)

section \<open>Nothing happens behind the user's back\<close>

definition is_act :: "host_out \<Rightarrow> bool" where
  "is_act out = (case out of OCall _ \<Rightarrow> True | ORestore _ _ \<Rightarrow> True | OStartResult _ _ \<Rightarrow> True | _ \<Rightarrow> False)"

lemma refresh_done_quiet:
  "hoSeen (refresh_done result t h) = hoSeen h" "hoSession (refresh_done result t h) = hoSession h"
  "hoContract (refresh_done result t h) = hoContract h" "hoOut (refresh_done result t h) = hoOut h"
  "hoStored (refresh_done result t h) = hoStored h" "hoWaiting (refresh_done result t h) = hoWaiting h"
  "hoClient (refresh_done result t h) = hoClient h"
  by (simp_all add: refresh_done_def Let_def)

lemma auto_step_quiet:
  "auto_step h h' \<Longrightarrow> hoSeen h' = hoSeen h \<and> hoSession h' = hoSession h \<and> hoContract h' = hoContract h
     \<and> hoStored h' = hoStored h \<and> hoClient h' = hoClient h \<and> hoOut h' = hoOut h"
  by (induction rule: auto_step.induct)
    (simp_all add: refresh_timer_def refresh_def stream_event_def stream_status_def refresh_board_def
      refresh_failed_def refresh_reads_settled_def verification_settled_def tournaments_settled_def
      tournament_settled_def Let_def refresh_done_quiet split: option.split sum.split prod.split)

text \<open>
  C24.  Nothing happens behind the user's back: the stream, the timer and every part of a refresh
  call no route that changes something, answer no submission, never mark the board as read and
  leave the session, the submitted contract and the stored bindings alone, however many of
  them run and in whatever order.
\<close>

theorem background_only_reads:
  assumes "auto_step\<^sup>*\<^sup>* h h'"
  shows "hoOut h' = hoOut h \<and> hoSeen h' = hoSeen h \<and> hoSession h' = hoSession h
    \<and> hoContract h' = hoContract h \<and> hoStored h' = hoStored h"
  using assms by (induction rule: rtranclp_induct) (auto dest: auto_step_quiet)

theorem background_only_reads_witness:
  "hoSeen (refresh_timer (stream_event (js ''x'') JNull ((initial_host JNull)\<lparr>hoSeen := 7\<rparr>))) = 7"
proof -
  let ?h = "(initial_host JNull)\<lparr>hoSeen := 7\<rparr>"
  let ?g = "stream_event (js ''x'') JNull ?h"
  have "auto_step ?h ?g" "auto_step ?g (refresh_timer ?g)"
    by (rule auto_step.frame, rule auto_step.timer)
  then have "auto_step\<^sup>*\<^sup>* ?h (refresh_timer ?g)" by (simp add: rtranclp.rtrancl_into_rtrancl)
  from background_only_reads [OF this] show ?thesis by simp
qed

section \<open>The snapshot stays consistent\<close>

text \<open>\<open>busy\<close> tells whether a run is active, and the sections are those of the cockpit.\<close>

definition shown_ok :: "shown \<Rightarrow> bool" where
  "shown_ok s \<longleftrightarrow> shBusy s = (shActiveRun s \<noteq> None)
     \<and> shSections s = (case shCockpit s of None \<Rightarrow> [] | Some c \<Rightarrow> cockpitSections c)
     \<and> (shTournament s = None \<or> shTournament s = Option.bind (shCockpit s) cpTournament)"

lemma shown_ok_patched: "(shown_ok s \<Longrightarrow> shown_ok (f s)) \<Longrightarrow> shown_ok s \<Longrightarrow> shown_ok (patched f s)"
  by (simp add: patched_def Let_def shown_ok_def)

lemma shown_ok_empty: "shown_ok empty_shown"
  by (simp add: shown_ok_def empty_shown_def)

text \<open>The fields a consistent snapshot is about.\<close>

definition same_view :: "shown \<Rightarrow> shown \<Rightarrow> bool" where
  "same_view s t \<longleftrightarrow> shBusy t = shBusy s \<and> shActiveRun t = shActiveRun s \<and> shSections t = shSections s
     \<and> shCockpit t = shCockpit s \<and> shTournament t = shTournament s"

lemma shown_ok_same: "shown_ok s \<Longrightarrow> same_view s t \<Longrightarrow> shown_ok t"
  by (simp add: shown_ok_def same_view_def)

lemma shown_ok_keep: "shown_ok s \<Longrightarrow> (\<And>s. same_view s (f s)) \<Longrightarrow> shown_ok (patched f s)"
  by (rule shown_ok_patched) (auto intro: shown_ok_same)

lemma shown_ok_refreshed: "shown_ok s \<Longrightarrow> shown_ok (patched (refreshed result t) s)"
  by (rule shown_ok_patched) (auto simp: shown_ok_def refreshed_def Let_def split: option.split)

definition view_ok :: "host \<Rightarrow> bool" where
  "view_ok h \<longleftrightarrow> shown_ok (hoShown h)"

lemma view_ok_helpers [simp]:
  "view_ok (send out h) = view_ok h" "view_ok (wait_for w h) = view_ok h"
  "view_ok (settled w h) = view_ok h" "view_ok (scheduleRefresh h) = view_ok h"
  by (simp_all add: view_ok_def)

lemma view_ok_keep: "view_ok h \<Longrightarrow> (\<And>s. same_view s (f s)) \<Longrightarrow> view_ok (patch_shown f h)"
  by (simp add: view_ok_def shown_ok_keep)

lemma view_ok_reportError [intro!]: "view_ok h \<Longrightarrow> view_ok (reportError e h)"
  by (auto simp: reportError_def Let_def same_view_def intro!: view_ok_keep)

lemma view_ok_show_error [intro!]: "view_ok h \<Longrightarrow> view_ok (show_error e h)"
  by (auto simp: show_error_def same_view_def intro!: view_ok_keep)

lemma view_ok_refresh_done: "view_ok h \<Longrightarrow> view_ok (refresh_done result t h)"
proof -
  assume "view_ok h"
  then have "view_ok (patch_shown (refreshed result (tournamentViewOf t)) h)"
    by (simp add: view_ok_def shown_ok_refreshed)
  then have "view_ok (if b then patch_shown (\<lambda>s. s\<lparr>shTranscript := tr\<rparr>) (patch_shown (refreshed result
      (tournamentViewOf t)) h) else patch_shown (refreshed result (tournamentViewOf t)) h)" for b tr
    by (auto simp: same_view_def intro!: view_ok_keep)
  then show ?thesis by (simp add: refresh_done_def Let_def view_ok_def)
qed

lemma view_ok_update [simp]:
  "view_ok (h\<lparr>hoSeen := seen\<rparr>) = view_ok h" "view_ok (h\<lparr>hoRefreshing := r\<rparr>) = view_ok h"
  "view_ok (h\<lparr>hoTimer := timer\<rparr>) = view_ok h" "view_ok (h\<lparr>hoModule := m\<rparr>) = view_ok h"
  "view_ok (h\<lparr>hoTournament := tid\<rparr>) = view_ok h" "view_ok (h\<lparr>hoTvKey := key, hoTv := tv\<rparr>) = view_ok h"
  "view_ok (h\<lparr>hoRun := run, hoPresence := presence\<rparr>) = view_ok h"
  "view_ok (h\<lparr>hoRun := run, hoPresence := presence, hoTvKey := key, hoTv := tv\<rparr>) = view_ok h"
  "view_ok (h\<lparr>hoRun := run, hoContract := contract\<rparr>) = view_ok h" "view_ok (h\<lparr>hoRun := run\<rparr>) = view_ok h"
  "view_ok (h\<lparr>hoStream := sid\<rparr>) = view_ok h" "view_ok (h\<lparr>hoStored := stored\<rparr>) = view_ok h"
  "view_ok (h\<lparr>hoSession := sid\<rparr>) = view_ok h" "view_ok (h\<lparr>hoSession := sid, hoSeen := seen\<rparr>) = view_ok h"
  "view_ok (h\<lparr>hoSession := sid, hoStored := stored\<rparr>) = view_ok h"
  "view_ok (h\<lparr>hoDaemon := d, hoClient := c\<rparr>) = view_ok h"
  "view_ok (h\<lparr>hoModule := m, hoDaemon := d, hoClient := c\<rparr>) = view_ok h"
  by (simp_all add: view_ok_def)

lemma view_ok_auto: "auto_step h h' \<Longrightarrow> view_ok h \<Longrightarrow> view_ok h'"
  by (induction rule: auto_step.induct)
    (auto simp: refresh_timer_def refresh_def stream_event_def stream_status_def refresh_board_def
      refresh_failed_def refresh_reads_settled_def verification_settled_def tournaments_settled_def
      tournament_settled_def Let_def same_view_def view_ok_refresh_done
      intro!: view_ok_keep split: option.split sum.split prod.split)

lemma view_ok_stream [intro!]: "view_ok h \<Longrightarrow> view_ok (startStream h)"
  by (auto simp: startStream_def same_view_def intro!: view_ok_keep split: option.split)

lemma view_ok_task_ready [intro!]: "view_ok h \<Longrightarrow> view_ok (task_ready t h)"
  by (auto simp: task_ready_def split: option.split)

lemma view_ok_server [intro!]:
  "view_ok h \<Longrightarrow> view_ok (server_started c h)" "view_ok h \<Longrightarrow> view_ok (server_failed c e h)"
  by (auto simp: server_started_def server_failed_def split: caller.split)

lemma view_ok_setup_failed [intro!]: "view_ok h \<Longrightarrow> view_ok (setup_failed i e h)"
  by (auto simp: setup_failed_def same_view_def intro!: view_ok_keep)

lemma view_ok_ensure [intro!]:
  "view_ok h \<Longrightarrow> view_ok (ensure_done ec h)" "view_ok h \<Longrightarrow> view_ok (ensure_failed ec e h)"
  "view_ok h \<Longrightarrow> view_ok (ensureSession ec h)"
  by (auto simp: ensure_done_def ensure_failed_def ensureSession_def split: ensure_caller.split option.split)

lemma view_ok_session [intro!]:
  "view_ok h \<Longrightarrow> view_ok (session_found ec sid h)"
  "view_ok h \<Longrightarrow> view_ok (create_session env ec bnds provider model h)"
  by (auto simp: session_found_def create_session_def)

lemma view_ok_server_parts [intro!]:
  "view_ok h \<Longrightarrow> view_ok (startServer binary c h)"
  "view_ok h \<Longrightarrow> view_ok (spawn_settled c i spawn h)"
  "view_ok h \<Longrightarrow> view_ok (health_settled c i handle health h)"
  "view_ok h \<Longrightarrow> view_ok (catalog_settled env ec bnds infos h)"
  "view_ok h \<Longrightarrow> view_ok (create_settled env ec bnds provider model session h)"
  "view_ok h \<Longrightarrow> view_ok (history_settled ec page h)"
  by (auto simp: startServer_def spawn_settled_def health_settled_def catalog_settled_def create_settled_def
      history_settled_def Let_def same_view_def intro!: view_ok_keep split: sum.split option.split list.split)

lemma view_ok_choose [intro!]: "view_ok h \<Longrightarrow> view_ok (choose_session env ec bnds rows listed h)"
  by (auto simp: choose_session_def Let_def same_view_def intro!: view_ok_keep split: option.split)

lemma view_ok_list [intro!]:
  "view_ok h \<Longrightarrow> view_ok (list_settled env ec rows h)"
  "view_ok h \<Longrightarrow> view_ok (pruned_written env ec bnds sessions failed h)"
  "view_ok h \<Longrightarrow> view_ok (binding_written ec created provider model failed h)"
  by (auto simp: list_settled_def pruned_written_def binding_written_def Let_def same_view_def
      intro!: view_ok_keep split: sum.split option.split)

lemma view_ok_patch: "view_ok h \<Longrightarrow> (\<And>s. shown_ok s \<Longrightarrow> shown_ok (f s)) \<Longrightarrow> view_ok (patch_shown f h)"
  by (simp add: view_ok_def shown_ok_patched)

lemma view_ok_run_started [intro!]: "view_ok h \<Longrightarrow> view_ok (run_started t started h)"
  by (auto simp: run_started_def Let_def shown_ok_def intro!: view_ok_patch)

lemma view_ok_admission_call [intro!]: "view_ok h \<Longrightarrow> view_ok (admission_call t h c)"
  by (auto simp: admission_call_def restore_draft_def split: call.split)

interpretation admission_view: preserving "admission_call t" view_ok for t
  by unfold_locales (rule view_ok_admission_call)

lemma view_ok_admission [intro!]:
  "view_ok h \<Longrightarrow> view_ok (admission_next env client sid t ids calls h)"
  "view_ok h \<Longrightarrow> view_ok (admission_settled env client sid t h)"
  by (auto simp: admission_settled_def admission_next_def admission_failed_def Let_def admission_view.run_inv
      split: prod.split option.split list.split sum.split)

lemma view_ok_start [intro!]:
  "view_ok h \<Longrightarrow> view_ok (startTask binary t h)"
  by (auto simp: startTask_def)

lemma view_ok_goal [intro!]:
  "view_ok h \<Longrightarrow> view_ok (sendGoal binary message h)"
  "view_ok h \<Longrightarrow> view_ok (newTaskFromCommand binary goal picks h)"
  by (auto simp: sendGoal_def newTaskFromCommand_def Let_def split: prod.split sum.split option.split)

lemma view_ok_controls [intro!]:
  "view_ok h \<Longrightarrow> view_ok (cancelActiveRun h)" "view_ok h \<Longrightarrow> view_ok (controlTournament message h)"
  "view_ok h \<Longrightarrow> view_ok (follow_plan agent action plan h)" "view_ok h \<Longrightarrow> view_ok (controlAgent message h)"
  "view_ok h \<Longrightarrow> view_ok (retrieveEvidence message h)" "view_ok h \<Longrightarrow> view_ok (readBoard since limit h)"
  "view_ok h \<Longrightarrow> view_ok (board_read_message message h)" "view_ok h \<Longrightarrow> view_ok (postBoard message h)"
  "view_ok h \<Longrightarrow> view_ok (refresh h)"
  by (auto simp: cancelActiveRun_def controlTournament_def follow_plan_def controlAgent_def retrieveEvidence_def
      readBoard_def board_read_message_def postBoard_def refresh_def Let_def
      split: option.split sum.split prod.split agent_plan.split jsval.split)

lemma view_ok_settled_controls [intro!]:
  "view_ok h \<Longrightarrow> view_ok (cancel_settled ack h)" "view_ok h \<Longrightarrow> view_ok (decide_settled decision h)"
  "view_ok h \<Longrightarrow> view_ok (abort_settled tid failed h)" "view_ok h \<Longrightarrow> view_ok (prompt_settled agent action entered h)"
  "view_ok h \<Longrightarrow> view_ok (agent_settled agent action failed h)"
  "view_ok h \<Longrightarrow> view_ok (evidence_settled decode i retrieval h)"
  "view_ok h \<Longrightarrow> view_ok (board_read_settled since page h)" "view_ok h \<Longrightarrow> view_ok (board_post_settled post h)"
  by (auto simp: cancel_settled_def decide_settled_def abort_settled_def prompt_settled_def agent_settled_def
      evidence_settled_def board_read_settled_def board_post_settled_def Let_def shown_ok_def same_view_def
      intro!: view_ok_keep view_ok_patch split: sum.split option.split)

lemma view_ok_stop [intro!]: "view_ok (stopServer h)"
  by (simp add: stopServer_def view_ok_def patched_def shown_ok_def empty_shown_def Let_def)

lemma view_ok_if: "view_ok a \<Longrightarrow> view_ok b \<Longrightarrow> view_ok (if c then a else b)"
  by simp

lemma view_ok_message [intro!]: "view_ok h \<Longrightarrow> view_ok (handleWebviewMessage binary message h)"
  unfolding handleWebviewMessage_def Let_def
  by (intro view_ok_if)
    (simp_all add: view_ok_server_parts view_ok_stop view_ok_goal view_ok_controls)

lemma view_ok_step: "host_step env h h' \<Longrightarrow> view_ok h \<Longrightarrow> view_ok h'"
  by (auto elim!: host_step.cases user_step.cases settle_step.cases dest: view_ok_auto)

text \<open>
  C19.  The snapshot is consistent in every state the host can reach, whatever the daemon
  answers and however the handlers interleave: the host is shown as busy exactly when a run is
  active, the sections are those of the cockpit on display, and a tournament on display is the
  one of that cockpit.
\<close>

theorem snapshot_consistent:
  assumes "host_reached env h"
  shows "shBusy (hoShown h) = (shActiveRun (hoShown h) \<noteq> None)
    \<and> shSections (hoShown h) = (case shCockpit (hoShown h) of None \<Rightarrow> [] | Some c \<Rightarrow> cockpitSections c)
    \<and> (shTournament (hoShown h) = None
        \<or> shTournament (hoShown h) = Option.bind (shCockpit (hoShown h)) cpTournament)"
proof -
  have "view_ok h"
    using assms
  proof (induction rule: host_reached.induct)
    case (activated stored)
    show ?case by (simp add: view_ok_def initial_host_def shown_ok_empty)
  qed (rule view_ok_step)
  then show ?thesis by (simp add: view_ok_def shown_ok_def)
qed

lemma reached_user: "host_reached env h \<Longrightarrow> user_step h h' \<Longrightarrow> host_reached env h'"
  by (rule host_reached.stepped) (auto intro: host_step.user)

lemma reached_settle: "host_reached env h \<Longrightarrow> settle_step env h h' \<Longrightarrow> host_reached env h'"
  by (rule host_reached.stepped) (auto intro: host_step.settle)

lemma reached_auto: "host_reached env h \<Longrightarrow> auto_step h h' \<Longrightarrow> host_reached env h'"
  by (rule host_reached.stepped) (auto intro: host_step.auto)

definition demo_env :: host_env where
  "demo_env = \<lparr>heKey = Some (js ''k''), heFsPath = None, heTitle = js ''t'', heProvider = js ''p'',
     heModel = js ''m'', heMutationMode = [], heMaxTokens = Fin 0, heMaxCostMicro = Fin 0\<rparr>"

theorem snapshot_consistent_witness:
  "shSections (hoShown (stopServer (startServer (Inr []) ByCommand (initial_host JNull)))) = []"
proof -
  let ?h = "handleWebviewMessage (Inr []) [(js ''type'', JStr (js ''startDaemon''))] (initial_host JNull)"
  have start: "?h = startServer (Inr []) ByCommand (initial_host JNull)"
    by (simp add: handleWebviewMessage_def message_text_def jget_def Let_def)
  have "host_reached demo_env (stopServer ?h)"
    by (rule reached_user [OF reached_user [OF host_reached.activated user_step.message] user_step.stop])
  from snapshot_consistent [OF this] show ?thesis
    unfolding start by (simp add: stopServer_def patched_def empty_shown_def Let_def)
qed

end
