(* ===== verification/HostGuarantees.thy ===== *)
theory HostGuarantees
  imports Host
begin

text \<open>
  What the host guarantees over all its steps (\<open>apps/vscode/src/extension.ts\<close>): no submission is
  lost or answered twice, and every call that changes something is guarded by the state it is
  made in.
\<close>

section \<open>Submissions\<close>

definition by_task :: "caller \<Rightarrow> nat" where
  "by_task c = (case c of ByCommand \<Rightarrow> 0 | ByTask _ \<Rightarrow> 1)"

definition ensure_task :: "ensure_caller \<Rightarrow> nat" where
  "ensure_task ec = (case ec of ForRunning c \<Rightarrow> by_task c | ForStarted c _ _ _ \<Rightarrow> by_task c)"

text \<open>The submission a waiting part carries, and the submission an output answers.\<close>

definition carried :: "waiting \<Rightarrow> nat" where
  "carried w =
     (case w of
        WSpawn c _ \<Rightarrow> by_task c | WHealth c _ _ \<Rightarrow> by_task c | WList ec \<Rightarrow> ensure_task ec
      | WCatalog ec _ \<Rightarrow> ensure_task ec | WCreate ec _ _ _ \<Rightarrow> ensure_task ec | WHistory ec _ \<Rightarrow> ensure_task ec
      | WPruned ec _ _ \<Rightarrow> ensure_task ec | WBound ec _ _ _ \<Rightarrow> ensure_task ec
      | WAdmission _ _ \<Rightarrow> 1 | WUpload _ _ _ _ \<Rightarrow> 1 | _ \<Rightarrow> 0)"

definition answered :: "host_out \<Rightarrow> nat" where
  "answered out = (case out of ORestore _ _ \<Rightarrow> 1 | OStartResult _ ok \<Rightarrow> (if ok then 1 else 0) | _ \<Rightarrow> 0)"

definition submissions :: "host \<Rightarrow> nat" where
  "submissions h = sum_list (map carried (hoWaiting h)) + sum_list (map answered (hoOut h))"

lemma sum_list_remove1: "w \<in> set ws \<Longrightarrow> sum_list (map f (remove1 w ws)) + f w = (sum_list (map f ws) :: nat)"
  by (induction ws) auto

lemma submissions_settled:
  "w \<in> set (hoWaiting h) \<Longrightarrow> submissions (settled w h) + carried w = submissions h"
  using sum_list_remove1 [of w "hoWaiting h" carried] by (simp add: submissions_def)

lemma submissions_helpers [simp]:
  "submissions (send out h) = submissions h + answered out"
  "submissions (wait_for w h) = submissions h + carried w"
  "submissions (patch_shown f h) = submissions h" "submissions (scheduleRefresh h) = submissions h"
  "submissions (show_error e h) = submissions h" "submissions (reportError e h) = submissions h"
  by (simp_all add: submissions_def answered_def)

lemma submissions_updates [simp]:
  "submissions (h\<lparr>hoSeen := seen\<rparr>) = submissions h" "submissions (h\<lparr>hoRefreshing := r\<rparr>) = submissions h"
  "submissions (h\<lparr>hoTimer := timer\<rparr>) = submissions h" "submissions (h\<lparr>hoModule := m\<rparr>) = submissions h"
  "submissions (h\<lparr>hoTournament := tid\<rparr>) = submissions h"
  "submissions (h\<lparr>hoTvKey := key, hoTv := tv\<rparr>) = submissions h"
  "submissions (h\<lparr>hoRun := run, hoPresence := presence\<rparr>) = submissions h"
  "submissions (h\<lparr>hoRun := run, hoPresence := presence, hoTvKey := key, hoTv := tv\<rparr>) = submissions h"
  "submissions (h\<lparr>hoRun := run, hoContract := contract\<rparr>) = submissions h"
  "submissions (h\<lparr>hoRun := run\<rparr>) = submissions h" "submissions (h\<lparr>hoStream := sid\<rparr>) = submissions h"
  "submissions (h\<lparr>hoStored := stored\<rparr>) = submissions h" "submissions (h\<lparr>hoSession := sid\<rparr>) = submissions h"
  "submissions (h\<lparr>hoSession := sid, hoSeen := seen\<rparr>) = submissions h"
  "submissions (h\<lparr>hoSession := sid, hoStored := stored\<rparr>) = submissions h"
  "submissions (h\<lparr>hoDaemon := d, hoClient := c\<rparr>) = submissions h"
  "submissions (h\<lparr>hoModule := m, hoDaemon := d, hoClient := c\<rparr>) = submissions h"
  by (simp_all add: submissions_def)

lemma carried_simps [simp]:
  "carried (WSpawn c i) = by_task c" "carried (WHealth c i handle) = by_task c"
  "carried (WList ec) = ensure_task ec" "carried (WCatalog ec bnds) = ensure_task ec"
  "carried (WCreate ec bnds provider model) = ensure_task ec" "carried (WHistory ec sid) = ensure_task ec"
  "carried (WPruned ec bnds rows) = ensure_task ec" "carried (WBound ec created provider model) = ensure_task ec"
  "carried (WAdmission sid t) = 1" "carried (WUpload sid t ids calls) = 1" "carried (WRefresh sid board) = 0"
  "carried (WVerification sid result asked) = 0" "carried (WTournaments sid result) = 0"
  "carried (WTournament sid result target) = 0" "carried (WBoardRead sid since) = 0" "carried (WBoardPost sid) = 0"
  "carried (WCancel sid run) = 0" "carried (WDecide tid) = 0" "carried (WAbort tid) = 0"
  "carried (WAgent agent action) = 0" "carried (WPrompt agent action) = 0" "carried (WEvidence evidence) = 0"
  by (simp_all add: carried_def)

lemma answered_simps [simp]:
  "answered (OInfo m) = 0" "answered (OError m) = 0" "answered (OShowError m) = 0" "answered (ORestore p m) = 1"
  "answered (OStartResult goal ok) = (if ok then 1 else 0)" "answered (OEvidence evidence text truncated) = 0"
  "answered (OSnapshot s) = 0" "answered (OCall c) = 0"
  by (simp_all add: answered_def)

lemma submissions_quiet: "hoOut h' = hoOut h \<Longrightarrow> hoWaiting h' = hoWaiting h \<Longrightarrow> submissions h' = submissions h"
  by (simp add: submissions_def)

lemma submissions_refresh_done [simp]: "submissions (refresh_done result t h) = submissions h"
  by (rule submissions_quiet) (simp_all add: refresh_done_quiet)

lemma submissions_auto: "auto_step h h' \<Longrightarrow> submissions h' = submissions h"
  by (induction rule: auto_step.induct)
    (auto simp: refresh_timer_def refresh_def stream_event_def stream_status_def refresh_board_def
      refresh_failed_def refresh_reads_settled_def verification_settled_def tournaments_settled_def
      tournament_settled_def Let_def dest!: submissions_settled split: option.split sum.split prod.split)

lemma submissions_server [simp]:
  "submissions (startStream h) = submissions h"
  "submissions (task_ready t h) = Suc (submissions h)"
  "submissions (server_started c h) = submissions h + by_task c"
  "submissions (server_failed c e h) = submissions h + by_task c"
  "submissions (setup_failed i e h) = submissions h"
  by (simp_all add: startStream_def task_ready_def server_started_def server_failed_def setup_failed_def
      by_task_def split: option.split caller.split)

lemma submissions_ensure [simp]:
  "submissions (ensure_done ec h) = submissions h + ensure_task ec"
  "submissions (ensure_failed ec e h) = submissions h + ensure_task ec"
  "submissions (ensureSession ec h) = submissions h + ensure_task ec"
  "submissions (session_found ec sid h) = submissions h + ensure_task ec"
  "submissions (create_session env ec bnds provider model h) = submissions h + ensure_task ec"
  by (simp_all add: ensure_done_def ensure_failed_def ensureSession_def session_found_def create_session_def
      ensure_task_def split: option.split ensure_caller.split)

lemma submissions_choose [simp]:
  "submissions (choose_session env ec bnds rows listed h) = submissions h + ensure_task ec"
  by (auto simp: choose_session_def Let_def split: option.split)

lemma submissions_session_parts [simp]:
  "submissions (startServer binary c h) = submissions h + by_task c"
  "submissions (spawn_settled c i spawn h) = submissions h + by_task c"
  "submissions (health_settled c i handle health h) = submissions h + by_task c"
  "submissions (catalog_settled env ec bnds infos h) = submissions h + ensure_task ec"
  "submissions (create_settled env ec bnds provider model session h) = submissions h + ensure_task ec"
  "submissions (history_settled ec page h) = submissions h + ensure_task ec"
  "submissions (list_settled env ec rows h) = submissions h + ensure_task ec"
  "submissions (pruned_written env ec bnds sessions failed h) = submissions h + ensure_task ec"
  "submissions (binding_written ec created provider model failed h) = submissions h + ensure_task ec"
  by (auto simp: startServer_def spawn_settled_def health_settled_def catalog_settled_def create_settled_def
      history_settled_def list_settled_def pruned_written_def binding_written_def Let_def
      ensure_task_def [of "ForRunning _"]
      ensure_task_def [of "ForStarted _ _ _ _"] split: option.split sum.split list.split)

text \<open>The restores of an admission are the answers of its failure.\<close>

lemma submissions_admission_call:
  "submissions (admission_call t h c) = submissions h + (if is_CRestore c then 1 else 0)"
  by (simp add: admission_call_def restore_draft_def run_started_def Let_def submissions_updates
      split: call.split)

lemma submissions_admission_calls:
  "submissions (foldl (admission_call t) h calls) = submissions h + length (filter is_CRestore calls)"
  by (induction calls arbitrary: h) (simp_all add: submissions_admission_call)

lemma submissions_admission_start:
  "startTaskRun client sid goal settings calls = (outcome, calls1) \<Longrightarrow>
     submissions (foldl (admission_call t) h (drop (length calls) calls1)) = submissions h"
  using startTaskRun_calls [of client sid goal settings calls outcome calls1]
  by (auto simp: submissions_admission_calls split: sum.split_asm)

lemmas submissions_admission_first = submissions_admission_start [where calls = "[]", simplified]

lemma submissions_admission [simp]:
  "submissions (admission_next env client sid t ids calls h) = Suc (submissions h)"
  "submissions (admission_settled env client sid t h) = Suc (submissions h)"
  by (auto simp: admission_settled_def admission_next_def admission_failed_def Let_def submissions_admission_call
      submissions_admission_start submissions_admission_first split: prod.split option.split list.split sum.split)

lemma submissions_plan [simp]: "submissions (follow_plan agent action plan h) = submissions h"
  by (simp add: follow_plan_def split: agent_plan.split)

lemma submissions_controls [simp]:
  "submissions (cancelActiveRun h) = submissions h" "submissions (controlTournament message h) = submissions h"
  "submissions (controlAgent message h) = submissions h" "submissions (retrieveEvidence message h) = submissions h"
  "submissions (readBoard since limit h) = submissions h" "submissions (board_read_message message h) = submissions h"
  "submissions (postBoard message h) = submissions h" "submissions (refresh h) = submissions h"
  by (auto simp: cancelActiveRun_def controlTournament_def controlAgent_def retrieveEvidence_def readBoard_def
      board_read_message_def postBoard_def refresh_def Let_def
      split: option.split sum.split prod.split jsval.split)

lemma submissions_stop [simp]: "submissions (stopServer h) = submissions h"
  by (simp add: stopServer_def submissions_def)

lemma submissions_settled_controls [simp]:
  "submissions (cancel_settled ack h) = submissions h" "submissions (decide_settled decision h) = submissions h"
  "submissions (abort_settled tid failed h) = submissions h"
  "submissions (prompt_settled agent action entered h) = submissions h"
  "submissions (agent_settled agent action failed h) = submissions h"
  "submissions (evidence_settled decode i retrieval h) = submissions h"
  "submissions (board_read_settled since page h) = submissions h"
  "submissions (board_post_settled post h) = submissions h"
  by (simp_all add: cancel_settled_def decide_settled_def abort_settled_def prompt_settled_def agent_settled_def
      evidence_settled_def board_read_settled_def board_post_settled_def Let_def
      split: sum.split option.split)

lemma submissions_settle: "settle_step env h h' \<Longrightarrow> submissions h' = submissions h"
  by (induction rule: settle_step.induct) (auto dest!: submissions_settled)

text \<open>A submission is taken when its goal, its contract and its envelope are.\<close>

definition goal_taken :: "jsval props \<Rightarrow> bool" where
  "goal_taken message \<longleftrightarrow>
     (case jget message (js ''goal'') of JStr g \<Rightarrow> trim g \<noteq> [] | _ \<Rightarrow> False)
     \<and> (case parseCompletionContract (jget message (js ''completionContract'')) of Inl _ \<Rightarrow> False | Inr _ \<Rightarrow> True)
     \<and> (nullish (jget message (js ''pending'')) \<or> parsePendingSubmission (jget message (js ''pending'')) \<noteq> None)"

lemma submissions_start [simp]: "submissions (startTask binary t h) = Suc (submissions h)"
  by (simp add: startTask_def by_task_def)

lemma submissions_goal:
  "submissions (sendGoal binary message h) = submissions h + (if goal_taken message then 1 else 0)"
  by (auto simp: sendGoal_def goal_taken_def Let_def split: prod.split sum.split option.split jsval.split)

lemma submissions_new_task:
  "submissions (newTaskFromCommand binary goal picks h) =
     submissions h + (if (case goal of None \<Rightarrow> False | Some g \<Rightarrow> trim g \<noteq> []) then 1 else 0)"
  by (auto simp: newTaskFromCommand_def split: option.split)

inductive continue_step :: "host_env \<Rightarrow> host \<Rightarrow> host \<Rightarrow> bool" for env where
  by_itself: "auto_step h h' \<Longrightarrow> continue_step env h h'"
| by_answer: "settle_step env h h' \<Longrightarrow> continue_step env h h'"
| by_stop: "continue_step env h (stopServer h)"

text \<open>
  C1.  No submission is lost or answered twice.  A taken goal is one submission in flight; from
  then on, whatever the daemon answers, whatever fails, in whatever order the parts run and
  even when the daemon is stopped meanwhile, the submissions in flight plus the answers given
  (an accepted start or a restored draft) stay the same: each one gets exactly one answer, or
  still waits for one.
\<close>

theorem submission_answered_once:
  assumes "goal_taken message" and "(continue_step env)\<^sup>*\<^sup>* (sendGoal binary message h) h'"
  shows "submissions h' = Suc (submissions h)"
  using assms(2)
proof (induction rule: rtranclp_induct)
  case base
  show ?case using assms(1) by (simp add: submissions_goal)
next
  case (step g g')
  have "submissions g' = submissions g"
    using step.hyps(2) by cases (auto simp: submissions_auto submissions_settle)
  with step.IH show ?case by simp
qed

theorem submission_answered_once_witness:
  "submissions (stopServer (sendGoal (Inl (js ''no binary'')) [(js ''goal'', JStr (js ''g''))] (initial_host JNull))) = 1"
proof -
  let ?message = "[(js ''goal'', JStr (js ''g''))]"
  let ?h = "sendGoal (Inl (js ''no binary'')) ?message (initial_host JNull)"
  have taken: "goal_taken ?message"
    by (simp add: goal_taken_def jget_def parseCompletionContract_def nullish_def) code_simp
  have "(continue_step demo_env)\<^sup>*\<^sup>* ?h (stopServer ?h)"
    by (rule r_into_rtranclp) (rule continue_step.by_stop)
  from submission_answered_once [OF taken this] show ?thesis
    by (simp add: submissions_def initial_host_def)
qed

section \<open>The admission without interruption\<close>

text \<open>
  The host runs an admission in steps, between which anything else may happen.  When nothing
  does, they add up to \<open>admitPendingSubmission\<close>: its calls and callbacks in its order, and the
  accepted start at the end.
\<close>

definition admission_whole :: "host_env \<Rightarrow> client \<Rightarrow> jsstr \<Rightarrow> task_start \<Rightarrow> host \<Rightarrow> host" where
  "admission_whole env client sid t h =
     (case admitPendingSubmission client sid (tgPending t) (start_settings env t) [] of
        (outcome, calls) \<Rightarrow>
          (let h1 = foldl (admission_call t) h calls
           in if aoOk outcome then send (OStartResult (tgGoal t) True) h1 else h1))"

lemma waiting_admission_call [simp]: "hoWaiting (admission_call t h c) = hoWaiting h"
  by (simp add: admission_call_def restore_draft_def run_started_def Let_def split: call.split)

lemma waiting_admission_calls [simp]: "hoWaiting (foldl (admission_call t) h calls) = hoWaiting h"
  by (induction calls arbitrary: h) simp_all

lemma settled_wait_for: "w \<notin> set (hoWaiting h) \<Longrightarrow> settled w (wait_for w h) = h"
  by (simp add: settled_def wait_for_def remove1_append)

definition admission_rest ::
  "host_env \<Rightarrow> client \<Rightarrow> jsstr \<Rightarrow> task_start \<Rightarrow> native_attachment_id list \<Rightarrow> call list
     \<Rightarrow> pending_attachment list \<Rightarrow> host \<Rightarrow> host" where
  "admission_rest env client sid t uploaded calls as h =
     (case upload_all client sid uploaded calls as of
        (ids, err, calls1) \<Rightarrow>
          (let h1 = foldl (admission_call t) h (drop (length calls) calls1)
           in case err of
                Some e \<Rightarrow> admission_failed t (uploadFailureOf e sid) h1
              | None \<Rightarrow>
                  (case startTaskRun client sid (psText (tgPending t))
                      ((start_settings env t)\<lparr>stAttachments := Some ids\<rparr>) calls1 of
                     (outcome, calls2) \<Rightarrow>
                       (let h2 = foldl (admission_call t) h1 (drop (length calls1) calls2)
                        in case outcome of
                             Inr _ \<Rightarrow> send (OStartResult (tgGoal t) True) h2
                           | Inl failure \<Rightarrow> admission_call t h2 (CRestore failure)))))"

lemma admission_steps:
  assumes "drop (length uploaded) (psAttachments (tgPending t)) = as"
    and "\<And>ids calls. WUpload sid t ids calls \<notin> set (hoWaiting h)"
  shows "(settle_step env)\<^sup>*\<^sup>* (admission_next env client sid t uploaded calls h)
     (admission_rest env client sid t uploaded calls as h)"
  using assms
proof (induction as arbitrary: uploaded calls h)
  case Nil
  then show ?case by (auto simp: admission_next_def admission_rest_def Let_def split: prod.split sum.split)
next
  case (Cons a as)
  let ?request = "CUpload sid (attachment_request a)"
  let ?h = "admission_call t h ?request"
  show ?case
  proof (cases "clUpload client calls sid (attachment_request a)")
    case (Inl e)
    with Cons.prems(1) show ?thesis by (simp add: admission_next_def admission_rest_def Let_def)
  next
    case (Inr i)
    let ?w = "WUpload sid t (uploaded @ [i]) (calls @ [?request])"
    obtain ids err calls1 where u: "upload_all client sid (uploaded @ [i]) (calls @ [?request]) as = (ids, err, calls1)"
      by (metis prod_cases3)
    then obtain new where "calls1 = (calls @ [?request]) @ new" using upload_all_log by blast
    then have whole: "admission_rest env client sid t uploaded calls (a # as) h
        = admission_rest env client sid t (uploaded @ [i]) (calls @ [?request]) as ?h"
      using Inr u by (simp add: admission_rest_def)
    have "admission_next env client sid t uploaded calls h = wait_for ?w ?h"
      using Cons.prems(1) Inr by (simp add: admission_next_def Let_def)
    moreover have "settle_step env (wait_for ?w ?h) (admission_next env client sid t (uploaded @ [i]) (calls @ [?request]) ?h)"
      using settle_step.uploaded [of sid t "uploaded @ [i]" "calls @ [?request]" "wait_for ?w ?h" env client]
        Cons.prems(2) by (simp add: settled_wait_for)
    moreover have "(settle_step env)\<^sup>*\<^sup>* (admission_next env client sid t (uploaded @ [i]) (calls @ [?request]) ?h)
        (admission_rest env client sid t (uploaded @ [i]) (calls @ [?request]) as ?h)"
    proof (rule Cons.IH)
      show "drop (length (uploaded @ [i])) (psAttachments (tgPending t)) = as"
        using Cons.prems(1) by (metis drop_Suc_Cons drop0 drop_drop length_append_singleton add.commute plus_1_eq_Suc)
    qed (use Cons.prems(2) in simp)
    ultimately show ?thesis unfolding whole by (simp add: converse_rtranclp_into_rtranclp)
  qed
qed

lemma admission_rest_whole:
  "find is_image (psAttachments (tgPending t)) = None \<Longrightarrow>
     admission_rest env client sid t [] [] (psAttachments (tgPending t)) h = admission_whole env client sid t h"
proof -
  assume none: "find is_image (psAttachments (tgPending t)) = None"
  obtain ids err calls1 where u: "upload_all client sid [] [] (psAttachments (tgPending t)) = (ids, err, calls1)"
    by (metis prod_cases3)
  obtain res calls2 where s: "startTaskRun client sid (psText (tgPending t))
      ((start_settings env t)\<lparr>stAttachments := Some ids\<rparr>) calls1 = (res, calls2)" by fastforce
  obtain new where "calls2 = calls1 @ new"
    using startTaskRun_calls [OF s] by (cases res) auto
  with none u s show ?thesis
    by (cases err; cases res)
      (simp_all add: admission_rest_def admission_whole_def admitPendingSubmission_def admission_failed_def aoOk_def Let_def)
qed

theorem uninterrupted_admission:
  assumes "WAdmission sid t \<notin> set (hoWaiting h)" and "\<And>ids calls. WUpload sid t ids calls \<notin> set (hoWaiting h)"
  shows "(settle_step env)\<^sup>*\<^sup>* (wait_for (WAdmission sid t) h) (admission_whole env client sid t h)"
proof -
  have "settle_step env (wait_for (WAdmission sid t) h) (admission_settled env client sid t h)"
    using settle_step.admitted [of sid t "wait_for (WAdmission sid t) h" env client] assms(1)
    by (simp add: settled_wait_for)
  moreover have "(settle_step env)\<^sup>*\<^sup>* (admission_settled env client sid t h) (admission_whole env client sid t h)"
  proof (cases "find is_image (psAttachments (tgPending t))")
    case (Some a)
    then show ?thesis
      by (simp add: admission_settled_def admission_whole_def admitPendingSubmission_def admission_failed_def aoOk_def)
  next
    case None
    with admission_steps [of "[]" t _ sid h env client "[]"] assms(2) show ?thesis
      by (simp add: admission_settled_def admission_rest_whole)
  qed
  ultimately show ?thesis by (rule converse_rtranclp_into_rtranclp)
qed

section \<open>Guarded calls\<close>

definition live_run :: "host \<Rightarrow> jsstr \<Rightarrow> bool" where
  "live_run h rid \<longleftrightarrow>
     list_ex (\<lambda>run. rsRunId run = rid \<and> \<not> isTerminalRunState (rsState run)) (shRuns (hoShown h))"

definition shown_tournament :: "host \<Rightarrow> jsstr \<Rightarrow> tournament_view option" where
  "shown_tournament h tid =
     (case shTournament (hoShown h) of
        Some view \<Rightarrow> if tvId view = tid then Some view else None | None \<Rightarrow> None)"

definition agent_call_ok :: "agent_call \<Rightarrow> bool" where
  "agent_call_ok c =
     (case c of
        ASteer note \<Rightarrow> id_ok 500 note
      | AModel m \<Rightarrow> m \<noteq> []
      | ABudget (Some tokens) \<Rightarrow> is_integer tokens \<and> int_of_num tokens > 0
      | _ \<Rightarrow> True)"

text \<open>What must hold in the state in which a call is made.\<close>

definition permitted :: "host \<Rightarrow> host_out \<Rightarrow> bool" where
  "permitted h out =
     (case out of
        OCall (CallCancel sid rid) \<Rightarrow> hoSession h = Some sid \<and> live_run h rid
      | OCall (CallDecide sid tid) \<Rightarrow>
          hoSession h = Some sid \<and> tid \<noteq> []
          \<and> (case shown_tournament h tid of Some view \<Rightarrow> tvCanDecide view | None \<Rightarrow> True)
      | OCall (CallAbort sid tid reason) \<Rightarrow>
          hoSession h = Some sid \<and> tid \<noteq> [] \<and> reason \<noteq> Some []
          \<and> (case shown_tournament h tid of Some view \<Rightarrow> tvOpen view | None \<Rightarrow> True)
      | OCall (CallAgent agent c) \<Rightarrow> agent_call_ok c
      | OCall (CallPost sid request) \<Rightarrow> hoSession h = Some sid \<and> post_ok request
      | OCall (CallBoard sid since limit) \<Rightarrow>
          hoSession h = Some sid \<and> (case since of Some s \<Rightarrow> 0 < s | None \<Rightarrow> True)
          \<and> (case limit of Some l \<Rightarrow> 0 < l \<and> l \<le> 100 | None \<Rightarrow> True)
      | OCall (CallEvidence sid i) \<Rightarrow> hoSession h = Some sid
      | OCall (CallCreate provider model fs title) \<Rightarrow> provider \<noteq> [] \<and> model \<noteq> []
      | _ \<Rightarrow> True)"

definition guarded :: "host \<Rightarrow> host \<Rightarrow> bool" where
  "guarded h h' \<longleftrightarrow> (\<exists>sent. hoOut h' = hoOut h @ sent \<and> list_all (permitted h) sent)"

lemma guarded_refl [simp, intro!]: "guarded h h"
  by (simp add: guarded_def)

lemma guarded_send: "guarded h g \<Longrightarrow> permitted h out \<Longrightarrow> guarded h (send out g)"
  by (auto simp: guarded_def)

lemma guarded_helpers [simp]:
  "guarded h (wait_for w g) = guarded h g" "guarded h (settled w g) = guarded h g"
  "guarded h (patch_shown f g) = guarded h g" "guarded h (scheduleRefresh g) = guarded h g"
  "guarded h (show_error e g) = guarded h g"
  by (simp_all add: guarded_def)

lemma guarded_reportError [intro!]: "guarded h g \<Longrightarrow> guarded h (reportError e g)"
  by (auto simp: guarded_def permitted_def)

lemma guarded_quiet: "guarded h g \<Longrightarrow> hoOut g' = hoOut g \<Longrightarrow> guarded h g'"
  by (simp add: guarded_def)

lemma permitted_simps [simp]:
  "permitted h (OInfo m)" "permitted h (OError m)" "permitted h (OShowError m)" "permitted h (ORestore p m)"
  "permitted h (OStartResult goal ok)" "permitted h (OEvidence i text truncated)" "permitted h (OSnapshot s)"
  "permitted h (OCall (CallAdmission c))"
  by (simp_all add: permitted_def)

lemma guarded_updates [simp]:
  "guarded h (g\<lparr>hoSeen := seen\<rparr>) = guarded h g" "guarded h (g\<lparr>hoRefreshing := r\<rparr>) = guarded h g"
  "guarded h (g\<lparr>hoTimer := timer\<rparr>) = guarded h g" "guarded h (g\<lparr>hoModule := m\<rparr>) = guarded h g"
  "guarded h (g\<lparr>hoRun := run, hoContract := contract\<rparr>) = guarded h g"
  "guarded h (g\<lparr>hoRun := run\<rparr>) = guarded h g" "guarded h (g\<lparr>hoStream := sid\<rparr>) = guarded h g"
  "guarded h (g\<lparr>hoStored := stored\<rparr>) = guarded h g" "guarded h (g\<lparr>hoSession := sid\<rparr>) = guarded h g"
  "guarded h (g\<lparr>hoSession := sid, hoSeen := seen\<rparr>) = guarded h g"
  "guarded h (g\<lparr>hoSession := sid, hoStored := stored\<rparr>) = guarded h g"
  "guarded h (g\<lparr>hoDaemon := d, hoClient := c\<rparr>) = guarded h g"
  "guarded h (g\<lparr>hoModule := m, hoDaemon := d, hoClient := c\<rparr>) = guarded h g"
  by (simp_all add: guarded_def)

lemma guarded_server [intro!]:
  "guarded h g \<Longrightarrow> guarded h (startStream g)" "guarded h g \<Longrightarrow> guarded h (task_ready t g)"
  by (auto simp: startStream_def task_ready_def intro!: guarded_send split: option.split)

lemma guarded_callers [intro!]:
  "guarded h g \<Longrightarrow> guarded h (server_started c g)" "guarded h g \<Longrightarrow> guarded h (server_failed c e g)"
  "guarded h g \<Longrightarrow> guarded h (setup_failed i e g)"
  by (auto simp: server_started_def server_failed_def setup_failed_def intro!: guarded_send split: caller.split)

lemma guarded_ensure [intro!]:
  "guarded h g \<Longrightarrow> guarded h (ensure_done ec g)" "guarded h g \<Longrightarrow> guarded h (ensure_failed ec e g)"
  by (auto simp: ensure_done_def ensure_failed_def intro!: guarded_send split: ensure_caller.split)

lemma guarded_session [intro!]:
  "guarded h g \<Longrightarrow> guarded h (ensureSession ec g)"
  "guarded h g \<Longrightarrow> guarded h (session_found ec sid g)"
  "guarded h g \<Longrightarrow> guarded h (create_session env ec bnds provider model g)"
  by (auto simp: ensureSession_def session_found_def create_session_def permitted_def
      intro!: guarded_send split: option.split)

lemma guarded_choose [intro!]: "guarded h g \<Longrightarrow> guarded h (choose_session env ec bnds rows listed g)"
  by (auto simp: choose_session_def Let_def split: option.split)

lemma guarded_session_parts [intro!]:
  "guarded h g \<Longrightarrow> guarded h (startServer binary c g)"
  "guarded h g \<Longrightarrow> guarded h (spawn_settled c i spawn g)"
  "guarded h g \<Longrightarrow> guarded h (health_settled c i handle health g)"
  "guarded h g \<Longrightarrow> guarded h (catalog_settled env ec bnds infos g)"
  "guarded h g \<Longrightarrow> guarded h (create_settled env ec bnds provider model session g)"
  "guarded h g \<Longrightarrow> guarded h (history_settled ec page g)"
  "guarded h g \<Longrightarrow> guarded h (list_settled env ec rows g)"
  "guarded h g \<Longrightarrow> guarded h (pruned_written env ec bnds sessions failed g)"
  "guarded h g \<Longrightarrow> guarded h (binding_written ec created provider model failed g)"
  by (auto simp: startServer_def spawn_settled_def health_settled_def catalog_settled_def create_settled_def
      history_settled_def list_settled_def pruned_written_def binding_written_def Let_def split: option.split sum.split list.split)

lemma guarded_admission_call: "guarded h g \<Longrightarrow> guarded h (admission_call t g c)"
  by (auto simp: admission_call_def restore_draft_def run_started_def Let_def intro!: guarded_send split: call.split)

interpretation guarded_calls: preserving "admission_call t" "guarded h" for t h
  by unfold_locales (rule guarded_admission_call)

lemma guarded_admission [intro!]:
  "guarded h g \<Longrightarrow> guarded h (admission_next env client sid t ids calls g)"
  "guarded h g \<Longrightarrow> guarded h (admission_settled env client sid t g)"
  by (auto simp: admission_settled_def admission_next_def admission_failed_def Let_def guarded_calls.run_inv
      guarded_admission_call intro!: guarded_send split: prod.split option.split list.split sum.split)

lemma guarded_tasks [intro!]:
  "guarded h g \<Longrightarrow> guarded h (startTask binary t g)"
  "guarded h g \<Longrightarrow> guarded h (newTaskFromCommand binary goal picks g)"
  by (auto simp: startTask_def newTaskFromCommand_def split: option.split)

lemma guarded_goal [intro!]: "guarded h g \<Longrightarrow> guarded h (sendGoal binary message g)"
  by (auto simp: sendGoal_def Let_def intro!: guarded_send split: prod.split sum.split option.split)

lemma guarded_cancel: "guarded h (cancelActiveRun h)"
  using cancelRunTarget_live [of "shRuns (hoShown h)" "hoRun h"]
  by (auto simp: cancelActiveRun_def permitted_def live_run_def intro!: guarded_send split: option.split)

lemma guarded_tournament: "guarded h (controlTournament message h)"
  by (auto simp: controlTournament_def permitted_def shown_tournament_def Let_def intro!: guarded_send
      split: option.split)

lemma agent_plan_ok:
  "agent_plan_of message session = PlanCall c \<Longrightarrow> agent_call_ok c"
  "prompt_plan action entered = PlanCall c \<Longrightarrow> agent_call_ok c"
  by (auto simp: agent_plan_of_def prompt_plan_def steer_plan_def agent_call_ok_def Let_def
      dest: steer_ok split: if_split_asm sum.split_asm option.split_asm jsval.split_asm)

lemma guarded_plan:
  "guarded h g \<Longrightarrow> (\<And>c. plan = PlanCall c \<Longrightarrow> agent_call_ok c) \<Longrightarrow> guarded h (follow_plan agent action plan g)"
  by (auto simp: follow_plan_def permitted_def intro!: guarded_send split: agent_plan.split)

lemma guarded_agents [intro!]:
  "guarded h g \<Longrightarrow> guarded h (controlAgent message g)"
  "guarded h g \<Longrightarrow> guarded h (prompt_settled agent action entered g)"
  by (auto simp: controlAgent_def prompt_settled_def Let_def intro!: guarded_plan dest: agent_plan_ok)

lemma guarded_reads:
  "guarded h (retrieveEvidence message h)" "guarded h (refresh h)"
  by (auto simp: retrieveEvidence_def refresh_def permitted_def intro!: guarded_send
      split: option.split jsval.split)

lemma guarded_board_read: "guarded h (board_read_message message h)"
  using parseBoardReadRequest_bounds [of "jget message (js ''since'')" "jget message (js ''limit'')"]
  by (auto simp: board_read_message_def readBoard_def permitted_def intro!: guarded_send
      split: option.split sum.split prod.split)

lemma guarded_board_post: "guarded h (postBoard message h)"
  by (auto simp: postBoard_def permitted_def intro!: guarded_send dest: parse_post_ok
      split: option.split sum.split)

lemma guarded_stop [intro!]: "guarded h g \<Longrightarrow> guarded h (stopServer g)"
  by (simp add: stopServer_def guarded_def)

lemma guarded_settled_controls [intro!]:
  "guarded h g \<Longrightarrow> guarded h (cancel_settled ack g)" "guarded h g \<Longrightarrow> guarded h (decide_settled decision g)"
  "guarded h g \<Longrightarrow> guarded h (abort_settled tid failed g)"
  "guarded h g \<Longrightarrow> guarded h (agent_settled agent action failed g)"
  "guarded h g \<Longrightarrow> guarded h (evidence_settled decode i retrieval g)"
  "guarded h g \<Longrightarrow> guarded h (board_read_settled since page g)"
  "guarded h g \<Longrightarrow> guarded h (board_post_settled post g)"
  by (auto simp: cancel_settled_def decide_settled_def abort_settled_def agent_settled_def evidence_settled_def
      board_read_settled_def board_post_settled_def Let_def intro!: guarded_send split: sum.split option.split)

lemma guarded_if: "guarded h a \<Longrightarrow> guarded h b \<Longrightarrow> guarded h (if c then a else b)"
  by simp

lemma guarded_message: "guarded h (handleWebviewMessage binary message h)"
  unfolding handleWebviewMessage_def Let_def
  by (intro guarded_if)
    (simp_all add: guarded_send guarded_session_parts guarded_stop guarded_goal guarded_cancel guarded_agents
      guarded_tournament guarded_reads guarded_board_read guarded_board_post)

lemma guarded_step: "host_step env h h' \<Longrightarrow> guarded h h'"
proof (induction rule: host_step.induct)
  case (auto h h')
  then show ?case using auto_step_quiet by (intro guarded_quiet [of h h h']) auto
next
  case (user h h')
  then show ?case by cases (auto intro: guarded_message)
next
  case (settle h h')
  then show ?case by cases auto
qed

text \<open>
  C5.  Every call that changes something is guarded, in every step: a cancel goes to the session
  of the host and to a listed run that has not ended; a tournament on display is decided only
  when the cockpit allows it and aborted only while it is open; a board post and a board read
  are within their bounds; an agent is steered with 1 to 500 characters and given a positive
  integer budget; a session is created with a provider and a model.
\<close>

theorem every_call_guarded:
  assumes "host_step env h h'"
  shows "\<exists>sent. hoOut h' = hoOut h @ sent \<and> list_all (permitted h) sent"
  using guarded_step [OF assms] by (simp add: guarded_def)

definition demo_host :: host where
  "demo_host = (initial_host JNull)\<lparr>hoClient := Some 0, hoSession := Some (js ''s''),
     hoShown := empty_shown\<lparr>shRuns := [\<lparr>rsTaskId = js ''1'', rsRunId = js ''r'', rsMode = js ''task'',
       rsState = js ''Running'', rsGoal = None, rsModel = None\<rparr>]\<rparr>\<rparr>"

theorem every_call_guarded_witness:
  "\<exists>sent. hoOut (handleWebviewMessage (Inr []) [(js ''type'', JStr (js ''cancelRun''))] demo_host)
     = hoOut demo_host @ sent \<and> list_all (permitted demo_host) sent"
  by (rule every_call_guarded [of demo_env]) (rule host_step.user, rule user_step.message)

end
