(* ===== verification/HostRefreshes.thy ===== *)
theory HostRefreshes
  imports HostGuarantees
begin

text \<open>
  \<open>refresh\<close> of \<open>apps/vscode/src/extension.ts\<close> is guarded by a flag, which \<open>stopServer\<close> resets without
  waiting for the refresh that set it.  While the daemon is not stopped at most one refresh is
  in flight and the flag tells whether one is; the last section shows what the races with a
  stop, with a start and with a started run lead to.
\<close>

section \<open>One refresh at a time\<close>

definition refresh_part :: "waiting \<Rightarrow> nat" where
  "refresh_part w =
     (case w of
        WRefresh _ _ \<Rightarrow> 1 | WVerification _ _ _ \<Rightarrow> 1 | WTournaments _ _ \<Rightarrow> 1 | WTournament _ _ _ \<Rightarrow> 1 | _ \<Rightarrow> 0)"

definition refreshes :: "host \<Rightarrow> nat" where
  "refreshes h = sum_list (map refresh_part (hoWaiting h))"

definition single_refresh :: "host \<Rightarrow> bool" where
  "single_refresh h \<longleftrightarrow> refreshes h = (if hoRefreshing h then 1 else 0)"

lemma refresh_part_simps [simp]:
  "refresh_part (WRefresh sid board) = 1" "refresh_part (WVerification sid result asked) = 1"
  "refresh_part (WTournaments sid result) = 1" "refresh_part (WTournament sid result target) = 1"
  "refresh_part (WSpawn c i) = 0" "refresh_part (WHealth c i handle) = 0" "refresh_part (WList ec) = 0"
  "refresh_part (WCatalog ec bnds) = 0" "refresh_part (WCreate ec bnds provider model) = 0"
  "refresh_part (WPruned ec bnds rows) = 0" "refresh_part (WBound ec created provider model) = 0"
  "refresh_part (WHistory ec sid) = 0" "refresh_part (WAdmission sid t) = 0" "refresh_part (WUpload sid t ids calls) = 0"
  "refresh_part (WBoardRead sid since) = 0" "refresh_part (WBoardPost sid) = 0"
  "refresh_part (WCancel sid run) = 0" "refresh_part (WDecide tid) = 0" "refresh_part (WAbort tid) = 0"
  "refresh_part (WAgent agent action) = 0" "refresh_part (WPrompt agent action) = 0"
  "refresh_part (WEvidence evidence) = 0"
  by (simp_all add: refresh_part_def)

lemma refreshes_settled: "w \<in> set (hoWaiting h) \<Longrightarrow> refreshes (settled w h) + refresh_part w = refreshes h"
  using sum_list_remove1 [of w "hoWaiting h" refresh_part] by (simp add: refreshes_def)

lemma refreshes_helpers [simp]:
  "refreshes (send out h) = refreshes h" "refreshes (wait_for w h) = refreshes h + refresh_part w"
  "refreshes (patch_shown f h) = refreshes h" "refreshes (scheduleRefresh h) = refreshes h"
  "refreshes (show_error e h) = refreshes h" "refreshes (reportError e h) = refreshes h"
  "refreshes (refresh_done result t h) = refreshes h"
  by (simp_all add: refreshes_def refresh_done_quiet)

lemma refresh_done_refreshing [simp]: "\<not> hoRefreshing (refresh_done result t h)"
  by (simp add: refresh_done_def Let_def)

text \<open>A part of the host that neither begins nor ends a refresh.\<close>

definition keeps_refresh :: "host \<Rightarrow> host \<Rightarrow> bool" where
  "keeps_refresh h g \<longleftrightarrow> refreshes g = refreshes h \<and> hoRefreshing g = hoRefreshing h"

lemma keeps_refresh_refl [simp, intro!]: "keeps_refresh h h"
  by (simp add: keeps_refresh_def)

lemma keeps_refresh_helpers [simp]:
  "keeps_refresh h (send out g) = keeps_refresh h g" "keeps_refresh h (patch_shown f g) = keeps_refresh h g"
  "keeps_refresh h (scheduleRefresh g) = keeps_refresh h g" "keeps_refresh h (show_error e g) = keeps_refresh h g"
  "keeps_refresh h (reportError e g) = keeps_refresh h g"
  "refresh_part w = 0 \<Longrightarrow> keeps_refresh h (wait_for w g) = keeps_refresh h g"
  by (simp_all add: keeps_refresh_def)

lemma keeps_refresh_settled:
  "w \<in> set (hoWaiting h) \<Longrightarrow> refresh_part w = 0 \<Longrightarrow> keeps_refresh h (settled w h)"
  using refreshes_settled [of w h] by (simp add: keeps_refresh_def)

lemma keeps_refresh_updates [simp]:
  "keeps_refresh h (g\<lparr>hoSeen := seen\<rparr>) = keeps_refresh h g" "keeps_refresh h (g\<lparr>hoTimer := timer\<rparr>) = keeps_refresh h g"
  "keeps_refresh h (g\<lparr>hoModule := m\<rparr>) = keeps_refresh h g"
  "keeps_refresh h (g\<lparr>hoRun := run, hoContract := contract\<rparr>) = keeps_refresh h g"
  "keeps_refresh h (g\<lparr>hoRun := run\<rparr>) = keeps_refresh h g" "keeps_refresh h (g\<lparr>hoStream := sid\<rparr>) = keeps_refresh h g"
  "keeps_refresh h (g\<lparr>hoStored := stored\<rparr>) = keeps_refresh h g"
  "keeps_refresh h (g\<lparr>hoSession := sid\<rparr>) = keeps_refresh h g"
  "keeps_refresh h (g\<lparr>hoSession := sid, hoSeen := seen\<rparr>) = keeps_refresh h g"
  "keeps_refresh h (g\<lparr>hoSession := sid, hoStored := stored\<rparr>) = keeps_refresh h g"
  "keeps_refresh h (g\<lparr>hoDaemon := d, hoClient := c\<rparr>) = keeps_refresh h g"
  "keeps_refresh h (g\<lparr>hoModule := m, hoDaemon := d, hoClient := c\<rparr>) = keeps_refresh h g"
  by (simp_all add: keeps_refresh_def refreshes_def)

lemma single_refresh_keep: "single_refresh h \<Longrightarrow> keeps_refresh h g \<Longrightarrow> single_refresh g"
  by (simp add: single_refresh_def keeps_refresh_def)

lemma single_refresh_auto: "auto_step h h' \<Longrightarrow> single_refresh h \<Longrightarrow> single_refresh h'"
proof (induction rule: auto_step.induct)
  case (reads_done sid board h reads)
  let ?h = "settled (WRefresh sid (Some board)) h"
  have "refreshes (refresh_reads_settled sid board reads ?h) = Suc (refreshes ?h)"
    "hoRefreshing (refresh_reads_settled sid board reads ?h) = hoRefreshing h"
    by (auto simp: refresh_reads_settled_def Let_def refreshes_def split: option.split)
  with reads_done refreshes_settled [OF reads_done(1)] show ?case by (simp add: single_refresh_def)
next
  case (timer h)
  then show ?case
    by (auto simp: refresh_timer_def refresh_def single_refresh_def refreshes_def split: option.split)
next
  case (board_part sid h page)
  from refreshes_settled [OF board_part(1)] board_part(2) show ?case
    by (simp add: refresh_board_def single_refresh_def)
next
  case (reads_failed sid part h e)
  from refreshes_settled [OF reads_failed(1)] reads_failed(2) show ?case
    by (simp add: refresh_failed_def single_refresh_def refreshes_def split: if_split_asm)
next
  case (verification_part sid result asked h view)
  let ?h = "settled (WVerification sid result asked) h"
  have "refreshes (verification_settled sid result asked view ?h) = Suc (refreshes ?h)"
    "hoRefreshing (verification_settled sid result asked view ?h) = hoRefreshing h"
    by (auto simp: verification_settled_def Let_def refreshes_def split: sum.split)
  with verification_part refreshes_settled [OF verification_part(1)] show ?case by (simp add: single_refresh_def)
next
  case (tournaments_part sid result h listing)
  from refreshes_settled [OF tournaments_part(1)] tournaments_part(2) show ?case
    by (auto simp: tournaments_settled_def single_refresh_def refreshes_def refresh_done_quiet
        split: sum.split option.split if_split_asm)
next
  case (tournament_part sid result target h state)
  from refreshes_settled [OF tournament_part(1)] tournament_part(2) show ?case
    by (auto simp: tournament_settled_def single_refresh_def refreshes_def refresh_done_quiet
        split: sum.split if_split_asm)
qed (simp_all add: stream_event_def stream_status_def single_refresh_def refreshes_def)

lemma keeps_refresh_server [intro!]:
  "keeps_refresh h g \<Longrightarrow> keeps_refresh h (startStream g)"
  "keeps_refresh h g \<Longrightarrow> keeps_refresh h (task_ready t g)"
  by (auto simp: startStream_def task_ready_def split: option.split)

lemma keeps_refresh_callers [intro!]:
  "keeps_refresh h g \<Longrightarrow> keeps_refresh h (server_started c g)"
  "keeps_refresh h g \<Longrightarrow> keeps_refresh h (server_failed c e g)"
  "keeps_refresh h g \<Longrightarrow> keeps_refresh h (setup_failed i e g)"
  by (auto simp: server_started_def server_failed_def setup_failed_def split: caller.split)

lemma keeps_refresh_ensure [intro!]:
  "keeps_refresh h g \<Longrightarrow> keeps_refresh h (ensure_done ec g)"
  "keeps_refresh h g \<Longrightarrow> keeps_refresh h (ensure_failed ec e g)"
  by (auto simp: ensure_done_def ensure_failed_def split: ensure_caller.split)

lemma keeps_refresh_session [intro!]:
  "keeps_refresh h g \<Longrightarrow> keeps_refresh h (ensureSession ec g)"
  "keeps_refresh h g \<Longrightarrow> keeps_refresh h (session_found ec sid g)"
  "keeps_refresh h g \<Longrightarrow> keeps_refresh h (create_session env ec bnds provider model g)"
  by (auto simp: ensureSession_def session_found_def create_session_def split: option.split)

lemma keeps_refresh_choose [intro!]:
  "keeps_refresh h g \<Longrightarrow> keeps_refresh h (choose_session env ec bnds rows listed g)"
  by (auto simp: choose_session_def Let_def split: option.split)

lemma keeps_refresh_session_parts [intro!]:
  "keeps_refresh h g \<Longrightarrow> keeps_refresh h (startServer binary c g)"
  "keeps_refresh h g \<Longrightarrow> keeps_refresh h (spawn_settled c i spawn g)"
  "keeps_refresh h g \<Longrightarrow> keeps_refresh h (health_settled c i handle health g)"
  "keeps_refresh h g \<Longrightarrow> keeps_refresh h (catalog_settled env ec bnds infos g)"
  "keeps_refresh h g \<Longrightarrow> keeps_refresh h (create_settled env ec bnds provider model session g)"
  "keeps_refresh h g \<Longrightarrow> keeps_refresh h (history_settled ec page g)"
  "keeps_refresh h g \<Longrightarrow> keeps_refresh h (list_settled env ec rows g)"
  "keeps_refresh h g \<Longrightarrow> keeps_refresh h (pruned_written env ec bnds sessions failed g)"
  "keeps_refresh h g \<Longrightarrow> keeps_refresh h (binding_written ec created provider model failed g)"
  by (auto simp: startServer_def spawn_settled_def health_settled_def catalog_settled_def create_settled_def
      history_settled_def list_settled_def pruned_written_def binding_written_def Let_def split: option.split sum.split list.split)

lemma keeps_refresh_admission_call: "keeps_refresh h g \<Longrightarrow> keeps_refresh h (admission_call t g c)"
  by (simp add: admission_call_def restore_draft_def run_started_def Let_def split: call.split)

interpretation admission_refresh: preserving "admission_call t" "keeps_refresh h" for t h
  by unfold_locales (rule keeps_refresh_admission_call)

lemma keeps_refresh_admission [intro!]:
  "keeps_refresh h g \<Longrightarrow> keeps_refresh h (admission_next env client sid t ids calls g)"
  "keeps_refresh h g \<Longrightarrow> keeps_refresh h (admission_settled env client sid t g)"
  by (auto simp: admission_settled_def admission_next_def admission_failed_def Let_def admission_refresh.run_inv
      keeps_refresh_admission_call split: prod.split option.split list.split sum.split)

lemma keeps_refresh_tasks [intro!]:
  "keeps_refresh h g \<Longrightarrow> keeps_refresh h (startTask binary t g)"
  "keeps_refresh h g \<Longrightarrow> keeps_refresh h (newTaskFromCommand binary goal picks g)"
  by (auto simp: startTask_def newTaskFromCommand_def split: option.split)

lemma keeps_refresh_goal [intro!]: "keeps_refresh h g \<Longrightarrow> keeps_refresh h (sendGoal binary message g)"
  by (auto simp: sendGoal_def Let_def split: prod.split sum.split option.split)

lemma keeps_refresh_controls [intro!]:
  "keeps_refresh h g \<Longrightarrow> keeps_refresh h (cancelActiveRun g)"
  "keeps_refresh h g \<Longrightarrow> keeps_refresh h (controlTournament message g)"
  "keeps_refresh h g \<Longrightarrow> keeps_refresh h (follow_plan agent action plan g)"
  "keeps_refresh h g \<Longrightarrow> keeps_refresh h (controlAgent message g)"
  "keeps_refresh h g \<Longrightarrow> keeps_refresh h (retrieveEvidence message g)"
  "keeps_refresh h g \<Longrightarrow> keeps_refresh h (board_read_message message g)"
  "keeps_refresh h g \<Longrightarrow> keeps_refresh h (postBoard message g)"
  by (auto simp: cancelActiveRun_def controlTournament_def follow_plan_def controlAgent_def retrieveEvidence_def
      readBoard_def board_read_message_def postBoard_def Let_def
      split: option.split sum.split prod.split agent_plan.split jsval.split)

lemma keeps_refresh_settled_controls [intro!]:
  "keeps_refresh h g \<Longrightarrow> keeps_refresh h (cancel_settled ack g)"
  "keeps_refresh h g \<Longrightarrow> keeps_refresh h (decide_settled decision g)"
  "keeps_refresh h g \<Longrightarrow> keeps_refresh h (abort_settled tid failed g)"
  "keeps_refresh h g \<Longrightarrow> keeps_refresh h (prompt_settled agent action entered g)"
  "keeps_refresh h g \<Longrightarrow> keeps_refresh h (agent_settled agent action failed g)"
  "keeps_refresh h g \<Longrightarrow> keeps_refresh h (evidence_settled decode i retrieval g)"
  "keeps_refresh h g \<Longrightarrow> keeps_refresh h (board_read_settled since page g)"
  "keeps_refresh h g \<Longrightarrow> keeps_refresh h (board_post_settled post g)"
  by (auto simp: cancel_settled_def decide_settled_def abort_settled_def prompt_settled_def agent_settled_def
      evidence_settled_def board_read_settled_def board_post_settled_def Let_def
      split: sum.split option.split)

lemma single_refresh_settle: "settle_step env h h' \<Longrightarrow> single_refresh h \<Longrightarrow> single_refresh h'"
  by (erule single_refresh_keep, erule settle_step.cases) (auto intro: keeps_refresh_settled)

lemma single_refresh_begin: "single_refresh h \<Longrightarrow> single_refresh (refresh h)"
  by (auto simp: refresh_def single_refresh_def refreshes_def split: option.split)

lemma single_refresh_if: "single_refresh a \<Longrightarrow> single_refresh b \<Longrightarrow> single_refresh (if c then a else b)"
  by simp

lemma single_refresh_keeping: "(keeps_refresh h h \<Longrightarrow> keeps_refresh h (f h)) \<Longrightarrow> single_refresh h \<Longrightarrow> single_refresh (f h)"
  by (auto intro: single_refresh_keep)

text \<open>Messages other than the one that stops the daemon.\<close>

lemma single_refresh_message:
  assumes "single_refresh h" and "message_text message ''type'' \<noteq> js ''stopDaemon''"
  shows "single_refresh (handleWebviewMessage binary message h)"
  using assms(2) unfolding handleWebviewMessage_def Let_def
  by (simp only: if_False)
    (intro single_refresh_if single_refresh_begin assms(1) single_refresh_keep [OF assms(1)];
     simp add: keeps_refresh_session_parts keeps_refresh_goal keeps_refresh_controls assms(1))

end
