(* ===== verification/HostRaces.thy ===== *)
theory HostRaces
  imports HostRefreshes
begin

text \<open>
  How the handlers of \<open>apps/vscode/src/extension.ts\<close> overlap: at most one refresh is in flight
  between two stops of the daemon, and what a stop, a start or a run does while other handlers are waiting.
\<close>

section \<open>Between two stops\<close>

text \<open>
  The runs in which the daemon is stopped only while no refresh is in flight.
\<close>

inductive calm_run :: "host_env \<Rightarrow> host \<Rightarrow> bool" for env where
  activated: "calm_run env (initial_host stored)"
| auto: "calm_run env h \<Longrightarrow> auto_step h h' \<Longrightarrow> calm_run env h'"
| settled: "calm_run env h \<Longrightarrow> settle_step env h h' \<Longrightarrow> calm_run env h'"
| message: "calm_run env h \<Longrightarrow> message_text message ''type'' \<noteq> js ''stopDaemon'' \<Longrightarrow>
    calm_run env (handleWebviewMessage binary message h)"
| new_task: "calm_run env h \<Longrightarrow> calm_run env (newTaskFromCommand binary goal picks h)"
| stopped: "calm_run env h \<Longrightarrow> refreshes h = 0 \<Longrightarrow> calm_run env (stopServer h)"

lemma refreshes_stop [simp]: "refreshes (stopServer h) = refreshes h" "\<not> hoRefreshing (stopServer h)"
  by (simp_all add: stopServer_def refreshes_def)

lemma calm_run_reached: "calm_run env h \<Longrightarrow> host_reached env h"
proof (induction rule: calm_run.induct)
  case (activated stored)
  show ?case by (rule host_reached.activated)
qed (auto intro: reached_auto reached_settle reached_user user_step.intros)

text \<open>
  C7.  At most one refresh is in flight, and the flag \<open>refreshing\<close> tells whether one is: over all
  interleavings of the handlers, of the timer and of the parts of a refresh, as long as the
  daemon is not stopped under a refresh.
\<close>

theorem one_refresh_at_a_time:
  assumes "calm_run env h"
  shows "refreshes h = (if hoRefreshing h then 1 else 0)"
proof -
  have "single_refresh h"
    using assms
  proof (induction rule: calm_run.induct)
    case (activated stored)
    show ?case by (simp add: single_refresh_def refreshes_def initial_host_def)
  next
    case (new_task h binary goal picks)
    then show ?case by (auto intro: single_refresh_keep)
  next
    case (stopped h)
    then show ?case by (simp add: single_refresh_def)
  qed (auto intro: single_refresh_auto single_refresh_settle single_refresh_message)
  then show ?thesis by (simp add: single_refresh_def)
qed

text \<open>A start of the daemon up to the first refresh; the listing of the sessions fails.\<close>

definition demo_daemon :: daemon_handle where
  "demo_daemon = daemon_handle_for (js ''t'') (Fin 4711)"

definition demo_created_session :: session_created where
  "demo_created_session = \<lparr>scId = js ''s1'', scTitle = js ''t'', scCreatedMs = 0\<rparr>"

definition demo_caller :: ensure_caller where
  "demo_caller = ForStarted ByCommand 0 (js ''1'') (dhBaseUrl demo_daemon)"

definition start_message :: "jsval props" where
  "start_message = [(js ''type'', JStr (js ''startDaemon''))]"

definition demo_starting :: host where
  "demo_starting = handleWebviewMessage (Inr []) start_message (initial_host JNull)"

definition demo_spawned :: host where
  "demo_spawned = spawn_settled ByCommand 0 (Inr demo_daemon) (settled (WSpawn ByCommand 0) demo_starting)"

definition demo_healthy :: host where
  "demo_healthy = health_settled ByCommand 0 demo_daemon (Inr \<lparr>nhOk = True, nhVersion = js ''1''\<rparr>)
     (settled (WHealth ByCommand 0 demo_daemon) demo_spawned)"

definition demo_listed :: host where
  "demo_listed = list_settled demo_env demo_caller (Inl (ThrownError [])) (settled (WList demo_caller) demo_healthy)"

definition demo_entered :: host where
  "demo_entered = create_settled demo_env demo_caller [] (js ''p'') (js ''m'') (Inr demo_created_session)
     (settled (WCreate demo_caller [] (js ''p'') (js ''m'')) demo_listed)"

definition demo_kept :: host where
  "demo_kept = binding_written demo_caller demo_created_session (js ''p'') (js ''m'') None
     (settled (WBound demo_caller demo_created_session (js ''p'') (js ''m'')) demo_entered)"

definition demo_running :: host where
  "demo_running = history_settled demo_caller (Inl (ThrownError [])) (settled (WHistory demo_caller (js ''s1'')) demo_kept)"

lemma demo_start_states:
  "hoWaiting demo_starting = [WSpawn ByCommand 0] \<and> hoSession demo_starting = None \<and> hoStored demo_starting = JNull
     \<and> \<not> hoRefreshing demo_starting"
  "hoWaiting demo_spawned = [WHealth ByCommand 0 demo_daemon] \<and> hoSession demo_spawned = None \<and> hoStored demo_spawned = JNull
     \<and> \<not> hoRefreshing demo_spawned"
  "hoWaiting demo_healthy = [WList demo_caller] \<and> hoSession demo_healthy = None \<and> hoStored demo_healthy = JNull
     \<and> hoClient demo_healthy = Some 0 \<and> \<not> hoRefreshing demo_healthy"
proof -
  show 1: "hoWaiting demo_starting = [WSpawn ByCommand 0] \<and> hoSession demo_starting = None \<and> hoStored demo_starting = JNull
     \<and> \<not> hoRefreshing demo_starting"
    by (simp add: demo_starting_def start_message_def handleWebviewMessage_def message_text_def jget_def Let_def
        startServer_def initial_host_def isRunning_def daemon_initial_def split: if_split_asm)
  then show 2: "hoWaiting demo_spawned = [WHealth ByCommand 0 demo_daemon] \<and> hoSession demo_spawned = None \<and> hoStored demo_spawned = JNull
     \<and> \<not> hoRefreshing demo_spawned"
    by (simp add: demo_spawned_def spawn_settled_def)
  then show "hoWaiting demo_healthy = [WList demo_caller] \<and> hoSession demo_healthy = None \<and> hoStored demo_healthy = JNull
     \<and> hoClient demo_healthy = Some 0 \<and> \<not> hoRefreshing demo_healthy"
    by (simp add: demo_healthy_def health_settled_def ensureSession_def demo_caller_def)
qed

lemma demo_session_states:
  "hoWaiting demo_listed = [WCreate demo_caller [] (js ''p'') (js ''m'')] \<and> hoClient demo_listed = Some 0 \<and> \<not> hoRefreshing demo_listed"
  "hoWaiting demo_entered = [WBound demo_caller demo_created_session (js ''p'') (js ''m'')] \<and> hoClient demo_entered = Some 0
     \<and> hoSession demo_entered = Some (js ''s1'') \<and> \<not> hoRefreshing demo_entered"
  "hoWaiting demo_kept = [WHistory demo_caller (js ''s1'')] \<and> hoClient demo_kept = Some 0
     \<and> hoSession demo_kept = Some (js ''s1'') \<and> \<not> hoRefreshing demo_kept"
  "hoWaiting demo_running = [] \<and> hoClient demo_running = Some 0 \<and> hoSession demo_running = Some (js ''s1'')
     \<and> \<not> hoRefreshing demo_running \<and> hoTimer demo_running"
proof -
  have p: "js ''p'' \<noteq> []" "js ''m'' \<noteq> []" "js ''s1'' \<noteq> []" by (simp_all add: js_def)
  show 1: "hoWaiting demo_listed = [WCreate demo_caller [] (js ''p'') (js ''m'')] \<and> hoClient demo_listed = Some 0 \<and> \<not> hoRefreshing demo_listed"
    using demo_start_states(3) p
    by (simp add: demo_listed_def list_settled_def choose_session_def create_session_def boundSessionFor_def bound_text_def
        readBindings_def pruneBindings_def demo_env_def jget_def Let_def)
  then show 2: "hoWaiting demo_entered = [WBound demo_caller demo_created_session (js ''p'') (js ''m'')] \<and> hoClient demo_entered = Some 0
     \<and> hoSession demo_entered = Some (js ''s1'') \<and> \<not> hoRefreshing demo_entered"
    using p by (simp add: demo_entered_def create_settled_def demo_created_session_def truthy_id_def)
  then show 3: "hoWaiting demo_kept = [WHistory demo_caller (js ''s1'')] \<and> hoClient demo_kept = Some 0
     \<and> hoSession demo_kept = Some (js ''s1'') \<and> \<not> hoRefreshing demo_kept"
    by (simp add: demo_kept_def binding_written_def)
  then show "hoWaiting demo_running = [] \<and> hoClient demo_running = Some 0 \<and> hoSession demo_running = Some (js ''s1'')
     \<and> \<not> hoRefreshing demo_running \<and> hoTimer demo_running"
    by (simp add: demo_running_def history_settled_def demo_caller_def ensure_done_def server_started_def startStream_def
        scheduleRefresh_def send_def split: option.split)
qed

lemma demo_running_calm: "calm_run demo_env demo_running"
proof -
  have "message_text start_message ''type'' \<noteq> js ''stopDaemon''"
    by (simp add: start_message_def message_text_def jget_def)
  then have "calm_run demo_env demo_starting"
    unfolding demo_starting_def by (rule calm_run.message [OF calm_run.activated])
  then have "calm_run demo_env demo_spawned"
    unfolding demo_spawned_def by (rule calm_run.settled) (simp add: settle_step.spawned demo_start_states)
  then have "calm_run demo_env demo_healthy"
    unfolding demo_healthy_def by (rule calm_run.settled) (simp add: settle_step.healthy demo_start_states)
  then have "calm_run demo_env demo_listed"
    unfolding demo_listed_def by (rule calm_run.settled) (simp add: settle_step.listed demo_start_states)
  then have "calm_run demo_env demo_entered"
    unfolding demo_entered_def by (rule calm_run.settled) (simp add: settle_step.created demo_session_states)
  then have "calm_run demo_env demo_kept"
    unfolding demo_kept_def by (rule calm_run.settled) (simp add: settle_step.bound demo_session_states)
  then show ?thesis
    unfolding demo_running_def by (rule calm_run.settled) (simp add: settle_step.history demo_session_states)
qed

theorem one_refresh_at_a_time_witness:
  "hoRefreshing (refresh_timer demo_running) \<and> refreshes (refresh_timer demo_running) = 1"
proof -
  have on: "hoRefreshing (refresh_timer demo_running)"
    using demo_session_states(4) by (simp add: refresh_timer_def refresh_def)
  have "calm_run demo_env (refresh_timer demo_running)"
    using demo_running_calm by (rule calm_run.auto) (rule auto_step.timer)
  from one_refresh_at_a_time [OF this] on show ?thesis by simp
qed

section \<open>A stop under a refresh\<close>

text \<open>
  \<open>stopServer\<close> resets the flag of a refresh that is still in flight.  After the next start a
  second refresh runs beside the first.
\<close>

lemma stop_forgets_refresh:
  assumes "refreshes h = 1"
  shows "refreshes (refresh ((stopServer h)\<lparr>hoClient := Some c, hoSession := Some sid\<rparr>)) = 2"
  using assms by (simp add: refresh_def refreshes_def stopServer_def)

text \<open>
  The refresh that was in flight then patches its results over the cleared snapshot: the daemon
  is shown as stopped together with the task, the runs and the busy mark of the old session.
\<close>

lemma stale_refresh_revives:
  assumes "w = WTournaments sid result"
  shows "shDaemon (hoShown (tournaments_settled sid result (Inl e) (settled w (stopServer h)))) = js ''stopped''"
    and "shTask (hoShown (tournaments_settled sid result (Inl e) (settled w (stopServer h)))) = reTask result"
    and "shBusy (hoShown (tournaments_settled sid result (Inl e) (settled w (stopServer h)))) = (reActiveRun result \<noteq> None)"
  by (simp_all add: tournaments_settled_def refresh_done_def stopServer_def patched_def refreshed_def
      empty_shown_def Let_def patch_shown_def settled_def)

section \<open>A run that starts under a refresh\<close>

text \<open>
  A refresh whose reads were sent before the run was admitted ends with the active run of its own
  reads, so the run that was just started is shown as not running.  The refresh that \<open>startTask\<close>
  schedules is dropped when its timer fires under the one in flight.
\<close>

lemma refresh_overwrites_started_run:
  "shActiveRun (hoShown (refresh_done result t (run_started task started h))) = reActiveRun result"
  by (simp add: refresh_done_def patched_def refreshed_def Let_def)

lemma scheduled_refresh_dropped:
  "hoRefreshing h \<Longrightarrow> refreshes (refresh_timer (scheduleRefresh h)) = refreshes h
     \<and> \<not> hoTimer (refresh_timer (scheduleRefresh h))"
  by (auto simp: refresh_timer_def refresh_def scheduleRefresh_def refreshes_def split: option.split)

section \<open>Two starts\<close>

text \<open>
  A second start before the first daemon is ready spawns a second child: nothing marks the first
  start as pending.
\<close>

lemma second_start_spawns:
  assumes "hoDaemon h = None" and "dmActive (hoModule h) = None"
  shows "length (dmChildren (hoModule (startServer (Inr path) c (startServer (Inr path) c h))))
       = length (dmChildren (hoModule h)) + 2"
  using assms by (auto simp: startServer_def startDaemon_def isRunning_def child_alive_def wait_for_def
      patch_shown_def Let_def nth_append split: option.split_asm option.split)

section \<open>What a refresh leaves unchanged\<close>

text \<open>
  A failed read of the task verification answers with the cached one, whatever task that was read
  for.
\<close>

lemma stale_verification:
  "hoWaiting (verification_settled sid result (Inr (taskId, key)) (Inl e) h)
     = hoWaiting h @ [WTournaments sid (result\<lparr>reRecords := cockpitTaskVerificationView (hoTv h)\<rparr>)]"
  by (simp add: verification_settled_def)

text \<open>
  The signature compares lengths: an entry whose text was replaced by another of the same length
  is not shown.
\<close>

lemma same_length_edit_missed:
  "transcriptSignature [entry\<lparr>teText := js ''fail''\<rparr>] = transcriptSignature [entry\<lparr>teText := js ''done''\<rparr>]"
  by (simp add: transcriptSignature_def entry_signature_def)

end
