(* ===== verification/HostBindings.thy ===== *)
theory HostBindings
  imports HostGuarantees
begin

text \<open>
  Which session \<open>ensureSession\<close> of \<open>apps/vscode/src/extension.ts\<close> enters: the one bound to the exact
  key of the workspace, or a new one, which the next start finds again.
\<close>

section \<open>Reading the stored bindings\<close>

definition kept :: "jsstr \<times> jsval \<Rightarrow> bool" where
  "kept kv \<longleftrightarrow> (\<exists>s. snd kv = JStr s) \<and> 0 < length (fst kv) \<and> length (fst kv) \<le> 2048 \<and> fst kv \<noteq> js ''__proto__''"

lemma keep_binding_eq: "keep_binding out kv = (if kept kv then jdefine out (fst kv) (snd kv) else out)"
  by (cases kv) (auto simp: keep_binding_def kept_def jassign_def split: jsval.split)

lemma foldl_keep_binding: "foldl keep_binding out ps = js_object.put_all out (filter kept ps)"
proof (induction ps arbitrary: out)
  case (Cons kv ps)
  then show ?case by (cases kv) (simp add: keep_binding_eq)
qed simp

lemma distinct_foldl_keep: "distinct (map fst (foldl keep_binding [] ps))"
  using js_object.distinct_put_all [of "[]"] by (simp add: foldl_keep_binding)

lemma distinct_readBindings: "distinct (jkeys (readBindings stored))"
  by (cases stored) (simp_all add: readBindings_def jkeys_def distinct_foldl_keep)

lemma foldl_keep_valid: "(k, v) \<in> set (foldl keep_binding [] ps) \<Longrightarrow> kept (k, v)"
  unfolding foldl_keep_binding
  by (rule js_object.entries_put_all_pred [of "[]" "\<lambda>k v. kept (k, v)" "filter kept ps" k v]) auto

lemma readBindings_valid: "(k, v) \<in> set (readBindings stored) \<Longrightarrow> kept (k, v)"
  by (cases stored) (auto simp: readBindings_def dest: foldl_keep_valid)

text \<open>A stored binding is read back when its key is not too long.\<close>

lemma readBindings_lookup:
  assumes "distinct (map fst ps)" and "map_of ps k = Some (JStr s)"
    and "0 < length k" "length k \<le> 2048" "k \<noteq> js ''__proto__''"
  shows "map_of (readBindings (JObj ps)) k = Some (JStr s)"
proof -
  have d: "distinct (map fst (filter kept ps))" using assms(1) by (rule distinct_map_filter)
  have "kept (k, JStr s)" using assms(3-5) by (simp add: kept_def)
  moreover have "(k, JStr s) \<in> set ps" using assms(2) by (rule map_of_SomeD)
  ultimately have mem: "(k, JStr s) \<in> set (filter kept ps)" by simp
  from d have "map_of (readBindings (JObj ps)) k = map_of (filter kept ps) k"
    unfolding readBindings_def by (simp add: foldl_keep_binding js_object.lookup_put_all map_of_rev_distinct)
  also have "\<dots> = Some (JStr s)" using d mem by (rule map_of_is_SomeI)
  finally show ?thesis .
qed

section \<open>After the listing\<close>

lemma bound_kept: "boundSessionFor (Some k) sessions (readBindings stored) = Some sid \<Longrightarrow> kept (k, JStr sid)"
  by (auto simp: boundSessionFor_sound jget_def dest!: map_of_SomeD readBindings_valid split: option.split_asm)

lemma pruned_proto: "map_of (pruneBindings bnds sessions) (js ''__proto__'') = None"
proof (rule ccontr)
  assume "map_of (pruneBindings bnds sessions) (js ''__proto__'') \<noteq> None"
  then obtain v where v: "(js ''__proto__'', v) \<in> set (foldl (prune_step sessions) [] bnds)"
    by (auto simp: pruneBindings_def dest: map_of_SomeD)
  have "js ''__proto__'' \<noteq> js ''__proto__''"
    by (rule js_object.entries_put_all_pred [OF _ _ _ v [unfolded foldl_prune_step], of "\<lambda>k v. k \<noteq> js ''__proto__''"]) auto
  then show False by simp
qed

lemma bound_pruned:
  "boundSessionFor key sessions (pruneBindings (readBindings stored) sessions)
     = boundSessionFor key sessions (readBindings stored)"
proof (cases key)
  case (Some k)
  show ?thesis
  proof (cases "k = js ''__proto__''")
    case True
    have "boundSessionFor (Some k) sessions (readBindings stored) = None"
      using bound_kept [of k sessions stored] True
      by (cases "boundSessionFor (Some k) sessions (readBindings stored)") (auto simp: kept_def)
    moreover have "boundSessionFor (Some k) sessions (pruneBindings (readBindings stored) sessions) = None"
      using pruned_proto True by (simp add: boundSessionFor_def jget_def)
    ultimately show ?thesis using Some by simp
  next
    case False
    then show ?thesis using Some pruneBindings_transparent [OF distinct_readBindings] by simp
  qed
qed (simp add: boundSessionFor_def)

lemma find_row:
  "sid \<in> srId ` set rows \<Longrightarrow> \<exists>row. find (\<lambda>row. srId row = sid) rows = Some row \<and> srId row = sid"
  by (induction rows) auto

text \<open>A listing writes the pruned bindings first; then the session is chosen.\<close>

definition pruned_of :: "session_row list \<Rightarrow> jsval \<Rightarrow> bindings" where
  "pruned_of rows stored = pruneBindings (readBindings stored) (map srId rows)"

lemma list_settled_writes:
  "list_settled env ec (Inr rows) h = wait_for (WPruned ec (pruned_of rows (hoStored h)) rows)
     ((patch_shown (\<lambda>s. s\<lparr>shSessions := rows\<rparr>) h)\<lparr>hoStored := JObj (pruned_of rows (hoStored h))\<rparr>)"
  by (simp add: list_settled_def pruned_of_def Let_def)

lemma listed_bound:
  assumes "boundSessionFor (heKey env) (map srId rows) (readBindings stored) = Some sid"
  shows "hoSession (pruned_written env ec (pruned_of rows stored) rows None h) = Some sid
    \<and> hoOut (pruned_written env ec (pruned_of rows stored) rows None h) = hoOut h
    \<and> hoWaiting (pruned_written env ec (pruned_of rows stored) rows None h) = hoWaiting h @ [WHistory ec sid]
    \<and> map_option srId (shSession (hoShown (pruned_written env ec (pruned_of rows stored) rows None h))) = Some sid"
proof -
  obtain row where row: "find (\<lambda>row. srId row = sid) rows = Some row" "srId row = sid"
    using assms find_row [of sid rows] by (auto simp: boundSessionFor_sound)
  have "sid \<noteq> []" using assms by (simp add: boundSessionFor_sound)
  with assms row show ?thesis
    by (simp add: pruned_written_def pruned_of_def choose_session_def Let_def bound_pruned session_found_def
        truthy_id_def patched_def)
qed

lemma listed_unbound:
  assumes "boundSessionFor (heKey env) (map srId rows) (readBindings stored) = None"
  shows "hoSession (pruned_written env ec (pruned_of rows stored) rows None h) = hoSession h
    \<and> (hoWaiting (pruned_written env ec (pruned_of rows stored) rows None h)
          = hoWaiting h @ [WCatalog ec (pruned_of rows stored)]
        \<or> hoWaiting (pruned_written env ec (pruned_of rows stored) rows None h)
          = hoWaiting h @ [WCreate ec (pruned_of rows stored) (heProvider env) (heModel env)])"
  using assms
  by (simp add: pruned_written_def pruned_of_def choose_session_def Let_def bound_pruned create_session_def)

text \<open>
  Never a guessed session: once the sessions are listed and the pruned bindings are written,
  the host enters the session that was stored under the exact key of the workspace and is
  still listed, without creating another; without such a binding it enters no listed session
  and goes on to create a new one.
\<close>

theorem session_of_exact_workspace:
  "hoWaiting (list_settled env ec (Inr rows) g) = hoWaiting g @ [WPruned ec (pruned_of rows (hoStored g)) rows]
   \<and> (let pruned = pruned_of rows (hoStored g); h' = pruned_written env ec pruned rows None h
      in case boundSessionFor (heKey env) (map srId rows) (readBindings (hoStored g)) of
           Some sid \<Rightarrow> hoSession h' = Some sid \<and> hoOut h' = hoOut h
             \<and> map_option srId (shSession (hoShown h')) = Some sid
         | None \<Rightarrow> hoSession h' = hoSession h
             \<and> (hoWaiting h' = hoWaiting h @ [WCatalog ec pruned]
                \<or> hoWaiting h' = hoWaiting h @ [WCreate ec pruned (heProvider env) (heModel env)]))"
proof (cases "boundSessionFor (heKey env) (map srId rows) (readBindings (hoStored g))")
  case None
  from listed_unbound [OF this, of ec h] None show ?thesis by (simp add: list_settled_writes Let_def)
next
  case (Some sid)
  from listed_bound [OF this, of ec h] Some show ?thesis by (simp add: list_settled_writes Let_def)
qed

section \<open>A created session is found again\<close>

lemma created_stored:
  "hoStored (create_settled env ec bnds provider model (Inr created) h)
     = JObj (withBinding bnds (heKey env) (scId created))"
  by (simp add: create_settled_def)

text \<open>
  C16.  Round trip through the workspace state: the session that was created for a workspace is
  the one the host enters when it starts again and the session is still listed; no second
  session is created.  The new start lists the sessions, writes the pruned bindings and, once
  that write has succeeded, in whatever state the other handlers have left the host, enters the
  session.  The key may have at most 2048 characters and is not an array index.
\<close>

theorem session_found_again:
  assumes "hoStored g = hoStored (create_settled env ec bnds provider model (Inr created) h)"
    and "heKey env = Some k" "0 < length k" "length k \<le> 2048" "k \<noteq> js ''__proto__''" "array_index k = None"
    and "bindings_ok bnds" and "scId created \<noteq> []" "scId created \<in> set (map srId rows)"
  shows "\<exists>pruned. hoWaiting (list_settled env ec' (Inr rows) g) = hoWaiting g @ [WPruned ec' pruned rows]
    \<and> hoOut (list_settled env ec' (Inr rows) g) = hoOut g
    \<and> (\<forall>g'. hoSession (pruned_written env ec' pruned rows None g') = Some (scId created)
        \<and> hoOut (pruned_written env ec' pruned rows None g') = hoOut g')"
proof -
  let ?bnds = "withBinding bnds (Some k) (scId created)"
  have stored: "hoStored g = JObj ?bnds" using assms(1,2) created_stored by simp
  have "distinct (map fst ?bnds)" using assms(7) bindings_ok_withBinding by (simp add: bindings_ok_def)
  moreover have "map_of ?bnds k = Some (JStr (scId created))"
    using assms(6-8) by (intro map_of_withBinding) auto
  ultimately have "map_of (readBindings (JObj ?bnds)) k = Some (JStr (scId created))"
    using assms(3-5) by (rule readBindings_lookup)
  then have "boundSessionFor (heKey env) (map srId rows) (readBindings (hoStored g)) = Some (scId created)"
    using assms(2,8,9) stored by (simp add: boundSessionFor_sound jget_def)
  from listed_bound [OF this] show ?thesis
    by (intro exI [of _ "pruned_of rows (hoStored g)"]) (simp add: list_settled_writes)
qed

lemma demo_key: "array_index (js ''k'') = None"
  by code_simp

definition demo_created :: session_created where
  "demo_created = \<lparr>scId = js ''s1'', scTitle = js ''t'', scCreatedMs = 0\<rparr>"

definition demo_restarted :: host where
  "demo_restarted = stopServer (create_settled demo_env (ForRunning ByCommand) [] (js ''p'') (js ''m'')
     (Inr demo_created) (initial_host JNull))"

definition demo_rows :: "session_row list" where
  "demo_rows = [\<lparr>srId = js ''s1'', srTitle = js ''t'', srProvider = js ''p'', srModel = js ''m'', srState = js ''idle''\<rparr>]"

theorem session_found_again_witness:
  "\<exists>pruned. hoWaiting (list_settled demo_env (ForRunning ByCommand) (Inr demo_rows) demo_restarted)
       = hoWaiting demo_restarted @ [WPruned (ForRunning ByCommand) pruned demo_rows]
     \<and> hoSession (pruned_written demo_env (ForRunning ByCommand) pruned demo_rows None (initial_host JNull)) = Some (js ''s1'')"
proof -
  have stored: "hoStored demo_restarted = hoStored (create_settled demo_env (ForRunning ByCommand) [] (js ''p'') (js ''m'')
      (Inr demo_created) (initial_host JNull))"
    by (simp add: demo_restarted_def stopServer_def)
  have key: "heKey demo_env = Some (js ''k'')" "0 < length (js ''k'')" "length (js ''k'') \<le> 2048" "js ''k'' \<noteq> js ''__proto__''"
    "bindings_ok []" "scId demo_created \<noteq> []" "scId demo_created \<in> set (map srId demo_rows)"
    by (simp_all add: demo_env_def bindings_ok_def demo_created_def demo_rows_def)
  have "scId demo_created = js ''s1''" by (simp add: demo_created_def)
  with session_found_again [OF stored key(1-4) demo_key key(5-7), of "ForRunning ByCommand"] show ?thesis by metis
qed

section \<open>Where the round trip ends\<close>

text \<open>A key of more than 2048 characters is written, but never read again.\<close>

lemma long_key_forgotten:
  "2048 < length k \<Longrightarrow> boundSessionFor (Some k) sessions (readBindings stored) = None"
  using bound_kept [of k sessions stored]
  by (cases "boundSessionFor (Some k) sessions (readBindings stored)") (auto simp: kept_def)

text \<open>
  When the listing fails, the bindings are pruned against an empty list.  The stored session of
  the workspace is therefore never entered, although the branch for it is there: a new session
  is created, and the bindings of all other workspaces are lost with the next write.
\<close>

lemma prune_without_sessions: "pruneBindings bnds [] = []"
proof -
  have "foldl (prune_step []) out bnds = out" for out
    by (induction bnds arbitrary: out) (auto simp: prune_step_def split: jsval.split)
  then show ?thesis by (simp add: pruneBindings_def)
qed

lemma listing_failure_forgets:
  assumes "heProvider env \<noteq> []" "heModel env \<noteq> []"
  shows "hoWaiting (list_settled env ec (Inl e) h) = hoWaiting h @ [WCreate ec [] (heProvider env) (heModel env)]"
    and "hoStored (create_settled env ec [] provider model (Inr created) g)
      = JObj (withBinding [] (heKey env) (scId created))"
  using assms by (simp_all add: list_settled_def choose_session_def Let_def prune_without_sessions boundSessionFor_def
      jget_def bound_text_def create_session_def created_stored split: option.split)

text \<open>
  When the write of the new binding fails, the start fails, but the created session stays
  entered: the next start finds it set, skips the listing and never shows it.
\<close>

lemma failed_write_keeps_session:
  assumes "hoSession h = Some sid"
  shows "hoSession (binding_written (ForRunning ByCommand) created provider model (Some e) h) = Some sid
    \<and> shSession (hoShown (binding_written (ForRunning ByCommand) created provider model (Some e) h)) = shSession (hoShown h)"
  using assms by (simp add: binding_written_def ensure_failed_def server_failed_def reportError_def patched_def Let_def)

end
