(* ===== verification/WebviewHost.thy ===== *)
theory WebviewHost
  imports BridgeHost KiloOutbound HostGuarantees
begin

text \<open>
  The webview provider of \<open>apps/vscode/src/webview.ts\<close>: what it posts to the webview in its two
  modes (the vendored bundle or the built-in page), the routing of the webview's messages
  through the bridge, and the way of a submission from the webview to the host.

  The provider logs what it does: posts, messages handed to the host, external links, lines on
  the console.  A post without a view is dropped.
\<close>

section \<open>The provider\<close>

datatype view_out =
    VPost jsval | VSnapshot faktor_snapshot | VHandle jsval | VOpen jsstr | VConsole jsstr

record provider =
  pvView :: bool
  pvSnapshot :: "faktor_snapshot option"
  pvVendored :: bool
  pvDrops :: nat
  pvOut :: "view_out list"

text \<open>What the provider reads of its window: the version, the workspace, the port of a URL.\<close>

record view_env =
  vePlatform :: platform
  veVersion :: "jsstr option"
  veWorkspace :: "jsstr option"
  veUrlPort :: "jsstr \<Rightarrow> jsstr option"

definition MAX_LOUD_DROPS :: nat where [cap_simps]: "MAX_LOUD_DROPS = 20"

definition new_provider :: provider where
  "new_provider = \<lparr>pvView = False, pvSnapshot = None, pvVendored = False, pvDrops = 0, pvOut = []\<rparr>"

definition emit_out :: "view_out \<Rightarrow> provider \<Rightarrow> provider" where
  "emit_out out p = p\<lparr>pvOut := pvOut p @ [out]\<rparr>"

definition post :: "view_out \<Rightarrow> provider \<Rightarrow> provider" where
  "post out p = (if pvView p then emit_out out p else p)"

section \<open>Posting\<close>

definition postSnapshot :: "faktor_snapshot \<Rightarrow> provider \<Rightarrow> provider" where
  "postSnapshot snapshot p =
     (let p1 = p\<lparr>pvSnapshot := Some snapshot\<rparr>
      in if pvVendored p1
         then foldl (\<lambda>q m. post (VPost m) q) p1 (snapshotToWebviewMessages snapshot)
         else post (VSnapshot snapshot) p1)"

definition postEvidence :: "int \<Rightarrow> jsstr \<Rightarrow> bool \<Rightarrow> provider \<Rightarrow> provider" where
  "postEvidence i text truncated p =
     (if pvVendored p
      then post (VPost (faktorEvidenceExpandedMessage
             (Option.bind (pvSnapshot p) (\<lambda>s. map_option ssId (fsSession s))) i text truncated)) p
      else post (VPost (message ''evidence''
             [(''id'', jint i), (''text'', JStr text), (''truncated'', JBool truncated)])) p)"

definition postStartResult :: "jsstr \<Rightarrow> bool \<Rightarrow> provider \<Rightarrow> provider" where
  "postStartResult goal ok p =
     (if pvVendored p
      then if \<not> ok
           then post (VPost (message ''error''
                  [(''message'', JStr (js ''task start failed; the draft was kept: '' @ goal))])) p
           else emit_out (VConsole (js ''[faktor-bridge] task start accepted: '' @ goal)) p
      else post (VPost (message ''startResult'' [(''goal'', JStr goal), (''ok'', JBool ok)])) p)"

text \<open>The part of a submission that the restore message carries.\<close>

definition restorable :: "pending_submission \<Rightarrow> bridge_pending" where
  "restorable pending =
     \<lparr>kpText = psText pending, kpSessionId = psSessionId pending, kpDraftId = psDraftId pending,
      kpMessageId = psMessageId pending, kpFiles = psFiles pending, kpAttachments = []\<rparr>"

definition postSendMessageFailed :: "pending_submission \<Rightarrow> jsstr \<Rightarrow> provider \<Rightarrow> provider" where
  "postSendMessageFailed pending error p =
     (if pvVendored p then post (VPost (JObj (sendMessageFailedMessage (restorable pending) error))) p
      else post (VPost (message ''startResult'' [(''goal'', JStr (psText pending)), (''ok'', JBool False)])) p)"

definition postNotice :: "bool \<Rightarrow> jsstr \<Rightarrow> provider \<Rightarrow> provider" where
  "postNotice is_error text p =
     (if pvVendored p
      then if is_error then post (VPost (message ''error'' [(''message'', JStr text)])) p
           else emit_out (VConsole (js ''[faktor-bridge] notice: '' @ text)) p
      else post (VPost (message ''notice''
             [(''level'', JStr (if is_error then js ''error'' else js ''info'')), (''message'', JStr text)])) p)"

section \<open>The view\<close>

text \<open>\<open>vendored\<close> tells whether a bundle was located.\<close>

definition resolveWebviewView :: "bool \<Rightarrow> provider \<Rightarrow> provider" where
  "resolveWebviewView vendored p =
     (let p1 = p\<lparr>pvView := True, pvVendored := vendored\<rparr>
      in case pvSnapshot p1 of
           Some s \<Rightarrow> if \<not> vendored then post (VSnapshot s) p1 else p1
         | None \<Rightarrow> p1)"

definition view_disposed :: "provider \<Rightarrow> provider" where
  "view_disposed p = p\<lparr>pvView := False\<rparr>"

section \<open>The context of the ready message\<close>

definition skip_space :: "jsstr \<Rightarrow> jsstr option" where
  "skip_space s = (case s of c # _ \<Rightarrow> if is_ws c then Some (dropWhile is_ws s) else None | [] \<Rightarrow> None)"

text \<open>
  \<open>/^(\<bslash>S+)\<bslash>s+on\<bslash>s+port/\<close>: a run of \<open>\<bslash>S\<close> can only end before a space, so the match needs no
  backtracking.
\<close>

definition daemon_version :: "jsstr \<Rightarrow> jsstr option" where
  "daemon_version detail =
     (let version = takeWhile (\<lambda>c. \<not> is_ws c) detail
      in if version = [] then None
         else (case skip_space (drop (length version) detail) of
             Some rest \<Rightarrow>
               if starts_with (js ''on'') rest
               then (case skip_space (drop 2 rest) of
                   Some rest' \<Rightarrow> if starts_with (js ''port'') rest' then Some version else None
                 | None \<Rightarrow> None)
               else None
           | None \<Rightarrow> None))"

definition url_port :: "view_env \<Rightarrow> jsstr option \<Rightarrow> jsnum option" where
  "url_port e baseUrl =
     (case baseUrl of
        Some (c # url) \<Rightarrow>
          (case veUrlPort e (c # url) of
             Some text \<Rightarrow>
               (let candidate = number_of_string text
                in if is_integer candidate \<and> int_of_num candidate > 0 then Some candidate else None)
           | None \<Rightarrow> None)
      | _ \<Rightarrow> None)"

definition bridgeContext :: "view_env \<Rightarrow> provider \<Rightarrow> bridge_context" where
  "bridgeContext e p =
     \<lparr>bcExtensionVersion = (case veVersion e of Some v \<Rightarrow> v | None \<Rightarrow> js ''0.0.0''),
      bcWorkspaceDirectory = (case veWorkspace e of Some d \<Rightarrow> d | None \<Rightarrow> []),
      bcDaemonVersion = daemon_version (case pvSnapshot p of Some s \<Rightarrow> fsDaemonDetail s | None \<Rightarrow> []),
      bcPort = url_port e (Option.bind (pvSnapshot p) fsBaseUrl)\<rparr>"

section \<open>Routing\<close>

definition dropped_message :: "view_env \<Rightarrow> jsstr option \<Rightarrow> jsstr \<Rightarrow> nat \<Rightarrow> provider \<Rightarrow> provider" where
  "dropped_message e kind reason bytes p =
     (let p1 = emit_out (VConsole (js ''[faktor-bridge] dropped ''
            @ (case kind of Some k \<Rightarrow> k | None \<Rightarrow> js ''unnamed'') @ js '' message: '' @ reason @ js '' (''
            @ decimal_nat bytes @ js '' bytes)'')) (p\<lparr>pvDrops := pvDrops p + 1\<rparr>)
      in if pvDrops p1 \<le> MAX_LOUD_DROPS
         then postNotice True (js ''frozen UI message dropped: '' @ reason) p1 else p1)"

definition refused_files :: "bridge_command \<Rightarrow> provider \<Rightarrow> provider" where
  "refused_files command p =
     (case command of
        CSendMessage c \<Rightarrow>
          if length (scRefused c) > 0
          then postNotice True (refused_notice (scRefused c))
                 (emit_out (VConsole (js ''[faktor-bridge] '' @ refused_notice (scRefused c))) p)
          else p
      | _ \<Rightarrow> p)"

definition accepted_message :: "view_env \<Rightarrow> bridge_command \<Rightarrow> provider \<Rightarrow> provider" where
  "accepted_message e command p =
     (let p1 = refused_files command p
      in case command of
           COpenExternal url \<Rightarrow> emit_out (VOpen url) p1
         | _ \<Rightarrow>
             (let p2 = (if command = CReady then post (VPost (readyMessage (bridgeContext e p1))) p1 else p1)
              in case bridgeCommandToHostMessage command of
                   Some m \<Rightarrow> emit_out (VHandle (JObj m)) p2
                 | None \<Rightarrow> p2))"

definition route :: "view_env \<Rightarrow> provider \<Rightarrow> jsval \<Rightarrow> provider" where
  "route e p raw =
     (if \<not> pvVendored p then emit_out (VHandle raw) p
      else (case ingestWebviewMessage (vePlatform e) raw (veWorkspace e) of
          Dropped kind reason bytes \<Rightarrow> dropped_message e kind reason bytes p
        | Accepted command \<Rightarrow> accepted_message e command p))"

section \<open>The host and its provider\<close>

definition status_of :: "jsstr \<Rightarrow> daemon_status" where
  "status_of s =
     (if s = js ''starting'' then DStarting else if s = js ''running'' then DRunning
      else if s = js ''error'' then DError else DStopped)"

definition summary_of :: "session_row \<Rightarrow> session_summary" where
  "summary_of row = \<lparr>ssId = srId row, ssTitle = srTitle row, ssProvider = srProvider row, ssModel = srModel row,
     ssState = srState row\<rparr>"

text \<open>The snapshot of the host, as the bridge reads it.\<close>

definition snapshot_of :: "shown \<Rightarrow> faktor_snapshot" where
  "snapshot_of s =
     \<lparr>fsDaemon = status_of (shDaemon s), fsDaemonDetail = shDetail s, fsBaseUrl = shBaseUrl s,
      fsSession = map_option summary_of (shSession s), fsMachineState = shMachineState s,
      fsMachineLabel = shMachineLabel s, fsSessions = map summary_of (shSessions s), fsRuns = shRuns s,
      fsActiveRunId = shActiveRun s, fsAgents = shAgents s, fsTask = shTask s,
      fsVerification = shVerification s, fsUsage = shUsage s, fsCockpit = shCockpit s,
      fsCockpitSections = shSections s, fsTournament = shTournament s, fsBoard = shBoard s,
      fsTranscript = shTranscript s, fsStreamStatus = shStream s, fsLastError = shError s,
      fsBusy = shBusy s\<rparr>"

text \<open>What the provider does for each thing the host sends; a pop-up and a call go elsewhere.\<close>

definition deliver :: "provider \<Rightarrow> host_out \<Rightarrow> provider" where
  "deliver p out =
     (case out of
        OInfo text \<Rightarrow> postNotice False text p
      | OError text \<Rightarrow> postNotice True text p
      | ORestore pending error \<Rightarrow> postSendMessageFailed pending error p
      | OStartResult goal ok \<Rightarrow> postStartResult goal ok p
      | OEvidence i text truncated \<Rightarrow> postEvidence i text truncated p
      | OSnapshot s \<Rightarrow> postSnapshot (snapshot_of s) p
      | _ \<Rightarrow> p)"

end
