(* ===== verification/WebviewGuarantees.thy ===== *)
theory WebviewGuarantees
  imports WebviewHost
begin

text \<open>
  What the webview provider promises: which messages reach the host, how loud dropped messages
  are, that a submission of the webview reaches the admission of the host unchanged, and that
  a refused one goes back to the page with what it brought
  (\<open>apps/vscode/src/webview.ts\<close> with \<open>extension.ts\<close>).
\<close>

section \<open>Which messages reach the host\<close>

definition handled_out :: "view_out \<Rightarrow> jsval option" where
  "handled_out out = (case out of VHandle m \<Rightarrow> Some m | _ \<Rightarrow> None)"

definition handled :: "provider \<Rightarrow> jsval list" where
  "handled p = List.map_filter handled_out (pvOut p)"

definition host_message_of :: "view_env \<Rightarrow> jsval \<Rightarrow> jsval option" where
  "host_message_of e raw =
     (case ingestWebviewMessage (vePlatform e) raw (veWorkspace e) of
        Accepted command \<Rightarrow> map_option JObj (bridgeCommandToHostMessage command)
      | Dropped _ _ _ \<Rightarrow> None)"

lemma map_filter_append [simp]: "List.map_filter f (xs @ ys) = List.map_filter f xs @ List.map_filter f ys"
  by (simp add: List.map_filter_def)

lemma handled_emit [simp]:
  "handled (emit_out out p) = handled p @ (case out of VHandle m \<Rightarrow> [m] | _ \<Rightarrow> [])"
  by (simp add: handled_def emit_out_def handled_out_def List.map_filter_def split: view_out.split)

lemma handled_post [simp]: "handled (post (VPost m) p) = handled p"
  by (simp add: post_def)

lemma handled_notice [simp]: "handled (postNotice is_error text p) = handled p"
  by (simp add: postNotice_def)

lemma handled_drops [simp]: "handled (p\<lparr>pvDrops := n\<rparr>) = handled p"
  by (simp add: handled_def)

lemma handled_refused [simp]: "handled (refused_files command p) = handled p"
  by (simp add: refused_files_def split: bridge_command.split)

lemma vendored_posts [simp]:
  "pvVendored (emit_out out p) = pvVendored p" "pvVendored (post out p) = pvVendored p"
  "pvVendored (postNotice is_error text p) = pvVendored p"
  "pvVendored (refused_files command p) = pvVendored p"
  by (simp_all add: emit_out_def post_def postNotice_def refused_files_def split: bridge_command.split)

lemma vendored_drops [simp]: "pvVendored (p\<lparr>pvDrops := n\<rparr>) = pvVendored p"
  by simp

lemma vendored_dropped [simp]: "pvVendored (dropped_message e kind reason bytes p) = pvVendored p"
  unfolding dropped_message_def Let_def by (simp only: if_split vendored_posts vendored_drops) blast

lemma vendored_accepted [simp]: "pvVendored (accepted_message e command p) = pvVendored p"
  by (cases command) (simp_all add: accepted_message_def Let_def split: option.split)

lemma vendored_route [simp]: "pvVendored (route e p raw) = pvVendored p"
  by (simp add: route_def split: bridge_ingest.split)

lemma handled_route:
  "pvVendored p \<Longrightarrow> handled (route e p raw) = handled p @ (case host_message_of e raw of Some m \<Rightarrow> [m] | None \<Rightarrow> [])"
  by (simp add: route_def dropped_message_def accepted_message_def host_message_of_def
      bridgeCommandToHostMessage_def host_message_def Let_def split: bridge_ingest.split bridge_command.split)

text \<open>
  C4.  The vendored page is never trusted: whatever it posts, the host handles exactly the host
  messages of the commands the bridge accepted, each once and in the order they were posted.
\<close>

theorem only_accepted_reach_host:
  assumes "pvVendored p"
  shows "handled (foldl (route e) p raws) = handled p @ List.map_filter (host_message_of e) raws"
  using assms
proof (induction raws arbitrary: p)
  case Nil
  show ?case by (simp add: List.map_filter_def)
next
  case (Cons raw raws)
  then show ?case by (simp add: handled_route List.map_filter_def split: option.split)
qed

definition demo_provider :: provider where
  "demo_provider = new_provider\<lparr>pvView := True, pvVendored := True\<rparr>"

definition demo_view_env :: view_env where
  "demo_view_env = \<lparr>vePlatform = posix, veVersion = None, veWorkspace = None, veUrlPort = (\<lambda>url. None)\<rparr>"

lemma demo_vendored: "pvVendored demo_provider"
  by (simp add: demo_provider_def)

theorem only_accepted_reach_host_witness:
  "handled (foldl (route demo_view_env) demo_provider [JNull, JNull])
     = List.map_filter (host_message_of demo_view_env) [JNull, JNull]"
  using only_accepted_reach_host [OF demo_vendored, of demo_view_env "[JNull, JNull]"]
  by (simp add: demo_provider_def new_provider_def handled_def List.map_filter_def)

section \<open>Dropped messages\<close>

definition drop_prefix :: jsstr where
  "drop_prefix = js ''frozen UI message dropped: ''"

definition is_drop_notice :: "view_out \<Rightarrow> bool" where
  "is_drop_notice out =
     (case out of
        VPost (JObj ps) \<Rightarrow> (case jget ps (js ''message'') of JStr text \<Rightarrow> starts_with drop_prefix text | _ \<Rightarrow> False)
      | _ \<Rightarrow> False)"

definition drop_notices :: "provider \<Rightarrow> nat" where
  "drop_notices p = length (filter is_drop_notice (pvOut p))"

lemma notices_emit [simp]:
  "drop_notices (emit_out out p) = drop_notices p + (if is_drop_notice out then 1 else 0)"
  by (simp add: drop_notices_def emit_out_def)

lemma notices_post: "drop_notices (post out p) \<le> drop_notices p + (if is_drop_notice out then 1 else 0)"
  by (simp add: post_def)

lemma notices_drops [simp]: "drop_notices (p\<lparr>pvDrops := n\<rparr>) = drop_notices p"
  by (simp add: drop_notices_def)

lemma not_drop_notice [simp]:
  "\<not> is_drop_notice (VConsole text)" "\<not> is_drop_notice (VHandle m)" "\<not> is_drop_notice (VOpen url)"
  "\<not> is_drop_notice (VPost (readyMessage ctx))"
  by (simp_all add: is_drop_notice_def readyMessage_def message_def jobj_def jget_Cons jget_Nil)

lemma drops_posts [simp]:
  "pvDrops (emit_out out p) = pvDrops p" "pvDrops (post out p) = pvDrops p"
  "pvDrops (postNotice is_error text p) = pvDrops p" "pvDrops (refused_files command p) = pvDrops p"
  by (simp_all add: emit_out_def post_def postNotice_def refused_files_def split: bridge_command.split)

lemma refused_notice_head: "\<not> starts_with drop_prefix (refused_notice refused)"
proof
  assume "starts_with drop_prefix (refused_notice refused)"
  then obtain rest where rest: "refused_notice refused = drop_prefix @ rest" by (metis starts_withD)
  have "drop_prefix \<noteq> []" "hd drop_prefix = 102" by code_simp+
  with rest have "hd (refused_notice refused) = 102" by simp
  moreover have "hd (refused_notice refused) = hd (decimal_nat (length refused))"
    by (simp add: refused_notice_def decimal_nat_not_Nil)
  moreover have "is_digit (hd (decimal_nat (length refused)))"
    using decimal_digits [of "int (length refused)"] decimal_nat_not_Nil [of "length refused"]
    by (cases "decimal_nat (length refused)") (auto simp: decimal_nat_def)
  ultimately show False by (simp add: is_digit_def)
qed

lemma notices_notice:
  "drop_notices (postNotice is_error text p) \<le> drop_notices p + (if starts_with drop_prefix text then 1 else 0)"
  using notices_post [of _ p]
  by (auto simp: postNotice_def is_drop_notice_def message_def jobj_def jget_Cons jget_Nil
      intro: order_trans [OF notices_post])

lemma notices_refused: "drop_notices (refused_files command p) \<le> drop_notices p"
  using notices_notice [of True "refused_notice r" q for r q] refused_notice_head
  by (auto simp: refused_files_def split: bridge_command.split intro: order_trans [OF notices_notice])

lemma notices_accepted: "drop_notices (accepted_message e command p) \<le> drop_notices p"
proof -
  let ?q = "refused_files command p"
  have "drop_notices (post (VPost (readyMessage (bridgeContext e ?q))) ?q) \<le> drop_notices p"
    using notices_post [of "VPost (readyMessage (bridgeContext e ?q))" ?q] notices_refused [of command p] by simp
  with notices_refused [of command p] show ?thesis
    by (cases command) (simp_all add: accepted_message_def Let_def split: option.split)
qed

lemma drops_accepted [simp]: "pvDrops (accepted_message e command p) = pvDrops p"
  by (simp add: accepted_message_def Let_def split: bridge_command.split option.split)

lemma notices_dropped:
  "drop_notices (dropped_message e kind reason bytes p)
     \<le> drop_notices p + (if pvDrops p < 20 then 1 else 0)"
  by (auto simp: dropped_message_def MAX_LOUD_DROPS_def Let_def intro: order_trans [OF notices_notice])

lemma drops_dropped [simp]: "pvDrops (dropped_message e kind reason bytes p) = Suc (pvDrops p)"
proof -
  have "pvDrops (p\<lparr>pvDrops := Suc n\<rparr>) = Suc n" for n by simp
  then show ?thesis by (simp add: dropped_message_def Let_def)
qed

lemma notices_route:
  assumes "pvVendored p"
  shows "drop_notices (route e p raw) + (20 - pvDrops (route e p raw)) \<le> drop_notices p + (20 - pvDrops p)"
proof (cases "ingestWebviewMessage (vePlatform e) raw (veWorkspace e)")
  case (Accepted command)
  with assms show ?thesis using notices_accepted [of e command p] by (simp add: route_def)
next
  case (Dropped kind reason bytes)
  with assms show ?thesis using notices_dropped [of e kind reason bytes p]
    by (cases "pvDrops p < 20") (simp_all add: route_def)
qed

text \<open>
  Dropped messages cannot flood the user: over any number of messages of the vendored page,
  at most 20 of the error lines on display tell of a dropped message.
\<close>

theorem drop_notices_bounded:
  assumes "pvVendored p"
  shows "drop_notices (foldl (route e) p raws) \<le> drop_notices p + (20 - pvDrops p)"
  using assms
proof (induction raws arbitrary: p)
  case (Cons raw raws)
  have "drop_notices (foldl (route e) (route e p raw) raws) \<le> drop_notices (route e p raw) + (20 - pvDrops (route e p raw))"
    using Cons by simp
  with notices_route [OF Cons.prems, of e raw] show ?case by simp
qed simp

theorem drop_notices_bounded_witness:
  "drop_notices (foldl (route demo_view_env) demo_provider (replicate 50 JNull)) \<le> 20"
  using drop_notices_bounded [OF demo_vendored, of demo_view_env "replicate 50 JNull"]
  by (simp add: demo_provider_def new_provider_def drop_notices_def)

section \<open>From the webview to the admission\<close>

lemma parsed_not_nullish: "parsePendingSubmission v = Some pending \<Longrightarrow> \<not> nullish v"
  by (auto simp: parsePendingSubmission_def nullish_def)

lemma goal_starts_task:
  assumes "jget goal (js ''type'') = JStr (js ''sendGoal'')" and "jget goal (js ''goal'') = JStr text" "trim text \<noteq> []"
    and "parsePendingSubmission (jget goal (js ''pending'')) = Some pending"
    and "parseCompletionContract (jget goal (js ''completionContract'')) = Inr contract"
    and "hoClient h = Some i" "hoSession h = Some sid"
  shows "\<exists>t. hoWaiting (handleWebviewMessage binary goal h) = hoWaiting h @ [WAdmission sid t]
    \<and> tgGoal t = trim text \<and> tgPending t = pending \<and> tgContract t = contract"
proof -
  obtain files refused where f: "boundedWebviewFiles (jget goal (js ''files'')) = (files, refused)" by fastforce
  have "message_text goal ''type'' = js ''sendGoal''" using assms(1) by (simp add: message_text_def)
  then have "handleWebviewMessage binary goal h = sendGoal binary goal h"
    by (simp add: handleWebviewMessage_def)
  also have "hoWaiting (sendGoal binary goal h) = hoWaiting h @ [WAdmission sid \<lparr>tgGoal = trim text,
      tgFiles = files, tgContract = contract, tgPending = pending\<rparr>]"
    using assms(2-) f parsed_not_nullish [OF assms(4)]
    by (simp add: sendGoal_def startTask_def task_ready_def Let_def)
  finally show ?thesis by (auto intro!: exI [of _ "\<lparr>tgGoal = trim text, tgFiles = files,
      tgContract = contract, tgPending = pending\<rparr>"])
qed

lemma submission_admitted:
  assumes "slash_absolute (vePlatform e)" and vendored: "pvVendored p"
    and acc: "ingestWebviewMessage (vePlatform e) raw (veWorkspace e) = Accepted (CSendMessage c)"
    and "length (kpFiles (scPending c)) \<le> 64" and "list_all mime_fits (scAttachments c)"
    and "hoClient h = Some i" "hoSession h = Some sid"
  shows "\<exists>goal t. handled (route e p raw) = handled p @ [JObj goal]
    \<and> hoWaiting (handleWebviewMessage binary goal h) = hoWaiting h @ [WAdmission sid t]
    \<and> tgGoal t = trim (scText c) \<and> tgPending t = host_pending (scPending c) \<and> tgContract t = scCompletion c"
proof -
  have ok: "command_ok (CSendMessage c)" using ingest_sendD [OF acc] by blast
  from envelope_survives_host [OF assms(1) acc assms(4,5)] obtain goal
    where goal: "bridgeCommandToHostMessage (CSendMessage c) = Some goal"
      "jget goal (js ''goal'') = JStr (kpText (scPending c))"
      "parsePendingSubmission (jget goal (js ''pending'')) = Some (host_pending (scPending c))"
      "parseCompletionContract (jget goal (js ''completionContract'')) = Inr (scCompletion c)" by blast
  have "jget goal (js ''type'') = JStr (js ''sendGoal'')"
    using goal(1) by (auto simp: bridgeCommandToHostMessage_def send_goal_def jget_Cons)
  moreover have "kpText (scPending c) = scText c" "trim (scText c) \<noteq> []" using ok by simp_all
  ultimately obtain t where t: "hoWaiting (handleWebviewMessage binary goal h) = hoWaiting h @ [WAdmission sid t]"
      "tgGoal t = trim (scText c)" "tgPending t = host_pending (scPending c)" "tgContract t = scCompletion c"
    using goal_starts_task [OF _ goal(2) _ goal(3,4) assms(6,7)] by auto
  have "handled (route e p raw) = handled p @ [JObj goal]"
    using handled_route [OF vendored] acc goal(1) by (simp add: host_message_of_def)
  with t show ?thesis by blast
qed

text \<open>
  C3.  From the page to the admission: a submission that the bridge accepts is handed to the
  host once, and a host with a daemon and a session begins one admission of it, with the goal
  of the page, the envelope unchanged (text, identities, original files, attachments) and the
  same completion contract; at most 64 original files and media types of at most 128 units.
\<close>

theorem submission_reaches_admission:
  assumes "slash_absolute (vePlatform e)" and vendored: "pvVendored p"
    and acc: "ingestWebviewMessage (vePlatform e) raw (veWorkspace e) = Accepted (CSendMessage c)"
    and "length (kpFiles (scPending c)) \<le> 64" and "list_all mime_fits (scAttachments c)"
    and "hoClient h = Some i" "hoSession h = Some sid"
  shows "\<exists>goal t. handled (route e p raw) = handled p @ [JObj goal]
    \<and> hoWaiting (handleWebviewMessage binary goal h) = hoWaiting h @ [WAdmission sid t]
    \<and> tgGoal t = trim (scText c) \<and> tgPending t = host_pending (scPending c) \<and> tgContract t = scCompletion c"
  using submission_admitted [OF assms] .

theorem submission_reaches_admission_witness:
  "\<exists>goal t. handled (route demo_view_env demo_provider (JObj demo_members)) = [JObj goal]
    \<and> hoWaiting (handleWebviewMessage (Inr []) goal demo_host) = [WAdmission (js ''s'') t]"
proof -
  have env: "vePlatform demo_view_env = posix" "veWorkspace demo_view_env = None"
    by (simp_all add: demo_view_env_def)
  have files: "length (kpFiles (scPending demo_send)) \<le> 64" "list_all mime_fits (scAttachments demo_send)"
    by (simp_all add: demo_send_def demo_members_def jget_Cons array_items_def mime_fits_def demo_ref_def)
  have h: "hoClient demo_host = Some 0" "hoSession demo_host = Some (js ''s'')" "hoWaiting demo_host = []"
    by (simp_all add: demo_host_def initial_host_def)
  have p: "handled demo_provider = []"
    by (simp add: demo_provider_def new_provider_def handled_def List.map_filter_def)
  from submission_reaches_admission [OF _ demo_vendored _ files h(1,2), of demo_view_env "JObj demo_members" "Inr []"]
    posix_slash demo_ingested show ?thesis unfolding env h(3) p by auto
qed

section \<open>And back\<close>

lemma restorable_sends: "sendMessageFailedMessage (restorable (host_pending p)) err = sendMessageFailedMessage p err"
  by (simp add: restorable_def host_pending_def sendMessageFailedMessage_def)

lemma deliver_restore:
  assumes "pvVendored q" and "pvView q" and "tgPending t = host_pending (scPending c)"
    and "ingest_send env ws m = Inr (CSendMessage c)"
  shows "\<exists>answer reply. hoOut (restore_draft t err h) = hoOut (reportError (ThrownError err) h) @ [answer]
    \<and> deliver q answer = emit_out (VPost (JObj reply)) q \<and> gives_back m err reply"
proof -
  let ?answer = "ORestore (tgPending t) err"
  have "hoOut (restore_draft t err h) = hoOut (reportError (ThrownError err) h) @ [?answer]"
    by (simp add: restore_draft_def)
  moreover have "deliver q ?answer = emit_out (VPost (JObj (sendMessageFailedMessage (scPending c) err))) q"
    using assms(1-3) by (simp add: deliver_def postSendMessageFailed_def post_def restorable_sends)
  ultimately show ?thesis using ingested_gives_back [OF assms(4), of err] by blast
qed

text \<open>
  C18.  A refused submission goes back to the page that sent it with everything it brought.
  The submission reaches the host and begins an admission; whenever that admission restores
  the draft, in whatever state the host is then and whatever the reason is, the last thing
  the host sends is an answer that the provider of a visible vendored panel posts to the page
  as \<open>sendMessageFailed\<close>, with the text the page had sent, its session, draft and message id
  (trimmed, absent when the page gave none) and its original list of files, refused files and
  the bytes of data URLs included; at most 64 original files and media types of at most 128
  units, beyond which the host refuses the envelope.
\<close>

theorem refused_submission_returned:
  assumes "slash_absolute (vePlatform e)" and "pvVendored p"
    and "ingestWebviewMessage (vePlatform e) (JObj m) (veWorkspace e) = Accepted (CSendMessage c)"
    and "length (kpFiles (scPending c)) \<le> 64" and "list_all mime_fits (scAttachments c)"
    and "hoClient h = Some i" "hoSession h = Some sid"
    and "pvVendored q" and "pvView q"
  shows "\<exists>goal t. handled (route e p (JObj m)) = handled p @ [JObj goal]
    \<and> hoWaiting (handleWebviewMessage binary goal h) = hoWaiting h @ [WAdmission sid t]
    \<and> (\<forall>err h'. \<exists>answer reply.
         hoOut (restore_draft t err h') = hoOut (reportError (ThrownError err) h') @ [answer]
         \<and> deliver q answer = emit_out (VPost (JObj reply)) q \<and> gives_back m err reply)"
proof -
  from submission_admitted [OF assms(1-7), of binary] obtain goal t where
    t: "handled (route e p (JObj m)) = handled p @ [JObj goal]"
       "hoWaiting (handleWebviewMessage binary goal h) = hoWaiting h @ [WAdmission sid t]"
       "tgPending t = host_pending (scPending c)" by blast
  obtain m' where "JObj m = JObj m'" "ingest_send (vePlatform e) (veWorkspace e) m' = Inr (CSendMessage c)"
    using ingest_sendD [OF assms(3)] by metis
  then have "ingest_send (vePlatform e) (veWorkspace e) m = Inr (CSendMessage c)" by simp
  from deliver_restore [OF assms(8,9) t(3) this] t(1,2) show ?thesis by blast
qed

theorem refused_submission_returned_witness:
  "\<exists>t answer reply. hoOut (restore_draft t (js ''no'') demo_host) = hoOut (reportError (ThrownError (js ''no'')) demo_host) @ [answer]
    \<and> deliver demo_provider answer = emit_out (VPost (JObj reply)) demo_provider
    \<and> jget reply (js ''text'') = JStr (js ''fix it'') \<and> jget reply (js ''messageID'') = JStr (js ''m1'')
    \<and> jget reply (js ''files'') = jget demo_members (js ''files'')"
proof -
  have env: "vePlatform demo_view_env = posix" "veWorkspace demo_view_env = None"
    by (simp_all add: demo_view_env_def)
  have files: "length (kpFiles (scPending demo_send)) \<le> 64" "list_all mime_fits (scAttachments demo_send)"
    by (simp_all add: demo_send_def demo_members_def jget_Cons array_items_def mime_fits_def demo_ref_def)
  have h: "hoClient demo_host = Some 0" "hoSession demo_host = Some (js ''s'')"
    by (simp_all add: demo_host_def initial_host_def)
  have q: "pvView demo_provider" by (simp add: demo_provider_def)
  have reply: "jget reply (js ''text'') = JStr (js ''fix it'') \<and> jget reply (js ''messageID'') = JStr (js ''m1'')
      \<and> jget reply (js ''files'') = jget demo_members (js ''files'')"
    if "gives_back demo_members (js ''no'') reply" for reply
  proof -
    have "trim (js ''m1'') = js ''m1''" by code_simp
    then show ?thesis using that by (simp add: gives_back_def demo_members_def jget_Cons)
  qed
  from refused_submission_returned [OF _ demo_vendored _ files h demo_vendored q, of demo_view_env demo_members "Inr []"]
    posix_slash demo_ingested reply show ?thesis unfolding env by metis
qed

section \<open>The version on display\<close>

lemma takeWhile_version:
  "list_all (\<lambda>c. \<not> is_ws c) version \<Longrightarrow> is_ws w \<Longrightarrow> takeWhile (\<lambda>c. \<not> is_ws c) (version @ w # rest) = version"
  by (induction version) auto

lemma daemon_version_text:
  assumes "version \<noteq> []" and "list_all (\<lambda>c. \<not> is_ws c) version"
  shows "daemon_version (version @ js '' on port '' @ rest) = Some version"
proof -
  have js: "js '' on port '' = 32 # js ''on port ''" "js ''on port '' = js ''on'' @ 32 # js ''port ''" by code_simp+
  have ws: "is_ws 32" "drop 2 (js ''on port '') = 32 # js ''port ''" by code_simp+
  have heads: "dropWhile is_ws (js ''on port '' @ rest) = js ''on port '' @ rest"
    "dropWhile is_ws (js ''port '' @ rest) = js ''port '' @ rest"
    "starts_with (js ''on'') (js ''on port '' @ rest)" "starts_with (js ''port'') (js ''port '' @ rest)"
    by (simp_all add: js_def starts_with_def is_ws_def js_ws_def List.member_iff)
  have "takeWhile (\<lambda>c. \<not> is_ws c) (version @ 32 # js ''on port '' @ rest) = version"
    using assms(2) ws(1) by (rule takeWhile_version)
  with assms(1) show ?thesis unfolding js(1) append_Cons
    by (simp add: daemon_version_def skip_space_def ws heads)
qed


lemma detail_server [simp]:
  "shDetail (hoShown (startStream h)) = shDetail (hoShown h)"
  "shDaemon (hoShown (startStream h)) = shDaemon (hoShown h)"
  by (simp_all add: startStream_def patched_def Let_def split: option.split)

lemma detail_error:
  "shDaemon (hoShown h) \<noteq> js ''starting'' \<Longrightarrow> shDetail (hoShown (reportError e h)) = shDetail (hoShown h)"
  by (simp add: reportError_def patched_def Let_def)

lemma detail_started:
  "shDaemon (hoShown h) \<noteq> js ''starting'' \<Longrightarrow> shDetail (hoShown (server_started c h)) = shDetail (hoShown h)"
  by (auto simp: server_started_def task_ready_def detail_error split: caller.split option.split)

lemma detail_ensure:
  "shDaemon (hoShown h) \<noteq> js ''starting'' \<Longrightarrow> shDetail (hoShown (ensureSession ec h)) = shDetail (hoShown h)"
  by (auto simp: ensureSession_def ensure_done_def detail_started split: option.split ensure_caller.split)

text \<open>
  Round trip of the version: the host writes the version of a healthy daemon into the detail
  line of the snapshot, and the provider reads the same version out of it for the page, when the
  version has no white space.
\<close>

theorem version_shown:
  assumes "nhVersion health \<noteq> []" and "list_all (\<lambda>c. \<not> is_ws c) (nhVersion health)"
  shows "bcDaemonVersion (bridgeContext e
      (postSnapshot (snapshot_of (hoShown (health_settled c i handle (Inr health) h))) p)) = Some (nhVersion health)"
proof -
  have "shDetail (hoShown (health_settled c i handle (Inr health) h))
      = nhVersion health @ js '' on port '' @ number_string (dhPort handle)"
    by (simp add: health_settled_def detail_ensure patched_def Let_def)
  moreover have "pvSnapshot (foldl (\<lambda>q m. post (VPost m) q) q ms) = pvSnapshot q" for q ms
    by (induction ms arbitrary: q) (simp_all add: post_def emit_out_def)
  then have "pvSnapshot (postSnapshot s p) = Some s" for s
    by (simp add: postSnapshot_def post_def emit_out_def Let_def)
  ultimately show ?thesis
    using daemon_version_text [OF assms] by (simp add: bridgeContext_def snapshot_of_def)
qed

definition demo_handle :: daemon_handle where
  "demo_handle = \<lparr>dhPort = Fin 4096, dhPassword = [], dhBaseUrl = js ''http://127.0.0.1:4096'', dhAuthHeader = [],
     dhBearerToken = []\<rparr>"

theorem version_shown_witness:
  "bcDaemonVersion (bridgeContext demo_view_env (postSnapshot (snapshot_of (hoShown (health_settled ByCommand 0
     demo_handle (Inr \<lparr>nhOk = True, nhVersion = js ''1.2.3''\<rparr>) (initial_host JNull)))) demo_provider))
   = Some (js ''1.2.3'')"
proof -
  have "list_all (\<lambda>c. \<not> is_ws c) (js ''1.2.3'')" by code_simp
  then show ?thesis
    using version_shown [of "\<lparr>nhOk = True, nhVersion = js ''1.2.3''\<rparr>"] by simp
qed

end
