(* ===== verification/ChatPage.thy ===== *)
theory ChatPage
  imports WebviewHost Composer
begin

text \<open>
  The script of the built-in page, \<open>apps/vscode/media/chat.js\<close>: the nodes it renders from a
  snapshot, the messages its buttons and its composer post, and what it does with the messages
  of the provider.

  A node is an element (tag, class, attributes, text, children) or a button (class, label,
  whether it is disabled, the message a click posts).  Texts only ever become the text of a
  node, as \<open>textContent\<close> does.
\<close>

section \<open>Nodes\<close>

datatype dom =
    Elem (dom_tag: string) (dom_class: jsstr) (dom_attrs: "(string \<times> jsstr) list") (dom_text: jsstr)
      (dom_kids: "dom list")
  | Btn (btn_class: jsstr) (btn_label: jsstr) (btn_disabled: bool) (btn_posts: "jsval option")

definition em_dash :: jsstr where
  "em_dash = [8212]"

definition dom_line :: "jsstr \<Rightarrow> string \<Rightarrow> dom" where
  "dom_line value className = Elem ''div'' (js className) [] value []"

definition text_node :: "string \<Rightarrow> string \<Rightarrow> jsstr \<Rightarrow> dom" where
  "text_node tag className value = Elem tag (js className) [] value []"

text \<open>\<open>setText\<close>: an absent or empty value shows as a dash.\<close>

definition shown_text :: "jsstr option \<Rightarrow> jsstr" where
  "shown_text value = (case value of Some (c # s) \<Rightarrow> c # s | _ \<Rightarrow> em_dash)"

definition truthy :: "jsstr option \<Rightarrow> jsstr option" where
  "truthy value = (case value of Some (c # s) \<Rightarrow> Some (c # s) | _ \<Rightarrow> None)"

definition int_text :: "int \<Rightarrow> jsstr" where
  "int_text n = number_string (num_of_int n)"

section \<open>The cockpit\<close>

definition evidence_button :: "jsnum \<Rightarrow> dom" where
  "evidence_button x =
     Btn [] (js ''View evidence #'' @ number_string x) False
       (Some (message ''retrieveEvidence'' [(''evidenceId'', JNum x)]))"

definition renderEvidenceLine :: "evidence_ref list \<Rightarrow> jsstr \<Rightarrow> nat \<Rightarrow> dom" where
  "renderEvidenceLine refs label index =
     (case (if index < length refs then erId (refs ! index) else None) of
        Some (Fin q) \<Rightarrow>
          Elem ''div'' (js ''evidence'') [(''data-evidence'', number_string (Fin q))] []
            [text_node ''span'' ''muted'' label, evidence_button (Fin q)]
      | _ \<Rightarrow> Elem ''div'' (js ''evidence'') [] [] [text_node ''span'' ''muted'' label])"

definition tournament_button :: "tournament_view \<Rightarrow> cockpit_action \<Rightarrow> dom" where
  "tournament_button view action =
     Btn [] (caLabel action) (\<not> caEnabled action)
       (if caEnabled action
        then Some (message ''tournamentControl''
               [(''tournamentId'', JStr (tvId view)), (''action'', JStr (caKey action))])
        else None)"

definition section_lines :: "cockpit_section \<Rightarrow> dom list" where
  "section_lines sec =
     map (\<lambda>(index, label).
         if ckKey sec = js ''evidence'' then renderEvidenceLine (ckEvidence sec) label index
         else dom_line label ''muted'')
       (enumerate 0 (ckLines sec))"

definition section_controls :: "cockpit_view \<Rightarrow> cockpit_section \<Rightarrow> dom list" where
  "section_controls view sec =
     (let actions = (case ckActions sec of Some as \<Rightarrow> as | None \<Rightarrow> [])
      in case cpTournament view of
           Some tournament \<Rightarrow>
             if ckKey sec = js ''tournament'' \<and> length actions > 0
             then [Elem ''div'' (js ''cockpit-actions'') [] [] (map (tournament_button tournament) actions)]
             else []
         | None \<Rightarrow> [])"

definition render_section :: "cockpit_view \<Rightarrow> cockpit_section \<Rightarrow> dom" where
  "render_section view sec =
     Elem ''section'' (js ''cockpit-section'' @ (if ckPresent sec then [] else js '' cockpit-empty'')) [] []
       (text_node ''h3'' '''' (ckTitle sec) # section_lines sec @ section_controls view sec)"

definition renderCockpit :: "cockpit_view option \<Rightarrow> cockpit_section list \<Rightarrow> dom list" where
  "renderCockpit view sections =
     (case view of None \<Rightarrow> [] | Some v \<Rightarrow> map (render_section v) sections)"

section \<open>The task\<close>

definition completion_row :: "completion_step \<Rightarrow> dom" where
  "completion_row step =
     dom_line (91 # csStatus step @ js ''] '' @ csStep step
       @ (case truthy (csDetail step) of Some detail \<Rightarrow> 32 # em_dash @ 32 # detail | None \<Rightarrow> [])) ''muted''"

definition renderCompletion :: "task_summary option \<Rightarrow> dom list" where
  "renderCompletion task =
     (case Option.bind task tsCompletion of
        None \<Rightarrow> []
      | Some completion \<Rightarrow>
          text_node ''div'' ''completion-head''
            (js ''Completion contract'' @ middle_dot @ js ''status source: ''
              @ (if cmSource completion = [] then js ''unknown'' else cmSource completion))
          # map completion_row (cmSteps completion)
          @ (case truthy (cmReason completion) of Some reason \<Rightarrow> [dom_line reason ''warn''] | None \<Rightarrow> []))"

section \<open>Agents\<close>

definition control_message :: "agent_summary \<Rightarrow> string \<Rightarrow> jsval" where
  "control_message agent action =
     message ''agentControl'' [(''agentId'', JStr (asAgentId agent)), (''action'', JStr (js action))]"

definition agentButton :: "agent_summary \<Rightarrow> string \<times> string \<Rightarrow> dom" where
  "agentButton agent entry = Btn [] (js (snd entry)) False (Some (control_message agent (fst entry)))"

definition is_background_agent :: "agent_summary \<Rightarrow> bool" where
  "is_background_agent agent = (asKind agent = js ''child'' \<and> asPresentation agent = Background)"

definition presentationButton :: "agent_summary \<Rightarrow> dom" where
  "presentationButton agent =
     (let background = (asPresentation agent = Background)
      in Btn (js ''presentation-toggle'') (if background then js ''Foreground'' else js ''Background'') False
           (Some (message ''agentControl''
              [(''agentId'', JStr (asAgentId agent)), (''action'', JStr (js ''presentation'')),
               (''state'', JStr (if background then js ''foreground'' else js ''background''))])))"

definition sprite_rect :: "nat \<Rightarrow> nat \<Rightarrow> jsstr \<Rightarrow> dom" where
  "sprite_rect x y fill =
     Elem ''rect'' [] [(''x'', decimal_nat x), (''y'', decimal_nat y), (''width'', js ''1''),
       (''height'', js ''1''), (''fill'', fill)] [] []"

definition pixelSprite :: "agent_summary \<Rightarrow> dom" where
  "pixelSprite agent =
     (let pixel = asPixel agent; avatar = ppAvatar pixel
      in Elem ''svg''
           (js ''pixel '' @ (if ppAnimation pixel = [] then js ''pixel-waiting'' else ppAnimation pixel))
           [(''viewBox'', js ''0 0 5 5''), (''width'', js ''22''), (''height'', js ''22''), (''aria-hidden'', js ''true'')] []
           (List.map_filter
              (\<lambda>i. if i < length (avPixels avatar) \<and> avPixels avatar ! i = 1
                   then Some (sprite_rect (i mod 5) (i div 5) (avColor avatar)) else None) [0..<25]
            @ [sprite_rect 1 1 (avAccent avatar), sprite_rect 3 1 (avAccent avatar)]))"

definition joinBounded :: "jsstr list \<Rightarrow> nat \<Rightarrow> jsstr" where
  "joinBounded values limit =
     (if length values = 0 then em_dash
      else (let shown = take (if limit = 0 then 12 else limit) values
        in join (js ''; '')
             (if length values > length shown
              then shown @ [ellipsis @ 32 # decimal_nat (length values - length shown) @ js '' more''] else shown)))"

definition compactJson :: "jsval \<Rightarrow> jsstr" where
  "compactJson value =
     (if nullish value then em_dash else (case stringify value of None \<Rightarrow> em_dash | Some t \<Rightarrow> t))"

definition opt_part :: "string \<Rightarrow> jsstr option \<Rightarrow> jsstr option" where
  "opt_part label value = map_option (\<lambda>v. js label @ v) value"

definition yes_no :: "bool \<Rightarrow> jsstr" where
  "yes_no b = (if b then js ''yes'' else js ''no'')"

definition identity_parts :: "agent_summary \<Rightarrow> jsstr list" where
  "identity_parts agent =
     List.map_filter (\<lambda>x. x)
       [map_option (\<lambda>i. js ''item '' @ i
          @ (case truthy (asItemKind agent) of Some kind \<Rightarrow> js '' ('' @ kind @ js '')'' | None \<Rightarrow> [])) (truthy (asItemId agent)),
        (if length (asItemIds agent) > 0 then Some (js ''items '' @ join (js '', '') (asItemIds agent)) else None),
        opt_part ''worktree '' (map_option int_text (asWorktreeId agent)),
        opt_part ''session '' (map_option int_text (asSessionId agent)),
        opt_part ''ownership '' (truthy (Some (asOwnership agent))),
        opt_part ''budget '' (map_option int_text (asBudget agent)),
        opt_part ''reasoning '' (map_option yes_no (asReasoning agent)),
        opt_part ''thinking '' (map_option yes_no (asThinking agent))]"

definition identity_text :: "agent_summary \<Rightarrow> jsstr" where
  "identity_text agent =
     (let text = join middle_dot (identity_parts agent)
      in if text = [] then js ''identity '' @ em_dash else text)"

definition agent_title :: "agent_summary \<Rightarrow> jsstr" where
  "agent_title agent =
     asKind agent @ 32 # asAgentId agent @ middle_dot @ asState agent
       @ (if is_background_agent agent then middle_dot @ js ''background'' else [])
       @ (case truthy (asModel agent) of Some m \<Rightarrow> middle_dot @ m | None \<Rightarrow> [])
       @ (case truthy (asProvider agent) of Some p \<Rightarrow> middle_dot @ p | None \<Rightarrow> [])"

definition agent_actions :: "(string \<times> string) list" where
  "agent_actions =
     [(''pause'', ''Pause''), (''resume'', ''Resume''), (''steer'', ''Steer''), (''model'', ''Model''),
      (''budget'', ''Budget''), (''retry'', ''Retry''), (''cancel'', ''Cancel'')]"

definition agent_controls :: "agent_summary \<Rightarrow> dom list" where
  "agent_controls agent =
     (if asKind agent = js ''child''
      then [Elem ''div'' (js ''agent-controls'') [] []
              (presentationButton agent # map (agentButton agent) agent_actions)]
      else [])"

definition render_agent :: "agent_summary \<Rightarrow> dom" where
  "render_agent agent =
     Elem ''li''
       (js ''agent agent-'' @ (if asKind agent = js ''child'' then js ''child'' else js ''self'')
         @ (if is_background_agent agent then js '' agent-background'' else [])) [] []
       (Elem ''div'' (js ''agent-head'') [] [] [pixelSprite agent, text_node ''span'' ''agent-title'' (agent_title agent)]
        # (if asGoal agent = [] then [] else [dom_line (asGoal agent) ''muted''])
        @ [dom_line (identity_text agent) ''muted'',
           dom_line (js ''capabilities: '' @ joinBounded (asCapabilities agent) 10) ''muted'',
           dom_line (js ''progress: '' @ compactJson (asProgress agent)) ''muted'',
           dom_line (js ''result: '' @ compactJson (asResult agent)) ''muted'']
        @ (if length (asBlockers agent) > 0
           then [dom_line (js ''blockers: '' @ join (js ''; '') (asBlockers agent)) ''warn''] else [])
        @ agent_controls agent)"

text \<open>The order on display: the label of the background group is \<open>None\<close>.\<close>

definition grouped_agents :: "agent_summary list \<Rightarrow> agent_summary option list" where
  "grouped_agents agents =
     (let backs = filter is_background_agent agents
      in map Some (filter (\<lambda>a. \<not> is_background_agent a) agents)
         @ (if length backs > 0 then [None] else []) @ map Some backs)"

definition group_label :: "agent_summary list \<Rightarrow> dom" where
  "group_label agents =
     text_node ''li'' ''agent-group-label''
       (js ''Background ('' @ decimal_nat (length (filter is_background_agent agents)) @ js '') '' @ em_dash @ js '' dimmed'')"

definition renderAgents :: "agent_summary list \<Rightarrow> dom list" where
  "renderAgents agents =
     map (\<lambda>entry. case entry of Some agent \<Rightarrow> render_agent agent | None \<Rightarrow> group_label agents) (grouped_agents agents)"

section \<open>The transcript\<close>

text \<open>\<open>/^(?:evidence:)?(\<bslash>d+)$/\<close> on the trimmed artifact.\<close>

definition artifact_digits :: "jsstr \<Rightarrow> jsstr option" where
  "artifact_digits s =
     (let prefix = js ''evidence:''; digits = (if starts_with prefix s then drop (length prefix) s else s)
      in if digits \<noteq> [] \<and> list_all is_digit digits then Some digits else None)"

definition evidenceIdOf :: "jsstr option \<Rightarrow> jsnum option" where
  "evidenceIdOf artifact = map_option number_of_string (Option.bind artifact (\<lambda>a. artifact_digits (trim a)))"

definition renderTool :: "transcript_tool \<Rightarrow> dom" where
  "renderTool tool =
     Elem ''div'' (js ''tool'') [] []
       (text_node ''div'' ''tool-head''
          (ttName tool @ js '' ['' @ ttState tool @ js '']''
            @ (case ttExitCode tool of Some code \<Rightarrow> middle_dot @ js ''exit '' @ int_text code | None \<Rightarrow> []))
        # (case truthy (ttExcerpt tool) of Some excerpt \<Rightarrow> [text_node ''pre'' ''excerpt'' excerpt] | None \<Rightarrow> [])
        @ (case evidenceIdOf (ttArtifact tool) of
             Some x \<Rightarrow>
               [Elem ''div'' (js ''evidence'') [(''data-evidence'', number_string x)] [] [evidence_button x]]
           | None \<Rightarrow> []))"

definition renderEntry :: "transcript_entry \<Rightarrow> dom" where
  "renderEntry entry =
     Elem ''article'' (js ''entry entry-'' @ (if teRole entry = js ''user'' then js ''user'' else js ''assistant'')) [] []
       (text_node ''div'' ''entry-head'' (teRole entry @ js '' #'' @ int_text (teSeq entry))
        # (if teText entry = [] then [] else [text_node ''pre'' ''entry-text'' (teText entry)])
        @ (if teReasoning entry = [] then []
           else [Elem ''details'' [] [] []
                   [text_node ''summary'' '''' (js ''Reasoning''), text_node ''pre'' ''reasoning'' (teReasoning entry)]])
        @ (if teSummary entry = [] then [] else [text_node ''pre'' ''entry-summary'' (teSummary entry)])
        @ map renderTool (teTools entry))"

definition renderTranscript :: "transcript_entry list \<Rightarrow> dom list" where
  "renderTranscript entries =
     (if length entries = 0 then [dom_line (js ''No messages yet.'') ''muted''] else map renderEntry entries)"

section \<open>The page\<close>

text \<open>
  The parts of the document the script writes.  A notice has a number, so that its timer removes
  that notice; the check boxes are commit, push and pull request.
\<close>

record page =
  pgDotClass :: jsstr
  pgDaemonText :: jsstr
  pgSessionTitle :: jsstr
  pgMachineLabel :: jsstr
  pgStreamStatus :: jsstr
  pgTaskHidden :: bool
  pgTaskState :: jsstr
  pgTaskGoal :: jsstr
  pgCompletion :: "dom list"
  pgCockpit :: "dom list"
  pgAgentsHidden :: bool
  pgAgents :: "dom list"
  pgEntries :: "dom list"
  pgNotices :: "(nat \<times> dom) list"
  pgNext :: nat
  pgGoal :: jsstr
  pgChecks :: "bool \<times> bool \<times> bool"
  pgPosted :: "jsval list"

definition post_message :: "jsval \<Rightarrow> page \<Rightarrow> page" where
  "post_message m p = p\<lparr>pgPosted := pgPosted p @ [m]\<rparr>"

text \<open>The page once the script has run: its last statement posts \<open>ready\<close>.\<close>

definition fresh_page :: page where
  "fresh_page =
     post_message (message ''ready'' [])
       \<lparr>pgDotClass = js ''dot dot-stopped'', pgDaemonText = js ''stopped'', pgSessionTitle = js ''none'',
        pgMachineLabel = js ''daemon stopped'', pgStreamStatus = js ''stopped'', pgTaskHidden = True,
        pgTaskState = em_dash, pgTaskGoal = [], pgCompletion = [], pgCockpit = [], pgAgentsHidden = True,
        pgAgents = [], pgEntries = [], pgNotices = [], pgNext = 0, pgGoal = [],
        pgChecks = (False, False, False), pgPosted = []\<rparr>"

definition showNotice :: "jsstr \<Rightarrow> jsstr \<Rightarrow> page \<Rightarrow> page" where
  "showNotice level text p =
     (let node = text_node ''div'' (if level = js ''error'' then ''notice error'' else ''notice'') text;
          notices = pgNotices p @ [(pgNext p, node)]
      in p\<lparr>pgNotices := drop (length notices - 4) notices, pgNext := Suc (pgNext p)\<rparr>)"

definition notice_timeout :: "nat \<Rightarrow> page \<Rightarrow> page" where
  "notice_timeout n p = p\<lparr>pgNotices := filter (\<lambda>(i, node). i \<noteq> n) (pgNotices p)\<rparr>"

definition status_name :: "daemon_status \<Rightarrow> jsstr" where
  "status_name d =
     (case d of DStopped \<Rightarrow> js ''stopped'' | DStarting \<Rightarrow> js ''starting'' | DRunning \<Rightarrow> js ''running''
      | DError \<Rightarrow> js ''error'')"

definition setDaemon :: "daemon_status \<Rightarrow> jsstr \<Rightarrow> page \<Rightarrow> page" where
  "setDaemon d detail p =
     p\<lparr>pgDotClass := js ''dot dot-'' @ status_name d,
       pgDaemonText := status_name d @ (if detail = [] then [] else 32 # em_dash @ 32 # detail)\<rparr>"

text \<open>Without a task and a cockpit the card is hidden and its nodes stay as they are.\<close>

definition renderTask :: "task_summary option \<Rightarrow> cockpit_view option \<Rightarrow> page \<Rightarrow> page" where
  "renderTask task view p =
     (if task = None \<and> view = None then p\<lparr>pgTaskHidden := True\<rparr>
      else p\<lparr>pgTaskHidden := False,
             pgTaskState := shown_text (map_option tsState task),
             pgTaskGoal := shown_text (map_option tsGoal task),
             pgCompletion := renderCompletion task\<rparr>)"

definition renderSnapshot :: "faktor_snapshot \<Rightarrow> page \<Rightarrow> page" where
  "renderSnapshot s p =
     (let p1 = setDaemon (fsDaemon s) (fsDaemonDetail s) p;
          p2 = p1\<lparr>pgSessionTitle := (case fsSession s of Some session \<Rightarrow> shown_text (Some (ssTitle session)) | None \<Rightarrow> js ''none''),
                  pgMachineLabel := shown_text (Some (if fsMachineLabel s = [] then fsMachineState s else fsMachineLabel s)),
                  pgStreamStatus := shown_text (Some (fsStreamStatus s))\<rparr>;
          p3 = renderTask (fsTask s) (fsCockpit s) p2;
          p4 = p3\<lparr>pgCockpit := renderCockpit (fsCockpit s) (fsCockpitSections s),
                  pgAgentsHidden := (fsAgents s = []), pgAgents := renderAgents (fsAgents s),
                  pgEntries := renderTranscript (fsTranscript s)\<rparr>
      in case truthy (fsLastError s) of Some e \<Rightarrow> showNotice (js ''error'') e p4 | None \<Rightarrow> p4)"

section \<open>Evidence\<close>

text \<open>Every node that waits for an evidence artifact shows its text in place of its children.\<close>

fun show_evidence :: "jsstr \<Rightarrow> jsstr \<Rightarrow> dom \<Rightarrow> dom" where
  "show_evidence i text (Elem tag className attrs own kids) =
     (if map_of attrs ''data-evidence'' = Some i
      then Elem tag className attrs [] [text_node ''pre'' ''excerpt'' text]
      else Elem tag className attrs own (map (show_evidence i text) kids))"
| "show_evidence i text (Btn className label disabled posts) = Btn className label disabled posts"

definition deliverEvidence :: "jsstr \<Rightarrow> jsstr \<Rightarrow> bool \<Rightarrow> page \<Rightarrow> page" where
  "deliverEvidence i text truncated p =
     (let shown = (if truncated then text @ 10 # ellipsis @ js '' (truncated)'' else text)
      in p\<lparr>pgCockpit := map (show_evidence i shown) (pgCockpit p),
           pgEntries := map (show_evidence i shown) (pgEntries p)\<rparr>)"

section \<open>The composer\<close>

definition completionContractFromControls :: "page \<Rightarrow> completion_contract option" where
  "completionContractFromControls p =
     (case pgChecks p of
        (commit, push, pr) \<Rightarrow>
          if \<not> commit \<and> \<not> push \<and> \<not> pr then None
          else Some \<lparr>ccCommit = commit, ccPush = push, ccPr = pr\<rparr>)"

definition submit_message :: "page \<Rightarrow> jsval props option" where
  "submit_message p =
     (let goal = trim (pgGoal p)
      in if goal = [] then None
         else Some ([(js ''type'', JStr (js ''sendGoal'')), (js ''goal'', JStr goal)]
           @ (case completionContractFromControls p of
                Some contract \<Rightarrow> [(js ''completionContract'', contract_value contract)] | None \<Rightarrow> [])))"

definition composer_submit :: "page \<Rightarrow> page" where
  "composer_submit p = (case submit_message p of Some m \<Rightarrow> post_message (JObj m) p | None \<Rightarrow> p)"

definition start_result :: "jsval \<Rightarrow> bool \<Rightarrow> page \<Rightarrow> page" where
  "start_result goal ok p =
     (let p1 = p\<lparr>pgGoal := afterStart (JStr (pgGoal p)) goal ok\<rparr>
      in if ok then p1\<lparr>pgChecks := (False, False, False)\<rparr> else p1)"

section \<open>Events\<close>

text \<open>A message of the provider.\<close>

definition page_receive :: "view_out \<Rightarrow> page \<Rightarrow> page" where
  "page_receive out p =
     (case out of
        VSnapshot s \<Rightarrow> renderSnapshot s p
      | VPost (JObj m) \<Rightarrow>
          (let kind = jget m (js ''type'')
           in if kind = JStr (js ''evidence'')
              then deliverEvidence (draft_text (jget m (js ''id''))) (draft_text (jget m (js ''text'')))
                     (jget m (js ''truncated'') = JBool True) p
              else if kind = JStr (js ''startResult'')
              then start_result (jget m (js ''goal'')) (jget m (js ''ok'') = JBool True) p
              else if kind = JStr (js ''notice'')
              then showNotice (draft_text (jget m (js ''level''))) (draft_text (jget m (js ''message''))) p
              else p)
      | _ \<Rightarrow> p)"

fun dom_buttons :: "dom \<Rightarrow> dom list" where
  "dom_buttons (Elem tag className attrs own kids) = concat (map dom_buttons kids)"
| "dom_buttons (Btn className label disabled posts) = [Btn className label disabled posts]"

definition page_buttons :: "page \<Rightarrow> dom list" where
  "page_buttons p = concat (map dom_buttons (pgCockpit p @ pgAgents p @ pgEntries p))"

text \<open>A click on a rendered button; a disabled one does nothing.\<close>

definition button_click :: "dom \<Rightarrow> page \<Rightarrow> page" where
  "button_click b p =
     (case b of
        Btn _ _ disabled (Some m) \<Rightarrow> if disabled then p else post_message m p
      | _ \<Rightarrow> p)"

definition header_kinds :: "string list" where
  "header_kinds = [''newTask'', ''cancelRun'', ''refresh'', ''startDaemon'', ''stopDaemon'']"

section \<open>Runs of the page\<close>

text \<open>\<open>snaps\<close> are the snapshots the page has received.\<close>

definition out_snapshots :: "view_out \<Rightarrow> faktor_snapshot list" where
  "out_snapshots out = (case out of VSnapshot s \<Rightarrow> [s] | _ \<Rightarrow> [])"

inductive page_run :: "faktor_snapshot list \<Rightarrow> page \<Rightarrow> bool" where
  loaded: "page_run [] fresh_page"
| received: "page_run snaps p \<Longrightarrow> page_run (out_snapshots out @ snaps) (page_receive out p)"
| timeout: "page_run snaps p \<Longrightarrow> page_run snaps (notice_timeout n p)"
| edited: "page_run snaps p \<Longrightarrow> page_run snaps (p\<lparr>pgGoal := draft\<rparr>)"
| checked: "page_run snaps p \<Longrightarrow> page_run snaps (p\<lparr>pgChecks := checks\<rparr>)"
| submitted: "page_run snaps p \<Longrightarrow> page_run snaps (composer_submit p)"
| clicked: "page_run snaps p \<Longrightarrow> b \<in> set (page_buttons p) \<Longrightarrow> page_run snaps (button_click b p)"
| header: "page_run snaps p \<Longrightarrow> List.member header_kinds kind \<Longrightarrow> page_run snaps (post_message (message kind []) p)"

end
