(* ===== verification/ChatGuarantees.thy ===== *)
theory ChatGuarantees
  imports ChatPage "HOL-Library.Multiset"
begin

text \<open>
  What the built-in page promises (\<open>apps/vscode/media/chat.js\<close>, with the provider and the host
  behind it): it posts nothing the snapshot does not justify, its draft survives a refused
  start, and its composer starts the task the user described.
\<close>

section \<open>Every posted message is justified\<close>

definition toggle_message :: "agent_summary \<Rightarrow> jsval" where
  "toggle_message agent =
     message ''agentControl''
       [(''agentId'', JStr (asAgentId agent)), (''action'', JStr (js ''presentation'')),
        (''state'', JStr (if asPresentation agent = Background then js ''foreground'' else js ''background''))]"

definition agent_justifies :: "agent_summary \<Rightarrow> jsval \<Rightarrow> bool" where
  "agent_justifies agent m \<longleftrightarrow> asKind agent = js ''child''
     \<and> (m = toggle_message agent \<or> (\<exists>action. List.member (map fst agent_actions) action \<and> m = control_message agent action))"

definition section_justifies :: "tournament_view \<Rightarrow> cockpit_section \<Rightarrow> jsval \<Rightarrow> bool" where
  "section_justifies t sec m \<longleftrightarrow> ckKey sec = js ''tournament''
     \<and> list_ex (\<lambda>action. caEnabled action \<and> m = message ''tournamentControl''
           [(''tournamentId'', JStr (tvId t)), (''action'', JStr (caKey action))])
         (case ckActions sec of Some as \<Rightarrow> as | None \<Rightarrow> [])"

definition is_evidence_request :: "jsval \<Rightarrow> bool" where
  "is_evidence_request m \<longleftrightarrow> (\<exists>x. m = message ''retrieveEvidence'' [(''evidenceId'', JNum x)])"

text \<open>
  What a snapshot justifies: a control of a listed child, an enabled action of the tournament on
  display, and the request of an evidence artifact.
\<close>

definition justified :: "faktor_snapshot \<Rightarrow> jsval \<Rightarrow> bool" where
  "justified s m \<longleftrightarrow> list_ex (\<lambda>agent. agent_justifies agent m) (fsAgents s)
     \<or> (case Option.bind (fsCockpit s) cpTournament of
          Some t \<Rightarrow> list_ex (\<lambda>sec. section_justifies t sec m) (fsCockpitSections s) | None \<Rightarrow> False)
     \<or> is_evidence_request m"

definition posting :: "dom \<Rightarrow> jsval option" where
  "posting b = (case b of Btn _ _ disabled posts \<Rightarrow> if disabled then None else posts | _ \<Rightarrow> None)"

definition node_posts :: "dom \<Rightarrow> jsval set" where
  "node_posts d = {m. \<exists>b \<in> set (dom_buttons d). posting b = Some m}"

definition postings :: "dom list \<Rightarrow> jsval set" where
  "postings ds = (\<Union>d \<in> set ds. node_posts d)"

lemma postings_simps [simp]:
  "postings [] = {}" "postings (d # ds) = node_posts d \<union> postings ds" "postings (xs @ ys) = postings xs \<union> postings ys"
  "postings (map f as) = (\<Union>x \<in> set as. node_posts (f x))"
  by (auto simp: postings_def)

lemma node_posts_simps [simp]:
  "node_posts (Elem tag c as own kids) = postings kids"
  "node_posts (Btn c l disabled posts) = (if disabled then {} else set_option posts)"
  "node_posts (text_node tag' c' t) = {}" "node_posts (dom_line t c') = {}"
  by (auto simp: node_posts_def postings_def posting_def text_node_def dom_line_def)

lemma evidence_posts: "m \<in> node_posts (evidence_button x) \<Longrightarrow> is_evidence_request m"
  by (auto simp: evidence_button_def is_evidence_request_def)

lemma section_lines_post: "m \<in> postings (section_lines sec) \<Longrightarrow> is_evidence_request m"
  by (auto simp: section_lines_def renderEvidenceLine_def dest: evidence_posts
      split: if_split_asm option.split_asm jsnum.split_asm)

lemma section_controls_post:
  "m \<in> postings (section_controls view sec) \<Longrightarrow> \<exists>t. cpTournament view = Some t \<and> section_justifies t sec m"
  by (auto simp: section_controls_def tournament_button_def section_justifies_def list_ex_iff Let_def
      split: option.split_asm if_split_asm)

lemma cockpit_posts:
  assumes "m \<in> postings (renderCockpit (fsCockpit s) (fsCockpitSections s))"
  shows "justified s m"
proof -
  obtain view sec where v: "fsCockpit s = Some view" "sec \<in> set (fsCockpitSections s)" "m \<in> node_posts (render_section view sec)"
    using assms by (auto simp: renderCockpit_def split: option.split_asm)
  then have "m \<in> postings (section_lines sec) \<or> m \<in> postings (section_controls view sec)"
    by (simp add: render_section_def)
  then show ?thesis
  proof
    assume "m \<in> postings (section_lines sec)"
    then show ?thesis using section_lines_post by (simp add: justified_def)
  next
    assume "m \<in> postings (section_controls view sec)"
    then obtain t where "cpTournament view = Some t" "section_justifies t sec m" using section_controls_post by blast
    with v(1,2) show ?thesis unfolding justified_def list_ex_iff by auto
  qed
qed

lemma sprite_posts: "node_posts (pixelSprite agent) = {}"
  by (auto simp: pixelSprite_def sprite_rect_def List.map_filter_def Let_def)

lemma control_posts: "m \<in> postings (agent_controls agent) \<Longrightarrow> agent_justifies agent m"
  by (auto simp: agent_controls_def presentationButton_def agentButton_def agent_justifies_def toggle_message_def
      List.member_iff Let_def split: if_split_asm)

lemma agent_posts: "m \<in> node_posts (render_agent agent) \<Longrightarrow> agent_justifies agent m"
  by (auto simp: render_agent_def sprite_posts dest: control_posts split: if_split_asm)

lemma agents_post:
  assumes "m \<in> postings (renderAgents (fsAgents s))"
  shows "justified s m"
proof -
  obtain agent where "agent \<in> set (fsAgents s)" "m \<in> node_posts (render_agent agent)"
    using assms by (auto simp: renderAgents_def grouped_agents_def group_label_def Let_def split: if_split_asm)
  with agent_posts show ?thesis by (auto simp: justified_def list_ex_iff)
qed

lemma tool_posts: "m \<in> node_posts (renderTool tool) \<Longrightarrow> is_evidence_request m"
  by (auto simp: renderTool_def dest: evidence_posts split: option.split_asm)

lemma entry_posts: "m \<in> node_posts (renderEntry entry) \<Longrightarrow> is_evidence_request m"
  by (auto simp: renderEntry_def dest: tool_posts split: if_split_asm)

lemma transcript_posts: "m \<in> postings (renderTranscript entries) \<Longrightarrow> is_evidence_request m"
  by (auto simp: renderTranscript_def dest: entry_posts split: if_split_asm)

lemma show_evidence_posts: "node_posts (show_evidence i t d) \<subseteq> node_posts d"
  by (induction i t d rule: show_evidence.induct) (auto simp: postings_def)

lemma shown_evidence_posts: "postings (map (show_evidence i t) ds) \<subseteq> postings ds"
  using show_evidence_posts by (fastforce simp: postings_def)

section \<open>The invariant\<close>

definition goal_message :: "jsval \<Rightarrow> bool" where
  "goal_message m \<longleftrightarrow> (\<exists>p ps. submit_message p = Some ps \<and> m = JObj ps)"

definition posted_ok :: "faktor_snapshot list \<Rightarrow> jsval \<Rightarrow> bool" where
  "posted_ok snaps m \<longleftrightarrow> list_ex (\<lambda>kind. m = message kind []) (''ready'' # header_kinds) \<or> goal_message m
     \<or> list_ex (\<lambda>s. justified s m) snaps"

definition page_ok :: "faktor_snapshot list \<Rightarrow> page \<Rightarrow> bool" where
  "page_ok snaps p \<longleftrightarrow> list_all (posted_ok snaps) (pgPosted p) \<and> length (pgNotices p) \<le> 4
     \<and> (\<forall>m \<in> postings (pgCockpit p @ pgAgents p @ pgEntries p). list_ex (\<lambda>s. justified s m) snaps)"

lemma posted_ok_more: "posted_ok snaps m \<Longrightarrow> posted_ok (newer @ snaps) m"
  by (auto simp: posted_ok_def)

lemma notice_fields [simp]:
  "pgPosted (showNotice level t p) = pgPosted p" "pgCockpit (showNotice level t p) = pgCockpit p"
  "pgAgents (showNotice level t p) = pgAgents p" "pgEntries (showNotice level t p) = pgEntries p"
  by (simp_all add: showNotice_def Let_def)

lemma notice_bound: "length (pgNotices (showNotice level t p)) \<le> 4"
  by (simp add: showNotice_def Let_def)

lemma renderSnapshot_posts:
  "pgPosted (renderSnapshot s p) = pgPosted p"
  "postings (pgCockpit (renderSnapshot s p)) = postings (renderCockpit (fsCockpit s) (fsCockpitSections s))"
  "postings (pgAgents (renderSnapshot s p)) = postings (renderAgents (fsAgents s))"
  "postings (pgEntries (renderSnapshot s p)) = postings (renderTranscript (fsTranscript s))"
  by (simp_all add: renderSnapshot_def renderTask_def setDaemon_def Let_def split: option.split)

lemma renderSnapshot_notices: "length (pgNotices p) \<le> 4 \<Longrightarrow> length (pgNotices (renderSnapshot s p)) \<le> 4"
  by (auto simp: renderSnapshot_def renderTask_def setDaemon_def Let_def notice_bound split: option.split)

lemma page_ok_snapshot: "page_ok snaps p \<Longrightarrow> page_ok (s # snaps) (renderSnapshot s p)"
  using cockpit_posts [of _ s] agents_post [of _ s] transcript_posts [of _ "fsTranscript s"]
    posted_ok_more [of snaps _ "[s]"] renderSnapshot_notices [of p s]
  unfolding page_ok_def postings_simps renderSnapshot_posts
  by (auto simp: justified_def list_all_iff)

lemma page_ok_evidence: "page_ok snaps p \<Longrightarrow> page_ok snaps (deliverEvidence i t truncated p)"
  using shown_evidence_posts unfolding page_ok_def deliverEvidence_def Let_def postings_simps(3)
  by simp blast

lemma page_ok_notice: "page_ok snaps p \<Longrightarrow> page_ok snaps (showNotice level t p)"
  by (simp add: page_ok_def notice_bound)

lemma page_ok_result: "page_ok snaps p \<Longrightarrow> page_ok snaps (start_result goal ok p)"
  by (simp add: page_ok_def start_result_def Let_def)

lemma page_ok_receive:
  assumes "page_ok snaps p"
  shows "page_ok (out_snapshots out @ snaps) (page_receive out p)"
proof (cases out)
  case (VPost m)
  then show ?thesis
    using assms page_ok_evidence page_ok_notice page_ok_result
    by (cases m) (auto simp: page_receive_def out_snapshots_def Let_def)
next
  case (VSnapshot s)
  then show ?thesis using assms page_ok_snapshot by (simp add: page_receive_def out_snapshots_def)
qed (use assms in \<open>simp_all add: page_receive_def out_snapshots_def\<close>)

lemma page_ok_post: "page_ok snaps p \<Longrightarrow> posted_ok snaps m \<Longrightarrow> page_ok snaps (post_message m p)"
  by (simp add: page_ok_def post_message_def)

lemma page_ok_click:
  assumes "page_ok snaps p" and "b \<in> set (page_buttons p)"
  shows "page_ok snaps (button_click b p)"
proof (cases "posting b")
  case None
  with assms(1) show ?thesis by (auto simp: button_click_def posting_def split: dom.split option.split)
next
  case (Some m)
  then have click: "button_click b p = post_message m p"
    by (auto simp: button_click_def posting_def split: dom.splits if_split_asm)
  have "m \<in> postings (pgCockpit p @ pgAgents p @ pgEntries p)"
    using assms(2) Some by (auto simp: page_buttons_def postings_def node_posts_def)
  with assms(1) have "posted_ok snaps m" unfolding page_ok_def posted_ok_def by blast
  with assms(1) click show ?thesis by (simp add: page_ok_post)
qed

lemma page_run_ok: "page_run snaps p \<Longrightarrow> page_ok snaps p"
proof (induction rule: page_run.induct)
  case loaded
  show ?case by (simp add: page_ok_def fresh_page_def post_message_def posted_ok_def)
next
  case (received snaps p out)
  then show ?case by (simp add: page_ok_receive)
next
  case (timeout snaps p n)
  then show ?case by (auto simp: page_ok_def notice_timeout_def intro: order_trans [OF length_filter_le])
next
  case (submitted snaps p)
  then show ?case
    by (auto simp: composer_submit_def posted_ok_def goal_message_def intro!: page_ok_post split: option.split)
next
  case (header snaps p kind)
  then show ?case by (intro page_ok_post) (auto simp: posted_ok_def list_ex_iff List.member_iff)
qed (simp_all add: page_ok_click, simp_all add: page_ok_def)

text \<open>
  C8.  The built-in page posts nothing on its own account: over any run, every posted message is a
  header button's, a submission of the composer, or comes from a button that a received snapshot
  justifies: a control of a listed child agent, an action of the displayed tournament that the
  snapshot enables, or a request for evidence.  At most four notices are on display.
\<close>

theorem page_posts_justified:
  assumes "page_run snaps p"
  shows "list_all (posted_ok snaps) (pgPosted p) \<and> length (pgNotices p) \<le> 4"
  using page_run_ok [OF assms] by (simp add: page_ok_def)

theorem page_posts_justified_witness:
  "list_all (posted_ok []) (pgPosted (composer_submit (fresh_page\<lparr>pgGoal := js ''fix it''\<rparr>)))"
  using page_posts_justified [OF page_run.submitted [OF page_run.edited [OF page_run.loaded]]] by blast

section \<open>The composer starts the task it describes\<close>

lemma submit_fields:
  assumes "submit_message p = Some m"
  shows "jget m (js ''type'') = JStr (js ''sendGoal'')" "jget m (js ''goal'') = JStr (trim (pgGoal p))"
    "jget m (js ''files'') = JUndef" "jget m (js ''pending'') = JUndef" "jget m (js ''attachments'') = JUndef"
    "jget m (js ''completionContract'') =
       (case completionContractFromControls p of Some contract \<Rightarrow> contract_value contract | None \<Rightarrow> JUndef)"
    "trim (pgGoal p) \<noteq> []"
  using assms by (auto simp: submit_message_def Let_def jget_Cons jget_Nil split: if_split_asm option.split)

lemma contract_parsed:
  "parseCompletionContract (case completionContractFromControls p of Some contract \<Rightarrow> contract_value contract | None \<Rightarrow> JUndef)
     = Inr (completionContractFromControls p)"
  by (auto simp: completionContractFromControls_def contract_value_def parseCompletionContract_def nullish_def
      contract_keys_def bool_member_def jkeys_def List.member_iff hasCompletionSteps_def Let_def split: prod.split)

text \<open>
  From the composer to the admission: what the built-in page submits makes a host with a
  daemon and a session begin one admission with the trimmed goal of the text area and exactly
  the completion steps that are ticked, and no files.
\<close>

theorem composer_reaches_admission:
  assumes "submit_message p = Some m" and "hoClient h = Some i" "hoSession h = Some sid"
  shows "hoWaiting (handleWebviewMessage binary m h) = hoWaiting h @
    [WAdmission sid \<lparr>tgGoal = trim (pgGoal p), tgFiles = [], tgContract = completionContractFromControls p,
       tgPending = pendingEnvelope (trim (pgGoal p))\<rparr>]"
proof -
  note f = submit_fields [OF assms(1)]
  have "message_text m ''type'' = js ''sendGoal''" using f(1) by (simp add: message_text_def)
  then have "handleWebviewMessage binary m h = sendGoal binary m h" by (simp add: handleWebviewMessage_def)
  moreover have "parseCompletionContract (jget m (js ''completionContract'')) = Inr (completionContractFromControls p)"
    unfolding f(6) by (rule contract_parsed)
  ultimately show ?thesis
    using f assms(2,3) by (simp add: sendGoal_def boundedWebviewFiles_def nullish_def startTask_def task_ready_def Let_def)
qed

theorem composer_reaches_admission_witness:
  "let p = fresh_page\<lparr>pgGoal := js '' fix it '', pgChecks := (True, False, False)\<rparr>
   in \<exists>m. submit_message p = Some m \<and> length (hoWaiting (handleWebviewMessage (Inr []) m demo_host)) = 1"
proof -
  let ?p = "fresh_page\<lparr>pgGoal := js '' fix it '', pgChecks := (True, False, False)\<rparr>"
  have "trim (js '' fix it '') \<noteq> []" by code_simp
  then obtain m where m: "submit_message ?p = Some m" by (simp add: submit_message_def Let_def)
  have h: "hoClient demo_host = Some 0" "hoSession demo_host = Some (js ''s'')" "hoWaiting demo_host = []"
    by (simp_all add: demo_host_def initial_host_def)
  from composer_reaches_admission [OF m h(1,2), of "Inr []"] m show ?thesis by (auto simp: h(3))
qed

section \<open>The draft survives a refused start\<close>

definition built_in :: "provider \<Rightarrow> bool" where
  "built_in q \<longleftrightarrow> pvView q \<and> \<not> pvVendored q"

text \<open>
  C22.  The draft is never lost: when the host gives a submission back, or refuses it, the built-in
  page keeps its text and its ticks; when the host has accepted it, the text is cleared only if
  it still is the submitted goal, and the ticks are reset.
\<close>

theorem draft_survives_refusal:
  assumes "built_in q"
  shows "(\<exists>out. pvOut (deliver q (ORestore pending e)) = pvOut q @ [out]
      \<and> pgGoal (page_receive out p) = pgGoal p \<and> pgChecks (page_receive out p) = pgChecks p)
    \<and> (\<exists>out. pvOut (deliver q (OStartResult goal ok)) = pvOut q @ [out]
      \<and> pgGoal (page_receive out p) = (if ok \<and> trim (pgGoal p) = trim goal then [] else pgGoal p)
      \<and> pgChecks (page_receive out p) = (if ok then (False, False, False) else pgChecks p))"
  using assms
  by (auto simp: built_in_def deliver_def postSendMessageFailed_def postStartResult_def post_def emit_out_def
      page_receive_def message_def jobj_def jget_Cons start_result_def afterStart_def normalize_draft_def Let_def)

theorem draft_survives_refusal_witness:
  "\<exists>out. pvOut (deliver (new_provider\<lparr>pvView := True\<rparr>) (OStartResult (js ''g'') False)) = [out]
     \<and> pgGoal (page_receive out (fresh_page\<lparr>pgGoal := js ''g''\<rparr>)) = js ''g''"
proof -
  have "built_in (new_provider\<lparr>pvView := True\<rparr>)" by (simp add: built_in_def new_provider_def)
  from draft_survives_refusal [OF this, THEN conjunct2, of "js ''g''" False "fresh_page\<lparr>pgGoal := js ''g''\<rparr>"]
  show ?thesis by (auto simp: new_provider_def)
qed

section \<open>The order of the agents\<close>

text \<open>Every agent is shown once, the background children after all others, in the order of the snapshot.\<close>

lemma agents_shown_once:
  "List.map_filter (\<lambda>x. x) (grouped_agents agents)
     = filter (\<lambda>a. \<not> is_background_agent a) agents @ filter is_background_agent agents"
  "mset (List.map_filter (\<lambda>x. x) (grouped_agents agents)) = mset agents"
  by (simp_all add: grouped_agents_def List.map_filter_def Let_def comp_def)

end
