(* ===== verification/NodePath.thy ===== *)
theory NodePath
  imports JsString
begin

text \<open>
  The part of \<open>node:path\<close> (POSIX) the extension uses to locate files: \<open>join\<close>, \<open>resolve\<close>,
  \<open>relative\<close> and \<open>isAbsolute\<close>.
\<close>

section \<open>Segments\<close>

definition is_sep :: "cunit \<Rightarrow> bool" where
  "is_sep c = (c = 47)"

definition segments :: "jsstr \<Rightarrow> jsstr list" where
  "segments p = split_by is_sep p"

definition dot_dot :: jsstr where
  "dot_dot = js ''..''"

text \<open>
  \<open>normalizeString\<close>: empty and \<open>.\<close> segments go, a \<open>..\<close> takes the segment before it with it; at the
  root of an absolute path it goes, in a relative path it stays.  \<open>acc\<close> is reversed.
\<close>

fun normal_segments :: "bool \<Rightarrow> jsstr list \<Rightarrow> jsstr list \<Rightarrow> jsstr list" where
  "normal_segments rooted acc [] = rev acc"
| "normal_segments rooted acc (s # ss) =
     (if s = [] \<or> s = [46] then normal_segments rooted acc ss
      else if s = dot_dot then
        (case acc of
           a # acc' \<Rightarrow>
             if a \<noteq> dot_dot then normal_segments rooted acc' ss
             else normal_segments rooted (s # acc) ss
         | [] \<Rightarrow> normal_segments rooted (if rooted then [] else [s]) ss)
      else normal_segments rooted (s # acc) ss)"

definition isAbsolute_posix :: "jsstr \<Rightarrow> bool" where
  "isAbsolute_posix p = (case p of c # _ \<Rightarrow> is_sep c | [] \<Rightarrow> False)"

definition normalize_posix :: "jsstr \<Rightarrow> jsstr" where
  "normalize_posix p =
     (if p = [] then [46]
      else
        (let rooted = isAbsolute_posix p;
             trailing = is_sep (last p);
             body = join [47] (normal_segments rooted [] (segments p));
             body' = (if body = [] \<and> \<not> rooted then [46] else body);
             body'' = (if body' \<noteq> [] \<and> trailing then body' @ [47] else body')
         in if rooted then 47 # body'' else body''))"

definition join_posix :: "jsstr list \<Rightarrow> jsstr" where
  "join_posix parts =
     (let joined = join [47] (filter (\<lambda>p. p \<noteq> []) parts)
      in if joined = [] then [46] else normalize_posix joined)"

text \<open>\<open>resolve(base, ref)\<close>; \<open>cwd\<close> is the absolute working directory.\<close>

definition resolve_posix :: "jsstr \<Rightarrow> jsstr \<Rightarrow> jsstr \<Rightarrow> jsstr" where
  "resolve_posix cwd base ref =
     (let p = (if isAbsolute_posix ref then ref
               else if isAbsolute_posix base then base @ 47 # ref
               else cwd @ 47 # base @ 47 # ref)
      in 47 # join [47] (normal_segments True [] (segments p)))"

fun drop_common :: "jsstr list \<Rightarrow> jsstr list \<Rightarrow> jsstr list \<times> jsstr list" where
  "drop_common (a # as) (b # bs) = (if a = b then drop_common as bs else (a # as, b # bs))"
| "drop_common as bs = (as, bs)"

definition relative_posix :: "jsstr \<Rightarrow> jsstr \<Rightarrow> jsstr \<Rightarrow> jsstr" where
  "relative_posix cwd a b =
     (case drop_common (normal_segments True [] (segments (resolve_posix cwd [] a)))
             (normal_segments True [] (segments (resolve_posix cwd [] b))) of
        (up, down) \<Rightarrow> join [47] (replicate (length up) dot_dot @ down))"

section \<open>Facts\<close>

definition plain_segment :: "jsstr \<Rightarrow> bool" where
  "plain_segment s \<longleftrightarrow> s \<noteq> [] \<and> s \<noteq> [46] \<and> s \<noteq> dot_dot \<and> \<not> list_ex is_sep s"

lemma split_by_segment: "\<not> list_ex p s \<Longrightarrow> split_by p (s @ c # r) = (if p c then s # split_by p r else split_by p (s @ c # r))"
  by (induction s) auto

lemma split_by_plain: "\<not> list_ex p s \<Longrightarrow> split_by p s = [s]"
  by (induction s) auto

lemma segments_join:
  "ss \<noteq> [] \<Longrightarrow> list_all (\<lambda>s. \<not> list_ex is_sep s) ss \<Longrightarrow> segments (join [47] ss) = ss"
proof (induction "[47] :: jsstr" ss rule: join.induct)
  case (3 s t ss)
  then show ?case by (simp add: segments_def split_by_segment is_sep_def)
qed (simp_all add: segments_def split_by_plain)

lemma split_by_at_sep: "split_by p (a @ c # b) = (if p c then split_by p a @ split_by p b else split_by p (a @ c # b))"
proof (induction a)
  case (Cons d a)
  show ?case
  proof (cases "p c")
    case True
    obtain w ws where "split_by p a = w # ws" using split_by_not_Nil [of p a] by (cases "split_by p a") auto
    with Cons True show ?thesis by simp
  qed simp
qed simp

lemma segments_slash: "segments (a @ 47 # b) = segments a @ segments b"
  using split_by_at_sep [of is_sep a 47 b] by (simp add: segments_def is_sep_def)

lemma segments_no_sep: "s \<in> set (segments p) \<Longrightarrow> \<not> list_ex is_sep s"
proof (induction p arbitrary: s)
  case (Cons c p)
  obtain w ws where w: "split_by is_sep p = w # ws" using split_by_not_Nil [of is_sep p] by (cases "split_by is_sep p") auto
  with Cons show ?case by (auto simp: segments_def split: if_split_asm)
qed (simp add: segments_def)

definition only_plain :: "jsstr list \<Rightarrow> jsstr list" where
  "only_plain ss = filter (\<lambda>s. s \<noteq> [] \<and> s \<noteq> [46]) ss"

lemma normal_segments_no_up:
  "dot_dot \<notin> set ss \<Longrightarrow> normal_segments rooted acc ss = rev acc @ only_plain ss"
  by (induction rooted acc ss rule: normal_segments.induct) (auto simp: only_plain_def)

lemma normal_segments_plain:
  "(\<And>s. s \<in> set ss \<Longrightarrow> \<not> list_ex is_sep s) \<Longrightarrow> list_all plain_segment acc \<Longrightarrow>
     list_all plain_segment (normal_segments True acc ss)"
  by (induction True acc ss rule: normal_segments.induct) (auto simp: plain_segment_def split: list.split)

lemma normal_segments_rooted: "list_all plain_segment (normal_segments True [] (segments p))"
  by (rule normal_segments_plain) (auto dest: segments_no_sep)

lemma normal_segments_append:
  "list_all plain_segment ys \<Longrightarrow> normal_segments rooted acc (xs @ ys) = normal_segments rooted acc xs @ ys"
proof (induction rooted acc xs rule: normal_segments.induct)
  case (1 rooted acc)
  then show ?case by (induction ys arbitrary: acc) (simp_all add: plain_segment_def)
qed (auto split: list.split)

lemma only_plain_id: "list_all plain_segment ss \<Longrightarrow> only_plain ss = ss"
  by (auto simp: only_plain_def filter_id_conv list_all_iff plain_segment_def)

lemma plain_not_up: "list_all plain_segment ss \<Longrightarrow> dot_dot \<notin> set ss"
  by (auto simp: list_all_iff plain_segment_def)

text \<open>An absolute normal path and its segments.\<close>

definition path_of :: "jsstr list \<Rightarrow> jsstr" where
  "path_of ss = 47 # join [47] ss"

lemma absolute_path_of [simp]: "isAbsolute_posix (path_of ss)"
  by (simp add: path_of_def isAbsolute_posix_def is_sep_def)

lemma segments_path_of:
  assumes "list_all plain_segment ss"
  shows "segments (path_of ss) = [] # (if ss = [] then [[]] else ss)"
proof -
  have "list_all (\<lambda>s. \<not> list_ex is_sep s) ss" using assms by (auto simp: list_all_iff plain_segment_def)
  then show ?thesis
    using segments_slash [of "[]" "join [47] ss"] segments_join [of ss]
    by (auto simp: path_of_def segments_def)
qed

lemma resolve_plain: "\<exists>ss. list_all plain_segment ss \<and> resolve_posix cwd base ref = path_of ss"
  unfolding resolve_posix_def path_of_def Let_def
  using normal_segments_rooted by blast

lemma resolve_below:
  assumes "list_all plain_segment dir" and "\<not> isAbsolute_posix ref" and "dot_dot \<notin> set (segments ref)"
  shows "resolve_posix cwd (path_of dir) ref = path_of (dir @ only_plain (segments ref))"
proof -
  have "dot_dot \<notin> set (segments (path_of dir) @ segments ref)"
    using assms(3) plain_not_up [OF assms(1)] by (auto simp: segments_path_of [OF assms(1)] dot_dot_def)
  then have "normal_segments True [] (segments (path_of dir) @ segments ref)
      = only_plain (segments (path_of dir)) @ only_plain (segments ref)"
    by (simp add: normal_segments_no_up only_plain_def)
  moreover have "only_plain (segments (path_of dir)) = dir"
    using assms(1) only_plain_id [of dir] by (auto simp: segments_path_of only_plain_def)
  ultimately have "normal_segments True [] (segments (path_of dir @ 47 # ref)) = dir @ only_plain (segments ref)"
    by (simp add: segments_slash del: absolute_path_of)
  then show ?thesis
    using assms(2) by (simp add: resolve_posix_def path_of_def [of "dir @ only_plain (segments ref)"])
qed

lemma plain_segments: "dot_dot \<notin> set (segments ref) \<Longrightarrow> list_all plain_segment (only_plain (segments ref))"
  by (auto simp: only_plain_def list_all_iff plain_segment_def dest: segments_no_sep)

text \<open>\<open>join\<close> under an absolute root.\<close>

lemma join_below:
  assumes "isAbsolute_posix root" and "list_all plain_segment names" "names \<noteq> []"
  shows "join_posix (root # names) = path_of (normal_segments True [] (segments root) @ names)"
proof -
  have root: "root \<noteq> []" using assms(1) by (auto simp: isAbsolute_posix_def)
  have seps: "list_all (\<lambda>s. \<not> list_ex is_sep s) names"
    using assms(2) by (auto simp: list_all_iff plain_segment_def)
  have "filter (\<lambda>p. p \<noteq> []) (root # names) = root # names"
    using root assms(2) by (auto simp: list_all_iff plain_segment_def filter_id_conv)
  moreover have joined: "join [47] (root # names) = root @ 47 # join [47] names"
    using assms(3) by (cases names) simp_all
  moreover have "isAbsolute_posix (root @ 47 # join [47] names)"
    using assms(1) root by (cases root) (simp_all add: isAbsolute_posix_def)
  moreover have "\<not> is_sep (last (47 # join [47] names))"
    using assms(2,3)
  proof (induction "[47] :: jsstr" names rule: join.induct)
    case (2 s)
    then show ?case by (cases s rule: rev_cases) (auto simp: plain_segment_def)
  next
    case (3 s t ss)
    then show ?case by (cases "join [47] (t # ss)") (auto simp: plain_segment_def is_sep_def)
  qed simp
  moreover have "segments (root @ 47 # join [47] names) = segments root @ names"
    using segments_slash segments_join [OF assms(3) seps] by simp
  ultimately show ?thesis
    using normal_segments_append [OF assms(2), of True "[]" "segments root"] root
    by (simp add: join_posix_def normalize_posix_def path_of_def Let_def)
qed

end
