(* ===== verification/BundleShell.thy ===== *)
theory BundleShell
  imports NodePath Encoding
begin

text \<open>
  The HTML shell of the vendored webview and the discovery of its bundle on disk, the last two
  sections of \<open>apps/vscode/src/kilo-bridge.ts\<close>.  The file system (which paths exist, what a file
  holds, the working directory) is a parameter; the regular expressions are matched by hand.
\<close>

section \<open>Escaping\<close>

definition replace_unit :: "cunit \<Rightarrow> jsstr \<Rightarrow> jsstr \<Rightarrow> jsstr" where
  "replace_unit c r s = concat (map (\<lambda>d. if d = c then r else [d]) s)"

definition jsUri :: "jsstr \<Rightarrow> jsstr" where
  "jsUri uri = replace_unit 60 (92 # js ''u003c'') (quote uri)"

definition escapeHtml :: "jsstr \<Rightarrow> jsstr" where
  "escapeHtml text =
     replace_unit 34 (js ''&quot;'')
       (replace_unit 62 (js ''&gt;'') (replace_unit 60 (js ''&lt;'') (replace_unit 38 (js ''&amp;'') text)))"

definition apos :: "string \<Rightarrow> jsstr" where
  "apos s = 39 # js s @ [39]"

section \<open>The content security policy\<close>

definition vendoredCsp :: "jsstr \<Rightarrow> jsstr \<Rightarrow> jsstr" where
  "vendoredCsp cspSource nonce =
     join (js ''; '')
       [js ''default-src '' @ apos ''none'',
        js ''style-src '' @ apos ''unsafe-inline'' @ 32 # cspSource,
        js ''script-src '' @ 39 # js ''nonce-'' @ nonce @ 39 # 32 # apos ''wasm-unsafe-eval'',
        js ''worker-src '' @ cspSource @ js '' blob:'',
        js ''font-src '' @ cspSource,
        js ''img-src '' @ cspSource @ js '' data:'',
        js ''connect-src '' @ cspSource]"

section \<open>The shell\<close>

record html_options =
  vhCspSource :: jsstr
  vhNonce :: jsstr
  vhScriptUri :: jsstr
  vhStyleUri :: jsstr
  vhIconsBaseUri :: jsstr
  vhWorkerUri :: jsstr
  vhTitle :: jsstr
  vhSidebar :: "jsstr option"
  vhTopBar :: "bool option"
  vhExtraStyles :: "jsstr option"
  vhCompanionScript :: "jsstr option"
  vhCompanionStyle :: "jsstr option"

definition COMPANION_API_BOOTSTRAP :: jsstr where
  "COMPANION_API_BOOTSTRAP =
     js ''(function(){var real=window.acquireVsCodeApi;var api=null;''
     @ js ''window.acquireVsCodeApi=function(){if(api===null&&typeof real===\"function\"){''
     @ js ''api=real.apply(window,arguments);}return api;};''
     @ js ''window.__faktorVsCodeApi=function(){return api;};})();''"

text \<open>\<open>workerUri.replace(/shiki-worker\<bslash>.js$/, 'markdown-shiki-worker.js')\<close>\<close>

definition markdown_worker :: "jsstr \<Rightarrow> jsstr" where
  "markdown_worker uri =
     (if ends_with (js ''shiki-worker.js'') uri
      then take (length uri - 15) uri @ js ''markdown-shiki-worker.js'' else uri)"

definition companion_of :: "html_options \<Rightarrow> (jsstr \<times> jsstr) option" where
  "companion_of o' =
     (case (vhCompanionScript o', vhCompanionStyle o') of
        (Some script, Some style) \<Rightarrow> Some (script, style) | _ \<Rightarrow> None)"

definition script_element :: "jsstr \<Rightarrow> jsstr \<Rightarrow> jsstr" where
  "script_element nonce src =
     js ''<script nonce=\"'' @ nonce @ js ''\" src=\"'' @ escapeHtml src @ js ''\"></script>''"

definition shell_head :: "html_options \<Rightarrow> jsstr" where
  "shell_head o' =
     join [10]
       [js ''<!DOCTYPE html>'',
        js ''<html lang=\"en\" data-theme=\"kilo-vscode\" data-sidebar=\"''
          @ (case vhSidebar o' of Some s \<Rightarrow> s | None \<Rightarrow> []) @ js ''\">'',
        js ''<head>'',
        js ''  <meta charset=\"UTF-8\">'',
        js ''  <meta name=\"viewport\" content=\"width=device-width, initial-scale=1.0\">'',
        js ''  <meta http-equiv=\"Content-Security-Policy\" content=\"''
          @ vendoredCsp (vhCspSource o') (vhNonce o') @ js ''\">'',
        js ''  <link rel=\"stylesheet\" href=\"'' @ escapeHtml (vhStyleUri o') @ js ''\">''
          @ (case companion_of o' of
               Some (_, style) \<Rightarrow> 10 # js ''  <link rel=\"stylesheet\" href=\"'' @ escapeHtml style @ js ''\">''
             | None \<Rightarrow> []),
        js ''  <title>'' @ escapeHtml (vhTitle o') @ js ''</title>'',
        js ''  <style>'',
        js ''    html {'',
        js ''      scrollbar-color: auto;'',
        js ''    }'',
        js ''    html, body {'',
        js ''      margin: 0;'',
        js ''      padding: 0;'',
        js ''      height: 100%;'',
        js ''      overflow: hidden;'',
        js ''    }'',
        js ''    body {'',
        js ''      background-color: var(--vscode-sideBar-background, var(--vscode-editor-background));'',
        js ''      color: var(--vscode-foreground);'',
        js ''      font-family: var(--vscode-font-family);'',
        js ''    }'',
        js ''    #root {'',
        js ''      height: 100%;'',
        js ''    }'' @ (case vhExtraStyles o' of Some s \<Rightarrow> 10 # js ''    '' @ s | None \<Rightarrow> []),
        js ''  </style>'',
        js ''</head>'',
        js ''<body>'',
        js ''  <div id=\"root\"></div>'',
        js ''  '']"

definition bootstrap_text :: "html_options \<Rightarrow> jsstr" where
  "bootstrap_text o' =
     (case companion_of o' of Some _ \<Rightarrow> COMPANION_API_BOOTSTRAP @ 10 # js ''  '' | None \<Rightarrow> [])
     @ js ''window.ICONS_BASE_URI = '' @ jsUri (vhIconsBaseUri o')
     @ js ''; window.KILO_SHIKI_WORKER_URI = '' @ jsUri (vhWorkerUri o')
     @ js ''; window.KILO_MARKDOWN_SHIKI_WORKER_URI = '' @ jsUri (markdown_worker (vhWorkerUri o'))
     @ js ''; window.KILO_TOP_BAR = '' @ (if vhTopBar o' = Some False then js ''false'' else js ''true'')
     @ js ''; window.KILO_TOP_BAR_SURFACE = \"sidebar_title\"; window.KILO_AGENT_MANAGER_SETTINGS = false;''"

definition buildVendoredWebviewHtml :: "html_options \<Rightarrow> jsstr" where
  "buildVendoredWebviewHtml o' =
     shell_head o'
     @ js ''<script nonce=\"'' @ vhNonce o' @ js ''\">'' @ bootstrap_text o' @ js ''</script>''
     @ 10 # js ''  '' @ script_element (vhNonce o') (vhScriptUri o')
     @ (case companion_of o' of
          Some (script, _) \<Rightarrow> 10 # js ''  '' @ script_element (vhNonce o') script
        | None \<Rightarrow> [])
     @ 10 # js ''</body>'' @ 10 # js ''</html>''"

section \<open>Reading tags\<close>

definition ascii_lower :: "cunit \<Rightarrow> cunit" where
  "ascii_lower c = (if 65 \<le> c \<and> c \<le> 90 then c + 32 else c)"

definition is_word :: "cunit \<Rightarrow> bool" where
  "is_word c = (48 \<le> c \<and> c \<le> 57 \<or> 65 \<le> c \<and> c \<le> 90 \<or> 97 \<le> c \<and> c \<le> 122 \<or> c = 95)"

definition starts_ci :: "jsstr \<Rightarrow> jsstr \<Rightarrow> bool" where
  "starts_ci p s = (map ascii_lower (take (length p) s) = p)"

text \<open>\<open>html.match(/<name\<bslash>b[^>]*>/gi)\<close>; \<open>opening\<close> is \<open>\<close>the \<open><name\<close> in lower case.\<close>

definition tag_here :: "jsstr \<Rightarrow> jsstr \<Rightarrow> jsstr option" where
  "tag_here opening s =
     (let rest = drop (length opening) s; body = takeWhile (\<lambda>c. c \<noteq> 62) rest
      in if starts_ci opening s \<and> (case rest of c # _ \<Rightarrow> \<not> is_word c | [] \<Rightarrow> True) \<and> length body < length rest
         then Some (take (length opening + length body + 1) s) else None)"

function html_tags :: "jsstr \<Rightarrow> jsstr \<Rightarrow> jsstr list" where
  "html_tags opening [] = []"
| "html_tags opening (c # s) =
     (case tag_here opening (c # s) of
        Some tag \<Rightarrow> tag # html_tags opening (drop (max 1 (length tag)) (c # s))
      | None \<Rightarrow> html_tags opening s)"
  by pat_completeness auto
termination
  by (relation "measure (length \<circ> snd)") auto

text \<open>The value of an attribute, after its name.\<close>

definition unquoted_value :: "jsstr \<Rightarrow> jsstr option" where
  "unquoted_value v =
     (let b = takeWhile (\<lambda>c. \<not> is_ws c \<and> c \<noteq> 62) v in if b = [] then None else Some b)"

definition quoted_value :: "cunit \<Rightarrow> jsstr \<Rightarrow> jsstr option" where
  "quoted_value q v =
     (case v of
        c # r \<Rightarrow>
          if c = q \<and> length (takeWhile (\<lambda>c. c \<noteq> q) r) < length r then Some (takeWhile (\<lambda>c. c \<noteq> q) r) else None
      | [] \<Rightarrow> None)"

definition after_equals :: "jsstr \<Rightarrow> jsstr option" where
  "after_equals s =
     (case dropWhile is_ws s of
        c # r \<Rightarrow> if c = 61 then Some (dropWhile is_ws r) else None
      | [] \<Rightarrow> None)"

definition attr_value :: "jsstr \<Rightarrow> jsstr option" where
  "attr_value s =
     (case after_equals s of
        None \<Rightarrow> None
      | Some v \<Rightarrow>
          (case quoted_value 34 v of
             Some x \<Rightarrow> Some x
           | None \<Rightarrow> (case quoted_value 39 v of Some x \<Rightarrow> Some x | None \<Rightarrow> unquoted_value v)))"

text \<open>The first match from left to right; \<open>inside\<close> tells whether a word character precedes.\<close>

fun attr_from :: "jsstr \<Rightarrow> bool \<Rightarrow> jsstr \<Rightarrow> jsstr option" where
  "attr_from name inside [] = None"
| "attr_from name inside (c # s) =
     (case (if \<not> inside \<and> starts_ci name (c # s) then attr_value (drop (length name) (c # s)) else None) of
        Some v \<Rightarrow> Some v
      | None \<Rightarrow> attr_from name (is_word c) s)"

definition attr :: "jsstr \<Rightarrow> string \<Rightarrow> jsstr option" where
  "attr tag name = attr_from (js name) False tag"

fun contains_ci :: "jsstr \<Rightarrow> jsstr \<Rightarrow> bool" where
  "contains_ci p [] = (p = [])"
| "contains_ci p (c # s) = (starts_ci p (c # s) \<or> contains_ci p s)"

definition stylesheet_value :: "jsstr \<Rightarrow> bool" where
  "stylesheet_value v =
     ((case quoted_value 34 v of Some x \<Rightarrow> contains_ci (js ''stylesheet'') x | None \<Rightarrow> False)
      \<or> (case quoted_value 39 v of Some x \<Rightarrow> contains_ci (js ''stylesheet'') x | None \<Rightarrow> False)
      \<or> starts_ci (js ''stylesheet'') v)"

fun rel_stylesheet :: "jsstr \<Rightarrow> bool" where
  "rel_stylesheet [] = False"
| "rel_stylesheet (c # s) =
     ((starts_ci (js ''rel'') (c # s)
        \<and> (case after_equals (drop 3 (c # s)) of Some v \<Rightarrow> stylesheet_value v | None \<Rightarrow> False))
      \<or> rel_stylesheet s)"

section \<open>Finding the bundle\<close>

record disk =
  dkExists :: "jsstr \<Rightarrow> bool"
  dkRead :: "jsstr \<Rightarrow> jsstr option"
  dkCwd :: jsstr

record vendored_bundle =
  vbRoot :: jsstr
  vbIndex :: bool
  vbScript :: jsstr
  vbStyle :: jsstr
  vbWorker :: "jsstr option"
  vbMarkdownWorker :: "jsstr option"
  vbIcons :: "jsstr option"
  vbCompanion :: "(jsstr \<times> jsstr) option"

text \<open>\<open>/^(?:[a-z][a-z0-9+.-]*:|\<bslash>/\<bslash>/)/i\<close>\<close>

definition is_remote :: "jsstr \<Rightarrow> bool" where
  "is_remote s =
     (starts_with [47, 47] s
      \<or> (case s of
           c # r \<Rightarrow>
             97 \<le> ascii_lower c \<and> ascii_lower c \<le> 122
             \<and> (case dropWhile (\<lambda>d. 97 \<le> ascii_lower d \<and> ascii_lower d \<le> 122 \<or> 48 \<le> d \<and> d \<le> 57
                   \<or> d = 43 \<or> d = 46 \<or> d = 45) r of
                  d # _ \<Rightarrow> d = 58 | [] \<Rightarrow> False)
         | [] \<Rightarrow> False))"

definition localAssetFrom :: "disk \<Rightarrow> jsstr \<Rightarrow> jsstr option \<Rightarrow> jsstr option" where
  "localAssetFrom d distDir ref =
     (case ref of
        None \<Rightarrow> None
      | Some r \<Rightarrow>
          (let trimmed = trim r
           in if length trimmed = 0 \<or> is_remote trimmed \<or> starts_with [47] trimmed
                \<or> List.member trimmed 92 \<or> List.member trimmed 0
              then None
              else
                (let clean = takeWhile (\<lambda>c. c \<noteq> 63 \<and> c \<noteq> 35) trimmed
                 in if length clean = 0 \<or> list_ex (\<lambda>segment. segment = dot_dot) (segments clean) then None
                    else
                      (let abs = resolve_posix (dkCwd d) distDir clean;
                           rel = relative_posix (dkCwd d) distDir abs
                       in if length rel = 0 \<or> starts_with dot_dot rel \<or> isAbsolute_posix rel \<or> \<not> dkExists d abs
                          then None else Some abs))))"

definition has_suffix_ci :: "string \<Rightarrow> jsstr \<Rightarrow> bool" where
  "has_suffix_ci suffix s = ends_with (js suffix) (map ascii_lower s)"

text \<open>The two loops over the tags; \<open>None\<close> refuses the bundle.\<close>

fun script_loop :: "disk \<Rightarrow> jsstr \<Rightarrow> jsstr option \<Rightarrow> jsstr list \<Rightarrow> jsstr option option" where
  "script_loop d distDir script [] = Some script"
| "script_loop d distDir script (tag # tags) =
     (case attr tag ''src'' of
        None \<Rightarrow> script_loop d distDir script tags
      | Some src \<Rightarrow>
          (case localAssetFrom d distDir (Some src) of
             None \<Rightarrow> None
           | Some asset \<Rightarrow>
               script_loop d distDir
                 (if script = None \<and> (has_suffix_ci ''.js'' asset \<or> has_suffix_ci ''.mjs'' asset)
                  then Some asset else script) tags))"

fun style_loop :: "disk \<Rightarrow> jsstr \<Rightarrow> jsstr option \<Rightarrow> jsstr list \<Rightarrow> jsstr option option" where
  "style_loop d distDir style [] = Some style"
| "style_loop d distDir style (tag # tags) =
     (if \<not> rel_stylesheet tag then style_loop d distDir style tags
      else (case localAssetFrom d distDir (attr tag ''href'') of
          None \<Rightarrow> None
        | Some asset \<Rightarrow>
            style_loop d distDir (if style = None \<and> has_suffix_ci ''.css'' asset then Some asset else style) tags))"

definition parseIndexHtml :: "disk \<Rightarrow> jsstr \<Rightarrow> jsstr \<Rightarrow> (jsstr \<times> jsstr) option" where
  "parseIndexHtml d html distDir =
     (case script_loop d distDir None (html_tags (js ''<script'') html) of
        None \<Rightarrow> None
      | Some script \<Rightarrow>
          (case style_loop d distDir None (html_tags (js ''<link'') html) of
             None \<Rightarrow> None
           | Some style \<Rightarrow>
               (case (script, style) of (Some s, Some t) \<Rightarrow> Some (s, t) | _ \<Rightarrow> None)))"

definition existingFile :: "disk \<Rightarrow> jsstr list \<Rightarrow> jsstr option" where
  "existingFile d candidates = find (dkExists d) candidates"

text \<open>The entry: the \<open>index.html\<close> of the build, else the pair of the upstream build.\<close>

definition bundle_entry :: "disk \<Rightarrow> jsstr \<Rightarrow> (bool \<times> jsstr \<times> jsstr) option" where
  "bundle_entry d distDir =
     (let htmlPath = join_posix [distDir, js ''index.html'']
      in if dkExists d htmlPath
         then (case dkRead d htmlPath of
             None \<Rightarrow> None
           | Some html \<Rightarrow> map_option (\<lambda>(script, style). (True, script, style)) (parseIndexHtml d html distDir))
         else
           (let script = join_posix [distDir, js ''webview.js''];
                style = join_posix [distDir, js ''webview.css'']
            in if \<not> dkExists d script \<or> \<not> dkExists d style then None else Some (False, script, style)))"

definition locateVendoredBundle :: "disk \<Rightarrow> jsstr \<Rightarrow> vendored_bundle option" where
  "locateVendoredBundle d base =
     (let distDir = join_posix [base, js ''dist'']
      in if \<not> dkExists d distDir then None
         else (case bundle_entry d distDir of
             None \<Rightarrow> None
           | Some (index, script, style) \<Rightarrow>
               (let companionScript = localAssetFrom d distDir (Some (js ''overlay/faktor-companion.js''));
                    companionStyle = localAssetFrom d distDir (Some (js ''overlay/faktor-companion.css''))
                in Some \<lparr>vbRoot = base, vbIndex = index, vbScript = script, vbStyle = style,
                     vbWorker = existingFile d [join_posix [distDir, js ''shiki-worker.js'']],
                     vbMarkdownWorker = existingFile d [join_posix [distDir, js ''markdown-shiki-worker.js'']],
                     vbIcons = existingFile d [join_posix [distDir, js ''assets'', js ''icons''],
                       join_posix [base, js ''assets'', js ''icons''], join_posix [distDir, js ''assets'']],
                     vbCompanion = (case (companionScript, companionStyle) of
                       (Some s, Some t) \<Rightarrow> Some (s, t) | _ \<Rightarrow> None)\<rparr>)))"

definition vendoredFallbackNotice :: "jsstr \<Rightarrow> jsstr" where
  "vendoredFallbackNotice base =
     js ''[faktor-webview] vendored bundle not found under '' @ join_posix [base, js ''dist''] @ js '' ''
     @ js ''(expected dist/index.html or dist/webview.js + dist/webview.css); ''
     @ js ''using the built-in fallback panel''"

section \<open>The page the provider renders\<close>

text \<open>
  The packaged bundle lies under the extension; \<open>FAKTOR_UI_BUNDLE\<close> replaces it.  The bytes of the
  nonce, the CSP source of the webview and the address VS Code gives a file are parameters.
\<close>

definition vendoredRoot :: "jsstr option \<Rightarrow> jsstr \<Rightarrow> jsstr" where
  "vendoredRoot override fsPath =
     (case override of
        Some path \<Rightarrow>
          if length (trim path) > 0 then trim path
          else join_posix [fsPath, js ''media'', js ''kilo-v756-webview'']
      | None \<Rightarrow> join_posix [fsPath, js ''media'', js ''kilo-v756-webview''])"

definition nonce_digit :: "nat \<Rightarrow> cunit" where
  "nonce_digit n = js ''0123456789abcdef'' ! (n mod 16)"

definition hex_nonce :: "nat list \<Rightarrow> jsstr" where
  "hex_nonce bytes = concat (map (\<lambda>b. [nonce_digit (b div 16), nonce_digit b]) bytes)"

definition vendored_options :: "jsstr \<Rightarrow> (jsstr \<Rightarrow> jsstr) \<Rightarrow> nat list \<Rightarrow> vendored_bundle \<Rightarrow> html_options" where
  "vendored_options cspSource resource bytes ui =
     \<lparr>vhCspSource = cspSource, vhNonce = hex_nonce bytes, vhScriptUri = resource (vbScript ui),
      vhStyleUri = resource (vbStyle ui),
      vhIconsBaseUri = resource (case vbIcons ui of Some icons \<Rightarrow> icons | None \<Rightarrow> vbRoot ui),
      vhWorkerUri = (case vbWorker ui of Some worker \<Rightarrow> resource worker | None \<Rightarrow> []),
      vhTitle = js ''Faktor'', vhSidebar = Some [], vhTopBar = Some False, vhExtraStyles = None,
      vhCompanionScript = map_option (resource \<circ> fst) (vbCompanion ui),
      vhCompanionStyle = map_option (resource \<circ> snd) (vbCompanion ui)\<rparr>"

definition renderVendored :: "jsstr \<Rightarrow> (jsstr \<Rightarrow> jsstr) \<Rightarrow> nat list \<Rightarrow> vendored_bundle \<Rightarrow> jsstr" where
  "renderVendored cspSource resource bytes ui =
     buildVendoredWebviewHtml (vendored_options cspSource resource bytes ui)"

end
