(* ===== verification/BundleFacts.thy ===== *)
theory BundleFacts
  imports BundleShell
begin

text \<open>
  What the shell and the discovery of the vendored bundle promise (\<open>apps/vscode/src/kilo-bridge.ts\<close>):
  every located file lies in the \<open>dist\<close> directory of the bundle, and the shell has no script
  element without the nonce, whatever the texts it embeds.
\<close>

section \<open>Located files lie in the bundle\<close>

definition below :: "jsstr list \<Rightarrow> jsstr \<Rightarrow> bool" where
  "below dir p \<longleftrightarrow> (\<exists>ss. ss \<noteq> [] \<and> list_all plain_segment ss \<and> p = path_of (dir @ ss))"

lemma drop_common_same: "drop_common ss ss = ([], [])"
  by (induction ss) simp_all

lemma relative_same [simp]: "relative_posix cwd p p = []"
  by (simp add: relative_posix_def drop_common_same)

lemma takeWhile_relative: "\<not> starts_with [47] s \<Longrightarrow> \<not> isAbsolute_posix (takeWhile P s)"
  by (cases s) (auto simp: starts_with_def isAbsolute_posix_def is_sep_def)

lemma localAssetFrom_below:
  assumes "list_all plain_segment dir" and "localAssetFrom d (path_of dir) ref = Some p"
  shows "below dir p \<and> dkExists d p"
proof -
  obtain r where r: "ref = Some r" using assms(2) by (cases ref) (auto simp: localAssetFrom_def)
  let ?clean = "takeWhile (\<lambda>c. c \<noteq> 63 \<and> c \<noteq> 35) (trim r)"
  let ?abs = "resolve_posix (dkCwd d) (path_of dir) ?clean"
  have chain: "(if a then None else if b then None else if c then None else Some x) = Some y \<Longrightarrow>
      (\<not> a \<and> \<not> b) \<and> \<not> c \<and> y = x" for a b c and x y :: jsstr
    by (simp split: if_split_asm)
  note * = chain [OF assms(2) [unfolded localAssetFrom_def r option.case Let_def]]
  have p: "\<not> starts_with [47] (trim r)" "dot_dot \<notin> set (segments ?clean)" "p = ?abs"
      "relative_posix (dkCwd d) (path_of dir) ?abs \<noteq> []" "dkExists d ?abs"
    using * [THEN conjunct1] * [THEN conjunct2] unfolding de_Morgan_disj length_0_conv list_ex_iff not_not
    by blast+
  have abs: "?abs = path_of (dir @ only_plain (segments ?clean))"
    by (rule resolve_below [OF assms(1) takeWhile_relative [OF p(1)] p(2)])
  have "only_plain (segments ?clean) \<noteq> []"
  proof
    assume "only_plain (segments ?clean) = []"
    then have "?abs = path_of dir" unfolding abs by simp
    with p(4) show False by (metis relative_same)
  qed
  then have "below dir ?abs" unfolding below_def abs using plain_segments [OF p(2)] by blast
  then show ?thesis unfolding p(3) using p(5) by (rule conjI)
qed

lemma script_loop_below:
  "list_all plain_segment dir \<Longrightarrow> script_loop d (path_of dir) script tags = Some (Some p) \<Longrightarrow>
     (\<And>q. script = Some q \<Longrightarrow> below dir q \<and> dkExists d q) \<Longrightarrow> below dir p \<and> dkExists d p"
proof (induction tags arbitrary: script)
  case (Cons tag tags)
  show ?case
  proof (cases "attr tag ''src''")
    case None
    with Cons show ?thesis by simp
  next
    case (Some src)
    with Cons.prems(2) obtain asset where asset: "localAssetFrom d (path_of dir) (Some src) = Some asset"
      by (auto split: option.split_asm)
    from localAssetFrom_below [OF Cons.prems(1) asset] Cons Some asset show ?thesis
      by (auto split: if_split_asm)
  qed
qed simp

lemma style_loop_below:
  "list_all plain_segment dir \<Longrightarrow> style_loop d (path_of dir) style tags = Some (Some p) \<Longrightarrow>
     (\<And>q. style = Some q \<Longrightarrow> below dir q \<and> dkExists d q) \<Longrightarrow> below dir p \<and> dkExists d p"
proof (induction tags arbitrary: style)
  case (Cons tag tags)
  show ?case
  proof (cases "rel_stylesheet tag")
    case False
    with Cons show ?thesis by simp
  next
    case True
    with Cons.prems(2) obtain asset where asset: "localAssetFrom d (path_of dir) (attr tag ''href'') = Some asset"
      by (auto split: option.split_asm)
    from localAssetFrom_below [OF Cons.prems(1) asset] Cons True asset show ?thesis
      by (auto split: if_split_asm)
  qed
qed simp

lemma parseIndexHtml_below:
  assumes "list_all plain_segment dir" and "parseIndexHtml d html (path_of dir) = Some (script, style)"
  shows "below dir script \<and> dkExists d script \<and> below dir style \<and> dkExists d style"
  using assms(2) script_loop_below [OF assms(1), of d None _ script] style_loop_below [OF assms(1), of d None _ style]
  by (auto simp: parseIndexHtml_def split: option.split_asm)

definition bundle_dir :: "jsstr \<Rightarrow> jsstr list" where
  "bundle_dir base = normal_segments True [] (segments base) @ [js ''dist'']"

lemma plain_literals:
  "plain_segment (js ''dist'')" "plain_segment (js ''webview.js'')" "plain_segment (js ''webview.css'')"
  by code_simp+

lemma bundle_dir_plain: "list_all plain_segment (bundle_dir base)"
  using normal_segments_rooted plain_literals by (simp add: bundle_dir_def)

lemma dist_path: "isAbsolute_posix base \<Longrightarrow> join_posix [base, js ''dist''] = path_of (bundle_dir base)"
  using join_below [of base "[js ''dist'']"] plain_literals by (simp add: bundle_dir_def)

lemma join_name:
  assumes "list_all plain_segment dir" and "plain_segment name"
  shows "join_posix [path_of dir, name] = path_of (dir @ [name])"
proof -
  have "normal_segments True [] (segments (path_of dir)) = dir"
    using assms(1) plain_not_up [OF assms(1)] only_plain_id [OF assms(1)]
    by (subst normal_segments_no_up) (auto simp: segments_path_of only_plain_def dot_dot_def)
  then show ?thesis using join_below [of "path_of dir" "[name]"] assms(2) by simp
qed

lemma bundle_entry_below:
  assumes "list_all plain_segment dir" and "bundle_entry d (path_of dir) = Some (index, script, style)"
  shows "below dir script \<and> dkExists d script \<and> below dir style \<and> dkExists d style"
proof (cases "dkExists d (join_posix [path_of dir, js ''index.html''])")
  case True
  with assms(2) obtain html where "parseIndexHtml d html (path_of dir) = Some (script, style)"
    by (auto simp: bundle_entry_def Let_def split: option.split_asm)
  with assms(1) show ?thesis by (rule parseIndexHtml_below)
next
  case False
  have "below dir (path_of (dir @ [name]))" if "plain_segment name" for name
    using that unfolding below_def by (intro exI [of _ "[name]"]) simp
  with False assms plain_literals show ?thesis
    by (auto simp: bundle_entry_def Let_def join_name split: if_split_asm)
qed

text \<open>
  C11.  A located bundle is strictly local: under an absolute root its script, its style sheet and
  both files of its companion, when it has one, exist and lie below \<open>root/dist\<close>, whatever \<open>index.html\<close> says; no remote address, no
  absolute path and no \<open>..\<close> leads out of it.
\<close>

theorem bundle_is_local:
  assumes "isAbsolute_posix base" and "locateVendoredBundle d base = Some b"
  shows "below (bundle_dir base) (vbScript b) \<and> dkExists d (vbScript b)
    \<and> below (bundle_dir base) (vbStyle b) \<and> dkExists d (vbStyle b)
    \<and> pred_option (\<lambda>(script, style). below (bundle_dir base) script \<and> dkExists d script
         \<and> below (bundle_dir base) style \<and> dkExists d style) (vbCompanion b)"
proof -
  note plain = bundle_dir_plain [of base]
  from assms obtain index script style where
    entry: "bundle_entry d (path_of (bundle_dir base)) = Some (index, script, style)"
    and b: "vbScript b = script" "vbStyle b = style"
    and companion: "vbCompanion b =
      (case (localAssetFrom d (path_of (bundle_dir base)) (Some (js ''overlay/faktor-companion.js'')),
             localAssetFrom d (path_of (bundle_dir base)) (Some (js ''overlay/faktor-companion.css''))) of
         (Some s, Some t) \<Rightarrow> Some (s, t) | _ \<Rightarrow> None)"
    by (auto simp: locateVendoredBundle_def dist_path Let_def split: option.split_asm if_split_asm)
  show ?thesis
    using bundle_entry_below [OF plain entry] b companion localAssetFrom_below [OF plain]
    by (auto split: option.split)
qed

definition demo_disk :: disk where
  "demo_disk = \<lparr>dkExists = (\<lambda>p. p \<noteq> js ''/x/dist/index.html''), dkRead = (\<lambda>p. None), dkCwd = [47]\<rparr>"

lemma demo_located: "map_option vbScript (locateVendoredBundle demo_disk (js ''/x'')) = Some (js ''/x/dist/webview.js'')"
  by code_simp

theorem bundle_is_local_witness:
  "below (bundle_dir (js ''/x'')) (js ''/x/dist/webview.js'')"
proof -
  obtain b where b: "locateVendoredBundle demo_disk (js ''/x'') = Some b" "vbScript b = js ''/x/dist/webview.js''"
    using demo_located by auto
  have "isAbsolute_posix (js ''/x'')" by code_simp
  from bundle_is_local [OF this b(1)] b(2) show ?thesis by simp
qed

text \<open>
  A script reference that \<open>attr\<close> does not see: \<open>\<bslash>b\<close> holds after a hyphen, so the attribute
  \<open>data-src\<close> stands in for the \<open>src\<close> that follows it, and the remote script is not refused.
\<close>

lemma data_src_shadows_src:
  "attr (js ''<script data-src=\"a.js\" src=\"//evil/x.js\">'') ''src'' = Some (js ''a.js'')"
  by code_simp

section \<open>The scripts of the shell\<close>

text \<open>Text without a less-than sign, and text in which none can begin a script element.\<close>

definition no_lt :: "jsstr \<Rightarrow> bool" where
  "no_lt s = list_all (\<lambda>c. c \<noteq> 60) s"

definition not_sc :: "jsstr \<Rightarrow> bool" where
  "not_sc s =
     (case s of
        d # r \<Rightarrow> (d \<noteq> 115 \<and> d \<noteq> 83) \<or> (case r of e # _ \<Rightarrow> e \<noteq> 99 \<and> e \<noteq> 67 | [] \<Rightarrow> False)
      | [] \<Rightarrow> False)"

fun clean :: "jsstr \<Rightarrow> bool" where
  "clean [] = True"
| "clean (c # s) = ((c = 60 \<longrightarrow> not_sc s) \<and> clean s)"

text \<open>On the literals of the source both can be read off the characters.\<close>

lemma unit_of_char:
  "(of_char c :: cunit) = 60 \<longleftrightarrow> c = CHR ''<''" "(of_char c :: cunit) = 115 \<longleftrightarrow> c = CHR ''s''"
  "(of_char c :: cunit) = 83 \<longleftrightarrow> c = CHR ''S''" "(of_char c :: cunit) = 99 \<longleftrightarrow> c = CHR ''c''"
  "(of_char c :: cunit) = 67 \<longleftrightarrow> c = CHR ''C''" "(of_char c :: cunit) = 62 \<longleftrightarrow> c = CHR ''>''"
proof -
  have units: "(60 :: cunit) = of_char CHR ''<''" "(115 :: cunit) = of_char CHR ''s''" "(83 :: cunit) = of_char CHR ''S''"
    "(99 :: cunit) = of_char CHR ''c''" "(67 :: cunit) = of_char CHR ''C''" "(62 :: cunit) = of_char CHR ''>''"
    by simp_all
  show "(of_char c :: cunit) = 60 \<longleftrightarrow> c = CHR ''<''" "(of_char c :: cunit) = 115 \<longleftrightarrow> c = CHR ''s''"
    "(of_char c :: cunit) = 83 \<longleftrightarrow> c = CHR ''S''" "(of_char c :: cunit) = 99 \<longleftrightarrow> c = CHR ''c''"
    "(of_char c :: cunit) = 67 \<longleftrightarrow> c = CHR ''C''" "(of_char c :: cunit) = 62 \<longleftrightarrow> c = CHR ''>''"
    unfolding units of_char_cunit_eq_iff by (rule refl)+
qed

lemma no_lt_js: "no_lt (js s) \<longleftrightarrow> CHR ''<'' \<notin> set s"
  by (induction s) (auto simp: no_lt_def js_def unit_of_char)

lemma no_gt_js: "62 \<notin> set (js s) \<longleftrightarrow> CHR ''>'' \<notin> set s"
  by (induction s) (auto simp: js_def unit_of_char dest: sym)

definition not_sc_chars :: "string \<Rightarrow> bool" where
  "not_sc_chars s =
     (case s of
        d # r \<Rightarrow> (d \<noteq> CHR ''s'' \<and> d \<noteq> CHR ''S'')
          \<or> (case r of e # _ \<Rightarrow> e \<noteq> CHR ''c'' \<and> e \<noteq> CHR ''C'' | [] \<Rightarrow> False)
      | [] \<Rightarrow> False)"

fun clean_chars :: "string \<Rightarrow> bool" where
  "clean_chars [] = True"
| "clean_chars (c # s) = ((c = CHR ''<'' \<longrightarrow> not_sc_chars s) \<and> clean_chars s)"

lemma not_sc_js: "not_sc (js s) = not_sc_chars s"
  by (auto simp: not_sc_def not_sc_chars_def js_def unit_of_char split: list.split)

lemma clean_js: "clean (js s) = clean_chars s"
proof (induction s)
  case (Cons c s)
  have "js (c # s) = of_char c # js s" by (simp add: js_def)
  with Cons show ?case by (simp add: unit_of_char not_sc_js)
qed simp

abbreviation script_open :: jsstr where
  "script_open \<equiv> js ''<script''"

lemma no_lt_clean: "no_lt s \<Longrightarrow> clean s"
  by (induction s) (auto simp: no_lt_def)

lemma not_sc_append: "not_sc s \<Longrightarrow> not_sc (s @ t)"
  by (auto simp: not_sc_def split: list.splits)

lemma clean_append: "clean a \<Longrightarrow> clean b \<Longrightarrow> clean (a @ b)"
  by (induction a) (auto simp: not_sc_append)

lemma clean_join: "list_all clean xs \<Longrightarrow> clean (join [10] xs)"
proof (induction "[10] :: jsstr" xs rule: join.induct)
  case (3 s t ss)
  then have "clean (10 # join [10] (t # ss))" by simp
  with 3 show ?case using clean_append [of s "10 # join [10] (t # ss)"] by simp
qed simp_all

lemma ascii_lower_cases: "ascii_lower c = 60 \<longleftrightarrow> c = 60" "ascii_lower c = 115 \<longleftrightarrow> c = 115 \<or> c = 83"
  "ascii_lower c = 99 \<longleftrightarrow> c = 99 \<or> c = 67"
proof -
  have sum: "c + 32 = k \<longleftrightarrow> c = k - 32" for k :: cunit by (auto simp: eq_diff_eq)
  show "ascii_lower c = 60 \<longleftrightarrow> c = 60" "ascii_lower c = 115 \<longleftrightarrow> c = 115 \<or> c = 83"
    "ascii_lower c = 99 \<longleftrightarrow> c = 99 \<or> c = 67"
    by (auto simp: ascii_lower_def sum)
qed

lemma script_open_units: "script_open = [60, 115, 99, 114, 105, 112, 116]"
  by code_simp

lemma not_starts: "(c = 60 \<longrightarrow> not_sc s) \<Longrightarrow> \<not> starts_ci script_open (c # s)"
  by (cases s; cases "tl s") (auto simp: starts_ci_def script_open_units ascii_lower_cases not_sc_def)

lemma html_tags_clean: "clean a \<Longrightarrow> html_tags script_open (a @ b) = html_tags script_open b"
proof (induction a)
  case (Cons c a)
  then have "\<not> starts_ci script_open (c # a @ b)" using not_sc_append by (intro not_starts) auto
  with Cons show ?case by (simp add: tag_here_def Let_def)
qed simp

lemma html_tags_script:
  assumes "62 \<notin> set a"
  shows "html_tags script_open (script_open @ 32 # a @ 62 # rest)
    = (script_open @ 32 # a @ [62]) # html_tags script_open rest"
proof -
  have opened: "starts_ci script_open (script_open @ s)" for s by (simp add: starts_ci_def script_open_units ascii_lower_def)
  have "takeWhile (\<lambda>c. c \<noteq> 62) (32 # a @ 62 # rest) = 32 # a" using assms by (simp add: takeWhile_tail takeWhile_append)
  then have "tag_here script_open (script_open @ 32 # a @ 62 # rest) = Some (script_open @ 32 # a @ [62])"
    using opened by (simp add: tag_here_def is_word_def Let_def)
  moreover have "script_open @ s = 60 # js ''script'' @ s" for s by (simp add: script_open_units js_def)
  ultimately show ?thesis using html_tags.simps(2) [of script_open 60 "js ''script'' @ 32 # a @ 62 # rest"] by simp
qed

lemma no_lt_simps [simp]:
  "no_lt []" "no_lt (c # s) \<longleftrightarrow> c \<noteq> 60 \<and> no_lt s" "no_lt (a @ b) \<longleftrightarrow> no_lt a \<and> no_lt b"
  by (simp_all add: no_lt_def)

lemma no_lt_replace: "no_lt r \<Longrightarrow> no_lt s \<or> c = 60 \<Longrightarrow> no_lt (replace_unit c r s)"
  by (induction s) (auto simp: replace_unit_def no_lt_def)

lemma no_gt_replace: "62 \<notin> set r \<Longrightarrow> 62 \<notin> set s \<or> c = 62 \<Longrightarrow> 62 \<notin> set (replace_unit c r s)"
  by (induction s) (auto simp: replace_unit_def)

lemma entity_units:
  "no_lt (js ''&amp;'')" "no_lt (js ''&lt;'')" "no_lt (js ''&gt;'')" "no_lt (js ''&quot;'')"
  "62 \<notin> set (js ''&gt;'')" "62 \<notin> set (js ''&quot;'')" "no_lt (92 # js ''u003c'')"
  by (simp_all add: no_lt_js no_gt_js)

lemma no_lt_escapeHtml [simp]: "no_lt (escapeHtml text)"
  by (simp add: escapeHtml_def no_lt_replace entity_units)

lemma no_gt_escapeHtml [simp]: "62 \<notin> set (escapeHtml text)"
  by (simp add: escapeHtml_def no_gt_replace entity_units)

lemma no_lt_jsUri [simp]: "no_lt (jsUri uri)"
  using entity_units(7) by (simp add: jsUri_def no_lt_replace)

lemma clean_no_lt [intro]: "no_lt s \<Longrightarrow> clean s"
  by (rule no_lt_clean)

definition safe_options :: "html_options \<Rightarrow> bool" where
  "safe_options o' \<longleftrightarrow> no_lt (vhNonce o') \<and> 62 \<notin> set (vhNonce o') \<and> no_lt (vhCspSource o')
     \<and> pred_option no_lt (vhSidebar o') \<and> pred_option no_lt (vhExtraStyles o')"

lemma clean_literals:
  "clean (js ''<!DOCTYPE html>'')" "clean (js ''<html lang=\"en\" data-theme=\"kilo-vscode\" data-sidebar=\"'')"
  "clean (js ''<head>'')" "clean (js ''  <meta charset=\"UTF-8\">'')"
  "clean (js ''  <meta name=\"viewport\" content=\"width=device-width, initial-scale=1.0\">'')"
  "clean (js ''  <meta http-equiv=\"Content-Security-Policy\" content=\"'')"
  "clean (js ''  <link rel=\"stylesheet\" href=\"'')" "clean (js ''  <title>'')" "clean (js ''</title>'')"
  "clean (js ''  <style>'')" "clean (js ''  </style>'')" "clean (js ''</head>'')" "clean (js ''<body>'')"
  "clean (js ''  <div id=\"root\"></div>'')" "clean (js ''</script>'')" "clean (js ''</body>'')"
  "clean (js ''</html>'')" "clean (js ''\">'')"
  unfolding clean_js by code_simp+

lemma plain_literals_no_lt:
  "no_lt (js ''    html {'')" "no_lt (js ''      scrollbar-color: auto;'')" "no_lt (js ''    }'')"
  "no_lt (js ''    html, body {'')" "no_lt (js ''      margin: 0;'')" "no_lt (js ''      padding: 0;'')"
  "no_lt (js ''      height: 100%;'')" "no_lt (js ''      overflow: hidden;'')" "no_lt (js ''    body {'')"
  "no_lt (js ''      background-color: var(--vscode-sideBar-background, var(--vscode-editor-background));'')"
  "no_lt (js ''      color: var(--vscode-foreground);'')" "no_lt (js ''      font-family: var(--vscode-font-family);'')"
  "no_lt (js ''    #root {'')" "no_lt (js ''  '')" "no_lt (js ''    '')"
  unfolding no_lt_js by simp_all

lemma csp_no_lt:
  assumes "no_lt cspSource" "no_lt nonce"
  shows "no_lt (vendoredCsp cspSource nonce)"
proof -
  have "no_lt (js ''; '')" "no_lt (js ''default-src '')" "no_lt (apos ''none'')" "no_lt (js ''style-src '')"
    "no_lt (apos ''unsafe-inline'')" "no_lt (js ''script-src '')" "no_lt (js ''nonce-'')"
    "no_lt (apos ''wasm-unsafe-eval'')" "no_lt (js ''worker-src '')" "no_lt (js '' blob:'')"
    "no_lt (js ''font-src '')" "no_lt (js ''img-src '')" "no_lt (js '' data:'')" "no_lt (js ''connect-src '')"
    by (simp_all add: no_lt_js apos_def COMPANION_API_BOOTSTRAP_def)
  with assms show ?thesis by (simp add: vendoredCsp_def)
qed

lemma clean_head:
  assumes "safe_options o'"
  shows "clean (shell_head o')"
proof -
  have csp: "clean (vendoredCsp (vhCspSource o') (vhNonce o'))"
    using assms by (auto simp: safe_options_def csp_no_lt)
  have sidebar: "clean (case vhSidebar o' of Some s \<Rightarrow> s | None \<Rightarrow> [])"
    using assms by (auto simp: safe_options_def split: option.split)
  have style: "clean (case companion_of o' of
      Some (_, style) \<Rightarrow> 10 # js ''  <link rel=\"stylesheet\" href=\"'' @ escapeHtml style @ js ''\">'' | None \<Rightarrow> [])"
    using clean_literals by (auto intro!: clean_append split: option.split)
  have extra: "clean (case vhExtraStyles o' of Some s \<Rightarrow> 10 # js ''    '' @ s | None \<Rightarrow> [])"
    using assms plain_literals_no_lt by (auto simp: safe_options_def split: option.split)
  have "clean (escapeHtml t)" for t by auto
  note parts = this csp sidebar style extra clean_literals plain_literals_no_lt [THEN no_lt_clean]
  show ?thesis
    unfolding shell_head_def by (intro clean_join) (simp add: parts clean_append)
qed

lemma no_lt_bootstrap: "no_lt (bootstrap_text o')"
proof -
  have "no_lt COMPANION_API_BOOTSTRAP" "no_lt (js ''window.ICONS_BASE_URI = '')"
    "no_lt (js ''; window.KILO_SHIKI_WORKER_URI = '')" "no_lt (js ''; window.KILO_MARKDOWN_SHIKI_WORKER_URI = '')"
    "no_lt (js ''; window.KILO_TOP_BAR = '')" "no_lt (js ''true'')" "no_lt (js ''false'')"
    "no_lt (js ''; window.KILO_TOP_BAR_SURFACE = \"sidebar_title\"; window.KILO_AGENT_MANAGER_SETTINGS = false;'')"
    by (simp_all add: no_lt_js apos_def COMPANION_API_BOOTSTRAP_def)
  with plain_literals_no_lt show ?thesis by (simp add: bootstrap_text_def split: option.split)
qed

definition script_tag :: "jsstr \<Rightarrow> jsstr option \<Rightarrow> jsstr" where
  "script_tag nonce src =
     script_open @ 32 # (js ''nonce=\"'' @ nonce @ 34
       # (case src of Some uri \<Rightarrow> js '' src=\"'' @ escapeHtml uri @ [34] | None \<Rightarrow> [])) @ [62]"

lemma html_tags_tag:
  assumes "62 \<notin> set nonce"
  shows "html_tags script_open (script_tag nonce src @ rest) = script_tag nonce src # html_tags script_open rest"
proof -
  have "62 \<notin> set (js ''nonce=\"'')" "62 \<notin> set (js '' src=\"'')" by (simp_all add: no_gt_js)
  with assms have "62 \<notin> set (js ''nonce=\"'' @ nonce @ 34
      # (case src of Some uri \<Rightarrow> js '' src=\"'' @ escapeHtml uri @ [34] | None \<Rightarrow> []))"
    by (auto split: option.split)
  from html_tags_script [OF this, of rest] show ?thesis by (simp add: script_tag_def)
qed

lemma script_element_tag: "script_element nonce uri @ rest = script_tag nonce (Some uri) @ js ''</script>'' @ rest"
proof -
  have "js ''<script nonce=\"'' = script_open @ 32 # js ''nonce=\"''" "js ''\" src=\"'' = 34 # js '' src=\"''"
    "js ''\"></script>'' = 34 # 62 # js ''</script>''" by code_simp+
  then show ?thesis by (simp add: script_element_def script_tag_def)
qed

lemma built_scripts_have_nonce:
  assumes "safe_options o'"
  shows "html_tags (js ''<script'') (buildVendoredWebviewHtml o') =
    [script_tag (vhNonce o') None, script_tag (vhNonce o') (Some (vhScriptUri o'))]
    @ (case companion_of o' of Some (script, _) \<Rightarrow> [script_tag (vhNonce o') (Some script)] | None \<Rightarrow> [])"
proof -
  have gt: "62 \<notin> set (vhNonce o')" using assms by (simp add: safe_options_def)
  have boot: "js ''<script nonce=\"'' @ vhNonce o' @ js ''\">'' @ rest = script_tag (vhNonce o') None @ rest" for rest
  proof -
    have "js ''<script nonce=\"'' = script_open @ 32 # js ''nonce=\"''" "js ''\">'' = 34 # 62 # []" by code_simp+
    then show ?thesis by (simp add: script_tag_def)
  qed
  have gap: "html_tags script_open (js ''</script>'' @ 10 # js ''  '' @ rest) = html_tags script_open rest" for rest
    using html_tags_clean [of "js ''</script>'' @ 10 # js ''  ''" rest] clean_literals plain_literals_no_lt
    by (simp add: clean_append no_lt_clean)
  have tail: "html_tags script_open (js ''</script>'' @ 10 # js ''</body>'' @ 10 # js ''</html>'') = []"
    using html_tags_clean [of "js ''</script>'' @ 10 # js ''</body>'' @ 10 # js ''</html>''" "[]"] clean_literals
    by (simp add: clean_append)
  have after_boot: "html_tags script_open (bootstrap_text o' @ rest) = html_tags script_open rest" for rest
    by (rule html_tags_clean [OF no_lt_clean [OF no_lt_bootstrap]])
  show ?thesis
    unfolding buildVendoredWebviewHtml_def html_tags_clean [OF clean_head [OF assms]]
    by (simp add: boot html_tags_tag [OF gt] after_boot gap script_element_tag tail split: option.split)
qed

lemma nonce_digit_range: "nonce_digit n \<notin> {60, 62}"
proof -
  have "list_all (\<lambda>c. c \<notin> {60, 62}) (js ''0123456789abcdef'')" "length (js ''0123456789abcdef'') = 16"
    by code_simp+
  then show ?thesis unfolding nonce_digit_def by (simp add: list_all_length)
qed

lemma hex_nonce_plain: "no_lt (hex_nonce bytes)" "62 \<notin> set (hex_nonce bytes)"
  using nonce_digit_range by (auto simp: hex_nonce_def no_lt_def list_all_iff dest: sym)

text \<open>
  C12.  The page runs no script without the nonce: the script elements of the page that the
  provider renders, as the regular expression of the code reads them, are the bootstrap, the
  script of the bundle and (when the bundle ships it) the companion, each carrying the nonce,
  whatever addresses VS Code gives the files.  The CSP source contains no less-than sign.
\<close>

theorem shell_scripts_have_nonce:
  assumes "no_lt cspSource"
  shows "html_tags (js ''<script'') (renderVendored cspSource resource bytes ui) =
    map (script_tag (hex_nonce bytes))
      (None # Some (resource (vbScript ui))
        # (case vbCompanion ui of Some (script, _) \<Rightarrow> [Some (resource script)] | None \<Rightarrow> []))"
proof -
  have "safe_options (vendored_options cspSource resource bytes ui)"
    using assms hex_nonce_plain by (simp add: safe_options_def vendored_options_def)
  from built_scripts_have_nonce [OF this] show ?thesis
    by (simp add: renderVendored_def vendored_options_def companion_of_def split: option.split)
qed

theorem shell_scripts_have_nonce_witness:
  "length (html_tags (js ''<script'') (renderVendored (js ''vscode:'') (\<lambda>path. js ''\"></script><script>'' @ path) [171]
     \<lparr>vbRoot = js ''/x'', vbIndex = False, vbScript = js ''<script>'', vbStyle = js ''s'', vbWorker = None,
      vbMarkdownWorker = None, vbIcons = None, vbCompanion = None\<rparr>)) = 2"
proof -
  have "no_lt (js ''vscode:'')" by code_simp
  then show ?thesis by (subst shell_scripts_have_nonce) simp_all
qed

end
