(* ===== verification/BuiltinPage.thy ===== *)
theory BuiltinPage
  imports BundleFacts ChatPage
begin

text \<open>
  The static page of the built-in panel, the method \<open>render\<close> of \<open>apps/vscode/src/webview.ts\<close>: its
  scripts all carry the nonce, and it has every element the script of the panel asks for.
\<close>

section \<open>The page\<close>

definition builtin_csp :: "jsstr \<Rightarrow> jsstr \<Rightarrow> jsstr" where
  "builtin_csp cspSource nonce =
     join (js ''; '')
       [js ''default-src '' @ apos ''none'', js ''style-src '' @ cspSource, js ''font-src '' @ cspSource,
        js ''img-src '' @ cspSource @ js '' data:'', js ''script-src '' @ 39 # js ''nonce-'' @ nonce @ [39],
        js ''connect-src '' @ apos ''none'']"

definition builtin_head :: "jsstr \<Rightarrow> jsstr \<Rightarrow> jsstr list" where
  "builtin_head csp styleUri =
       [js ''<!DOCTYPE html>'',
        js ''<html lang=\"en\">'',
        js ''<head>'',
        js ''<meta charset=\"UTF-8\">'',
        js ''<meta http-equiv=\"Content-Security-Policy\" content=\"'' @ csp @ js ''\">'',
        js ''<meta name=\"viewport\" content=\"width=device-width, initial-scale=1.0\">'',
        js ''<link href=\"'' @ styleUri @ js ''\" rel=\"stylesheet\">'',
        js ''<title>Faktor</title>'',
        js ''</head>'',
        js ''<body>'']"

definition builtin_body :: "jsstr list" where
  "builtin_body =
       [js ''<div id=\"app\">'',
        js ''  <header>'',
        js ''    <span id=\"daemon-dot\" class=\"dot dot-stopped\" aria-hidden=\"true\"></span>'',
        js ''    <span id=\"daemon-text\">stopped</span>'',
        js ''    <span class=\"spacer\"></span>'',
        js ''    <button id=\"btn-refresh\" type=\"button\" title=\"Refresh state\">Refresh</button>'',
        js ''    <button id=\"btn-stop\" type=\"button\" title=\"Stop the daemon\">Stop</button>'',
        js ''    <button id=\"btn-start\" type=\"button\" title=\"Start the daemon\">Start</button>'',
        js ''  </header>'',
        js ''  <section id=\"meta\">'',
        js ''    <div class=\"meta-row\"><span class=\"meta-key\">Session</span>''
          @ js ''<span id=\"session-title\">none</span></div>'',
        js ''    <div class=\"meta-row\"><span class=\"meta-key\">State</span>''
          @ js ''<span id=\"machine-label\">daemon stopped</span></div>'',
        js ''    <div class=\"meta-row\"><span class=\"meta-key\">Stream</span>''
          @ js ''<span id=\"stream-status\">stopped</span></div>'',
        js ''  </section>'',
        js ''  <section id=\"task-card\" class=\"card\" hidden>'',
        js ''    <h2>Task</h2>'',
        js ''    <div class=\"task-head\"><span id=\"task-state\" class=\"badge\">''
          @ em_dash @ js ''</span><button id=\"btn-cancel-run\" type=\"button\">Cancel run</button></div>'',
        js ''    <div id=\"task-goal\" class=\"goal\"></div>'',
        js ''    <div id=\"task-completion\" class=\"completion\"></div>'',
        js ''    <div id=\"cockpit\" class=\"cockpit\"></div>'',
        js ''  </section>'',
        js ''  <section id=\"agents-card\" class=\"card\" hidden>'',
        js ''    <h2>Agents</h2>'',
        js ''    <ul id=\"agent-list\"></ul>'',
        js ''  </section>'',
        js ''  <section id=\"transcript-card\" class=\"card\">'',
        js ''    <h2>Conversation</h2>'',
        js ''    <div id=\"entries\"></div>'',
        js ''  </section>'',
        js ''  <section id=\"notices\" aria-live=\"polite\"></section>'',
        js ''  <form id=\"composer\">'',
        js ''    <textarea id=\"goal\" rows=\"3\"''
          @ js '' placeholder=\"Describe the goal. It starts a task run.\"></textarea>'',
        js ''    <fieldset id=\"completion-contract\" class=\"completion-contract\">'',
        js ''      <legend>Task completion contract (Task mode; never sent by plain chat)</legend>'',
        js ''      <label><input type=\"checkbox\" id=\"contract-commit\" /> Commit when verified</label>'',
        js ''      <label><input type=\"checkbox\" id=\"contract-push\" /> Push</label>'',
        js ''      <label><input type=\"checkbox\" id=\"contract-pr\" /> Create PR</label>'',
        js ''    </fieldset>'',
        js ''    <div class=\"composer-actions\">'',
        js ''      <button id=\"btn-send\" type=\"submit\">Run task</button>'',
        js ''      <button id=\"btn-new-task\" type=\"button\">New task'' @ ellipsis @ js ''</button>'',
        js ''    </div>'',
        js ''  </form>'',
        js ''</div>'']"

definition builtin_scripts :: "jsstr \<Rightarrow> jsstr \<Rightarrow> jsstr \<Rightarrow> jsstr list" where
  "builtin_scripts nonce composerUri scriptUri =
       [js ''<script nonce=\"'' @ nonce @ js ''\" src=\"'' @ composerUri @ js ''\"></script>'',
        js ''<script nonce=\"'' @ nonce @ js ''\" src=\"'' @ scriptUri @ js ''\"></script>'',
        js ''</body>'',
        js ''</html>'']"

text \<open>The addresses are those VS Code gives \<open>chat.js\<close>, \<open>composer-state.js\<close> and \<open>chat.css\<close>.\<close>

definition render :: "jsstr \<Rightarrow> (jsstr \<Rightarrow> jsstr) \<Rightarrow> jsstr \<Rightarrow> nat list \<Rightarrow> jsstr" where
  "render cspSource resource media bytes =
     (let nonce = hex_nonce bytes;
          file = (\<lambda>name. resource (join_posix [media, js name]))
      in join [10]
           (builtin_head (builtin_csp cspSource nonce) (file ''chat.css'') @ builtin_body
            @ builtin_scripts nonce (file ''composer-state.js'') (file ''chat.js'')))"

section \<open>The elements the script asks for\<close>

text \<open>The values of the attribute \<open>id\<close>, in document order.\<close>

fun ids_of :: "jsstr \<Rightarrow> jsstr list" where
  "ids_of [] = []"
| "ids_of (c # s) =
     (if starts_with (js '' id=\"'') (c # s)
      then takeWhile (\<lambda>d. js [CHR 0x22] \<noteq> [d]) (drop 4 s) # ids_of s else ids_of s)"

text \<open>On a text of one-byte characters the search can be done on the characters.\<close>

fun char_ids :: "string \<Rightarrow> string list" where
  "char_ids [] = []"
| "char_ids (c # s) =
     (if take 5 (c # s) = '' id=\"'' then takeWhile (\<lambda>d. d \<noteq> CHR 0x22) (drop 4 s) # char_ids s
      else char_ids s)"

lemma char_ids_step:
  "c \<noteq> CHR '' '' \<Longrightarrow> char_ids (c # s) = char_ids s"
  "d \<noteq> CHR ''i'' \<Longrightarrow> char_ids (CHR '' '' # d # s) = char_ids (d # s)"
  "char_ids (CHR '' '' # CHR ''i'' # CHR ''d'' # CHR ''='' # CHR 0x22 # s) = takeWhile (\<lambda>d. d \<noteq> CHR 0x22) s # char_ids s"
  by (simp_all add: eval_nat_numeral)

lemma js_parts: "take n (js s) = js (take n s)" "drop n (js s) = js (drop n s)"
  by (simp_all add: js_def take_map drop_map)

lemma js_Cons: "of_char c # js s = js (c # s)"
  by (simp add: js_def)

lemma takeWhile_js: "takeWhile (\<lambda>d. js [q] \<noteq> [d]) (js s) = js (takeWhile (\<lambda>d. d \<noteq> q) s)"
  by (induction s) (auto simp: js_def)

lemma ids_of_js: "ids_of (js s) = map js (char_ids s)"
proof (induction s)
  case (Cons c s)
  have "js (c # s) = of_char c # js s" by (simp add: js_def)
  moreover have "starts_with (js '' id=\"'') (js (c # s)) \<longleftrightarrow> take 5 (c # s) = '' id=\"''"
    unfolding starts_with_def js_parts by (simp add: eval_nat_numeral)
  ultimately show ?case using Cons by (simp add: js_parts takeWhile_js)
qed simp

definition page_ids :: "string list" where
  "page_ids =
     [''app'', ''daemon-dot'', ''daemon-text'', ''btn-refresh'', ''btn-stop'', ''btn-start'', ''meta'', ''session-title'',
      ''machine-label'', ''stream-status'', ''task-card'', ''task-state'', ''btn-cancel-run'', ''task-goal'',
      ''task-completion'', ''cockpit'', ''agents-card'', ''agent-list'', ''transcript-card'', ''entries'', ''notices'',
      ''composer'', ''goal'', ''completion-contract'', ''contract-commit'', ''contract-push'', ''contract-pr'',
      ''btn-send'', ''btn-new-task'']"

lemma builtin_ids: "concat (map ids_of builtin_body) = map js page_ids"
proof -
  have "ids_of (js ''    <div class=\"task-head\"><span id=\"task-state\" class=\"badge\">'' @ em_dash
      @ js ''</span><button id=\"btn-cancel-run\" type=\"button\">Cancel run</button></div>'')
    = map js [''task-state'', ''btn-cancel-run'']" 
    by (simp add: js_def em_dash_def starts_with_def)
  moreover have "ids_of (js ''      <button id=\"btn-new-task\" type=\"button\">New task'' @ ellipsis @ js ''</button>'')
    = map js [''btn-new-task'']"
    by (simp add: js_def ellipsis_def starts_with_def)
  ultimately show ?thesis
    by (simp add: builtin_body_def page_ids_def ids_of_js js_append [symmetric] char_ids_step
        del: char_ids.simps(2))
qed

text \<open>The identifiers \<open>media/chat.js\<close> passes to \<open>byId\<close> and \<open>setText\<close>.\<close>

definition script_ids :: "string list" where
  "script_ids =
     [''cockpit'', ''task-card'', ''task-state'', ''task-goal'', ''task-completion'', ''agents-card'',
      ''agent-list'', ''entries'', ''daemon-dot'', ''daemon-text'', ''session-title'', ''machine-label'',
      ''stream-status'', ''notices'', ''goal'', ''contract-commit'', ''contract-push'', ''contract-pr'',
      ''composer'', ''btn-new-task'', ''btn-cancel-run'', ''btn-refresh'', ''btn-start'', ''btn-stop'']"

lemma page_has_script_ids: "distinct page_ids \<and> set script_ids \<subseteq> set page_ids"
  by code_simp

end
