(* ===== verification/Companion.thy ===== *)
theory Companion
  imports KiloInbound KiloOutbound
begin

text \<open>
  The companion panel of the vendored webview,
  \<open>ui/kilo-v756-webview/dist/toolchain/overlay/faktor-companion.js\<close>: it keeps the last \<open>faktor\<close>
  message of each kind, renders them below a panel, and posts the \<open>faktor\<close> actions.

  The messages are untyped, and so are they here: a member is read as JavaScript reads it
  (\<open>undefined\<close> when it is absent), a value is converted as \<open>String\<close> and \<open>Number\<close> convert it.
  A message that came through \<open>postMessage\<close> has no methods of its own, so the conversions do not
  throw.  The nodes are trees; a text only becomes the text of a node.
\<close>

section \<open>Bounds\<close>

definition MAX_LINES :: nat where [cap_simps]: "MAX_LINES = 64"
definition MAX_TEXT :: nat where [cap_simps]: "MAX_TEXT = 400"
definition MAX_POSTS :: nat where [cap_simps]: "MAX_POSTS = 100"
definition MAX_BODY_CHARS :: nat where [cap_simps]: "MAX_BODY_CHARS = 4096"
definition MAX_SUBJECT_CHARS :: nat where [cap_simps]: "MAX_SUBJECT_CHARS = 256"
definition MAX_REF_CHARS :: nat where [cap_simps]: "MAX_REF_CHARS = 512"
definition MAX_STEER_CHARS :: nat where [cap_simps]: "MAX_STEER_CHARS = 500"

section \<open>Reading untyped values\<close>

definition member_of :: "jsval \<Rightarrow> string \<Rightarrow> jsval" where
  "member_of v k = (case v of JObj ps \<Rightarrow> jget ps (js k) | _ \<Rightarrow> JUndef)"

definition truthy_value :: "jsval \<Rightarrow> bool" where
  "truthy_value v =
     (case v of
        JUndef \<Rightarrow> False
      | JNull \<Rightarrow> False
      | JBool b \<Rightarrow> b
      | JNum x \<Rightarrow> x \<noteq> NaN \<and> x \<noteq> Fin 0
      | JStr s \<Rightarrow> s \<noteq> []
      | _ \<Rightarrow> True)"

text \<open>\<open>a || b\<close>\<close>

definition or_else :: "jsval \<Rightarrow> jsval \<Rightarrow> jsval" where
  "or_else v w = (if truthy_value v then v else w)"

definition to_number :: "jsval \<Rightarrow> jsnum" where
  "to_number v =
     (case v of
        JUndef \<Rightarrow> NaN
      | JNull \<Rightarrow> Fin 0
      | JBool b \<Rightarrow> Fin (if b then 1 else 0)
      | JNum x \<Rightarrow> x
      | JStr s \<Rightarrow> number_of_string s
      | JArr vs \<Rightarrow> number_of_string (to_string v)
      | JObj ps \<Rightarrow> NaN)"

text \<open>\<open>Number(value || 0)\<close> in a text.\<close>

definition count_text :: "jsval \<Rightarrow> jsstr" where
  "count_text v = number_string (to_number (or_else v (JNum (Fin 0))))"

definition panel_text :: "jsval \<Rightarrow> nat \<Rightarrow> jsstr" where
  "panel_text v bound =
     (case v of JStr s \<Rightarrow> if length s > bound then take bound s @ ellipsis else s | _ \<Rightarrow> [])"

definition string_text :: "jsval \<Rightarrow> nat \<Rightarrow> jsstr" where
  "string_text v bound = panel_text (JStr (to_string v)) bound"

definition jsonLine :: "jsval \<Rightarrow> jsstr option" where
  "jsonLine v =
     (if nullish v then None
      else (case stringify v of
          None \<Rightarrow> None
        | Some encoded \<Rightarrow>
            if encoded = js ''null'' \<or> encoded = js ''{}'' \<or> encoded = js ''[]'' then None
            else Some (panel_text (JStr encoded) 240)))"

section \<open>Nodes\<close>

text \<open>
  What a click on a button does: a fixed message, a message with the text of an input field, the
  request for an evidence artifact, or the way back to the list of references.  The field of a
  steering note belongs to the card of its agent.
\<close>

datatype gesture =
    GPost jsval
  | GSteer jsval nat
  | GAbort jsval
  | GExpand jsval
  | GBack
  | GBoardPost

datatype field = FSteer nat | FAbort | FSubject | FBody

datatype node =
    Node string jsstr "(string \<times> jsstr) list" jsstr "node list"
  | Button jsstr jsstr bool gesture
  | Input string jsstr field "nat option"

definition el :: "string \<Rightarrow> string \<Rightarrow> jsstr \<Rightarrow> node" where
  "el tag className value = Node tag (js className) [] value []"

definition box :: "string \<Rightarrow> string \<Rightarrow> node list \<Rightarrow> node" where
  "box tag className kids = Node tag (js className) [] [] kids"

definition badge :: "jsstr \<Rightarrow> string option \<Rightarrow> node" where
  "badge label tone =
     el ''span'' (case tone of Some t \<Rightarrow> ''faktor-badge faktor-badge-'' @ t | None \<Rightarrow> ''faktor-badge'') label"

definition panel_button :: "string \<Rightarrow> string \<Rightarrow> gesture \<Rightarrow> node" where
  "panel_button label className g = Button (js className) (js label) False g"

definition panel_section :: "string \<Rightarrow> string option \<Rightarrow> node list \<Rightarrow> node" where
  "panel_section title key kids =
     Node ''section'' (js ''faktor-section'') (case key of Some k \<Rightarrow> [(''data-section'', js k)] | None \<Rightarrow> []) []
       (el ''h3'' ''faktor-section-title'' (js title) # kids)"

definition panel_line :: "jsstr \<Rightarrow> string \<Rightarrow> node" where
  "panel_line value className = el ''div'' className value"

text \<open>A label and its lines, when there are any.\<close>

definition listed :: "string \<Rightarrow> (jsval \<Rightarrow> node) \<Rightarrow> jsval list \<Rightarrow> node list" where
  "listed label f vs = (if length vs > 0 then panel_line (js label) ''faktor-label'' # map f vs else [])"

definition marked :: "cunit \<Rightarrow> string \<Rightarrow> jsval \<Rightarrow> node" where
  "marked mark className v = panel_line (mark # 32 # panel_text v MAX_TEXT) className"

section \<open>The task\<close>

definition verification_line :: "jsval \<Rightarrow> node" where
  "verification_line v =
     panel_line (js ''verification '' @ panel_text (member_of v ''status'') 32 @ middle_dot @ js ''criteria ''
         @ count_text (member_of v ''criteriaPassed'') @ 47 # count_text (member_of v ''criteriaTotal'')
         @ middle_dot @ js ''failed checks '' @ count_text (member_of v ''failedChecks'') @ middle_dot
         @ js ''owed '' @ count_text (member_of v ''owed'')) ''faktor-line faktor-muted''"

definition budget_line :: "jsval \<Rightarrow> node" where
  "budget_line v =
     (let spent = member_of v ''spentTokens''; maxTokens = member_of v ''maxTokens'';
          cost = member_of v ''spentCostMicro''; maxCost = member_of v ''maxCostMicro''
      in panel_line (js ''spend tokens ''
           @ string_text (if nullish spent then JStr [8212] else spent) 32
           @ (if nullish maxTokens then [] else js '' / '' @ string_text maxTokens 32)
           @ middle_dot @ js ''cost '' @ string_text (if cost = JUndef then JNum (Fin 0) else cost) 32 @ [181]
           @ (if nullish maxCost then [] else js '' / '' @ string_text maxCost 32 @ [181]))
           ''faktor-line faktor-muted'')"

definition is_object :: "jsval \<Rightarrow> bool" where
  "is_object v = (case v of JObj _ \<Rightarrow> True | JArr _ \<Rightarrow> True | _ \<Rightarrow> False)"

definition lines_of :: "jsval \<Rightarrow> jsval list" where
  "lines_of v = take MAX_LINES (array_items v)"

definition task_head :: "jsval \<Rightarrow> node" where
  "task_head data =
     (let goal = panel_text (member_of data ''goal'') 200; st = member_of data ''state''; phase = member_of data ''phase''
      in box ''div'' ''faktor-row''
           (el ''span'' ''faktor-strong'' (if goal = [] then js ''task'' else goal)
            # (if truthy_value st then [badge (panel_text st 48) (Some ''state'')] else [])
            @ (if truthy_value phase then [badge (panel_text phase 48) None] else [])))"

definition milestone_lines :: "jsval \<Rightarrow> node list" where
  "milestone_lines milestones =
     (let completed = lines_of (member_of milestones ''completed''); open_ones = lines_of (member_of milestones ''open'')
      in if length completed + length open_ones > 0
         then panel_line (js ''milestones'') ''faktor-label''
           # map (marked 10003 ''faktor-line faktor-done'') completed @ map (marked 9675 ''faktor-line'') open_ones
         else [])"

definition task_panel :: "jsval \<Rightarrow> node" where
  "task_panel data =
     (if \<not> truthy_value data \<or> member_of data ''present'' = JBool False
      then panel_section ''Task'' None [panel_line (js ''no active task'') ''faktor-muted'']
      else
        (let verification = member_of data ''verification''; budget = member_of data ''budget''
         in panel_section ''Task'' (Some ''task'')
              (task_head data
               # (if is_object verification then [verification_line verification] else [])
               @ listed ''acceptance'' (marked 8226 ''faktor-line'') (lines_of (member_of data ''acceptanceCriteria''))
               @ milestone_lines (member_of data ''milestones'')
               @ listed ''failing tests'' (marked 33 ''faktor-line faktor-failed'')
                   (lines_of (member_of (member_of data ''tests'') ''failed''))
               @ listed ''blockers'' (marked 33 ''faktor-line faktor-blocked'') (lines_of (member_of data ''blockers''))
               @ (if is_object budget then [budget_line budget] else []))))"

section \<open>The agents\<close>

definition pixel_bit :: "jsstr \<Rightarrow> jsstr \<Rightarrow> bool \<Rightarrow> node" where
  "pixel_bit color accent on =
     Node ''span'' (js (if on then ''faktor-pixel-bit on'' else ''faktor-pixel-bit''))
       [(''style.color'', accent), (''style.backgroundColor'', if on then color else js ''transparent'')] [] []"

definition string_or_empty :: "jsval \<Rightarrow> jsstr" where
  "string_or_empty v = (case v of JStr s \<Rightarrow> s | _ \<Rightarrow> [])"

definition pixelNode :: "jsval \<Rightarrow> jsval \<Rightarrow> node" where
  "pixelNode pixel agentId =
     (let animation = member_of pixel ''animation''; avatar = member_of pixel ''avatar'';
          bits = array_items (member_of avatar ''pixels'')
      in Node ''span''
           (js ''faktor-pixel '' @ (if truthy_value animation then to_string animation else js ''pixel-waiting''))
           [(''data-child'', to_string agentId)] []
           (map (\<lambda>i. pixel_bit (string_or_empty (member_of avatar ''color'')) (string_or_empty (member_of avatar ''accent''))
                  (i < length bits \<and> bits ! i = JNum (Fin 1))) [0..<25]))"

definition agent_action :: "jsval \<Rightarrow> string \<Rightarrow> (string \<times> jsval) list \<Rightarrow> jsval" where
  "agent_action agentId action rest =
     message ''faktorAgentAction'' ([(''agentId'', agentId), (''action'', JStr (js action))] @ rest)"

definition agent_state_name :: "jsval \<Rightarrow> jsstr" where
  "agent_state_name agent = to_lower (to_string (or_else (member_of agent ''state'') (JStr [])))"

definition is_terminal :: "jsstr \<Rightarrow> bool" where
  "is_terminal st = (starts_with (js ''done'') st \<or> st = js ''completed'' \<or> starts_with (js ''cancel'') st)"

definition is_failed :: "jsstr \<Rightarrow> bool" where
  "is_failed st = starts_with (js ''fail'') st"

definition running_states :: "jsstr list" where
  "running_states =
     map js [''running'', ''preparing'', ''streaming'', ''buildingcontext'', ''waitingformodel'', ''executingtool'',
       ''validating'', ''toolrequested'']"

definition is_running :: "jsstr \<Rightarrow> bool" where
  "is_running st = List.member running_states st"

definition is_paused :: "jsstr \<Rightarrow> bool" where
  "is_paused st = (st = js ''paused'' \<or> st = js ''suspended'')"

definition simple_action :: "jsval \<Rightarrow> string \<Rightarrow> string \<Rightarrow> string \<Rightarrow> node" where
  "simple_action agentId label className action = panel_button label className (GPost (agent_action agentId action []))"

definition steer_row :: "jsval \<Rightarrow> nat \<Rightarrow> node" where
  "steer_row agentId index =
     box ''div'' ''faktor-steer''
       [Input ''input'' (js ''steer note (optional)'') (FSteer index) (Some MAX_STEER_CHARS),
        panel_button ''Steer'' ''faktor-btn'' (GSteer agentId index)]"

definition agentActions :: "jsval \<Rightarrow> nat \<Rightarrow> node" where
  "agentActions agent index =
     (let st = agent_state_name agent; agentId = member_of agent ''agentId'';
          background = (member_of agent ''presentation'' = JStr (js ''background''))
      in box ''div'' ''faktor-actions''
           ((if is_running st then [simple_action agentId ''Pause'' ''faktor-btn'' ''pause''] else [])
            @ (if is_paused st then [simple_action agentId ''Resume'' ''faktor-btn'' ''resume''] else [])
            @ (if is_failed st then [simple_action agentId ''Retry'' ''faktor-btn faktor-btn-primary'' ''retry''] else [])
            @ (if \<not> is_terminal st
               then [simple_action agentId ''Cancel'' ''faktor-btn'' ''cancel'',
                     simple_action agentId ''Model'' ''faktor-btn'' ''model'',
                     simple_action agentId ''Budget'' ''faktor-btn'' ''budget'', steer_row agentId index] else [])
            @ [panel_button (if background then ''Foreground'' else ''Background'') ''faktor-btn''
                 (GPost (agent_action agentId ''presentation''
                    [(''state'', JStr (if background then js ''foreground'' else js ''background''))]))]))"

definition shown_if :: "bool \<Rightarrow> 'a \<Rightarrow> 'a list" where
  "shown_if b x = (if b then [x] else [])"

definition agent_meta :: "jsval \<Rightarrow> jsstr list" where
  "agent_meta agent =
     (let itemId = member_of agent ''itemId''; worktree = member_of agent ''worktreeId'';
          ownership = member_of agent ''ownership''; model = member_of agent ''model'';
          provider = member_of agent ''provider''; budget = member_of agent ''budget'';
          thinking = (member_of agent ''thinking'' = JBool True)
      in shown_if (truthy_value itemId) (js ''item '' @ panel_text itemId 80)
         @ shown_if (\<not> nullish worktree) (js ''worktree '' @ string_text worktree 24)
         @ shown_if (truthy_value ownership) (string_text ownership 64)
         @ shown_if (truthy_value model) (js ''model '' @ string_text model 80)
         @ shown_if (truthy_value provider) (js ''provider '' @ string_text provider 80)
         @ shown_if (member_of agent ''reasoning'' = JBool True \<or> thinking)
             (if thinking then js ''thinking'' else js ''reasoning'')
         @ shown_if (\<not> nullish budget) (js ''budget '' @ string_text budget 32))"

definition agent_head :: "jsval \<Rightarrow> node" where
  "agent_head agent =
     box ''div'' ''faktor-row''
       ([pixelNode (member_of agent ''pixel'') (member_of agent ''agentId''),
         el ''span'' ''faktor-strong'' (panel_text (member_of agent ''agentId'') 80),
         badge (panel_text (or_else (member_of agent ''state'') (JStr (js ''unknown''))) 40) (Some ''state'')]
        @ shown_if (member_of agent ''presentation'' = JStr (js ''background'')) (badge (js ''background'') (Some ''dim'')))"

definition agent_article :: "nat \<Rightarrow> jsval \<Rightarrow> node" where
  "agent_article index entry =
     (let agent = or_else entry (JObj []); meta = agent_meta agent; goal = member_of agent ''goal''
      in Node ''article'' (js ''faktor-agent'')
           [(''data-presentation'',
               if member_of agent ''presentation'' = JStr (js ''background'') then js ''background'' else js ''foreground''),
            (''data-state'', to_string (or_else (member_of agent ''state'') (JStr (js ''unknown''))))] []
           (agent_head agent
            # shown_if (length meta > 0) (panel_line (join middle_dot meta) ''faktor-line faktor-muted'')
            @ shown_if (truthy_value goal) (panel_line (panel_text goal 200) ''faktor-line'')
            @ (case jsonLine (member_of agent ''progress'') of
                 Some t \<Rightarrow> [panel_line (js ''progress '' @ t) ''faktor-line faktor-muted''] | None \<Rightarrow> [])
            @ (case jsonLine (member_of agent ''result'') of
                 Some t \<Rightarrow> [panel_line (js ''result '' @ t) ''faktor-line faktor-muted''] | None \<Rightarrow> [])
            @ map (marked 33 ''faktor-line faktor-blocked'') (take 8 (array_items (member_of agent ''blockers'')))
            @ [agentActions agent index]))"

definition agents_panel :: "jsval \<Rightarrow> node" where
  "agents_panel data =
     (let agents = array_items (member_of data ''agents'')
      in panel_section ''Agents'' (Some ''agents'')
           (if length agents = 0 then [panel_line (js ''none'') ''faktor-muted'']
            else map (\<lambda>(i, agent). agent_article i agent) (enumerate 0 (take MAX_LINES agents))))"

section \<open>The cockpit\<close>

definition skipped_keys :: "jsval list" where
  "skipped_keys = map (\<lambda>k. JStr (js k)) [''tournament'', ''evidence'', ''children'']"

definition cockpit_block :: "jsval \<Rightarrow> node" where
  "cockpit_block item =
     Node ''div'' (js ''faktor-cockpit-section'')
       [(''data-cockpit'', to_string (or_else (member_of item ''key'') (JStr [])))] []
       (panel_line (panel_text (or_else (member_of item ''title'') (member_of item ''key'')) 80) ''faktor-label''
        # map (\<lambda>l. panel_line (panel_text l MAX_TEXT) ''faktor-line'') (lines_of (member_of item ''lines'')))"

definition cockpit_panel :: "jsval \<Rightarrow> node" where
  "cockpit_panel data =
     (let sections = array_items (member_of data ''sections'')
      in panel_section ''Cockpit'' (Some ''cockpit'')
           (if length sections = 0 then [panel_line (js ''none'') ''faktor-muted'']
            else map cockpit_block
              (filter (\<lambda>item. \<not> List.member skipped_keys (member_of item ''key''))
                (map (\<lambda>item. or_else item (JObj [])) (take 32 sections)))))"

section \<open>The tournament\<close>

definition verdict_text :: "jsval \<Rightarrow> jsstr" where
  "verdict_text pass =
     (if pass = JBool True then js ''verification pass''
      else if pass = JBool False then js ''verification fail'' else js ''unverified'')"

definition review_text :: "jsval \<Rightarrow> jsstr" where
  "review_text candidate =
     (let rank = member_of candidate ''reviewRank''; reviewer = member_of candidate ''reviewer''
      in if truthy_value rank
         then middle_dot @ js ''review '' @ panel_text rank 32
           @ (if truthy_value reviewer then js '' ('' @ panel_text reviewer 64 @ js '')'' else [])
         else [])"

definition count_or_zero :: "jsval \<Rightarrow> jsstr" where
  "count_or_zero v = string_text (if v = JUndef then JNum (Fin 0) else v) 32"

definition candidate_card :: "jsval \<Rightarrow> node" where
  "candidate_card entry =
     (let candidate = or_else entry (JObj [])
      in box ''article'' ''faktor-candidate''
           [box ''div'' ''faktor-row''
              ([el ''span'' ''faktor-strong'' (panel_text (member_of candidate ''childId'') 80),
                badge (panel_text (member_of candidate ''state'') 32) (Some ''state'')]
               @ shown_if (member_of candidate ''winner'' = JBool True) (badge (js ''winner'') (Some ''winner''))),
            panel_line (verdict_text (member_of candidate ''verificationPass'') @ review_text candidate
                @ middle_dot @ js ''cost '' @ count_or_zero (member_of candidate ''costMicro'') @ [181]
                @ middle_dot @ js ''wall '' @ count_or_zero (member_of candidate ''wallMs'') @ js ''ms'')
              ''faktor-line faktor-muted''])"

definition tournament_action :: "jsval \<Rightarrow> string \<Rightarrow> (string \<times> jsval) list \<Rightarrow> jsval" where
  "tournament_action tournamentId action rest =
     message ''faktorTournamentAction'' ([(''tournamentId'', tournamentId), (''action'', JStr (js action))] @ rest)"

definition tournament_actions :: "jsval \<Rightarrow> node" where
  "tournament_actions tournament =
     (let tournamentId = member_of tournament ''id''
      in box ''div'' ''faktor-actions''
           [Button (js ''faktor-btn faktor-btn-primary'') (js ''Decide winner'')
              (member_of tournament ''canDecide'' \<noteq> JBool True) (GPost (tournament_action tournamentId ''decide'' [])),
            Input ''input'' (js ''abort reason (optional)'') FAbort (Some 512),
            Button (js ''faktor-btn'') (js ''Abort'') (member_of tournament ''open'' \<noteq> JBool True) (GAbort tournamentId)])"

definition tournament_head :: "jsval \<Rightarrow> node" where
  "tournament_head tournament =
     (let winner = member_of tournament ''winner''
      in box ''div'' ''faktor-row''
           ([el ''span'' ''faktor-strong'' (panel_text (member_of tournament ''id'') 80),
             badge (panel_text (member_of tournament ''state'') 32) (Some ''state'')]
            @ shown_if (truthy_value winner) (badge (js ''winner '' @ panel_text winner 80) (Some ''winner''))))"

definition tournament_panel :: "jsval \<Rightarrow> node" where
  "tournament_panel data =
     (let tournament = member_of data ''tournament''
      in panel_section ''Tournament'' (Some ''tournament'')
           (if \<not> truthy_value data \<or> member_of data ''present'' = JBool False \<or> \<not> truthy_value tournament
            then [panel_line (js ''none'') ''faktor-muted'']
            else tournament_head tournament
              # listed ''criteria'' (marked 8226 ''faktor-line'') (lines_of (member_of tournament ''criteria''))
              @ map candidate_card (take 16 (array_items (member_of tournament ''candidates'')))
              @ [tournament_actions tournament]))"

section \<open>The evidence\<close>

definition is_number :: "jsval \<Rightarrow> bool" where
  "is_number v = (case v of JNum _ \<Rightarrow> True | _ \<Rightarrow> False)"

definition ref_row :: "jsval \<Rightarrow> node" where
  "ref_row ref =
     (let i = member_of ref ''id''
      in box ''div'' ''faktor-row''
           [Button (js ''faktor-btn faktor-btn-link'')
              (if truthy_value ref \<and> \<not> nullish i then js ''evidence:'' @ to_string i
               else panel_text (member_of ref ''label'') 120)
              (\<not> is_number i) (GExpand ref)])"

definition expanded_evidence :: "jsval \<Rightarrow> node list" where
  "expanded_evidence evidence =
     [box ''div'' ''faktor-row''
        (el ''span'' ''faktor-strong'' (js ''evidence '' @ string_text (member_of evidence ''id'') 32)
         # shown_if (member_of evidence ''truncated'' = JBool True) (badge (js ''truncated'') (Some ''dim''))),
      el ''pre'' ''faktor-evidence'' (panel_text (member_of evidence ''text'') 20000),
      panel_button ''Back to refs'' ''faktor-btn'' GBack]"

definition evidence_panel :: "jsval \<Rightarrow> node" where
  "evidence_panel data =
     (let evidence = member_of data ''evidence''; refs = take 64 (array_items (member_of data ''refs''))
      in panel_section ''Evidence'' (Some ''evidence'')
           (if \<not> truthy_value data then [panel_line (js ''none'') ''faktor-muted'']
            else if member_of data ''mode'' = JStr (js ''expanded'') \<and> truthy_value evidence
            then expanded_evidence evidence
            else if length refs = 0 then [panel_line (js ''none'') ''faktor-muted'']
            else map ref_row refs))"

section \<open>The board\<close>

definition board_read :: jsval where
  "board_read = message ''faktorBoardAction'' [(''action'', JStr (js ''read''))]"

definition board_head :: "jsval \<Rightarrow> node" where
  "board_head data =
     (let unread = member_of data ''unread''; revision = member_of data ''revision''; n = to_number unread
      in box ''div'' ''faktor-row''
           (el ''span'' ''faktor-label'' (js ''coordination board'')
            # shown_if (\<not> nullish unread)
                (badge (number_string (if n = NaN then Fin 0 else n) @ js '' unread'')
                   (Some (if (case n of Fin q \<Rightarrow> q > 0 | PosInf \<Rightarrow> True | _ \<Rightarrow> False) then ''winner'' else ''dim'')))
            @ shown_if (\<not> nullish revision) (badge (js ''rev '' @ string_text revision 24) (Some ''dim''))))"

definition post_card :: "jsval \<Rightarrow> node" where
  "post_card v =
     (let entry = or_else v (JObj []); body = member_of entry ''body''
      in box ''article'' ''faktor-post''
           (box ''div'' ''faktor-row''
              [el ''span'' ''faktor-strong'' (panel_text (or_else (member_of entry ''author'') (JStr (js ''agent''))) 64),
               el ''span'' ''faktor-muted'' (panel_text (member_of entry ''subject'') 120)]
            # shown_if (truthy_value body) (panel_line (panel_text body MAX_BODY_CHARS) ''faktor-line'')
            @ map (\<lambda>r. panel_line (js ''ref '' @ panel_text r MAX_REF_CHARS) ''faktor-line faktor-muted'')
                (take 32 (array_items (member_of entry ''refs'')))))"

definition board_composer :: node where
  "board_composer =
     box ''div'' ''faktor-composer''
       [Input ''input'' (js ''subject'') FSubject (Some MAX_SUBJECT_CHARS),
        Input ''textarea'' (js ''post to the run-family board'') FBody None,
        panel_button ''Post'' ''faktor-btn'' GBoardPost,
        panel_button ''Refresh'' ''faktor-btn'' (GPost board_read)]"

definition board_panel :: "jsval \<Rightarrow> node" where
  "board_panel data =
     (let reason = member_of data ''reason''; posts = take MAX_POSTS (array_items (member_of data ''posts''))
      in panel_section ''Board'' (Some ''board'')
           (if member_of data ''available'' \<noteq> JBool True
            then [panel_line (if truthy_value reason then panel_text reason 240
                    else js ''board not exposed by this daemon'') ''faktor-muted'',
                  panel_button ''Refresh'' ''faktor-btn'' (GPost board_read)]
            else board_head data
              # shown_if (length posts = 0) (panel_line (js ''no posts'') ''faktor-muted'')
              @ map post_card posts @ [board_composer]))"

section \<open>The panel\<close>

text \<open>
  The state of the script: the last message of each kind, the references the evidence came from,
  the panel once it is mounted, what its input fields hold, and what was posted.  \<open>cnApi\<close> tells
  whether the shell captured the handle of the webview.
\<close>

record companion =
  cnTask :: jsval
  cnAgents :: jsval
  cnCockpit :: jsval
  cnTournament :: jsval
  cnEvidence :: jsval
  cnBoard :: jsval
  cnRefs :: jsval
  cnPanel :: "node list option"
  cnTyped :: "field \<Rightarrow> jsstr"
  cnApi :: bool
  cnPosted :: "jsval list"

definition new_companion :: "bool \<Rightarrow> companion" where
  "new_companion api =
     \<lparr>cnTask = JNull, cnAgents = JNull, cnCockpit = JNull, cnTournament = JNull, cnEvidence = JNull, cnBoard = JNull,
      cnRefs = JUndef, cnPanel = None, cnTyped = (\<lambda>_. []), cnApi = api, cnPosted = []\<rparr>"

definition panel_nodes :: "companion \<Rightarrow> node list" where
  "panel_nodes c =
     [el ''header'' ''faktor-panel-title'' (js ''Faktor''), task_panel (cnTask c), agents_panel (cnAgents c),
      cockpit_panel (cnCockpit c), tournament_panel (cnTournament c), evidence_panel (cnEvidence c),
      board_panel (cnBoard c)]"

text \<open>\<open>render\<close> builds every node anew, the input fields too.\<close>

definition render_panel :: "companion \<Rightarrow> companion" where
  "render_panel c =
     (case cnPanel c of
        None \<Rightarrow> c
      | Some _ \<Rightarrow> c\<lparr>cnPanel := Some (panel_nodes c), cnTyped := (\<lambda>_. [])\<rparr>)"

definition mount :: "companion \<Rightarrow> companion" where
  "mount c = (case cnPanel c of Some _ \<Rightarrow> c | None \<Rightarrow> render_panel (c\<lparr>cnPanel := Some []\<rparr>))"

section \<open>Messages\<close>

definition refs_state :: "jsval \<Rightarrow> jsval" where
  "refs_state refs = JObj [(js ''mode'', JStr (js ''refs'')), (js ''refs'', refs)]"

definition handle_evidence :: "jsval \<Rightarrow> companion \<Rightarrow> companion" where
  "handle_evidence data c =
     (if member_of data ''mode'' = JStr (js ''refs'')
      then (let refs = JArr (take 64 (array_items (member_of data ''refs'')))
            in c\<lparr>cnRefs := refs, cnEvidence := refs_state refs\<rparr>)
      else c\<lparr>cnEvidence := data\<rparr>)"

definition TYPES :: "jsstr list" where
  "TYPES =
     map js [''faktorTaskState'', ''faktorAgents'', ''faktorCockpit'', ''faktorTournament'', ''faktorEvidence'',
       ''faktorBoardState'']"

definition store_message :: "jsstr \<Rightarrow> jsval \<Rightarrow> companion \<Rightarrow> companion" where
  "store_message kind data c =
     (if kind = js ''faktorTaskState'' then c\<lparr>cnTask := data\<rparr>
      else if kind = js ''faktorAgents'' then c\<lparr>cnAgents := data\<rparr>
      else if kind = js ''faktorCockpit'' then c\<lparr>cnCockpit := data\<rparr>
      else if kind = js ''faktorTournament'' then c\<lparr>cnTournament := data\<rparr>
      else if kind = js ''faktorEvidence'' then handle_evidence data c
      else if kind = js ''faktorBoardState'' then c\<lparr>cnBoard := data\<rparr>
      else c)"

definition panel_handle :: "jsval \<Rightarrow> companion \<Rightarrow> companion" where
  "panel_handle data c =
     (case member_of data ''type'' of
        JStr kind \<Rightarrow> if \<not> List.member TYPES kind then c else render_panel (store_message kind data c)
      | _ \<Rightarrow> c)"

section \<open>Gestures\<close>

definition post_panel :: "jsval \<Rightarrow> companion \<Rightarrow> companion" where
  "post_panel m c = (if cnApi c then c\<lparr>cnPosted := cnPosted c @ [m]\<rparr> else c)"

definition steer_message :: "jsval \<Rightarrow> jsstr \<Rightarrow> jsval" where
  "steer_message agentId value =
     (let note = trim value
      in agent_action agentId ''steer''
           (if length note = 0 then [] else [(''text'', JStr (take MAX_STEER_CHARS note))]))"

definition board_post_message :: "jsstr \<Rightarrow> jsstr \<Rightarrow> jsval option" where
  "board_post_message subject body =
     (let subjectText = trim subject
      in if length subjectText = 0 then None
         else Some (message ''faktorBoardAction''
           [(''action'', JStr (js ''post'')), (''subject'', JStr (take MAX_SUBJECT_CHARS subjectText)),
            (''body'', JStr (take MAX_BODY_CHARS body))]))"

definition gesture_message :: "(field \<Rightarrow> jsstr) \<Rightarrow> gesture \<Rightarrow> jsval option" where
  "gesture_message typed g =
     (case g of
        GPost m \<Rightarrow> Some m
      | GSteer agentId index \<Rightarrow> Some (steer_message agentId (typed (FSteer index)))
      | GAbort tournamentId \<Rightarrow>
          Some (tournament_action tournamentId ''abort'' [(''reason'', JStr (take 512 (typed FAbort)))])
      | GExpand ref \<Rightarrow>
          (case member_of ref ''id'' of
             JNum x \<Rightarrow> Some (message ''faktorEvidenceExpand'' [(''evidenceId'', JNum x)])
           | _ \<Rightarrow> None)
      | GBack \<Rightarrow> None
      | GBoardPost \<Rightarrow> board_post_message (typed FSubject) (typed FBody))"

definition perform :: "gesture \<Rightarrow> companion \<Rightarrow> companion" where
  "perform g c =
     (if g = GBack then render_panel (c\<lparr>cnEvidence := refs_state (or_else (cnRefs c) (JArr []))\<rparr>)
      else (case gesture_message (cnTyped c) g of Some m \<Rightarrow> post_panel m c | None \<Rightarrow> c))"

text \<open>What the enabled buttons of a node do.\<close>

fun gestures_of :: "node \<Rightarrow> gesture list" where
  "gestures_of (Node tag className attrs own kids) = concat (map gestures_of kids)"
| "gestures_of (Button className label disabled g) = (if disabled then [] else [g])"
| "gestures_of (Input tag placeholder field bound) = []"

definition panel_gestures :: "companion \<Rightarrow> gesture list" where
  "panel_gestures c = (case cnPanel c of None \<Rightarrow> [] | Some nodes \<Rightarrow> concat (map gestures_of nodes))"

inductive companion_run :: "companion \<Rightarrow> bool" where
  loaded: "companion_run (new_companion api)"
| mounted: "companion_run c \<Longrightarrow> companion_run (mount c)"
| handled: "companion_run c \<Longrightarrow> companion_run (panel_handle data c)"
| typed: "companion_run c \<Longrightarrow> companion_run (c\<lparr>cnTyped := (cnTyped c)(f := value)\<rparr>)"
| clicked: "companion_run c \<Longrightarrow> g \<in> set (panel_gestures c) \<Longrightarrow> companion_run (perform g c)"

end
