(* ===== verification/CompanionGuarantees.thy ===== *)
theory CompanionGuarantees
  imports Companion BridgeHost
begin

text \<open>
  What the companion panel guarantees: it shows exactly the messages it has, every action it
  posts is one the message on display allows, and the bridge accepts those actions.
\<close>

section \<open>Members of literals\<close>

lemma member_of_simps [simp]: "member_of (jobj ms) k = (case map_of ms k of Some v \<Rightarrow> v | None \<Rightarrow> JUndef)"
  by (induction ms) (auto simp: member_of_def jobj_def)

lemma jobj_truthy [simp]: "or_else (jobj ms) v = jobj ms"
  by (simp add: or_else_def truthy_value_def jobj_def)

section \<open>The panel shows its state\<close>

definition in_step :: "companion \<Rightarrow> bool" where
  "in_step c = (case cnPanel c of None \<Rightarrow> True | Some nodes \<Rightarrow> nodes = panel_nodes c)"

lemma panel_nodes_cong [simp]:
  "panel_nodes (c\<lparr>cnPanel := p\<rparr>) = panel_nodes c"
  "panel_nodes (c\<lparr>cnTyped := t\<rparr>) = panel_nodes c"
  "panel_nodes (c\<lparr>cnPosted := ms\<rparr>) = panel_nodes c"
  by (simp_all add: panel_nodes_def)

lemma in_step_render [simp]: "in_step (render_panel c)"
  by (simp add: in_step_def render_panel_def split: option.split)

lemma in_step_post [simp]: "in_step (post_panel m c) = in_step c"
  by (simp add: in_step_def post_panel_def split: option.split)

lemma in_step_run: "companion_run c \<Longrightarrow> in_step c"
proof (induction rule: companion_run.induct)
  case (loaded api)
  then show ?case by (simp add: in_step_def new_companion_def)
next
  case (mounted c)
  then show ?case by (cases "cnPanel c") (simp_all add: mount_def)
next
  case (handled c data)
  then show ?case by (simp add: panel_handle_def split: jsval.split)
next
  case (typed c f v)
  then show ?case by (auto simp: in_step_def split: option.splits)
next
  case (clicked c g)
  then show ?case
    by (simp add: perform_def split: option.split)
qed

section \<open>What a message allows\<close>

text \<open>The agent actions, by the state of the agent on display.\<close>

definition agent_allows :: "jsval \<Rightarrow> jsval \<Rightarrow> bool" where
  "agent_allows agent m \<longleftrightarrow>
     (let i = member_of agent ''agentId''; st = agent_state_name agent;
          background = (member_of agent ''presentation'' = JStr (js ''background''))
      in m = agent_action i ''pause'' [] \<and> is_running st
       \<or> m = agent_action i ''resume'' [] \<and> is_paused st
       \<or> m = agent_action i ''retry'' [] \<and> is_failed st
       \<or> (\<exists>action \<in> {''cancel'', ''model'', ''budget'', ''steer''}. m = agent_action i action []) \<and> \<not> is_terminal st
       \<or> (\<exists>note. m = agent_action i ''steer'' [(''text'', JStr note)] \<and> trim note \<noteq> [] \<and> length note \<le> 500)
           \<and> \<not> is_terminal st
       \<or> m = agent_action i ''presentation''
           [(''state'', JStr (if background then js ''foreground'' else js ''background''))])"

definition tournament_allows :: "(field \<Rightarrow> jsstr) \<Rightarrow> jsval \<Rightarrow> jsval \<Rightarrow> bool" where
  "tournament_allows typed tournament m \<longleftrightarrow>
     m = tournament_action (member_of tournament ''id'') ''decide'' [] \<and> member_of tournament ''canDecide'' = JBool True
     \<or> m = tournament_action (member_of tournament ''id'') ''abort'' [(''reason'', JStr (take 512 (typed FAbort)))]
        \<and> member_of tournament ''open'' = JBool True"

definition evidence_allows :: "jsval \<Rightarrow> jsval \<Rightarrow> bool" where
  "evidence_allows data m \<longleftrightarrow>
     (\<exists>ref \<in> set (array_items (member_of data ''refs'')). \<exists>x. member_of ref ''id'' = JNum x
        \<and> m = message ''faktorEvidenceExpand'' [(''evidenceId'', JNum x)])"

definition board_allows :: "(field \<Rightarrow> jsstr) \<Rightarrow> jsval \<Rightarrow> jsval \<Rightarrow> bool" where
  "board_allows typed data m \<longleftrightarrow>
     m = board_read
     \<or> m = message ''faktorBoardAction''
          [(''action'', JStr (js ''post'')), (''subject'', JStr (take 256 (trim (typed FSubject)))),
           (''body'', JStr (take 4096 (typed FBody)))]
        \<and> trim (typed FSubject) \<noteq> [] \<and> member_of data ''available'' = JBool True"

definition panel_allows :: "companion \<Rightarrow> (field \<Rightarrow> jsstr) \<Rightarrow> jsval \<Rightarrow> bool" where
  "panel_allows c typed m \<longleftrightarrow>
     (\<exists>entry \<in> set (take 64 (array_items (member_of (cnAgents c) ''agents''))). agent_allows (or_else entry (JObj [])) m)
     \<or> tournament_allows typed (member_of (cnTournament c) ''tournament'') m
     \<or> evidence_allows (cnEvidence c) m
     \<or> board_allows typed (cnBoard c) m"

section \<open>The gestures of each part\<close>

definition gestures :: "node list \<Rightarrow> gesture set" where
  "gestures nodes = set (concat (map gestures_of nodes))"

lemma gestures_simps [simp]:
  "gestures [] = {}"
  "gestures (n # ns) = set (gestures_of n) \<union> gestures ns"
  "gestures (ms @ ns) = gestures ms \<union> gestures ns"
  by (auto simp: gestures_def)

lemma gestures_Node [simp]: "set (gestures_of (Node tag className attrs own kids)) = gestures kids"
  by (auto simp: gestures_def)

declare gestures_of.simps(1) [simp del]

lemma gestures_plain [simp]:
  "gestures_of (el tag className value) = []" "gestures_of (badge label tone) = []"
  "gestures_of (panel_line value className) = []" "gestures_of (marked mark className v) = []"
  "set (gestures_of (box tag className kids)) = gestures kids"
  "set (gestures_of (panel_section title key kids)) = gestures kids"
  by (auto simp: el_def badge_def panel_line_def marked_def box_def panel_section_def gestures_def gestures_of.simps)

lemma gestures_button [simp]: "gestures_of (panel_button caption className g) = [g]"
  by (simp add: panel_button_def)

lemma gestures_map: "gestures (map f xs) = (\<Union>x \<in> set xs. set (gestures_of (f x)))"
  by (auto simp: gestures_def)

lemma gestures_shown_if [simp]: "gestures (shown_if b n) = (if b then set (gestures_of n) else {})"
  by (simp add: shown_if_def)

lemma gestures_listed [simp]: "(\<And>v. gestures_of (f v) = []) \<Longrightarrow> gestures (listed label f vs) = {}"
  by (simp add: listed_def gestures_map)

lemma task_parts [simp]:
  "gestures_of (verification_line v) = []" "gestures_of (budget_line v) = []"
  "set (gestures_of (task_head v)) = {}" "gestures (milestone_lines v) = {}"
  by (simp_all add: verification_line_def budget_line_def task_head_def milestone_lines_def Let_def gestures_map)

lemma task_gestures: "g \<notin> set (gestures_of (task_panel data))"
  by (simp add: task_panel_def Let_def)

lemma cockpit_gestures: "g \<notin> set (gestures_of (cockpit_panel data))"
  by (simp add: cockpit_panel_def cockpit_block_def Let_def gestures_map)

definition agent_gestures :: "jsval \<Rightarrow> nat \<Rightarrow> gesture set" where
  "agent_gestures agent index = set (gestures_of (agentActions agent index))"

lemma pixel_gestures: "set (gestures_of (pixelNode pixel agentId)) = {}"
  by (simp add: pixelNode_def pixel_bit_def Let_def gestures_map)

lemma article_gestures: "set (gestures_of (agent_article index entry)) = agent_gestures (or_else entry (JObj [])) index"
  by (simp add: agent_article_def agent_head_def agent_gestures_def Let_def gestures_map pixel_gestures split: option.split)

lemma agents_gestures:
  assumes "g \<in> set (gestures_of (agents_panel data))"
  shows "\<exists>entry \<in> set (take 64 (array_items (member_of data ''agents''))).
     \<exists>index. g \<in> agent_gestures (or_else entry (JObj [])) index"
proof -
  let ?agents = "take 64 (array_items (member_of data ''agents''))"
  from assms obtain i entry where "(i, entry) \<in> set (enumerate 0 ?agents)"
    and "g \<in> agent_gestures (or_else entry (JObj [])) i"
    by (auto simp: agents_panel_def Let_def gestures_map article_gestures cap_simps split: if_splits)
  then show ?thesis by (auto simp: enumerate_eq_zip dest: set_zip_rightD)
qed

lemma trim_not_Nil: "\<not> is_ws c \<Longrightarrow> trim (c # u) \<noteq> []"
  by (auto simp: trim_def)

lemma trim_take_trim: "trim s \<noteq> [] \<Longrightarrow> 0 < n \<Longrightarrow> trim (take n (trim s)) \<noteq> []"
proof -
  assume ne: "trim s \<noteq> []" and n: "0 < n"
  then obtain c t where ct: "trim s = c # t" by (cases "trim s") auto
  have "\<not> is_ws c"
  proof
    assume "is_ws c"
    then have "trim (c # t) = trim t" by (simp add: trim_def)
    with trim_idem [of s] have "length (c # t) \<le> length t"
      using length_trim [of t] unfolding ct by simp
    then show False by simp
  qed
  moreover obtain k where "n = Suc k" using n by (cases n) auto
  ultimately show "trim (take n (trim s)) \<noteq> []"
    by (simp add: ct trim_not_Nil)
qed

lemma steer_allowed:
  "(\<exists>note. steer_message i value = agent_action i ''steer'' [(''text'', JStr note)] \<and> trim note \<noteq> [] \<and> length note \<le> 500)
     \<or> steer_message i value = agent_action i ''steer'' []"
  using trim_take_trim [of "value" 500] by (cases "trim value = []") (auto simp: steer_message_def Let_def cap_simps)

definition toggle_action :: "jsval \<Rightarrow> jsval" where
  "toggle_action agent =
     agent_action (member_of agent ''agentId'') ''presentation''
       [(''state'', JStr (if member_of agent ''presentation'' = JStr (js ''background'')
           then js ''foreground'' else js ''background''))]"

definition plain_action :: "jsval \<Rightarrow> string \<Rightarrow> gesture" where
  "plain_action agent action = GPost (agent_action (member_of agent ''agentId'') action [])"

lemma agent_gestures_eq:
  "agent_gestures agent index =
     (if is_running (agent_state_name agent) then {plain_action agent ''pause''} else {})
     \<union> (if is_paused (agent_state_name agent) then {plain_action agent ''resume''} else {})
     \<union> (if is_failed (agent_state_name agent) then {plain_action agent ''retry''} else {})
     \<union> (if is_terminal (agent_state_name agent) then {}
        else {plain_action agent ''cancel'', plain_action agent ''model'', plain_action agent ''budget'',
              GSteer (member_of agent ''agentId'') index})
     \<union> {GPost (toggle_action agent)}"
  by (auto simp: agent_gestures_def agentActions_def steer_row_def simple_action_def Let_def plain_action_def
      toggle_action_def)

lemma allows_plain:
  "gesture_message typed (plain_action agent action) = Some m \<longleftrightarrow>
     m = agent_action (member_of agent ''agentId'') action []"
  by (auto simp: plain_action_def gesture_message_def)

lemma agent_gesture_allowed:
  assumes "g \<in> agent_gestures agent index" and m: "gesture_message typed g = Some m"
  shows "agent_allows agent m"
proof -
  consider "g = plain_action agent ''pause''" "is_running (agent_state_name agent)"
    | "g = plain_action agent ''resume''" "is_paused (agent_state_name agent)"
    | "g = plain_action agent ''retry''" "is_failed (agent_state_name agent)"
    | action where "g = plain_action agent action" "action \<in> {''cancel'', ''model'', ''budget''}"
        "\<not> is_terminal (agent_state_name agent)"
    | "g = GSteer (member_of agent ''agentId'') index" "\<not> is_terminal (agent_state_name agent)"
    | "g = GPost (toggle_action agent)"
    using assms(1) unfolding agent_gestures_eq by (auto split: if_splits)
  then show ?thesis
  proof cases
    case 5
    with m steer_allowed [of "member_of agent ''agentId''" "typed (FSteer index)"] show ?thesis
      by (auto simp: gesture_message_def agent_allows_def Let_def)
  next
    case 6
    with m show ?thesis by (simp add: gesture_message_def toggle_action_def agent_allows_def Let_def)
  qed (use m in \<open>auto simp: allows_plain agent_allows_def Let_def\<close>)
qed

lemma tournament_gesture_allowed:
  assumes "g \<in> set (gestures_of (tournament_panel data))" and "gesture_message typed g = Some m"
  shows "tournament_allows typed (member_of data ''tournament'') m"
proof -
  have plain: "set (gestures_of (candidate_card entry)) = {}" for entry
    by (simp add: candidate_card_def Let_def)
  have "set (gestures_of (tournament_head t)) = {}" for t
    by (simp add: tournament_head_def Let_def)
  with assms plain show ?thesis
    by (auto simp: tournament_panel_def tournament_actions_def gestures_map gesture_message_def
        tournament_allows_def Let_def split: if_splits)
qed

lemma evidence_gesture_allowed:
  assumes "g \<in> set (gestures_of (evidence_panel data))" and "gesture_message typed g = Some m"
  shows "evidence_allows data m"
proof -
  from assms(1) have "g = GBack \<or> (\<exists>ref \<in> set (take 64 (array_items (member_of data ''refs''))). g = GExpand ref)"
    by (auto simp: evidence_panel_def expanded_evidence_def ref_row_def gestures_map Let_def split: if_splits)
  with assms(2) obtain ref where "ref \<in> set (take 64 (array_items (member_of data ''refs'')))" and "g = GExpand ref"
    by (auto simp: gesture_message_def)
  moreover from this assms(2) obtain x where "member_of ref ''id'' = JNum x"
      and "m = message ''faktorEvidenceExpand'' [(''evidenceId'', JNum x)]"
    by (auto simp: gesture_message_def split: jsval.splits)
  ultimately show ?thesis unfolding evidence_allows_def by (blast dest: in_set_takeD)
qed

lemma board_gesture_allowed:
  assumes "g \<in> set (gestures_of (board_panel data))" and m: "gesture_message typed g = Some m"
  shows "board_allows typed data m"
proof -
  have "set (gestures_of (post_card v)) = {}" for v
    by (simp add: post_card_def Let_def gestures_map)
  moreover have "set (gestures_of (board_head d)) = {}" for d
    by (simp add: board_head_def Let_def)
  ultimately have "g = GPost board_read \<or> g = GBoardPost \<and> member_of data ''available'' = JBool True"
    using assms(1) by (auto simp: board_panel_def board_composer_def gestures_map Let_def split: if_splits)
  then show ?thesis
  proof
    assume "g = GPost board_read"
    with m show ?thesis by (simp add: gesture_message_def board_allows_def)
  next
    assume g: "g = GBoardPost \<and> member_of data ''available'' = JBool True"
    with m show ?thesis
      by (auto simp: gesture_message_def board_post_message_def board_allows_def cap_simps Let_def split: if_splits)
  qed
qed

lemma allowed_in_step:
  assumes "in_step c" and "g \<in> set (panel_gestures c)" and "gesture_message typed g = Some m"
  shows "panel_allows c typed m"
proof -
  from assms(1,2) have "g \<in> gestures (panel_nodes c)"
    by (simp add: panel_gestures_def in_step_def gestures_def split: option.splits)
  then consider "g \<in> set (gestures_of (agents_panel (cnAgents c)))"
    | "g \<in> set (gestures_of (tournament_panel (cnTournament c)))"
    | "g \<in> set (gestures_of (evidence_panel (cnEvidence c)))"
    | "g \<in> set (gestures_of (board_panel (cnBoard c)))"
    using task_gestures cockpit_gestures by (auto simp: panel_nodes_def)
  then show ?thesis
  proof cases
    case 1
    then show ?thesis
      using agents_gestures agent_gesture_allowed [OF _ assms(3)] unfolding panel_allows_def by blast
  next
    case 2
    then show ?thesis
      using tournament_gesture_allowed [OF _ assms(3)] unfolding panel_allows_def by blast
  next
    case 3
    then show ?thesis
      using evidence_gesture_allowed [OF _ assms(3)] unfolding panel_allows_def by blast
  next
    case 4
    then show ?thesis
      using board_gesture_allowed [OF _ assms(3)] unfolding panel_allows_def by blast
  qed
qed

text \<open>
  C9.  The panel posts only what the messages on display allow, in every run.  An agent action names
  an agent of the last agents message and fits the state shown there (pause a running one, resume a
  paused one, retry a failed one, and so on), a note is not blank and has at most 500 units, the new
  presentation is the other one; a tournament is decided only when it can be and aborted only when
  it is open; evidence is asked for only by the number of a listed reference; a board post has a
  subject and the board is there.
\<close>

theorem companion_posts_allowed:
  assumes "companion_run c" and "g \<in> set (panel_gestures c)" and "gesture_message (cnTyped c) g = Some m"
  shows "panel_allows c (cnTyped c) m"
  using allowed_in_step [OF in_step_run [OF assms(1)] assms(2,3)] .

definition demo_agents :: jsval where
  "demo_agents =
     message ''faktorAgents'' [(''agents'', JArr [jobj [(''agentId'', JStr (js ''a'')), (''state'', JStr (js ''Running''))]])]"

definition demo_companion :: companion where
  "demo_companion = panel_handle demo_agents (mount (new_companion True))"

lemma demo_companion_run: "companion_run demo_companion"
  unfolding demo_companion_def by (intro companion_run.intros)

lemma demo_pause:
  "GPost (agent_action (JStr (js ''a'')) ''pause'' []) \<in> set (panel_gestures demo_companion)"
proof -
  let ?agent = "jobj [(''agentId'', JStr (js ''a'')), (''state'', JStr (js ''Running''))]"
  have name: "agent_state_name ?agent = js ''running''" by code_simp
  have "GPost (agent_action (JStr (js ''a'')) ''pause'' []) = plain_action ?agent ''pause''"
    by (simp add: plain_action_def)
  moreover have "is_running (js ''running'')" by (simp add: is_running_def running_states_def List.member_iff)
  ultimately have "GPost (agent_action (JStr (js ''a'')) ''pause'' []) \<in> agent_gestures ?agent 0"
    by (simp add: agent_gestures_eq name)
  then have "GPost (agent_action (JStr (js ''a'')) ''pause'' []) \<in> set (gestures_of (agents_panel demo_agents))"
    by (simp add: agents_panel_def demo_agents_def message_def Let_def article_gestures array_items_def cap_simps)
  moreover have "cnPanel demo_companion = Some (panel_nodes demo_companion)" "cnAgents demo_companion = demo_agents"
    by (simp_all add: demo_companion_def demo_agents_def panel_handle_def message_def TYPES_def List.member_iff
        store_message_def render_panel_def mount_def new_companion_def panel_nodes_def)
  ultimately show ?thesis by (simp add: panel_gestures_def panel_nodes_def)
qed

theorem companion_posts_allowed_witness:
  "panel_allows demo_companion (cnTyped demo_companion) (agent_action (JStr (js ''a'')) ''pause'' [])"
  by (rule companion_posts_allowed [OF demo_companion_run demo_pause]) (simp add: gesture_message_def)

section \<open>The bridge accepts the actions\<close>

lemma message_small:
  assumes "json_size m \<le> 3000000"
  shows "serialized_bytes m \<le> maxInboundBytes"
  using serialized_bytes_le [of m] assms by (simp add: cap_simps)

lemma json_size_jobj: "json_size (jobj ms) = 2 + (\<Sum>(k, v) \<leftarrow> ms. 6 * length k + 4 + json_size v)"
  by (simp add: jobj_def comp_def case_prod_unfold)

lemma ingest_small:
  assumes "json_size (message kind ms) \<le> 3000000" and "List.member SUPPORTED_INBOUND (js kind)"
    and "ingest_kind env ws (js kind) (map (\<lambda>(k, v). (js k, v)) ((''type'', JStr (js kind)) # ms)) = Inr command"
  shows "ingestWebviewMessage env (message kind ms) ws = Accepted command"
proof -
  have "serialized_bytes (message kind ms) \<le> maxInboundBytes" by (rule message_small [OF assms(1)])
  moreover have "0 < length kind \<and> length kind \<le> 64"
    using assms(2) by (auto simp: SUPPORTED_INBOUND_def List.member_iff)
  ultimately show ?thesis
    using assms(2,3) by (simp add: ingestWebviewMessage_def message_def jobj_def Let_def)
qed

lemma required_accepts: "id_ok 4096 i \<Longrightarrow> required_id (JStr i) name = Inr i"
  by (simp add: required_id_def boundedString_accepts cap_simps)

lemma agent_accepts:
  assumes "id_ok 4096 i" and "action \<in> {''pause'', ''resume'', ''retry'', ''cancel'', ''model'', ''budget'', ''steer''}"
  shows "ingestWebviewMessage env (agent_action (JStr i) action []) ws = Accepted (CAgentAction i (js action) None None)"
  unfolding agent_action_def using assms
  by (intro ingest_small)
    (auto simp: json_size_jobj message_def id_ok_def SUPPORTED_INBOUND_def List.member_iff ingest_kind_def ingest_agent_def
      required_accepts AGENT_ACTIONS_def agent_state_def agent_text_def agent_model_def agent_tokens_def nullish_def)

lemma steer_note_accepts:
  assumes "id_ok 4096 i" and "trim steer \<noteq> []" and "length steer \<le> 500"
  shows "ingestWebviewMessage env (agent_action (JStr i) ''steer'' [(''text'', JStr steer)]) ws
     = Accepted (CAgentAction i (js ''steer'') None (Some (trim steer)))"
  unfolding agent_action_def using assms length_trim [of steer]
  by (intro ingest_small)
    (auto simp: json_size_jobj message_def id_ok_def SUPPORTED_INBOUND_def List.member_iff ingest_kind_def ingest_agent_def
      required_accepts AGENT_ACTIONS_def agent_state_def agent_text_def agent_model_def agent_tokens_def nullish_def
      normalizeSteerText_def Let_def cap_simps)

lemma toggle_accepts:
  assumes "id_ok 4096 i" and "st \<in> set PRESENTATION_STATES"
  shows "ingestWebviewMessage env (agent_action (JStr i) ''presentation'' [(''state'', JStr st)]) ws
     = Accepted (CAgentAction i (js ''presentation'') (Some st) None)"
  unfolding agent_action_def using assms
  by (intro ingest_small)
    (auto simp: json_size_jobj message_def id_ok_def SUPPORTED_INBOUND_def List.member_iff ingest_kind_def ingest_agent_def
      required_accepts AGENT_ACTIONS_def PRESENTATION_STATES_def agent_state_def agent_text_def agent_model_def
      agent_tokens_def nullish_def)

definition one_byte :: "jsstr \<Rightarrow> bool" where
  "one_byte s = list_all (\<lambda>c. unit_bytes c = 1) s"

lemma one_byte_not_high: "unit_bytes c = 1 \<Longrightarrow> \<not> is_high c"
  by (auto simp: unit_bytes_def is_high_def word_less_nat_alt word_le_nat_alt split: if_splits)

lemma one_byte_length: "one_byte s \<Longrightarrow> utf8_length s = length s"
  by (induction s rule: utf8_length.induct) (auto simp: one_byte_def one_byte_not_high)

lemma one_byte_take [simp]: "one_byte s \<Longrightarrow> one_byte (take n s)"
  by (auto simp: one_byte_def list_all_iff dest: in_set_takeD)

lemma one_byte_trim [simp]: "one_byte s \<Longrightarrow> one_byte (trim s)"
  by (auto simp: one_byte_def list_all_iff trim_def dest!: set_dropWhileD)

lemma decide_accepts:
  assumes "id_ok 4096 i"
  shows "ingestWebviewMessage env (tournament_action (JStr i) ''decide'' []) ws = Accepted (CTournamentDecide i)"
  unfolding tournament_action_def using assms
  by (intro ingest_small)
    (auto simp: json_size_jobj message_def id_ok_def SUPPORTED_INBOUND_def List.member_iff ingest_kind_def
      ingest_tournament_def required_accepts isNonEmptyStructured_def nullish_def Let_def)

lemma abort_accepts:
  assumes "id_ok 4096 i" and "utf8_length reason \<le> 512"
  shows "ingestWebviewMessage env (tournament_action (JStr i) ''abort'' [(''reason'', JStr reason)]) ws
     = Accepted (CTournamentAbort i (if trim reason = [] then None else Some (trim reason)))"
  unfolding tournament_action_def using assms length_le_utf8_length [of reason]
  by (intro ingest_small)
    (auto simp: json_size_jobj message_def id_ok_def SUPPORTED_INBOUND_def List.member_iff ingest_kind_def
      ingest_tournament_def required_accepts abort_reason_def nullish_def Let_def cap_simps)

lemma length_count: "0 < n \<Longrightarrow> n \<le> max_safe_integer \<Longrightarrow> length (number_string (num_of_int n)) \<le> 16"
  using int_string_safe [of n] length_decimal [of n 16] by (simp add: int_string_def decimal_int_def max_safe_integer_def)

lemma evidence_accepts:
  assumes "0 < n" and "n \<le> max_safe_integer"
  shows "ingestWebviewMessage env (message ''faktorEvidenceExpand'' [(''evidenceId'', JNum (num_of_int n))]) ws
     = Accepted (CEvidenceExpand n)"
  using assms length_count [OF assms]
  by (intro ingest_small)
    (auto simp: json_size_jobj message_def SUPPORTED_INBOUND_def List.member_iff ingest_kind_def ingest_evidence_def
      num_of_int_def int_of_num_def is_integer_def is_safe_integer_def)

lemma read_accepts: "ingestWebviewMessage env board_read ws = Accepted (CBoardRead None None)"
  unfolding board_read_def
  by (intro ingest_small)
    (auto simp: json_size_jobj message_def SUPPORTED_INBOUND_def List.member_iff ingest_kind_def ingest_board_def
      BOARD_ACTIONS_def board_since_def board_limit_def nullish_def)

lemma post_accepts:
  assumes "trim subject \<noteq> []" "utf8_length subject \<le> 512" "length body \<le> 4096"
  shows "ingestWebviewMessage env (message ''faktorBoardAction''
       [(''action'', JStr (js ''post'')), (''subject'', JStr subject), (''body'', JStr body)]) ws
     = Accepted (CBoardPost (trim subject) (Some body) [])"
  using assms length_le_utf8_length [of subject] utf8_length_le [of body]
  by (intro ingest_small)
    (auto simp: json_size_jobj message_def SUPPORTED_INBOUND_def List.member_iff ingest_kind_def ingest_board_def
      ingest_board_post_def board_body_def board_refs_def BOARD_ACTIONS_def nullish_def cap_simps)

section \<open>The panel of a snapshot\<close>

definition showing :: "faktor_snapshot \<Rightarrow> companion \<Rightarrow> companion" where
  "showing s c = foldl (\<lambda>d m. panel_handle m d) c (panel_messages s)"

lemma withinFrameBudget_subset: "set (withinFrameBudget items budget) \<subseteq> set items"
  by (induction items budget rule: withinFrameBudget.induct) (auto simp: Let_def)

lemma member_of_message [simp]:
  "member_of (message kind ms) k = (if k = ''type'' then JStr (js kind)
     else case map_of ms k of Some v \<Rightarrow> v | None \<Rightarrow> JUndef)"
  by (simp add: message_def)

lemma snapshot_agents:
  "a \<in> set (take 64 (array_items (member_of (faktorAgentsMessage s) ''agents'')))
     \<Longrightarrow> \<exists>agent \<in> set (fsAgents s). a = agent_card agent"
  using withinFrameBudget_subset
  by (fastforce simp: faktorAgentsMessage_def Let_def array_items_def dest!: in_set_takeD)

lemma card_members:
  "member_of (agent_card a) ''agentId'' = JStr (asAgentId a)" "or_else (agent_card a) v = agent_card a"
  by (simp_all add: agent_card_def)

lemma tournament_members:
  assumes "tournament = member_of (faktorTournamentMessage s) ''tournament''"
  shows "member_of tournament ''id'' = (case fsTournament s of Some t \<Rightarrow> JStr (clampPanel (tvId t) 128) | None \<Rightarrow> JUndef)"
    and "member_of tournament ''canDecide'' = (case fsTournament s of Some t \<Rightarrow> JBool (tvCanDecide t) | None \<Rightarrow> JUndef)"
    and "member_of tournament ''open'' = (case fsTournament s of Some t \<Rightarrow> JBool (tvOpen t) | None \<Rightarrow> JUndef)"
  using assms by (auto simp: faktorTournamentMessage_def member_of_def [of JNull] Let_def split: option.split)

lemma pushed_refs:
  "set (snd (foldl push_ref acc refs)) \<subseteq> set (snd acc) \<union> ref_value ` set refs"
proof (induction refs arbitrary: acc)
  case (Cons ref refs)
  have "set (snd (push_ref acc ref)) \<subseteq> insert (ref_value ref) (set (snd acc))"
    by (auto simp: push_ref_def split: prod.split)
  with Cons [of "push_ref acc ref"] show ?case by auto
qed simp

lemma snapshot_refs:
  assumes "ref \<in> set (array_items (member_of (faktorEvidenceRefsMessage s) ''refs''))"
  obtains sec e where "sec \<in> set (fsCockpitSections s)" "e \<in> set (ckEvidence sec)" "ref = ref_value e"
proof -
  from assms have "ref \<in> set (snd (foldl push_ref ([], []) (concat (map ckEvidence (fsCockpitSections s)))))"
    by (simp add: faktorEvidenceRefsMessage_def array_items_def)
  with pushed_refs [of "([], [])"] that show thesis by fastforce
qed

lemma board_available:
  "member_of (faktorBoardStateMessage s) ''available'' = JBool (case fsBoard s of Some b \<Rightarrow> bsAvailable b | None \<Rightarrow> False)"
  by (simp add: faktorBoardStateMessage_def Let_def split: option.split)

lemma message_kinds:
  "member_of (faktorTaskStateMessage s) ''type'' = JStr (js ''faktorTaskState'')"
  "member_of (faktorAgentsMessage s) ''type'' = JStr (js ''faktorAgents'')"
  "member_of (faktorCockpitMessage s) ''type'' = JStr (js ''faktorCockpit'')"
  "member_of (faktorTournamentMessage s) ''type'' = JStr (js ''faktorTournament'')"
  "member_of (faktorEvidenceRefsMessage s) ''type'' = JStr (js ''faktorEvidence'')"
  "member_of (faktorEvidenceRefsMessage s) ''mode'' = JStr (js ''refs'')"
  "member_of (faktorBoardStateMessage s) ''type'' = JStr (js ''faktorBoardState'')"
  by (simp_all add: faktorTaskStateMessage_def faktorAgentsMessage_def faktorCockpitMessage_def
      faktorTournamentMessage_def faktorEvidenceRefsMessage_def faktorBoardStateMessage_def Let_def split: option.split)

lemma render_fields [simp]:
  "cnAgents (render_panel c) = cnAgents c" "cnTournament (render_panel c) = cnTournament c"
  "cnEvidence (render_panel c) = cnEvidence c" "cnBoard (render_panel c) = cnBoard c"
  by (simp_all add: render_panel_def split: option.split)

lemma showing_fields:
  "cnAgents (showing s c) = faktorAgentsMessage s" "cnTournament (showing s c) = faktorTournamentMessage s"
  "cnEvidence (showing s c) = refs_state (JArr (take 64 (array_items (member_of (faktorEvidenceRefsMessage s) ''refs''))))"
  "cnBoard (showing s c) = faktorBoardStateMessage s"
  by (simp_all add: showing_def panel_messages_def panel_handle_def message_kinds TYPES_def List.member_iff
      store_message_def handle_evidence_def Let_def)

lemma showing_run: "companion_run c \<Longrightarrow> companion_run (showing s c)"
  by (simp add: showing_def panel_messages_def companion_run.handled)

text \<open>
  The identifiers fit the bridge and the cockpit: an agent id is trimmed, not empty and has at most
  4096 units, the id of the tournament at most 128, and the evidence numbers are positive safe
  integers.
\<close>

definition panel_sound :: "faktor_snapshot \<Rightarrow> bool" where
  "panel_sound s \<longleftrightarrow>
     list_all (\<lambda>a. id_ok 4096 (asAgentId a)) (fsAgents s)
     \<and> pred_option (\<lambda>t. id_ok 128 (tvId t)) (fsTournament s)
     \<and> list_all (\<lambda>sec. list_all (\<lambda>e. pred_option (\<lambda>x. is_safe_integer x \<and> 0 < int_of_num x) (erId e)) (ckEvidence sec))
         (fsCockpitSections s)"

text \<open>A command about something the snapshot shows.\<close>

definition command_for :: "faktor_snapshot \<Rightarrow> bridge_command \<Rightarrow> bool" where
  "command_for s command =
     (case command of
        CAgentAction i action state note \<Rightarrow> \<exists>a \<in> set (fsAgents s). asAgentId a = i
      | CTournamentDecide i \<Rightarrow> \<exists>t. fsTournament s = Some t \<and> tvId t = i \<and> tvCanDecide t
      | CTournamentAbort i reason \<Rightarrow> \<exists>t. fsTournament s = Some t \<and> tvId t = i \<and> tvOpen t
      | CEvidenceExpand n \<Rightarrow>
          \<exists>sec \<in> set (fsCockpitSections s). \<exists>e \<in> set (ckEvidence sec). erId e = Some (num_of_int n)
      | CBoardRead since limit \<Rightarrow> True
      | CBoardPost subject body refs \<Rightarrow> \<exists>b. fsBoard s = Some b \<and> bsAvailable b
      | _ \<Rightarrow> False)"

lemma agent_done:
  assumes "ingestWebviewMessage env m ws = Accepted (CAgentAction (asAgentId a) x y z)" and "a \<in> set (fsAgents s)"
  shows "\<exists>command. ingestWebviewMessage env m ws = Accepted command \<and> command_for s command"
  using assms by (auto simp: command_for_def)

lemma agent_command:
  assumes "agent_allows (agent_card a) m" and ok: "id_ok 4096 (asAgentId a)" and a: "a \<in> set (fsAgents s)"
  shows "\<exists>command. ingestWebviewMessage env m ws = Accepted command \<and> command_for s command"
proof -
  have i: "member_of (agent_card a) ''agentId'' = JStr (asAgentId a)" by (simp add: agent_card_def)
  have st: "(if b then js ''foreground'' else js ''background'') \<in> set PRESENTATION_STATES" for b
    by (simp add: PRESENTATION_STATES_def)
  have plain: ?thesis if "m = agent_action (JStr (asAgentId a)) action []"
    "action \<in> {''pause'', ''resume'', ''retry'', ''cancel'', ''model'', ''budget'', ''steer''}" for action
    using agent_done [OF agent_accepts [OF ok that(2)] a] that(1) by simp
  show ?thesis
    using assms(1) unfolding agent_allows_def i Let_def
  proof (elim disjE conjE exE bexE)
    fix steer
    assume "m = agent_action (JStr (asAgentId a)) ''steer'' [(''text'', JStr steer)]" "trim steer \<noteq> []" "length steer \<le> 500"
    then show ?thesis using agent_done [OF steer_note_accepts [OF ok] a] by simp
  next
    assume "m = agent_action (JStr (asAgentId a)) ''presentation'' [(''state'', JStr
        (if member_of (agent_card a) ''presentation'' = JStr (js ''background'')
         then js ''foreground'' else js ''background''))]"
    then show ?thesis using agent_done [OF toggle_accepts [OF ok st] a] by simp
  qed (erule plain, force)+
qed

lemma tournament_command:
  assumes "tournament_allows typed (member_of (faktorTournamentMessage s) ''tournament'') m" and "panel_sound s"
    and "one_byte (typed FAbort)"
  shows "\<exists>command. ingestWebviewMessage env m ws = Accepted command \<and> command_for s command"
proof -
  obtain t where t: "fsTournament s = Some t"
    using assms(1) by (cases "fsTournament s") (simp_all add: tournament_allows_def tournament_members [OF refl])
  with assms(2) have ok: "id_ok 128 (tvId t)" by (simp add: panel_sound_def)
  then have i: "clampPanel (tvId t) 128 = tvId t" and wide: "id_ok 4096 (tvId t)"
    by (simp_all add: clampPanel_def id_ok_def)
  have bytes: "utf8_length (take 512 (typed FAbort)) \<le> 512" using assms(3) by (simp add: one_byte_length)
  from assms(1) consider "m = tournament_action (JStr (tvId t)) ''decide'' []" "tvCanDecide t"
    | "m = tournament_action (JStr (tvId t)) ''abort'' [(''reason'', JStr (take 512 (typed FAbort)))]" "tvOpen t"
    by (auto simp: tournament_allows_def tournament_members [OF refl] t i)
  then show ?thesis
  proof cases
    case 1
    with decide_accepts [OF wide] t show ?thesis by (auto simp: command_for_def)
  next
    case 2
    with abort_accepts [OF wide bytes] t show ?thesis by (auto simp: command_for_def)
  qed
qed

lemma evidence_command:
  assumes "evidence_allows (refs_state (JArr (take 64 (array_items (member_of (faktorEvidenceRefsMessage s) ''refs''))))) m"
    and "panel_sound s"
  shows "\<exists>command. ingestWebviewMessage env m ws = Accepted command \<and> command_for s command"
proof -
  from assms(1) obtain ref x where "ref \<in> set (take 64 (array_items (member_of (faktorEvidenceRefsMessage s) ''refs'')))"
    and x: "member_of ref ''id'' = JNum x" and m: "m = message ''faktorEvidenceExpand'' [(''evidenceId'', JNum x)]"
    by (auto simp: evidence_allows_def refs_state_def member_of_def [of "JObj _"] array_items_def)
  then obtain sec e where e: "sec \<in> set (fsCockpitSections s)" "e \<in> set (ckEvidence sec)" "ref = ref_value e"
    using snapshot_refs in_set_takeD by metis
  with x have ex: "erId e = Some x" by (auto simp: ref_value_def opt_value_def split: option.splits)
  with assms(2) e(1,2) have "pred_option (\<lambda>x. is_safe_integer x \<and> 0 < int_of_num x) (Some x)"
    unfolding panel_sound_def list_all_iff by metis
  then have sound: "is_safe_integer x" "0 < int_of_num x" by simp_all
  then have "x = num_of_int (int_of_num x)" "int_of_num x \<le> max_safe_integer"
    by (auto simp: is_safe_integer_def is_integer_def num_of_int_def int_of_num_def split: jsnum.splits)
  with evidence_accepts [OF sound(2)] m have "ingestWebviewMessage env m ws = Accepted (CEvidenceExpand (int_of_num x))"
    by metis
  with e ex \<open>x = num_of_int (int_of_num x)\<close> show ?thesis by (force simp: command_for_def)
qed

lemma board_command:
  assumes "board_allows typed (faktorBoardStateMessage s) m" and "one_byte (typed FSubject)"
  shows "\<exists>command. ingestWebviewMessage env m ws = Accepted command \<and> command_for s command"
  using assms(1) unfolding board_allows_def
proof (elim disjE conjE)
  assume "m = board_read"
  with read_accepts show ?thesis by (auto simp: command_for_def)
next
  assume m: "m = message ''faktorBoardAction''
      [(''action'', JStr (js ''post'')), (''subject'', JStr (take 256 (trim (typed FSubject)))),
       (''body'', JStr (take 4096 (typed FBody)))]"
    and "trim (typed FSubject) \<noteq> []" and av: "member_of (faktorBoardStateMessage s) ''available'' = JBool True"
  then have subject: "trim (take 256 (trim (typed FSubject))) \<noteq> []" by (intro trim_take_trim) simp_all
  have bytes: "utf8_length (take 256 (trim (typed FSubject))) \<le> 512" using assms(2) by (simp add: one_byte_length)
  from av obtain b where "fsBoard s = Some b" "bsAvailable b"
    by (auto simp: board_available split: option.splits)
  with m post_accepts [OF subject bytes, of "take 4096 (typed FBody)"] show ?thesis by (auto simp: command_for_def)
qed

text \<open>
  C10.  From the panel to the bridge: once the panel has handled the messages of a snapshot, every
  action any of its buttons posts is accepted by the bridge, and the command it becomes is about
  something the snapshot shows: one of its agents, its tournament (decided only when it can be,
  aborted only when it is open), one of its evidence artifacts, its board.  The identifiers fit the bridge, and
  the abort reason and the subject are typed in one-byte characters.
\<close>

theorem companion_actions_accepted:
  assumes "companion_run c" and sound: "panel_sound s" and "g \<in> set (panel_gestures (showing s c))"
    and "gesture_message typed g = Some m" and "one_byte (typed FAbort)" and "one_byte (typed FSubject)"
  shows "\<exists>command. ingestWebviewMessage env m ws = Accepted command \<and> command_for s command"
proof -
  from showing_run [OF assms(1)] have "panel_allows (showing s c) typed m"
    using assms(3,4) by (intro allowed_in_step in_step_run)
  then consider entry where "entry \<in> set (take 64 (array_items (member_of (faktorAgentsMessage s) ''agents'')))"
      "agent_allows (or_else entry (JObj [])) m"
    | "tournament_allows typed (member_of (faktorTournamentMessage s) ''tournament'') m"
    | "evidence_allows (cnEvidence (showing s c)) m"
    | "board_allows typed (faktorBoardStateMessage s) m"
    unfolding panel_allows_def showing_fields by blast
  then show ?thesis
  proof cases
    case 1
    then obtain a where "a \<in> set (fsAgents s)" "entry = agent_card a" using snapshot_agents by blast
    with 1(2) sound show ?thesis by (intro agent_command [of a]) (auto simp: card_members panel_sound_def list_all_iff)
  next
    case 2
    then show ?thesis using sound assms(5) by (rule tournament_command)
  next
    case 3
    then show ?thesis using sound evidence_command unfolding showing_fields by blast
  next
    case 4
    then show ?thesis using assms(6) by (rule board_command)
  qed
qed

definition demo_tournament :: tournament_view where
  "demo_tournament = \<lparr>tvId = js ''t'', tvState = js ''open'', tvOpen = True, tvCanDecide = True, tvWinner = None,
     tvCriteria = [], tvCandidates = []\<rparr>"

definition demo_shown :: faktor_snapshot where
  "demo_shown =
     \<lparr>fsDaemon = DRunning, fsDaemonDetail = [], fsBaseUrl = None, fsSession = None, fsMachineState = [],
      fsMachineLabel = [], fsSessions = [], fsRuns = [], fsActiveRunId = None, fsAgents = [], fsTask = None,
      fsVerification = None, fsUsage = None, fsCockpit = None, fsCockpitSections = [],
      fsTournament = Some demo_tournament, fsBoard = None, fsTranscript = [], fsStreamStatus = [],
      fsLastError = None, fsBusy = False\<rparr>"

lemma showing_panel:
  "cnPanel c \<noteq> None \<Longrightarrow> cnPanel (showing s c) \<noteq> None"
  by (auto simp: showing_def panel_messages_def panel_handle_def render_panel_def message_kinds TYPES_def
      List.member_iff store_message_def handle_evidence_def Let_def split: option.splits)

lemma demo_decide:
  "GPost (tournament_action (JStr (js ''t'')) ''decide'' []) \<in> set (panel_gestures (showing demo_shown demo_companion))"
proof -
  let ?c = "showing demo_shown demo_companion"
  have "cnPanel demo_companion \<noteq> None"
    by (simp add: demo_companion_def demo_agents_def panel_handle_def TYPES_def List.member_iff
        store_message_def render_panel_def mount_def new_companion_def)
  then obtain nodes where "cnPanel ?c = Some nodes" using showing_panel [of demo_companion demo_shown] by auto
  with in_step_run [OF showing_run [OF demo_companion_run], of demo_shown]
  have "panel_gestures ?c = concat (map gestures_of (panel_nodes ?c))"
    by (simp add: panel_gestures_def in_step_def)
  moreover have "GPost (tournament_action (JStr (js ''t'')) ''decide'' [])
      \<in> set (gestures_of (tournament_panel (faktorTournamentMessage demo_shown)))"
    by (simp add: tournament_panel_def faktorTournamentMessage_def demo_shown_def demo_tournament_def Let_def
        truthy_value_def message_def jobj_def tournament_actions_def clampPanel_def member_of_def)
  ultimately show ?thesis by (simp add: panel_nodes_def showing_fields)
qed

theorem companion_actions_accepted_witness:
  "\<exists>command. ingestWebviewMessage posix (tournament_action (JStr (js ''t'')) ''decide'' []) None = Accepted command
     \<and> command_for demo_shown command"
proof -
  have "id_ok 128 (js ''t'')" by code_simp
  then have "panel_sound demo_shown" by (simp add: panel_sound_def demo_shown_def demo_tournament_def)
  from companion_actions_accepted [OF demo_companion_run this demo_decide, of "\<lambda>_. []"] show ?thesis
    by (simp add: gesture_message_def one_byte_def)
qed

section \<open>What the panel loses\<close>

text \<open>Every message for the panel empties its input fields, whatever was being typed.\<close>

lemma message_clears_input:
  assumes "cnPanel c \<noteq> None" and "member_of data ''type'' = JStr kind" and "List.member TYPES kind"
  shows "cnTyped (panel_handle data c) = (\<lambda>_. [])"
proof -
  have "cnPanel (store_message kind data c) = cnPanel c"
    by (simp add: store_message_def handle_evidence_def Let_def)
  with assms show ?thesis by (auto simp: panel_handle_def render_panel_def)
qed

text \<open>An expanded artifact is shown until the next snapshot, whose references replace it.\<close>

lemma snapshot_closes_evidence:
  "member_of (cnEvidence (showing s c)) ''mode'' = JStr (js ''refs'')"
  by (simp add: showing_fields refs_state_def member_of_def)

text \<open>The id of a tournament is cut for display, and the cut id is posted.\<close>

lemma long_tournament_id_posted:
  assumes "fsTournament s = Some t" and "128 < length (tvId t)"
    and "m = tournament_action (member_of (member_of (faktorTournamentMessage s) ''tournament'') ''id'') ''decide'' []"
  shows "m = tournament_action (JStr (take 128 (tvId t) @ ellipsis)) ''decide'' []"
  using assms by (simp add: tournament_members [OF refl] clampPanel_def)

text \<open>The panel bounds units, the bridge bytes: a subject or a reason in a wide script is refused.\<close>

lemma wide_subject_refused:
  assumes "512 < utf8_length subject" and "trim subject \<noteq> []"
  shows "ingest_board_post [(js ''subject'', JStr subject), (js ''body'', JStr body)]
     = refuse ''faktorBoardAction.subject exceeds 512 bytes''"
  using assms by (simp add: ingest_board_post_def cap_simps)

lemma wide_reason_refused:
  "512 < utf8_length reason \<Longrightarrow> abort_reason (JStr reason) kind = Inl (kind @ js ''.reason exceeds 512 bytes'')"
  by (simp add: abort_reason_def nullish_def cap_simps)

end
