(* ===== verification/Staging.thy ===== *)
theory Staging
  imports BundleShell Encoding Checked "HOL-Library.List_Lexorder"
begin

text \<open>
  The staging of the webview bundle for a package, \<open>apps/vscode/scripts/prepare-vendored-webview.mjs\<close>
  with the closure of \<open>ui/kilo-v756-webview/dist/toolchain/build-webview.mjs\<close>: the pinned files and
  the companion overlay are checked against their manifests, copied into a directory of its own
  and read back.

  The disk is a tree, and an absolute path the list of its segments; \<open>join\<close> normalises.  The
  script runs alone: what it reads does not change while it runs, and the directory it writes is
  new and not a part of what it reads.  The SHA-256 digest and the UTF-8 decoder are parameters.
\<close>

section \<open>The disk\<close>

text \<open>A link carries what it resolves to, \<open>None\<close> when it dangles.\<close>

datatype tree =
    File "8 word list"
  | Dir "(jsstr \<times> tree) list"
  | Link "tree option"
  | Special

fun followed :: "tree \<Rightarrow> tree option" where
  "followed (Link None) = None"
| "followed (Link (Some t)) = followed t"
| "followed t = Some t"

fun entry_at :: "jsstr list \<Rightarrow> tree \<Rightarrow> tree option" where
  "entry_at [] t = followed t"
| "entry_at (s # ss) t =
     (case followed t of
        Some (Dir entries) \<Rightarrow> (case map_of entries s of Some u \<Rightarrow> entry_at ss u | None \<Rightarrow> None)
      | _ \<Rightarrow> None)"

text \<open>\<open>join(root, ...segments)\<close>\<close>

definition joined_path :: "jsstr list \<Rightarrow> jsstr list \<Rightarrow> jsstr list" where
  "joined_path dir ss = normal_segments True [] (dir @ ss)"

definition path_text :: "jsstr list \<Rightarrow> jsstr" where
  "path_text ss = 47 # join [47] ss"

record checkout =
  coDisk :: tree
  coRoot :: "jsstr list"
  coDigest :: "8 word list \<Rightarrow> jsstr"
  coDecode :: "8 word list \<Rightarrow> jsstr"

text \<open>\<open>statSync\<close> and \<open>existsSync\<close> follow links, \<open>readFileSync\<close> reads regular files.\<close>

definition stat_at :: "checkout \<Rightarrow> jsstr list \<Rightarrow> tree option" where
  "stat_at c p = entry_at p (coDisk c)"

definition exists_at :: "checkout \<Rightarrow> jsstr list \<Rightarrow> bool" where
  "exists_at c p = (stat_at c p \<noteq> None)"

definition file_at :: "checkout \<Rightarrow> jsstr list \<Rightarrow> 8 word list option" where
  "file_at c p = (case stat_at c p of Some (File b) \<Rightarrow> Some b | _ \<Rightarrow> None)"

text \<open>What the script throws: its own errors, and those of the runtime, whose texts are not modelled.\<close>

datatype stage_error = Thrown jsstr | IoError | TypeErr | SyntaxErr

definition read_file :: "checkout \<Rightarrow> jsstr list \<Rightarrow> stage_error + 8 word list" where
  "read_file c p = (case file_at c p of Some b \<Rightarrow> Inr b | None \<Rightarrow> Inl IoError)"

definition read_json :: "checkout \<Rightarrow> jsstr list \<Rightarrow> stage_error + jsval" where
  "read_json c p =
     and_then (read_file c p)
       (\<lambda>b. case json_parse (coDecode c b) of Some v \<Rightarrow> Inr v | None \<Rightarrow> Inl SyntaxErr)"

definition check_that :: "bool \<Rightarrow> jsstr \<Rightarrow> stage_error + unit" where
  "check_that b m = (if b then Inr () else Inl (Thrown m))"

text \<open>\<open>value.key\<close>; it throws for \<open>null\<close> and \<open>undefined\<close>.\<close>

definition property_of :: "jsval \<Rightarrow> string \<Rightarrow> stage_error + jsval" where
  "property_of v k =
     (if nullish v then Inl TypeErr else Inr (case v of JObj ps \<Rightarrow> jget ps (js k) | _ \<Rightarrow> JUndef))"

text \<open>\<open>value ?? []\<close>, to be iterated\<close>

definition items_or_none :: "jsval \<Rightarrow> stage_error + jsval list" where
  "items_or_none v =
     (if nullish v then Inr [] else (case v of JArr vs \<Rightarrow> Inr vs | _ \<Rightarrow> Inl TypeErr))"

definition json_text :: "jsval \<Rightarrow> jsstr" where
  "json_text v = (case stringify v of Some t \<Rightarrow> t | None \<Rightarrow> js ''undefined'')"

definition sourceDist :: "checkout \<Rightarrow> jsstr list" where
  "sourceDist c = coRoot c @ map js [''ui'', ''kilo-v756-webview'', ''dist'']"

definition overlayDir :: "checkout \<Rightarrow> jsstr list" where
  "overlayDir c = sourceDist c @ map js [''toolchain'', ''overlay'']"

definition buildManifest :: "checkout \<Rightarrow> jsstr list" where
  "buildManifest c = sourceDist c @ [js ''build-manifest.json'']"

definition overlay_manifest_name :: jsstr where
  "overlay_manifest_name = js ''overlay-manifest.json''"

definition stagedOverlayDir :: jsstr where
  "stagedOverlayDir = js ''dist/overlay''"

section \<open>The overlay\<close>

text \<open>Every regular file, with its bytes; a link has none.\<close>

function walkFiles :: "jsstr \<Rightarrow> (jsstr \<times> tree) list \<Rightarrow> (jsstr \<times> 8 word list option) list" where
  "walkFiles prefix [] = []"
| "walkFiles prefix ((name, t) # entries) =
     (let rel = (if length prefix > 0 then prefix @ 47 # name else name)
      in (case t of
            Link _ \<Rightarrow> [(rel, None)]
          | Dir kids \<Rightarrow> walkFiles rel kids
          | File b \<Rightarrow> [(rel, Some b)]
          | Special \<Rightarrow> []) @ walkFiles prefix entries)"
  by pat_completeness auto
termination
  by (relation "measure (\<lambda>(prefix, entries). size_list (size_prod (\<lambda>_. 0) size) entries)") auto

definition overlayPathProblem :: "jsval \<Rightarrow> jsstr option" where
  "overlayPathProblem v =
     (case v of
        JStr path \<Rightarrow>
          if length path = 0 \<or> length path > 256 then Some (js ''overlay file path must be a bounded non-empty string'')
          else if List.member path 92 \<or> List.member path 0 \<or> starts_with [47] path
          then Some (js ''overlay file path '' @ quote path @ js '' must be relative and POSIX'')
          else if list_ex (\<lambda>s. s = [] \<or> s = [46] \<or> s = dot_dot) (segments path)
          then Some (js ''overlay file path '' @ quote path @ js '' carries traversal segments'')
          else None
      | _ \<Rightarrow> Some (js ''overlay file path must be a bounded non-empty string''))"

text \<open>\<open>/^[0-9a-f]{64}$/\<close>\<close>

definition sha_digest :: "jsstr \<Rightarrow> bool" where
  "sha_digest s = (length s = 64 \<and> list_all (\<lambda>c. 48 \<le> c \<and> c \<le> 57 \<or> 97 \<le> c \<and> c \<le> 102) s)"

record pin =
  pnPath :: jsstr
  pnSha :: jsstr
  pnSize :: int

definition pin_of :: "jsstr list \<Rightarrow> jsval \<Rightarrow> stage_error + pin" where
  "pin_of seen file =
     and_then (property_of file ''path'') (\<lambda>path.
       case overlayPathProblem path of
         Some problem \<Rightarrow> Inl (Thrown problem)
       | None \<Rightarrow>
           (let p = to_string path
            in and_then (check_that (\<not> List.member seen p) (js ''duplicate overlay file entry '' @ p)) (\<lambda>_.
               and_then (property_of file ''sha256'') (\<lambda>sha.
               and_then (check_that (case sha of JStr s \<Rightarrow> sha_digest s | _ \<Rightarrow> False)
                 (js ''overlay file '' @ p @ js '' has no sha256 hash'')) (\<lambda>_.
               and_then (property_of file ''size'') (\<lambda>n.
               and_then (check_that (case n of JNum x \<Rightarrow> is_integer x \<and> int_of_num x > 0 | _ \<Rightarrow> False)
                 (js ''overlay file '' @ p @ js '' has no integer size'')) (\<lambda>_.
               Inr \<lparr>pnPath = p, pnSha = to_string sha,
                    pnSize = (case n of JNum x \<Rightarrow> int_of_num x | _ \<Rightarrow> 0)\<rparr>)))))))"

fun pins_of :: "jsstr list \<Rightarrow> jsval list \<Rightarrow> stage_error + pin list" where
  "pins_of seen [] = Inr []"
| "pins_of seen (file # files) =
     and_then (pin_of seen file) (\<lambda>pin. and_then (pins_of (pnPath pin # seen) files) (\<lambda>pins. Inr (pin # pins)))"

definition loadOverlayManifest :: "checkout \<Rightarrow> jsstr list \<Rightarrow> stage_error + jsval \<times> pin list" where
  "loadOverlayManifest c dir =
     (let path = dir @ [overlay_manifest_name]
      in and_then (check_that (exists_at c path) (js ''overlay manifest missing at '' @ path_text path)) (\<lambda>_.
         and_then (read_json c path) (\<lambda>manifest.
         and_then (property_of manifest ''schema'') (\<lambda>schema.
         and_then (check_that (schema = JStr (js ''faktor.webview-overlay-manifest/1''))
           (js ''unknown overlay manifest schema '' @ json_text schema)) (\<lambda>_.
         and_then (property_of manifest ''target'') (\<lambda>target.
         and_then (check_that (target = JStr stagedOverlayDir)
           (js ''overlay manifest target must be '' @ stagedOverlayDir)) (\<lambda>_.
         and_then (property_of manifest ''files'') (\<lambda>files.
         and_then (check_that (case files of JArr vs \<Rightarrow> vs \<noteq> [] | _ \<Rightarrow> False) (js ''overlay manifest lists no files'')) (\<lambda>_.
         and_then (pins_of [] (case files of JArr vs \<Rightarrow> vs | _ \<Rightarrow> [])) (\<lambda>pins. Inr (manifest, pins)))))))))))"

text \<open>The error of one pinned file, if it has one.\<close>

definition pin_error :: "checkout \<Rightarrow> jsstr list \<Rightarrow> pin \<Rightarrow> jsstr option" where
  "pin_error c dir p =
     (case stat_at c (joined_path dir (segments (pnPath p))) of
        None \<Rightarrow> Some (js ''missing: '' @ pnPath p)
      | Some (File b) \<Rightarrow>
          if coDigest c b \<noteq> pnSha p \<or> int (length b) \<noteq> pnSize p
          then Some (js ''hash mismatch: '' @ pnPath p @ js '' (expected '' @ pnSha p @ 47 # number_string (num_of_int (pnSize p))
                 @ js '', got '' @ coDigest c b @ 47 # number_string (num_of_int (int (length b))) @ js '')'')
          else None
      | Some _ \<Rightarrow> Some (js ''not a regular file: '' @ pnPath p))"

definition entry_error :: "pin list \<Rightarrow> jsstr \<times> 8 word list option \<Rightarrow> jsstr option" where
  "entry_error pins entry =
     (case entry of
        (rel, None) \<Rightarrow> Some (js ''symlink not allowed in the overlay: '' @ rel)
      | (rel, Some b) \<Rightarrow>
          if rel \<notin> set (map pnPath pins) \<and> rel \<noteq> overlay_manifest_name
          then Some (js ''unexpected overlay file: '' @ rel) else None)"

record overlay_report =
  orOk :: bool
  orChecked :: nat
  orErrors :: "jsstr list"

definition directory_entries :: "checkout \<Rightarrow> jsstr list \<Rightarrow> (jsstr \<times> tree) list" where
  "directory_entries c dir = (case stat_at c dir of Some (Dir entries) \<Rightarrow> entries | _ \<Rightarrow> [])"

text \<open>\<open>Inl\<close> is the error of the manifest, whose text is the only error of the report.\<close>

definition verifyOverlay :: "checkout \<Rightarrow> jsstr list \<Rightarrow> stage_error + overlay_report" where
  "verifyOverlay c dir =
     and_then (loadOverlayManifest c dir) (\<lambda>(manifest, pins).
       (let errors = List.map_filter (pin_error c dir) pins
              @ List.map_filter (entry_error pins) (walkFiles [] (directory_entries c dir))
        in Inr \<lparr>orOk = (length errors = 0),
                orChecked = length (filter (\<lambda>p. pin_error c dir p = None) pins), orErrors = errors\<rparr>))"

section \<open>The closure\<close>

text \<open>The groups of \<open>/url\<bslash>(([^)]*)\<bslash>)/g\<close>.\<close>

function css_urls :: "jsstr \<Rightarrow> jsstr list" where
  "css_urls [] = []"
| "css_urls (c # s) =
     (let r = drop 4 (c # s); body = takeWhile (\<lambda>d. d \<noteq> 41) r
      in if starts_with (js ''url('') (c # s) \<and> length body < length r
         then body # css_urls (drop (length body + 1) r)
         else css_urls s)"
  by pat_completeness auto
termination
  by (relation "measure length") (auto simp: starts_with_def)

definition is_quote :: "cunit \<Rightarrow> bool" where
  "is_quote c = (c = 39 \<or> c = 34)"

definition unquoted :: "jsstr \<Rightarrow> jsstr" where
  "unquoted s =
     (let t = (case s of c # r \<Rightarrow> if is_quote c then r else s | [] \<Rightarrow> [])
      in if t \<noteq> [] \<and> is_quote (last t) then butlast t else t)"

definition css_ref :: "jsstr \<Rightarrow> jsstr option" where
  "css_ref inner =
     (let ref = takeWhile (\<lambda>c. c \<noteq> 63 \<and> c \<noteq> 35) (unquoted (trim inner))
      in if length ref = 0 \<or> is_remote ref then None
         else Some (if starts_with [46, 47] ref then drop 2 ref else ref))"

definition cssAssetRefs :: "jsstr \<Rightarrow> jsstr list" where
  "cssAssetRefs css = sort (remdups (List.map_filter css_ref (css_urls css)))"

record closure_file =
  cfPath :: jsstr
  cfAbs :: "jsstr list"
  cfSize :: nat
  cfSha :: jsstr

definition ENTRY_FILES :: "jsstr list" where
  "ENTRY_FILES = map js [''webview.js'', ''webview.css'', ''shiki-worker.js'', ''markdown-shiki-worker.js'']"

definition OPTIONAL_ENTRY_FILES :: "jsstr list" where
  "OPTIONAL_ENTRY_FILES = [js ''index.html'']"

definition closure_file_at :: "checkout \<Rightarrow> jsstr \<times> jsstr list \<Rightarrow> stage_error + closure_file" where
  "closure_file_at c entry =
     (case entry of (rel, p) \<Rightarrow>
        and_then (read_file c p)
          (\<lambda>b. Inr \<lparr>cfPath = rel, cfAbs = p, cfSize = length b, cfSha = coDigest c b\<rparr>))"

definition asset_at :: "checkout \<Rightarrow> jsstr list \<Rightarrow> jsstr \<Rightarrow> stage_error + jsstr \<times> jsstr list" where
  "asset_at c distDir ref =
     (let p = joined_path distDir (segments ref)
      in and_then (check_that (file_at c p \<noteq> None \<and> last ref \<noteq> 47) (js ''webview.css references a missing asset: '' @ ref))
           (\<lambda>_. Inr (ref, p)))"

text \<open>\<open>walk\<close> of the icons, each with its path below \<open>assets/icons\<close>.\<close>

definition icon_entries :: "checkout \<Rightarrow> jsstr list \<Rightarrow> stage_error + (jsstr \<times> jsstr list) list" where
  "icon_entries c icons =
     (case stat_at c icons of
        None \<Rightarrow> Inr []
      | Some (Dir entries) \<Rightarrow>
          (let found = walkFiles [] entries
           in case filter (\<lambda>e. snd e = None) found of
                e # _ \<Rightarrow> Inl (Thrown (js ''refusing symlink in build output: '' @ fst e))
              | [] \<Rightarrow>
                  Inr (map (\<lambda>e. (js ''assets/icons/'' @ fst e, joined_path icons (segments (fst e)))) (sort_key fst found)))
      | Some _ \<Rightarrow> Inl IoError)"

text \<open>\<open>buildClosure(dist, icons)\<close> with the directory of the icons below \<open>dist\<close>.\<close>

definition buildClosure :: "checkout \<Rightarrow> jsstr list \<Rightarrow> stage_error + closure_file list" where
  "buildClosure c distDir =
     (let place = (\<lambda>name. joined_path distDir [name]);
          missing = filter (\<lambda>name. \<not> exists_at c (place name)) ENTRY_FILES;
          present = filter (\<lambda>name. exists_at c (place name)) (ENTRY_FILES @ OPTIONAL_ENTRY_FILES)
      in and_then (check_that (missing = [])
           (js ''upstream dist is not a chat-webview build; missing '' @ join (js '', '') missing)) (\<lambda>_.
         and_then (read_file c (place (js ''webview.css''))) (\<lambda>css.
         and_then (check_all 0 (\<lambda>i ref. asset_at c distDir ref) (cssAssetRefs (coDecode c css))) (\<lambda>assets.
         and_then (icon_entries c (joined_path distDir (map js [''assets'', ''icons'']))) (\<lambda>icons.
         and_then (check_all 0 (\<lambda>i e. closure_file_at c e) (map (\<lambda>name. (name, place name)) present @ assets @ icons)) (\<lambda>files.
         Inr (sort_key cfPath files)))))))"

section \<open>The pins of the closure\<close>

text \<open>
  A \<open>Map\<close> from the paths of the manifest, which may be any values; two objects are never the same
  key.  A path that is not a string has no staged file.
\<close>

type_synonym pinned = "(jsval \<times> jsval \<times> jsval) list"

fun pin_set :: "pinned \<Rightarrow> jsval \<Rightarrow> jsval \<times> jsval \<Rightarrow> pinned" where
  "pin_set [] k v = [(k, v)]"
| "pin_set ((k', v') # m) k v =
     (if k' = k \<and> (case k of JObj _ \<Rightarrow> False | JArr _ \<Rightarrow> False | _ \<Rightarrow> True) then (k, v) # m else (k', v') # pin_set m k v)"

definition manifest_pin :: "jsval \<Rightarrow> stage_error + jsval \<times> jsval \<times> jsval" where
  "manifest_pin file =
     and_then (property_of file ''path'') (\<lambda>path.
     and_then (property_of file ''sha256'') (\<lambda>sha.
     and_then (property_of file ''size'') (\<lambda>n. Inr (path, sha, n))))"

definition staged_name :: "closure_file \<Rightarrow> jsstr" where
  "staged_name f = js ''dist/'' @ cfPath f"

definition vendored_pins :: "jsval \<Rightarrow> stage_error + pinned" where
  "vendored_pins manifest =
     and_then (property_of manifest ''vendored'') (\<lambda>vendored.
     and_then (items_or_none vendored) (\<lambda>files.
     and_then (check_all 0 (\<lambda>i. manifest_pin) files) (\<lambda>entries.
     Inr (foldl (\<lambda>m (k, v). pin_set m k v) [] entries))))"

text \<open>The staged file of a path: the last one of the closure with that path.\<close>

definition staged_file :: "closure_file list \<Rightarrow> jsval \<Rightarrow> closure_file option" where
  "staged_file closure path = find (\<lambda>f. JStr (staged_name f) = path) (rev closure)"

definition pin_agrees :: "closure_file list \<Rightarrow> jsval \<times> jsval \<times> jsval \<Rightarrow> bool" where
  "pin_agrees closure entry =
     (case entry of (path, sha, n) \<Rightarrow>
        (case staged_file closure path of
           Some f \<Rightarrow> sha = JStr (cfSha f) \<and> n = JNum (num_of_int (int (cfSize f)))
         | None \<Rightarrow> False))"

definition disagreement :: "jsstr \<Rightarrow> closure_file list \<Rightarrow> jsval \<times> jsval \<times> jsval \<Rightarrow> jsstr" where
  "disagreement name closure entry =
     (case entry of (path, sha, n) \<Rightarrow>
        js ''closure diverges from '' @ name @ js '' at '' @ to_string path @ js '': expected '' @ to_string sha @ 47 # to_string n
        @ js '', got '' @ (case staged_file closure path of
              Some f \<Rightarrow> cfSha f @ 47 # number_string (num_of_int (int (cfSize f)))
            | None \<Rightarrow> []))"

definition assertPinned :: "checkout \<Rightarrow> closure_file list \<Rightarrow> stage_error + pinned" where
  "assertPinned c closure =
     (let name = path_text (buildManifest c)
      in and_then (read_json c (buildManifest c)) (\<lambda>manifest.
         and_then (vendored_pins manifest) (\<lambda>pinned.
         (let missing = filter (\<lambda>k. staged_file closure k = None) (map fst pinned);
              extra = filter (\<lambda>n. JStr n \<notin> set (map fst pinned)) (remdups (map staged_name closure))
          in and_then (check_that (missing = [] \<and> extra = [])
               (js ''closure diverges from '' @ name @ js '': missing=['' @ join (js '', '') (map (\<lambda>k. if nullish k then [] else to_string k) missing)
                @ js ''] extra=['' @ join (js '', '') extra @ js '']'')) (\<lambda>_.
             (case filter (\<lambda>e. \<not> pin_agrees closure e) pinned of
                e # _ \<Rightarrow> Inl (Thrown (disagreement name closure e))
              | [] \<Rightarrow> Inr pinned))))))"

section \<open>JSON.stringify(value, null, 2)\<close>

definition spaces :: "nat \<Rightarrow> jsstr" where
  "spaces n = replicate n 32"

definition bracketed :: "nat \<Rightarrow> cunit \<Rightarrow> cunit \<Rightarrow> jsstr list \<Rightarrow> jsstr" where
  "bracketed n l r items =
     (if items = [] then [l, r]
      else [l, 10] @ spaces (n + 2) @ join (44 # 10 # spaces (n + 2)) items @ 10 # spaces n @ [r])"

fun pretty :: "nat \<Rightarrow> jsval \<Rightarrow> jsstr option" where
  "pretty n (JArr vs) =
     Some (bracketed n 91 93 (map (\<lambda>v. case pretty (n + 2) v of None \<Rightarrow> js ''null'' | Some t \<Rightarrow> t) vs))"
| "pretty n (JObj ps) =
     Some (bracketed n 123 125
       (concat (map (\<lambda>(k, v). case pretty (n + 2) v of None \<Rightarrow> [] | Some t \<Rightarrow> [quote k @ [58, 32] @ t]) ps)))"
| "pretty n v = stringify v"

section \<open>Writing the staged bundle\<close>

text \<open>
  The files of the new directory, by their normalised path below it.  A file cannot lie below
  another file, nor take the place of a directory.
\<close>

type_synonym staged = "(jsstr list \<times> 8 word list) list"

definition path_below :: "jsstr list \<Rightarrow> jsstr list \<Rightarrow> bool" where
  "path_below p q = (length p < length q \<and> take (length p) q = p)"

definition write_file :: "jsstr list \<Rightarrow> 8 word list \<Rightarrow> staged \<Rightarrow> stage_error + staged" where
  "write_file ss b st =
     (let p = normal_segments False [] ss
      in if p = [] \<or> list_ex (\<lambda>(q, _). path_below p q \<or> path_below q p) st then Inl IoError
         else Inr ((p, b) # filter (\<lambda>(q, _). q \<noteq> p) st))"

text \<open>Copy a file and compare the copy with its pin.\<close>

definition copy_checked ::
    "checkout \<Rightarrow> jsstr list \<Rightarrow> jsstr list \<Rightarrow> (jsstr \<Rightarrow> int \<Rightarrow> bool) \<Rightarrow> jsstr \<Rightarrow> staged \<Rightarrow> stage_error + staged" where
  "copy_checked c source target agrees problem st =
     and_then (read_file c source) (\<lambda>b.
     and_then (write_file target b st) (\<lambda>st'.
     and_then (check_that (agrees (coDigest c b) (int (length b))) problem) (\<lambda>_. Inr st')))"

definition overlay_target :: "pin \<Rightarrow> jsstr" where
  "overlay_target p = stagedOverlayDir @ 47 # pnPath p"

fun copy_overlay :: "checkout \<Rightarrow> jsstr list \<Rightarrow> pin list \<Rightarrow> staged \<Rightarrow> stage_error + staged" where
  "copy_overlay c dir [] st = Inr st"
| "copy_overlay c dir (p # ps) st =
     and_then (copy_checked c (joined_path dir (segments (pnPath p))) (segments (overlay_target p))
        (\<lambda>sha n. n = pnSize p \<and> sha = pnSha p)
        (js ''staged overlay copy diverges from the pin at '' @ overlay_target p) st)
       (\<lambda>st'. copy_overlay c dir ps st')"

definition merged_entry :: "pin \<Rightarrow> jsval" where
  "merged_entry p =
     JObj [(js ''path'', JStr (overlay_target p)), (js ''sha256'', JStr (pnSha p)),
           (js ''size'', JNum (num_of_int (pnSize p)))]"

text \<open>\<open>{ ...value }\<close>\<close>

definition spread :: "jsval \<Rightarrow> jsval props" where
  "spread v =
     (case v of
        JObj ps \<Rightarrow> ps
      | JArr vs \<Rightarrow> map (\<lambda>(i, v). (decimal_nat i, v)) (enumerate 0 vs)
      | JStr s \<Rightarrow> map (\<lambda>(i, c). (decimal_nat i, JStr [c])) (enumerate 0 s)
      | _ \<Rightarrow> [])"

definition staged_manifest :: "jsval \<Rightarrow> jsval \<Rightarrow> pin list \<Rightarrow> stage_error + jsval" where
  "staged_manifest sourceManifest manifest pins =
     and_then (property_of manifest ''schema'') (\<lambda>schema.
     and_then (property_of manifest ''target'') (\<lambda>target.
     and_then (property_of manifest ''upstream'') (\<lambda>upstream.
     Inr (JObj (jdefine (spread sourceManifest) (js ''faktorOverlay'')
       (JObj [(js ''schema'', schema), (js ''target'', target),
              (js ''upstream'', if nullish upstream then JNull else upstream),
              (js ''files'', JArr (map merged_entry pins))]))))))"

definition manifest_bytes :: "jsval \<Rightarrow> 8 word list" where
  "manifest_bytes v = utf8_encode ((case pretty 0 v of Some t \<Rightarrow> t | None \<Rightarrow> js ''undefined'') @ [10])"

definition manifest_target :: "jsstr list" where
  "manifest_target = map js [''dist'', ''build-manifest.json'']"

definition applyOverlay :: "checkout \<Rightarrow> jsstr list \<Rightarrow> staged \<Rightarrow> stage_error + staged \<times> pin list" where
  "applyOverlay c dir st =
     and_then (loadOverlayManifest c dir) (\<lambda>(manifest, pins).
     and_then (copy_overlay c dir pins st) (\<lambda>st1.
     and_then (read_json c (buildManifest c)) (\<lambda>sourceManifest.
     and_then (staged_manifest sourceManifest manifest pins) (\<lambda>v.
     and_then (write_file manifest_target (manifest_bytes v) st1) (\<lambda>st2. Inr (st2, pins))))))"

definition pin_get :: "pinned \<Rightarrow> jsstr \<Rightarrow> jsval \<times> jsval" where
  "pin_get pinned path = (case map_of pinned (JStr path) of Some want \<Rightarrow> want | None \<Rightarrow> (JUndef, JUndef))"

fun copy_closure :: "checkout \<Rightarrow> pinned \<Rightarrow> closure_file list \<Rightarrow> staged \<Rightarrow> stage_error + staged" where
  "copy_closure c pinned [] st = Inr st"
| "copy_closure c pinned (f # fs) st =
     and_then (copy_checked c (cfAbs f) (segments (staged_name f))
        (\<lambda>sha n. (JStr sha, JNum (num_of_int n)) = pin_get pinned (staged_name f))
        (js ''staged copy diverges from the pin at '' @ staged_name f @ js ''; refusing to ship it'') st)
       (\<lambda>st'. copy_closure c pinned fs st')"

record stage_stats =
  ssFiles :: nat
  ssOverlayFiles :: nat
  ssBytes :: nat

definition refused_overlay :: "stage_error \<Rightarrow> stage_error" where
  "refused_overlay e =
     (case e of Thrown m \<Rightarrow> Thrown (js ''overlay verification failed: '' @ m) | _ \<Rightarrow> e)"

definition assert_overlay :: "checkout \<Rightarrow> stage_error + overlay_report" where
  "assert_overlay c =
     (case verifyOverlay c (overlayDir c) of
        Inl e \<Rightarrow> Inl (refused_overlay e)
      | Inr report \<Rightarrow>
          if orOk report then Inr report
          else Inl (Thrown (js ''overlay verification failed: '' @ join (js ''; '') (orErrors report))))"

definition stageBundle :: "checkout \<Rightarrow> stage_error + staged \<times> stage_stats" where
  "stageBundle c =
     and_then (assert_overlay c) (\<lambda>_.
     and_then (buildClosure c (sourceDist c)) (\<lambda>closure.
     and_then (assertPinned c closure) (\<lambda>pinned.
     and_then (copy_closure c pinned closure []) (\<lambda>st.
     and_then (applyOverlay c (overlayDir c) st) (\<lambda>(st', pins).
     Inr (st', \<lparr>ssFiles = length closure, ssOverlayFiles = length pins,
                ssBytes = sum_list (map cfSize closure)\<rparr>))))))"

section \<open>The script\<close>

text \<open>\<open>build-webview.mjs --verify\<close>: how many vendored files are missing or differ.\<close>

definition vendored_failure :: "checkout \<Rightarrow> jsval \<Rightarrow> stage_error + nat" where
  "vendored_failure c file =
     and_then (property_of file ''path'') (\<lambda>path.
       case path of
         JStr p \<Rightarrow>
           (let abs = joined_path (coRoot c @ map js [''ui'', ''kilo-v756-webview'']) (segments p)
            in if \<not> exists_at c abs then Inr 1
               else and_then (read_file c abs) (\<lambda>b.
                    and_then (property_of file ''sha256'') (\<lambda>sha.
                    and_then (property_of file ''size'') (\<lambda>n.
                    Inr (if JStr (coDigest c b) \<noteq> sha \<or> JNum (num_of_int (int (length b))) \<noteq> n then 1 else 0)))))
       | _ \<Rightarrow> Inl TypeErr)"

definition verifyVendored :: "checkout \<Rightarrow> stage_error + nat" where
  "verifyVendored c =
     (let path = buildManifest c
      in and_then (check_that (exists_at c path) (path_text path @ js '' is missing; run build-webview.mjs first'')) (\<lambda>_.
         and_then (read_json c path) (\<lambda>manifest.
         and_then (property_of manifest ''vendored'') (\<lambda>vendored.
         and_then (items_or_none vendored) (\<lambda>files.
         and_then (check_all 0 (\<lambda>i. vendored_failure c) files) (\<lambda>failures. Inr (sum_list failures)))))))"

definition blocked :: "jsstr \<Rightarrow> jsstr + 'a" where
  "blocked message = Inl message"

definition required_files :: "checkout \<Rightarrow> (jsstr list \<times> jsstr) list" where
  "required_files c =
     (let vendored = js ''vendored webview source missing at '' @ path_text (butlast (sourceDist c))
            @ js '' (pinned v7.5.6); restore it with `bash scripts/vendor-upstream.sh`'';
          build = js ''pinned webview build closure missing under '' @ path_text (sourceDist c)
            @ js ''; rebuild it with `node ui/kilo-v756-webview/dist/toolchain/build-webview.mjs`'';
          overlay = overlayDir c @ [overlay_manifest_name]
      in [(butlast (sourceDist c), vendored), (sourceDist c, vendored),
          (sourceDist c @ map js [''toolchain'', ''build-webview.mjs''], build), (buildManifest c, build),
          (overlay, js ''Faktor companion overlay manifest missing at '' @ path_text overlay
             @ js ''; the additive panel must be pinned before staging'')])"

definition run_refusal :: "jsstr \<Rightarrow> jsstr" where
  "run_refusal label = label @ js '' failed; refusing to stage an unverified bundle''"

text \<open>
  \<open>main\<close>, with what \<open>verify-upstream.mjs --verify\<close> found: \<open>Inl\<close> is what the script is blocked by
  (a thrown error by its text), \<open>Inr\<close> the new content of the target directory, which is only touched
  once the staging is complete.
\<close>

definition error_text :: "stage_error \<Rightarrow> jsstr" where
  "error_text e = (case e of Thrown m \<Rightarrow> m | IoError \<Rightarrow> js ''Error'' | TypeErr \<Rightarrow> js ''TypeError'' | SyntaxErr \<Rightarrow> js ''SyntaxError'')"

definition prepare :: "checkout \<Rightarrow> bool \<Rightarrow> jsstr + staged \<times> stage_stats" where
  "prepare c upstream_ok =
     (case filter (\<lambda>(p, m). \<not> exists_at c p) (required_files c) of
        (p, m) # _ \<Rightarrow> blocked m
      | [] \<Rightarrow>
          if \<not> upstream_ok then blocked (run_refusal (js ''verify-upstream --verify (pinned source tree)''))
          else if verifyVendored c \<noteq> Inr 0 then blocked (run_refusal (js ''build-webview --verify (pinned dist closure)''))
          else (case stageBundle c of Inl e \<Rightarrow> blocked (error_text e) | Inr r \<Rightarrow> Inr r))"

definition target_after :: "staged option \<Rightarrow> jsstr + staged \<times> stage_stats \<Rightarrow> staged option" where
  "target_after target result = (case result of Inl m \<Rightarrow> target | Inr (st, stats) \<Rightarrow> Some st)"

end
