(* ===== verification/Packaging.thy ===== *)
theory Packaging
  imports Staging
begin

text \<open>
  The verification of a packaged extension, \<open>apps/vscode/scripts/verify-vsix.mjs\<close>: the checks of the
  archive listing and those of the extracted extension, each with its label.

  A check is a condition and its label, in the order of the source.  The listing of \<open>unzip -l\<close>
  comes as the names of its entries, and the load into an installed VS Code is left out: both run
  other programs.
\<close>

type_synonym check = "bool \<times> jsstr"

definition WEBVIEW_PREFIX :: jsstr where
  "WEBVIEW_PREFIX = js ''extension/media/kilo-v756-webview/''"

definition OVERLAY_PREFIX :: jsstr where
  "OVERLAY_PREFIX = WEBVIEW_PREFIX @ js ''dist/overlay/''"

definition DEFAULT_MIN_WEBVIEW_FILES :: int where
  "DEFAULT_MIN_WEBVIEW_FILES = 25"

definition COMPANION_MARKERS :: "jsstr list" where
  "COMPANION_MARKERS =
     map js [''faktorTaskState'', ''faktorAgents'', ''faktorCockpit'', ''faktorTournament'', ''faktorEvidence'',
       ''faktorBoardState'', ''faktorAgentAction'', ''faktorTournamentAction'', ''faktorEvidenceExpand'',
       ''faktorBoardAction'']"

section \<open>The listing of the archive\<close>

definition archiveChecks :: "jsstr list \<Rightarrow> int \<Rightarrow> check list" where
  "archiveChecks names minWebviewFiles =
     (let found = length (filter (starts_with WEBVIEW_PREFIX) names)
      in [(List.member names (js ''extension/out/extension.js''), js ''VSIX contains extension/out/extension.js''),
          (List.member names (WEBVIEW_PREFIX @ js ''dist/webview.js''),
             js ''VSIX contains the vendored entry bundle extension/media/kilo-v756-webview/dist/webview.js''),
          (List.member names (WEBVIEW_PREFIX @ js ''dist/webview.css''),
             js ''VSIX contains the vendored stylesheet extension/media/kilo-v756-webview/dist/webview.css''),
          (List.member names (WEBVIEW_PREFIX @ js ''dist/shiki-worker.js''),
             js ''VSIX contains the vendored shiki worker''),
          (List.member names (OVERLAY_PREFIX @ js ''faktor-companion.js''),
             js ''VSIX contains the Faktor companion panel (dist/overlay/faktor-companion.js)''),
          (List.member names (OVERLAY_PREFIX @ js ''faktor-companion.css''),
             js ''VSIX contains the Faktor companion styles (dist/overlay/faktor-companion.css)''),
          (int found \<ge> minWebviewFiles,
             js ''VSIX has >= '' @ decimal_int minWebviewFiles @ js '' files under '' @ WEBVIEW_PREFIX
             @ js '' (found '' @ decimal_nat found @ js '')'')])"

section \<open>The extracted extension\<close>

text \<open>
  The extension directory on a disk, with the checkout it was packaged from: \<open>existsSync\<close>,
  \<open>readFileSync\<close> and \<open>statSync\<close> at a path below it.
\<close>

definition in_extension :: "checkout \<Rightarrow> jsstr list \<Rightarrow> jsstr list \<Rightarrow> tree option" where
  "in_extension c dir ss = stat_at c (joined_path dir ss)"

definition required_relative :: "jsstr list" where
  "required_relative =
     map js [''out/extension.js'', ''out/webview.js'', ''out/kilo-bridge.js'', ''media/chat.js'', ''media/chat.css'',
       ''media/composer-state.js'', ''media/faktor.svg'', ''media/kilo-v756-webview/dist/webview.js'',
       ''media/kilo-v756-webview/dist/webview.css'', ''media/kilo-v756-webview/dist/shiki-worker.js'',
       ''media/kilo-v756-webview/dist/overlay/faktor-companion.js'',
       ''media/kilo-v756-webview/dist/overlay/faktor-companion.css'',
       ''media/kilo-v756-webview/dist/build-manifest.json'']"

definition required_checks :: "checkout \<Rightarrow> jsstr list \<Rightarrow> check list" where
  "required_checks c dir =
     map (\<lambda>relative. (in_extension c dir (segments relative) \<noteq> None, js ''packaged extension has '' @ relative))
       required_relative"

text \<open>\<open>text.includes(part)\<close>\<close>

fun includes_text :: "jsstr \<Rightarrow> jsstr \<Rightarrow> bool" where
  "includes_text part [] = (part = [])"
| "includes_text part (c # s) = (starts_with part (c # s) \<or> includes_text part s)"

definition quoted_name :: "jsstr \<Rightarrow> jsstr" where
  "quoted_name s = 39 # s @ [39]"

definition quoted_pair :: "jsstr \<Rightarrow> jsstr \<Rightarrow> jsstr" where
  "quoted_pair s t = quoted_name s @ js '', '' @ quoted_name t"

text \<open>\<open>/'..',\<bslash>s*'..'/\<close>, with the dots escaped\<close>

fun has_double_up :: "jsstr \<Rightarrow> bool" where
  "has_double_up [] = False"
| "has_double_up (c # s) =
     (starts_with (quoted_name dot_dot @ [44]) (c # s)
        \<and> starts_with (quoted_name dot_dot) (dropWhile is_ws (drop 5 (c # s)))
      \<or> has_double_up s)"

definition compiled_checks :: "checkout \<Rightarrow> jsstr list \<Rightarrow> stage_error + check list" where
  "compiled_checks c dir =
     (let built = joined_path dir (map js [''out'', ''webview.js''])
      in if \<not> exists_at c built then Inr []
         else and_then (read_file c built) (\<lambda>b.
           (let source = coDecode c b
            in Inr [(includes_text (quoted_pair (js ''media'') (js ''kilo-v756-webview'')) source,
                      js ''compiled webview resolves <extensionUri>/media/kilo-v756-webview''),
                    (\<not> has_double_up source \<and> \<not> includes_text (quoted_pair (js ''ui'') (js ''kilo-v756-webview'')) source,
                      js ''compiled webview has no checkout-relative ../.. escape'')])))"

section \<open>Files against their pins\<close>

text \<open>
  One pinned file of a list, read below \<open>base\<close>: \<open>None\<close> when it is there with its pinned size and
  digest, else the label of the check that fails.
\<close>

definition pinned_problem ::
    "checkout \<Rightarrow> jsstr list \<Rightarrow> (jsstr \<Rightarrow> jsstr) \<Rightarrow> (jsstr \<Rightarrow> jsstr \<Rightarrow> jsstr) \<Rightarrow> jsval \<Rightarrow> stage_error + jsstr option" where
  "pinned_problem c base missing diverges file =
     and_then (property_of file ''path'') (\<lambda>path.
       case path of
         JStr p \<Rightarrow>
           (let abs = joined_path base (segments p)
            in if \<not> exists_at c abs then Inr (Some (missing p))
               else and_then (read_file c abs) (\<lambda>b.
                    and_then (property_of file ''size'') (\<lambda>n.
                    and_then (property_of file ''sha256'') (\<lambda>sha.
                    Inr (if JNum (num_of_int (int (length b))) \<noteq> n \<or> JStr (coDigest c b) \<noteq> sha
                         then Some (diverges p (js '' (expected '' @ to_string sha @ 47 # to_string n @ js '', got ''
                           @ coDigest c b @ 47 # number_string (num_of_int (int (length b))) @ js '')''))
                         else None)))))
       | _ \<Rightarrow> Inl TypeErr)"

definition failures :: "jsstr option list \<Rightarrow> check list" where
  "failures ps = map (\<lambda>m. (False, m)) (List.map_filter (\<lambda>p. p) ps)"

definition verified_count :: "jsstr option list \<Rightarrow> nat" where
  "verified_count ps = length (filter (\<lambda>p. p = None) ps)"

definition counted_label :: "string \<Rightarrow> jsstr option list \<Rightarrow> string \<Rightarrow> jsstr" where
  "counted_label before ps after =
     js before @ decimal_nat (verified_count ps) @ 47 # decimal_nat (length ps) @ js after"

definition packagedWebview :: "jsstr list \<Rightarrow> jsstr list" where
  "packagedWebview dir = dir @ map js [''media'', ''kilo-v756-webview'']"

definition vendored_checks :: "checkout \<Rightarrow> jsstr list \<Rightarrow> jsval list \<Rightarrow> stage_error + check list" where
  "vendored_checks c dir files =
     and_then (check_all 0 (\<lambda>i. pinned_problem c (packagedWebview dir)
         (\<lambda>p. js ''packaged vendored file missing: '' @ p) (\<lambda>p d. js ''packaged vendored file diverges: '' @ p @ d)) files)
       (\<lambda>ps. Inr (failures ps
          @ [(verified_count ps = length files \<and> verified_count ps > 0,
              counted_label ''all '' ps '' packaged vendored files match the pinned manifest'')]))"

definition overlayRoot :: "jsstr list \<Rightarrow> jsstr list" where
  "overlayRoot dir = packagedWebview dir @ map js [''dist'', ''overlay'']"

definition overlay_checks :: "checkout \<Rightarrow> jsstr list \<Rightarrow> jsval list \<Rightarrow> stage_error + check list" where
  "overlay_checks c dir files =
     and_then (check_all 0 (\<lambda>i. pinned_problem c (overlayRoot dir)
         (\<lambda>p. js ''packaged overlay file missing: '' @ p) (\<lambda>p d. js ''packaged overlay file diverges: '' @ p @ d)) files)
       (\<lambda>ps. Inr (failures ps
          @ [(verified_count ps = length files \<and> verified_count ps > 0,
              counted_label ''all '' ps '' packaged overlay files match the pinned overlay manifest'')]))"

section \<open>The merged manifest\<close>

text \<open>\<open>staged.faktorOverlay?.files ?? []\<close>\<close>

definition merged_files :: "jsval \<Rightarrow> stage_error + jsval list" where
  "merged_files stagedManifest =
     and_then (property_of stagedManifest ''faktorOverlay'') (\<lambda>section.
       if nullish section then Inr [] else and_then (property_of section ''files'') items_or_none)"

definition vendored_text :: "jsval \<Rightarrow> stage_error + jsstr option" where
  "vendored_text manifest = and_then (property_of manifest ''vendored'') (\<lambda>v. Inr (stringify v))"

definition merged_checks :: "checkout \<Rightarrow> jsstr list \<Rightarrow> nat \<Rightarrow> jsval \<Rightarrow> stage_error + check list" where
  "merged_checks c dir overlayFiles manifest =
     (let path = packagedWebview dir @ manifest_target
      in if \<not> exists_at c (joined_path path [])
         then Inr [(False, js ''packaged dist/build-manifest.json records the merged overlay hashes'')]
         else and_then (read_json c (joined_path path [])) (\<lambda>stagedManifest.
              and_then (merged_files stagedManifest) (\<lambda>merged.
              and_then (check_all 0 (\<lambda>i. pinned_problem c (packagedWebview dir)
                  (\<lambda>p. js ''staged manifest names a missing overlay file: '' @ p)
                  (\<lambda>p d. js ''staged overlay hash diverges: '' @ p)) merged) (\<lambda>ps.
              and_then (vendored_text stagedManifest) (\<lambda>stagedVendored.
              and_then (vendored_text manifest) (\<lambda>pinnedVendored.
              Inr (failures ps
                @ [(verified_count ps = overlayFiles \<and> length merged = overlayFiles,
                    js ''staged build manifest records all '' @ decimal_nat (verified_count ps) @ js '' merged overlay hashes''),
                   (stagedVendored = pinnedVendored,
                    js ''staged build manifest keeps the pinned vendored list byte-identical'')])))))))"

section \<open>The companion and the whole\<close>

definition companion_checks :: "checkout \<Rightarrow> jsstr list \<Rightarrow> stage_error + check list" where
  "companion_checks c dir =
     (let companion = joined_path (overlayRoot dir) [js ''faktor-companion.js'']
      in if \<not> exists_at c companion
         then Inr [(False, js ''companion panel source is present for marker verification'')]
         else and_then (read_file c companion) (\<lambda>b.
           (let missing = filter (\<lambda>marker. \<not> includes_text marker (coDecode c b)) COMPANION_MARKERS;
                names = join (js '', '') missing
            in Inr [(length missing = 0,
                 js ''companion panel consumes the additive messages and actions (missing: ''
                   @ (if names = [] then js ''none'' else names) @ js '')'')])))"

text \<open>\<open>(manifest.files ?? [])\<close> of a manifest on disk\<close>

definition listed_files :: "jsval \<Rightarrow> string \<Rightarrow> stage_error + jsval list" where
  "listed_files manifest key = and_then (property_of manifest key) items_or_none"

definition pinned_overlay_checks :: "checkout \<Rightarrow> jsstr list \<Rightarrow> jsval \<Rightarrow> stage_error + check list" where
  "pinned_overlay_checks c dir manifest =
     (let path = overlayDir c @ [overlay_manifest_name]
      in if \<not> exists_at c path
         then Inr [(False, js ''pinned '' @ path_text path @ js '' is present for overlay verification'')]
         else and_then (read_json c path) (\<lambda>overlayManifest.
              and_then (listed_files overlayManifest ''files'') (\<lambda>files.
              and_then (overlay_checks c dir files) (\<lambda>own.
              and_then (merged_checks c dir (length files) manifest) (\<lambda>merged. Inr (own @ merged))))))"

definition extractedChecks :: "checkout \<Rightarrow> jsstr list \<Rightarrow> stage_error + check list" where
  "extractedChecks c dir =
     and_then (compiled_checks c dir) (\<lambda>compiled.
       if \<not> exists_at c (buildManifest c)
       then Inr (required_checks c dir @ compiled
              @ [(False, js ''pinned '' @ path_text (buildManifest c) @ js '' is present for byte verification'')])
       else and_then (read_json c (buildManifest c)) (\<lambda>manifest.
            and_then (listed_files manifest ''vendored'') (\<lambda>files.
            and_then (vendored_checks c dir files) (\<lambda>vendored.
            and_then (pinned_overlay_checks c dir manifest) (\<lambda>overlay.
            and_then (companion_checks c dir) (\<lambda>companion.
            Inr (required_checks c dir @ compiled @ vendored @ overlay @ companion)))))))"

text \<open>The exit code of \<open>main\<close>, without the load into VS Code.\<close>

definition exit_code :: "check list \<Rightarrow> nat" where
  "exit_code checks = (if list_all fst checks then 0 else 1)"

end
