(* ===== verification/PackagingGuarantees.thy ===== *)
theory PackagingGuarantees
  imports Packaging
begin

text \<open>
  What the staging of the webview guarantees: a bundle that was staged and installed passes the
  checks of its vendored and overlay files in the packaged verification, and a verified overlay holds exactly the pinned files.
\<close>

section \<open>Paths\<close>

lemma normal_skip:
  "s = [] \<or> s = [46] \<Longrightarrow> normal_segments rooted acc (xs @ s # ys) = normal_segments rooted acc (xs @ ys)"
  by (induction rooted acc xs rule: normal_segments.induct) (auto split: list.splits)

lemma normal_cancel:
  "a \<noteq> [] \<Longrightarrow> a \<noteq> [46] \<Longrightarrow> a \<noteq> dot_dot
     \<Longrightarrow> normal_segments rooted acc (xs @ a # dot_dot # ys) = normal_segments rooted acc (xs @ ys)"
  by (induction rooted acc xs rule: normal_segments.induct) (auto simp: dot_dot_def js_def split: list.splits)

definition kept_segment :: "jsstr \<Rightarrow> bool" where
  "kept_segment s \<longleftrightarrow> s \<noteq> [] \<and> s \<noteq> [46] \<and> s \<noteq> dot_dot"

lemma normal_normal:
  "list_all kept_segment ps \<Longrightarrow> normal_segments True acc (normal_segments False (ps @ replicate n dot_dot) ss)
     = normal_segments True acc (rev (ps @ replicate n dot_dot) @ ss)"
proof (induction ss arbitrary: ps n)
  case (Cons s ss)
  consider "s = [] \<or> s = [46]" | "s = dot_dot" "ps = []" | a qs where "s = dot_dot" "ps = a # qs" | "kept_segment s"
    by (cases ps) (auto simp: kept_segment_def)
  then show ?case
  proof cases
    case 1
    then show ?thesis using Cons normal_skip [OF 1, of True acc "rev (ps @ replicate n dot_dot)" ss] by auto
  next
    case 2
    have "normal_segments False (replicate n dot_dot) (dot_dot # ss) = normal_segments False (replicate (Suc n) dot_dot) ss"
      by (cases n) (simp_all add: dot_dot_def js_def)
    then have "normal_segments True acc (normal_segments False (ps @ replicate n dot_dot) (s # ss))
        = normal_segments True acc (rev ([] @ replicate (Suc n) dot_dot) @ ss)"
      using Cons.IH [of "[]" "Suc n"] 2 by simp
    also have "rev ([] @ replicate (Suc n) dot_dot) @ ss = rev (ps @ replicate n dot_dot) @ s # ss"
      using 2 by (simp add: replicate_append_same)
    finally show ?thesis .
  next
    case 3
    then have a: "kept_segment a" "list_all kept_segment qs" using Cons.prems by auto
    then have "normal_segments False (ps @ replicate n dot_dot) (s # ss) = normal_segments False (qs @ replicate n dot_dot) ss"
      using 3 by (simp add: kept_segment_def dot_dot_def js_def)
    moreover have "normal_segments True acc (rev (ps @ replicate n dot_dot) @ s # ss)
        = normal_segments True acc (rev (qs @ replicate n dot_dot) @ ss)"
      using 3 a normal_cancel [of a True acc "rev (qs @ replicate n dot_dot)" ss] by (simp add: kept_segment_def)
    ultimately show ?thesis using Cons.IH a(2) by simp
  next
    case 4
    then show ?thesis using Cons.IH [of "s # ps" n] Cons.prems by (simp add: kept_segment_def)
  qed
qed simp

lemma normal_below:
  "normal_segments True acc (xs @ normal_segments False [] ss) = normal_segments True acc (xs @ ss)"
proof (induction xs arbitrary: acc)
  case Nil
  show ?case using normal_normal [of "[]" acc 0 ss] by simp
next
  case (Cons x xs)
  then show ?case by (cases acc) simp_all
qed

lemma located_normal: "joined_path dir (normal_segments False [] ss) = joined_path dir ss"
  unfolding joined_path_def by (rule normal_below)

section \<open>Reading back what was written\<close>

lemma write_file_map:
  "write_file ss b st = Inr st' \<Longrightarrow> map_of st' = (map_of st)(normal_segments False [] ss \<mapsto> b)"
proof -
  have "map_of (filter (\<lambda>(q, _). q \<noteq> p) st) = (map_of st)(p := None)" for p
    by (induction st) (auto simp: fun_eq_iff)
  then show "write_file ss b st = Inr st' \<Longrightarrow> map_of st' = (map_of st)(normal_segments False [] ss \<mapsto> b)"
    by (auto simp: write_file_def Let_def split: if_split_asm)
qed

lemma read_bytes_Inr: "read_file c p = Inr b \<longleftrightarrow> file_at c p = Some b"
  by (auto simp: read_file_def split: option.splits)

lemma check_that_Inr [simp]: "check_that b m = Inr u \<longleftrightarrow> b"
  by (auto simp: check_that_def)

lemma copy_checked_Inr:
  "copy_checked c source target agrees problem st = Inr st' \<longleftrightarrow>
     (\<exists>b. file_at c source = Some b \<and> write_file target b st = Inr st' \<and> agrees (coDigest c b) (int (length b)))"
  by (auto simp: copy_checked_def read_bytes_Inr)

text \<open>The vendored files of the source lie below this directory, as the staged ones below theirs.\<close>

definition webviewRoot :: "checkout \<Rightarrow> jsstr list" where
  "webviewRoot c = coRoot c @ map js [''ui'', ''kilo-v756-webview'']"

definition mirrors :: "checkout \<Rightarrow> staged \<Rightarrow> bool" where
  "mirrors c st \<longleftrightarrow> (\<forall>p b. map_of st p = Some b \<longrightarrow> file_at c (joined_path (webviewRoot c) p) = Some b)"

definition in_place :: "checkout \<Rightarrow> closure_file \<Rightarrow> bool" where
  "in_place c f \<longleftrightarrow> cfAbs f = joined_path (webviewRoot c) (segments (staged_name f))"

definition staged_key :: "jsstr \<Rightarrow> jsstr list" where
  "staged_key path = normal_segments False [] (segments path)"

lemma copy_closure_mirrors:
  assumes "copy_closure c pinned fs st = Inr st'" and "mirrors c st" and "list_all (in_place c) fs"
  shows "mirrors c st' \<and> (\<forall>p. map_of st p \<noteq> None \<longrightarrow> map_of st' p \<noteq> None)
     \<and> (\<forall>f \<in> set fs. map_of st' (staged_key (staged_name f)) \<noteq> None)"
  using assms
proof (induction fs arbitrary: st)
  case (Cons f fs)
  then obtain b st1 where b: "file_at c (cfAbs f) = Some b" and w: "write_file (segments (staged_name f)) b st = Inr st1"
    and r: "copy_closure c pinned fs st1 = Inr st'"
    by (auto simp: copy_checked_Inr)
  have m: "map_of st1 = (map_of st)(staged_key (staged_name f) \<mapsto> b)"
    using write_file_map [OF w] by (simp add: staged_key_def)
  have "mirrors c st1"
    using Cons.prems(2,3) b by (auto simp: mirrors_def m in_place_def staged_key_def located_normal)
  with Cons.IH [OF r] Cons.prems(3) m show ?case by auto
qed simp

section \<open>The closure\<close>

lemma normal_push: "list_all kept_segment ps \<Longrightarrow> normal_segments True acc (rev ps @ ys) = normal_segments True (ps @ acc) ys"
  by (induction ps arbitrary: ys) (auto simp: kept_segment_def)

lemma normal_prefix:
  "list_all kept_segment ps \<Longrightarrow> normal_segments True [] (normal_segments True ps ss @ ys) = normal_segments True ps (ss @ ys)"
proof (induction ss arbitrary: ps)
  case Nil
  then show ?case using normal_push [of ps "[]" ys] by simp
next
  case (Cons s ss)
  have "list_all kept_segment (case ps of [] \<Rightarrow> [] | a # qs \<Rightarrow> qs)" using Cons.prems by (cases ps) auto
  with Cons show ?case by (cases ps) (auto simp: kept_segment_def)
qed

lemma located_located: "joined_path (joined_path dir ss) ts = joined_path dir (ss @ ts)"
  using normal_prefix [of "[]" "dir @ ss" ts] by (simp add: joined_path_def)

definition measured :: "checkout \<Rightarrow> closure_file \<Rightarrow> bool" where
  "measured c f \<longleftrightarrow> (\<exists>b. file_at c (cfAbs f) = Some b \<and> cfSize f = length b \<and> cfSha f = coDigest c b)"

definition entry_in_place :: "checkout \<Rightarrow> jsstr \<times> jsstr list \<Rightarrow> bool" where
  "entry_in_place c e \<longleftrightarrow> snd e = joined_path (sourceDist c) (segments (fst e))"

lemma sourceDist_webviewRoot: "joined_path (webviewRoot c) (js ''dist'' # ss) = joined_path (sourceDist c) ss"
  by (simp add: joined_path_def webviewRoot_def sourceDist_def)

lemma segments_staged: "segments (js ''dist/'' @ p) = js ''dist'' # segments p"
proof -
  have "js ''dist/'' @ p = js ''dist'' @ 47 # p" by (simp add: js_def)
  moreover have "segments (js ''dist'') = [js ''dist'']" by code_simp
  ultimately show ?thesis by (simp add: segments_slash)
qed

lemma closure_file_sound:
  "closure_file_at c e = Inr f \<Longrightarrow> entry_in_place c e \<Longrightarrow> measured c f \<and> in_place c f"
  by (auto simp: closure_file_at_def read_bytes_Inr entry_in_place_def measured_def in_place_def staged_name_def
      segments_staged sourceDist_webviewRoot split: prod.splits)

lemma check_all_from: "check_all i f xs = Inr ys \<Longrightarrow> y \<in> set ys \<Longrightarrow> \<exists>j. \<exists>x \<in> set xs. f j x = Inr y"
  by (auto simp: check_all_eq_Inr in_set_conv_nth) (metis nth_mem)

lemma asset_in_place: "asset_at c (sourceDist c) ref = Inr e \<Longrightarrow> entry_in_place c e"
  by (auto simp: asset_at_def entry_in_place_def Let_def)

lemma icons_in_place:
  assumes "icon_entries c (joined_path (sourceDist c) (map js [''assets'', ''icons''])) = Inr es"
  shows "list_all (entry_in_place c) es"
proof -
  have "segments (js ''assets/icons/'' @ p) = map js [''assets'', ''icons''] @ segments p" for p
  proof -
    have "js ''assets/icons/'' @ p = js ''assets'' @ 47 # js ''icons'' @ 47 # p" by (simp add: js_def)
    moreover have "segments (js ''assets'') = [js ''assets'']" "segments (js ''icons'') = [js ''icons'']" by code_simp+
    ultimately show ?thesis by (simp add: segments_slash)
  qed
  with assms show ?thesis
    by (auto simp: icon_entries_def entry_in_place_def located_located list_all_iff Let_def
        split: option.splits tree.splits list.splits)
qed

lemma names_in_place: "list_all (\<lambda>name. segments name = [name]) (ENTRY_FILES @ OPTIONAL_ENTRY_FILES)"
  by code_simp

lemma closure_sound:
  assumes "buildClosure c (sourceDist c) = Inr closure"
  shows "(\<forall>f \<in> set closure. measured c f \<and> in_place c f) \<and> closure \<noteq> []"
proof -
  let ?present = "filter (\<lambda>name. exists_at c (joined_path (sourceDist c) [name])) (ENTRY_FILES @ OPTIONAL_ENTRY_FILES)"
  from assms obtain css assets icons files
    where missing: "filter (\<lambda>name. \<not> exists_at c (joined_path (sourceDist c) [name])) ENTRY_FILES = []"
      and a: "check_all 0 (\<lambda>i ref. asset_at c (sourceDist c) ref) (cssAssetRefs (coDecode c css)) = Inr assets"
      and i: "icon_entries c (joined_path (sourceDist c) (map js [''assets'', ''icons''])) = Inr icons"
      and f: "check_all 0 (\<lambda>i e. closure_file_at c e)
        (map (\<lambda>name. (name, joined_path (sourceDist c) [name])) ?present @ assets @ icons) = Inr files"
      and closure: "closure = sort_key cfPath files"
    by (auto simp: buildClosure_def Let_def)
  have "list_all (entry_in_place c) (map (\<lambda>name. (name, joined_path (sourceDist c) [name])) ?present)"
    using names_in_place by (auto simp: list_all_iff entry_in_place_def)
  moreover have "list_all (entry_in_place c) assets"
    unfolding list_all_iff using check_all_from [OF a] asset_in_place by blast
  ultimately have "list_all (entry_in_place c) (map (\<lambda>name. (name, joined_path (sourceDist c) [name])) ?present @ assets @ icons)"
    using icons_in_place [OF i] by simp
  with f have "\<forall>g \<in> set files. measured c g \<and> in_place c g"
    unfolding list_all_iff using check_all_from [OF f] closure_file_sound by blast
  moreover have "?present \<noteq> []"
    using missing by (auto simp: ENTRY_FILES_def filter_empty_conv)
  with f have "files \<noteq> []" by (auto simp: check_all_eq_Inr)
  moreover have "set closure = set files" using closure by simp
  ultimately show ?thesis by (metis set_empty)
qed

section \<open>The pins\<close>

definition pin_value :: "jsval \<Rightarrow> jsstr \<Rightarrow> jsstr \<Rightarrow> int \<Rightarrow> bool" where
  "pin_value file path sha n \<longleftrightarrow>
     property_of file ''path'' = Inr (JStr path) \<and> property_of file ''sha256'' = Inr (JStr sha)
     \<and> property_of file ''size'' = Inr (JNum (num_of_int n))"

lemma pin_set_new: "k \<notin> fst ` set m \<Longrightarrow> pin_set m k v = m @ [(k, v)]"
  by (induction m k v rule: pin_set.induct) auto

lemma pins_distinct: "distinct (map fst (m @ es)) \<Longrightarrow> foldl (\<lambda>m (k, v). pin_set m k v) m es = m @ es"
proof (induction es arbitrary: m)
  case (Cons e es)
  obtain k v where e: "e = (k, v)" by (cases e)
  have "pin_set m k v = m @ [(k, v)]" using Cons.prems by (intro pin_set_new) (auto simp: e)
  moreover have "foldl (\<lambda>m (k, v). pin_set m k v) (m @ [(k, v)]) es = (m @ [(k, v)]) @ es"
    using Cons.prems by (intro Cons.IH) (simp add: e)
  ultimately show ?case by (simp add: e)
qed simp

definition member_path :: "jsval \<Rightarrow> jsval" where
  "member_path file = (case property_of file ''path'' of Inr v \<Rightarrow> v | Inl _ \<Rightarrow> JUndef)"

lemma manifest_pin_path: "manifest_pin file = Inr e \<Longrightarrow> fst e = member_path file"
  by (auto simp: manifest_pin_def member_path_def)

lemma staged_file_Some: "staged_file closure path = Some f \<Longrightarrow> f \<in> set closure \<and> path = JStr (staged_name f)"
proof -
  assume "staged_file closure path = Some f"
  then obtain i where "i < length (rev closure)" "f = rev closure ! i" "JStr (staged_name f) = path"
    by (auto simp: staged_file_def find_Some_iff)
  then show ?thesis using nth_mem [of i "rev closure"] by simp
qed

lemma none_left: "(case xs of e # es \<Rightarrow> Inl (g e) | [] \<Rightarrow> Inr y) = Inr z \<longleftrightarrow> xs = [] \<and> y = z"
  by (cases xs) auto

text \<open>A pinned list whose paths are distinct agrees with the closure, file by file.\<close>

lemma assertPinned_sound:
  assumes p: "assertPinned c closure = Inr pinned" and m: "read_json c (buildManifest c) = Inr manifest"
    and l: "listed_files manifest ''vendored'' = Inr files" and d: "distinct (map member_path files)"
    and listed: "file \<in> set files"
  shows "\<exists>f \<in> set closure. pin_value file (staged_name f) (cfSha f) (int (cfSize f))"
proof -
  from p m have v: "vendored_pins manifest = Inr pinned" and agrees: "\<forall>e \<in> set pinned. pin_agrees closure e"
    by (auto simp: assertPinned_def Let_def none_left filter_empty_conv)
  from v l obtain entries where e: "check_all 0 (\<lambda>i. manifest_pin) files = Inr entries"
    and pinned: "pinned = foldl (\<lambda>m (k, v). pin_set m k v) [] entries"
    by (auto simp: vendored_pins_def listed_files_def)
  have both: "list_all2 (\<lambda>file e. manifest_pin file = Inr e) files entries"
    using e by (subst (asm) check_all_pointwise [where P = "\<lambda>file e. manifest_pin file = Inr e"]) auto
  then have "map fst entries = map member_path files"
    by (induction rule: list_all2_induct) (auto dest: manifest_pin_path)
  with d pinned pins_distinct [of "[]" entries] have same: "pinned = entries" by simp
  from listed obtain i where i: "i < length files" "files ! i = file" by (auto simp: in_set_conv_nth)
  have pin: "manifest_pin file = Inr (entries ! i)" using list_all2_nthD [OF both i(1)] i(2) by simp
  moreover have "entries ! i \<in> set pinned" using list_all2_lengthD [OF both] i(1) same by simp
  ultimately obtain e where "e \<in> set pinned" and pin: "manifest_pin file = Inr e" by blast
  moreover from this agrees have "pin_agrees closure e" by blast
  ultimately obtain f where "f \<in> set closure" "e = (JStr (staged_name f), JStr (cfSha f), JNum (num_of_int (int (cfSize f))))"
    by (auto simp: pin_agrees_def split: prod.splits option.splits dest: staged_file_Some)
  with pin show ?thesis by (auto simp: manifest_pin_def pin_value_def)
qed

lemma assertPinned_covers:
  assumes "assertPinned c closure = Inr pinned" and "read_json c (buildManifest c) = Inr manifest"
    and "listed_files manifest ''vendored'' = Inr []"
  shows "closure = []"
proof -
  from assms have "vendored_pins manifest = Inr pinned" and names: "\<forall>f \<in> set closure. JStr (staged_name f) \<in> fst ` set pinned"
    by (auto simp: assertPinned_def Let_def none_left filter_empty_conv)
  with assms(3) have "pinned = []" by (auto simp: vendored_pins_def listed_files_def)
  with names show ?thesis by auto
qed

section \<open>The pins of the overlay\<close>

definition safe_path :: "jsstr \<Rightarrow> bool" where
  "safe_path p \<longleftrightarrow> list_all kept_segment (segments p)"

lemma overlayPathProblem_None: "overlayPathProblem v = None \<Longrightarrow> \<exists>p. v = JStr p \<and> safe_path p"
  by (cases v) (auto simp: overlayPathProblem_def safe_path_def kept_segment_def list_all_iff list_ex_iff split: if_split_asm)

lemma sha_case: "(case v of JStr s \<Rightarrow> sha_digest s | _ \<Rightarrow> False) \<longleftrightarrow> (\<exists>s. v = JStr s \<and> sha_digest s)"
  by (cases v) simp_all

lemma size_case:
  "(case v of JNum x \<Rightarrow> is_integer x \<and> int_of_num x > 0 | _ \<Rightarrow> False) \<longleftrightarrow> (\<exists>i > 0. v = JNum (num_of_int i))"
proof (cases v)
  case (JNum x)
  have "x = num_of_int (int_of_num x)" if "is_integer x"
    using that integer_value_eq_Some_iff [of x "int_of_num x"] by (simp add: integer_value_def)
  then show ?thesis by (force simp: JNum)
qed simp_all

lemma pin_of_Inr:
  assumes "pin_of seen file = Inr p"
  shows "pin_value file (pnPath p) (pnSha p) (pnSize p) \<and> safe_path (pnPath p) \<and> pnPath p \<notin> set seen"
proof -
  from assms obtain path where path: "property_of file ''path'' = Inr path" by (auto simp: pin_of_def)
  with assms have "overlayPathProblem path = None" by (auto simp: pin_of_def split: option.splits)
  then obtain q where q: "path = JStr q" "safe_path q" using overlayPathProblem_None by blast
  with assms path \<open>overlayPathProblem path = None\<close> show ?thesis
    by (auto simp: pin_of_def Let_def pin_value_def List.member_iff sha_case size_case)
qed

lemma pins_of_Inr:
  "pins_of seen files = Inr pins \<Longrightarrow>
     list_all2 (\<lambda>file p. pin_value file (pnPath p) (pnSha p) (pnSize p)) files pins
     \<and> list_all (\<lambda>p. safe_path (pnPath p)) pins
     \<and> distinct (map pnPath pins) \<and> set (map pnPath pins) \<inter> set seen = {}"
proof (induction seen files arbitrary: pins rule: pins_of.induct)
  case (2 seen entry files)
  then obtain p ps where p: "pin_of seen entry = Inr p" and ps: "pins_of (pnPath p # seen) files = Inr ps"
    and pins: "pins = p # ps"
    by auto
  from "2.IH" [OF ps] pin_of_Inr [OF p] show ?case by (auto simp: pins)
qed simp

lemma join_segments: "join [47] (segments p) = p"
proof (induction p)
  case (Cons x p)
  obtain w ws where "segments p = w # ws"
    using split_by_not_Nil [of is_sep p] by (cases "segments p") (auto simp: segments_def)
  with Cons show ?case by (cases ws) (auto simp: segments_def is_sep_def)
qed (simp add: segments_def)

definition overlay_key :: "pin \<Rightarrow> jsstr list" where
  "overlay_key p = js ''dist'' # js ''overlay'' # segments (pnPath p)"

lemma overlay_key_inj: "overlay_key p = overlay_key q \<Longrightarrow> pnPath p = pnPath q"
  by (drule arg_cong [of _ _ "\<lambda>k. join [47] (drop 2 k)"]) (simp add: overlay_key_def join_segments)

lemma normal_kept: "list_all kept_segment ss \<Longrightarrow> normal_segments rooted acc ss = rev acc @ ss"
  by (induction rooted acc ss rule: normal_segments.induct) (auto simp: kept_segment_def)

lemma overlay_target_key:
  assumes "safe_path (pnPath p)"
  shows "staged_key (overlay_target p) = overlay_key p"
proof -
  have "overlay_target p = js ''dist'' @ 47 # js ''overlay'' @ 47 # pnPath p"
    by (simp add: overlay_target_def stagedOverlayDir_def js_def)
  moreover have "segments (js ''dist'') = [js ''dist'']" "segments (js ''overlay'') = [js ''overlay'']"
    by code_simp+
  ultimately have "segments (overlay_target p) = overlay_key p"
    by (simp add: overlay_key_def segments_slash)
  moreover have "kept_segment (js ''dist'')" "kept_segment (js ''overlay'')" by code_simp+
  then have "list_all kept_segment (overlay_key p)" using assms by (simp add: overlay_key_def safe_path_def)
  ultimately show ?thesis by (simp only: staged_key_def normal_kept) simp
qed

text \<open>A staged file with the size and the digest of its pin.\<close>

definition pinned_copy :: "checkout \<Rightarrow> staged \<Rightarrow> pin \<Rightarrow> bool" where
  "pinned_copy c st p \<longleftrightarrow>
     (\<exists>b. map_of st (overlay_key p) = Some b \<and> coDigest c b = pnSha p \<and> int (length b) = pnSize p)"

lemma copy_overlay_sound:
  assumes "copy_overlay c dir ps st = Inr st'" and "list_all (\<lambda>p. safe_path (pnPath p)) ps" and "distinct (map pnPath ps)"
  shows "list_all (pinned_copy c st') ps \<and> (\<forall>k. k \<notin> overlay_key ` set ps \<longrightarrow> map_of st' k = map_of st k)"
  using assms
proof (induction ps arbitrary: st)
  case (Cons p ps)
  then obtain b st1 where w: "write_file (segments (overlay_target p)) b st = Inr st1"
    and b: "int (length b) = pnSize p" "coDigest c b = pnSha p" and r: "copy_overlay c dir ps st1 = Inr st'"
    by (auto simp: copy_checked_Inr)
  have m: "map_of st1 = (map_of st)(overlay_key p \<mapsto> b)"
    using write_file_map [OF w] overlay_target_key [of p] Cons.prems(2) by (simp add: staged_key_def)
  from Cons.IH [OF r] Cons.prems have ih: "list_all (pinned_copy c st') ps"
      "\<forall>k. k \<notin> overlay_key ` set ps \<longrightarrow> map_of st' k = map_of st1 k"
    by simp_all
  have "overlay_key p \<notin> overlay_key ` set ps"
    using Cons.prems(3) by (auto dest!: overlay_key_inj)
  with ih(2) m have "map_of st' (overlay_key p) = Some b" by simp
  with b have "pinned_copy c st' p" by (simp add: pinned_copy_def)
  with ih m show ?case by auto
qed simp

section \<open>A staged bundle verifies\<close>

text \<open>The extension directory holds the staged files.\<close>

definition installed :: "checkout \<Rightarrow> jsstr list \<Rightarrow> staged \<Rightarrow> bool" where
  "installed c dir st \<longleftrightarrow> (\<forall>p b. map_of st p = Some b \<longrightarrow> file_at c (joined_path (packagedWebview dir) p) = Some b)"

text \<open>A vendored path is not the build manifest and not in the directory of the overlay.\<close>

definition overlay_names :: "jsstr list" where
  "overlay_names = [js ''dist'', js ''overlay'']"

definition apart :: "jsval \<Rightarrow> bool" where
  "apart file = (case member_path file of
       JStr p \<Rightarrow> staged_key p \<noteq> manifest_target \<and> take 2 (staged_key p) \<noteq> overlay_names
     | _ \<Rightarrow> True)"

lemma pinned_none:
  assumes "pin_value file p sha n" and "file_at c (joined_path base (segments p)) = Some b"
    and "coDigest c b = sha" and "int (length b) = n"
  shows "pinned_problem c base missing diverges file = Inr None"
  using assms by (simp add: pinned_problem_def pin_value_def exists_at_def file_at_def read_bytes_Inr Let_def
      split: option.splits)

lemma all_checked:
  "\<forall>file \<in> set files. f file = Inr None \<Longrightarrow> check_all i (\<lambda>i. f) files = Inr (replicate (length files) None)"
  by (induction files arbitrary: i) simp_all

lemma checks_pass:
  assumes "files \<noteq> []"
  shows "failures (replicate (length files) None) = []" "verified_count (replicate (length files) None) = length files"
  by (simp_all add: failures_def verified_count_def List.map_filter_def)

definition holds_pin :: "checkout \<Rightarrow> jsstr list \<Rightarrow> jsval \<Rightarrow> bool" where
  "holds_pin c base file \<longleftrightarrow>
     (\<exists>p b. pin_value file p (coDigest c b) (int (length b)) \<and> file_at c (joined_path base (segments p)) = Some b)"

lemma files_pass:
  assumes "\<forall>file \<in> set files. holds_pin c base file"
  shows "check_all 0 (\<lambda>i. pinned_problem c base missing diverges) files = Inr (replicate (length files) None)"
  using assms pinned_none by (intro all_checked) (auto simp: holds_pin_def)

lemma vendored_pass:
  "files \<noteq> [] \<Longrightarrow> \<forall>file \<in> set files. holds_pin c (packagedWebview dir) file
     \<Longrightarrow> \<exists>checks. vendored_checks c dir files = Inr checks \<and> list_all fst checks"
  by (simp add: vendored_checks_def files_pass checks_pass)

lemma overlay_pass:
  "files \<noteq> [] \<Longrightarrow> \<forall>file \<in> set files. holds_pin c (overlayRoot dir) file
     \<Longrightarrow> \<exists>checks. overlay_checks c dir files = Inr checks \<and> list_all fst checks"
  by (simp add: overlay_checks_def files_pass checks_pass)

text \<open>What the staging read and wrote.\<close>

lemma stageBundle_Inr:
  assumes "stageBundle c = Inr (st, stats)"
  obtains closure pinned st1 manifest pins st2 v
    where "buildClosure c (sourceDist c) = Inr closure" "assertPinned c closure = Inr pinned"
      "copy_closure c pinned closure [] = Inr st1" "loadOverlayManifest c (overlayDir c) = Inr (manifest, pins)"
      "copy_overlay c (overlayDir c) pins st1 = Inr st2" "write_file manifest_target (manifest_bytes v) st2 = Inr st"
  using assms by (auto simp: stageBundle_def applyOverlay_def)

lemma loadOverlayManifest_Inr:
  assumes "loadOverlayManifest c dir = Inr (manifest, pins)"
  shows "\<exists>files. read_json c (dir @ [overlay_manifest_name]) = Inr manifest \<and> listed_files manifest ''files'' = Inr files
     \<and> files \<noteq> [] \<and> pins_of [] files = Inr pins"
proof -
  from assms obtain v where "property_of manifest ''files'' = Inr v"
    and "case v of JArr vs \<Rightarrow> vs \<noteq> [] | _ \<Rightarrow> False" and "pins_of [] (case v of JArr vs \<Rightarrow> vs | _ \<Rightarrow> []) = Inr pins"
    and "read_json c (dir @ [overlay_manifest_name]) = Inr manifest"
    by (auto simp: loadOverlayManifest_def Let_def)
  then show ?thesis by (cases v) (simp_all add: listed_files_def items_or_none_def nullish_def)
qed

lemma manifest_key: "normal_segments False [] manifest_target = manifest_target"
  by code_simp

lemma manifest_apart: "overlay_key p \<noteq> manifest_target"
proof -
  have "js ''overlay'' \<noteq> js ''build-manifest.json''" by (simp add: js_def)
  then show ?thesis by (simp add: overlay_key_def manifest_target_def)
qed

lemma vendored_held:
  assumes closure: "buildClosure c (sourceDist c) = Inr closure" and f: "f \<in> set closure"
    and pin: "pin_value file (staged_name f) (cfSha f) (int (cfSize f))"
    and st1: "copy_closure c pinned closure [] = Inr st1"
    and same: "map_of st (staged_key (staged_name f)) = map_of st1 (staged_key (staged_name f))"
    and inst: "installed c dir st"
  shows "holds_pin c (packagedWebview dir) file"
proof -
  let ?key = "staged_key (staged_name f)"
  have "list_all (in_place c) closure" using closure_sound [OF closure] by (simp add: list_all_iff)
  then have st1_sound: "mirrors c st1" "map_of st1 ?key \<noteq> None"
    using copy_closure_mirrors [OF st1] f by (simp_all add: mirrors_def)
  then obtain b where b: "map_of st1 ?key = Some b" by auto
  then have "file_at c (joined_path (webviewRoot c) ?key) = Some b" using st1_sound(1) by (simp add: mirrors_def)
  moreover have "cfAbs f = joined_path (webviewRoot c) ?key" "measured c f"
    using closure_sound [OF closure] f by (simp_all add: in_place_def staged_key_def located_normal)
  ultimately have "cfSize f = length b" "cfSha f = coDigest c b" by (auto simp: measured_def)
  moreover have "file_at c (joined_path (packagedWebview dir) (segments (staged_name f))) = Some b"
    using inst b same by (auto simp: installed_def staged_key_def located_normal dest!: spec [of _ ?key])
  ultimately show ?thesis using pin by (auto simp: holds_pin_def)
qed

lemma overlay_held:
  assumes p: "pinned_copy c st p" and pin: "pin_value file (pnPath p) (pnSha p) (pnSize p)" and inst: "installed c dir st"
  shows "holds_pin c (overlayRoot dir) file"
proof -
  from p obtain b where b: "map_of st (overlay_key p) = Some b" "coDigest c b = pnSha p" "int (length b) = pnSize p"
    by (auto simp: pinned_copy_def)
  with inst have "file_at c (joined_path (packagedWebview dir) (overlay_key p)) = Some b" by (simp add: installed_def)
  moreover have "joined_path (packagedWebview dir) (overlay_key p) = joined_path (overlayRoot dir) (segments (pnPath p))"
    by (simp add: joined_path_def overlayRoot_def overlay_key_def)
  moreover have "pin_value file (pnPath p) (coDigest c b) (int (length b))" using pin b(2,3) by simp
  ultimately show ?thesis unfolding holds_pin_def by (metis (no_types))
qed

lemma overlay_all_held:
  "list_all2 (\<lambda>file p. pin_value file (pnPath p) (pnSha p) (pnSize p)) files ps \<Longrightarrow> list_all (pinned_copy c st) ps
     \<Longrightarrow> installed c dir st \<Longrightarrow> \<forall>file \<in> set files. holds_pin c (overlayRoot dir) file"
  by (induction rule: list_all2_induct) (auto intro: overlay_held)

lemma staged_lookup:
  assumes st2: "copy_overlay c dir ops st1 = Inr st2" and ops: "pins_of [] ofiles = Inr ops"
    and st: "write_file manifest_target bytes st2 = Inr st"
  shows "list_all (pinned_copy c st) ops"
    and "k \<noteq> manifest_target \<Longrightarrow> take 2 k \<noteq> overlay_names \<Longrightarrow> map_of st k = map_of st1 k"
proof -
  note sound = copy_overlay_sound [OF st2]
  have m: "map_of st = (map_of st2)(manifest_target \<mapsto> bytes)"
    using write_file_map [OF st] by (simp add: manifest_key)
  show "list_all (pinned_copy c st) ops"
    using sound pins_of_Inr [OF ops] manifest_apart by (auto simp: m pinned_copy_def list_all_iff)
  have "take 2 (overlay_key p) = overlay_names" for p by (simp add: overlay_key_def overlay_names_def)
  then show "map_of st k = map_of st1 k" if "k \<noteq> manifest_target" "take 2 k \<noteq> overlay_names"
  proof -
    have "k \<notin> overlay_key ` set ops" using that(2) \<open>\<And>p. take 2 (overlay_key p) = overlay_names\<close> by auto
    then show ?thesis using that(1) sound pins_of_Inr [OF ops] by (simp add: m)
  qed
qed

text \<open>
  C13.  What is staged verifies.  When \<open>stageBundle\<close> returns and its files are installed in the extension
  directory, the packaged verification finds every pinned file of the closure and of the overlay
  there, with its pinned size and digest: every check of \<open>vendored_checks\<close> and of
  \<open>overlay_checks\<close> passes.  The pinned list names each path once, and no path of the overlay or of the
  build manifest.  The checks of the merged manifest (\<open>merged_checks\<close>), which read back the
  build manifest that the staging wrote, are not part of the statement.
\<close>

theorem staged_bundle_verifies:
  assumes staged: "stageBundle c = Inr (st, stats)" and inst: "installed c dir st"
    and manifest: "read_json c (buildManifest c) = Inr manifest" "listed_files manifest ''vendored'' = Inr files"
    and pins: "distinct (map member_path files)" "list_all apart files"
  shows "\<exists>om ofiles vendored overlay.
      read_json c (overlayDir c @ [overlay_manifest_name]) = Inr om \<and> listed_files om ''files'' = Inr ofiles
    \<and> vendored_checks c dir files = Inr vendored \<and> overlay_checks c dir ofiles = Inr overlay
    \<and> exit_code (vendored @ overlay) = 0"
proof -
  from staged obtain closure pinned st1 om ops st2 v
    where closure: "buildClosure c (sourceDist c) = Inr closure" and pinned: "assertPinned c closure = Inr pinned"
      and st1: "copy_closure c pinned closure [] = Inr st1" and om: "loadOverlayManifest c (overlayDir c) = Inr (om, ops)"
      and st2: "copy_overlay c (overlayDir c) ops st1 = Inr st2" and st: "write_file manifest_target (manifest_bytes v) st2 = Inr st"
    by (rule stageBundle_Inr)
  obtain ofiles where ofiles: "read_json c (overlayDir c @ [overlay_manifest_name]) = Inr om"
      "listed_files om ''files'' = Inr ofiles" "ofiles \<noteq> []" "pins_of [] ofiles = Inr ops"
    using loadOverlayManifest_Inr [OF om] by blast
  note overlay = staged_lookup [OF st2 ofiles(4) st]
  have "holds_pin c (packagedWebview dir) entry" if listed: "entry \<in> set files" for entry
  proof -
    obtain f where f: "f \<in> set closure" "pin_value entry (staged_name f) (cfSha f) (int (cfSize f))"
      using assertPinned_sound [OF pinned manifest pins(1) listed] by blast
    have "apart entry" using pins(2) listed by (simp add: list_all_iff)
    with f(2) show ?thesis
      by (intro vendored_held [OF closure f st1 _ inst] overlay(2)) (simp_all add: apart_def member_path_def pin_value_def)
  qed
  moreover have "files \<noteq> []"
    using assertPinned_covers [OF pinned manifest(1)] manifest(2) closure_sound [OF closure] by auto
  ultimately have "\<exists>checks. vendored_checks c dir files = Inr checks \<and> list_all fst checks"
    using vendored_pass by blast
  moreover have "\<forall>file \<in> set ofiles. holds_pin c (overlayRoot dir) file"
    using overlay(1) pins_of_Inr [OF ofiles(4)] inst overlay_all_held by blast
  then have "\<exists>checks. overlay_checks c dir ofiles = Inr checks \<and> list_all fst checks"
    using overlay_pass ofiles(3) by blast
  ultimately show ?thesis
    using ofiles by (auto simp: exit_code_def)
qed

section \<open>A small checkout\<close>

text \<open>The four entry files of one byte each, an overlay of one file, and the extension they are installed in.\<close>

definition plain_bytes :: "string \<Rightarrow> 8 word list" where
  "plain_bytes s = map ucast (js s)"

definition demo_pin :: "string \<Rightarrow> string" where
  "demo_pin name = ''{\"path\":\"dist/'' @ name @ ''\",\"sha256\":\"x\",\"size\":1}''"

definition demo_build :: string where
  "demo_build = ''{\"vendored\":['' @ demo_pin ''webview.js'' @ '','' @ demo_pin ''webview.css'' @ '',''
     @ demo_pin ''shiki-worker.js'' @ '','' @ demo_pin ''markdown-shiki-worker.js'' @ '']}''"

definition demo_overlay :: string where
  "demo_overlay = ''{\"schema\":\"faktor.webview-overlay-manifest/1\",\"target\":\"dist/overlay\",\"files\":[{\"path\":\"p\",\"sha256\":\"''
     @ replicate 64 CHR ''0'' @ ''\",\"size\":2}]}''"

definition demo_digest :: "8 word list \<Rightarrow> jsstr" where
  "demo_digest b = (if length b = 2 then replicate 64 48 else js ''x'')"

definition json_pin :: "string \<Rightarrow> jsstr \<Rightarrow> int \<Rightarrow> jsval" where
  "json_pin path sha n =
     JObj [(js ''path'', JStr (js path)), (js ''sha256'', JStr sha), (js ''size'', JNum (num_of_int n))]"

definition demo_build_json :: jsval where
  "demo_build_json = JObj [(js ''vendored'', JArr (map (\<lambda>name. json_pin (''dist/'' @ name) (js ''x'') 1)
     [''webview.js'', ''webview.css'', ''shiki-worker.js'', ''markdown-shiki-worker.js'']))]"

definition demo_overlay_json :: jsval where
  "demo_overlay_json = JObj [(js ''schema'', JStr (js ''faktor.webview-overlay-manifest/1'')),
     (js ''target'', JStr (js ''dist/overlay'')), (js ''files'', JArr [json_pin ''p'' (replicate 64 48) 2])]"

definition demo_staged_json :: jsval where
  "demo_staged_json = JObj [(js ''vendored'', case demo_build_json of JObj ps \<Rightarrow> jget ps (js ''vendored'') | _ \<Rightarrow> JUndef),
     (js ''faktorOverlay'', JObj [(js ''schema'', JStr (js ''faktor.webview-overlay-manifest/1'')),
        (js ''target'', JStr (js ''dist/overlay'')), (js ''upstream'', JNull),
        (js ''files'', JArr [json_pin ''dist/overlay/p'' (replicate 64 48) 2])])]"

definition dir_of :: "(string \<times> tree) list \<Rightarrow> tree" where
  "dir_of es = Dir (map (\<lambda>(n, t). (js n, t)) es)"

definition demo_entries :: "(string \<times> tree) list" where
  "demo_entries = map (\<lambda>n. (n, File [120])) [''webview.js'', ''webview.css'', ''shiki-worker.js'', ''markdown-shiki-worker.js'']"

definition staging_disk :: tree where
  "staging_disk = dir_of
     [(''r'', dir_of [(''ui'', dir_of [(''kilo-v756-webview'', dir_of [(''dist'', dir_of
         (demo_entries @ [(''build-manifest.json'', File (plain_bytes demo_build)),
            (''toolchain'', dir_of [(''overlay'', dir_of
               [(''overlay-manifest.json'', File (plain_bytes demo_overlay)), (''p'', File [1, 2])])])]))])])]),
      (''e'', dir_of [(''media'', dir_of [(''kilo-v756-webview'', dir_of [(''dist'', dir_of
         (demo_entries @ [(''build-manifest.json'', File (manifest_bytes demo_staged_json)),
            (''overlay'', dir_of [(''p'', File [1, 2])])]))])])])]"

definition demo_checkout :: checkout where
  "demo_checkout = \<lparr>coDisk = staging_disk, coRoot = [js ''r''], coDigest = demo_digest, coDecode = map ucast\<rparr>"

lemma demo_build_read: "read_json demo_checkout (buildManifest demo_checkout) = Inr demo_build_json"
proof -
  have "read_file demo_checkout (buildManifest demo_checkout) = Inr (plain_bytes demo_build)"
    by (simp add: read_file_def file_at_def stat_at_def buildManifest_def sourceDist_def demo_checkout_def staging_disk_def dir_of_def demo_entries_def)
  moreover have "json_parse (map ucast (plain_bytes demo_build)) = Some demo_build_json" by code_simp
  ultimately show ?thesis by (simp add: read_json_def demo_checkout_def)
qed

lemma demo_overlay_read:
  "read_json demo_checkout (overlayDir demo_checkout @ [overlay_manifest_name]) = Inr demo_overlay_json"
proof -
  have "read_file demo_checkout (overlayDir demo_checkout @ [overlay_manifest_name]) = Inr (plain_bytes demo_overlay)"
    by (simp add: read_file_def file_at_def stat_at_def overlayDir_def overlay_manifest_name_def sourceDist_def demo_checkout_def staging_disk_def dir_of_def demo_entries_def)
  moreover have "json_parse (map ucast (plain_bytes demo_overlay)) = Some demo_overlay_json" by code_simp
  ultimately show ?thesis by (simp add: read_json_def demo_checkout_def)
qed

lemma kept_js: "kept_segment (js s) \<longleftrightarrow> s \<noteq> [] \<and> s \<noteq> ''.'' \<and> s \<noteq> ''..''"
proof -
  have "[46] = js ''.''" by (simp add: js_def)
  then show ?thesis by (simp add: kept_segment_def dot_dot_def)
qed

lemma located_kept: "list_all kept_segment (dir @ ss) \<Longrightarrow> joined_path dir ss = dir @ ss"
  by (simp only: joined_path_def normal_kept) simp

lemmas demo_defs = stat_at_def sourceDist_def overlayDir_def demo_checkout_def staging_disk_def dir_of_def demo_entries_def

definition demo_file :: "string \<Rightarrow> closure_file" where
  "demo_file name = \<lparr>cfPath = js name, cfAbs = sourceDist demo_checkout @ [js name], cfSize = 1, cfSha = js ''x''\<rparr>"

definition demo_names :: "string list" where
  "demo_names = [''webview.js'', ''webview.css'', ''shiki-worker.js'', ''markdown-shiki-worker.js'']"

lemma demo_stat:
  "name \<in> set demo_names \<Longrightarrow> stat_at demo_checkout (sourceDist demo_checkout @ [js name]) = Some (File [120])"
  "stat_at demo_checkout (sourceDist demo_checkout @ [js ''index.html'']) = None"
  "stat_at demo_checkout (sourceDist demo_checkout @ [js ''assets'', js ''icons'']) = None"
  by (auto simp: demo_defs demo_names_def)

lemma demo_paths:
  "list_all (\<lambda>s. s \<noteq> [] \<and> s \<noteq> ''.'' \<and> s \<noteq> ''..'') ss
     \<Longrightarrow> joined_path (sourceDist demo_checkout) (map js ss) = sourceDist demo_checkout @ map js ss"
  by (rule located_kept) (auto simp: list_all_iff kept_js sourceDist_def demo_checkout_def)

lemma demo_located1:
  "name \<notin> {[], ''.'', ''..''} \<Longrightarrow> joined_path (sourceDist demo_checkout) [js name] = sourceDist demo_checkout @ [js name]"
  using demo_paths [of "[name]"] by simp

definition demo_closure :: "closure_file list" where
  "demo_closure = map demo_file [''markdown-shiki-worker.js'', ''shiki-worker.js'', ''webview.css'', ''webview.js'']"

lemma demo_measured:
  assumes "name \<in> set demo_names"
  shows "closure_file_at demo_checkout (js name, sourceDist demo_checkout @ [js name]) = Inr (demo_file name)"
proof -
  have "coDigest demo_checkout [120] = js ''x''" by (simp add: demo_checkout_def demo_digest_def)
  with demo_stat(1) [OF assms] show ?thesis
    by (simp add: closure_file_at_def read_file_def file_at_def demo_file_def)
qed

lemma demo_sorted: "sort_key cfPath (map demo_file demo_names) = demo_closure"
proof -
  have "\<not> js ''shiki-worker.js'' \<le> js ''markdown-shiki-worker.js''" "\<not> js ''webview.css'' \<le> js ''markdown-shiki-worker.js''"
    "\<not> js ''webview.css'' \<le> js ''shiki-worker.js''" "\<not> js ''webview.js'' \<le> js ''markdown-shiki-worker.js''"
    "\<not> js ''webview.js'' \<le> js ''shiki-worker.js''" "\<not> js ''webview.js'' \<le> js ''webview.css''"
    by code_simp+
  then show ?thesis by (simp add: demo_closure_def demo_names_def demo_file_def sort_key_def)
qed

lemma demo_build: "buildClosure demo_checkout (sourceDist demo_checkout) = Inr demo_closure"
proof -
  have css: "cssAssetRefs (coDecode demo_checkout [120]) = []"
  proof -
    have "cssAssetRefs (map ucast [120 :: 8 word]) = []" by code_simp
    then show ?thesis by (simp add: demo_checkout_def)
  qed
  have names: "ENTRY_FILES = map js [''webview.js'', ''webview.css'', ''shiki-worker.js'', ''markdown-shiki-worker.js'']"
    "OPTIONAL_ENTRY_FILES = [js ''index.html'']"
    by (simp_all add: ENTRY_FILES_def OPTIONAL_ENTRY_FILES_def)
  have icons: "icon_entries demo_checkout (joined_path (sourceDist demo_checkout) [js ''assets'', js ''icons'']) = Inr []"
    using demo_paths [of "[''assets'', ''icons'']"] demo_stat(3) by (simp add: icon_entries_def)
  show ?thesis
    using demo_sorted
    by (simp add: buildClosure_def names exists_at_def demo_located1 demo_stat read_file_def file_at_def css icons demo_measured
        check_that_def Let_def demo_names_def)
qed


definition demo_pins :: pinned where
  "demo_pins = map (\<lambda>name. (JStr (js (''dist/'' @ name)), JStr (js ''x''), JNum (num_of_int 1))) demo_names"

lemma demo_pinned: "assertPinned demo_checkout demo_closure = Inr demo_pins"
proof -
  have pins: "vendored_pins demo_build_json = Inr demo_pins" by code_simp
  have "\<forall>e \<in> set demo_pins. pin_agrees demo_closure e"
    by (simp add: demo_pins_def demo_names_def demo_closure_def demo_file_def pin_agrees_def staged_file_def
        staged_name_def js_append [symmetric])
  moreover have "\<forall>k \<in> set (map fst demo_pins). staged_file demo_closure k \<noteq> None"
    using calculation by (force simp: pin_agrees_def split: option.splits)
  moreover have "\<forall>f \<in> set demo_closure. JStr (staged_name f) \<in> set (map fst demo_pins)"
    by (simp add: demo_pins_def demo_names_def demo_closure_def demo_file_def staged_name_def js_append [symmetric])
  ultimately show ?thesis
    by (auto simp: assertPinned_def demo_build_read pins check_that_def none_left filter_empty_conv Let_def)
qed

definition demo_copied :: staged where
  "demo_copied = map (\<lambda>name. ([js ''dist'', js name], [120])) demo_names"


lemma demo_segments:
  "name \<in> set demo_names \<Longrightarrow> segments (js name) = [js name]"
  "segments (js ''p'') = [js ''p'']" "segments (js ''dist/overlay/p'') = [js ''dist'', js ''overlay'', js ''p'']"
proof -
  have "list_all (\<lambda>name. segments (js name) = [js name]) demo_names" by code_simp
  then show "name \<in> set demo_names \<Longrightarrow> segments (js name) = [js name]" by (simp add: list_all_iff)
qed (code_simp+)

lemma demo_staged_key: "name \<in> set demo_names \<Longrightarrow> normal_segments False [] (segments (js ''dist/'' @ js name)) = [js ''dist'', js name]"
proof -
  assume name: "name \<in> set demo_names"
  then have "list_all kept_segment [js ''dist'', js name]" by (auto simp: kept_js demo_names_def)
  from normal_kept [OF this] show ?thesis by (simp only: segments_staged demo_segments(1) [OF name]) simp
qed

lemma demo_copy: "copy_closure demo_checkout demo_pins demo_closure [] = Inr demo_copied"
proof -
  have "coDigest demo_checkout [120] = js ''x''" by (simp add: demo_checkout_def demo_digest_def)
  moreover have "pin_get demo_pins (js ''dist/'' @ js name) = (JStr (js ''x''), JNum (num_of_int 1))"
    if "name \<in> set demo_names" for name
    using that by (auto simp: pin_get_def demo_pins_def demo_names_def js_append [symmetric])
  moreover have "file_at demo_checkout (sourceDist demo_checkout @ [js name]) = Some [120]" if "name \<in> set demo_names" for name
    using demo_stat(1) [OF that] by (simp add: file_at_def)
  ultimately show ?thesis
    by (simp add: demo_closure_def demo_file_def copy_checked_def read_file_def staged_name_def write_file_def demo_staged_key
        demo_copied_def path_below_def check_that_def Let_def demo_names_def)
qed

definition demo_overlay_pin :: pin where
  "demo_overlay_pin = \<lparr>pnPath = js ''p'', pnSha = replicate 64 48, pnSize = 2\<rparr>"

lemma demo_load:
  "loadOverlayManifest demo_checkout (overlayDir demo_checkout) = Inr (demo_overlay_json, [demo_overlay_pin])"
proof -
  have "exists_at demo_checkout (overlayDir demo_checkout @ [overlay_manifest_name])"
    by (simp add: exists_at_def demo_defs overlay_manifest_name_def)
  moreover have "pins_of [] [json_pin ''p'' (replicate 64 48) 2] = Inr [demo_overlay_pin]" by code_simp
  ultimately show ?thesis
    by (simp add: loadOverlayManifest_def demo_overlay_read check_that_def property_of_def demo_overlay_json_def nullish_def
        jget_def stagedOverlayDir_def Let_def)
qed

lemma demo_overlay_file:
  "stat_at demo_checkout (joined_path (overlayDir demo_checkout) [js ''p'']) = Some (File [1, 2])"
proof -
  have "joined_path (overlayDir demo_checkout) [js ''p''] = overlayDir demo_checkout @ [js ''p'']"
    by (rule located_kept) (simp add: kept_js overlayDir_def sourceDist_def demo_checkout_def)
  then show ?thesis by (simp add: demo_defs)
qed

lemma demo_overlay_digest: "coDigest demo_checkout [1, 2] = replicate 64 48"
  by (simp add: demo_checkout_def demo_digest_def)

lemma demo_verified: "\<exists>report. assert_overlay demo_checkout = Inr report"
proof -
  have "pin_error demo_checkout (overlayDir demo_checkout) demo_overlay_pin = None"
    by (simp add: pin_error_def demo_overlay_pin_def demo_segments demo_overlay_file demo_overlay_digest)
  moreover have "walkFiles [] (directory_entries demo_checkout (overlayDir demo_checkout))
      = [(overlay_manifest_name, Some (plain_bytes demo_overlay)), (js ''p'', Some [1, 2])]"
    by (simp add: directory_entries_def demo_defs overlay_manifest_name_def Let_def)
  ultimately show ?thesis
    by (simp add: assert_overlay_def verifyOverlay_def demo_load List.map_filter_def entry_error_def demo_overlay_pin_def Let_def)
qed

definition demo_staged :: staged where
  "demo_staged = (manifest_target, manifest_bytes demo_staged_json)
     # ([js ''dist'', js ''overlay'', js ''p''], [1, 2]) # demo_copied"

lemma demo_applied:
  "applyOverlay demo_checkout (overlayDir demo_checkout) demo_copied = Inr (demo_staged, [demo_overlay_pin])"
proof -
  have target: "overlay_target demo_overlay_pin = js ''dist/overlay/p''"
    by (simp add: overlay_target_def demo_overlay_pin_def stagedOverlayDir_def js_def)
  have "file_at demo_checkout (joined_path (overlayDir demo_checkout) [js ''p'']) = Some [1, 2]"
    using demo_overlay_file by (simp add: file_at_def)
  moreover have "write_file [js ''dist'', js ''overlay'', js ''p''] [1, 2] demo_copied
      = Inr (([js ''dist'', js ''overlay'', js ''p''], [1, 2]) # demo_copied)"
  proof -
    have "list_all kept_segment [js ''dist'', js ''overlay'', js ''p'']" by (simp add: kept_js)
    from normal_kept [OF this, of False "[]"] show ?thesis
      by (simp add: write_file_def demo_copied_def demo_names_def path_below_def del: normal_segments.simps)
  qed
  ultimately have "copy_overlay demo_checkout (overlayDir demo_checkout) [demo_overlay_pin] demo_copied
      = Inr (([js ''dist'', js ''overlay'', js ''p''], [1, 2]) # demo_copied)"
    using demo_overlay_digest
    by (simp add: target demo_segments copy_checked_Inr) (simp add: demo_overlay_pin_def demo_segments)
  moreover have "staged_manifest demo_build_json demo_overlay_json [demo_overlay_pin] = Inr demo_staged_json" by code_simp
  moreover have "write_file manifest_target (manifest_bytes demo_staged_json)
      (([js ''dist'', js ''overlay'', js ''p''], [1, 2]) # demo_copied) = Inr demo_staged"
    by (simp add: write_file_def manifest_key demo_staged_def) 
      (simp add: manifest_target_def demo_copied_def demo_names_def path_below_def)
  ultimately show ?thesis
    by (simp add: applyOverlay_def demo_load demo_build_read)
qed

lemma demo_stage: "\<exists>stats. stageBundle demo_checkout = Inr (demo_staged, stats)"
  using demo_verified by (auto simp: stageBundle_def demo_build demo_pinned demo_copy demo_applied)

lemma demo_installed: "installed demo_checkout [js ''e''] demo_staged"
proof -
  have "file_at demo_checkout (joined_path (packagedWebview [js ''e'']) p) = Some b" if "(p, b) \<in> set demo_staged" for p b
  proof -
    have "joined_path (packagedWebview [js ''e'']) p = packagedWebview [js ''e''] @ p"
      using that by (intro located_kept) (auto simp: packagedWebview_def demo_staged_def demo_copied_def manifest_target_def demo_names_def kept_js)
    with that show ?thesis
      by (auto simp: file_at_def demo_defs packagedWebview_def demo_staged_def demo_copied_def demo_names_def manifest_target_def)
  qed
  then show ?thesis by (auto simp: installed_def dest: map_of_SomeD)
qed

theorem staged_bundle_verifies_witness:
  "\<exists>om ofiles vendored overlay.
      read_json demo_checkout (overlayDir demo_checkout @ [overlay_manifest_name]) = Inr om
    \<and> listed_files om ''files'' = Inr ofiles
    \<and> vendored_checks demo_checkout [js ''e''] (map (\<lambda>name. json_pin (''dist/'' @ name) (js ''x'') 1) demo_names)
        = Inr vendored
    \<and> overlay_checks demo_checkout [js ''e''] ofiles = Inr overlay
    \<and> exit_code (vendored @ overlay) = 0"
proof -
  obtain stats where staged: "stageBundle demo_checkout = Inr (demo_staged, stats)" using demo_stage by blast
  let ?files = "map (\<lambda>name. json_pin (''dist/'' @ name) (js ''x'') 1) demo_names"
  have files: "listed_files demo_build_json ''vendored'' = Inr ?files"
    by (simp add: listed_files_def property_of_def items_or_none_def demo_build_json_def nullish_def jget_def demo_names_def)
  have path: "member_path (json_pin p sha n) = JStr (js p)" for p sha n
    by (simp add: member_path_def property_of_def json_pin_def nullish_def jget_def)
  have "distinct (map member_path ?files)" by (simp add: path demo_names_def)
  moreover have "apart (json_pin (''dist/'' @ name) (js ''x'') 1)" if "name \<in> set demo_names" for name
    unfolding apart_def path jsval.case staged_key_def js_append demo_staged_key [OF that]
    using that by (auto simp: demo_names_def manifest_target_def overlay_names_def)
  then have "list_all apart ?files" by (simp only: list_all_iff set_map ball_simps) blast
  ultimately show ?thesis
    using staged_bundle_verifies [OF staged demo_installed demo_build_read files] by blast
qed

section \<open>A verified overlay\<close>

text \<open>
  A verified overlay holds exactly the pinned files: every pin is a regular file with its digest and
  size, and every file found below the directory is pinned or the manifest, and no link.
\<close>

lemma map_filter_Nil: "List.map_filter f xs = [] \<longleftrightarrow> (\<forall>x \<in> set xs. f x = None)"
  by (induction xs) (auto simp: List.map_filter_def split: option.split)

lemma verified_overlay_exact:
  assumes "verifyOverlay c dir = Inr report" and "orOk report" and "loadOverlayManifest c dir = Inr (manifest, pins)"
  shows "(\<forall>p \<in> set pins. \<exists>b. stat_at c (joined_path dir (segments (pnPath p))) = Some (File b)
       \<and> coDigest c b = pnSha p \<and> int (length b) = pnSize p)
     \<and> (\<forall>(rel, content) \<in> set (walkFiles [] (directory_entries c dir)).
       content \<noteq> None \<and> (rel \<in> pnPath ` set pins \<or> rel = overlay_manifest_name))"
proof -
  from assms have "\<forall>p \<in> set pins. pin_error c dir p = None"
    and "\<forall>e \<in> set (walkFiles [] (directory_entries c dir)). entry_error pins e = None"
    by (auto simp: verifyOverlay_def map_filter_Nil Let_def)
  then show ?thesis
    by (fastforce simp: pin_error_def entry_error_def split: option.splits tree.splits if_split_asm)
qed

end
