(* ===== verification/Spec2Isabelle.thy ===== *)
theory Spec2Isabelle
  imports Transcript WorkspaceBinding PixelAgents Store Board AgentSummary EventStream TaskStart Composer BridgeHost KiloOutbound NativeAdmission Cockpit Daemon HostSummaries HostRaces HostBindings WebviewGuarantees ChatGuarantees BuiltinPage CompanionGuarantees PackagingGuarantees
begin

text \<open>
  Faktor for VS Code: the logic of the extension, from the webview to the wire of the daemon.

  \<^bold>\<open>The program.\<close>  The extension (\<open>apps/vscode\<close>) is the client of a local daemon.  A user works in a
  webview: the frozen upstream interface with a companion panel beside it
  (\<open>ui/kilo-v756-webview/dist/toolchain/overlay/faktor-companion.js\<close>), or the built-in page
  (\<open>media/chat.js\<close>).  The webview posts messages to the provider (\<open>src/webview.ts\<close>), which has the
  bridge (\<open>src/kilo-bridge.ts\<close>) validate each into a typed command and hands the result to the host
  (\<open>src/extension.ts\<close>).  The host starts the daemon (\<open>src/daemon.ts\<close>), calls it through the native
  client (\<open>src/nativeClient.ts\<close>), follows its journal over server-sent events
  (\<open>src/eventStream.ts\<close>), folds both into one snapshot (\<open>src/state.ts\<close>, \<open>src/cockpit.ts\<close>,
  \<open>src/pixelAgents.ts\<close>), and the provider posts the snapshot back, through the bridge, to the
  webview.  A submission of the user is the policy of \<open>src/taskStart.ts\<close>; which session a workspace
  uses is that of \<open>src/workspaceBinding.ts\<close>.  Before all that, scripts stage the pinned bundle of
  the interface and verify the package.

  \<^bold>\<open>The prelude.\<close>
  \<^item> \<open>JsString\<close>, \<open>JsNumber\<close>, \<open>JsValue\<close>, \<open>Encoding\<close>, \<open>UriCodec\<close>, \<open>NodePath\<close>: the part of JavaScript and of
    \<open>node:path\<close> (POSIX) the sources use.  Strings are UTF-16 units (\<open>16 word list\<close>), so that every
    bound counts what the source counts; numbers are the rationals doubles denote, with the
    infinities and NaN; objects are property lists in JavaScript's order, with \<open>undefined\<close> a value.
    \<open>JSON.parse\<close>, \<open>JSON.stringify\<close>, base64, UTF-8 and the URI codec are written out.
  \<^item> \<open>Checked\<close>: computations that may throw, as sums.  The collections \<open>cap_simps\<close>, \<open>bound_intros\<close>,
    \<open>frame_simps\<close>, \<open>decode_simps\<close> and \<open>located_intros\<close> carry the proofs of the components.
  \<^item> \<open>Interfaces\<close>: the shared contracts as locales, interpreted where a component provides them:
    \<open>keyed_store\<close> (JavaScript's maps and objects), \<open>preserving\<close> (a step with an invariant: the
    reducer, the presence, the bindings, the stream, the startup reader, the admission),
    \<open>journal_cursor\<close> (the event stream).  \<open>NativeFields\<close> adds \<open>reader\<close> and \<open>decoder\<close>, the contract
    of a response validator, with one interpretation per validator of the client.

  \<^bold>\<open>The components.\<close>
  \<^item> \<open>state.ts\<close>: \<open>Transcript\<close> (the reducer of the journal), \<open>Store\<close> (the store and its patch, the runs),
    \<open>Board\<close>, \<open>AgentSummary\<close>, \<open>Summaries\<close>.
  \<^item> \<open>pixelAgents.ts\<close>, \<open>workspaceBinding.ts\<close>, \<open>composer-state.js\<close>: \<open>PixelAgents\<close> (the FNV hash on 32-bit
    words), \<open>WorkspaceBinding\<close>, \<open>Composer\<close>.
  \<^item> \<open>eventStream.ts\<close>: \<open>EventStream\<close>, one record per run loop with the \<open>await\<close> it is suspended at, and a
    log of fetches, sleeps and callbacks.
  \<^item> \<open>taskStart.ts\<close>: \<open>TaskStart\<close>; the client is a function from the calls made so far to an outcome.
  \<^item> \<open>kilo-bridge.ts\<close>: \<open>KiloInbound\<close> (messages to commands), \<open>KiloOutbound\<close> (snapshot and journal to
    messages), \<open>BundleShell\<close> (the page and the discovery of the bundle), and the joint facts in
    \<open>BridgeHost\<close> and \<open>BundleFacts\<close>.
  \<^item> \<open>cockpit.ts\<close>: \<open>Cockpit\<close>.
  \<^item> \<open>nativeClient.ts\<close>: \<open>NativeFields\<close> to \<open>NativeViews\<close> (the validators), \<open>NativeTransport\<close> (the bounded
    body, the settling of a request, the readiness wait), \<open>NativeRequests\<close> (every method's request),
    \<open>NativeClient\<close> (the whole), \<open>NativeAdmission\<close> (the admission of \<open>taskStart.ts\<close> over this client).
  \<^item> \<open>daemon.ts\<close>: \<open>Daemon\<close>, an event machine over child processes.
  \<^item> \<open>extension.ts\<close>: \<open>HostViews\<close> (projections), \<open>HostState\<close>, \<open>HostSession\<close>, \<open>HostRefresh\<close>, \<open>HostActions\<close>: each
    handler is cut at its \<open>await\<close>s, and what it does next is an entry of the list of waiting parts;
    the writes of the bindings and each upload of an admission are parts of their own, and
    \<open>HostGuarantees\<close> shows that an admission nothing interrupts is that of \<open>TaskStart\<close>.
    \<open>Host\<close> is the transition system, an inductive relation with one rule per part and an arbitrary
    outcome for each call, so all interleavings are runs.
  \<^item> \<open>webview.ts\<close>, \<open>chat.js\<close>, \<open>faktor-companion.js\<close>: \<open>WebviewHost\<close> and \<open>BuiltinPage\<close>, \<open>ChatPage\<close>, \<open>Companion\<close>: the
    provider with its log of posts, and the two panels as functions from their state to a tree of
    nodes whose buttons carry the message a click posts.
  \<^item> \<open>prepare-vendored-webview.mjs\<close>, \<open>build-webview.mjs\<close>, \<open>verify-vsix.mjs\<close>: \<open>Staging\<close> (the disk as a
    tree, the closure, the pins, the copies) and \<open>Packaging\<close> (the checks of a package).

  \<^bold>\<open>What the lemmas show.\<close>  Per component: the normal form and the bounds of what it accepts or builds
  (the pending submission, the transcript, the bodies of responses, the attachments), the exact
  acceptance of the validators with the path of each rejection, the agreement of two ways to the
  same state (a conversation streamed and the same one reloaded, deltas and transcript, chunks
  and lines of a startup), and what the machines keep (one live loop of the stream, the winding
  down of an aborted one, no event lost or repeated while each line fits its bound, no daemon
  left behind, no panel of another session).  Across components: a submission reaches the
  admission unchanged, is answered exactly once, and goes back to the page with what it brought
  when it is refused (\<open>WebviewGuarantees\<close>, \<open>HostGuarantees\<close>), only
  validated messages reach the host, every call that changes something is guarded by the state it
  is made in, the snapshot is consistent in every reachable state (\<open>Host\<close>), each panel posts only
  what its messages allow and the bridge accepts it (\<open>ChatGuarantees\<close>, \<open>CompanionGuarantees\<close>), the
  located bundle lies in its directory and no script of the page lacks the nonce (\<open>BundleFacts\<close>),
  and what is staged passes the checks of the pinned files of a package (\<open>PackagingGuarantees\<close>;
  the checks that read the merged manifest back are modelled, not part of that statement).  The lemmas
  about a race or a loss (\<open>HostRaces\<close>, \<open>HostBindings\<close>, the last sections of \<open>Daemon\<close> and
  \<open>CompanionGuarantees\<close>) show what the code does in cases it does not handle.

  \<^bold>\<open>Fuel and loops.\<close>  Loops over data are structural or have a measure.  \<open>JSON.parse\<close> takes a fuel of one
  more than twice the length of the text, and more fuel changes nothing (\<open>parse_value_fuel\<close>);
  \<open>decodeURIComponent\<close> takes the length of the text, of which every step reads one unit
  (\<open>decode_uri_fuel\<close>).  \<open>String(number)\<close> looks for the first digit of a double in at most
  400 steps, and the smallest double has 323 zeros.  The readiness wait is a loop over an arbitrary
  clock, with fuel, and \<open>NativeClient\<close> shows how much fuel is enough for it to return when every
  probe settles, and that a probe which does not holds it up for good.  The retry loop of the stream and
  the handlers of the host do not end by themselves; they are step relations, and a property about
  them is one about every reachable state or every step.

  \<^bold>\<open>Parameters.\<close>  What is not in the repository is an argument: \<open>fetch\<close>, the body stream, \<open>TextDecoder\<close>, the
  \<open>URL\<close> parser, the clock and the timers, the outcome of every call, the operating system's processes,
  SHA-256, the file system, VS Code's prompts, settings and windows.  The inbound bridge takes
  \<open>node:path\<close> as a parameter, since it runs on any system (\<open>posix\<close> instantiates it); the discovery of
  the bundle and the scripts use the POSIX model of \<open>NodePath\<close>.

  \<^bold>\<open>Not modelled.\<close>
  \<^item> The engine, the server and the command line (\<open>crates\<close>) are written in Rust, and the extension
    reaches them over HTTP only; their responses are arbitrary bytes here.
  \<^item> The frozen upstream interface (\<open>ui\<close>, apart from the overlay) is vendored third-party code; what it
    posts is an arbitrary value.
  \<^item> The registration of commands and views in \<open>activate\<close>, the scrolling and the styles of the pages and
    the lines of the console: calls of VS Code and of the browser without a decision in them.
  \<^item> Of the build: running git, bun, esbuild, \<open>unzip\<close> and an installed VS Code, the writing of the
    manifests of a new upstream build, and the load record.
  \<^item> The test programs (\<open>harness\<close>, the selftests) and the scripts that check the repository (\<open>scripts\<close>).
  \<^item> The sign of zero, which no operation of the program tells apart, and the lower case of the
    non-ASCII letters whose image is not ASCII (\<open>JsString\<close>).
\<close>

end
